(* ===== verification/VoyaPrelude.thy ===== *)
theory VoyaPrelude
  imports Main "HOL-Library.Char_ord" "HOL-Library.List_Lexorder" "HOL-Library.Sublist"
    "HOL-Library.Code_Target_Nat"
begin

text \<open>
  Shared vocabulary of the development.

  A Rust \<open>String\<close> or \<open>&str\<close> is modelled by its UTF-8 bytes: a \<open>string\<close> whose
  characters are the bytes. The standard-library string operations the program
  uses (\<open>trim\<close>, \<open>split\<close>, \<open>split_once\<close>, \<open>find\<close>, \<open>replace\<close>, \<open>parse\<close>,
  \<open>to_string\<close>, \<dots>) are modelled here on bytes; \<open>trim\<close> knows the UTF-8 encodings of
  every code point with the Unicode property White\_Space. A \<open>BTreeMap\<close> is an
  association list sorted by key, so that iteration order is the code's; a
  \<open>BTreeSet\<close> that is only tested for membership is a set. A Rust \<open>i32\<close> is an
  \<open>int\<close>; where the code adds to one, \<open>i32_add\<close> writes out the wrap-around of a
  release build.
\<close>

section \<open>Names\<close>

type_synonym i32 = int
type_synonym u16 = nat

named_theorems string_simps "equations of the string operations used by the component proofs"
named_theorems map_simps "equations of the ordered maps used by the component proofs"

section \<open>ASCII characters\<close>

abbreviation byte_of :: "char \<Rightarrow> nat" where
  "byte_of c \<equiv> of_char c"

definition is_ascii_digit :: "char \<Rightarrow> bool" where
  "is_ascii_digit c \<longleftrightarrow> 48 \<le> byte_of c \<and> byte_of c \<le> 57"

definition is_ascii_upper :: "char \<Rightarrow> bool" where
  "is_ascii_upper c \<longleftrightarrow> 65 \<le> byte_of c \<and> byte_of c \<le> 90"

definition is_ascii_lower :: "char \<Rightarrow> bool" where
  "is_ascii_lower c \<longleftrightarrow> 97 \<le> byte_of c \<and> byte_of c \<le> 122"

definition is_ascii_alphabetic :: "char \<Rightarrow> bool" where
  "is_ascii_alphabetic c \<longleftrightarrow> is_ascii_upper c \<or> is_ascii_lower c"

definition is_ascii_alphanumeric :: "char \<Rightarrow> bool" where
  "is_ascii_alphanumeric c \<longleftrightarrow> is_ascii_alphabetic c \<or> is_ascii_digit c"

definition is_ascii_hexdigit :: "char \<Rightarrow> bool" where
  "is_ascii_hexdigit c \<longleftrightarrow> is_ascii_digit c
     \<or> (65 \<le> byte_of c \<and> byte_of c \<le> 70) \<or> (97 \<le> byte_of c \<and> byte_of c \<le> 102)"

definition to_ascii_lower :: "char \<Rightarrow> char" where
  "to_ascii_lower c = (if is_ascii_upper c then char_of (byte_of c + 32) else c)"

definition to_ascii_lowercase :: "string \<Rightarrow> string" where
  "to_ascii_lowercase s = map to_ascii_lower s"

definition eq_ignore_ascii_case :: "string \<Rightarrow> string \<Rightarrow> bool" where
  "eq_ignore_ascii_case a b \<longleftrightarrow> to_ascii_lowercase a = to_ascii_lowercase b"

text \<open>The number of code points of a UTF-8 string: the bytes that do not continue a sequence.\<close>

definition char_count :: "string \<Rightarrow> nat" where
  "char_count s = length (filter (\<lambda>c. \<not> (128 \<le> byte_of c \<and> byte_of c < 192)) s)"

section \<open>Prefixes, substrings and replacement\<close>

fun strip_prefix :: "'a list \<Rightarrow> 'a list \<Rightarrow> 'a list option" where
  "strip_prefix [] s = Some s"
| "strip_prefix (p # ps) [] = None"
| "strip_prefix (p # ps) (c # cs) = (if p = c then strip_prefix ps cs else None)"

definition starts_with :: "'a list \<Rightarrow> 'a list \<Rightarrow> bool" where
  "starts_with s p \<longleftrightarrow> strip_prefix p s \<noteq> None"

definition ends_with :: "'a list \<Rightarrow> 'a list \<Rightarrow> bool" where
  "ends_with s p \<longleftrightarrow> starts_with (rev s) (rev p)"

definition strip_suffix :: "'a list \<Rightarrow> 'a list \<Rightarrow> 'a list option" where
  "strip_suffix p s = map_option rev (strip_prefix (rev p) (rev s))"

lemma strip_prefix_Some [string_simps]: "strip_prefix p s = Some r \<longleftrightarrow> s = p @ r"
  by (induction p s rule: strip_prefix.induct) auto

lemma strip_prefix_append [simp]: "strip_prefix p (p @ r) = Some r"
  by (simp add: strip_prefix_Some)

lemma starts_with_prefix: "starts_with s p \<longleftrightarrow> prefix p s"
  by (auto simp: starts_with_def prefix_def strip_prefix_Some)

lemma starts_with_append [simp]: "starts_with (p @ r) p"
  by (simp add: starts_with_def)

lemma starts_with_refl [simp]: "starts_with s s"
  by (simp add: starts_with_prefix)

text \<open>\<open>str::find\<close>: the byte offset of the first occurrence.\<close>

fun find_str :: "'a list \<Rightarrow> 'a list \<Rightarrow> nat option" where
  "find_str p [] = (if p = [] then Some 0 else None)"
| "find_str p (c # cs) =
     (if starts_with (c # cs) p then Some 0 else map_option Suc (find_str p cs))"

definition contains_str :: "'a list \<Rightarrow> 'a list \<Rightarrow> bool" where
  "contains_str s p \<longleftrightarrow> find_str p s \<noteq> None"

lemma find_str_bound: "find_str p s = Some i \<Longrightarrow> i + length p \<le> length s"
  by (induction s arbitrary: i)
    (auto simp: starts_with_prefix dest: prefix_length_le split: if_splits)

text \<open>\<open>str::replace\<close> with a non-empty pattern, leftmost occurrences first.\<close>

function replace_str :: "'a list \<Rightarrow> 'a list \<Rightarrow> 'a list \<Rightarrow> 'a list" where
  "replace_str p r s =
     (case s of
        [] \<Rightarrow> []
      | c # cs \<Rightarrow>
          (if p = [] then s
           else case strip_prefix p s of
                  Some rest \<Rightarrow> r @ replace_str p r rest
                | None \<Rightarrow> c # replace_str p r cs))"
  by pat_completeness auto
termination
  by (relation "measure (\<lambda>(p, r, s). length s)") (auto simp: strip_prefix_Some)

declare replace_str.simps [simp del]

lemma replace_str_Nil [simp]: "replace_str p r [] = []"
  by (simp add: replace_str.simps)

section \<open>White space\<close>

text \<open>
  The UTF-8 sequences of the White\_Space code points: U+0009 to U+000D, U+0020,
  U+0085, U+00A0, U+1680, U+2000 to U+200A, U+2028, U+2029, U+202F, U+205F, U+3000.
\<close>

definition white_space :: "string list" where
  "white_space =
     [[CHR 0x20], [CHR 0x09], [CHR 0x0A], [CHR 0x0B], [CHR 0x0C], [CHR 0x0D],
      [CHR 0xC2, CHR 0x85], [CHR 0xC2, CHR 0xA0], [CHR 0xE1, CHR 0x9A, CHR 0x80],
      [CHR 0xE2, CHR 0x80, CHR 0x80], [CHR 0xE2, CHR 0x80, CHR 0x81],
      [CHR 0xE2, CHR 0x80, CHR 0x82], [CHR 0xE2, CHR 0x80, CHR 0x83],
      [CHR 0xE2, CHR 0x80, CHR 0x84], [CHR 0xE2, CHR 0x80, CHR 0x85],
      [CHR 0xE2, CHR 0x80, CHR 0x86], [CHR 0xE2, CHR 0x80, CHR 0x87],
      [CHR 0xE2, CHR 0x80, CHR 0x88], [CHR 0xE2, CHR 0x80, CHR 0x89],
      [CHR 0xE2, CHR 0x80, CHR 0x8A], [CHR 0xE2, CHR 0x80, CHR 0xA8],
      [CHR 0xE2, CHR 0x80, CHR 0xA9], [CHR 0xE2, CHR 0x80, CHR 0xAF],
      [CHR 0xE2, CHR 0x81, CHR 0x9F], [CHR 0xE3, CHR 0x80, CHR 0x80]]"

text \<open>Strips one leading sequence of the list, the first that matches.\<close>

fun strip_any :: "'a list list \<Rightarrow> 'a list \<Rightarrow> 'a list option" where
  "strip_any [] s = None"
| "strip_any (w # ws) s =
     (if w = [] then strip_any ws s
      else case strip_prefix w s of Some r \<Rightarrow> Some r | None \<Rightarrow> strip_any ws s)"

lemma strip_any_Some: "strip_any ws s = Some r \<Longrightarrow> \<exists>w \<in> set ws. w \<noteq> [] \<and> s = w @ r"
  by (induction ws) (auto simp: strip_prefix_Some split: if_splits option.splits)

lemma strip_any_None: "strip_any ws s = None \<longleftrightarrow> (\<forall>w \<in> set ws. w \<noteq> [] \<longrightarrow> \<not> prefix w s)"
proof (induction ws)
  case (Cons w ws)
  have "prefix w s \<longleftrightarrow> strip_prefix w s \<noteq> None"
    by (simp add: starts_with_prefix[symmetric] starts_with_def)
  with Cons show ?case by (auto split: option.splits)
qed simp

lemma strip_any_shorter: "strip_any ws s = Some r \<Longrightarrow> length r < length s"
  by (auto dest!: strip_any_Some)

function strip_all :: "'a list list \<Rightarrow> 'a list \<Rightarrow> 'a list" where
  "strip_all ws s = (case strip_any ws s of Some r \<Rightarrow> strip_all ws r | None \<Rightarrow> s)"
  by pat_completeness auto
termination
  by (relation "measure (\<lambda>(ws, s). length s)") (auto dest: strip_any_shorter)

declare strip_all.simps [simp del]

definition trim_start :: "string \<Rightarrow> string" where
  "trim_start s = strip_all white_space s"

definition trim_end :: "string \<Rightarrow> string" where
  "trim_end s = rev (strip_all (map rev white_space) (rev s))"

definition trim :: "string \<Rightarrow> string" where
  "trim s = trim_end (trim_start s)"

lemma strip_any_strip_all [simp]: "strip_any ws (strip_all ws s) = None"
proof (induction ws s rule: strip_all.induct)
  case (1 ws s)
  then show ?case by (subst strip_all.simps) (auto split: option.split)
qed

lemma strip_all_id: "strip_any ws s = None \<Longrightarrow> strip_all ws s = s"
  by (simp add: strip_all.simps)

lemma strip_all_idem [simp]: "strip_all ws (strip_all ws s) = strip_all ws s"
  by (simp add: strip_all_id)

lemma suffix_strip_all: "suffix (strip_all ws s) s"
proof (induction ws s rule: strip_all.induct)
  case (1 ws s)
  show ?case
  proof (cases "strip_any ws s")
    case None
    then show ?thesis by (simp add: strip_all.simps)
  next
    case (Some r)
    then have "suffix r s" by (auto simp: suffix_def dest: strip_any_Some)
    with Some "1"[OF Some] show ?thesis
      by (simp add: strip_all.simps[of ws s] suffix_order.trans)
  qed
qed

lemma strip_any_prefix_None:
  "strip_any ws s = None \<Longrightarrow> prefix p s \<Longrightarrow> strip_any ws p = None"
  unfolding strip_any_None by (blast intro: prefix_order.trans)

lemma prefix_trim_end: "prefix (trim_end s) s"
  unfolding trim_end_def using suffix_strip_all[of "map rev white_space" "rev s"]
  by (simp add: suffix_to_prefix)

lemma trim_idem [simp]: "trim (trim s) = trim s"
proof -
  have "strip_any white_space (trim_start s) = None" by (simp add: trim_start_def)
  then have "strip_any white_space (trim s) = None"
    unfolding trim_def by (rule strip_any_prefix_None) (rule prefix_trim_end)
  then have "trim_start (trim s) = trim s" by (simp add: trim_start_def strip_all_id)
  then show ?thesis by (simp add: trim_def trim_end_def)
qed

lemma trim_Nil [simp]: "trim [] = []"
  by (simp add: trim_def trim_start_def trim_end_def white_space_def strip_all.simps)

lemma set_trim: "set (trim s) \<subseteq> set s"
proof -
  have "suffix (trim_start s) s" by (simp add: trim_start_def suffix_strip_all)
  then show ?thesis
    unfolding trim_def using prefix_trim_end[of "trim_start s"]
    by (meson set_mono_prefix set_mono_suffix subset_trans)
qed

section \<open>Splitting and joining\<close>

text \<open>\<open>str::split\<close> on characters satisfying a predicate; \<open>split_on P []\<close> is \<open>[[]]\<close>, as in Rust.\<close>

fun split_on :: "('a \<Rightarrow> bool) \<Rightarrow> 'a list \<Rightarrow> 'a list list" where
  "split_on P [] = [[]]"
| "split_on P (c # cs) =
     (if P c then [] # split_on P cs
      else case split_on P cs of [] \<Rightarrow> [[c]] | x # xs \<Rightarrow> (c # x) # xs)"

lemma split_on_nonempty [simp]: "split_on P s \<noteq> []"
  by (cases s) (auto split: list.splits)

lemma split_on_pieces: "x \<in> set (split_on P s) \<Longrightarrow> c \<in> set x \<Longrightarrow> \<not> P c"
proof (induction s arbitrary: x)
  case (Cons d s)
  obtain y ys where y: "split_on P s = y # ys" by (cases "split_on P s") auto
  show ?case
  proof (cases "P d \<or> x \<in> set ys")
    case True
    with Cons y show ?thesis by (auto split: if_splits)
  next
    case False
    with Cons.prems(1) y have "x = d # y" and "\<not> P d" by (auto split: if_splits)
    with Cons.IH[of y] Cons.prems(2) y show ?thesis by auto
  qed
qed simp

lemma split_on_id: "\<forall>c \<in> set s. \<not> P c \<Longrightarrow> split_on P s = [s]"
  by (induction s) auto

lemma split_on_append_sep:
  "\<forall>c \<in> set a. \<not> P c \<Longrightarrow> P d \<Longrightarrow> split_on P (a @ d # b) = a # split_on P b"
  by (induction a) auto

fun join_with :: "'a list \<Rightarrow> 'a list list \<Rightarrow> 'a list" where
  "join_with sep [] = []"
| "join_with sep [x] = x"
| "join_with sep (x # y # xs) = x @ sep @ join_with sep (y # xs)"

lemma split_join:
  assumes "xs \<noteq> []" and "\<forall>x \<in> set xs. \<forall>c \<in> set x. c \<noteq> d"
  shows "split_on (\<lambda>c. c = d) (join_with [d] xs) = xs"
  using assms
  by (induction "[d]" xs rule: join_with.induct) (auto simp: split_on_id split_on_append_sep)

lemma trim_eq_self:
  "trim s = s \<longleftrightarrow> strip_any white_space s = None \<and> strip_any (map rev white_space) (rev s) = None"
proof
  assume t: "trim s = s"
  have "strip_any white_space (trim s) = None"
    unfolding trim_def by (rule strip_any_prefix_None[OF _ prefix_trim_end]) (simp add: trim_start_def)
  moreover have "strip_any (map rev white_space) (rev (trim s)) = None"
    by (simp add: trim_def trim_end_def)
  ultimately show "strip_any white_space s = None \<and> strip_any (map rev white_space) (rev s) = None"
    by (simp add: t)
next
  assume "strip_any white_space s = None \<and> strip_any (map rev white_space) (rev s) = None"
  then show "trim s = s" by (simp add: trim_def trim_start_def trim_end_def strip_all_id)
qed

lemma strip_any_append_sep:
  assumes "strip_any ws a = None" and "\<forall>w \<in> set ws. d \<notin> set w"
  shows "strip_any ws (a @ d # b) = None"
  unfolding strip_any_None
proof (intro ballI impI notI)
  fix w assume w: "w \<in> set ws" "w \<noteq> []" "prefix w (a @ d # b)"
  then have "prefix w a" using assms(2) by (auto simp: prefix_append prefix_Cons)
  with w assms(1) show False by (auto simp: strip_any_None)
qed

lemma join_first: "xs \<noteq> [] \<Longrightarrow> join_with [d] xs = hd xs \<or> (\<exists>b. join_with [d] xs = hd xs @ d # b)"
  by (induction "[d]" xs rule: join_with.induct) auto

lemma join_last:
  "xs \<noteq> [] \<Longrightarrow> join_with [d] xs = last xs \<or> (\<exists>b. join_with [d] xs = b @ d # last xs)"
proof (induction "[d]" xs rule: join_with.induct)
  case (3 x y xs)
  then consider "join_with [d] (y # xs) = last (y # xs)"
    | b where "join_with [d] (y # xs) = b @ d # last (y # xs)" by blast
  then show ?case
  proof cases
    case 2
    then have "join_with [d] (x # y # xs) = (x @ d # b) @ d # last (x # y # xs)" by simp
    then show ?thesis by blast
  qed auto
qed auto

lemma trim_join:
  assumes "xs \<noteq> []" and "\<forall>x \<in> set xs. trim x = x" and d: "\<forall>w \<in> set white_space. d \<notin> set w"
  shows "trim (join_with [d] xs) = join_with [d] xs"
proof -
  have h: "strip_any white_space (hd xs) = None"
    and l: "strip_any (map rev white_space) (rev (last xs)) = None"
    using assms(1,2) trim_eq_self by (meson hd_in_set last_in_set)+
  have "strip_any white_space (join_with [d] xs) = None"
    using join_first[OF assms(1), of d] h strip_any_append_sep[OF h d] by auto
  moreover have "strip_any (map rev white_space) (rev (join_with [d] xs)) = None"
    using join_last[OF assms(1), of d] l strip_any_append_sep[OF l, of d] d by auto
  ultimately show ?thesis by (simp add: trim_eq_self)
qed

text \<open>\<open>str::split_once\<close> and \<open>str::rsplit_once\<close> on one character.\<close>

fun split_once :: "'a \<Rightarrow> 'a list \<Rightarrow> ('a list \<times> 'a list) option" where
  "split_once d [] = None"
| "split_once d (c # cs) =
     (if c = d then Some ([], cs)
      else map_option (\<lambda>(a, b). (c # a, b)) (split_once d cs))"

definition rsplit_once :: "'a \<Rightarrow> 'a list \<Rightarrow> ('a list \<times> 'a list) option" where
  "rsplit_once d s = map_option (\<lambda>(a, b). (rev b, rev a)) (split_once d (rev s))"

lemma split_once_Some [string_simps]:
  "split_once d s = Some (a, b) \<longleftrightarrow> s = a @ d # b \<and> d \<notin> set a"
proof (induction s arbitrary: a)
  case (Cons c s)
  show ?case
  proof (cases a)
    case Nil
    then show ?thesis by auto
  next
    case (Cons x a')
    then show ?thesis using Cons.IH[of a'] by (cases "c = d") auto
  qed
qed simp

lemma split_once_None: "split_once d s = None \<longleftrightarrow> d \<notin> set s"
  by (induction s) auto

lemma rsplit_once_Some [string_simps]:
  "rsplit_once d s = Some (a, b) \<longleftrightarrow> s = a @ d # b \<and> d \<notin> set b"
proof -
  have "rsplit_once d s = Some (a, b) \<longleftrightarrow> split_once d (rev s) = Some (rev b, rev a)"
    by (auto simp: rsplit_once_def)
  also have "\<dots> \<longleftrightarrow> rev s = rev b @ d # rev a \<and> d \<notin> set b"
    by (simp add: split_once_Some)
  also have "rev s = rev b @ d # rev a \<longleftrightarrow> s = a @ d # b"
    by (simp add: rev_swap)
  finally show ?thesis .
qed

lemma split_unique:
  assumes "a @ d # r = b @ d # r'" and "d \<notin> set a" and "d \<notin> set b"
  shows "a = b \<and> r = r'"
proof -
  have "split_once d (a @ d # r) = Some (a, r)"
    unfolding split_once_Some using assms(2) by blast
  moreover have "split_once d (a @ d # r) = Some (b, r')"
    unfolding split_once_Some using assms(1,3) by blast
  ultimately show ?thesis by (metis option.inject prod.inject)
qed

lemma rsplit_once_None: "rsplit_once d s = None \<longleftrightarrow> d \<notin> set s"
  by (simp add: rsplit_once_def split_once_None)

text \<open>\<open>str::lines\<close>: a carriage return is dropped only in front of a line feed.\<close>

definition chomp_cr :: "string \<Rightarrow> string" where
  "chomp_cr s = (case strip_suffix [CHR 0x0D] s of Some r \<Rightarrow> r | None \<Rightarrow> s)"

definition lines_of :: "string \<Rightarrow> string list" where
  "lines_of s =
     (let parts = split_on (\<lambda>c. c = CHR 0x0A) s
      in map chomp_cr (butlast parts) @ (if last parts = [] then [] else [last parts]))"

text \<open>\<open>str::split_whitespace\<close>, and the test \<open>str::contains(char::is_whitespace)\<close>.\<close>

function split_white :: "string \<Rightarrow> string \<Rightarrow> string list" where
  "split_white acc s =
     (case s of
        [] \<Rightarrow> (if acc = [] then [] else [rev acc])
      | c # cs \<Rightarrow>
          (case strip_any white_space s of
             Some r \<Rightarrow> (if acc = [] then split_white [] r else rev acc # split_white [] r)
           | None \<Rightarrow> split_white (c # acc) cs))"
  by pat_completeness auto
termination
  by (relation "measure (\<lambda>(acc, s). length s)") (auto dest: strip_any_shorter)

declare split_white.simps [simp del]

definition split_whitespace :: "string \<Rightarrow> string list" where
  "split_whitespace s = split_white [] s"

fun contains_whitespace :: "string \<Rightarrow> bool" where
  "contains_whitespace [] = False"
| "contains_whitespace (c # cs) =
     (strip_any white_space (c # cs) \<noteq> None \<or> contains_whitespace cs)"

text \<open>\<open>str::trim_matches\<close> with a set of characters.\<close>

definition trim_start_matches :: "('a \<Rightarrow> bool) \<Rightarrow> 'a list \<Rightarrow> 'a list" where
  "trim_start_matches P s = dropWhile P s"

definition trim_end_matches :: "('a \<Rightarrow> bool) \<Rightarrow> 'a list \<Rightarrow> 'a list" where
  "trim_end_matches P s = rev (dropWhile P (rev s))"

definition trim_matches :: "('a \<Rightarrow> bool) \<Rightarrow> 'a list \<Rightarrow> 'a list" where
  "trim_matches P s = trim_end_matches P (trim_start_matches P s)"

section \<open>Decimal numbers\<close>

definition digit_val :: "char \<Rightarrow> nat" where
  "digit_val c = byte_of c - 48"

definition digit_chr :: "nat \<Rightarrow> char" where
  "digit_chr n = char_of (n + 48)"

fun digits_val :: "nat \<Rightarrow> string \<Rightarrow> nat" where
  "digits_val acc [] = acc"
| "digits_val acc (c # cs) = digits_val (10 * acc + digit_val c) cs"

definition parse_digits :: "string \<Rightarrow> nat option" where
  "parse_digits s = (if s \<noteq> [] \<and> list_all is_ascii_digit s then Some (digits_val 0 s) else None)"

text \<open>
  \<open>str::parse\<close> at an unsigned and at a signed integer type: an optional sign
  (\<open>+\<close> for both, \<open>-\<close> for the signed one), then one digit or more, within bounds.
\<close>

definition parse_unsigned :: "nat \<Rightarrow> string \<Rightarrow> nat option" where
  "parse_unsigned limit s =
     (case parse_digits (case s of c # cs \<Rightarrow> (if c = CHR ''+'' then cs else s) | [] \<Rightarrow> s) of
        Some n \<Rightarrow> (if n \<le> limit then Some n else None)
      | None \<Rightarrow> None)"

definition parse_u16 :: "string \<Rightarrow> u16 option" where
  "parse_u16 s = parse_unsigned 65535 s"

definition parse_u8 :: "string \<Rightarrow> nat option" where
  "parse_u8 s = parse_unsigned 255 s"

definition parse_i32 :: "string \<Rightarrow> i32 option" where
  "parse_i32 s =
     (case s of
        c # cs \<Rightarrow>
          (if c = CHR ''-''
           then (case parse_digits cs of
                   Some n \<Rightarrow> (if n \<le> 2147483648 then Some (- int n) else None)
                 | None \<Rightarrow> None)
           else map_option int (parse_unsigned 2147483647 s))
      | [] \<Rightarrow> None)"

fun show_nat :: "nat \<Rightarrow> string" where
  "show_nat n = (if n < 10 then [digit_chr n] else show_nat (n div 10) @ [digit_chr (n mod 10)])"

declare show_nat.simps [simp del]

definition show_int :: "int \<Rightarrow> string" where
  "show_int i = (if i < 0 then CHR ''-'' # show_nat (nat (- i)) else show_nat (nat i))"

text \<open>\<open>i32\<close> addition in a release build wraps around.\<close>

definition i32_add :: "i32 \<Rightarrow> i32 \<Rightarrow> i32" where
  "i32_add a b = (a + b + 2147483648) mod 4294967296 - 2147483648"

definition valid_port :: "i32 \<Rightarrow> bool" where
  "valid_port p \<longleftrightarrow> 1 \<le> p \<and> p \<le> 65535"

lemma i32_add_exact:
  "- 2147483648 \<le> a + b \<Longrightarrow> a + b \<le> 2147483647 \<Longrightarrow> i32_add a b = a + b"
  by (simp add: i32_add_def)

lemma byte_digit_chr: "n < 10 \<Longrightarrow> byte_of (digit_chr n) = n + 48"
  by (simp add: digit_chr_def)

lemma digit_val_chr [simp]: "n < 10 \<Longrightarrow> digit_val (digit_chr n) = n"
  by (simp add: digit_val_def byte_digit_chr)

lemma is_digit_chr [simp]: "n < 10 \<Longrightarrow> is_ascii_digit (digit_chr n)"
  by (simp add: is_ascii_digit_def byte_digit_chr)

lemma digits_val_append: "digits_val acc (s @ t) = digits_val (digits_val acc s) t"
  by (induction s arbitrary: acc) auto

lemma show_nat_nonempty [simp]: "show_nat n \<noteq> []"
  by (subst show_nat.simps) simp

lemma show_nat_digits: "list_all is_ascii_digit (show_nat n)"
proof (induction n rule: show_nat.induct)
  case (1 n)
  then show ?case by (subst show_nat.simps) simp
qed

lemma digits_val_show_nat: "digits_val 0 (show_nat n) = n"
proof (induction n rule: show_nat.induct)
  case (1 n)
  then show ?case
    by (cases "n < 10") (simp_all add: show_nat.simps[of n] digits_val_append)
qed

lemma parse_show_nat [simp]: "parse_digits (show_nat n) = Some n"
  by (simp add: parse_digits_def show_nat_digits digits_val_show_nat)

lemma show_nat_inj: "show_nat m = show_nat n \<Longrightarrow> m = n"
  by (metis digits_val_show_nat)

lemma show_nat_no: "\<not> is_ascii_digit d \<Longrightarrow> d \<notin> set (show_nat n)"
  using show_nat_digits[of n] by (auto simp: list_all_iff)

lemma parse_unsigned_bound: "parse_unsigned limit s = Some n \<Longrightarrow> n \<le> limit"
  by (auto simp: parse_unsigned_def split: option.splits if_splits)

lemma parse_u8_bound: "parse_u8 s = Some n \<Longrightarrow> n \<le> 255"
  unfolding parse_u8_def by (rule parse_unsigned_bound)

lemma parse_u16_bound: "parse_u16 s = Some n \<Longrightarrow> n \<le> 65535"
  unfolding parse_u16_def by (rule parse_unsigned_bound)

lemma parse_unsigned_show [simp]: "n \<le> limit \<Longrightarrow> parse_unsigned limit (show_nat n) = Some n"
proof -
  assume n: "n \<le> limit"
  obtain c cs where c: "show_nat n = c # cs" by (cases "show_nat n") auto
  then have "is_ascii_digit c" using show_nat_digits[of n] by simp
  then have "c \<noteq> CHR ''+''" by (auto simp: is_ascii_digit_def)
  with n c show ?thesis
    using parse_show_nat[of n] by (simp add: parse_unsigned_def)
qed

section \<open>Ordered maps\<close>

text \<open>A \<open>BTreeMap\<close>: an association list kept in the order of its keys.\<close>

type_synonym ('k, 'v) btree_map = "('k \<times> 'v) list"

fun bt_insert :: "'k::linorder \<Rightarrow> 'v \<Rightarrow> ('k, 'v) btree_map \<Rightarrow> ('k, 'v) btree_map" where
  "bt_insert k v [] = [(k, v)]"
| "bt_insert k v ((k', v') # m) =
     (if k < k' then (k, v) # (k', v') # m
      else if k = k' then (k, v) # m
      else (k', v') # bt_insert k v m)"

abbreviation bt_get :: "('k, 'v) btree_map \<Rightarrow> 'k \<Rightarrow> 'v option" where
  "bt_get m k \<equiv> map_of m k"

definition bt_keys :: "('k, 'v) btree_map \<Rightarrow> 'k list" where
  "bt_keys m = map fst m"

definition bt_values :: "('k, 'v) btree_map \<Rightarrow> 'v list" where
  "bt_values m = map snd m"

definition bt_contains :: "('k, 'v) btree_map \<Rightarrow> 'k \<Rightarrow> bool" where
  "bt_contains m k \<longleftrightarrow> k \<in> set (bt_keys m)"

definition bt_of_list :: "('k::linorder \<times> 'v) list \<Rightarrow> ('k, 'v) btree_map" where
  "bt_of_list xs = fold (\<lambda>(k, v) m. bt_insert k v m) xs []"

lemma bt_get_insert [map_simps]:
  "bt_get (bt_insert k v m) k' = (if k' = k then Some v else bt_get m k')"
  by (induction m) auto

lemma keys_bt_insert [map_simps]: "set (bt_keys (bt_insert k v m)) = insert k (set (bt_keys m))"
proof (induction m)
  case (Cons x m)
  obtain k' v' where "x = (k', v')" by (cases x)
  with Cons show ?case by (auto simp: bt_keys_def simp del: set_map list.set_map)
qed (simp add: bt_keys_def)

lemma sorted_bt_insert:
  "sorted (bt_keys m) \<Longrightarrow> distinct (bt_keys m) \<Longrightarrow>
     sorted (bt_keys (bt_insert k v m)) \<and> distinct (bt_keys (bt_insert k v m))"
proof (induction m)
  case Nil
  then show ?case by (simp add: bt_keys_def)
next
  case (Cons x m)
  obtain k' v' where x: "x = (k', v')" by (cases x)
  have keys: "set (map fst (bt_insert k v m)) = insert k (set (map fst m))"
    using keys_bt_insert[of k v m] by (simp add: bt_keys_def)
  show ?case
  proof (cases "k < k'")
    case True
    with Cons x show ?thesis by (auto simp: bt_keys_def)
  next
    case False
    with Cons x keys show ?thesis by (auto simp: bt_keys_def)
  qed
qed

lemma bt_get_None_iff: "bt_get m k = None \<longleftrightarrow> k \<notin> set (bt_keys m)"
  by (simp add: map_of_eq_None_iff bt_keys_def)

lemma bt_contains_iff: "bt_contains m k \<longleftrightarrow> (\<exists>v. bt_get m k = Some v)"
  using bt_get_None_iff[of m k] by (auto simp: bt_contains_def)

lemma set_bt_insert: "set (bt_insert k v m) \<subseteq> insert (k, v) (set m)"
  by (induction m) (auto split: if_splits)

lemma set_bt_of_list: "set (bt_of_list xs) \<subseteq> set xs"
proof -
  have "set (fold (\<lambda>(k, v) m. bt_insert k v m) xs m) \<subseteq> set xs \<union> set m" for m
  proof (induction xs arbitrary: m)
    case (Cons x xs)
    obtain k v where "x = (k, v)" by (cases x)
    then show ?case using Cons.IH[of "bt_insert k v m"] set_bt_insert[of k v m] by auto
  qed simp
  from this[of "[]"] show ?thesis by (simp add: bt_of_list_def)
qed

lemma bt_of_list_append_get:
  "bt_get (fold (\<lambda>(k, v) m. bt_insert k v m) xs m) k =
     (case map_of (rev xs) k of Some v \<Rightarrow> Some v | None \<Rightarrow> bt_get m k)"
  by (induction xs arbitrary: m) (auto simp: bt_get_insert map_add_def split: option.splits)

lemma bt_get_of_list [map_simps]: "bt_get (bt_of_list xs) k = map_of (rev xs) k"
  by (simp add: bt_of_list_def bt_of_list_append_get split: option.splits)

lemma keys_bt_of_list: "set (bt_keys (bt_of_list xs)) = fst ` set xs"
proof -
  have "set (bt_keys (fold (\<lambda>(k, v) m. bt_insert k v m) xs m)) = fst ` set xs \<union> set (bt_keys m)" for m
    by (induction xs arbitrary: m) (auto simp: keys_bt_insert)
  from this[of "[]"] show ?thesis by (simp add: bt_of_list_def bt_keys_def)
qed

section \<open>Deduplication\<close>

text \<open>\<open>filter(|x| seen.insert(x))\<close>: the first occurrence of each value is kept.\<close>

fun dedup_from :: "'a set \<Rightarrow> 'a list \<Rightarrow> 'a list" where
  "dedup_from seen [] = []"
| "dedup_from seen (x # xs) =
     (if x \<in> seen then dedup_from seen xs else x # dedup_from (insert x seen) xs)"

abbreviation dedup :: "'a list \<Rightarrow> 'a list" where
  "dedup xs \<equiv> dedup_from {} xs"

lemma set_dedup_from [simp]: "set (dedup_from seen xs) = set xs - seen"
  by (induction xs arbitrary: seen) auto

lemma distinct_dedup_from [simp]: "distinct (dedup_from seen xs)"
  by (induction xs arbitrary: seen) auto

lemma dedup_from_id: "distinct xs \<Longrightarrow> set xs \<inter> seen = {} \<Longrightarrow> dedup_from seen xs = xs"
  by (induction xs arbitrary: seen) auto

section \<open>Options\<close>

definition nonempty_list :: "'a list option \<Rightarrow> bool" where
  "nonempty_list x \<longleftrightarrow> (case x of Some ys \<Rightarrow> ys \<noteq> [] | None \<Rightarrow> False)"

text \<open>\<open>Option::unwrap_or\<close>, \<open>Option::or_else\<close> and \<open>Option::filter\<close>.\<close>

definition unwrap_or :: "'a option \<Rightarrow> 'a \<Rightarrow> 'a" where
  "unwrap_or x d = (case x of Some v \<Rightarrow> v | None \<Rightarrow> d)"

definition or_else :: "'a option \<Rightarrow> 'a option \<Rightarrow> 'a option" where
  "or_else x y = (case x of Some v \<Rightarrow> Some v | None \<Rightarrow> y)"

definition opt_filter :: "('a \<Rightarrow> bool) \<Rightarrow> 'a option \<Rightarrow> 'a option" where
  "opt_filter P x = (case x of Some v \<Rightarrow> (if P v then Some v else None) | None \<Rightarrow> None)"

lemma unwrap_or_simps [simp]: "unwrap_or (Some v) d = v" "unwrap_or None d = d"
  by (simp_all add: unwrap_or_def)

lemma or_else_simps [simp]: "or_else (Some v) y = Some v" "or_else None y = y"
  by (simp_all add: or_else_def)

lemma opt_filter_Some [simp]: "opt_filter P x = Some v \<longleftrightarrow> x = Some v \<and> P v"
  by (auto simp: opt_filter_def split: option.splits)

text \<open>\<open>get_or_insert_with(Vec::new).push\<close> and \<open>.extend\<close> on an optional list.\<close>

definition opt_push :: "'a \<Rightarrow> 'a list option \<Rightarrow> 'a list option" where
  "opt_push v x = Some (unwrap_or x [] @ [v])"

definition opt_extend :: "'a list \<Rightarrow> 'a list option \<Rightarrow> 'a list option" where
  "opt_extend vs x = Some (unwrap_or x [] @ vs)"

end
