(* ===== verification/Externals.thy ===== *)
theory Externals
  imports VoyaPrelude
begin

text \<open>
  The third-party crates the modelled code calls: \<open>serde_json\<close>, \<open>url\<close>, \<open>regex\<close> and
  \<open>percent_encoding\<close>. Their sources are not part of the repository, so every
  definition that uses one takes the record \<open>externals\<close> as an argument; only the
  data they hand over (a JSON value, the accessors of a parsed URL) is spelled out.
\<close>

text \<open>\<open>serde_json::Value\<close>; a number carries its \<open>as_i64\<close> and its printed form.\<close>

datatype json =
    JNull
  | JBool bool
  | JNumber "int option" string
  | JString string
  | JArray "json list"
  | JObject "(string \<times> json) list"

fun json_get :: "string \<Rightarrow> json \<Rightarrow> json option" where
  "json_get k (JObject kvs) = map_of kvs k"
| "json_get k _ = None"

fun json_as_str :: "json \<Rightarrow> string option" where
  "json_as_str (JString s) = Some s"
| "json_as_str _ = None"

fun json_as_array :: "json \<Rightarrow> json list option" where
  "json_as_array (JArray xs) = Some xs"
| "json_as_array _ = None"

fun json_is_object :: "json \<Rightarrow> bool" where
  "json_is_object (JObject kvs) = True"
| "json_is_object _ = False"

text \<open>The accessors of \<open>url::Url\<close> the code calls.\<close>

record parsed_url =
  u_scheme :: string
  u_username :: string
  u_password :: "string option"
  u_host :: "string option"
  u_port :: "u16 option"
  u_path :: string
  u_query :: "string option"
  u_fragment :: "string option"

text \<open>
  \<open>regex_valid p\<close> is \<open>Regex::new(p).is_ok()\<close>; \<open>regex_capture p s\<close> is group 1 of the
  leftmost match, \<open>regex_replace p s\<close> deletes the leftmost match.
\<close>

record externals =
  json_from_str :: "string \<Rightarrow> json option"
  url_parse :: "string \<Rightarrow> parsed_url option"
  regex_valid :: "string \<Rightarrow> bool"
  regex_is_match :: "string \<Rightarrow> string \<Rightarrow> bool"
  regex_capture :: "string \<Rightarrow> string \<Rightarrow> string option"
  regex_replace :: "string \<Rightarrow> string \<Rightarrow> string"
  percent_decode_utf8 :: "string \<Rightarrow> string option"

text \<open>
  \<open>Option<&str> \<rightarrow> nonempty \<rightarrow> Regex::new(..).ok()\<close> followed by
  \<open>is_none_or(|filter| filter.is_match(text))\<close>: a blank or invalid pattern accepts everything.
\<close>

definition filter_accepts :: "externals \<Rightarrow> string option \<Rightarrow> string \<Rightarrow> bool" where
  "filter_accepts X pattern text =
     (case pattern of
        None \<Rightarrow> True
      | Some p \<Rightarrow>
          (let p = trim p
           in p = [] \<or> \<not> regex_valid X p \<or> regex_is_match X p text))"

text \<open>An instance for evaluation on concrete inputs: every parser fails, no pattern is valid.\<close>

definition no_externals :: externals where
  "no_externals =
     \<lparr>json_from_str = \<lambda>s. None, url_parse = \<lambda>s. None, regex_valid = \<lambda>p. False,
      regex_is_match = \<lambda>p s. False, regex_capture = \<lambda>p s. None, regex_replace = \<lambda>p s. s,
      percent_decode_utf8 = Some\<rparr>"

end
