(* ===== verification/Entities.thy ===== *)
theory Entities
  imports Externals
begin

text \<open>
  The domain data of \<open>voya-core\<close>: \<open>enums.rs\<close>, \<open>entities.rs\<close> and \<open>config.rs\<close>. Structs are
  records, enums are datatypes whose constructors carry the source's names behind a
  short prefix (\<open>Ct_\<close> for \<open>ConfigType\<close>, \<open>Pp_\<close> for \<open>ProfileProtocol\<close>, \<open>Pt_\<close> for
  \<open>ProfileTransport\<close>); the arguments of a constructor stand in the order of the
  variant's fields.
\<close>

section \<open>Enums (enums.rs)\<close>

datatype config_kind =
    Ct_VMess | Ct_Custom | Ct_Shadowsocks | Ct_SOCKS | Ct_VLESS | Ct_Trojan | Ct_Hysteria2
  | Ct_TUIC | Ct_WireGuard | Ct_HTTP | Ct_Anytls | Ct_Naive | Ct_PolicyGroup | Ct_ProxyChain

definition is_complex_type :: "config_kind \<Rightarrow> bool" where
  "is_complex_type t \<longleftrightarrow> t \<in> {Ct_Custom, Ct_PolicyGroup, Ct_ProxyChain}"

definition is_group_type :: "config_kind \<Rightarrow> bool" where
  "is_group_type t \<longleftrightarrow> t \<in> {Ct_PolicyGroup, Ct_ProxyChain}"

fun sort_rank :: "config_kind \<Rightarrow> nat" where
  "sort_rank Ct_VMess = 0"
| "sort_rank Ct_Custom = 1"
| "sort_rank Ct_Shadowsocks = 2"
| "sort_rank Ct_SOCKS = 3"
| "sort_rank Ct_VLESS = 4"
| "sort_rank Ct_Trojan = 5"
| "sort_rank Ct_Hysteria2 = 6"
| "sort_rank Ct_TUIC = 7"
| "sort_rank Ct_WireGuard = 8"
| "sort_rank Ct_HTTP = 9"
| "sort_rank Ct_Anytls = 10"
| "sort_rank Ct_Naive = 11"
| "sort_rank Ct_PolicyGroup = 12"
| "sort_rank Ct_ProxyChain = 13"

lemma sort_rank_inj: "sort_rank a = sort_rank b \<Longrightarrow> a = b"
  by (cases a; cases b) simp_all

text \<open>The ranks order the types; the list screens sort by them.\<close>

instantiation config_kind :: linorder
begin

definition less_eq_config_kind :: "config_kind \<Rightarrow> config_kind \<Rightarrow> bool" where
  "less_eq_config_kind a b \<longleftrightarrow> sort_rank a \<le> sort_rank b"

definition less_config_kind :: "config_kind \<Rightarrow> config_kind \<Rightarrow> bool" where
  "less_config_kind a b \<longleftrightarrow> sort_rank a < sort_rank b"

instance
  by standard (auto simp: less_eq_config_kind_def less_config_kind_def dest: sort_rank_inj)

end

datatype core_type = Core_sing_box

datatype inbound_protocol =
  Ip_socks | Ip_socks2 | Ip_socks3 | Ip_pac | Ip_api | Ip_api2 | Ip_mixed | Ip_speedtest

fun port_offset :: "inbound_protocol \<Rightarrow> i32" where
  "port_offset Ip_socks = 0"
| "port_offset Ip_socks2 = 1"
| "port_offset Ip_socks3 = 2"
| "port_offset Ip_pac = 3"
| "port_offset Ip_api = 4"
| "port_offset Ip_api2 = 5"
| "port_offset Ip_mixed = 6"
| "port_offset Ip_speedtest = 21"

datatype multiple_load =
  Ml_LeastPing | Ml_Fallback | Ml_Random | Ml_RoundRobin | Ml_LeastLoad

datatype traffic_mode = Tm_Rule | Tm_Global | Tm_Direct | Tm_Unchanged

datatype rule_type = Rt_ALL | Rt_Routing | Rt_DNS

datatype sys_proxy_type = Sp_ForcedClear | Sp_ForcedChange | Sp_Unchanged | Sp_Pac

text \<open>The \<open>Debug\<close> rendering \<open>{:?}\<close> of a configuration type.\<close>

fun debug_config_type :: "config_kind \<Rightarrow> string" where
  "debug_config_type Ct_VMess = ''VMess''"
| "debug_config_type Ct_Custom = ''Custom''"
| "debug_config_type Ct_Shadowsocks = ''Shadowsocks''"
| "debug_config_type Ct_SOCKS = ''SOCKS''"
| "debug_config_type Ct_VLESS = ''VLESS''"
| "debug_config_type Ct_Trojan = ''Trojan''"
| "debug_config_type Ct_Hysteria2 = ''Hysteria2''"
| "debug_config_type Ct_TUIC = ''TUIC''"
| "debug_config_type Ct_WireGuard = ''WireGuard''"
| "debug_config_type Ct_HTTP = ''HTTP''"
| "debug_config_type Ct_Anytls = ''Anytls''"
| "debug_config_type Ct_Naive = ''Naive''"
| "debug_config_type Ct_PolicyGroup = ''PolicyGroup''"
| "debug_config_type Ct_ProxyChain = ''ProxyChain''"

section \<open>Profiles (entities.rs)\<close>

record server_endpoint =
  se_address :: string
  se_port :: i32

datatype profile_protocol =
    Pp_Vmess server_endpoint string "string option"
    \<comment> \<open>server, uuid, cipher\<close>
  | Pp_Custom string "string option"
    \<comment> \<open>source, filter\<close>
  | Pp_Shadowsocks server_endpoint string string bool
    \<comment> \<open>server, password, method, udp over tcp\<close>
  | Pp_Socks server_endpoint string string
    \<comment> \<open>server, username, password\<close>
  | Pp_Vless server_endpoint string "string option" "string option"
    \<comment> \<open>server, uuid, flow, encryption\<close>
  | Pp_Trojan server_endpoint string
  | Pp_Hysteria2 server_endpoint string "string option" "string option"
    \<comment> \<open>server, password, port hops, obfuscation password\<close>
  | Pp_Tuic server_endpoint string string "string option"
    \<comment> \<open>server, uuid, password, congestion control\<close>
  | Pp_WireGuard server_endpoint string "string option" "string option" "string option"
      "string option" "string option" "i32 option"
    \<comment> \<open>server, private key, peer public key, preshared key, interface address, allowed ips, reserved, mtu\<close>
  | Pp_Http server_endpoint string string
  | Pp_Anytls server_endpoint string
  | Pp_Naive server_endpoint string string bool "string option" "i32 option" bool
    \<comment> \<open>server, username, password, quic, congestion control, insecure concurrency, udp over tcp\<close>
  | Pp_PolicyGroup "string list" "string option" "string option" multiple_load
    \<comment> \<open>child profile ids, source subscription id, filter, strategy\<close>
  | Pp_ProxyChain "string list"

definition default_endpoint :: server_endpoint where
  "default_endpoint = \<lparr>se_address = [], se_port = 0\<rparr>"

definition default_protocol :: profile_protocol where
  "default_protocol = Pp_Vmess default_endpoint [] None"

fun empty_protocol :: "config_kind \<Rightarrow> server_endpoint \<Rightarrow> profile_protocol" where
  "empty_protocol Ct_VMess server = Pp_Vmess server [] None"
| "empty_protocol Ct_Custom server = Pp_Custom [] None"
| "empty_protocol Ct_Shadowsocks server = Pp_Shadowsocks server [] [] False"
| "empty_protocol Ct_SOCKS server = Pp_Socks server [] []"
| "empty_protocol Ct_VLESS server = Pp_Vless server [] None None"
| "empty_protocol Ct_Trojan server = Pp_Trojan server []"
| "empty_protocol Ct_Hysteria2 server = Pp_Hysteria2 server [] None None"
| "empty_protocol Ct_TUIC server = Pp_Tuic server [] [] None"
| "empty_protocol Ct_WireGuard server = Pp_WireGuard server [] None None None None None None"
| "empty_protocol Ct_HTTP server = Pp_Http server [] []"
| "empty_protocol Ct_Anytls server = Pp_Anytls server []"
| "empty_protocol Ct_Naive server = Pp_Naive server [] [] False None None False"
| "empty_protocol Ct_PolicyGroup server = Pp_PolicyGroup [] None None Ml_LeastPing"
| "empty_protocol Ct_ProxyChain server = Pp_ProxyChain []"

fun protocol_config_type :: "profile_protocol \<Rightarrow> config_kind" where
  "protocol_config_type (Pp_Vmess s u c) = Ct_VMess"
| "protocol_config_type (Pp_Custom s f) = Ct_Custom"
| "protocol_config_type (Pp_Shadowsocks s p m u) = Ct_Shadowsocks"
| "protocol_config_type (Pp_Socks s u p) = Ct_SOCKS"
| "protocol_config_type (Pp_Vless s u f e) = Ct_VLESS"
| "protocol_config_type (Pp_Trojan s p) = Ct_Trojan"
| "protocol_config_type (Pp_Hysteria2 s p h b) = Ct_Hysteria2"
| "protocol_config_type (Pp_Tuic s u p c) = Ct_TUIC"
| "protocol_config_type (Pp_WireGuard s k pk sk ia ai r m) = Ct_WireGuard"
| "protocol_config_type (Pp_Http s u p) = Ct_HTTP"
| "protocol_config_type (Pp_Anytls s p) = Ct_Anytls"
| "protocol_config_type (Pp_Naive s u p q cc ic ut) = Ct_Naive"
| "protocol_config_type (Pp_PolicyGroup c ss f st) = Ct_PolicyGroup"
| "protocol_config_type (Pp_ProxyChain c) = Ct_ProxyChain"

fun protocol_server :: "profile_protocol \<Rightarrow> server_endpoint option" where
  "protocol_server (Pp_Vmess s u c) = Some s"
| "protocol_server (Pp_Shadowsocks s p m u) = Some s"
| "protocol_server (Pp_Socks s u p) = Some s"
| "protocol_server (Pp_Vless s u f e) = Some s"
| "protocol_server (Pp_Trojan s p) = Some s"
| "protocol_server (Pp_Hysteria2 s p h b) = Some s"
| "protocol_server (Pp_Tuic s u p c) = Some s"
| "protocol_server (Pp_WireGuard s k pk sk ia ai r m) = Some s"
| "protocol_server (Pp_Http s u p) = Some s"
| "protocol_server (Pp_Anytls s p) = Some s"
| "protocol_server (Pp_Naive s u p q cc ic ut) = Some s"
| "protocol_server (Pp_Custom s f) = None"
| "protocol_server (Pp_PolicyGroup c ss f st) = None"
| "protocol_server (Pp_ProxyChain c) = None"

definition searchable_address :: "profile_protocol \<Rightarrow> string" where
  "searchable_address p =
     (case p of
        Pp_Custom source f \<Rightarrow> source
      | _ \<Rightarrow> (case protocol_server p of Some s \<Rightarrow> se_address s | None \<Rightarrow> []))"

fun protocol_password :: "profile_protocol \<Rightarrow> string" where
  "protocol_password (Pp_Vmess s u c) = u"
| "protocol_password (Pp_Vless s u f e) = u"
| "protocol_password (Pp_Shadowsocks s p m u) = p"
| "protocol_password (Pp_Socks s u p) = p"
| "protocol_password (Pp_Trojan s p) = p"
| "protocol_password (Pp_Hysteria2 s p h b) = p"
| "protocol_password (Pp_Tuic s u p c) = p"
| "protocol_password (Pp_Http s u p) = p"
| "protocol_password (Pp_Anytls s p) = p"
| "protocol_password (Pp_Naive s u p q cc ic ut) = p"
| "protocol_password (Pp_WireGuard s k pk sk ia ai r m) = k"
| "protocol_password (Pp_Custom s f) = []"
| "protocol_password (Pp_PolicyGroup c ss f st) = []"
| "protocol_password (Pp_ProxyChain c) = []"

fun protocol_username :: "profile_protocol \<Rightarrow> string" where
  "protocol_username (Pp_Socks s u p) = u"
| "protocol_username (Pp_Http s u p) = u"
| "protocol_username (Pp_Naive s u p q cc ic ut) = u"
| "protocol_username (Pp_Tuic s u p c) = u"
| "protocol_username _ = []"

fun child_profile_ids :: "profile_protocol \<Rightarrow> string list" where
  "child_profile_ids (Pp_PolicyGroup c ss f st) = c"
| "child_profile_ids (Pp_ProxyChain c) = c"
| "child_profile_ids _ = []"

fun replace_child_profile_ids :: "string list \<Rightarrow> profile_protocol \<Rightarrow> profile_protocol" where
  "replace_child_profile_ids ids (Pp_PolicyGroup c ss f st) = Pp_PolicyGroup ids ss f st"
| "replace_child_profile_ids ids (Pp_ProxyChain c) = Pp_ProxyChain ids"
| "replace_child_profile_ids ids p = p"

datatype profile_transport =
    Pt_Tcp "string option" "string option" "string option"
    \<comment> \<open>header, host, path\<close>
  | Pt_Kcp "string option" "string option" "i32 option"
    \<comment> \<open>header, seed, mtu\<close>
  | Pt_Websocket "string option" "string option"
    \<comment> \<open>host, path\<close>
  | Pt_HttpUpgrade "string option" "string option"
  | Pt_Xhttp "string option" "string option" "string option" "string option"
    \<comment> \<open>host, path, mode, extra\<close>
  | Pt_Http2 "string option" "string option"
  | Pt_Grpc "string option" "string option" "string option"
    \<comment> \<open>authority, service name, mode\<close>
  | Pt_Quic "string option" "string option"

fun transport_name :: "profile_transport \<Rightarrow> string" where
  "transport_name (Pt_Tcp h ho p) = ''raw''"
| "transport_name (Pt_Kcp h s m) = ''kcp''"
| "transport_name (Pt_Websocket h p) = ''ws''"
| "transport_name (Pt_HttpUpgrade h p) = ''httpupgrade''"
| "transport_name (Pt_Xhttp h p m e) = ''xhttp''"
| "transport_name (Pt_Http2 h p) = ''h2''"
| "transport_name (Pt_Grpc a s m) = ''grpc''"
| "transport_name (Pt_Quic h p) = ''quic''"

fun transport_host :: "profile_transport \<Rightarrow> string option" where
  "transport_host (Pt_Tcp h ho p) = ho"
| "transport_host (Pt_Websocket h p) = h"
| "transport_host (Pt_HttpUpgrade h p) = h"
| "transport_host (Pt_Xhttp h p m e) = h"
| "transport_host (Pt_Http2 h p) = h"
| "transport_host (Pt_Quic h p) = h"
| "transport_host (Pt_Kcp h s m) = None"
| "transport_host (Pt_Grpc a s m) = a"

fun transport_path :: "profile_transport \<Rightarrow> string option" where
  "transport_path (Pt_Tcp h ho p) = p"
| "transport_path (Pt_Kcp h s m) = s"
| "transport_path (Pt_Websocket h p) = p"
| "transport_path (Pt_HttpUpgrade h p) = p"
| "transport_path (Pt_Xhttp h p m e) = p"
| "transport_path (Pt_Http2 h p) = p"
| "transport_path (Pt_Quic h p) = p"
| "transport_path (Pt_Grpc a s m) = s"

datatype tls_mode = Tls_Tls | Tls_Reality

record tls_settings =
  tls_mode :: tls_mode
  tls_server_name :: "string option"
  tls_alpn :: "string list"
  reality_public_key :: "string option"
  reality_short_id :: "string option"
  reality_spider_x :: "string option"
  mldsa65_verify :: "string option"
  certificate_pem :: "string option"
  certificate_sha256 :: "string list"
  ech_config :: "string list"
  final_mask :: "string option"

record profile_item =
  index_id :: string
  subscription_id :: "string option"
  display_log :: bool
  remarks :: string
  protocol :: profile_protocol
  transport :: "profile_transport option"
  tls :: "tls_settings option"

definition default_profile :: profile_item where
  "default_profile =
     \<lparr>index_id = [], subscription_id = None, display_log = True, remarks = [],
      protocol = default_protocol, transport = None, tls = None\<rparr>"

definition config_type :: "profile_item \<Rightarrow> config_kind" where
  "config_type item = protocol_config_type (protocol item)"

definition is_complex :: "profile_item \<Rightarrow> bool" where
  "is_complex item = is_complex_type (config_type item)"

definition address :: "profile_item \<Rightarrow> string" where
  "address item = searchable_address (protocol item)"

definition port :: "profile_item \<Rightarrow> i32" where
  "port item = (case protocol_server (protocol item) of Some s \<Rightarrow> se_port s | None \<Rightarrow> 0)"

definition network :: "profile_item \<Rightarrow> string" where
  "network item = (case transport item of Some t \<Rightarrow> transport_name t | None \<Rightarrow> [])"

definition stream_security :: "profile_item \<Rightarrow> string" where
  "stream_security item =
     (case tls item of
        None \<Rightarrow> []
      | Some t \<Rightarrow> (case tls_mode t of Tls_Tls \<Rightarrow> ''tls'' | Tls_Reality \<Rightarrow> ''reality''))"

definition password :: "profile_item \<Rightarrow> string" where
  "password item = protocol_password (protocol item)"

definition username :: "profile_item \<Rightarrow> string" where
  "username item = protocol_username (protocol item)"

record sub_item =
  sub_id :: string
  sub_remarks :: string
  sub_url :: string
  sub_more_url :: string
  sub_enabled :: bool
  sub_user_agent :: string
  sub_sort :: i32
  sub_filter :: "string option"
  sub_convert_target :: "string option"
  sub_pre_socks_port :: "i32 option"

definition default_sub_item :: sub_item where
  "default_sub_item =
     \<lparr>sub_id = [], sub_remarks = [], sub_url = [], sub_more_url = [], sub_enabled = True,
      sub_user_agent = [], sub_sort = 0, sub_filter = None, sub_convert_target = None,
      sub_pre_socks_port = None\<rparr>"

record rules_item =
  ri_id :: string
  ri_type :: "string option"
  ri_port :: "string option"
  ri_network :: "string option"
  ri_inbound_tag :: "string list option"
  ri_outbound_tag :: "string option"
  ri_ip :: "string list option"
  ri_domain :: "string list option"
  ri_protocol :: "string list option"
  ri_process :: "string list option"
  ri_enabled :: bool
  ri_remarks :: "string option"
  ri_rule_type :: "rule_type option"

definition default_rules_item :: rules_item where
  "default_rules_item =
     \<lparr>ri_id = [], ri_type = None, ri_port = None, ri_network = None, ri_inbound_tag = None,
      ri_outbound_tag = None, ri_ip = None, ri_domain = None, ri_protocol = None,
      ri_process = None, ri_enabled = True, ri_remarks = None, ri_rule_type = None\<rparr>"

record routing_item =
  rt_id :: string
  rt_remarks :: string
  rt_url :: string
  rule_set :: "rules_item list"
  rt_enabled :: bool
  rt_locked :: bool
  rt_custom_icon :: string
  custom_ruleset_path4_singbox :: string
  rt_domain_strategy :: string
  rt_domain_strategy4_singbox :: string
  rt_sort :: i32
  rt_is_active :: bool

definition default_routing_item :: routing_item where
  "default_routing_item =
     \<lparr>rt_id = [], rt_remarks = [], rt_url = [], rule_set = [], rt_enabled = True,
      rt_locked = False, rt_custom_icon = [], custom_ruleset_path4_singbox = [],
      rt_domain_strategy = [], rt_domain_strategy4_singbox = [], rt_sort = 0,
      rt_is_active = False\<rparr>"

definition profile_items_match :: "profile_item \<Rightarrow> profile_item \<Rightarrow> bool \<Rightarrow> bool" where
  "profile_items_match left right compare_remarks \<longleftrightarrow>
     protocol left = protocol right \<and> transport left = transport right \<and> tls left = tls right
     \<and> (\<not> compare_remarks \<or> remarks left = remarks right)"

section \<open>Application settings (config.rs)\<close>

definition DEFAULT_LOCAL_PORT :: i32 where
  "DEFAULT_LOCAL_PORT = 10808"

record core_basic_item =
  log_enabled :: bool
  loglevel :: string
  mux_enabled :: bool
  def_allow_insecure :: bool
  def_fingerprint :: string
  def_user_agent :: string
  send_through :: "string option"
  bind_interface :: "string option"
  enable_fragment :: bool
  enable_cache_file4_sbox :: bool

definition default_core_basic_item :: core_basic_item where
  "default_core_basic_item =
     \<lparr>log_enabled = False, loglevel = ''warning'', mux_enabled = False,
      def_allow_insecure = False, def_fingerprint = [], def_user_agent = [],
      send_through = None, bind_interface = None, enable_fragment = False,
      enable_cache_file4_sbox = True\<rparr>"

record in_item =
  local_port :: i32
  in_protocol :: string
  sniffing_enabled :: bool
  allow_lan_conn :: bool
  new_port4_lan :: bool
  in_user :: string
  in_pass :: string
  second_local_port_enabled :: bool

definition default_in_item :: in_item where
  "default_in_item =
     \<lparr>local_port = DEFAULT_LOCAL_PORT, in_protocol = ''socks'', sniffing_enabled = True,
      allow_lan_conn = False, new_port4_lan = False, in_user = [], in_pass = [],
      second_local_port_enabled = False\<rparr>"

record grpc_item =
  grpc_idle_timeout :: "i32 option"
  grpc_health_check_timeout :: "i32 option"
  grpc_permit_without_stream :: "bool option"

definition default_grpc_item :: grpc_item where
  "default_grpc_item =
     \<lparr>grpc_idle_timeout = Some 60, grpc_health_check_timeout = Some 20,
      grpc_permit_without_stream = Some False\<rparr>"

record gui_item =
  auto_run :: bool
  enable_statistics :: bool
  display_real_time_speed :: bool

definition default_gui_item :: gui_item where
  "default_gui_item =
     \<lparr>auto_run = False, enable_statistics = False, display_real_time_speed = False\<rparr>"

record ui_item =
  current_theme :: "string option"
  current_language :: string

definition default_ui_item :: ui_item where
  "default_ui_item = \<lparr>current_theme = None, current_language = ''en''\<rparr>"

record speed_test_item =
  speed_test_timeout :: i32
  speed_test_url :: string
  speed_ping_test_url :: string
  mixed_concurrency_count :: i32
  ipapi_url :: string
  udp_test_target :: string
  speed_test_page_size :: "i32 option"
  speed_test_delay_interval :: "i32 option"

definition default_speed_test_item :: speed_test_item where
  "default_speed_test_item =
     \<lparr>speed_test_timeout = 10, speed_test_url = ''https://cachefly.cachefly.net/50mb.test'',
      speed_ping_test_url = ''https://www.google.com/generate_204'',
      mixed_concurrency_count = 5, ipapi_url = [], udp_test_target = ''ntp:pool.ntp.org'',
      speed_test_page_size = None, speed_test_delay_interval = None\<rparr>"

record const_item =
  sub_convert_url :: "string option"
  geo_source_url :: "string option"
  srs_source_url :: "string option"
  route_rules_template_source_url :: "string option"

definition default_const_item :: const_item where
  "default_const_item =
     \<lparr>sub_convert_url = None, geo_source_url = None, srs_source_url = None,
      route_rules_template_source_url = None\<rparr>"

record routing_basic_item =
  rb_domain_strategy :: string
  rb_domain_strategy4_singbox :: string
  routing_index_id :: string

definition default_routing_basic_item :: routing_basic_item where
  "default_routing_basic_item =
     \<lparr>rb_domain_strategy = ''AsIs'', rb_domain_strategy4_singbox = [], routing_index_id = []\<rparr>"

record mux4_sbox_item =
  mux_protocol :: string
  mux_max_connections :: i32
  mux_padding :: "bool option"

definition default_mux4_sbox_item :: mux4_sbox_item where
  "default_mux4_sbox_item =
     \<lparr>mux_protocol = ''h2mux'', mux_max_connections = 8, mux_padding = None\<rparr>"

record hysteria_item =
  hy_up_mbps :: i32
  hy_down_mbps :: i32
  hy_hop_interval :: i32

definition default_hysteria_item :: hysteria_item where
  "default_hysteria_item = \<lparr>hy_up_mbps = 100, hy_down_mbps = 100, hy_hop_interval = 30\<rparr>"

record proxy_ui_item =
  proxy_traffic_mode :: traffic_mode
  node_sorting :: i32

definition default_proxy_ui_item :: proxy_ui_item where
  "default_proxy_ui_item = \<lparr>proxy_traffic_mode = Tm_Rule, node_sorting = 0\<rparr>"

record system_proxy_item =
  system_proxy_type :: sys_proxy_type
  system_proxy_exceptions :: string
  not_proxy_local_address :: bool
  system_proxy_advanced_protocol :: string
  custom_system_proxy_pac_path :: "string option"
  custom_system_proxy_script_path :: "string option"

definition default_system_proxy_item :: system_proxy_item where
  "default_system_proxy_item =
     \<lparr>system_proxy_type = Sp_ForcedClear,
      system_proxy_exceptions = ''localhost,127.0.0.0/8,::1'',
      not_proxy_local_address = True, system_proxy_advanced_protocol = [],
      custom_system_proxy_pac_path = None, custom_system_proxy_script_path = None\<rparr>"

record key_event_item =
  key_alt :: bool
  key_control :: bool
  key_shift :: bool
  key_code :: "i32 option"

record tun_mode_item =
  enable_tun :: bool
  tun_auto_route :: bool
  tun_strict_route_enabled :: bool
  tun_stack :: string
  tun_mode_mtu :: i32
  enable_ipv6_address :: bool
  icmp_routing :: string

definition default_tun_mode_item :: tun_mode_item where
  "default_tun_mode_item =
     \<lparr>enable_tun = False, tun_auto_route = True, tun_strict_route_enabled = False,
      tun_stack = [], tun_mode_mtu = 1500, enable_ipv6_address = False,
      icmp_routing = ''rule''\<rparr>"

record simple_dns_item =
  use_system_hosts :: "bool option"
  add_common_hosts :: "bool option"
  fake_ip :: "bool option"
  global_fake_ip :: "bool option"
  block_binding_query :: "bool option"
  direct_dns :: "string option"
  remote_dns :: "string option"
  bootstrap_dns :: "string option"
  strategy4_freedom :: "string option"
  strategy4_proxy :: "string option"
  serve_stale :: "bool option"
  parallel_query :: "bool option"
  dns_hosts :: "string option"
  direct_expected_ips :: "string option"

definition DEFAULT_DIRECT_DNS :: string where
  "DEFAULT_DIRECT_DNS = ''119.29.29.29''"

definition DEFAULT_REMOTE_DNS :: string where
  "DEFAULT_REMOTE_DNS = ''https://cloudflare-dns.com/dns-query''"

definition DEFAULT_BOOTSTRAP_DNS :: string where
  "DEFAULT_BOOTSTRAP_DNS = ''119.29.29.29''"

definition default_simple_dns_item :: simple_dns_item where
  "default_simple_dns_item =
     \<lparr>use_system_hosts = Some False, add_common_hosts = Some True, fake_ip = Some False,
      global_fake_ip = Some True, block_binding_query = Some True,
      direct_dns = Some DEFAULT_DIRECT_DNS, remote_dns = Some DEFAULT_REMOTE_DNS,
      bootstrap_dns = Some DEFAULT_BOOTSTRAP_DNS, strategy4_freedom = None,
      strategy4_proxy = None, serve_stale = Some False, parallel_query = Some False,
      dns_hosts = None, direct_expected_ips = None\<rparr>"

record app_config =
  ac_index_id :: string
  ac_sub_index_id :: string
  core_basic :: core_basic_item
  tun_mode :: tun_mode_item
  grpc :: grpc_item
  routing_basic :: routing_basic_item
  gui :: gui_item
  ui :: ui_item
  const_urls :: const_item
  speed_test :: speed_test_item
  mux4_sbox :: mux4_sbox_item
  hysteria :: hysteria_item
  proxy_ui :: proxy_ui_item
  system_proxy :: system_proxy_item
  inbound :: "in_item list"
  show_window_shortcut :: "key_event_item option"
  simple_dns :: simple_dns_item

definition default_app_config :: app_config where
  "default_app_config =
     \<lparr>ac_index_id = [], ac_sub_index_id = [], core_basic = default_core_basic_item,
      tun_mode = default_tun_mode_item, grpc = default_grpc_item,
      routing_basic = default_routing_basic_item, gui = default_gui_item,
      ui = default_ui_item, const_urls = default_const_item,
      speed_test = default_speed_test_item, mux4_sbox = default_mux4_sbox_item,
      hysteria = default_hysteria_item, proxy_ui = default_proxy_ui_item,
      system_proxy = default_system_proxy_item, inbound = [default_in_item],
      show_window_shortcut = None, simple_dns = default_simple_dns_item\<rparr>"

section \<open>Sample profiles for evaluation\<close>

definition sample_leaf :: "string \<Rightarrow> profile_item" where
  "sample_leaf i = default_profile
     \<lparr>index_id := i, remarks := i,
      protocol := Pp_Trojan \<lparr>se_address = ''a.example'', se_port = 443\<rparr> ''secret''\<rparr>"

definition sample_group :: "string \<Rightarrow> string list \<Rightarrow> profile_item" where
  "sample_group i children = default_profile
     \<lparr>index_id := i, remarks := i, protocol := Pp_PolicyGroup children None None Ml_LeastPing\<rparr>"

section \<open>Facts about the accessors\<close>

lemma config_type_replace [simp]:
  "protocol_config_type (replace_child_profile_ids ids p) = protocol_config_type p"
  by (cases p) simp_all

lemma child_ids_replace:
  "is_group_type (protocol_config_type p) \<Longrightarrow>
     child_profile_ids (replace_child_profile_ids ids p) = ids"
  by (cases p) (simp_all add: is_group_type_def)

lemma child_ids_not_group [simp]:
  "\<not> is_group_type (protocol_config_type p) \<Longrightarrow> child_profile_ids p = []"
  by (cases p) (simp_all add: is_group_type_def)

lemma server_None_iff: "protocol_server p = None \<longleftrightarrow> is_complex_type (protocol_config_type p)"
  by (cases p) (simp_all add: is_complex_type_def)

lemma config_type_empty [simp]: "protocol_config_type (empty_protocol t s) = t"
  by (cases t) simp_all

lemma group_is_complex: "is_group_type t \<Longrightarrow> is_complex_type t"
  by (auto simp: is_group_type_def is_complex_type_def)

end
