(* ===== verification/NetAddr.thy ===== *)
theory NetAddr
  imports VoyaPrelude
begin

text \<open>
  The standard library's \<open>std::net::IpAddr\<close>: \<open>str::parse::<IpAddr>()\<close>, \<open>is_loopback\<close>,
  \<open>is_ipv6\<close> and \<open>Display\<close>. The parser is the library's: an IPv4 address is four
  decimal groups of one to three digits without a leading zero; an IPv6 address is
  read group by group, with an optional trailing IPv4 address and one \<open>::\<close>.
\<close>

datatype ip_addr = V4 "nat list" | V6 "nat list"

definition hex_val :: "char \<Rightarrow> nat" where
  "hex_val c = (if is_ascii_digit c then byte_of c - 48
                else if 97 \<le> byte_of c then byte_of c - 87 else byte_of c - 55)"

fun radix_val :: "nat \<Rightarrow> nat \<Rightarrow> string \<Rightarrow> nat" where
  "radix_val r acc [] = acc"
| "radix_val r acc (c # cs) = radix_val r (r * acc + hex_val c) cs"

text \<open>\<open>Parser::read_number\<close>: the digits, at most \<open>max_digits\<close> of them, and the rest.\<close>

definition read_number ::
  "nat \<Rightarrow> nat \<Rightarrow> bool \<Rightarrow> nat \<Rightarrow> string \<Rightarrow> (nat \<times> string) option" where
  "read_number radix max_digits allow_zero_prefix limit s =
     (let is_dig = (if radix = 10 then is_ascii_digit else is_ascii_hexdigit);
          ds = takeWhile is_dig s; n = radix_val radix 0 ds
      in if ds = [] \<or> max_digits < length ds \<or> limit < n
            \<or> (\<not> allow_zero_prefix \<and> hd ds = CHR ''0'' \<and> 1 < length ds)
         then None else Some (n, dropWhile is_dig s))"

definition read_separator ::
  "char \<Rightarrow> nat \<Rightarrow> (string \<Rightarrow> ('a \<times> string) option) \<Rightarrow> string \<Rightarrow> ('a \<times> string) option" where
  "read_separator sep index inner s =
     (if index = 0 then inner s
      else case s of c # cs \<Rightarrow> (if c = sep then inner cs else None) | [] \<Rightarrow> None)"

fun read_v4_groups :: "nat \<Rightarrow> nat \<Rightarrow> string \<Rightarrow> (nat list \<times> string) option" where
  "read_v4_groups i 0 s = Some ([], s)"
| "read_v4_groups i (Suc n) s =
     (case read_separator (CHR ''.'') i (read_number 10 3 False 255) s of
        None \<Rightarrow> None
      | Some (g, r) \<Rightarrow>
          (case read_v4_groups (Suc i) n r of
             None \<Rightarrow> None
           | Some (gs, r') \<Rightarrow> Some (g # gs, r')))"

definition read_ipv4_addr :: "string \<Rightarrow> (nat list \<times> string) option" where
  "read_ipv4_addr s = read_v4_groups 0 4 s"

text \<open>
  \<open>read_groups\<close>: up to \<open>limit\<close> groups from index \<open>i\<close>; the flag says whether an
  embedded IPv4 address ended them.
\<close>

fun read_groups :: "nat \<Rightarrow> nat \<Rightarrow> string \<Rightarrow> nat list \<times> bool \<times> string" where
  "read_groups i 0 s = ([], False, s)"
| "read_groups i (Suc left) s =
     (case (if 0 < left then read_separator (CHR '':'') i read_ipv4_addr s else None) of
        Some (os, r) \<Rightarrow>
          ([256 * (os ! 0) + os ! 1, 256 * (os ! 2) + os ! 3], True, r)
      | None \<Rightarrow>
          (case read_separator (CHR '':'') i (read_number 16 4 True 65535) s of
             None \<Rightarrow> ([], False, s)
           | Some (g, r) \<Rightarrow>
               (case read_groups (Suc i) left r of (gs, v4, r') \<Rightarrow> (g # gs, v4, r'))))"

definition read_ipv6_addr :: "string \<Rightarrow> (nat list \<times> string) option" where
  "read_ipv6_addr s =
     (case read_groups 0 8 s of (head, head_v4, r) \<Rightarrow>
        if length head = 8 then Some (head, r)
        else if head_v4 then None
        else case strip_prefix ''::'' r of
               None \<Rightarrow> None
             | Some r2 \<Rightarrow>
                 (case read_groups 0 (8 - (length head + 1)) r2 of (tail, tail_v4, r3) \<Rightarrow>
                    Some (head @ replicate (8 - length head - length tail) 0 @ tail, r3)))"

definition parse_ip :: "string \<Rightarrow> ip_addr option" where
  "parse_ip s =
     (case read_ipv4_addr s of
        Some (os, r) \<Rightarrow> (if r = [] then Some (V4 os) else None)
      | None \<Rightarrow>
          (case read_ipv6_addr s of
             Some (gs, r) \<Rightarrow> (if r = [] then Some (V6 gs) else None)
           | None \<Rightarrow> None))"

fun is_loopback :: "ip_addr \<Rightarrow> bool" where
  "is_loopback (V4 os) \<longleftrightarrow> hd os = 127"
| "is_loopback (V6 gs) \<longleftrightarrow> gs = [0, 0, 0, 0, 0, 0, 0, 1]"

fun is_ipv6 :: "ip_addr \<Rightarrow> bool" where
  "is_ipv6 (V4 os) = False"
| "is_ipv6 (V6 gs) = True"

definition hex_digit_chr :: "nat \<Rightarrow> char" where
  "hex_digit_chr n = (if n < 10 then digit_chr n else char_of (n + 87))"

fun show_hex :: "nat \<Rightarrow> string" where
  "show_hex n =
     (if n < 16 then [hex_digit_chr n] else show_hex (n div 16) @ [hex_digit_chr (n mod 16)])"

declare show_hex.simps [simp del]

definition show_ipv4 :: "nat list \<Rightarrow> string" where
  "show_ipv4 os = join_with ''.'' (map show_nat os)"

text \<open>The first longest run of zero groups: its start and its length.\<close>

fun zero_run :: "nat \<Rightarrow> nat \<times> nat \<Rightarrow> nat \<times> nat \<Rightarrow> nat list \<Rightarrow> nat \<times> nat" where
  "zero_run i cur best [] = best"
| "zero_run i (cs, cl) (bs, bl) (g # gs) =
     (if g = 0
      then (let cur = (if cl = 0 then (i, 1) else (cs, Suc cl))
            in zero_run (Suc i) cur (if bl < snd cur then cur else (bs, bl)) gs)
      else zero_run (Suc i) (0, 0) (bs, bl) gs)"

definition show_ipv6 :: "nat list \<Rightarrow> string" where
  "show_ipv6 gs =
     (if take 6 gs = [0, 0, 0, 0, 0, 65535]
      then ''::ffff:'' @
           show_ipv4 [gs ! 6 div 256, gs ! 6 mod 256, gs ! 7 div 256, gs ! 7 mod 256]
      else case zero_run 0 (0, 0) (0, 0) gs of (start, len) \<Rightarrow>
        if 1 < len
        then join_with '':'' (map show_hex (take start gs)) @ ''::'' @
             join_with '':'' (map show_hex (drop (start + len) gs))
        else join_with '':'' (map show_hex gs))"

fun show_ip :: "ip_addr \<Rightarrow> string" where
  "show_ip (V4 os) = show_ipv4 os"
| "show_ip (V6 gs) = show_ipv6 gs"

section \<open>Well-formed results\<close>

fun ip_ok :: "ip_addr \<Rightarrow> bool" where
  "ip_ok (V4 os) \<longleftrightarrow> length os = 4 \<and> (\<forall>n \<in> set os. n < 256)"
| "ip_ok (V6 gs) \<longleftrightarrow> length gs = 8 \<and> (\<forall>n \<in> set gs. n < 65536)"

lemma read_number_bound: "read_number r m z l s = Some (n, t) \<Longrightarrow> n \<le> l"
  by (auto simp: read_number_def Let_def split: if_splits)

lemma read_separator_inner:
  "read_separator c i f s = Some x \<Longrightarrow> \<exists>s'. f s' = Some x"
  by (auto simp: read_separator_def split: if_splits list.splits)

lemma read_v4_groups_ok:
  "read_v4_groups i n s = Some (gs, r) \<Longrightarrow> length gs = n \<and> (\<forall>g \<in> set gs. g < 256)"
proof (induction i n s arbitrary: gs r rule: read_v4_groups.induct)
  case (2 i n s)
  from "2.prems" obtain g q gs' where
    g: "read_separator (CHR ''.'') i (read_number 10 3 False 255) s = Some (g, q)"
    and gs': "read_v4_groups (Suc i) n q = Some (gs', r)" and gs: "gs = g # gs'"
    by (auto split: option.splits)
  from g have "g \<le> 255" by (auto dest!: read_separator_inner read_number_bound)
  with "2.IH"[OF g refl gs'] gs show ?case by auto
qed auto

lemma read_groups_ok:
  "read_groups i n s = (gs, v4, r) \<Longrightarrow> length gs \<le> n \<and> (\<forall>g \<in> set gs. g < 65536)"
proof (induction i n s arbitrary: gs v4 r rule: read_groups.induct)
  case (2 i left s)
  consider (v4) os q where "0 < left" "read_separator (CHR '':'') i read_ipv4_addr s = Some (os, q)"
      "gs = [256 * (os ! 0) + os ! 1, 256 * (os ! 2) + os ! 3]"
    | (none) "gs = []"
    | (group) g q gs' v' where "(if 0 < left then read_separator (CHR '':'') i read_ipv4_addr s else None) = None"
      "read_separator (CHR '':'') i (read_number 16 4 True 65535) s = Some (g, q)"
      "read_groups (Suc i) left q = (gs', v', r)" "gs = g # gs'"
    using "2.prems" by (auto split: option.splits if_splits prod.splits)
  then show ?case
  proof cases
    case v4
    then obtain s' where "read_v4_groups 0 4 s' = Some (os, q)"
      by (auto dest!: read_separator_inner simp: read_ipv4_addr_def)
    then have os: "length os = 4" "\<forall>g \<in> set os. g < 256" using read_v4_groups_ok by blast+
    then have "\<forall>k < 4. os ! k < 256" by (simp add: all_set_conv_all_nth)
    then have "os ! 0 < 256" "os ! 1 < 256" "os ! 2 < 256" "os ! 3 < 256" by simp_all
    with v4 show ?thesis by auto
  next
    case none
    then show ?thesis by simp
  next
    case group
    then have "g \<le> 65535" by (auto dest!: read_separator_inner read_number_bound)
    with group "2.IH"[OF group(1,2) refl group(3)] show ?thesis by auto
  qed
qed auto

lemma read_ipv6_addr_ok:
  assumes "read_ipv6_addr s = Some (gs, r)"
  shows "length gs = 8 \<and> (\<forall>g \<in> set gs. g < 65536)"
proof -
  obtain head hv r1 where h: "read_groups 0 8 s = (head, hv, r1)" by (cases "read_groups 0 8 s")
  note hok = read_groups_ok[OF h]
  show ?thesis
  proof (cases "length head = 8")
    case True
    with assms h hok show ?thesis by (auto simp: read_ipv6_addr_def)
  next
    case False
    with assms h obtain r2 tail tv where
      t: "read_groups 0 (8 - (length head + 1)) r2 = (tail, tv, r)"
      and gs: "gs = head @ replicate (8 - length head - length tail) 0 @ tail"
      by (auto simp: read_ipv6_addr_def split: if_splits option.splits prod.splits)
    from read_groups_ok[OF t] hok False gs show ?thesis by auto
  qed
qed

lemma parse_ip_ok: "parse_ip s = Some ip \<Longrightarrow> ip_ok ip"
  using read_v4_groups_ok[of 0 4 s] read_ipv6_addr_ok[of s]
  by (auto simp: parse_ip_def read_ipv4_addr_def split: option.splits if_splits)

section \<open>Reading back a printed IPv4 address\<close>

lemma hex_val_digit: "is_ascii_digit c \<Longrightarrow> hex_val c = digit_val c"
  by (simp add: hex_val_def digit_val_def)

lemma radix_val_digits: "list_all is_ascii_digit s \<Longrightarrow> radix_val 10 acc s = digits_val acc s"
  by (induction s arbitrary: acc) (auto simp: hex_val_digit)

lemma show_nat_length: "n < 256 \<Longrightarrow> length (show_nat n) \<le> 3"
  by (simp add: show_nat.simps[of n] show_nat.simps[of "n div 10"] show_nat.simps[of "n div 10 div 10"])

lemma digit_chr_zero: "n < 10 \<Longrightarrow> digit_chr n = CHR ''0'' \<longleftrightarrow> n = 0"
proof
  assume n: "n < 10" and "digit_chr n = CHR ''0''"
  then have "byte_of (digit_chr n) = (48 :: nat)" by simp
  with n show "n = 0" by (simp add: byte_digit_chr)
next
  have "char_of (48 :: nat) = CHR ''0''" by code_simp
  then show "n = 0 \<Longrightarrow> digit_chr n = CHR ''0''" by (simp add: digit_chr_def)
qed

lemma show_nat_leading: "hd (show_nat n) = CHR ''0'' \<Longrightarrow> n = 0"
proof (induction n rule: show_nat.induct)
  case (1 n)
  show ?case
  proof (cases "n < 10")
    case True
    with "1.prems" show ?thesis by (simp add: show_nat.simps[of n] digit_chr_zero)
  next
    case False
    with "1.prems" have "hd (show_nat (n div 10)) = CHR ''0''" by (simp add: show_nat.simps[of n])
    with "1.IH" False have "n div 10 = 0" by simp
    with False show ?thesis by simp
  qed
qed

lemma takeWhile_digits:
  "list_all P a \<Longrightarrow> b = [] \<or> \<not> P (hd b) \<Longrightarrow> takeWhile P (a @ b) = a \<and> dropWhile P (a @ b) = b"
  by (induction a) (cases b; auto)+

lemma read_number_show:
  assumes "n < 256" and "b = [] \<or> \<not> is_ascii_digit (hd b)"
  shows "read_number 10 3 False 255 (show_nat n @ b) = Some (n, b)"
proof -
  have tw: "takeWhile is_ascii_digit (show_nat n @ b) = show_nat n"
    "dropWhile is_ascii_digit (show_nat n @ b) = b"
    using takeWhile_digits[OF show_nat_digits assms(2)] by blast+
  have val: "radix_val 10 0 (show_nat n) = n"
    by (simp add: radix_val_digits show_nat_digits digits_val_show_nat)
  have "hd (show_nat n) = CHR ''0'' \<Longrightarrow> length (show_nat n) = 1"
    using show_nat_leading[of n] by (auto simp: show_nat.simps)
  with assms(1) show_nat_length[OF assms(1)] tw val show ?thesis
    by (auto simp: read_number_def Let_def)
qed

lemma read_show_ipv4:
  assumes "a < 256" "b < 256" "c < 256" "d < 256"
  shows "read_ipv4_addr (show_ipv4 [a, b, c, d]) = Some ([a, b, c, d], [])"
proof -
  have dot: "\<not> is_ascii_digit (CHR ''.'')" by (simp add: is_ascii_digit_def)
  have d: "read_number 10 3 False 255 (show_nat d) = Some (d, [])"
    using read_number_show[of d "[]"] assms by simp
  have four: "(4 :: nat) = Suc (Suc (Suc (Suc 0)))" by simp
  show ?thesis
    unfolding read_ipv4_addr_def show_ipv4_def
    using assms dot d unfolding four by (simp add: read_separator_def read_number_show)
qed

lemma list_4: "length xs = 4 \<Longrightarrow> \<exists>a b c d. xs = [a, b, c, d]"
proof -
  assume "length xs = 4"
  then have "length xs = Suc (Suc (Suc (Suc 0)))" by simp
  then show ?thesis by (simp only: length_Suc_conv length_0_conv) blast
qed

lemma parse_show_ipv4:
  assumes "ip_ok (V4 os)"
  shows "parse_ip (show_ip (V4 os)) = Some (V4 os)"
proof -
  from assms obtain a b c d where os: "os = [a, b, c, d]"
    using list_4[of os] by auto
  with assms have "read_ipv4_addr (show_ipv4 os) = Some (os, [])"
    using read_show_ipv4[of a b c d] by simp
  then show ?thesis by (simp add: parse_ip_def)
qed

end
