(* ===== verification/ProtocolCommon.thy ===== *)
theory ProtocolCommon
  imports Entities NetAddr
begin

text \<open>
  \<open>protocol_common.rs\<close>: the small parsers that validation, the share links and the
  sing-box generator share. A slice out of range panics in Rust; \<open>parse_pem_chain\<close>
  returns \<open>None\<close> there.
\<close>

section \<open>Constants and names\<close>

definition DEFAULT_SECURITY :: string where "DEFAULT_SECURITY = ''auto''"

definition DEFAULT_NETWORK :: string where "DEFAULT_NETWORK = ''raw''"

definition WIREGUARD_DEFAULT_ADDRESS :: string where
  "WIREGUARD_DEFAULT_ADDRESS = ''172.16.0.2/32''"

definition WIREGUARD_DEFAULT_ALLOWED_IPS :: "string list" where
  "WIREGUARD_DEFAULT_ALLOWED_IPS = [''0.0.0.0/0'', ''::/0'']"

definition WIREGUARD_DEFAULT_MTU :: i32 where "WIREGUARD_DEFAULT_MTU = 1280"

fun protocol_name :: "config_kind \<Rightarrow> string" where
  "protocol_name Ct_VMess = ''vmess''"
| "protocol_name Ct_Shadowsocks = ''shadowsocks''"
| "protocol_name Ct_SOCKS = ''socks''"
| "protocol_name Ct_HTTP = ''http''"
| "protocol_name Ct_VLESS = ''vless''"
| "protocol_name Ct_Trojan = ''trojan''"
| "protocol_name Ct_Hysteria2 = ''hysteria2''"
| "protocol_name Ct_TUIC = ''tuic''"
| "protocol_name Ct_WireGuard = ''wireguard''"
| "protocol_name Ct_Anytls = ''anytls''"
| "protocol_name Ct_Naive = ''naive''"
| "protocol_name Ct_Custom = ''vmess''"
| "protocol_name Ct_PolicyGroup = ''vmess''"
| "protocol_name Ct_ProxyChain = ''vmess''"

definition raw_http_user_agent :: "string \<Rightarrow> string" where
  "raw_http_user_agent ua =
     (if ua = ''chrome'' then ''Mozilla/5.0 (Windows NT 10.0; Win64; x64) AppleWebKit/537.36 (KHTML, like Gecko) Chrome/92.0.4515.131 Safari/537.36''
      else if ua = ''firefox'' then ''Mozilla/5.0 (Windows NT 10.0; Win64; x64; rv:90.0) Gecko/20100101 Firefox/90.0''
      else if ua = ''safari'' then ''Mozilla/5.0 (Macintosh; Intel Mac OS X 10_15_7) AppleWebKit/605.1.15 (KHTML, like Gecko) Version/14.1.1 Safari/605.1.15''
      else if ua = ''edge'' then ''Mozilla/5.0 (Windows NT 10.0; Win64; x64) AppleWebKit/537.36 (KHTML, like Gecko) Chrome/91.0.4472.124 Safari/537.36 Edg/91.0.864.70''
      else if ua = ''none'' then []
      else if ua = ''golang'' then ''Go-http-client/1.1''
      else if ua = ''curl'' then ''curl/7.68.0''
      else ua)"

section \<open>Lists in text\<close>

definition nonempty_str :: "string option \<Rightarrow> string option" where
  "nonempty_str v = opt_filter (\<lambda>s. s \<noteq> []) (map_option trim v)"

definition is_newline :: "char \<Rightarrow> bool" where
  "is_newline c \<longleftrightarrow> c = CHR 0x0A \<or> c = CHR 0x0D"

definition is_comma :: "char \<Rightarrow> bool" where
  "is_comma c \<longleftrightarrow> c = CHR '',''"

definition split_list :: "string \<Rightarrow> string list option" where
  "split_list v =
     (let v = trim v
      in if v = [] then None
         else Some (filter (\<lambda>item. item \<noteq> []) (split_on is_comma (filter (\<lambda>c. \<not> is_newline c) v))))"

definition first_list_value :: "string option \<Rightarrow> string" where
  "first_list_value v =
     (case split_list (unwrap_or v []) of
        None \<Rightarrow> []
      | Some items \<Rightarrow> unwrap_or (find (\<lambda>item. item \<noteq> []) (map trim items)) [])"

section \<open>WireGuard\<close>

definition wireguard_public_key :: "profile_protocol \<Rightarrow> string option" where
  "wireguard_public_key p =
     (case p of Pp_WireGuard s k pk sk ia ai r m \<Rightarrow> nonempty_str pk | _ \<Rightarrow> None)"

definition wireguard_allowed_ips :: "profile_protocol \<Rightarrow> string list" where
  "wireguard_allowed_ips p =
     (let allowed = (case p of Pp_WireGuard s k pk sk ia ai r m \<Rightarrow> ai | _ \<Rightarrow> None)
      in unwrap_or (opt_filter (\<lambda>items. items \<noteq> []) (split_list (unwrap_or allowed [])))
           WIREGUARD_DEFAULT_ALLOWED_IPS)"

fun parse_bytes :: "string list \<Rightarrow> int list option" where
  "parse_bytes [] = Some []"
| "parse_bytes (item # items) =
     (case parse_u8 (trim item) of
        None \<Rightarrow> None
      | Some b \<Rightarrow> map_option (\<lambda>bs. int b # bs) (parse_bytes items))"

definition parse_wireguard_reserved :: "string option \<Rightarrow> int list option" where
  "parse_wireguard_reserved v =
     (case nonempty_str v of
        None \<Rightarrow> None
      | Some s \<Rightarrow> opt_filter (\<lambda>bs. length bs = 3) (parse_bytes (split_on is_comma s)))"

section \<open>PEM certificates\<close>

definition BEGIN_MARKER :: string where "BEGIN_MARKER = ''-----BEGIN CERTIFICATE-----''"

definition END_MARKER :: string where "END_MARKER = ''-----END CERTIFICATE-----''"

text \<open>Deletes every white-space code point.\<close>

function remove_white :: "string \<Rightarrow> string" where
  "remove_white s =
     (case s of
        [] \<Rightarrow> []
      | c # cs \<Rightarrow> (case strip_any white_space s of
                     Some r \<Rightarrow> remove_white r
                   | None \<Rightarrow> c # remove_white cs))"
  by pat_completeness auto
termination
  by (relation "measure length") (auto dest: strip_any_shorter)

declare remove_white.simps [simp del]

text \<open>
  One turn of the loop works on the text that is left: \<open>b\<close> is \<open>begin_offset\<close> and \<open>e\<close>
  the offset of the end marker from there. The slice \<open>[base64_start..end_index]\<close> panics
  when the end marker starts inside the begin marker.
\<close>

function pem_loop :: "string \<Rightarrow> string list option" where
  "pem_loop s =
     (if s = [] then Some []
      else case find_str BEGIN_MARKER s of
        None \<Rightarrow> Some []
      | Some b \<Rightarrow>
          (case find_str END_MARKER (drop b s) of
             None \<Rightarrow> Some []
           | Some e \<Rightarrow>
               (if e < length BEGIN_MARKER then None
                else map_option
                       (\<lambda>certs. (BEGIN_MARKER @ [CHR 0x0A]
                          @ remove_white (take (e - length BEGIN_MARKER)
                                            (drop (b + length BEGIN_MARKER) s))
                          @ [CHR 0x0A] @ END_MARKER @ [CHR 0x0A]) # certs)
                       (pem_loop (drop (b + e + length END_MARKER) s)))))"
  by pat_completeness auto
termination
  by (relation "measure length") (auto simp: END_MARKER_def)

declare pem_loop.simps [simp del]

definition normalize_newlines :: "string \<Rightarrow> string" where
  "normalize_newlines s =
     replace_str [CHR 0x0D] [CHR 0x0A] (replace_str [CHR 0x0D, CHR 0x0A] [CHR 0x0A] s)"

definition parse_pem_chain :: "string \<Rightarrow> string list option" where
  "parse_pem_chain pem = pem_loop (normalize_newlines pem)"

section \<open>Inbound ports\<close>

fun inbound_protocol_tag :: "inbound_protocol \<Rightarrow> string" where
  "inbound_protocol_tag Ip_socks = ''socks''"
| "inbound_protocol_tag Ip_socks2 = ''socks2''"
| "inbound_protocol_tag Ip_socks3 = ''socks3''"
| "inbound_protocol_tag Ip_pac = ''pac''"
| "inbound_protocol_tag Ip_api = ''api''"
| "inbound_protocol_tag Ip_api2 = ''api2''"
| "inbound_protocol_tag Ip_mixed = ''mixed''"
| "inbound_protocol_tag Ip_speedtest = ''speedtest''"

definition base_inbound_port :: "app_config \<Rightarrow> i32" where
  "base_inbound_port config =
     unwrap_or
       (or_else
          (map_option local_port
             (find (\<lambda>item. in_protocol item = inbound_protocol_tag Ip_socks) (inbound config)))
          (case inbound config of item # items \<Rightarrow> Some (local_port item) | [] \<Rightarrow> None))
       DEFAULT_LOCAL_PORT"

definition inbound_port :: "app_config \<Rightarrow> inbound_protocol \<Rightarrow> i32" where
  "inbound_port config p = i32_add (base_inbound_port config) (port_offset p)"

section \<open>Facts\<close>

lemma nonempty_str_Some [simp]:
  "nonempty_str v = Some s \<longleftrightarrow> (\<exists>r. v = Some r \<and> trim r = s \<and> s \<noteq> [])"
  by (auto simp: nonempty_str_def)

lemma split_list_no_comma:
  "split_list v = Some items \<Longrightarrow> x \<in> set items \<Longrightarrow> x \<noteq> [] \<and> CHR '','' \<notin> set x"
  using split_on_pieces[of x is_comma _ "CHR '',''"]
  by (auto simp: split_list_def Let_def is_comma_def split: if_splits)

lemma parse_bytes_range:
  "parse_bytes items = Some bs \<Longrightarrow> length bs = length items \<and> (\<forall>b \<in> set bs. 0 \<le> b \<and> b \<le> 255)"
proof (induction items arbitrary: bs)
  case (Cons item items)
  then show ?case
    using parse_u8_bound[of "trim item"] by (auto split: option.splits)
qed simp

lemma parse_wireguard_reserved_shape:
  "parse_wireguard_reserved v = Some bs \<Longrightarrow>
     length bs = 3 \<and> (\<forall>b \<in> set bs. 0 \<le> b \<and> b \<le> 255)"
  by (auto simp: parse_wireguard_reserved_def dest: parse_bytes_range split: option.splits)

text \<open>The offsets of the eight inbound kinds are pairwise different.\<close>

lemma port_offset_inj: "port_offset p = port_offset q \<Longrightarrow> p = q"
  by (cases p; cases q) simp_all

lemma port_offset_range: "0 \<le> port_offset p \<and> port_offset p \<le> 21"
  by (cases p) simp_all

lemma inbound_port_exact:
  "0 \<le> base_inbound_port config \<Longrightarrow> base_inbound_port config \<le> 65535 \<Longrightarrow>
     inbound_port config p = base_inbound_port config + port_offset p"
  unfolding inbound_port_def by (rule i32_add_exact) (use port_offset_range[of p] in auto)

end
