(* ===== verification/Validation.thy ===== *)
theory Validation
  imports ProtocolCommon
begin

text \<open>
  \<open>context/validation.rs\<close>: the checks a profile passes before it may reach the core,
  and the domain test that fills the list of domains resolved directly.
\<close>

section \<open>Constants (context.rs)\<close>

definition PROXY_TAG :: string where "PROXY_TAG = ''proxy''"
definition DIRECT_TAG :: string where "DIRECT_TAG = ''direct''"
definition BLOCK_TAG :: string where "BLOCK_TAG = ''block''"
definition LOOPBACK :: string where "LOOPBACK = ''127.0.0.1''"

definition SINGBOX_UNSUPPORTED_TRANSPORTS :: "string list" where
  "SINGBOX_UNSUPPORTED_TRANSPORTS = [''kcp'', ''xhttp'']"

definition SINGBOX_SHADOWSOCKS_ALLOWED_TRANSPORTS :: "string list" where
  "SINGBOX_SHADOWSOCKS_ALLOWED_TRANSPORTS = [''raw'', ''ws'']"

definition FLOWS :: "string list" where
  "FLOWS = [[], ''xtls-rprx-vision'', ''xtls-rprx-vision-udp443'']"

definition SS_SECURITIES_IN_SINGBOX :: "string list" where
  "SS_SECURITIES_IN_SINGBOX =
     [''aes-256-gcm'', ''aes-192-gcm'', ''aes-128-gcm'', ''chacha20-ietf-poly1305'',
      ''xchacha20-ietf-poly1305'', ''none'', ''2022-blake3-aes-128-gcm'',
      ''2022-blake3-aes-256-gcm'', ''2022-blake3-chacha20-poly1305'', ''aes-128-ctr'',
      ''aes-192-ctr'', ''aes-256-ctr'', ''aes-128-cfb'', ''aes-192-cfb'', ''aes-256-cfb'',
      ''rc4-md5'', ''chacha20-ietf'', ''xchacha20'']"

section \<open>Validator results (context.rs)\<close>

record node_validator_result =
  nv_errors :: "string list"
  nv_warnings :: "string list"

definition empty_result :: node_validator_result where
  "empty_result = \<lparr>nv_errors = [], nv_warnings = []\<rparr>"

definition success :: "node_validator_result \<Rightarrow> bool" where
  "success r \<longleftrightarrow> nv_errors r = []"

definition push_warning :: "string \<Rightarrow> node_validator_result \<Rightarrow> node_validator_result" where
  "push_warning w r = r\<lparr>nv_warnings := nv_warnings r @ [w]\<rparr>"

definition push_error :: "string \<Rightarrow> node_validator_result \<Rightarrow> node_validator_result" where
  "push_error e r = r\<lparr>nv_errors := nv_errors r @ [e]\<rparr>"

definition extend_prefixed_warnings ::
    "string \<Rightarrow> node_validator_result \<Rightarrow> node_validator_result \<Rightarrow> node_validator_result" where
  "extend_prefixed_warnings pfx other r =
     r\<lparr>nv_warnings := nv_warnings r @ map (\<lambda>w. pfx @ '': '' @ w) (nv_warnings other)\<rparr>"

definition extend_prefixed_errors ::
    "string \<Rightarrow> node_validator_result \<Rightarrow> node_validator_result \<Rightarrow> node_validator_result" where
  "extend_prefixed_errors pfx other r =
     r\<lparr>nv_errors := nv_errors r @ map (\<lambda>e. pfx @ '': '' @ e) (nv_errors other)\<rparr>"

definition combined ::
    "node_validator_result \<Rightarrow> node_validator_result option \<Rightarrow> node_validator_result" where
  "combined left right =
     (case right of
        None \<Rightarrow> left
      | Some r \<Rightarrow> \<lparr>nv_errors = nv_errors left @ nv_errors r,
                  nv_warnings = nv_warnings left @ nv_warnings r\<rparr>)"

text \<open>A guarded \<open>push_error\<close>.\<close>

definition check_error :: "bool \<Rightarrow> string \<Rightarrow> node_validator_result \<Rightarrow> node_validator_result" where
  "check_error b e r = (if b then push_error e r else r)"

section \<open>Node validation\<close>

definition get_network :: "profile_item \<Rightarrow> string" where
  "get_network item =
     (let n = trim (network item) in if n = [] then DEFAULT_NETWORK else n)"

definition singbox_supports_config_type :: "config_kind \<Rightarrow> bool" where
  "singbox_supports_config_type t \<longleftrightarrow>
     t \<in> {Ct_VMess, Ct_VLESS, Ct_Shadowsocks, Ct_Trojan, Ct_Hysteria2, Ct_TUIC, Ct_Anytls,
          Ct_Naive, Ct_WireGuard, Ct_SOCKS, Ct_HTTP}"

definition singbox_transport_supported_protocol :: "config_kind \<Rightarrow> bool" where
  "singbox_transport_supported_protocol t \<longleftrightarrow>
     t \<in> {Ct_VMess, Ct_VLESS, Ct_Trojan, Ct_Shadowsocks}"

definition is_guid_like :: "string \<Rightarrow> bool" where
  "is_guid_like s =
     (let v = trim_end_matches (\<lambda>c. c \<in> set ''})'')
                (trim_start_matches (\<lambda>c. c \<in> set ''{('') (trim s))
      in if length v = 32 then list_all is_ascii_hexdigit v
         else (let chunks = split_on (\<lambda>c. c = CHR ''-'') v
               in length chunks = 5
                  \<and> list_all (\<lambda>(chunk, len). length chunk = len \<and> list_all is_ascii_hexdigit chunk)
                      (zip chunks [8, 4, 4, 4, 12])))"

definition transport_errors ::
    "core_type \<Rightarrow> profile_item \<Rightarrow> node_validator_result \<Rightarrow> node_validator_result" where
  "transport_errors core item r =
     (let net = get_network item; t = config_type item in
      if core = Core_sing_box
      then
        check_error (t = Ct_Shadowsocks \<and> net \<notin> set SINGBOX_SHADOWSOCKS_ALLOWED_TRANSPORTS)
          (''sing_box does not support Shadowsocks with network '' @ net)
        (check_error (\<not> singbox_transport_supported_protocol t \<and> net \<noteq> DEFAULT_NETWORK)
          (''sing_box does not support protocol '' @ debug_config_type t @ '' with network '' @ net)
        (check_error (\<not> singbox_supports_config_type t)
          (''sing_box does not support protocol '' @ debug_config_type t)
        (check_error (net \<in> set SINGBOX_UNSUPPORTED_TRANSPORTS)
          (''sing_box does not support network '' @ net) r)))
      else r)"

definition credential_errors ::
    "profile_item \<Rightarrow> node_validator_result \<Rightarrow> node_validator_result" where
  "credential_errors item r =
     (case protocol item of
        Pp_Vmess s uuid c \<Rightarrow>
          check_error (trim uuid = [] \<or> \<not> is_guid_like uuid) ''invalid Password'' r
      | Pp_Vless s uuid flow enc \<Rightarrow>
          check_error (trim (unwrap_or flow []) \<notin> set FLOWS) ''invalid Flow''
          (check_error (trim uuid = [] \<or> (\<not> is_guid_like uuid \<and> char_count uuid > 30))
             ''invalid Password'' r)
      | Pp_Shadowsocks s pass meth uot \<Rightarrow>
          check_error (trim meth \<notin> set SS_SECURITIES_IN_SINGBOX) ''invalid SsMethod''
          (check_error (trim pass = []) ''invalid Password'' r)
      | _ \<Rightarrow> r)"

definition tls_errors ::
    "externals \<Rightarrow> profile_item \<Rightarrow> node_validator_result \<Rightarrow> node_validator_result" where
  "tls_errors X item r =
     (case tls item of
        None \<Rightarrow> r
      | Some t \<Rightarrow>
          check_error
            (case opt_filter (\<lambda>v. trim v \<noteq> []) (final_mask t) of
               None \<Rightarrow> False
             | Some v \<Rightarrow> (case json_from_str X v of None \<Rightarrow> True | Some j \<Rightarrow> \<not> json_is_object j))
            ''invalid Finalmask''
          (check_error
            (tls_mode t = Tls_Reality
             \<and> (case reality_public_key t of None \<Rightarrow> True | Some k \<Rightarrow> trim k = []))
            ''invalid PublicKey'' r))"

definition validate_node :: "externals \<Rightarrow> profile_item \<Rightarrow> core_type \<Rightarrow> node_validator_result" where
  "validate_node X item core =
     (if config_type item = Ct_Custom \<or> is_group_type (config_type item) then empty_result
      else
        tls_errors X item
        (credential_errors item
        (transport_errors core item
        (check_error (\<not> (1 \<le> port item \<and> port item \<le> 65535)) ''invalid Port''
        (check_error (trim (address item) = []) ''invalid Address'' empty_result)))))"

definition profile_is_valid :: "externals \<Rightarrow> profile_item \<Rightarrow> bool" where
  "profile_is_valid X item = success (validate_node X item Core_sing_box)"

definition is_builtin_outbound :: "string option \<Rightarrow> bool" where
  "is_builtin_outbound t =
     (case t of Some s \<Rightarrow> s = PROXY_TAG \<or> s = DIRECT_TAG \<or> s = BLOCK_TAG | None \<Rightarrow> False)"

definition xhttp_download_settings_address :: "externals \<Rightarrow> profile_item \<Rightarrow> string option" where
  "xhttp_download_settings_address X node =
     (case transport node of
        Some (Pt_Xhttp h p m (Some extra)) \<Rightarrow>
          (let extra = trim extra in
           if extra = [] then None
           else case json_from_str X extra of
             None \<Rightarrow> None
           | Some j \<Rightarrow>
               opt_filter (\<lambda>a. a \<noteq> []) (map_option trim
                 (Option.bind (Option.bind (json_get ''downloadSettings'' j) (json_get ''address''))
                    json_as_str)))
      | _ \<Rightarrow> None)"

section \<open>Domains to resolve directly\<close>

definition blocked_ext :: "string list" where
  "blocked_ext = [''json'', ''txt'', ''xml'', ''cfg'', ''ini'', ''log'', ''yaml'', ''yml'', ''toml'']"

definition is_domain :: "string \<Rightarrow> bool" where
  "is_domain candidate =
     (let s = trim candidate in
      if s = [] \<or> contains_str s ''://'' \<or> CHR ''/'' \<in> set s \<or> CHR 0x5C \<in> set s \<or> parse_ip s \<noteq> None
      then False
      else if (case rsplit_once (CHR ''.'') s of
                 Some (pre, ext) \<Rightarrow> to_ascii_lowercase ext \<in> set blocked_ext
               | None \<Rightarrow> False)
      then False
      else list_all (\<lambda>label. label \<noteq> []
                       \<and> list_all (\<lambda>c. is_ascii_alphanumeric c \<or> c = CHR ''-'') label)
             (split_on (\<lambda>c. c = CHR ''.'') s)
           \<and> list_ex is_ascii_alphabetic s)"

definition push_domain_if_needed :: "string \<Rightarrow> string list \<Rightarrow> string list" where
  "push_domain_if_needed candidate ds =
     (let c = trim candidate in if is_domain c \<and> c \<notin> set ds then ds @ [c] else ds)"

definition merge_protect_domains :: "string list \<Rightarrow> string list \<Rightarrow> string list" where
  "merge_protect_domains source target = fold push_domain_if_needed source target"

definition nonempty :: "string \<Rightarrow> string option" where
  "nonempty v = (let v = trim v in if v = [] then None else Some v)"

section \<open>Facts\<close>

lemma success_empty [simp]: "success empty_result"
  by (simp add: success_def empty_result_def)

lemma success_check_error [simp]: "success (check_error b e r) \<longleftrightarrow> \<not> b \<and> success r"
  by (simp add: check_error_def success_def push_error_def)

lemma nonempty_Some [simp]: "nonempty v = Some s \<longleftrightarrow> s = trim v \<and> s \<noteq> []"
  by (auto simp: nonempty_def Let_def)

text \<open>\<open>doms_ok\<close> is the invariant of \<open>protect_domain_list\<close>: trimmed domains, none twice.\<close>

definition doms_ok :: "string list \<Rightarrow> bool" where
  "doms_ok ds \<longleftrightarrow> distinct ds \<and> list_all (\<lambda>d. is_domain d \<and> trim d = d) ds"

lemma doms_ok_Nil [simp]: "doms_ok []"
  by (simp add: doms_ok_def)

lemma doms_ok_push [simp]: "doms_ok ds \<Longrightarrow> doms_ok (push_domain_if_needed c ds)"
  by (simp add: doms_ok_def push_domain_if_needed_def Let_def)

lemma doms_ok_merge [simp]: "doms_ok ds \<Longrightarrow> doms_ok (merge_protect_domains src ds)"
  unfolding merge_protect_domains_def by (induction src arbitrary: ds) simp_all

lemma push_domain_mono: "set ds \<subseteq> set (push_domain_if_needed c ds)"
  by (auto simp: push_domain_if_needed_def Let_def)

lemma merge_mono: "set ds \<subseteq> set (merge_protect_domains src ds)"
proof (induction src arbitrary: ds)
  case (Cons c src)
  show ?case
    using Cons.IH[of "push_domain_if_needed c ds"] push_domain_mono[of ds c]
    by (auto simp: merge_protect_domains_def)
qed (simp add: merge_protect_domains_def)

lemma set_merge:
  "doms_ok src \<Longrightarrow> set (merge_protect_domains src ds) = set ds \<union> set src"
proof (induction src arbitrary: ds)
  case (Cons c src)
  then have c: "is_domain c" "trim c = c" and src: "doms_ok src"
    by (auto simp: doms_ok_def)
  have "set (push_domain_if_needed c ds) = insert c (set ds)"
    using c by (auto simp: push_domain_if_needed_def Let_def)
  then show ?case
    using Cons.IH[OF src, of "push_domain_if_needed c ds"]
    by (simp add: merge_protect_domains_def)
qed (simp add: merge_protect_domains_def)

text \<open>What a successful validation of an ordinary node means.\<close>

lemma validate_node_basic:
  assumes "success (validate_node X item core)" and "\<not> is_complex_type (config_type item)"
  shows "trim (address item) \<noteq> [] \<and> valid_port (port item)"
proof -
  have "config_type item \<noteq> Ct_Custom \<and> \<not> is_group_type (config_type item)"
    using assms(2) by (auto simp: is_complex_type_def is_group_type_def)
  then show ?thesis
    using assms(1)
    by (auto simp: validate_node_def tls_errors_def credential_errors_def transport_errors_def
        valid_port_def Let_def split: option.splits profile_protocol.splits if_splits)
qed

lemma validate_node_supported:
  assumes "success (validate_node X item Core_sing_box)" and "\<not> is_complex_type (config_type item)"
  shows "singbox_supports_config_type (config_type item)
     \<and> get_network item \<notin> set SINGBOX_UNSUPPORTED_TRANSPORTS
     \<and> (singbox_transport_supported_protocol (config_type item) \<or> get_network item = DEFAULT_NETWORK)"
proof -
  have "config_type item \<noteq> Ct_Custom \<and> \<not> is_group_type (config_type item)"
    using assms(2) by (auto simp: is_complex_type_def is_group_type_def)
  then show ?thesis
    using assms(1)
    by (auto simp: validate_node_def tls_errors_def credential_errors_def transport_errors_def
        Let_def split: option.splits profile_protocol.splits if_splits)
qed

end
