(* ===== verification/Digraph.thy ===== *)
theory Digraph
  imports Main
begin

text \<open>
  Facts on finite directed graphs shared by the group validation and the context
  builder: both walk the child relation of groups depth first.
\<close>

text \<open>The vertices from which no walk reaches a vertex of \<open>V\<close> or runs into a cycle.\<close>

definition clean_from :: "('a \<times> 'a) set \<Rightarrow> 'a set \<Rightarrow> 'a \<Rightarrow> bool" where
  "clean_from E V a \<longleftrightarrow> (\<forall>b. (a, b) \<in> E\<^sup>* \<longrightarrow> b \<notin> V \<and> (b, b) \<notin> E\<^sup>+)"

lemma clean_from_step:
  "clean_from E V a \<longleftrightarrow> a \<notin> V \<and> (\<forall>c. (a, c) \<in> E \<longrightarrow> clean_from E (insert a V) c)"
proof
  assume a: "clean_from E V a"
  have "clean_from E (insert a V) c" if "(a, c) \<in> E" for c
    unfolding clean_from_def
  proof (intro allI impI conjI)
    fix b assume b: "(c, b) \<in> E\<^sup>*"
    with that have ab: "(a, b) \<in> E\<^sup>+" by (rule rtrancl_into_trancl2)
    then have "b \<notin> V \<and> (b, b) \<notin> E\<^sup>+" using a by (simp add: clean_from_def trancl_into_rtrancl)
    moreover have "(a, a) \<notin> E\<^sup>+" using a by (simp add: clean_from_def)
    ultimately show "b \<notin> insert a V" and "(b, b) \<notin> E\<^sup>+" using ab by auto
  qed
  then show "a \<notin> V \<and> (\<forall>c. (a, c) \<in> E \<longrightarrow> clean_from E (insert a V) c)"
    using a by (simp add: clean_from_def)
next
  assume h: "a \<notin> V \<and> (\<forall>c. (a, c) \<in> E \<longrightarrow> clean_from E (insert a V) c)"
  have below: "b \<notin> insert a V \<and> (b, b) \<notin> E\<^sup>+" if ab: "(a, b) \<in> E\<^sup>+" for b
  proof -
    obtain c where "(a, c) \<in> E" "(c, b) \<in> E\<^sup>*" using tranclD[OF ab] by blast
    then show ?thesis using h by (simp add: clean_from_def)
  qed
  have "(a, a) \<notin> E\<^sup>+" using below[of a] by blast
  show "clean_from E V a"
    unfolding clean_from_def
  proof (intro allI impI)
    fix b assume "(a, b) \<in> E\<^sup>*"
    then have "b = a \<or> (a, b) \<in> E\<^sup>+" by (auto dest: rtranclD)
    then show "b \<notin> V \<and> (b, b) \<notin> E\<^sup>+"
      using h below[of b] \<open>(a, a) \<notin> E\<^sup>+\<close> by blast
  qed
qed

lemma clean_from_acyclic: "clean_from E {} a \<Longrightarrow> (a, b) \<in> E\<^sup>* \<Longrightarrow> (b, b) \<notin> E\<^sup>+"
  by (simp add: clean_from_def)

text \<open>
  Replacing the edges that leave \<open>n\<close> keeps a graph acyclic when the new edges lead into
  a set that is closed under the edges and does not contain \<open>n\<close>.
\<close>

definition redirect :: "'a \<Rightarrow> 'a set \<Rightarrow> ('a \<times> 'a) set \<Rightarrow> ('a \<times> 'a) set" where
  "redirect n C E = {(a, b). (a, b) \<in> E \<and> a \<noteq> n} \<union> {n} \<times> C"

lemma closed_rtrancl:
  "(a, b) \<in> E\<^sup>* \<Longrightarrow> a \<in> S \<Longrightarrow> (\<And>x y. x \<in> S \<Longrightarrow> (x, y) \<in> E \<Longrightarrow> y \<in> S) \<Longrightarrow> b \<in> S"
  by (induction rule: rtrancl_induct) auto

lemma acyclic_redirect:
  assumes ac: "acyclic E" and closed: "\<And>x y. x \<in> S \<Longrightarrow> (x, y) \<in> E \<Longrightarrow> y \<in> S"
    and n: "n \<notin> S" and C: "C \<subseteq> S"
  shows "acyclic (redirect n C E)"
proof -
  let ?E = "redirect n C E" and ?D = "{(a, b). (a, b) \<in> E \<and> a \<noteq> n}"
  have cl: "\<And>x y. x \<in> S \<Longrightarrow> (x, y) \<in> ?E \<Longrightarrow> y \<in> S"
    using closed n by (auto simp: redirect_def)
  have never: "(n, n) \<notin> ?E\<^sup>+"
  proof
    assume "(n, n) \<in> ?E\<^sup>+"
    then obtain c where "(n, c) \<in> ?E" "(c, n) \<in> ?E\<^sup>*" by (auto dest: tranclD)
    moreover from this have "c \<in> S" using C by (auto simp: redirect_def)
    ultimately show False using closed_rtrancl[of c n ?E S] cl n by blast
  qed
  have split: "(x, y) \<in> ?D\<^sup>+ \<or> ((x, n) \<in> ?E\<^sup>* \<and> (n, y) \<in> ?E\<^sup>+)"
    if "(x, y) \<in> ?E\<^sup>+" for x y
    using that
  proof (induction rule: trancl_induct)
    case (base y)
    then show ?case by (cases "x = n") (auto simp: redirect_def)
  next
    case (step y z)
    show ?case
    proof (cases "y = n")
      case True
      with step.hyps show ?thesis by (auto intro: trancl_into_rtrancl)
    next
      case False
      with step.hyps(2) have "(y, z) \<in> ?D" by (auto simp: redirect_def)
      with step.IH step.hyps(2) show ?thesis by (auto intro: trancl_into_trancl)
    qed
  qed
  have sub: "?D\<^sup>+ \<subseteq> E\<^sup>+" by (rule trancl_mono_subset) auto
  have "(x, x) \<notin> ?E\<^sup>+" for x
  proof
    assume xx: "(x, x) \<in> ?E\<^sup>+"
    then consider "(x, x) \<in> E\<^sup>+" | "(x, n) \<in> ?E\<^sup>*" "(n, x) \<in> ?E\<^sup>+"
      using split[OF xx] sub by blast
    then show False
    proof cases
      case 1
      with ac show False by (simp add: acyclic_def)
    next
      case 2
      then have "(n, n) \<in> ?E\<^sup>+" by (rule trancl_rtrancl_trancl[rotated])
      with never show False by blast
    qed
  qed
  then show ?thesis by (simp add: acyclic_def)
qed

end
