(* ===== verification/GroupProfiles.thy ===== *)
theory GroupProfiles
  imports Validation Digraph
begin

text \<open>
  \<open>groups.rs\<close>: the child lists of policy groups and proxy chains, the validation of a
  group against the stored profiles with its depth-first cycle search, and the preview
  extracted from a generated configuration.
\<close>

section \<open>Data\<close>

record group_child_candidate =
  gc_index_id :: string
  gc_remarks :: string
  gc_address :: string
  gc_config_type :: config_kind
  gc_subscription_id :: "string option"
  gc_is_group :: bool
  gc_selectable :: bool
  gc_reason :: "string option"

record group_validation_result =
  gv_valid :: bool
  normalized_child_items :: string
  gv_child_index_ids :: "string list"
  gv_errors :: "string list"
  gv_warnings :: "string list"

definition default_group_validation :: group_validation_result where
  "default_group_validation =
     \<lparr>gv_valid = False, normalized_child_items = [], gv_child_index_ids = [], gv_errors = [],
      gv_warnings = []\<rparr>"

record group_preview_route =
  gp_tag :: string
  gp_kind :: string
  gp_dialer_proxy :: "string option"
  gp_download_dialer_proxy :: "string option"
  gp_detour :: "string option"
  gp_outbounds :: "string list"

record group_preview =
  gp_validation :: group_validation_result
  gp_singbox_routes :: "group_preview_route list"

section \<open>Child lists\<close>

definition parse_profile_id_list :: "string option \<Rightarrow> string list" where
  "parse_profile_id_list v =
     (case opt_filter (\<lambda>s. s \<noteq> []) (map_option trim v) of
        None \<Rightarrow> []
      | Some s \<Rightarrow> List.map_filter nonempty (split_on is_comma (filter (\<lambda>c. \<not> is_newline c) s)))"

definition join_profile_id_list :: "string list \<Rightarrow> string" where
  "join_profile_id_list ids = join_with '','' ids"

definition list_group_child_candidates ::
    "profile_item list \<Rightarrow> string option \<Rightarrow> string option \<Rightarrow> group_child_candidate list" where
  "list_group_child_candidates profiles current flt =
     (let current = Option.bind current nonempty;
          flt = unwrap_or (map_option to_ascii_lowercase (Option.bind flt nonempty)) []
      in map
           (\<lambda>p. let is_self = (current = Some (index_id p)) in
              \<lparr>gc_index_id = index_id p, gc_remarks = remarks p, gc_address = address p,
               gc_config_type = config_type p, gc_subscription_id = subscription_id p,
               gc_is_group = is_group_type (config_type p), gc_selectable = \<not> is_self,
               gc_reason = (if is_self then Some ''current group cannot be its own child'' else None)\<rparr>)
           (filter
              (\<lambda>p. flt = [] \<or> contains_str (to_ascii_lowercase (remarks p)) flt
                   \<or> contains_str (to_ascii_lowercase (address p)) flt
                   \<or> contains_str (to_ascii_lowercase (index_id p)) flt)
              profiles))"

definition profiles_by_id :: "profile_item list \<Rightarrow> (string, profile_item) btree_map" where
  "profiles_by_id profiles =
     bt_of_list (map (\<lambda>p. (index_id p, p)) (filter (\<lambda>p. trim (index_id p) \<noteq> []) profiles))"

definition effective_profile_id :: "profile_item \<Rightarrow> string" where
  "effective_profile_id p = unwrap_or (nonempty (index_id p)) ''__draft_group__''"

definition add_error :: "string \<Rightarrow> group_validation_result \<Rightarrow> group_validation_result" where
  "add_error e r = r\<lparr>gv_errors := gv_errors r @ [e]\<rparr>"

definition push_unique_child ::
    "string \<Rightarrow> string list \<times> string set \<times> group_validation_result
       \<Rightarrow> string list \<times> string set \<times> group_validation_result" where
  "push_unique_child child = (\<lambda>(ids, seen, r).
     if child \<notin> seen then (ids @ [child], insert child seen, r)
     else (let w = ''duplicate child profile ignored: '' @ child in
           (ids, seen, if w \<in> set (gv_warnings r) then r
                       else r\<lparr>gv_warnings := gv_warnings r @ [w]\<rparr>)))"

definition push_explicit_child ::
    "(string, profile_item) btree_map \<Rightarrow> bool \<Rightarrow> string
       \<Rightarrow> string list \<times> string set \<times> group_validation_result
       \<Rightarrow> string list \<times> string set \<times> group_validation_result" where
  "push_explicit_child m report_missing child = (\<lambda>(ids, seen, r).
     if \<not> bt_contains m child
     then (ids, seen,
           if report_missing then add_error (''child profile was not found: '' @ child) r else r)
     else push_unique_child child (ids, seen, r))"

definition subscription_children ::
    "externals \<Rightarrow> profile_item \<Rightarrow> (string, profile_item) btree_map \<Rightarrow> profile_item list" where
  "subscription_children X p m =
     (case protocol p of
        Pp_PolicyGroup ids (Some sub) flt strategy \<Rightarrow>
          filter (\<lambda>c. subscription_id c = Some sub \<and> \<not> is_complex_type (config_type c)
                      \<and> filter_accepts X flt (remarks c))
            (bt_values m)
      | _ \<Rightarrow> [])"

definition effective_child_ids ::
    "externals \<Rightarrow> profile_item \<Rightarrow> (string, profile_item) btree_map
       \<Rightarrow> group_validation_result \<Rightarrow> bool \<Rightarrow> string list \<times> group_validation_result" where
  "effective_child_ids X p m r report_missing =
     (let st = fold (push_explicit_child m report_missing) (child_profile_ids (protocol p)) ([], {}, r);
          (ids, seen, r) = fold (\<lambda>c. push_unique_child (index_id c)) (subscription_children X p m) st
      in (ids, r))"

section \<open>Cycle search and validation\<close>

function detect_cycle ::
    "externals \<Rightarrow> (string, profile_item) btree_map \<Rightarrow> string \<Rightarrow> string set \<Rightarrow> string list
       \<Rightarrow> group_validation_result \<Rightarrow> group_validation_result" where
  "detect_cycle X m idx visiting stack r =
     (if idx \<in> visiting
      then (if idx \<in> set stack
            then add_error (''group cycle dependency: ''
                   @ join_with '' -> '' (dropWhile (\<lambda>s. s \<noteq> idx) stack @ [idx])) r
            else r)
      else case bt_get m idx of
        None \<Rightarrow> r
      | Some p \<Rightarrow>
          (if \<not> is_group_type (config_type p) then r
           else (case effective_child_ids X p m r False of
              (ids, r) \<Rightarrow>
                fold (\<lambda>c. detect_cycle X m c (insert idx visiting) (stack @ [idx])) ids r)))"
  by pat_completeness auto
termination
proof (relation "measure (\<lambda>(X, m, idx, visiting, stack, r). card (set (bt_keys m) - visiting))")
  fix X :: externals and m :: "(string, profile_item) btree_map" and idx visiting
    and stack :: "string list" and p x ids r0 c r
  assume "idx \<notin> visiting" and p: "bt_get m idx = Some p"
  then have "idx \<in> set (bt_keys m) - visiting"
    using bt_get_None_iff[of m idx] by auto
  then have "set (bt_keys m) - insert idx visiting \<subset> set (bt_keys m) - visiting" by blast
  then have "card (set (bt_keys m) - insert idx visiting) < card (set (bt_keys m) - visiting)"
    by (intro psubset_card_mono) simp_all
  then show "((X, m, c, insert idx visiting, stack @ [idx], r), (X, m, idx, visiting, stack, x))
      \<in> measure (\<lambda>(X, m, idx, visiting, stack, r). card (set (bt_keys m) - visiting))"
    by simp
qed simp

declare detect_cycle.simps [simp del]

definition group_kind_label :: "config_kind \<Rightarrow> string" where
  "group_kind_label t =
     (case t of Ct_PolicyGroup \<Rightarrow> ''policy group'' | Ct_ProxyChain \<Rightarrow> ''proxy chain'' | _ \<Rightarrow> ''group'')"

definition validation_map :: "profile_item \<Rightarrow> profile_item list \<Rightarrow> (string, profile_item) btree_map" where
  "validation_map p profiles =
     (let root_id = effective_profile_id p
      in bt_insert root_id (p\<lparr>index_id := root_id\<rparr>) (profiles_by_id profiles))"

definition check_has_child ::
    "config_kind \<Rightarrow> string list \<Rightarrow> group_validation_result \<Rightarrow> group_validation_result" where
  "check_has_child t ids r =
     (if ids = [] then add_error (group_kind_label t @ '' has no valid child profiles'') r else r)"

definition warn_single_hop ::
    "config_kind \<Rightarrow> string list \<Rightarrow> group_validation_result \<Rightarrow> group_validation_result" where
  "warn_single_hop t ids r =
     (if t = Ct_ProxyChain \<and> length ids = 1
      then r\<lparr>gv_warnings := gv_warnings r
             @ [''proxy chain has one hop; two or more hops are needed to chain traffic'']\<rparr>
      else r)"

definition validate_group_profile ::
    "externals \<Rightarrow> profile_item \<Rightarrow> profile_item list \<Rightarrow> group_validation_result" where
  "validate_group_profile X p profiles =
     (let r = default_group_validation\<lparr>gv_valid := True\<rparr> in
      if \<not> is_group_type (config_type p)
      then (add_error ''profile is not a policy group or proxy chain'' r)\<lparr>gv_valid := False\<rparr>
      else
        (let m = validation_map p profiles;
             (ids, r) = effective_child_ids X p m r True;
             r = warn_single_hop (config_type p) ids (check_has_child (config_type p) ids r);
             r = detect_cycle X m (effective_profile_id p) {} [] r;
             r = r\<lparr>gv_child_index_ids := ids, normalized_child_items := join_profile_id_list ids\<rparr>
         in r\<lparr>gv_valid := (gv_errors r = [])\<rparr>))"

section \<open>Preview\<close>

definition is_preview_tag :: "string \<Rightarrow> bool" where
  "is_preview_tag tag \<longleftrightarrow>
     tag = ''proxy'' \<or> tag = ''proxy-auto'' \<or> starts_with tag ''proxy-''
     \<or> starts_with tag ''chain-proxy'' \<or> contains_str tag ''-clone-''"

definition string_array :: "json \<Rightarrow> string list" where
  "string_array v = List.map_filter json_as_str (unwrap_or (json_as_array v) [])"

definition preview_route :: "json \<Rightarrow> group_preview_route option" where
  "preview_route outbound =
     (case Option.bind (json_get ''tag'' outbound) json_as_str of
        None \<Rightarrow> None
      | Some tag \<Rightarrow>
          (if \<not> is_preview_tag tag then None
           else Some
             \<lparr>gp_tag = tag,
              gp_kind = unwrap_or (Option.bind (json_get ''type'' outbound) json_as_str) [],
              gp_dialer_proxy = None, gp_download_dialer_proxy = None,
              gp_detour = Option.bind (json_get ''detour'' outbound) json_as_str,
              gp_outbounds = unwrap_or (map_option string_array (json_get ''outbounds'' outbound)) []\<rparr>))"

definition extract_singbox_routes :: "json \<Rightarrow> group_preview_route list" where
  "extract_singbox_routes v =
     List.map_filter preview_route
       (unwrap_or (Option.bind (json_get ''outbounds'' v) json_as_array) []
        @ unwrap_or (Option.bind (json_get ''endpoints'' v) json_as_array) [])"

definition group_preview_from_values ::
    "group_validation_result \<Rightarrow> json option \<Rightarrow> group_preview" where
  "group_preview_from_values validation singbox =
     \<lparr>gp_validation = validation,
      gp_singbox_routes = unwrap_or (map_option extract_singbox_routes singbox) []\<rparr>"

section \<open>Facts about child lists\<close>

lemma push_unique_child_errors:
  "push_unique_child c (ids, seen, r) = (ids', seen', r') \<Longrightarrow> gv_errors r' = gv_errors r"
  by (auto simp: push_unique_child_def Let_def split: if_splits)

lemma add_error_errors [simp]: "gv_errors (add_error e r) = gv_errors r @ [e]"
  by (simp add: add_error_def)

text \<open>\<open>children_ok\<close> is the loop invariant of both child loops: \<open>seen\<close> is the set of the list.\<close>

definition children_ok :: "string list \<times> string set \<times> group_validation_result \<Rightarrow> bool" where
  "children_ok = (\<lambda>(ids, seen, r). distinct ids \<and> set ids = seen)"

lemma push_unique_child_step:
  "children_ok (ids, seen, r) \<Longrightarrow>
     \<exists>ids' r'. push_unique_child c (ids, seen, r) = (ids', insert c seen, r')
       \<and> children_ok (ids', insert c seen, r') \<and> gv_errors r' = gv_errors r"
  by (auto simp: push_unique_child_def children_ok_def Let_def)

lemma fold_push_unique:
  "children_ok (ids, seen, r) \<Longrightarrow>
     \<exists>ids' r'. fold (\<lambda>c. push_unique_child (f c)) cs (ids, seen, r) = (ids', seen \<union> f ` set cs, r')
       \<and> children_ok (ids', seen \<union> f ` set cs, r') \<and> gv_errors r' = gv_errors r"
proof (induction cs arbitrary: ids seen r)
  case (Cons c cs)
  obtain ids1 r1 where 1: "push_unique_child (f c) (ids, seen, r) = (ids1, insert (f c) seen, r1)"
    "children_ok (ids1, insert (f c) seen, r1)" "gv_errors r1 = gv_errors r"
    using push_unique_child_step[OF Cons.prems, of "f c"] by blast
  then show ?case using Cons.IH[OF 1(2)] by simp
qed simp

lemma push_explicit_child_in:
  "bt_contains m c \<Longrightarrow> push_explicit_child m rep c st = push_unique_child c st"
  by (cases st) (simp add: push_explicit_child_def)

lemma push_explicit_child_out:
  "\<not> bt_contains m c \<Longrightarrow> push_explicit_child m rep c (ids, seen, r)
     = (ids, seen, if rep then add_error (''child profile was not found: '' @ c) r else r)"
  by (simp add: push_explicit_child_def)

definition missing_errors :: "(string, profile_item) btree_map \<Rightarrow> string list \<Rightarrow> string list" where
  "missing_errors m cs =
     map (\<lambda>c. ''child profile was not found: '' @ c) (filter (\<lambda>c. \<not> bt_contains m c) cs)"

lemma fold_push_explicit:
  "children_ok (ids, seen, r) \<Longrightarrow>
     \<exists>ids' r'. fold (push_explicit_child m rep) cs (ids, seen, r)
         = (ids', seen \<union> {c \<in> set cs. bt_contains m c}, r')
       \<and> children_ok (ids', seen \<union> {c \<in> set cs. bt_contains m c}, r')
       \<and> gv_errors r' = gv_errors r @ (if rep then missing_errors m cs else [])"
proof (induction cs arbitrary: ids seen r)
  case Nil
  then show ?case by (simp add: missing_errors_def)
next
  case (Cons c cs)
  show ?case
  proof (cases "bt_contains m c")
    case True
    obtain ids1 r1 where 1: "push_unique_child c (ids, seen, r) = (ids1, insert c seen, r1)"
      "children_ok (ids1, insert c seen, r1)" "gv_errors r1 = gv_errors r"
      using push_unique_child_step[OF Cons.prems, of c] by blast
    moreover have "insert c seen \<union> {x \<in> set cs. bt_contains m x}
        = seen \<union> {x \<in> set (c # cs). bt_contains m x}" using True by auto
    ultimately show ?thesis
      using Cons.IH[OF 1(2)] True
      by (cases rep) (simp_all add: push_explicit_child_in missing_errors_def)
  next
    case False
    let ?r = "if rep then add_error (''child profile was not found: '' @ c) r else r"
    have "children_ok (ids, seen, ?r)" using Cons.prems by (simp add: children_ok_def)
    moreover have "{x \<in> set cs. bt_contains m x} = {x \<in> set (c # cs). bt_contains m x}"
      using False by auto
    ultimately show ?thesis
      using Cons.IH[of ids seen ?r] False
      by (cases rep) (simp_all add: push_explicit_child_out missing_errors_def)
  qed
qed

text \<open>The set of effective children, and the specification of the two loops.\<close>

definition child_set ::
    "externals \<Rightarrow> (string, profile_item) btree_map \<Rightarrow> profile_item \<Rightarrow> string set" where
  "child_set X m p =
     {c \<in> set (child_profile_ids (protocol p)). bt_contains m c}
     \<union> index_id ` set (subscription_children X p m)"

lemma effective_child_ids_spec:
  "\<exists>ids r'. effective_child_ids X p m r rep = (ids, r') \<and> distinct ids \<and> set ids = child_set X m p
     \<and> gv_errors r' = gv_errors r
         @ (if rep then missing_errors m (child_profile_ids (protocol p)) else [])"
proof -
  have ok: "children_ok ([], {}, r)" by (simp add: children_ok_def)
  obtain ids1 seen1 r1 where
    1: "fold (push_explicit_child m rep) (child_profile_ids (protocol p)) ([], {}, r) = (ids1, seen1, r1)"
    and ok1: "children_ok (ids1, seen1, r1)"
    and s1: "seen1 = {c \<in> set (child_profile_ids (protocol p)). bt_contains m c}"
    and e1: "gv_errors r1 = gv_errors r
      @ (if rep then missing_errors m (child_profile_ids (protocol p)) else [])"
    using fold_push_explicit[OF ok, of m rep "child_profile_ids (protocol p)"] by auto
  obtain ids2 seen2 r2 where
    2: "fold (\<lambda>c. push_unique_child (index_id c)) (subscription_children X p m) (ids1, seen1, r1)
      = (ids2, seen2, r2)"
    and ok2: "children_ok (ids2, seen2, r2)"
    and s2: "seen2 = seen1 \<union> index_id ` set (subscription_children X p m)"
    and e2: "gv_errors r2 = gv_errors r1"
    using fold_push_unique[OF ok1, of index_id "subscription_children X p m"] by auto
  have "effective_child_ids X p m r rep = (ids2, r2)"
    by (simp add: effective_child_ids_def Let_def 1 2)
  moreover have "distinct ids2" and "set ids2 = child_set X m p"
    using ok2 s1 s2 by (auto simp: children_ok_def child_set_def)
  ultimately show ?thesis using e1 e2 by simp
qed

section \<open>The cycle search decides reachability of a cycle\<close>

definition group_edges ::
    "externals \<Rightarrow> (string, profile_item) btree_map \<Rightarrow> (string \<times> string) set" where
  "group_edges X m =
     {(a, b). \<exists>p. bt_get m a = Some p \<and> is_group_type (config_type p) \<and> b \<in> child_set X m p}"

definition grows :: "group_validation_result \<Rightarrow> group_validation_result \<Rightarrow> bool" where
  "grows r r' \<longleftrightarrow> (\<exists>es. gv_errors r' = gv_errors r @ es)"

lemma grows_refl [simp]: "grows r r" by (simp add: grows_def)

lemma grows_trans: "grows r r' \<Longrightarrow> grows r' r'' \<Longrightarrow> grows r r''"
  by (auto simp: grows_def)

lemma grows_eq: "grows r r' \<Longrightarrow> grows r' r'' \<Longrightarrow>
    gv_errors r'' = gv_errors r \<longleftrightarrow> gv_errors r' = gv_errors r \<and> gv_errors r'' = gv_errors r'"
  by (auto simp: grows_def)

lemma fold_grows:
  assumes "\<And>c r. c \<in> set cs \<Longrightarrow> grows r (f c r) \<and> (gv_errors (f c r) = gv_errors r \<longleftrightarrow> P c)"
  shows "grows r (fold f cs r) \<and> (gv_errors (fold f cs r) = gv_errors r \<longleftrightarrow> (\<forall>c \<in> set cs. P c))"
  using assms
proof (induction cs arbitrary: r)
  case (Cons c cs)
  have h: "grows r (f c r)" "gv_errors (f c r) = gv_errors r \<longleftrightarrow> P c" using Cons.prems by auto
  have t: "grows (f c r) (fold f cs (f c r))"
    "gv_errors (fold f cs (f c r)) = gv_errors (f c r) \<longleftrightarrow> (\<forall>c \<in> set cs. P c)"
    using Cons.IH[of "f c r"] Cons.prems by auto
  show ?case using grows_trans[OF h(1) t(1)] grows_eq[OF h(1) t(1)] h(2) t(2) by simp
qed simp

lemma detect_cycle_spec:
  "set stack = visiting \<Longrightarrow>
     grows r (detect_cycle X m idx visiting stack r)
     \<and> (gv_errors (detect_cycle X m idx visiting stack r) = gv_errors r
          \<longleftrightarrow> clean_from (group_edges X m) visiting idx)"
proof (induction X m idx visiting stack r rule: detect_cycle.induct)
  case (1 X m idx visiting stack r)
  let ?E = "group_edges X m"
  show ?case
  proof (cases "idx \<in> visiting")
    case True
    with "1.prems" show ?thesis
      by (subst (1 2) detect_cycle.simps) (auto simp: grows_def clean_from_step[of _ _ idx])
  next
    case out: False
    show ?thesis
    proof (cases "\<exists>p. bt_get m idx = Some p \<and> is_group_type (config_type p)")
      case False
      then have "\<forall>c. (idx, c) \<notin> ?E" by (auto simp: group_edges_def)
      moreover have "detect_cycle X m idx visiting stack r = r"
        using False out by (subst detect_cycle.simps) (auto split: option.split)
      ultimately show ?thesis using out by (simp add: clean_from_step[of _ _ idx])
    next
      case True
      then obtain p where p: "bt_get m idx = Some p" "is_group_type (config_type p)" by blast
      obtain ids r1 where e: "effective_child_ids X p m r False = (ids, r1)"
        and ids: "set ids = child_set X m p" and r1: "gv_errors r1 = gv_errors r"
        using effective_child_ids_spec[of X p m r False] by auto
      let ?f = "\<lambda>c. detect_cycle X m c (insert idx visiting) (stack @ [idx])"
      have "grows r' (?f c r') \<and> (gv_errors (?f c r') = gv_errors r'
          \<longleftrightarrow> clean_from ?E (insert idx visiting) c)" if "c \<in> set ids" for c r'
        using "1.IH"[OF out p(1) _ e[symmetric] that, of r'] p(2) "1.prems" by simp
      then have "grows r1 (fold ?f ids r1) \<and> (gv_errors (fold ?f ids r1) = gv_errors r1
          \<longleftrightarrow> (\<forall>c \<in> set ids. clean_from ?E (insert idx visiting) c))"
        by (rule fold_grows)
      moreover have "detect_cycle X m idx visiting stack r = fold ?f ids r1"
        using out p e by (subst detect_cycle.simps) simp
      moreover have "(idx, c) \<in> ?E \<longleftrightarrow> c \<in> set ids" for c
        using p ids by (auto simp: group_edges_def)
      ultimately show ?thesis
        using out r1 by (simp add: clean_from_step[of _ _ idx] grows_def Ball_def)
    qed
  qed
qed

section \<open>Properties\<close>

lemma validation_map_keys: "(k, q) \<in> set (validation_map p profiles) \<Longrightarrow> index_id q = k"
  using set_bt_insert[of "effective_profile_id p" "p\<lparr>index_id := effective_profile_id p\<rparr>"
      "profiles_by_id profiles"]
    set_bt_of_list[of "map (\<lambda>p. (index_id p, p)) (filter (\<lambda>p. trim (index_id p) \<noteq> []) profiles)"]
  by (auto simp: validation_map_def profiles_by_id_def Let_def)

lemma validation_map_root:
  "bt_get (validation_map p profiles) (effective_profile_id p)
     = Some (p\<lparr>index_id := effective_profile_id p\<rparr>)"
  by (simp add: validation_map_def Let_def bt_get_insert)

lemma child_set_in_map:
  "child_set X (validation_map p profiles) q \<subseteq> set (bt_keys (validation_map p profiles))"
proof -
  have "index_id c \<in> set (bt_keys (validation_map p profiles))"
    if "c \<in> set (subscription_children X q (validation_map p profiles))" for c
  proof -
    have "c \<in> set (bt_values (validation_map p profiles))"
      using that by (auto simp: subscription_children_def split: profile_protocol.splits option.splits)
    then obtain k where k: "(k, c) \<in> set (validation_map p profiles)" by (auto simp: bt_values_def)
    then show ?thesis using validation_map_keys[OF k] by (force simp: bt_keys_def)
  qed
  then show ?thesis by (auto simp: child_set_def bt_contains_def)
qed

text \<open>The result of a validation, in terms of the child set and the graph of groups.\<close>

lemma validate_group_profile_spec:
  fixes p :: profile_item and profiles :: "profile_item list"
  assumes "is_group_type (config_type p)"
  defines "m \<equiv> validation_map p profiles" and "root \<equiv> effective_profile_id p"
  shows "\<exists>ids. gv_child_index_ids (validate_group_profile X p profiles) = ids
     \<and> distinct ids \<and> set ids = child_set X m p
     \<and> normalized_child_items (validate_group_profile X p profiles) = join_profile_id_list ids
     \<and> (gv_valid (validate_group_profile X p profiles) \<longleftrightarrow>
          missing_errors m (child_profile_ids (protocol p)) = [] \<and> ids \<noteq> []
          \<and> clean_from (group_edges X m) {} root)"
proof -
  obtain ids r1 where e: "effective_child_ids X p m (default_group_validation\<lparr>gv_valid := True\<rparr>) True
      = (ids, r1)" and ids: "distinct ids" "set ids = child_set X m p"
    and r1: "gv_errors r1 = missing_errors m (child_profile_ids (protocol p))"
    using effective_child_ids_spec[of X p m "default_group_validation\<lparr>gv_valid := True\<rparr>" True]
    by (auto simp: default_group_validation_def)
  define r3 where "r3 = warn_single_hop (config_type p) ids (check_has_child (config_type p) ids r1)"
  have r3: "gv_errors r3 = [] \<longleftrightarrow>
      missing_errors m (child_profile_ids (protocol p)) = [] \<and> ids \<noteq> []"
    by (simp add: r3_def warn_single_hop_def check_has_child_def r1)
  have d: "grows r3 (detect_cycle X m root {} [] r3)"
    "gv_errors (detect_cycle X m root {} [] r3) = gv_errors r3 \<longleftrightarrow> clean_from (group_edges X m) {} root"
    using detect_cycle_spec[of "[]" "{}" r3 X m root] by auto
  have "gv_errors (detect_cycle X m root {} [] r3) = [] \<longleftrightarrow>
      gv_errors r3 = [] \<and> clean_from (group_edges X m) {} root"
    using d by (auto simp: grows_def)
  then show ?thesis
    using assms(1) e ids r3
    by (simp add: validate_group_profile_def m_def[symmetric] root_def[symmetric] Let_def
        r3_def[symmetric])
qed

text \<open>
  C3: a group profile is accepted exactly when it is a group, every child it names is
  a stored profile, it has a child at all, and no group reachable from it over the
  effective child lists (named children and the nodes of its source subscription)
  reaches itself. The search therefore terminates on every set of profiles and misses
  no cycle.
\<close>

theorem group_valid_iff:
  "gv_valid (validate_group_profile X p profiles) \<longleftrightarrow>
     is_group_type (config_type p)
     \<and> set (child_profile_ids (protocol p)) \<subseteq> set (bt_keys (validation_map p profiles))
     \<and> child_set X (validation_map p profiles) p \<noteq> {}
     \<and> clean_from (group_edges X (validation_map p profiles)) {} (effective_profile_id p)"
proof (cases "is_group_type (config_type p)")
  case True
  have "missing_errors m cs = [] \<longleftrightarrow> set cs \<subseteq> set (bt_keys m)" for m cs
    by (auto simp: missing_errors_def filter_empty_conv bt_contains_def)
  then show ?thesis using validate_group_profile_spec[OF True, of X profiles] True by auto
next
  case False
  then show ?thesis by (simp add: validate_group_profile_def Let_def)
qed

text \<open>
  An accepted group gets a child list without duplicates, not empty, made of stored
  profiles and never containing the group itself, and the normalized text joins that list.
\<close>

theorem group_valid_children:
  assumes "gv_valid (validate_group_profile X p profiles)"
  shows "distinct (gv_child_index_ids (validate_group_profile X p profiles))
     \<and> gv_child_index_ids (validate_group_profile X p profiles) \<noteq> []
     \<and> set (gv_child_index_ids (validate_group_profile X p profiles))
          \<subseteq> set (bt_keys (validation_map p profiles)) - {effective_profile_id p}
     \<and> normalized_child_items (validate_group_profile X p profiles)
          = join_profile_id_list (gv_child_index_ids (validate_group_profile X p profiles))"
proof -
  have g: "is_group_type (config_type p)"
    using assms by (cases "is_group_type (config_type p)") (simp_all add: validate_group_profile_def Let_def)
  let ?m = "validation_map p profiles" and ?root = "effective_profile_id p"
  have clean: "clean_from (group_edges X ?m) {} ?root"
    using validate_group_profile_spec[OF g, of X profiles] assms by auto
  have "(?root, ?root) \<notin> (group_edges X ?m)\<^sup>+"
    using clean_from_acyclic[OF clean, of ?root] by simp
  moreover have "?root \<in> child_set X ?m p \<Longrightarrow> (?root, ?root) \<in> group_edges X ?m"
    using g by (auto simp: group_edges_def validation_map_root config_type_def child_set_def
        subscription_children_def)
  ultimately have "?root \<notin> child_set X ?m p" by auto
  then show ?thesis
    using validate_group_profile_spec[OF g, of X profiles] assms child_set_in_map[of X p profiles p]
    by auto
qed

lemma group_valid_children_witness:
  "distinct (gv_child_index_ids (validate_group_profile no_externals
       (sample_group ''g'' [''a'', ''b'']) [sample_leaf ''a'', sample_leaf ''b'']))"
proof -
  have "gv_valid (validate_group_profile no_externals
       (sample_group ''g'' [''a'', ''b'']) [sample_leaf ''a'', sample_leaf ''b''])"
    by code_simp
  from group_valid_children[OF this] show ?thesis by (rule conjunct1)
qed

text \<open>
  The stored form of a child list round-trips: joining identifiers that carry no comma,
  line break or outer white space and splitting the text again gives the identifiers.
\<close>

theorem profile_id_list_roundtrip:
  assumes "list_all (\<lambda>i. i \<noteq> [] \<and> trim i = i \<and> list_all (\<lambda>c. \<not> is_comma c \<and> \<not> is_newline c) i) ids"
  shows "parse_profile_id_list (Some (join_profile_id_list ids)) = ids"
proof (cases "ids = []")
  case True
  then show ?thesis by (simp add: parse_profile_id_list_def join_profile_id_list_def opt_filter_def)
next
  case False
  let ?j = "join_with '','' ids"
  have comma: "\<forall>w \<in> set white_space. CHR '','' \<notin> set w" by (simp add: white_space_def)
  have t: "trim ?j = ?j"
    using assms by (intro trim_join False comma) (auto simp: list_all_iff)
  have "c \<in> set (join_with '','' xs) \<Longrightarrow> c = CHR '','' \<or> (\<exists>x \<in> set xs. c \<in> set x)" for c xs
    by (induction "'',''" xs rule: join_with.induct) auto
  then have "\<not> is_newline c" if "c \<in> set ?j" for c
    using assms that by (fastforce simp: list_all_iff is_newline_def)
  then have nl: "filter (\<lambda>c. \<not> is_newline c) ?j = ?j" by (simp add: filter_id_conv)
  have sp: "split_on is_comma ?j = ids"
    using split_join[OF False, of "CHR '',''"] assms by (auto simp: list_all_iff is_comma_def[abs_def])
  have ne: "?j \<noteq> []"
    using join_first[OF False, of "CHR '',''"] assms False by (cases ids) auto
  have "List.map_filter nonempty xs = xs" if "list_all (\<lambda>i. i \<noteq> [] \<and> trim i = i) xs" for xs
    using that by (induction xs) (auto simp: List.map_filter_simps nonempty_def Let_def)
  moreover have "list_all (\<lambda>i. i \<noteq> [] \<and> trim i = i) ids" using assms by (simp add: list_all_iff)
  ultimately show ?thesis
    by (simp add: parse_profile_id_list_def join_profile_id_list_def opt_filter_def t ne nl sp)
qed

lemma profile_id_list_roundtrip_witness:
  "parse_profile_id_list (Some (join_profile_id_list [''node-a'', ''node b''])) = [''node-a'', ''node b'']"
  by (rule profile_id_list_roundtrip) code_simp

end
