(* ===== verification/ContextBuilder.thy ===== *)
theory ContextBuilder
  imports Validation Digraph
begin

text \<open>
  \<open>context.rs\<close>, \<open>context/node_registration.rs\<close> and the environment \<open>coregen.rs\<close> of
  \<open>voya-app\<close>: from the stored profiles and settings to the context the sing-box generator
  reads. The builder is generic over the trait \<open>CoreGenEnv\<close>; its operations take the
  environment functions they call as arguments, and the production implementor
  \<open>SnapshotCoreGenEnv\<close> supplies them. \<open>&mut\<close> parameters are returned.
\<close>

section \<open>Context (context.rs)\<close>

datatype core_gen_platform = Windows | MacOS | Linux

definition is_windows :: "core_gen_platform \<Rightarrow> bool" where "is_windows p \<longleftrightarrow> p = Windows"
definition is_macos :: "core_gen_platform \<Rightarrow> bool" where "is_macos p \<longleftrightarrow> p = MacOS"
definition is_non_windows :: "core_gen_platform \<Rightarrow> bool" where "is_non_windows p \<longleftrightarrow> \<not> is_windows p"

record core_config_context =
  cx_node :: profile_item
  run_core_type :: core_type
  routing_item :: "routing_item option"
  simple_dns_item :: simple_dns_item
  all_proxies_map :: "(string, profile_item) btree_map"
  cx_app_config :: app_config
  server_test_item_map :: "(string, string) btree_map"
  is_tun_enabled :: bool
  protect_domain_list :: "string list"
  platform :: core_gen_platform
  singbox_ruleset_paths :: "(string, string) btree_map"

definition default_context :: core_config_context where
  "default_context =
     \<lparr>cx_node = default_profile, run_core_type = Core_sing_box, routing_item = None,
      simple_dns_item = default_simple_dns_item, all_proxies_map = [],
      cx_app_config = default_app_config, server_test_item_map = [], is_tun_enabled = False,
      protect_domain_list = [], platform = Linux, singbox_ruleset_paths = []\<rparr>"

record builder_result =
  br_context :: core_config_context
  validator_result :: node_validator_result

definition br_success :: "builder_result \<Rightarrow> bool" where
  "br_success r = success (validator_result r)"

record builder_all_result =
  main_result :: builder_result
  pre_socks_result :: "builder_result option"

definition all_success :: "builder_all_result \<Rightarrow> bool" where
  "all_success r \<longleftrightarrow> br_success (main_result r)
     \<and> (case pre_socks_result r of None \<Rightarrow> True | Some p \<Rightarrow> br_success p)"

definition combined_validator_result :: "builder_all_result \<Rightarrow> node_validator_result" where
  "combined_validator_result r =
     combined (validator_result (main_result r)) (map_option validator_result (pre_socks_result r))"

datatype context_build_error = MissingActiveProfileId | ActiveProfileNotFound string

section \<open>The environment (coregen.rs)\<close>

record snapshot_env =
  local_socks_port :: i32
  sn_platform :: core_gen_platform
  sn_profiles :: "profile_item list"
  sn_routings :: "routing_item list"
  sn_subs :: "sub_item list"
  sn_ruleset_paths :: "(string, string) btree_map"

definition new_snapshot_env ::
    "app_config \<Rightarrow> core_gen_platform \<Rightarrow> profile_item list \<Rightarrow> routing_item list \<Rightarrow> sub_item list
       \<Rightarrow> snapshot_env" where
  "new_snapshot_env config plat profiles routings subs =
     \<lparr>local_socks_port =
        (case inbound config of item # items \<Rightarrow> local_port item | [] \<Rightarrow> DEFAULT_LOCAL_PORT),
      sn_platform = plat, sn_profiles = profiles, sn_routings = routings, sn_subs = subs,
      sn_ruleset_paths = []\<rparr>"

definition with_singbox_ruleset_paths ::
    "(string, string) btree_map \<Rightarrow> snapshot_env \<Rightarrow> snapshot_env" where
  "with_singbox_ruleset_paths paths env = env\<lparr>sn_ruleset_paths := paths\<rparr>"

definition get_profile_by_index_id :: "snapshot_env \<Rightarrow> string \<Rightarrow> profile_item option" where
  "get_profile_by_index_id env i = find (\<lambda>p. index_id p = i) (sn_profiles env)"

definition get_profile_by_remarks :: "snapshot_env \<Rightarrow> string \<Rightarrow> profile_item option" where
  "get_profile_by_remarks env r = find (\<lambda>p. remarks p = r) (sn_profiles env)"

definition get_profile_items_ordered :: "snapshot_env \<Rightarrow> string list \<Rightarrow> profile_item list" where
  "get_profile_items_ordered env ids = List.map_filter (get_profile_by_index_id env) ids"

definition get_profile_items_by_subscription :: "snapshot_env \<Rightarrow> string \<Rightarrow> profile_item list" where
  "get_profile_items_by_subscription env s =
     filter (\<lambda>p. subscription_id p = Some s) (sn_profiles env)"

definition get_subscription :: "snapshot_env \<Rightarrow> string \<Rightarrow> sub_item option" where
  "get_subscription env i = find (\<lambda>s. sub_id s = i) (sn_subs env)"

definition get_default_routing :: "snapshot_env \<Rightarrow> app_config \<Rightarrow> routing_item option" where
  "get_default_routing env config =
     or_else (find (\<lambda>r. rt_id r = routing_index_id (routing_basic config)) (sn_routings env))
       (case sn_routings env of r # rs \<Rightarrow> Some r | [] \<Rightarrow> None)"

definition get_local_port :: "snapshot_env \<Rightarrow> inbound_protocol \<Rightarrow> i32" where
  "get_local_port env p =
     (if p = Ip_socks then local_socks_port env
      else i32_add (local_socks_port env) (port_offset p))"

definition get_active_profile :: "snapshot_env \<Rightarrow> app_config \<Rightarrow> profile_item option" where
  "get_active_profile env config =
     (let active = trim (ac_index_id config)
      in if active = [] then None else get_profile_by_index_id env active)"

section \<open>Registering nodes (node_registration.rs)\<close>

definition socks_profile :: "i32 \<Rightarrow> profile_item" where
  "socks_profile p =
     default_profile\<lparr>protocol := Pp_Socks \<lparr>se_address = LOOPBACK, se_port = p\<rparr> [] []\<rparr>"

definition pre_socks_item :: "app_config \<Rightarrow> profile_item \<Rightarrow> snapshot_env \<Rightarrow> profile_item option" where
  "pre_socks_item config node env =
     (if config_type node \<noteq> Ct_Custom \<and> enable_tun (tun_mode config) \<and> is_non_windows (sn_platform env)
      then Some (socks_profile (get_local_port env Ip_socks))
      else
        (case Option.bind (Option.bind (subscription_id node) (get_subscription env)) sub_pre_socks_port of
           Some p \<Rightarrow> (if config_type node = Ct_Custom \<and> 1 \<le> p \<and> p \<le> 65535
                     then Some (socks_profile p) else None)
         | None \<Rightarrow> None))"

definition ech_query_sni :: "tls_settings \<Rightarrow> string" where
  "ech_query_sni t =
     (let server_name = unwrap_or (tls_server_name t) [] in
      if tls_mode t = Tls_Tls \<and> list_ex (\<lambda>v. contains_str v ''://'') (ech_config t)
      then (case find (\<lambda>v. \<not> contains_str v ''://'') (ech_config t) of
              Some v \<Rightarrow> (case split_once (CHR ''+'') v of Some (sni, rest) \<Rightarrow> sni | None \<Rightarrow> v)
            | None \<Rightarrow> server_name)
      else server_name)"

definition protect_domain :: "string \<Rightarrow> core_config_context \<Rightarrow> core_config_context" where
  "protect_domain d ctx =
     ctx\<lparr>protect_domain_list := push_domain_if_needed d (protect_domain_list ctx)\<rparr>"

definition insert_proxy :: "string \<Rightarrow> profile_item \<Rightarrow> core_config_context \<Rightarrow> core_config_context" where
  "insert_proxy k p ctx = ctx\<lparr>all_proxies_map := bt_insert k p (all_proxies_map ctx)\<rparr>"

definition register_single_node ::
    "externals \<Rightarrow> core_config_context \<Rightarrow> profile_item \<Rightarrow> core_config_context \<times> node_validator_result" where
  "register_single_node X ctx node =
     (if is_group_type (config_type node) then (ctx, empty_result)
      else
        (let result = validate_node X node (run_core_type ctx) in
         if \<not> success result then (ctx, result)
         else
           (let ctx = protect_domain (address node) (insert_proxy (index_id node) node ctx);
                ctx = (case tls node of
                         Some t \<Rightarrow> (if ech_config t \<noteq> [] then protect_domain (ech_query_sni t) ctx else ctx)
                       | None \<Rightarrow> ctx);
                ctx = (case xhttp_download_settings_address X node of
                         Some a \<Rightarrow> protect_domain a ctx
                       | None \<Rightarrow> ctx)
            in (ctx, result))))"

section \<open>Children of a group (context.rs)\<close>

definition sub_child_profile_items ::
    "externals \<Rightarrow> (string \<Rightarrow> profile_item list) \<Rightarrow> profile_protocol \<Rightarrow> profile_item list" where
  "sub_child_profile_items X by_subscription p =
     (case p of
        Pp_PolicyGroup ids (Some sub) flt strategy \<Rightarrow>
          filter (\<lambda>c. \<not> is_complex_type (config_type c) \<and> profile_is_valid X c
                      \<and> filter_accepts X flt (remarks c))
            (by_subscription sub)
      | _ \<Rightarrow> [])"

definition selected_child_profile_items ::
    "(string list \<Rightarrow> profile_item list) \<Rightarrow> profile_protocol \<Rightarrow> profile_item list" where
  "selected_child_profile_items ordered p =
     (let ids = child_profile_ids p in if ids = [] then [] else ordered ids)"

definition group_child_profile_items ::
    "externals \<Rightarrow> (string \<Rightarrow> profile_item list) \<Rightarrow> (string list \<Rightarrow> profile_item list)
       \<Rightarrow> profile_protocol \<Rightarrow> profile_item list" where
  "group_child_profile_items X by_subscription ordered p =
     sub_child_profile_items X by_subscription p @ selected_child_profile_items ordered p"

text \<open>What the builder relies on of the profile queries of a \<open>CoreGenEnv\<close>.\<close>

locale profile_store =
  fixes universe :: "profile_item set"
    and by_id :: "string \<Rightarrow> profile_item option"
    and ordered :: "string list \<Rightarrow> profile_item list"
    and by_subscription :: "string \<Rightarrow> profile_item list"
  assumes finite_universe: "finite universe"
    and by_id_sound: "by_id i = Some p \<Longrightarrow> p \<in> universe \<and> index_id p = i"
    and ordered_sound: "p \<in> set (ordered ids) \<Longrightarrow> by_id (index_id p) = Some p \<and> index_id p \<in> set ids"
    and by_subscription_sound:
      "p \<in> set (by_subscription s) \<Longrightarrow> p \<in> universe \<and> subscription_id p = Some s"
begin

lemma child_in_universe:
  "c \<in> set (group_child_profile_items X by_subscription ordered p) \<Longrightarrow> c \<in> universe"
  using by_id_sound ordered_sound by_subscription_sound
  by (fastforce simp: group_child_profile_items_def sub_child_profile_items_def
      selected_child_profile_items_def Let_def
      split: profile_protocol.splits option.splits if_splits)

lemma sub_child_plain:
  "c \<in> set (sub_child_profile_items X by_subscription p) \<Longrightarrow>
     \<not> is_complex_type (config_type c) \<and> profile_is_valid X c"
  by (auto simp: sub_child_profile_items_def split: profile_protocol.splits option.splits)

lemma selected_child_named:
  "c \<in> set (selected_child_profile_items ordered p) \<Longrightarrow>
     index_id c \<in> set (child_profile_ids p) \<and> by_id (index_id c) = Some c"
  using ordered_sound by (fastforce simp: selected_child_profile_items_def Let_def split: if_splits)

lemma fewer_left:
  assumes "c \<in> set (group_child_profile_items X by_subscription ordered p)"
    and "index_id c \<notin> ancestors"
  shows "card (index_id ` universe - insert (index_id c) ancestors)
     < card (index_id ` universe - ancestors)"
proof (rule psubset_card_mono)
  show "finite (index_id ` universe - ancestors)" using finite_universe by simp
  show "index_id ` universe - insert (index_id c) ancestors \<subset> index_id ` universe - ancestors"
    using child_in_universe[OF assms(1)] assms(2) by blast
qed

end

interpretation snapshot: profile_store "set (sn_profiles env)" "get_profile_by_index_id env"
  "get_profile_items_ordered env" "get_profile_items_by_subscription env" for env
proof
  show by_id: "p \<in> set (sn_profiles env) \<and> index_id p = i"
    if "get_profile_by_index_id env i = Some p" for i p
    using that by (auto simp: get_profile_by_index_id_def find_Some_iff)
  show "get_profile_by_index_id env (index_id p) = Some p \<and> index_id p \<in> set ids"
    if "p \<in> set (get_profile_items_ordered env ids)" for p ids
  proof -
    obtain i where "i \<in> set ids" "get_profile_by_index_id env i = Some p"
      using \<open>p \<in> set (get_profile_items_ordered env ids)\<close>
      by (auto simp: get_profile_items_ordered_def List.map_filter_def)
    then show ?thesis using by_id by auto
  qed
qed (auto simp: get_profile_items_by_subscription_def)

abbreviation env_children :: "externals \<Rightarrow> snapshot_env \<Rightarrow> profile_protocol \<Rightarrow> profile_item list" where
  "env_children X env p \<equiv>
     group_child_profile_items X (get_profile_items_by_subscription env) (get_profile_items_ordered env) p"

section \<open>Walking a group (context.rs)\<close>

text \<open>The state of the child loop: context, visited set, child list with its seen set, result.\<close>

record traversal =
  tv_ctx :: core_config_context
  tv_visited :: "string set"
  tv_ids :: "string list"
  tv_seen :: "string set"
  tv_result :: node_validator_result

definition push_unique_child_index :: "string \<Rightarrow> traversal \<Rightarrow> traversal" where
  "push_unique_child_index i st =
     (if i \<notin> tv_seen st then st\<lparr>tv_seen := insert i (tv_seen st), tv_ids := tv_ids st @ [i]\<rparr> else st)"

definition report_child :: "string \<Rightarrow> node_validator_result \<Rightarrow> traversal \<Rightarrow> traversal" where
  "report_child pfx result st =
     st\<lparr>tv_result := extend_prefixed_errors pfx result (extend_prefixed_warnings pfx result (tv_result st))\<rparr>"

definition visit_cycle :: "profile_item \<Rightarrow> profile_item \<Rightarrow> traversal \<Rightarrow> traversal" where
  "visit_cycle node child st =
     st\<lparr>tv_result := push_error (''group cycle dependency: '' @ remarks node @ '' -> '' @ remarks child)
                      (tv_result st)\<rparr>"

definition accept_child :: "string \<Rightarrow> traversal \<Rightarrow> traversal" where
  "accept_child i st =
     push_unique_child_index i (st\<lparr>tv_visited := insert i (tv_visited st)\<rparr>)"

definition visit_leaf :: "externals \<Rightarrow> profile_item \<Rightarrow> profile_item \<Rightarrow> traversal \<Rightarrow> traversal" where
  "visit_leaf X node child st =
     (let (ctx, result) = register_single_node X (tv_ctx st) child;
          st = report_child (''group child '' @ remarks node @ '' / '' @ remarks child) result
                 (st\<lparr>tv_ctx := ctx\<rparr>)
      in if success result then accept_child (index_id child) st else st)"

definition visit_group ::
    "profile_item \<Rightarrow> profile_item \<Rightarrow> core_config_context \<times> string set \<times> node_validator_result
       \<Rightarrow> traversal \<Rightarrow> traversal" where
  "visit_group node child out st =
     (case out of (ctx, visited, result) \<Rightarrow>
        (let st = report_child (''group child group '' @ remarks node @ '' / '' @ remarks child) result
                    (st\<lparr>tv_ctx := ctx, tv_visited := visited\<rparr>)
         in if success result then accept_child (index_id child) st else st))"

definition finish_group ::
    "profile_item \<Rightarrow> traversal \<Rightarrow> core_config_context \<times> string set \<times> node_validator_result" where
  "finish_group node st =
     (if tv_ids st = []
      then (tv_ctx st, tv_visited st,
            push_error (''group has no valid child node: '' @ remarks node) (tv_result st))
      else
        (insert_proxy (index_id node)
           (node\<lparr>protocol := replace_child_profile_ids (tv_ids st) (protocol node)\<rparr>) (tv_ctx st),
         tv_visited st,
         \<lparr>nv_errors = [], nv_warnings = nv_warnings (tv_result st) @ nv_errors (tv_result st)\<rparr>))"

definition start_traversal :: "core_config_context \<Rightarrow> string set \<Rightarrow> traversal" where
  "start_traversal ctx visited =
     \<lparr>tv_ctx = ctx, tv_visited = visited, tv_ids = [], tv_seen = {}, tv_result = empty_result\<rparr>"

function traverse_group_node ::
    "externals \<Rightarrow> snapshot_env \<Rightarrow> profile_item \<Rightarrow> string set \<Rightarrow> core_config_context \<Rightarrow> string set
       \<Rightarrow> core_config_context \<times> string set \<times> node_validator_result" where
  "traverse_group_node X env node ancestors ctx visited =
     finish_group node
       (fold
          (\<lambda>child st.
             if index_id child \<in> ancestors then visit_cycle node child st
             else if index_id child \<in> tv_visited st then push_unique_child_index (index_id child) st
             else if \<not> is_group_type (config_type child) then visit_leaf X node child st
             else visit_group node child
                    (traverse_group_node X env child (insert (index_id child) ancestors)
                       (tv_ctx st) (tv_visited st)) st)
          (env_children X env (protocol node))
          (start_traversal ctx visited))"
  by pat_completeness auto
termination
  by (relation "measure (\<lambda>(X, env, node, ancestors, ctx, visited).
        card (index_id ` set (sn_profiles env) - ancestors))")
    (auto intro: snapshot.fewer_left)

declare traverse_group_node.simps [simp del]

section \<open>Building the context (context.rs)\<close>

definition register_group_node ::
    "externals \<Rightarrow> snapshot_env \<Rightarrow> core_config_context \<Rightarrow> profile_item
       \<Rightarrow> core_config_context \<times> node_validator_result" where
  "register_group_node X env ctx node =
     (if \<not> is_group_type (config_type node) then (ctx, empty_result)
      else (case traverse_group_node X env node {index_id node} ctx {index_id node} of
              (ctx, visited, result) \<Rightarrow> (ctx, result)))"

definition register_node ::
    "externals \<Rightarrow> snapshot_env \<Rightarrow> core_config_context \<Rightarrow> profile_item
       \<Rightarrow> core_config_context \<times> node_validator_result" where
  "register_node X env ctx node =
     (if is_group_type (config_type node) then register_group_node X env ctx node
      else register_single_node X ctx node)"

definition resolve_node ::
    "externals \<Rightarrow> snapshot_env \<Rightarrow> core_config_context \<Rightarrow> profile_item
       \<Rightarrow> core_config_context \<times> profile_item \<times> node_validator_result" where
  "resolve_node X env ctx node =
     (if trim (index_id node) = [] then (ctx, node, empty_result)
      else (case register_node X env ctx node of (ctx, result) \<Rightarrow> (ctx, node, result)))"

definition resolve_rule_outbound ::
    "externals \<Rightarrow> snapshot_env \<Rightarrow> rules_item \<Rightarrow> core_config_context \<times> node_validator_result
       \<Rightarrow> core_config_context \<times> node_validator_result" where
  "resolve_rule_outbound X env rule = (\<lambda>(ctx, vr).
     (let rule_name = unwrap_or (ri_remarks rule) [] in
      case Option.bind (ri_outbound_tag rule) nonempty of
        None \<Rightarrow> (ctx, push_warning (''routing rule '' @ rule_name @ '' has empty outbound tag'') vr)
      | Some tag \<Rightarrow>
          (case get_profile_by_remarks env tag of
             None \<Rightarrow> (ctx, push_warning (''routing rule '' @ rule_name
                             @ '' outbound node not found: '' @ tag) vr)
           | Some outbound_node \<Rightarrow>
               (let (ctx, active, result) = resolve_node X env ctx outbound_node;
                    pfx = ''routing rule '' @ rule_name @ '' outbound '' @ tag;
                    vr = vr\<lparr>nv_warnings := nv_warnings vr
                           @ map (\<lambda>w. pfx @ '' warning: '' @ w) (nv_warnings result)\<rparr>
                in if \<not> success result
                   then (ctx, vr\<lparr>nv_warnings := nv_warnings vr
                           @ map (\<lambda>e. pfx @ '' error: '' @ e) (nv_errors result)\<rparr>)
                   else (insert_proxy (''remark:'' @ tag) active ctx, vr)))))"

definition resolve_rule_outbounds ::
    "externals \<Rightarrow> snapshot_env \<Rightarrow> core_config_context \<times> node_validator_result
       \<Rightarrow> core_config_context \<times> node_validator_result" where
  "resolve_rule_outbounds X env st =
     (case routing_item (fst st) of
        None \<Rightarrow> st
      | Some r \<Rightarrow>
          fold (resolve_rule_outbound X env)
            (filter (\<lambda>rule. ri_enabled rule \<and> \<not> is_builtin_outbound (ri_outbound_tag rule)) (rule_set r))
            st)"

definition initial_context :: "snapshot_env \<Rightarrow> app_config \<Rightarrow> profile_item \<Rightarrow> core_config_context" where
  "initial_context env config node =
     \<lparr>cx_node = node, run_core_type = Core_sing_box,
      routing_item = get_default_routing env config, simple_dns_item = simple_dns config,
      all_proxies_map = [], cx_app_config = config, server_test_item_map = [],
      is_tun_enabled = enable_tun (tun_mode config), protect_domain_list = [],
      platform = sn_platform env, singbox_ruleset_paths = sn_ruleset_paths env\<rparr>"

definition build :: "externals \<Rightarrow> snapshot_env \<Rightarrow> app_config \<Rightarrow> profile_item \<Rightarrow> builder_result" where
  "build X env config node =
     (let (ctx, active, result) = resolve_node X env (initial_context env config node) node in
      if \<not> success result then \<lparr>br_context = ctx, validator_result = result\<rparr>
      else
        (let (ctx, vr) = resolve_rule_outbounds X env
               (ctx\<lparr>cx_node := active\<rparr>, empty_result\<lparr>nv_warnings := nv_warnings result\<rparr>)
         in \<lparr>br_context = ctx, validator_result = vr\<rparr>))"

definition build_active ::
    "externals \<Rightarrow> snapshot_env \<Rightarrow> app_config \<Rightarrow> context_build_error + builder_result" where
  "build_active X env config =
     (let active = trim (ac_index_id config) in
      if active = [] then Inl MissingActiveProfileId
      else case get_active_profile env config of
        None \<Rightarrow> Inl (ActiveProfileNotFound active)
      | Some node \<Rightarrow> Inr (build X env config node))"

definition build_pre_socks_if_needed ::
    "externals \<Rightarrow> snapshot_env \<Rightarrow> core_config_context \<Rightarrow> builder_result option" where
  "build_pre_socks_if_needed X env node_ctx =
     (case pre_socks_item (cx_app_config node_ctx) (cx_node node_ctx) env of
        None \<Rightarrow> None
      | Some item \<Rightarrow>
          (let r = build X env (cx_app_config node_ctx) item in
           Some (r\<lparr>br_context := (br_context r)
             \<lparr>protect_domain_list :=
                merge_protect_domains (protect_domain_list (br_context r))
                  (protect_domain_list node_ctx)\<rparr>\<rparr>)))"

definition build_all :: "externals \<Rightarrow> snapshot_env \<Rightarrow> app_config \<Rightarrow> profile_item \<Rightarrow> builder_all_result" where
  "build_all X env config node =
     (let main = build X env config node in
      if \<not> br_success main then \<lparr>main_result = main, pre_socks_result = None\<rparr>
      else case build_pre_socks_if_needed X env (br_context main) of
        None \<Rightarrow> \<lparr>main_result = main, pre_socks_result = None\<rparr>
      | Some pre \<Rightarrow>
          \<lparr>main_result = main\<lparr>br_context := (br_context main)
             \<lparr>is_tun_enabled := False,
              protect_domain_list :=
                merge_protect_domains (protect_domain_list (br_context pre))
                  (protect_domain_list (br_context main))\<rparr>\<rparr>,
           pre_socks_result = Some pre\<rparr>)"

end
