(* ===== verification/SingboxSchema.thy ===== *)
theory SingboxSchema
  imports ContextBuilder
begin

text \<open>
  \<open>singbox/schema.rs\<close>: the configuration the generator fills in, one record per struct.
  The fields keep the source's names behind a short prefix; \<open>final\<close> stands for the two
  fields the source renames. The \<open>serde\<close> encoding of the structs is not modelled.
\<close>

datatype singbox_config_error =
    CustomRulesetJson
  | CustomRulesetMissingRequiredFields nat
  | InvalidNodePort string i32
  | MissingWireGuardPublicKey string
  | Serialize

record singbox_log =
  lg_disabled :: "bool option"
  lg_level :: string
  lg_output :: "string option"
  lg_timestamp :: "bool option"

definition default_singbox_log :: singbox_log where
  "default_singbox_log =
     \<lparr>lg_disabled = None, lg_level = ''debug'', lg_output = None, lg_timestamp = Some True\<rparr>"

record singbox_ruleset =
  rs_tag :: "string option"
  rs_type :: "string option"
  rs_format :: "string option"
  rs_path :: "string option"
  rs_url :: "string option"
  rs_download_detour :: "string option"
  rs_update_interval :: "string option"

definition default_singbox_ruleset :: singbox_ruleset where
  "default_singbox_ruleset =
     \<lparr>rs_tag = None, rs_type = None, rs_format = None, rs_path = None, rs_url = None,
      rs_download_detour = None, rs_update_interval = None\<rparr>"

record singbox_headers =
  hd_host :: "string option"
  hd_user_agent :: "string option"

definition default_singbox_headers :: singbox_headers where
  "default_singbox_headers =
     \<lparr>hd_host = None, hd_user_agent = None\<rparr>"

record singbox_dns_server =
  ds_type :: string
  ds_tag :: string
  ds_inet4_range :: "string option"
  ds_inet6_range :: "string option"
  ds_client_subnet :: "string option"
  ds_server :: "string option"
  ds_domain_resolver :: "string option"
  ds_interface_name :: "string option"
  ds_server_port :: "i32 option"
  ds_path :: "string option"
  ds_headers :: "singbox_headers option"
  ds_predefined :: "(string, string list) btree_map option"
  ds_detour :: "string option"

definition default_singbox_dns_server :: singbox_dns_server where
  "default_singbox_dns_server =
     \<lparr>ds_type = ''udp'', ds_tag = [], ds_inet4_range = None, ds_inet6_range = None,
      ds_client_subnet = None, ds_server = None, ds_domain_resolver = None, ds_interface_name =
      None, ds_server_port = None, ds_path = None, ds_headers = None, ds_predefined = None,
      ds_detour = None\<rparr>"

record singbox_tun_http_proxy =
  hp_enabled :: bool
  hp_server :: "string option"
  hp_server_port :: "i32 option"

definition default_singbox_tun_http_proxy :: singbox_tun_http_proxy where
  "default_singbox_tun_http_proxy =
     \<lparr>hp_enabled = False, hp_server = None, hp_server_port = None\<rparr>"

record singbox_tun_platform =
  tp_http_proxy :: "singbox_tun_http_proxy option"

definition default_singbox_tun_platform :: singbox_tun_platform where
  "default_singbox_tun_platform =
     \<lparr>tp_http_proxy = None\<rparr>"

record singbox_user =
  us_username :: string
  us_password :: string

definition default_singbox_user :: singbox_user where
  "default_singbox_user =
     \<lparr>us_username = [], us_password = []\<rparr>"

record singbox_inbound =
  ib_type :: string
  ib_tag :: string
  ib_listen :: "string option"
  ib_listen_port :: "i32 option"
  ib_interface_name :: "string option"
  ib_address :: "string list option"
  ib_mtu :: "i32 option"
  ib_auto_route :: "bool option"
  ib_strict_route :: "bool option"
  ib_endpoint_independent_nat :: "bool option"
  ib_stack :: "string option"
  ib_platform :: "singbox_tun_platform option"
  ib_users :: "singbox_user list option"

definition default_singbox_inbound :: singbox_inbound where
  "default_singbox_inbound =
     \<lparr>ib_type = ''mixed'', ib_tag = ''socks'', ib_listen = Some LOOPBACK, ib_listen_port = None,
      ib_interface_name = None, ib_address = None, ib_mtu = None, ib_auto_route = None,
      ib_strict_route = None, ib_endpoint_independent_nat = None, ib_stack = None, ib_platform =
      None, ib_users = None\<rparr>"

record singbox_ech =
  ec_enabled :: bool
  ec_config :: "string list option"
  ec_query_server_name :: "string option"

definition default_singbox_ech :: singbox_ech where
  "default_singbox_ech =
     \<lparr>ec_enabled = True, ec_config = None, ec_query_server_name = None\<rparr>"

record singbox_multiplex =
  mx_enabled :: bool
  mx_protocol :: string
  mx_max_connections :: i32
  mx_padding :: "bool option"

definition default_singbox_multiplex :: singbox_multiplex where
  "default_singbox_multiplex =
     \<lparr>mx_enabled = True, mx_protocol = ''h2mux'', mx_max_connections = 8, mx_padding = None\<rparr>"

record singbox_utls =
  ut_enabled :: bool
  ut_fingerprint :: string

definition default_singbox_utls :: singbox_utls where
  "default_singbox_utls =
     \<lparr>ut_enabled = True, ut_fingerprint = []\<rparr>"

record singbox_reality =
  re_enabled :: bool
  re_public_key :: string
  re_short_id :: string

definition default_singbox_reality :: singbox_reality where
  "default_singbox_reality =
     \<lparr>re_enabled = True, re_public_key = [], re_short_id = []\<rparr>"

record singbox_tls =
  st_enabled :: bool
  st_server_name :: "string option"
  st_insecure :: "bool option"
  st_alpn :: "string list option"
  st_utls :: "singbox_utls option"
  st_reality :: "singbox_reality option"
  st_record_fragment :: "bool option"
  st_certificate :: "string list option"
  st_ech :: "singbox_ech option"

definition default_singbox_tls :: singbox_tls where
  "default_singbox_tls =
     \<lparr>st_enabled = True, st_server_name = None, st_insecure = None, st_alpn = None, st_utls =
      None, st_reality = None, st_record_fragment = None, st_certificate = None, st_ech = None\<rparr>"

record singbox_transport =
  tr_type :: "string option"
  tr_host :: "json option"
  tr_path :: "string option"
  tr_headers :: "singbox_headers option"
  tr_service_name :: "string option"
  tr_idle_timeout :: "string option"
  tr_ping_timeout :: "string option"
  tr_permit_without_stream :: "bool option"
  tr_max_early_data :: "i32 option"
  tr_early_data_header_name :: "string option"

definition default_singbox_transport :: singbox_transport where
  "default_singbox_transport =
     \<lparr>tr_type = None, tr_host = None, tr_path = None, tr_headers = None, tr_service_name = None,
      tr_idle_timeout = None, tr_ping_timeout = None, tr_permit_without_stream = None,
      tr_max_early_data = None, tr_early_data_header_name = None\<rparr>"

record singbox_hy_obfs =
  hob_type :: "string option"
  hob_password :: "string option"

definition default_singbox_hy_obfs :: singbox_hy_obfs where
  "default_singbox_hy_obfs =
     \<lparr>hob_type = None, hob_password = None\<rparr>"

record singbox_outbound =
  ob_type :: string
  ob_tag :: string
  ob_server :: "string option"
  ob_server_port :: "i32 option"
  ob_server_ports :: "string list option"
  ob_uuid :: "string option"
  ob_security :: "string option"
  ob_alter_id :: "i32 option"
  ob_flow :: "string option"
  ob_hop_interval :: "string option"
  ob_up_mbps :: "i32 option"
  ob_down_mbps :: "i32 option"
  ob_password :: "string option"
  ob_method :: "string option"
  ob_username :: "string option"
  ob_version :: "string option"
  ob_congestion_control :: "string option"
  ob_quic :: "bool option"
  ob_quic_congestion_control :: "string option"
  ob_insecure_concurrency :: "i32 option"
  ob_udp_over_tcp :: "bool option"
  ob_packet_encoding :: "string option"
  ob_plugin :: "string option"
  ob_plugin_opts :: "string option"
  ob_outbounds :: "string list option"
  ob_interrupt_exist_connections :: "bool option"
  ob_tolerance :: "i32 option"
  ob_detour :: "string option"
  ob_bind_interface :: "string option"
  ob_inet4_bind_address :: "string option"
  ob_tls :: "singbox_tls option"
  ob_multiplex :: "singbox_multiplex option"
  ob_transport :: "singbox_transport option"
  ob_obfs :: "singbox_hy_obfs option"

definition default_singbox_outbound :: singbox_outbound where
  "default_singbox_outbound =
     \<lparr>ob_type = ''vless'', ob_tag = PROXY_TAG, ob_server = None, ob_server_port = None,
      ob_server_ports = None, ob_uuid = None, ob_security = None, ob_alter_id = None, ob_flow =
      None, ob_hop_interval = None, ob_up_mbps = None, ob_down_mbps = None, ob_password = None,
      ob_method = None, ob_username = None, ob_version = None, ob_congestion_control = None,
      ob_quic = None, ob_quic_congestion_control = None, ob_insecure_concurrency = None,
      ob_udp_over_tcp = None, ob_packet_encoding = None, ob_plugin = None, ob_plugin_opts =
      None, ob_outbounds = None, ob_interrupt_exist_connections = None, ob_tolerance = None,
      ob_detour = None, ob_bind_interface = None, ob_inet4_bind_address = None, ob_tls = None,
      ob_multiplex = None, ob_transport = None, ob_obfs = None\<rparr>"

record singbox_peer =
  pe_address :: string
  pe_port :: i32
  pe_public_key :: string
  pe_pre_shared_key :: "string option"
  pe_allowed_ips :: "string list"
  pe_persistent_keepalive_interval :: "i32 option"
  pe_reserved :: "i32 list option"

definition default_singbox_peer :: singbox_peer where
  "default_singbox_peer =
     \<lparr>pe_address = [], pe_port = 0, pe_public_key = [], pe_pre_shared_key = None, pe_allowed_ips
      = [], pe_persistent_keepalive_interval = None, pe_reserved = None\<rparr>"

record singbox_endpoint =
  ep_type :: string
  ep_tag :: string
  ep_system :: "bool option"
  ep_name :: "string option"
  ep_mtu :: "i32 option"
  ep_address :: "string list"
  ep_private_key :: string
  ep_listen_port :: "i32 option"
  ep_udp_timeout :: "string option"
  ep_workers :: "i32 option"
  ep_peers :: "singbox_peer list"
  ep_detour :: "string option"
  ep_bind_interface :: "string option"
  ep_inet4_bind_address :: "string option"

definition default_singbox_endpoint :: singbox_endpoint where
  "default_singbox_endpoint =
     \<lparr>ep_type = ''wireguard'', ep_tag = PROXY_TAG, ep_system = None, ep_name = None, ep_mtu =
      None, ep_address = [], ep_private_key = [], ep_listen_port = None, ep_udp_timeout = None,
      ep_workers = None, ep_peers = [], ep_detour = None, ep_bind_interface = None,
      ep_inet4_bind_address = None\<rparr>"

record singbox_clash_api =
  ca_external_controller :: "string option"
  ca_store_selected :: "bool option"

definition default_singbox_clash_api :: singbox_clash_api where
  "default_singbox_clash_api =
     \<lparr>ca_external_controller = None, ca_store_selected = None\<rparr>"

record singbox_cache_file =
  cf_enabled :: bool
  cf_path :: "string option"
  cf_cache_id :: "string option"
  cf_store_fakeip :: "bool option"

definition default_singbox_cache_file :: singbox_cache_file where
  "default_singbox_cache_file =
     \<lparr>cf_enabled = True, cf_path = None, cf_cache_id = None, cf_store_fakeip = None\<rparr>"

record singbox_experimental =
  ex_cache_file :: "singbox_cache_file option"
  ex_clash_api :: "singbox_clash_api option"

definition default_singbox_experimental :: singbox_experimental where
  "default_singbox_experimental =
     \<lparr>ex_cache_file = None, ex_clash_api = None\<rparr>"

record rule_fields =
  r_outbound :: "string option"
  r_server :: "string option"
  r_disable_cache :: "bool option"
  r_type :: "string option"
  r_mode :: "string option"
  r_action :: "string option"
  r_client_subnet :: "string option"
  r_rewrite_ttl :: "i32 option"
  r_method :: "string option"
  r_invert :: "bool option"
  r_clash_mode :: "string option"
  r_inbound :: "string list option"
  r_protocol :: "string list option"
  r_network :: "string list option"
  r_port :: "i32 list option"
  r_port_range :: "string list option"
  r_geosite :: "string list option"
  r_domain :: "string list option"
  r_domain_suffix :: "string list option"
  r_domain_keyword :: "string list option"
  r_domain_regex :: "string list option"
  r_geoip :: "string list option"
  r_ip_cidr :: "string list option"
  r_ip_is_private :: "bool option"
  r_process_name :: "string list option"
  r_process_path :: "string list option"
  r_rule_set :: "string list option"
  r_strategy :: "string option"
  r_rcode :: "string option"
  r_query_type :: "i32 list option"
  r_answer :: "string list option"
  r_ns :: "string list option"
  r_extra :: "string list option"
  r_ip_accept_any :: "bool option"
  r_source_port :: "i32 option"

definition default_rule_fields :: rule_fields where
  "default_rule_fields =
     \<lparr>r_outbound = None, r_server = None, r_disable_cache = None, r_type = None, r_mode = None,
      r_action = None, r_client_subnet = None, r_rewrite_ttl = None, r_method = None, r_invert =
      None, r_clash_mode = None, r_inbound = None, r_protocol = None, r_network = None, r_port =
      None, r_port_range = None, r_geosite = None, r_domain = None, r_domain_suffix = None,
      r_domain_keyword = None, r_domain_regex = None, r_geoip = None, r_ip_cidr = None,
      r_ip_is_private = None, r_process_name = None, r_process_path = None, r_rule_set = None,
      r_strategy = None, r_rcode = None, r_query_type = None, r_answer = None, r_ns = None,
      r_extra = None, r_ip_accept_any = None, r_source_port = None\<rparr>"

text \<open>The one recursive field, \<open>rules\<close>, is the second argument of the constructor.\<close>

datatype singbox_rule =
  SingboxRule rule_fields "singbox_rule list option"

record singbox_dns =
  dn_servers :: "singbox_dns_server list"
  dn_rules :: "singbox_rule list"
  dn_final :: "string option"
  dn_strategy :: "string option"
  dn_disable_cache :: "bool option"
  dn_independent_cache :: "bool option"
  dn_reverse_mapping :: "bool option"
  dn_client_subnet :: "string option"

definition default_singbox_dns :: singbox_dns where
  "default_singbox_dns =
     \<lparr>dn_servers = [], dn_rules = [], dn_final = None, dn_strategy = None, dn_disable_cache =
      None, dn_independent_cache = None, dn_reverse_mapping = None, dn_client_subnet = None\<rparr>"

record singbox_route =
  ro_default_domain_resolver :: "singbox_rule option"
  ro_auto_detect_interface :: "bool option"
  ro_rules :: "singbox_rule list"
  ro_rule_set :: "singbox_ruleset list option"
  ro_final :: "string option"

definition default_singbox_route :: singbox_route where
  "default_singbox_route =
     \<lparr>ro_default_domain_resolver = None, ro_auto_detect_interface = None, ro_rules = [],
      ro_rule_set = None, ro_final = None\<rparr>"

record singbox_config =
  cfg_log :: "singbox_log option"
  cfg_dns :: "singbox_dns option"
  cfg_inbounds :: "singbox_inbound list"
  cfg_outbounds :: "singbox_outbound list"
  cfg_endpoints :: "singbox_endpoint list"
  cfg_route :: singbox_route
  cfg_experimental :: "singbox_experimental option"

fun flat_fields :: "singbox_rule \<Rightarrow> rule_fields" where
  "flat_fields (SingboxRule f rs) = f"

fun nested_rules :: "singbox_rule \<Rightarrow> singbox_rule list option" where
  "nested_rules (SingboxRule f rs) = rs"

text \<open>A rule without nested rules.\<close>

abbreviation flat_rule :: "rule_fields \<Rightarrow> singbox_rule" where
  "flat_rule f \<equiv> SingboxRule f None"

fun map_fields :: "(rule_fields \<Rightarrow> rule_fields) \<Rightarrow> singbox_rule \<Rightarrow> singbox_rule" where
  "map_fields g (SingboxRule f rs) = SingboxRule (g f) rs"

definition direct_outbound :: singbox_outbound where
  "direct_outbound = default_singbox_outbound\<lparr>ob_type := DIRECT_TAG, ob_tag := DIRECT_TAG\<rparr>"

definition sample_config :: singbox_config where
  "sample_config =
     \<lparr>cfg_log = Some default_singbox_log, cfg_dns = None, cfg_inbounds = [],
      cfg_outbounds = [direct_outbound], cfg_endpoints = [], cfg_route = default_singbox_route,
      cfg_experimental = None\<rparr>"

end
