(* ===== verification/SingboxOutbounds.thy ===== *)
theory SingboxOutbounds
  imports SingboxSchema
begin

text \<open>
  \<open>singbox/outbounds.rs\<close> and the part of \<open>singbox/support.rs\<close> it uses: from a node of a
  built context to the outbounds and endpoints of the generated configuration. A function
  that may panic (a slice of a malformed certificate chain) or not return (a group walk
  over a cyclic map) has an option as its result, \<open>None\<close> standing for no normal return.
  The group walk takes its depth as fuel; \<open>SingboxServers\<close> proves which fuel is enough.
\<close>

section \<open>Constants (singbox/mod.rs)\<close>

definition USER_AGENT_HEADER :: string where "USER_AGENT_HEADER = ''Sec-WebSocket-Protocol''"

definition DEFAULT_HYSTERIA2_HOP_INTERVAL :: i32 where "DEFAULT_HYSTERIA2_HOP_INTERVAL = 30"

definition VMESS_SECURITIES :: "string list" where
  "VMESS_SECURITIES =
     [''aes-128-gcm'', ''chacha20-poly1305'', DEFAULT_SECURITY, ''none'', ''zero'']"

definition SINGBOX_UTLS_FINGERPRINTS :: "string list" where
  "SINGBOX_UTLS_FINGERPRINTS =
     [''chrome'', ''firefox'', ''safari'', ''ios'', ''android'', ''edge'', ''360'', ''qq'', ''random'',
      ''randomized'']"

definition backslash :: char where "backslash = CHR 0x5C"

section \<open>Helpers (singbox/support.rs)\<close>

definition child_nodes :: "core_config_context \<Rightarrow> profile_item \<Rightarrow> profile_item list" where
  "child_nodes ctx node =
     List.map_filter (bt_get (all_proxies_map ctx)) (dedup (child_profile_ids (protocol node)))"

definition singbox_can_build_leaf :: "profile_item \<Rightarrow> bool" where
  "singbox_can_build_leaf node \<longleftrightarrow>
     singbox_supports_config_type (config_type node)
     \<and> (config_type node \<noteq> Ct_WireGuard \<or> wireguard_public_key (protocol node) \<noteq> None)"

definition buildable_child_nodes :: "core_config_context \<Rightarrow> profile_item \<Rightarrow> profile_item list" where
  "buildable_child_nodes ctx node =
     filter (\<lambda>child. is_group_type (config_type child) \<or> singbox_can_build_leaf child)
       (child_nodes ctx node)"

definition singbox_network :: "profile_item \<Rightarrow> string" where
  "singbox_network node = (let n = trim (network node) in if n = [] then DEFAULT_NETWORK else n)"

definition vmess_security :: "profile_protocol \<Rightarrow> string" where
  "vmess_security p =
     (let sec = (case p of Pp_Vmess s u cipher \<Rightarrow> unwrap_or cipher [] | _ \<Rightarrow> [])
      in if sec \<in> set VMESS_SECURITIES then sec else DEFAULT_SECURITY)"

definition shadowsocks_method :: "profile_protocol \<Rightarrow> string" where
  "shadowsocks_method p =
     (let m = (case p of Pp_Shadowsocks s pass meth uot \<Rightarrow> meth | _ \<Rightarrow> [])
      in if m \<in> set SS_SECURITIES_IN_SINGBOX then m else ''none'')"

definition allow_insecure :: "core_config_context \<Rightarrow> bool" where
  "allow_insecure ctx = def_allow_insecure (core_basic (cx_app_config ctx))"

definition singbox_utls_fingerprint :: "string \<Rightarrow> string option" where
  "singbox_utls_fingerprint v =
     (let f = to_ascii_lowercase (trim v)
      in if f \<in> set SINGBOX_UTLS_FINGERPRINTS then Some f else None)"

definition effective_fingerprint :: "core_config_context \<Rightarrow> string option" where
  "effective_fingerprint ctx = singbox_utls_fingerprint (def_fingerprint (core_basic (cx_app_config ctx)))"

definition transport_host_for_tls :: "profile_item \<Rightarrow> string option" where
  "transport_host_for_tls node =
     nonempty_str (Some (first_list_value (Option.bind (transport node) transport_host)))"

section \<open>Servers (singbox/outbounds.rs)\<close>

datatype singbox_server = Outbound singbox_outbound | Endpoint singbox_endpoint

fun server_tag :: "singbox_server \<Rightarrow> string" where
  "server_tag (Outbound o1) = ob_tag o1"
| "server_tag (Endpoint e) = ep_tag e"

fun set_tag :: "string \<Rightarrow> singbox_server \<Rightarrow> singbox_server" where
  "set_tag t (Outbound o1) = Outbound (o1\<lparr>ob_tag := t\<rparr>)"
| "set_tag t (Endpoint e) = Endpoint (e\<lparr>ep_tag := t\<rparr>)"

fun server_detour :: "singbox_server \<Rightarrow> string option" where
  "server_detour (Outbound o1) = ob_detour o1"
| "server_detour (Endpoint e) = ep_detour e"

fun set_detour :: "string \<Rightarrow> singbox_server \<Rightarrow> singbox_server" where
  "set_detour d (Outbound o1) = Outbound (o1\<lparr>ob_detour := Some d\<rparr>)"
| "set_detour d (Endpoint e) = Endpoint (e\<lparr>ep_detour := Some d\<rparr>)"

section \<open>Fields of an outbound\<close>

definition build_wireguard_endpoint :: "profile_item \<Rightarrow> singbox_endpoint option" where
  "build_wireguard_endpoint node =
     (case protocol node of
        Pp_WireGuard server private_key pk preshared interface_address ai reserved mtu \<Rightarrow>
          (case wireguard_public_key (protocol node) of
             None \<Rightarrow> None
           | Some public_key \<Rightarrow> Some (default_singbox_endpoint
               \<lparr>ep_type := protocol_name (config_type node), ep_tag := PROXY_TAG,
                ep_address := unwrap_or
                  (opt_filter (\<lambda>items. items \<noteq> []) (split_list (unwrap_or interface_address [])))
                  [WIREGUARD_DEFAULT_ADDRESS],
                ep_private_key := private_key,
                ep_mtu := Some (unwrap_or (opt_filter (\<lambda>m. m > 0) mtu) WIREGUARD_DEFAULT_MTU),
                ep_peers := [\<lparr>pe_address = se_address server, pe_port = se_port server,
                  pe_public_key = public_key, pe_pre_shared_key = preshared,
                  pe_allowed_ips = wireguard_allowed_ips (protocol node),
                  pe_persistent_keepalive_interval = None,
                  pe_reserved = parse_wireguard_reserved reserved\<rparr>]\<rparr>))
      | _ \<Rightarrow> None)"

definition cert_raw :: "string \<Rightarrow> string" where
  "cert_raw cert =
     replace_str ''='' [backslash, CHR ''='']
       (trim (replace_str ([CHR 0x0A] @ END_MARKER @ [CHR 0x0A]) []
          (replace_str (BEGIN_MARKER @ [CHR 0x0A]) [] cert)))"

definition websocket_plugin_args :: "profile_item \<Rightarrow> string \<Rightarrow> string" where
  "websocket_plugin_args node net =
     (if net = ''ws''
      then (case transport node of
              Some (Pt_Websocket host path) \<Rightarrow>
                ''mode=websocket;'' @ ''host='' @ first_list_value host @ '';''
                @ ''path='' @ replace_str '','' [backslash, CHR '','']
                    (replace_str ''='' [backslash, CHR ''='']
                      (replace_str [backslash] [backslash, backslash] (unwrap_or path []))) @ '';''
            | _ \<Rightarrow> [])
      else [])"

definition tls_plugin_args :: "profile_item \<Rightarrow> string option" where
  "tls_plugin_args node =
     (if stream_security node = ''tls''
      then map_option
             (\<lambda>certs. ''tls;''
                @ (case certs of cert # rest \<Rightarrow> ''certRaw='' @ cert_raw cert @ '';'' | [] \<Rightarrow> []))
             (case Option.bind (tls node) certificate_pem of
                Some pem \<Rightarrow> parse_pem_chain pem | None \<Rightarrow> Some [])
      else Some [])"

text \<open>The code appends \<open>mux=0;\<close> and pops the last character.\<close>

definition fill_v2ray_plugin ::
    "profile_item \<Rightarrow> string \<Rightarrow> singbox_outbound \<Rightarrow> singbox_outbound option" where
  "fill_v2ray_plugin node net outb =
     map_option
       (\<lambda>tls_args.
          let plugin_args = websocket_plugin_args node net @ tls_args in
          if plugin_args \<noteq> []
          then outb\<lparr>ob_plugin := Some ''v2ray-plugin'',
                 ob_plugin_opts := Some (butlast (plugin_args @ ''mux=0;''))\<rparr>
          else outb)
       (tls_plugin_args node)"

definition fill_shadowsocks_plugin ::
    "profile_item \<Rightarrow> string \<Rightarrow> singbox_outbound \<Rightarrow> singbox_outbound option" where
  "fill_shadowsocks_plugin node net outb =
     (case transport node of
        Some (Pt_Tcp (Some header) host path) \<Rightarrow>
          (if header = ''http''
           then Some (outb\<lparr>ob_plugin := Some ''obfs-local'',
                  ob_plugin_opts := Some (''obfs=http;obfs-host='' @ unwrap_or host [] @ '';'')\<rparr>)
           else fill_v2ray_plugin node net outb)
      | _ \<Rightarrow> fill_v2ray_plugin node net outb)"

definition hysteria2_ports :: "string \<Rightarrow> string list" where
  "hysteria2_ports ports =
     map (\<lambda>p. let p = replace_str ''-'' '':'' p in
            if CHR '':'' \<in> set p then p else p @ '':'' @ p)
       (filter (\<lambda>p. p \<noteq> []) (map trim (split_on is_comma ports)))"

definition hysteria2_obfs :: "string option \<Rightarrow> singbox_outbound \<Rightarrow> singbox_outbound" where
  "hysteria2_obfs obfuscation_password outb =
     (case nonempty_str obfuscation_password of
        Some pass \<Rightarrow> outb\<lparr>ob_obfs := Some \<lparr>hob_type = Some ''salamander'', hob_password = Some pass\<rparr>\<rparr>
      | None \<Rightarrow> outb)"

definition hysteria2_rates :: "hysteria_item \<Rightarrow> singbox_outbound \<Rightarrow> singbox_outbound" where
  "hysteria2_rates hy outb =
     outb\<lparr>ob_up_mbps := (if hy_up_mbps hy > 0 then Some (hy_up_mbps hy) else None),
          ob_down_mbps := (if hy_down_mbps hy > 0 then Some (hy_down_mbps hy) else None)\<rparr>"

definition hysteria2_hops :: "hysteria_item \<Rightarrow> string \<Rightarrow> singbox_outbound \<Rightarrow> singbox_outbound" where
  "hysteria2_hops hy ports outb =
     (let server_ports = hysteria2_ports ports;
          outb = (if server_ports \<noteq> []
                  then outb\<lparr>ob_server_port := None, ob_server_ports := Some server_ports\<rparr>
                  else outb);
          interval = (if hy_hop_interval hy \<ge> 5 then hy_hop_interval hy
                      else DEFAULT_HYSTERIA2_HOP_INTERVAL)
      in outb\<lparr>ob_hop_interval := Some (show_int interval @ ''s'')\<rparr>)"

definition fill_hysteria2_fields ::
    "core_config_context \<Rightarrow> string option \<Rightarrow> string option \<Rightarrow> singbox_outbound \<Rightarrow> singbox_outbound" where
  "fill_hysteria2_fields ctx port_hops obfuscation_password outb =
     (let hy = hysteria (cx_app_config ctx);
          outb = hysteria2_rates hy (hysteria2_obfs obfuscation_password outb)
      in case nonempty_str port_hops of
           None \<Rightarrow> outb
         | Some ports \<Rightarrow>
             (if \<not> list_ex (\<lambda>c. c \<in> set '':-,'') ports then outb else hysteria2_hops hy ports outb))"

definition fill_outbound_mux :: "core_config_context \<Rightarrow> singbox_outbound \<Rightarrow> singbox_outbound" where
  "fill_outbound_mux ctx outb =
     (let proto = trim (mux_protocol (mux4_sbox (cx_app_config ctx))) in
      if \<not> mux_enabled (core_basic (cx_app_config ctx)) \<or> proto = [] then outb
      else outb\<lparr>ob_multiplex := Some
             \<lparr>mx_enabled = True, mx_protocol = proto,
              mx_max_connections = mux_max_connections (mux4_sbox (cx_app_config ctx)),
              mx_padding = mux_padding (mux4_sbox (cx_app_config ctx))\<rparr>\<rparr>)"

definition ED_PATTERN :: string where "ED_PATTERN = ''[?&]ed=('' @ [backslash] @ ''d+)''"

definition EH_PATTERN :: string where "EH_PATTERN = ''[?&]eh=([^&]+)''"

definition parse_ws_early_data ::
    "externals \<Rightarrow> string \<Rightarrow> string \<times> i32 option \<times> string option" where
  "parse_ws_early_data X path =
     (let early_data =
            (if regex_valid X ED_PATTERN
             then Option.bind (regex_capture X ED_PATTERN path) parse_i32 else None);
          (path, header) =
            (if early_data \<noteq> None
             then (let p = replace_str ''?&'' ''?'' (regex_replace X ED_PATTERN path)
                   in (if ends_with p ''?'' then butlast p else p, Some USER_AGENT_HEADER))
             else (path, None));
          header =
            (if regex_valid X EH_PATTERN
             then (case regex_capture X EH_PATTERN path of
                     Some v \<Rightarrow> percent_decode_utf8 X v | None \<Rightarrow> header)
             else header)
      in (path, early_data, header))"

definition user_agent_headers :: "string \<Rightarrow> singbox_headers option" where
  "user_agent_headers ua =
     (if ua \<noteq> [] then Some \<lparr>hd_host = None, hd_user_agent = Some ua\<rparr> else None)"

definition singbox_transport_of ::
    "externals \<Rightarrow> core_config_context \<Rightarrow> profile_transport option \<Rightarrow> singbox_transport" where
  "singbox_transport_of X ctx t =
     (let ua = raw_http_user_agent (def_user_agent (core_basic (cx_app_config ctx)));
          g = grpc (cx_app_config ctx); d = default_singbox_transport
      in case t of
        Some (Pt_Tcp header host path) \<Rightarrow>
          (if header = Some ''http''
           then d\<lparr>tr_type := Some ''http'',
                  tr_host := map_option (\<lambda>items. JArray (map JString items))
                    (opt_filter (\<lambda>items. items \<noteq> []) (split_list (unwrap_or host []))),
                  tr_path := nonempty_str path, tr_headers := user_agent_headers ua\<rparr>
           else d)
      | Some (Pt_Websocket host path) \<Rightarrow>
          (let (ws_path, early_data, early_header) = parse_ws_early_data X (unwrap_or path []);
               host = first_list_value host
           in d\<lparr>tr_type := Some ''ws'', tr_path := nonempty_str (Some ws_path),
                tr_max_early_data := early_data, tr_early_data_header_name := early_header,
                tr_headers :=
                  (if host \<noteq> [] \<or> ua \<noteq> []
                   then Some \<lparr>hd_host = nonempty_str (Some host), hd_user_agent = nonempty_str (Some ua)\<rparr>
                   else None)\<rparr>)
      | Some (Pt_HttpUpgrade host path) \<Rightarrow>
          d\<lparr>tr_type := Some ''httpupgrade'', tr_path := nonempty_str path,
            tr_host := map_option JString (nonempty_str (Some (first_list_value host))),
            tr_headers := user_agent_headers ua\<rparr>
      | Some (Pt_Grpc authority service_name mode) \<Rightarrow>
          d\<lparr>tr_type := Some ''grpc'', tr_service_name := Some (unwrap_or service_name []),
            tr_idle_timeout := map_option (\<lambda>v. show_int v @ ''s'') (grpc_idle_timeout g),
            tr_ping_timeout := map_option (\<lambda>v. show_int v @ ''s'') (grpc_health_check_timeout g),
            tr_permit_without_stream := grpc_permit_without_stream g\<rparr>
      | _ \<Rightarrow> d)"

definition fill_outbound_transport ::
    "externals \<Rightarrow> core_config_context \<Rightarrow> profile_item \<Rightarrow> singbox_outbound \<Rightarrow> singbox_outbound" where
  "fill_outbound_transport X ctx node outb =
     (let t = singbox_transport_of X ctx (transport node);
          outb = (if tr_type t \<noteq> None then outb\<lparr>ob_transport := Some t\<rparr> else outb)
      in if config_type node = Ct_Shadowsocks then outb\<lparr>ob_transport := None\<rparr> else outb)"

definition parse_ech :: "string list \<Rightarrow> singbox_ech option" where
  "parse_ech configs =
     (let cs = filter (\<lambda>v. v \<noteq> []) (map trim configs) in
      if cs = [] then None
      else if \<not> list_ex (\<lambda>v. contains_str v ''://'') cs
      then Some \<lparr>ec_enabled = True,
                 ec_config = Some [''-----BEGIN ECH CONFIGS-----'' @ [CHR 0x0A] @ join_with '','' cs
                                    @ [CHR 0x0A] @ ''-----END ECH CONFIGS-----''],
                 ec_query_server_name = None\<rparr>
      else Some \<lparr>ec_enabled = True, ec_config = None,
                 ec_query_server_name =
                   Option.bind (find (\<lambda>v. \<not> contains_str v ''://'') cs)
                     (\<lambda>v. nonempty_str (Some
                        (case split_once (CHR ''+'') v of Some (name, rest) \<Rightarrow> name | None \<Rightarrow> v)))\<rparr>)"

definition tls_server_name_of :: "profile_item \<Rightarrow> tls_settings \<Rightarrow> string option" where
  "tls_server_name_of node t =
     or_else (nonempty_str (tls_server_name t))
       (Option.bind (split_list (unwrap_or (transport_host_for_tls node) []))
          (\<lambda>items. find (\<lambda>item. item \<noteq> []) (map trim items)))"

definition fill_outbound_tls ::
    "core_config_context \<Rightarrow> profile_item \<Rightarrow> singbox_outbound \<Rightarrow> singbox_outbound option" where
  "fill_outbound_tls ctx node outb =
     (case tls node of
        None \<Rightarrow> Some outb
      | Some t \<Rightarrow>
          (if config_type node \<in> {Ct_Shadowsocks, Ct_SOCKS, Ct_WireGuard} then Some outb
           else
             (let base = default_singbox_tls
                    \<lparr>st_enabled := True, st_server_name := tls_server_name_of node t,
                     st_insecure := Some (allow_insecure ctx),
                     st_alpn := (if tls_alpn t \<noteq> [] then Some (tls_alpn t) else None),
                     st_record_fragment :=
                       (if enable_fragment (core_basic (cx_app_config ctx)) then Some True else None),
                     st_ech := parse_ech (ech_config t),
                     st_utls := map_option (\<lambda>f. \<lparr>ut_enabled = True, ut_fingerprint = f\<rparr>)
                       (effective_fingerprint ctx)\<rparr>
              in case tls_mode t of
                   Tls_Tls \<Rightarrow>
                     map_option
                       (\<lambda>certs. outb\<lparr>ob_tls := Some
                          (if certs \<noteq> []
                           then base\<lparr>st_certificate := Some certs, st_insecure := Some False\<rparr>
                           else base)\<rparr>)
                       (case certificate_pem t of Some pem \<Rightarrow> parse_pem_chain pem | None \<Rightarrow> Some [])
                 | Tls_Reality \<Rightarrow>
                     Some (outb\<lparr>ob_tls := Some (base
                       \<lparr>st_reality := Some \<lparr>re_enabled = True,
                          re_public_key = unwrap_or (reality_public_key t) [],
                          re_short_id = unwrap_or (reality_short_id t) []\<rparr>,
                        st_insecure := Some False\<rparr>)\<rparr>))))"

section \<open>One outbound\<close>

definition base_outbound :: "profile_item \<Rightarrow> singbox_outbound" where
  "base_outbound node = default_singbox_outbound
     \<lparr>ob_type := protocol_name (config_type node), ob_tag := PROXY_TAG,
      ob_server := Some (address node), ob_server_port := Some (port node)\<rparr>"

definition with_credentials :: "string \<Rightarrow> string \<Rightarrow> singbox_outbound \<Rightarrow> singbox_outbound" where
  "with_credentials user pass outb =
     (if trim user \<noteq> [] \<and> trim pass \<noteq> []
      then outb\<lparr>ob_username := Some user, ob_password := Some pass\<rparr> else outb)"

definition fill_protocol ::
    "externals \<Rightarrow> core_config_context \<Rightarrow> profile_item \<Rightarrow> singbox_outbound \<Rightarrow> singbox_outbound option" where
  "fill_protocol X ctx node outb =
     (case protocol node of
        Pp_Vmess server uuid cipher \<Rightarrow>
          Some (fill_outbound_transport X ctx node (fill_outbound_mux ctx
            (outb\<lparr>ob_uuid := Some uuid, ob_alter_id := Some 0,
                  ob_security := Some (vmess_security (protocol node))\<rparr>)))
      | Pp_Shadowsocks server pass meth udp_over_tcp \<Rightarrow>
          map_option (fill_outbound_mux ctx)
            (fill_shadowsocks_plugin node (singbox_network node)
              (outb\<lparr>ob_method := Some (shadowsocks_method (protocol node)), ob_password := Some pass,
                    ob_udp_over_tcp := (if udp_over_tcp then Some True else None)\<rparr>))
      | Pp_Socks server user pass \<Rightarrow> Some (with_credentials user pass (outb\<lparr>ob_version := Some ''5''\<rparr>))
      | Pp_Http server user pass \<Rightarrow> Some (with_credentials user pass outb)
      | Pp_Vless server uuid flow enc \<Rightarrow>
          (let outb = outb\<lparr>ob_uuid := Some uuid, ob_packet_encoding := Some ''xudp''\<rparr>;
               outb = (case nonempty_str flow of
                         Some f \<Rightarrow> outb\<lparr>ob_flow := Some f\<rparr>
                       | None \<Rightarrow> fill_outbound_mux ctx outb)
           in Some (fill_outbound_transport X ctx node outb))
      | Pp_Trojan server pass \<Rightarrow>
          Some (fill_outbound_transport X ctx node (fill_outbound_mux ctx (outb\<lparr>ob_password := Some pass\<rparr>)))
      | Pp_Hysteria2 server pass port_hops obfs \<Rightarrow>
          Some (fill_hysteria2_fields ctx port_hops obfs (outb\<lparr>ob_password := Some pass\<rparr>))
      | Pp_Tuic server uuid pass congestion \<Rightarrow>
          Some (outb\<lparr>ob_uuid := nonempty_str (Some uuid), ob_password := Some pass,
                     ob_congestion_control := nonempty_str congestion\<rparr>)
      | Pp_Anytls server pass \<Rightarrow> Some (outb\<lparr>ob_password := Some pass\<rparr>)
      | Pp_Naive server user pass quic congestion insecure_concurrency udp_over_tcp \<Rightarrow>
          (let outb = outb\<lparr>ob_username := nonempty_str (Some user), ob_password := Some pass\<rparr>;
               outb = (if quic
                       then outb\<lparr>ob_quic := Some True,
                                 ob_quic_congestion_control := nonempty_str congestion\<rparr>
                       else outb)
           in Some (outb\<lparr>ob_insecure_concurrency := opt_filter (\<lambda>v. v > 0) insecure_concurrency,
                         ob_udp_over_tcp := (if udp_over_tcp then Some True else None)\<rparr>))
      | _ \<Rightarrow> Some outb)"

definition build_outbound ::
    "externals \<Rightarrow> core_config_context \<Rightarrow> profile_item \<Rightarrow> singbox_outbound option" where
  "build_outbound X ctx node =
     Option.bind (fill_protocol X ctx node (base_outbound node)) (fill_outbound_tls ctx node)"

text \<open>The inner option is the code's: a WireGuard node without a public key has no server.\<close>

definition build_proxy_server ::
    "externals \<Rightarrow> core_config_context \<Rightarrow> profile_item \<Rightarrow> string \<Rightarrow> singbox_server option option" where
  "build_proxy_server X ctx node tag =
     (if config_type node = Ct_WireGuard
      then Some (map_option (\<lambda>e. Endpoint (e\<lparr>ep_tag := tag\<rparr>)) (build_wireguard_endpoint node))
      else map_option (\<lambda>o1. Some (Outbound (o1\<lparr>ob_tag := tag\<rparr>))) (build_outbound X ctx node))"

end
