(* ===== verification/ContextProps.thy ===== *)
theory ContextProps
  imports ContextBuilder
begin

text \<open>
  What the context builder establishes: every entry of \<open>all_proxies_map\<close> is a validated
  node or a group whose children are entries again, the groups of the map form an acyclic
  graph, and the list of protected domains stays a list of distinct domains. The invariant
  is proved for each operation and carried through the group walk by its own induction.
  The theorems speak of environments whose profile identifiers do not begin with the text
  the builder puts in front of the entries of routing rules.
\<close>

section \<open>The invariant\<close>

definition plain_id :: "string \<Rightarrow> bool" where
  "plain_id i \<longleftrightarrow> \<not> starts_with i ''remark:''"

lemma not_plain_remark [simp]: "\<not> plain_id (''remark:'' @ t)"
  by (simp only: plain_id_def starts_with_append not_not)

definition proxy_edges :: "(string, profile_item) btree_map \<Rightarrow> (string \<times> string) set" where
  "proxy_edges m =
     {(a, b). \<exists>p. bt_get m a = Some p \<and> b \<in> set (child_profile_ids (protocol p))}"

definition plain_keys :: "(string, profile_item) btree_map \<Rightarrow> string set" where
  "plain_keys m = {k \<in> set (bt_keys m). plain_id k}"

definition entry_ok ::
    "externals \<Rightarrow> (string, profile_item) btree_map \<Rightarrow> string \<Rightarrow> profile_item \<Rightarrow> bool" where
  "entry_ok X m k p \<longleftrightarrow> index_id p = k
     \<and> (if is_group_type (config_type p)
        then child_profile_ids (protocol p) \<noteq> [] \<and> distinct (child_profile_ids (protocol p))
             \<and> set (child_profile_ids (protocol p)) \<subseteq> plain_keys m
        else profile_is_valid X p)"

text \<open>An entry of a routing rule, under its remark: a profile as it is stored.\<close>

definition remark_ok :: "externals \<Rightarrow> profile_item \<Rightarrow> bool" where
  "remark_ok X p \<longleftrightarrow> list_all plain_id (child_profile_ids (protocol p))
     \<and> (is_group_type (config_type p) \<or> trim (index_id p) = [] \<or> profile_is_valid X p)"

definition map_ok :: "externals \<Rightarrow> (string, profile_item) btree_map \<Rightarrow> bool" where
  "map_ok X m \<longleftrightarrow>
     (\<forall>k p. bt_get m k = Some p \<longrightarrow> (if plain_id k then entry_ok X m k p else remark_ok X p))"

text \<open>\<open>D\<close> is the set of nodes the current walk has finished: closed under the child relation.\<close>

definition proxies_inv :: "externals \<Rightarrow> string set \<Rightarrow> (string, profile_item) btree_map \<Rightarrow> bool" where
  "proxies_inv X D m \<longleftrightarrow> map_ok X m \<and> acyclic (proxy_edges m) \<and> D \<subseteq> plain_keys m
     \<and> (\<forall>a b. a \<in> D \<longrightarrow> (a, b) \<in> proxy_edges m \<longrightarrow> b \<in> D)"

lemma proxy_edges_insert:
  "proxy_edges (bt_insert k p m) = redirect k (set (child_profile_ids (protocol p))) (proxy_edges m)"
  by (auto simp: proxy_edges_def redirect_def bt_get_insert split: if_splits)

lemma plain_keys_insert:
  "plain_keys (bt_insert k p m) = (if plain_id k then insert k (plain_keys m) else plain_keys m)"
  by (auto simp: plain_keys_def keys_bt_insert)

lemma entry_ok_mono: "plain_keys m \<subseteq> plain_keys m' \<Longrightarrow> entry_ok X m k p \<Longrightarrow> entry_ok X m' k p"
  by (auto simp: entry_ok_def split: if_splits)

lemma map_ok_insert:
  assumes "map_ok X m" and "plain_id k \<Longrightarrow> entry_ok X (bt_insert k p m) k p"
    and "\<not> plain_id k \<Longrightarrow> remark_ok X p"
  shows "map_ok X (bt_insert k p m)"
proof -
  have "plain_keys m \<subseteq> plain_keys (bt_insert k p m)" by (auto simp: plain_keys_insert)
  then show ?thesis
    using assms entry_ok_mono
    unfolding map_ok_def bt_get_insert by (metis (no_types, lifting) option.inject)
qed

lemma proxies_inv_insert:
  assumes inv: "proxies_inv X D m" and k: "k \<notin> D" "plain_id k"
    and e: "entry_ok X (bt_insert k p m) k p"
    and C: "set (child_profile_ids (protocol p)) \<subseteq> D"
  shows "proxies_inv X (insert k D) (bt_insert k p m)"
proof -
  have "acyclic (proxy_edges (bt_insert k p m))"
    unfolding proxy_edges_insert
    by (rule acyclic_redirect[where S = D]) (use inv k C in \<open>auto simp: proxies_inv_def\<close>)
  moreover have "map_ok X (bt_insert k p m)"
    using inv e k(2) by (auto simp: proxies_inv_def intro: map_ok_insert)
  moreover have "b \<in> insert k D" if "a \<in> insert k D" "(a, b) \<in> proxy_edges (bt_insert k p m)" for a b
    using that inv k C by (auto simp: proxies_inv_def proxy_edges_insert redirect_def)
  ultimately show ?thesis
    using inv k by (auto simp: proxies_inv_def plain_keys_insert)
qed

lemma proxies_inv_sub: "proxies_inv X D m \<Longrightarrow> proxies_inv X {} m"
  by (simp add: proxies_inv_def)

section \<open>The invariant of a context\<close>

definition same_frame :: "core_config_context \<Rightarrow> core_config_context \<Rightarrow> bool" where
  "same_frame c c' \<longleftrightarrow>
     (\<exists>m d. c' = c\<lparr>all_proxies_map := m, protect_domain_list := d\<rparr>)
     \<and> set (protect_domain_list c) \<subseteq> set (protect_domain_list c')
     \<and> set (bt_keys (all_proxies_map c)) \<subseteq> set (bt_keys (all_proxies_map c'))"

lemma same_frame_refl [simp]: "same_frame c c"
proof -
  have "c = c\<lparr>all_proxies_map := all_proxies_map c, protect_domain_list := protect_domain_list c\<rparr>"
    by simp
  then show ?thesis unfolding same_frame_def by blast
qed

lemma same_frame_trans: "same_frame a b \<Longrightarrow> same_frame b c \<Longrightarrow> same_frame a c"
  by (fastforce simp: same_frame_def)

lemma same_frame_sel:
  assumes "same_frame c c'"
  shows "cx_node c' = cx_node c" "run_core_type c' = run_core_type c"
    "routing_item c' = routing_item c" "simple_dns_item c' = simple_dns_item c"
    "cx_app_config c' = cx_app_config c" "is_tun_enabled c' = is_tun_enabled c"
    "platform c' = platform c" "singbox_ruleset_paths c' = singbox_ruleset_paths c"
    "server_test_item_map c' = server_test_item_map c"
  using assms by (auto simp: same_frame_def)

definition ctx_inv :: "externals \<Rightarrow> string set \<Rightarrow> core_config_context \<Rightarrow> bool" where
  "ctx_inv X D c \<longleftrightarrow> proxies_inv X D (all_proxies_map c) \<and> doms_ok (protect_domain_list c)
     \<and> run_core_type c = Core_sing_box"

lemma ctx_inv_sub: "ctx_inv X D c \<Longrightarrow> ctx_inv X {} c"
  by (auto simp: ctx_inv_def dest: proxies_inv_sub)

lemma protect_domain_inv [simp]: "ctx_inv X D (protect_domain d c) \<longleftrightarrow> ctx_inv X D c"
  if "doms_ok (protect_domain_list c)"
  using that by (simp add: ctx_inv_def protect_domain_def)

lemma doms_protect [simp]:
  "doms_ok (protect_domain_list c) \<Longrightarrow> doms_ok (protect_domain_list (protect_domain d c))"
  by (simp add: protect_domain_def)

lemma insert_proxy_sel [simp]:
  "all_proxies_map (insert_proxy k p c) = bt_insert k p (all_proxies_map c)"
  "protect_domain_list (insert_proxy k p c) = protect_domain_list c"
  "run_core_type (insert_proxy k p c) = run_core_type c"
  by (simp_all add: insert_proxy_def)

lemma frame_protect: "same_frame c (protect_domain d c)"
  unfolding same_frame_def
  by (auto simp: protect_domain_def push_domain_mono intro!: exI[of _ "all_proxies_map c"]
      dest: subsetD[OF push_domain_mono])

lemma frame_insert: "same_frame c (insert_proxy k p c)"
  unfolding same_frame_def
  by (auto simp: insert_proxy_def keys_bt_insert intro!: exI[of _ "protect_domain_list c"])

lemma protect_keeps:
  "ctx_inv X D c \<and> same_frame c0 c \<Longrightarrow>
     ctx_inv X D (protect_domain d c) \<and> same_frame c0 (protect_domain d c)"
  using frame_protect[of c d] same_frame_trans[of c0 c] by (auto simp: ctx_inv_def protect_domain_def)

lemma register_single_node_spec:
  assumes r: "register_single_node X c node = (c', res)" and leaf: "\<not> is_group_type (config_type node)"
    and inv: "ctx_inv X D c" and k: "index_id node \<notin> D" "plain_id (index_id node)"
  shows "same_frame c c' \<and> ctx_inv X (if success res then insert (index_id node) D else D) c'"
proof (cases "success (validate_node X node Core_sing_box)")
  case False
  then show ?thesis using r leaf inv by (auto simp: register_single_node_def ctx_inv_def Let_def)
next
  case True
  let ?c1 = "insert_proxy (index_id node) node c"
  have core: "run_core_type c = Core_sing_box" and doms: "doms_ok (protect_domain_list c)"
    using inv by (auto simp: ctx_inv_def)
  have none: "child_profile_ids (protocol node) = []"
    using leaf by (simp add: config_type_def)
  have "proxies_inv X (insert (index_id node) D) (bt_insert (index_id node) node (all_proxies_map c))"
    using inv k leaf True none
    by (intro proxies_inv_insert) (auto simp: ctx_inv_def entry_ok_def profile_is_valid_def)
  then have 1: "ctx_inv X (insert (index_id node) D) ?c1"
    using core doms by (simp add: ctx_inv_def)
  define c2 where "c2 = protect_domain (address node) ?c1"
  define c3 where "c3 = (case tls node of
      Some t \<Rightarrow> (if ech_config t \<noteq> [] then protect_domain (ech_query_sni t) c2 else c2) | None \<Rightarrow> c2)"
  have "register_single_node X c node =
      ((case xhttp_download_settings_address X node of Some a \<Rightarrow> protect_domain a c3 | None \<Rightarrow> c3),
       validate_node X node Core_sing_box)"
    unfolding register_single_node_def Let_def core c3_def c2_def by (simp add: leaf True)
  then have c': "c' = (case xhttp_download_settings_address X node of
      Some a \<Rightarrow> protect_domain a c3 | None \<Rightarrow> c3)" and res: "success res"
    using r True by simp_all
  have 2: "ctx_inv X (insert (index_id node) D) c2 \<and> same_frame c c2"
    unfolding c2_def using 1 frame_insert by (intro protect_keeps) blast
  have 3: "ctx_inv X (insert (index_id node) D) c3 \<and> same_frame c c3"
    unfolding c3_def using 2 protect_keeps[OF 2] by (auto split: option.split)
  show ?thesis
    using c' res 3 protect_keeps[OF 3] by (auto split: option.splits)
qed

section \<open>The walk\<close>

definition plain_env :: "snapshot_env \<Rightarrow> bool" where
  "plain_env env \<longleftrightarrow>
     list_all (\<lambda>p. plain_id (index_id p) \<and> list_all plain_id (child_profile_ids (protocol p)))
       (sn_profiles env)"

definition traversal_inv ::
    "externals \<Rightarrow> string set \<Rightarrow> core_config_context \<Rightarrow> string set \<Rightarrow> traversal \<Rightarrow> bool" where
  "traversal_inv X anc c0 V st \<longleftrightarrow>
     same_frame c0 (tv_ctx st) \<and> V \<subseteq> tv_visited st \<and> tv_visited st \<inter> anc = V \<inter> anc
     \<and> ctx_inv X (tv_visited st - anc) (tv_ctx st)
     \<and> set (tv_ids st) \<subseteq> tv_visited st - anc \<and> distinct (tv_ids st) \<and> tv_seen st = set (tv_ids st)"

lemma traversal_start:
  "ctx_inv X (V - anc) c0 \<Longrightarrow> traversal_inv X anc c0 V (start_traversal c0 V)"
  by (simp add: traversal_inv_def start_traversal_def)

lemma traversal_cycle:
  "traversal_inv X anc c0 V st \<Longrightarrow> traversal_inv X anc c0 V (visit_cycle node child st)"
  by (simp add: traversal_inv_def visit_cycle_def)

lemma traversal_again:
  "traversal_inv X anc c0 V st \<Longrightarrow> i \<in> tv_visited st \<Longrightarrow> i \<notin> anc \<Longrightarrow>
     traversal_inv X anc c0 V (push_unique_child_index i st)"
  by (auto simp: traversal_inv_def push_unique_child_index_def)

lemma traversal_accept:
  assumes "traversal_inv X anc c0 V st" and "i \<notin> anc" and "same_frame (tv_ctx st) c"
    and "ctx_inv X (insert i (W - anc)) c" and "tv_visited st \<subseteq> W" and "W \<inter> anc = V \<inter> anc"
  shows "traversal_inv X anc c0 V
     (accept_child i (report_child pfx res (st\<lparr>tv_ctx := c, tv_visited := W\<rparr>)))"
proof -
  have "insert i W - anc = insert i (W - anc)" using assms(2) by auto
  then show ?thesis
    using assms same_frame_trans[of c0 "tv_ctx st" c]
    by (auto simp: traversal_inv_def accept_child_def report_child_def push_unique_child_index_def)
qed

lemma traversal_reject:
  assumes "traversal_inv X anc c0 V st" and "same_frame (tv_ctx st) c"
    and "ctx_inv X (W - anc) c" and "tv_visited st \<subseteq> W" and "W \<inter> anc = V \<inter> anc"
  shows "traversal_inv X anc c0 V (report_child pfx res (st\<lparr>tv_ctx := c, tv_visited := W\<rparr>))"
  using assms same_frame_trans[of c0 "tv_ctx st" c]
  by (auto simp: traversal_inv_def report_child_def)

lemma traversal_leaf:
  assumes inv: "traversal_inv X anc c0 V st" and leaf: "\<not> is_group_type (config_type child)"
    and i: "index_id child \<notin> anc" "index_id child \<notin> tv_visited st" "plain_id (index_id child)"
  shows "traversal_inv X anc c0 V (visit_leaf X node child st)"
proof -
  obtain c res where r: "register_single_node X (tv_ctx st) child = (c, res)" by fastforce
  have spec: "same_frame (tv_ctx st) c
      \<and> ctx_inv X (if success res then insert (index_id child) (tv_visited st - anc)
                   else tv_visited st - anc) c"
    using register_single_node_spec[OF r leaf, of "tv_visited st - anc"] inv i
    by (simp add: traversal_inv_def)
  have st: "st\<lparr>tv_ctx := c\<rparr> = st\<lparr>tv_ctx := c, tv_visited := tv_visited st\<rparr>" by simp
  have V: "tv_visited st \<inter> anc = V \<inter> anc" using inv by (simp add: traversal_inv_def)
  show ?thesis
  proof (cases "success res")
    case True
    with spec show ?thesis
      using traversal_accept[OF inv i(1) _ _ subset_refl V, of c] by (simp add: visit_leaf_def r st[symmetric])
  next
    case False
    with spec show ?thesis
      using traversal_reject[OF inv _ _ subset_refl V, of c] by (simp add: visit_leaf_def r st[symmetric])
  qed
qed

text \<open>What a walk of a group returns, with the ancestors \<open>anc\<close> the group belongs to.\<close>

definition walk_ok ::
    "externals \<Rightarrow> string \<Rightarrow> string set \<Rightarrow> core_config_context \<Rightarrow> string set
       \<Rightarrow> core_config_context \<times> string set \<times> node_validator_result \<Rightarrow> bool" where
  "walk_ok X i anc c V out \<longleftrightarrow>
     (case out of (c', V', res) \<Rightarrow>
        same_frame c c' \<and> V \<subseteq> V' \<and> V' \<inter> anc = V \<inter> anc
        \<and> ctx_inv X (if success res then insert i (V' - anc) else V' - anc) c')"

lemma traversal_group:
  assumes inv: "traversal_inv X anc c0 V st"
    and i: "index_id child \<notin> anc" "index_id child \<notin> tv_visited st"
    and w: "walk_ok X (index_id child) (insert (index_id child) anc) (tv_ctx st) (tv_visited st) out"
  shows "traversal_inv X anc c0 V (visit_group node child out st)"
proof -
  obtain c W res where out: "out = (c, W, res)" by (cases out)
  have w: "same_frame (tv_ctx st) c" "tv_visited st \<subseteq> W"
    "W \<inter> insert (index_id child) anc = tv_visited st \<inter> insert (index_id child) anc"
    "ctx_inv X (if success res then insert (index_id child) (W - insert (index_id child) anc)
                else W - insert (index_id child) anc) c"
    using w by (auto simp: walk_ok_def out)
  have W: "W \<inter> anc = V \<inter> anc" and out_W: "index_id child \<notin> W"
    using w(3) i inv by (auto simp: traversal_inv_def)
  then have eq: "W - insert (index_id child) anc = W - anc" by auto
  have w4: "ctx_inv X (if success res then insert (index_id child) (W - anc) else W - anc) c"
    using w(4) unfolding eq .
  show ?thesis
  proof (cases "success res")
    case True
    with w4 show ?thesis
      using traversal_accept[OF inv i(1) w(1) _ w(2) W] by (simp add: visit_group_def out)
  next
    case False
    with w4 show ?thesis
      using traversal_reject[OF inv w(1) _ w(2) W] by (simp add: visit_group_def out)
  qed
qed

lemma walk_finish:
  assumes inv: "traversal_inv X anc c0 V st" and i: "index_id node \<in> anc" "plain_id (index_id node)"
    and g: "is_group_type (config_type node)"
  shows "walk_ok X (index_id node) anc c0 V (finish_group node st)"
proof (cases "tv_ids st = []")
  case True
  then show ?thesis
    using inv by (simp add: finish_group_def walk_ok_def traversal_inv_def success_def push_error_def)
next
  case False
  let ?p = "node\<lparr>protocol := replace_child_profile_ids (tv_ids st) (protocol node)\<rparr>"
  let ?D = "tv_visited st - anc" and ?m = "all_proxies_map (tv_ctx st)"
  have ids: "child_profile_ids (protocol ?p) = tv_ids st" and g': "is_group_type (config_type ?p)"
    using g by (simp_all add: child_ids_replace config_type_def)
  have pinv: "proxies_inv X ?D ?m" using inv by (simp add: traversal_inv_def ctx_inv_def)
  then have "?D \<subseteq> plain_keys (bt_insert (index_id node) ?p ?m)"
    by (auto simp: proxies_inv_def plain_keys_insert)
  then have "proxies_inv X (insert (index_id node) ?D) (bt_insert (index_id node) ?p ?m)"
    using pinv i inv False ids g'
    by (intro proxies_inv_insert) (auto simp: entry_ok_def traversal_inv_def)
  then show ?thesis
    using inv False frame_insert[of "tv_ctx st"] same_frame_trans[of c0 "tv_ctx st"]
    by (auto simp: finish_group_def walk_ok_def traversal_inv_def success_def ctx_inv_def)
qed

lemma child_plain:
  "plain_env env \<Longrightarrow> c \<in> set (env_children X env p) \<Longrightarrow> plain_id (index_id c)"
  using snapshot.child_in_universe[of c X env p] by (auto simp: plain_env_def list_all_iff)

lemma traverse_group_node_spec:
  assumes "plain_env env"
  shows "ctx_inv X (V - anc) c \<Longrightarrow> index_id node \<in> anc \<Longrightarrow> plain_id (index_id node) \<Longrightarrow>
     is_group_type (config_type node) \<Longrightarrow>
     walk_ok X (index_id node) anc c V (traverse_group_node X env node anc c V)"
  using assms
proof (induction X env node anc c V rule: traverse_group_node.induct)
  case (1 X env node anc c V)
  let ?f = "\<lambda>child st.
             if index_id child \<in> anc then visit_cycle node child st
             else if index_id child \<in> tv_visited st then push_unique_child_index (index_id child) st
             else if \<not> is_group_type (config_type child) then visit_leaf X node child st
             else visit_group node child
                    (traverse_group_node X env child (insert (index_id child) anc)
                       (tv_ctx st) (tv_visited st)) st"
  let ?cs = "env_children X env (protocol node)"
  have step: "traversal_inv X anc c V (?f child st)"
    if child: "child \<in> set ?cs" and st: "traversal_inv X anc c V st" for child st
  proof -
    have p: "plain_id (index_id child)" using child_plain[OF "1.prems"(5) child] .
    have "traversal_inv X anc c V (visit_group node child
        (traverse_group_node X env child (insert (index_id child) anc) (tv_ctx st) (tv_visited st)) st)"
      if h: "index_id child \<notin> anc" "index_id child \<notin> tv_visited st"
        "\<not> \<not> is_group_type (config_type child)"
    proof (rule traversal_group[OF st h(1,2)])
      have "tv_visited st - insert (index_id child) anc = tv_visited st - anc" using h(2) by auto
      then have "ctx_inv X (tv_visited st - insert (index_id child) anc) (tv_ctx st)"
        using st by (simp add: traversal_inv_def)
      then show "walk_ok X (index_id child) (insert (index_id child) anc) (tv_ctx st) (tv_visited st)
          (traverse_group_node X env child (insert (index_id child) anc) (tv_ctx st) (tv_visited st))"
        using "1.IH"[OF child h] h(3) p "1.prems"(5) by simp
    qed
    then show ?thesis
      using st p traversal_leaf[OF st] traversal_cycle[OF st] traversal_again[OF st] by auto
  qed
  have "traversal_inv X anc c V (fold ?f ?cs (start_traversal c V))"
    by (rule fold_invariant[where Q = "\<lambda>x. x \<in> set ?cs"])
      (use step "1.prems"(1) traversal_start in blast)+
  then show ?case
    unfolding traverse_group_node.simps[of X env node]
    by (rule walk_finish) (use "1.prems" in auto)
qed

section \<open>Building\<close>

lemma register_single_valid:
  assumes "register_single_node X c node = (c', res)" and "\<not> is_group_type (config_type node)"
    and "run_core_type c = Core_sing_box" and "success res"
  shows "profile_is_valid X node"
  using assms by (auto simp: register_single_node_def profile_is_valid_def Let_def split: if_splits)

lemma resolve_node_spec:
  assumes env: "plain_env env" and id: "plain_id (index_id node)" and inv: "ctx_inv X {} c"
    and r: "resolve_node X env c node = (c', active, res)"
  shows "active = node \<and> same_frame c c' \<and> ctx_inv X {} c'
     \<and> (success res \<longrightarrow> trim (index_id node) \<noteq> [] \<longrightarrow> index_id node \<in> plain_keys (all_proxies_map c'))
     \<and> (success res \<longrightarrow> is_group_type (config_type node) \<or> trim (index_id node) = []
          \<or> profile_is_valid X node)"
proof (cases "trim (index_id node) = []")
  case True
  then show ?thesis using r inv by (auto simp: resolve_node_def)
next
  case named: False
  have keys: "ctx_inv X (insert i {}) x \<Longrightarrow> ctx_inv X {} x \<and> i \<in> plain_keys (all_proxies_map x)" for i x
    using ctx_inv_sub by (auto simp: ctx_inv_def proxies_inv_def)
  show ?thesis
  proof (cases "is_group_type (config_type node)")
    case True
    obtain V' where t: "traverse_group_node X env node {index_id node} c {index_id node} = (c', V', res)"
      using r named True
      by (auto simp: resolve_node_def register_node_def register_group_node_def split: prod.splits)
    have "walk_ok X (index_id node) {index_id node} c {index_id node} (c', V', res)"
      using traverse_group_node_spec[OF env, of X "{index_id node}" "{index_id node}" c node] inv id True t
      by simp
    then have f: "same_frame c c'"
      and i: "ctx_inv X (if success res then insert (index_id node) (V' - {index_id node})
                       else V' - {index_id node}) c'"
      by (auto simp: walk_ok_def)
    have "ctx_inv X {} c'" using i by (rule ctx_inv_sub)
    moreover have "success res \<longrightarrow> index_id node \<in> plain_keys (all_proxies_map c')"
      using i by (auto simp: ctx_inv_def proxies_inv_def)
    ultimately show ?thesis
      using r named f True by (auto simp: resolve_node_def split: prod.splits)
  next
    case False
    then have s: "register_single_node X c node = (c', res)" and a: "active = node"
      using r named by (auto simp: resolve_node_def register_node_def split: prod.splits)
    show ?thesis
      using register_single_node_spec[OF s False inv _ id] a keys register_single_valid[OF s False] inv
      by (auto simp: ctx_inv_def split: if_splits)
  qed
qed

lemma remark_entry_inv:
  assumes "ctx_inv X {} c" and "remark_ok X p"
  shows "ctx_inv X {} (insert_proxy (''remark:'' @ t) p c)"
proof -
  have inv: "map_ok X (all_proxies_map c)" "acyclic (proxy_edges (all_proxies_map c))"
    using assms(1) by (auto simp: ctx_inv_def proxies_inv_def)
  have closed: "plain_id b" if e: "plain_id a" "(a, b) \<in> proxy_edges (all_proxies_map c)" for a b
  proof -
    obtain q where q: "bt_get (all_proxies_map c) a = Some q" "b \<in> set (child_profile_ids (protocol q))"
      using e(2) by (auto simp: proxy_edges_def)
    then have "entry_ok X (all_proxies_map c) a q" using inv(1) e(1) by (auto simp: map_ok_def)
    moreover have "is_group_type (config_type q)" using q(2) by (cases "protocol q")
      (simp_all add: config_type_def is_group_type_def)
    ultimately show ?thesis using q(2) by (auto simp: entry_ok_def plain_keys_def)
  qed
  have "acyclic (proxy_edges (bt_insert (''remark:'' @ t) p (all_proxies_map c)))"
    unfolding proxy_edges_insert
    by (rule acyclic_redirect[where S = "Collect plain_id"])
      (use inv(2) closed assms(2) in \<open>auto simp: remark_ok_def list_all_iff simp del: append_Cons\<close>)
  moreover have "map_ok X (bt_insert (''remark:'' @ t) p (all_proxies_map c))"
    using inv(1) by (rule map_ok_insert) (simp_all add: assms(2) del: append_Cons)
  ultimately show ?thesis
    using assms(1) by (simp add: ctx_inv_def proxies_inv_def del: append_Cons)
qed

lemma resolve_rule_outbound_spec:
  assumes env: "plain_env env" and inv: "ctx_inv X {} c"
  shows "ctx_inv X {} (fst (resolve_rule_outbound X env rule (c, vr)))
     \<and> same_frame c (fst (resolve_rule_outbound X env rule (c, vr)))
     \<and> nv_errors (snd (resolve_rule_outbound X env rule (c, vr))) = nv_errors vr"
proof (cases "Option.bind (ri_outbound_tag rule) nonempty")
  case None
  then show ?thesis using inv by (simp add: resolve_rule_outbound_def push_warning_def Let_def)
next
  case tag: (Some t)
  show ?thesis
  proof (cases "get_profile_by_remarks env t")
    case None
    then show ?thesis using inv tag by (simp add: resolve_rule_outbound_def push_warning_def Let_def)
  next
    case (Some p)
    obtain c1 a res where r: "resolve_node X env c p = (c1, a, res)" by (metis prod_cases3)
    have p: "plain_id (index_id p)" "list_all plain_id (child_profile_ids (protocol p))"
      using Some env by (auto simp: get_profile_by_remarks_def find_Some_iff plain_env_def list_all_iff)
    have 1: "a = p" "same_frame c c1" "ctx_inv X {} c1" and ok: "success res \<longrightarrow> remark_ok X p"
      using resolve_node_spec[OF env p(1) inv r] p(2) by (auto simp: remark_ok_def)
    then show ?thesis
      using tag Some r remark_entry_inv[OF 1(3)] same_frame_trans[OF 1(2) frame_insert]
      by (simp add: resolve_rule_outbound_def Let_def)
  qed
qed

lemma resolve_rule_outbounds_spec:
  assumes env: "plain_env env" and inv: "ctx_inv X {} c"
  shows "ctx_inv X {} (fst (resolve_rule_outbounds X env (c, vr)))
     \<and> same_frame c (fst (resolve_rule_outbounds X env (c, vr)))
     \<and> nv_errors (snd (resolve_rule_outbounds X env (c, vr))) = nv_errors vr"
proof (cases "routing_item c")
  case None
  then show ?thesis using inv by (simp add: resolve_rule_outbounds_def)
next
  case (Some r)
  let ?P = "\<lambda>st :: core_config_context \<times> node_validator_result. ctx_inv X {} (fst st) \<and> same_frame c (fst st) \<and> nv_errors (snd st) = nv_errors vr"
  have "?P (fold (resolve_rule_outbound X env) rules (c, vr))" for rules
  proof (rule fold_invariant[where Q = "\<lambda>x. True"])
    fix rule st assume "?P st"
    then show "?P (resolve_rule_outbound X env rule st)"
      using resolve_rule_outbound_spec[OF env, of X "fst st" rule "snd st"] same_frame_trans by auto
  qed (use inv in simp_all)
  then show ?thesis using Some by (simp add: resolve_rule_outbounds_def)
qed

lemma initial_inv: "ctx_inv X {} (initial_context env config node)"
  by (simp add: ctx_inv_def initial_context_def proxies_inv_def map_ok_def proxy_edges_def
      acyclic_def)

text \<open>Everything the later theorems need of a build, in one place.\<close>

lemma build_spec:
  assumes env: "plain_env env" and id: "plain_id (index_id node)"
  shows "ctx_inv X {} (br_context (build X env config node))
     \<and> same_frame (initial_context env config node) (br_context (build X env config node))
     \<and> (br_success (build X env config node) \<longrightarrow> trim (index_id node) \<noteq> [] \<longrightarrow>
          index_id node \<in> plain_keys (all_proxies_map (br_context (build X env config node))))"
proof -
  obtain c a res where r: "resolve_node X env (initial_context env config node) node = (c, a, res)"
    by (metis prod_cases3)
  have 1: "a = node" "same_frame (initial_context env config node) c" "ctx_inv X {} c"
    "success res \<longrightarrow> trim (index_id node) \<noteq> [] \<longrightarrow> index_id node \<in> plain_keys (all_proxies_map c)"
    using resolve_node_spec[OF env id initial_inv r] by simp_all
  show ?thesis
  proof (cases "success res")
    case False
    then show ?thesis using r 1 by (simp add: build_def br_success_def)
  next
    case True
    have "cx_node c = node" using same_frame_sel(1)[OF 1(2)] by (simp add: initial_context_def)
    then have same: "c\<lparr>cx_node := a\<rparr> = c" using 1(1) by simp
    let ?o = "resolve_rule_outbounds X env (c, empty_result\<lparr>nv_warnings := nv_warnings res\<rparr>)"
    have b: "br_context (build X env config node) = fst ?o"
      using r True by (simp add: build_def same split: prod.splits)
    have o: "ctx_inv X {} (fst ?o)" "same_frame c (fst ?o)"
      using resolve_rule_outbounds_spec[OF env 1(3)] by simp_all
    then have "plain_keys (all_proxies_map c) \<subseteq> plain_keys (all_proxies_map (fst ?o))"
      by (auto simp: same_frame_def plain_keys_def)
    then show ?thesis
      unfolding b using o 1(4) True same_frame_trans[OF 1(2) o(2)] by blast
  qed
qed

lemma build_frame:
  assumes "plain_env env" and "plain_id (index_id node)"
  shows "cx_node (br_context (build X env config node)) = node"
    and "cx_app_config (br_context (build X env config node)) = config"
    and "is_tun_enabled (br_context (build X env config node)) = enable_tun (tun_mode config)"
    and "doms_ok (protect_domain_list (br_context (build X env config node)))"
proof -
  have f: "same_frame (initial_context env config node) (br_context (build X env config node))"
    and i: "ctx_inv X {} (br_context (build X env config node))"
    using build_spec[OF assms, of X config] by auto
  show "cx_node (br_context (build X env config node)) = node"
    and "cx_app_config (br_context (build X env config node)) = config"
    and "is_tun_enabled (br_context (build X env config node)) = enable_tun (tun_mode config)"
    using same_frame_sel[OF f] by (simp_all add: initial_context_def)
  show "doms_ok (protect_domain_list (br_context (build X env config node)))"
    using i by (simp add: ctx_inv_def)
qed

lemma proxies_acyclic:
  assumes "plain_env env" and "plain_id (index_id node)"
  shows "acyclic (proxy_edges (all_proxies_map (br_context (build X env config node))))"
  using build_spec[OF assms, of X config] by (auto simp: ctx_inv_def proxies_inv_def)

lemma resolve_rule_outbounds_errors:
  "nv_errors (snd (resolve_rule_outbounds X env st)) = nv_errors (snd st)"
proof -
  have step: "nv_errors (snd (resolve_rule_outbound X env rule st)) = nv_errors (snd st)"
    for rule and st :: "core_config_context \<times> node_validator_result"
    by (auto simp: resolve_rule_outbound_def push_warning_def Let_def
        split: option.splits prod.splits)
  have "nv_errors (snd (fold (resolve_rule_outbound X env) rules st)) = nv_errors (snd st)" for rules
    by (induction rules arbitrary: st) (simp_all add: step)
  then show ?thesis by (simp add: resolve_rule_outbounds_def split: option.split)
qed

lemma pre_socks_item_iff:
  "pre_socks_item config node env \<noteq> None \<longleftrightarrow>
     (if config_type node = Ct_Custom
      then \<exists>p. Option.bind (Option.bind (subscription_id node) (get_subscription env)) sub_pre_socks_port
             = Some p \<and> valid_port p
      else enable_tun (tun_mode config) \<and> sn_platform env \<noteq> Windows)"
  by (auto simp: pre_socks_item_def valid_port_def is_non_windows_def is_windows_def
      split: option.splits)

lemma pre_socks_item_plain: "pre_socks_item config node env = Some p \<Longrightarrow> plain_id (index_id p)"
  by (auto simp: pre_socks_item_def socks_profile_def default_profile_def plain_id_def starts_with_def
      split: option.splits if_splits)

section \<open>Properties\<close>

definition sample_env :: snapshot_env where
  "sample_env =
     \<lparr>local_socks_port = 10808, sn_platform = Linux,
      sn_profiles = [sample_leaf ''a'', sample_leaf ''b'', sample_group ''g'' [''a'', ''h'', ''g''],
        sample_group ''h'' [''b'', ''g'']],
      sn_routings = [default_routing_item\<lparr>rule_set :=
        [default_rules_item\<lparr>ri_outbound_tag := Some ''b''\<rparr>]\<rparr>],
      sn_subs = [], sn_ruleset_paths = []\<rparr>"

definition sample_tun_config :: app_config where
  "sample_tun_config = default_app_config\<lparr>tun_mode := default_tun_mode_item\<lparr>enable_tun := True\<rparr>\<rparr>"

text \<open>
  C2: if no identifier of a profile and no child reference begins with the reserved prefix, every
  node registered under its identifier in the map of a built context is either a validated node or
  a group with at least one child, no duplicates, and children that are all registered themselves;
  a reference to a missing, invalid or cyclic child never survives.
\<close>

theorem context_map_closed:
  assumes "plain_env env" and "plain_id (index_id node)"
    and "bt_get (all_proxies_map (br_context (build X env config node))) k = Some p" and "plain_id k"
  shows "entry_ok X (all_proxies_map (br_context (build X env config node))) k p"
  using build_spec[OF assms(1,2), of X config] assms(3,4)
  by (fastforce simp: ctx_inv_def proxies_inv_def map_ok_def split: if_splits)

lemma context_map_closed_witness:
  "child_profile_ids (protocol (the (bt_get (all_proxies_map
     (br_context (build no_externals sample_env default_app_config (sample_group ''g'' [''a'', ''h'', ''g'']))))
     ''g''))) \<noteq> []"
proof -
  let ?m = "all_proxies_map (br_context
    (build no_externals sample_env default_app_config (sample_group ''g'' [''a'', ''h'', ''g''])))"
  have g: "bt_get ?m ''g'' = Some (sample_group ''g'' [''a'', ''h''])" by code_simp
  have "plain_env sample_env" and "plain_id (index_id (sample_group ''g'' [''a'', ''h'', ''g'']))"
    and "plain_id ''g''"
    by code_simp+
  from context_map_closed[OF this(1,2) g this(3)] show ?thesis
    unfolding g by (simp add: entry_ok_def sample_group_def config_type_def is_group_type_def)
qed

text \<open>
  C1: the child relation of a built context's map is acyclic, for every set of profiles, routing
  rules and settings in which no identifier of a profile and no child reference begins with the
  prefix that the builder reserves for the entries of rules: cyclic group references in the stored
  profiles are cut, and the later walks for rule outbounds never close a cycle with what an earlier
  walk registered. (With such an identifier the entry of a rule can take the place of a child.)
\<close>

theorem context_map_acyclic:
  assumes "plain_env env" and "plain_id (index_id node)"
  shows "acyclic (proxy_edges (all_proxies_map (br_context (build X env config node))))"
  using assms by (rule proxies_acyclic)

lemma context_map_acyclic_witness:
  "acyclic (proxy_edges (all_proxies_map (br_context
     (build no_externals sample_env default_app_config (sample_group ''g'' [''a'', ''h'', ''g''])))))"
  by (rule context_map_acyclic) code_simp+

text \<open>
  A successful build registers the active node: when the node has an identifier, the map
  holds an entry for it, validated or with non-empty registered children.
\<close>

theorem build_success_registers:
  assumes "plain_env env" and "plain_id (index_id node)" and "trim (index_id node) \<noteq> []"
    and "br_success (build X env config node)"
  shows "\<exists>p. bt_get (all_proxies_map (br_context (build X env config node))) (index_id node) = Some p
     \<and> entry_ok X (all_proxies_map (br_context (build X env config node))) (index_id node) p"
proof -
  have s: "ctx_inv X {} (br_context (build X env config node))"
    and k: "index_id node \<in> plain_keys (all_proxies_map (br_context (build X env config node)))"
    using build_spec[OF assms(1,2), of X config] assms(3,4) by auto
  then have "\<exists>p. bt_get (all_proxies_map (br_context (build X env config node))) (index_id node) = Some p"
    using bt_get_None_iff[of "all_proxies_map (br_context (build X env config node))" "index_id node"]
    by (auto simp: plain_keys_def)
  then show ?thesis using s assms(2) by (auto simp: ctx_inv_def proxies_inv_def map_ok_def)
qed

lemma build_success_registers_witness:
  "\<exists>p. bt_get (all_proxies_map (br_context
      (build no_externals sample_env default_app_config (sample_group ''g'' [''a'', ''h'', ''g'']))))
      ''g'' = Some p"
proof -
  let ?g = "sample_group ''g'' [''a'', ''h'', ''g'']"
  have "plain_env sample_env" "plain_id (index_id ?g)" "trim (index_id ?g) \<noteq> []"
    "br_success (build no_externals sample_env default_app_config ?g)"
    by code_simp+
  from build_success_registers[OF this] show ?thesis by (auto simp: sample_group_def)
qed

text \<open>
  A routing rule never fails a build. The errors of a build are exactly the errors of
  resolving the active node; an empty tag, an unknown outbound or an invalid outbound node
  of a rule is reported as a warning.
\<close>

theorem build_errors_active_node:
  "nv_errors (validator_result (build X env config node))
     = nv_errors (snd (snd (resolve_node X env (initial_context env config node) node)))"
  using resolve_rule_outbounds_errors
  by (auto simp: build_def success_def Let_def split: prod.splits)
    (metis (no_types, lifting) empty_result_def node_validator_result.select_convs(1)
      node_validator_result.surjective node_validator_result.update_convs(2) snd_conv)



text \<open>
  The second process exists exactly when the main build succeeds and either TUN is on
  outside Windows for an ordinary node, or a custom node's subscription names a valid port.
\<close>

theorem build_all_pre_socks_iff:
  assumes "plain_env env" and "plain_id (index_id node)"
  shows "pre_socks_result (build_all X env config node) \<noteq> None \<longleftrightarrow>
     br_success (build X env config node)
     \<and> (if config_type node = Ct_Custom
        then \<exists>p. Option.bind (Option.bind (subscription_id node) (get_subscription env)) sub_pre_socks_port
               = Some p \<and> valid_port p
        else enable_tun (tun_mode config) \<and> sn_platform env \<noteq> Windows)"
  unfolding pre_socks_item_iff[symmetric]
  using build_frame(1,2)[OF assms, of X config]
  by (auto simp: build_all_def build_pre_socks_if_needed_def Let_def split: option.split)

lemma build_all_pre_socks_iff_witness:
  "pre_socks_result (build_all no_externals sample_env default_app_config (sample_leaf ''a'')) = None"
proof -
  have "plain_env sample_env" "plain_id (index_id (sample_leaf ''a''))" by code_simp+
  from build_all_pre_socks_iff[OF this, of no_externals default_app_config] show ?thesis
    by (simp add: sample_leaf_def config_type_def default_app_config_def default_tun_mode_item_def)
qed

end
