(* ===== verification/SingboxServers.thy ===== *)
theory SingboxServers
  imports SingboxOutbounds ContextProps
begin

text \<open>
  The group walks of \<open>singbox/outbounds.rs\<close>: a policy group becomes a flat list of servers
  with a selector and a latency test over them, a proxy chain a list of servers linked by
  \<open>detour\<close>. \<open>None\<close> is a walk that does not return. The depth of the recursion is the fuel;
  on the map of a built context the number of its entries is enough.
\<close>

section \<open>Lists of results\<close>

fun concat_opt :: "('a \<Rightarrow> 'b list option) \<Rightarrow> 'a list \<Rightarrow> 'b list option" where
  "concat_opt f [] = Some []"
| "concat_opt f (x # xs) =
     (case f x of
        None \<Rightarrow> None
      | Some ys \<Rightarrow> map_option (\<lambda>zs. ys @ zs) (concat_opt f xs))"

fun fold_opt :: "('a \<Rightarrow> 'b \<Rightarrow> 'b option) \<Rightarrow> 'a list \<Rightarrow> 'b \<Rightarrow> 'b option" where
  "fold_opt f [] b = Some b"
| "fold_opt f (x # xs) b = (case f x b of None \<Rightarrow> None | Some b \<Rightarrow> fold_opt f xs b)"

section \<open>Policy groups\<close>

definition policy_tag :: "profile_item list \<Rightarrow> string \<Rightarrow> nat \<Rightarrow> profile_item \<Rightarrow> string" where
  "policy_tag nodes base index child =
     (if length nodes = 1 then base
      else base @ ''-'' @ show_nat (index + 1) @ ''-'' @ remarks child)"

definition build_outbounds_list ::
    "(profile_item \<Rightarrow> string \<Rightarrow> singbox_server list option) \<Rightarrow> externals \<Rightarrow> core_config_context
       \<Rightarrow> profile_item \<Rightarrow> string \<Rightarrow> singbox_server list option" where
  "build_outbounds_list group_servers X ctx node base =
     (let nodes = buildable_child_nodes ctx node in
      concat_opt
        (\<lambda>(index, child).
           if is_group_type (config_type child)
           then group_servers child (policy_tag nodes base index child)
           else map_option (\<lambda>server. case server of Some s \<Rightarrow> [s] | None \<Rightarrow> [])
                  (build_proxy_server X ctx child (policy_tag nodes base index child)))
        (List.enumerate 0 nodes))"

section \<open>Proxy chains\<close>

definition chain_tag :: "string \<Rightarrow> nat \<Rightarrow> profile_item \<Rightarrow> string" where
  "chain_tag base index child =
     (if index = 0 then base
      else ''chain-'' @ base @ ''-'' @ show_nat index @ ''-'' @ remarks child)"

definition chain_detour :: "profile_item list \<Rightarrow> string \<Rightarrow> nat \<Rightarrow> string option" where
  "chain_detour nodes base index =
     (if index \<noteq> length nodes - 1 then Some (chain_tag base (index + 1) (nodes ! (index + 1))) else None)"

definition detour_if_free :: "string option \<Rightarrow> singbox_server \<Rightarrow> singbox_server" where
  "detour_if_free d s =
     (case d of
        Some t \<Rightarrow> (if server_detour s = None \<or> server_detour s = Some [] then set_detour t s else s)
      | None \<Rightarrow> s)"

fun relink :: "string \<Rightarrow> string \<Rightarrow> singbox_server list \<Rightarrow> singbox_server list" where
  "relink current start [] = []"
| "relink current start (s # rest) =
     set_detour
       (if server_detour s = Some current then start
        else (case rest of [] \<Rightarrow> start | r # rs \<Rightarrow> server_tag r)) s
     # relink current start rest"

definition clone_chain :: "nat \<Rightarrow> singbox_server list \<Rightarrow> singbox_server list" where
  "clone_chain branch = map (\<lambda>s. set_tag (server_tag s @ ''-clone-'' @ show_nat (branch + 1)) s)"

text \<open>
  The servers built so far, rewired to the entries of a group that stands in the middle of
  the chain: retargeted when there is one entry, cloned per entry when there are several.
\<close>

definition splice_chain :: "string \<Rightarrow> singbox_server list \<Rightarrow> singbox_server list \<Rightarrow> singbox_server list" where
  "splice_chain current child_profiles result =
     (let starts = filter (\<lambda>s. starts_with (server_tag s) current) child_profiles in
      if length starts = 1
      then map (\<lambda>s. if server_detour s = Some current then set_detour (server_tag (hd starts)) s else s)
             result
      else if length starts > 1
      then concat (map (\<lambda>(branch, start). relink current (server_tag start) (clone_chain branch result))
             (List.enumerate 0 starts))
      else result)"

definition chain_step ::
    "(profile_item \<Rightarrow> string \<Rightarrow> singbox_server list option) \<Rightarrow> externals \<Rightarrow> core_config_context
       \<Rightarrow> profile_item list \<Rightarrow> string \<Rightarrow> nat \<times> profile_item \<Rightarrow> singbox_server list
       \<Rightarrow> singbox_server list option" where
  "chain_step group_servers X ctx nodes base = (\<lambda>(index, child) result.
     (let current = chain_tag base index child; d = chain_detour nodes base index in
      if is_group_type (config_type child)
      then (case group_servers child current of
              None \<Rightarrow> None
            | Some child_profiles \<Rightarrow>
                (let child_profiles = map (detour_if_free d) child_profiles;
                     result = (if index \<noteq> 0 then splice_chain current child_profiles result else result)
                 in Some (result @ child_profiles)))
      else (case build_proxy_server X ctx child current of
              None \<Rightarrow> None
            | Some None \<Rightarrow> Some result
            | Some (Some s) \<Rightarrow>
                Some (result @ [case d of Some t \<Rightarrow> set_detour t s | None \<Rightarrow> s]))))"

definition build_chain_outbounds_list ::
    "(profile_item \<Rightarrow> string \<Rightarrow> singbox_server list option) \<Rightarrow> externals \<Rightarrow> core_config_context
       \<Rightarrow> profile_item \<Rightarrow> string \<Rightarrow> singbox_server list option" where
  "build_chain_outbounds_list group_servers X ctx node base =
     (let nodes = rev (buildable_child_nodes ctx node) in
      fold_opt (chain_step group_servers X ctx nodes base) (List.enumerate 0 nodes) [])"

section \<open>The recursion over groups\<close>

fun build_group_proxy_servers ::
    "nat \<Rightarrow> externals \<Rightarrow> core_config_context \<Rightarrow> profile_item \<Rightarrow> string \<Rightarrow> singbox_server list option" where
  "build_group_proxy_servers 0 X ctx node base = None"
| "build_group_proxy_servers (Suc n) X ctx node base =
     (case config_type node of
        Ct_PolicyGroup \<Rightarrow>
          build_outbounds_list (build_group_proxy_servers n X ctx) X ctx node base
      | Ct_ProxyChain \<Rightarrow>
          build_chain_outbounds_list (build_group_proxy_servers n X ctx) X ctx node base
      | _ \<Rightarrow> Some [])"

definition walk_fuel :: "core_config_context \<Rightarrow> nat" where
  "walk_fuel ctx = Suc (length (all_proxies_map ctx))"

definition build_selector_servers ::
    "profile_item \<Rightarrow> string list \<Rightarrow> string \<Rightarrow> singbox_server list" where
  "build_selector_servers node tags base =
     (let strategy = (case protocol node of Pp_PolicyGroup c s f st \<Rightarrow> st | _ \<Rightarrow> Ml_LeastPing);
          auto_tag = base @ ''-auto''
      in [Outbound (default_singbox_outbound
            \<lparr>ob_type := ''selector'', ob_tag := base, ob_outbounds := Some (auto_tag # tags),
             ob_interrupt_exist_connections := Some False\<rparr>),
          Outbound (default_singbox_outbound
            \<lparr>ob_type := ''urltest'', ob_tag := auto_tag, ob_outbounds := Some tags,
             ob_interrupt_exist_connections := Some False,
             ob_tolerance := (if strategy = Ml_Fallback then Some 5000 else None)\<rparr>)])"

definition ordered_proxy_tags :: "singbox_server list \<Rightarrow> string \<Rightarrow> string list" where
  "ordered_proxy_tags servers base =
     dedup (filter (\<lambda>t. starts_with t base) (map server_tag servers))"

definition build_all_proxy_servers ::
    "externals \<Rightarrow> core_config_context \<Rightarrow> profile_item \<Rightarrow> string \<Rightarrow> bool \<Rightarrow> singbox_server list option" where
  "build_all_proxy_servers X ctx node base with_selector =
     map_option
       (\<lambda>servers.
          let tags = ordered_proxy_tags servers base in
          if with_selector \<and> length tags > 1
          then build_selector_servers node tags base @ servers
          else servers)
       (if is_group_type (config_type node)
        then build_group_proxy_servers (walk_fuel ctx) X ctx node base
        else map_option (\<lambda>s. case s of Some s \<Rightarrow> [s] | None \<Rightarrow> []) (build_proxy_server X ctx node base))"

fun server_outbounds :: "singbox_server list \<Rightarrow> singbox_outbound list" where
  "server_outbounds [] = []"
| "server_outbounds (Outbound o1 # ss) = o1 # server_outbounds ss"
| "server_outbounds (Endpoint e # ss) = server_outbounds ss"

fun server_endpoints :: "singbox_server list \<Rightarrow> singbox_endpoint list" where
  "server_endpoints [] = []"
| "server_endpoints (Outbound o1 # ss) = server_endpoints ss"
| "server_endpoints (Endpoint e # ss) = e # server_endpoints ss"

definition prepend_servers :: "singbox_server list \<Rightarrow> singbox_config \<Rightarrow> singbox_config" where
  "prepend_servers servers cfg =
     cfg\<lparr>cfg_outbounds := server_outbounds servers @ cfg_outbounds cfg,
         cfg_endpoints := server_endpoints servers @ cfg_endpoints cfg\<rparr>"

definition append_servers :: "singbox_server list \<Rightarrow> singbox_config \<Rightarrow> singbox_config" where
  "append_servers servers cfg =
     cfg\<lparr>cfg_outbounds := cfg_outbounds cfg @ server_outbounds servers,
         cfg_endpoints := cfg_endpoints cfg @ server_endpoints servers\<rparr>"

definition gen_outbounds ::
    "externals \<Rightarrow> core_config_context \<Rightarrow> singbox_config \<Rightarrow> singbox_config option" where
  "gen_outbounds X ctx cfg =
     map_option (\<lambda>servers. prepend_servers servers cfg)
       (build_all_proxy_servers X ctx (cx_node ctx) PROXY_TAG True)"

section \<open>Enough fuel\<close>

lemma concat_opt_Some:
  "(\<And>x. x \<in> set xs \<Longrightarrow> f x \<noteq> None) \<Longrightarrow> concat_opt f xs \<noteq> None"
  by (induction xs) (auto split: option.splits)

lemma concat_opt_set:
  "concat_opt f xs = Some ys \<Longrightarrow> y \<in> set ys \<Longrightarrow> \<exists>x \<in> set xs. \<exists>zs. f x = Some zs \<and> y \<in> set zs"
  by (induction xs arbitrary: ys) (auto split: option.splits)

lemma fold_opt_Some:
  "(\<And>x b. x \<in> set xs \<Longrightarrow> f x b \<noteq> None) \<Longrightarrow> fold_opt f xs b \<noteq> None"
  by (induction xs arbitrary: b) (auto split: option.splits)

lemma fold_opt_inv:
  "(\<And>x b b'. x \<in> set xs \<Longrightarrow> P b \<Longrightarrow> f x b = Some b' \<Longrightarrow> P b') \<Longrightarrow> P b \<Longrightarrow>
     fold_opt f xs b = Some b' \<Longrightarrow> P b'"
proof (induction xs arbitrary: b)
  case (Cons x xs)
  obtain b1 where b1: "f x b = Some b1" "fold_opt f xs b1 = Some b'"
    using Cons.prems(3) by (auto split: option.splits)
  have "P b1" using Cons.prems(1,2) b1(1) by auto
  then show ?case using Cons.IH[of b1] Cons.prems(1) b1(2) by auto
qed simp

lemma enumerate_set: "(i, c) \<in> set (List.enumerate n xs) \<Longrightarrow> c \<in> set xs"
  by (auto simp: in_set_enumerate_eq)

lemma child_node_in_map:
  assumes "c \<in> set (buildable_child_nodes ctx node)"
  shows "\<exists>i \<in> set (child_profile_ids (protocol node)). bt_get (all_proxies_map ctx) i = Some c"
  using assms by (auto simp: buildable_child_nodes_def child_nodes_def List.map_filter_def)

text \<open>The registered nodes a walk from \<open>node\<close> can enter.\<close>

definition below :: "core_config_context \<Rightarrow> profile_item \<Rightarrow> string set" where
  "below ctx node =
     {b \<in> set (bt_keys (all_proxies_map ctx)).
        \<exists>a \<in> set (child_profile_ids (protocol node)). (a, b) \<in> (proxy_edges (all_proxies_map ctx))\<^sup>*}"

lemma finite_below [simp]: "finite (below ctx node)"
  by (simp add: below_def)

lemma below_get:
  assumes "acyclic (proxy_edges (all_proxies_map ctx))"
    and i: "i \<in> set (child_profile_ids (protocol node))" "bt_get (all_proxies_map ctx) i = Some c"
  shows "card (below ctx c) < card (below ctx node)"
proof (rule psubset_card_mono[OF finite_below])
  let ?E = "proxy_edges (all_proxies_map ctx)"
  have edge: "(i, a) \<in> ?E" if "a \<in> set (child_profile_ids (protocol c))" for a
    using that i by (auto simp: proxy_edges_def)
  have "below ctx c \<subseteq> below ctx node"
    using i edge by (auto simp: below_def intro: converse_rtrancl_into_rtrancl)
  moreover have "i \<in> below ctx node"
    using i bt_get_None_iff[of "all_proxies_map ctx" i] by (auto simp: below_def)
  moreover have "i \<notin> below ctx c"
    using assms(1) edge by (auto simp: below_def acyclic_def dest: rtrancl_into_trancl2)
  ultimately show "below ctx c \<subset> below ctx node" by blast
qed

lemma below_child:
  assumes "acyclic (proxy_edges (all_proxies_map ctx))" and "c \<in> set (buildable_child_nodes ctx node)"
  shows "card (below ctx c) < card (below ctx node)"
  using child_node_in_map[OF assms(2)] below_get[OF assms(1)] by blast

text \<open>A node whose certificate chain can be cut without a panic.\<close>

definition pem_ok :: "profile_item \<Rightarrow> bool" where
  "pem_ok node \<longleftrightarrow>
     (case Option.bind (tls node) certificate_pem of Some pem \<Rightarrow> parse_pem_chain pem \<noteq> None | None \<Rightarrow> True)"

lemma tls_args_Some: "pem_ok node \<Longrightarrow> tls_plugin_args node \<noteq> None"
  by (auto simp: pem_ok_def tls_plugin_args_def split: option.splits)

lemma plugin_Some: "pem_ok node \<Longrightarrow> fill_shadowsocks_plugin node net o1 \<noteq> None"
  using tls_args_Some[of node]
  by (auto simp: fill_shadowsocks_plugin_def fill_v2ray_plugin_def
      split: option.split profile_transport.split)

lemma fill_protocol_Some: "pem_ok node \<Longrightarrow> fill_protocol X ctx node o1 \<noteq> None"
  using plugin_Some[of node]
  by (cases "protocol node") (simp_all add: fill_protocol_def Let_def)

lemma fill_tls_Some: "pem_ok node \<Longrightarrow> fill_outbound_tls ctx node o1 \<noteq> None"
  unfolding fill_outbound_tls_def Let_def pem_ok_def
  by (cases "tls node") (auto split: option.splits tls_mode.split)

lemma build_proxy_server_Some: "pem_ok node \<Longrightarrow> build_proxy_server X ctx node tag \<noteq> None"
  using fill_protocol_Some[of node X ctx "base_outbound node"] fill_tls_Some[of node ctx]
  by (auto simp: build_proxy_server_def build_outbound_def)

definition map_pem_ok :: "core_config_context \<Rightarrow> bool" where
  "map_pem_ok ctx \<longleftrightarrow> list_all pem_ok (bt_values (all_proxies_map ctx))"

lemma child_pem_ok:
  "map_pem_ok ctx \<Longrightarrow> c \<in> set (buildable_child_nodes ctx node) \<Longrightarrow> pem_ok c"
  by (auto simp: map_pem_ok_def list_all_iff bt_values_def dest!: child_node_in_map map_of_SomeD)

lemma policy_step_Some:
  assumes "group_servers c t \<noteq> None" and "build_proxy_server X ctx c t \<noteq> None"
  shows "(if is_group_type (config_type c) then group_servers c t
     else map_option (\<lambda>server. case server of Some s \<Rightarrow> [s] | None \<Rightarrow> [])
            (build_proxy_server X ctx c t)) \<noteq> None"
  using assms by auto

lemma chain_step_Some:
  assumes "\<And>t. group_servers c t \<noteq> None" and "\<And>t. build_proxy_server X ctx c t \<noteq> None"
  shows "chain_step group_servers X ctx nodes base (i, c) b \<noteq> None"
proof (cases "is_group_type (config_type c)")
  case True
  obtain ss where "group_servers c (chain_tag base i c) = Some ss" using assms(1) by blast
  then show ?thesis using True by (simp add: chain_step_def Let_def)
next
  case False
  obtain s where "build_proxy_server X ctx c (chain_tag base i c) = Some s" using assms(2) by blast
  then show ?thesis using False by (cases s) (simp_all add: chain_step_def Let_def)
qed

lemma build_group_returns:
  assumes "acyclic (proxy_edges (all_proxies_map ctx))" and "map_pem_ok ctx"
  shows "card (below ctx node) < n \<Longrightarrow> build_group_proxy_servers n X ctx node base \<noteq> None"
proof (induction n arbitrary: node base)
  case (Suc n)
  have group: "build_group_proxy_servers n X ctx c t \<noteq> None"
    if "c \<in> set (buildable_child_nodes ctx node)" for c t
    using Suc.IH below_child[OF assms(1) that] Suc.prems by simp
  have leaf: "build_proxy_server X ctx c t \<noteq> None"
    if "c \<in> set (buildable_child_nodes ctx node)" for c t
    using build_proxy_server_Some child_pem_ok[OF assms(2) that] by blast
  let ?gs = "build_group_proxy_servers n X ctx"
  have 1: "build_outbounds_list ?gs X ctx node base \<noteq> None"
    unfolding build_outbounds_list_def Let_def
  proof (rule concat_opt_Some)
    fix x assume x: "x \<in> set (List.enumerate 0 (buildable_child_nodes ctx node))"
    obtain i c where [simp]: "x = (i, c)" by (cases x)
    have c: "c \<in> set (buildable_child_nodes ctx node)" using enumerate_set[of i c] x by simp
    show "(case x of (index, child) \<Rightarrow>
        if is_group_type (config_type child)
        then ?gs child (policy_tag (buildable_child_nodes ctx node) base index child)
        else map_option (\<lambda>server. case server of Some s \<Rightarrow> [s] | None \<Rightarrow> [])
               (build_proxy_server X ctx child
                 (policy_tag (buildable_child_nodes ctx node) base index child))) \<noteq> None"
      unfolding \<open>x = (i, c)\<close> prod.case by (rule policy_step_Some) (rule group[OF c], rule leaf[OF c])
  qed
  have 2: "build_chain_outbounds_list ?gs X ctx node base \<noteq> None"
    unfolding build_chain_outbounds_list_def Let_def
  proof (rule fold_opt_Some)
    fix x b assume x: "x \<in> set (List.enumerate 0 (rev (buildable_child_nodes ctx node)))"
    obtain i c where [simp]: "x = (i, c)" by (cases x)
    have c: "c \<in> set (buildable_child_nodes ctx node)"
      using enumerate_set[of i c 0 "rev (buildable_child_nodes ctx node)"] x by simp
    show "chain_step ?gs X ctx (rev (buildable_child_nodes ctx node)) base x b \<noteq> None"
      unfolding \<open>x = (i, c)\<close> by (rule chain_step_Some) (rule group[OF c], rule leaf[OF c])
  qed
  show ?case using 1 2 by (auto split: config_kind.split)
qed simp

lemma card_below: "card (below ctx node) \<le> length (all_proxies_map ctx)"
proof -
  have "card (below ctx node) \<le> card (set (bt_keys (all_proxies_map ctx)))"
    by (rule card_mono) (auto simp: below_def)
  also have "\<dots> \<le> length (all_proxies_map ctx)"
    using card_length[of "bt_keys (all_proxies_map ctx)"] by (simp add: bt_keys_def)
  finally show ?thesis .
qed

lemma build_all_returns:
  assumes "acyclic (proxy_edges (all_proxies_map ctx))" and "map_pem_ok ctx" and "pem_ok node"
  shows "build_all_proxy_servers X ctx node base sel \<noteq> None"
  using build_group_returns[OF assms(1,2), of node "walk_fuel ctx" X base]
    build_proxy_server_Some[OF assms(3), of X ctx base] card_below[of ctx node]
  by (auto simp: build_all_proxy_servers_def walk_fuel_def)

section \<open>References between servers\<close>

fun server_refs :: "singbox_server \<Rightarrow> string list" where
  "server_refs (Outbound o1) = unwrap_or (ob_outbounds o1) []"
| "server_refs (Endpoint e) = []"

lemma server_simps [simp]:
  "server_refs (set_tag t s) = server_refs s" "server_refs (set_detour t s) = server_refs s"
  "server_tag (set_tag t s) = t" "server_tag (set_detour t s) = server_tag s"
  "server_detour (set_detour t s) = Some t" "server_detour (set_tag t s) = server_detour s"
  by (cases s; simp)+

lemma fill_keeps [simp]:
  "ob_outbounds (fill_outbound_mux ctx o1) = ob_outbounds o1"
  "ob_detour (fill_outbound_mux ctx o1) = ob_detour o1"
  "ob_outbounds (fill_outbound_transport X ctx node o1) = ob_outbounds o1"
  "ob_detour (fill_outbound_transport X ctx node o1) = ob_detour o1"
  "ob_outbounds (with_credentials u q o1) = ob_outbounds o1"
  "ob_detour (with_credentials u q o1) = ob_detour o1"
  "ob_server_port (fill_outbound_mux ctx o1) = ob_server_port o1"
  "ob_server_port (fill_outbound_transport X ctx node o1) = ob_server_port o1"
  "ob_server_port (with_credentials u q o1) = ob_server_port o1"
  by (simp_all add: fill_outbound_mux_def fill_outbound_transport_def with_credentials_def Let_def)

lemma hysteria2_parts_keep [simp]:
  "ob_outbounds (hysteria2_obfs b o1) = ob_outbounds o1"
  "ob_detour (hysteria2_obfs b o1) = ob_detour o1"
  "ob_outbounds (hysteria2_rates hy o1) = ob_outbounds o1"
  "ob_detour (hysteria2_rates hy o1) = ob_detour o1"
  "ob_outbounds (hysteria2_hops hy ports o1) = ob_outbounds o1"
  "ob_detour (hysteria2_hops hy ports o1) = ob_detour o1"
  by (simp_all add: hysteria2_obfs_def hysteria2_rates_def hysteria2_hops_def Let_def split: option.split)

lemma hysteria2_keeps [simp]:
  "ob_outbounds (fill_hysteria2_fields ctx h b o1) = ob_outbounds o1"
  "ob_detour (fill_hysteria2_fields ctx h b o1) = ob_detour o1"
  by (simp_all add: fill_hysteria2_fields_def Let_def split: option.split)

lemma hysteria2_port:
  "ob_server_port (fill_hysteria2_fields ctx h b o1) = Some p \<Longrightarrow> ob_server_port o1 = Some p"
  by (auto simp: fill_hysteria2_fields_def hysteria2_obfs_def hysteria2_rates_def hysteria2_hops_def
      Let_def split: option.splits if_splits)

lemma v2ray_keeps:
  "fill_v2ray_plugin node net o1 = Some o2 \<Longrightarrow>
     ob_outbounds o2 = ob_outbounds o1 \<and> ob_detour o2 = ob_detour o1 \<and> ob_server_port o2 = ob_server_port o1"
  by (auto simp: fill_v2ray_plugin_def Let_def)

lemma plugin_keeps:
  "fill_shadowsocks_plugin node net o1 = Some o2 \<Longrightarrow>
     ob_outbounds o2 = ob_outbounds o1 \<and> ob_detour o2 = ob_detour o1 \<and> ob_server_port o2 = ob_server_port o1"
  by (auto simp: fill_shadowsocks_plugin_def
      split: option.splits profile_transport.splits if_splits dest: v2ray_keeps)

lemma plain_outbound_refs:
  "fill_protocol X ctx node o1 = Some o2 \<Longrightarrow> ob_outbounds o2 = ob_outbounds o1 \<and> ob_detour o2 = ob_detour o1"
  by (cases "protocol node")
    (auto simp: fill_protocol_def Let_def split: option.splits dest!: plugin_keeps)

lemma protocol_port:
  "fill_protocol X ctx node o1 = Some o2 \<Longrightarrow> ob_server_port o2 = Some p \<Longrightarrow> ob_server_port o1 = Some p"
  by (cases "protocol node")
    (auto simp: fill_protocol_def Let_def split: option.splits if_splits dest!: plugin_keeps hysteria2_port)

lemma tls_refs:
  assumes "fill_outbound_tls ctx node o1 = Some o2"
  shows "ob_outbounds o2 = ob_outbounds o1 \<and> ob_detour o2 = ob_detour o1 \<and> ob_server_port o2 = ob_server_port o1"
proof (cases "tls node")
  case None
  then show ?thesis using assms by (simp add: fill_outbound_tls_def)
next
  case (Some t)
  then show ?thesis
    using assms unfolding fill_outbound_tls_def Let_def
    by (cases "tls_mode t") (auto split: if_splits)
qed

lemma build_proxy_server_shape:
  assumes "build_proxy_server X ctx node tag = Some (Some s)"
  shows "server_tag s = tag \<and> server_refs s = [] \<and> server_detour s = None"
proof (cases "config_type node = Ct_WireGuard")
  case True
  then show ?thesis
    using assms by (auto simp: build_proxy_server_def build_wireguard_endpoint_def
        default_singbox_endpoint_def split: profile_protocol.splits option.splits)
next
  case False
  then obtain o2 where o2: "build_outbound X ctx node = Some o2" and s: "s = Outbound (o2\<lparr>ob_tag := tag\<rparr>)"
    using assms by (auto simp: build_proxy_server_def)
  then have "ob_outbounds o2 = None \<and> ob_detour o2 = None"
    by (auto simp: build_outbound_def base_outbound_def default_singbox_outbound_def bind_eq_Some_conv
        dest!: plain_outbound_refs tls_refs)
  then show ?thesis by (simp add: s)
qed

lemma build_proxy_server_buildable:
  assumes "build_proxy_server X ctx node tag = Some r" and "singbox_can_build_leaf node"
  shows "\<exists>s. r = Some s"
proof (cases "config_type node = Ct_WireGuard")
  case True
  then obtain k where k: "wireguard_public_key (protocol node) = Some k"
    using assms(2) by (auto simp: singbox_can_build_leaf_def)
  have "build_wireguard_endpoint node \<noteq> None"
  proof (cases "protocol node")
    case (Pp_WireGuard s pk ppk psk ia ai re m)
    then show ?thesis using k by (simp add: build_wireguard_endpoint_def del: nonempty_str_Some)
  qed (use True in \<open>simp_all add: config_type_def\<close>)
  then show ?thesis using assms(1) True by (auto simp: build_proxy_server_def)
next
  case False
  then show ?thesis using assms(1) by (auto simp: build_proxy_server_def)
qed

text \<open>
  A property of single servers that renaming and redirecting a server keep. If it holds for
  every server built from a registered node, it holds for every server of a group walk.
\<close>

locale server_invariant =
  fixes Q :: "singbox_server \<Rightarrow> bool"
  assumes keep_tag: "Q (set_tag t s) \<longleftrightarrow> Q s"
    and keep_detour: "Q (set_detour t s) \<longleftrightarrow> Q s"
begin

lemma all_map: "list_all Q ss \<Longrightarrow> (\<And>s. Q (f s) \<longleftrightarrow> Q s) \<Longrightarrow> list_all Q (map f ss)"
  by (simp add: list_all_iff)

lemma all_relink: "list_all Q ss \<Longrightarrow> list_all Q (relink current start ss)"
  by (induction ss) (simp_all add: keep_detour)

lemma all_splice:
  assumes "list_all Q result" shows "list_all Q (splice_chain current cps result)"
proof -
  have "list_all Q (relink current t (clone_chain b result))" for t b
    unfolding clone_chain_def by (intro all_relink all_map assms) (simp add: keep_tag)
  then have "list_all Q (concat (map (\<lambda>(b, start). relink current (server_tag start)
      (clone_chain b result)) ps))" for ps
    by (induction ps) auto
  moreover have "list_all Q (map (\<lambda>s. if server_detour s = Some current then set_detour t s else s) result)"
    for t by (rule all_map) (simp_all add: assms keep_detour)
  ultimately show ?thesis
    using assms by (simp add: splice_chain_def Let_def)
qed

lemma all_chain_step:
  assumes gs: "\<And>t ss. group_servers c t = Some ss \<Longrightarrow> list_all Q ss" and b: "list_all Q b"
    and leaf: "\<And>t s. \<not> is_group_type (config_type c) \<Longrightarrow> build_proxy_server X ctx c t = Some (Some s) \<Longrightarrow> Q s"
    and step: "chain_step group_servers X ctx nodes base (i, c) b = Some b'"
  shows "list_all Q b'"
proof (cases "is_group_type (config_type c)")
  case True
  obtain ss where ss: "group_servers c (chain_tag base i c) = Some ss"
    using step True by (auto simp: chain_step_def Let_def split: option.splits)
  have "list_all Q (map (detour_if_free (chain_detour nodes base i)) ss)"
    by (rule all_map[OF gs[OF ss]]) (simp add: detour_if_free_def keep_detour split: option.split)
  then show ?thesis
    using b step True ss all_splice by (auto simp: chain_step_def Let_def split: if_splits)
next
  case False
  then show ?thesis
    using b step leaf by (auto simp: chain_step_def Let_def keep_detour split: option.splits)
qed

lemma all_policy:
  assumes r: "build_outbounds_list gs X ctx node base = Some ss"
    and gs: "\<And>c t ss. c \<in> set (buildable_child_nodes ctx node) \<Longrightarrow> gs c t = Some ss \<Longrightarrow> list_all Q ss"
    and leaf: "\<And>c t s. c \<in> set (buildable_child_nodes ctx node) \<Longrightarrow> \<not> is_group_type (config_type c) \<Longrightarrow>
      build_proxy_server X ctx c t = Some (Some s) \<Longrightarrow> Q s"
  shows "list_all Q ss"
proof -
  have "Q s" if s: "s \<in> set ss" for s
  proof -
    obtain i c zs where z: "s \<in> set zs" and ic: "(i, c) \<in> set (List.enumerate 0 (buildable_child_nodes ctx node))"
      and zs: "(if is_group_type (config_type c)
            then gs c (policy_tag (buildable_child_nodes ctx node) base i c)
            else map_option (\<lambda>server. case server of Some s \<Rightarrow> [s] | None \<Rightarrow> [])
              (build_proxy_server X ctx c (policy_tag (buildable_child_nodes ctx node) base i c))) = Some zs"
      using concat_opt_set[OF r[unfolded build_outbounds_list_def Let_def] s] by auto
    have c: "c \<in> set (buildable_child_nodes ctx node)" using ic by (rule enumerate_set)
    show ?thesis
    proof (cases "is_group_type (config_type c)")
      case True
      then show ?thesis using z zs gs[OF c] by (auto simp: list_all_iff)
    next
      case False
      then show ?thesis using z zs leaf[OF c False] by (fastforce split: option.splits)
    qed
  qed
  then show ?thesis by (simp add: list_all_iff)
qed

text \<open>\<open>N\<close> is any set of nodes closed under the buildable children.\<close>

lemma group_servers_all:
  assumes closed: "\<And>n c. n \<in> N \<Longrightarrow> c \<in> set (buildable_child_nodes ctx n) \<Longrightarrow> c \<in> N"
    and leaf: "\<And>c t s. c \<in> N \<Longrightarrow> \<not> is_group_type (config_type c) \<Longrightarrow>
      build_proxy_server X ctx c t = Some (Some s) \<Longrightarrow> Q s"
  shows "node \<in> N \<Longrightarrow> build_group_proxy_servers n X ctx node base = Some ss \<Longrightarrow> list_all Q ss"
proof (induction n arbitrary: node base ss)
  case (Suc n)
  let ?gs = "build_group_proxy_servers n X ctx"
  have group: "list_all Q ss" if "c \<in> set (buildable_child_nodes ctx node)" and "?gs c t = Some ss" for c t ss
    using Suc.IH closed[OF Suc.prems(1) that(1)] that(2) by blast
  have child: "Q s" if "c \<in> set (buildable_child_nodes ctx node)" and "\<not> is_group_type (config_type c)"
    and "build_proxy_server X ctx c t = Some (Some s)" for c t s
    using closed[OF Suc.prems(1) that(1)] leaf that(2,3) by blast
  have chain: "list_all Q ss" if r: "build_chain_outbounds_list ?gs X ctx node base = Some ss" for ss
  proof (rule fold_opt_inv[where P = "list_all Q", OF _ _ r[unfolded build_chain_outbounds_list_def Let_def]])
    fix x b b' assume x: "x \<in> set (List.enumerate 0 (rev (buildable_child_nodes ctx node)))" and b: "list_all Q b"
      and step: "chain_step ?gs X ctx (rev (buildable_child_nodes ctx node)) base x b = Some b'"
    obtain i c where ic: "x = (i, c)" by (cases x)
    have c: "c \<in> set (buildable_child_nodes ctx node)"
      using enumerate_set[of i c 0 "rev (buildable_child_nodes ctx node)"] x by (simp add: ic)
    show "list_all Q b'"
      using all_chain_step[OF group[OF c] b child[OF c] step[unfolded ic]] .
  qed simp
  have policy: "list_all Q ss" if "build_outbounds_list ?gs X ctx node base = Some ss" for ss
    by (rule all_policy[OF that]) (use group child in blast)+
  show ?case using Suc.prems policy chain by (auto split: config_kind.splits)
qed simp

end

interpretation no_refs: server_invariant "\<lambda>s. server_refs s = []"
  by unfold_locales simp_all

text \<open>The port a server dials.\<close>

fun server_ports_ok :: "singbox_server \<Rightarrow> bool" where
  "server_ports_ok (Outbound o1) = (case ob_server_port o1 of Some p \<Rightarrow> valid_port p | None \<Rightarrow> True)"
| "server_ports_ok (Endpoint e) = list_all (\<lambda>p. valid_port (pe_port p)) (ep_peers e)"

lemma server_ports_ok_keep [simp]:
  "server_ports_ok (set_tag t s) = server_ports_ok s" "server_ports_ok (set_detour t s) = server_ports_ok s"
  by (cases s; simp)+

interpretation ports_ok: server_invariant server_ports_ok
  by unfold_locales simp_all

lemma build_proxy_server_port:
  assumes "build_proxy_server X ctx node tag = Some (Some s)" and "valid_port (port node)"
  shows "server_ports_ok s"
proof (cases "config_type node = Ct_WireGuard")
  case True
  then show ?thesis
    using assms by (auto simp: build_proxy_server_def build_wireguard_endpoint_def port_def
        split: profile_protocol.splits option.splits)
next
  case False
  then obtain o2 where o2: "build_outbound X ctx node = Some o2" and s: "s = Outbound (o2\<lparr>ob_tag := tag\<rparr>)"
    using assms by (auto simp: build_proxy_server_def)
  then obtain o1 where o1: "fill_protocol X ctx node (base_outbound node) = Some o1"
    "fill_outbound_tls ctx node o1 = Some o2"
    by (auto simp: build_outbound_def bind_eq_Some_conv)
  have "valid_port p" if "ob_server_port o2 = Some p" for p
    using protocol_port[OF o1(1), of p] tls_refs[OF o1(2)] that assms(2)
    by (simp add: base_outbound_def)
  then show ?thesis by (simp add: s split: option.split)
qed

lemma group_servers_no_refs:
  "build_group_proxy_servers n X ctx node base = Some ss \<Longrightarrow> list_all (\<lambda>s. server_refs s = []) ss"
  by (rule no_refs.group_servers_all[where N = UNIV]) (use build_proxy_server_shape in \<open>blast | simp\<close>)+

section \<open>Groups of ordinary nodes\<close>

lemma fold_chain_leaves:
  assumes "list_all (\<lambda>(i, c). \<not> is_group_type (config_type c) \<and> singbox_can_build_leaf c) xs"
    and "fold_opt (chain_step gs X ctx nodes base) xs b = Some b'"
  shows "map server_tag b' = map server_tag b @ map (\<lambda>(i, c). chain_tag base i c) xs
     \<and> map server_detour b' = map server_detour b @ map (\<lambda>(i, c). chain_detour nodes base i) xs"
  using assms
proof (induction xs arbitrary: b)
  case (Cons x xs)
  obtain i c where x: "x = (i, c)" by (cases x)
  have c: "\<not> is_group_type (config_type c)" "singbox_can_build_leaf c" using Cons.prems(1) by (auto simp: x)
  obtain r where r: "build_proxy_server X ctx c (chain_tag base i c) = Some r"
    using Cons.prems(2) c by (auto simp: x chain_step_def Let_def split: option.splits)
  obtain s where s: "r = Some s" using build_proxy_server_buildable[OF r c(2)] ..
  let ?s = "case chain_detour nodes base i of Some t \<Rightarrow> set_detour t s | None \<Rightarrow> s"
  have shape: "server_tag ?s = chain_tag base i c" "server_detour ?s = chain_detour nodes base i"
    using build_proxy_server_shape[OF r[unfolded s]] by (simp_all split: option.split)
  have "chain_step gs X ctx nodes base x b = Some (b @ [?s])"
    using c r s by (simp add: x chain_step_def Let_def)
  then have "fold_opt (chain_step gs X ctx nodes base) xs (b @ [?s]) = Some b'"
    using Cons.prems(2) by simp
  then show ?case using Cons.IH[of "b @ [?s]"] Cons.prems(1) shape by (simp add: x)
qed simp

lemma chain_detours_next:
  assumes "nodes \<noteq> []"
  shows "map (\<lambda>(i, c). chain_detour nodes base i) (List.enumerate 0 nodes)
     = map Some (tl (map (\<lambda>(i, c). chain_tag base i c) (List.enumerate 0 nodes))) @ [None]"
proof (rule nth_equalityI)
  show "length (map (\<lambda>(i, c). chain_detour nodes base i) (List.enumerate 0 nodes))
      = length (map Some (tl (map (\<lambda>(i, c). chain_tag base i c) (List.enumerate 0 nodes))) @ [None])"
    using assms by simp
  fix i assume "i < length (map (\<lambda>(i, c). chain_detour nodes base i) (List.enumerate 0 nodes))"
  then have "i < length nodes" by simp
  then show "map (\<lambda>(i, c). chain_detour nodes base i) (List.enumerate 0 nodes) ! i
      = (map Some (tl (map (\<lambda>(i, c). chain_tag base i c) (List.enumerate 0 nodes))) @ [None]) ! i"
    by (auto simp: nth_enumerate_eq nth_append nth_tl chain_detour_def)
qed

lemma concat_opt_leaves:
  assumes "list_all (\<lambda>(i, c). \<not> is_group_type (config_type c) \<and> singbox_can_build_leaf c) xs"
    and "concat_opt
        (\<lambda>(i, c). if is_group_type (config_type c) then gs c (tag i c)
           else map_option (\<lambda>server. case server of Some s \<Rightarrow> [s] | None \<Rightarrow> [])
                  (build_proxy_server X ctx c (tag i c))) xs = Some ss"
  shows "map server_tag ss = map (\<lambda>(i, c). tag i c) xs"
  using assms
proof (induction xs arbitrary: ss)
  case Nil
  then show ?case by simp
next
  case (Cons x xs)
  obtain i c where x: "x = (i, c)" by (cases x)
  have c: "\<not> is_group_type (config_type c)" "singbox_can_build_leaf c" using Cons.prems(1) by (auto simp: x)
  obtain r where r: "build_proxy_server X ctx c (tag i c) = Some r"
    using Cons.prems(2) c by (auto simp: x split: option.splits)
  obtain s where s: "r = Some s" using build_proxy_server_buildable[OF r c(2)] ..
  obtain ss' where ss: "ss = s # ss'" and tl: "concat_opt
        (\<lambda>(i, c). if is_group_type (config_type c) then gs c (tag i c)
           else map_option (\<lambda>server. case server of Some s \<Rightarrow> [s] | None \<Rightarrow> [])
                  (build_proxy_server X ctx c (tag i c))) xs = Some ss'"
    using Cons.prems(2) c r s by (auto simp: x)
  have "map server_tag ss' = map (\<lambda>(i, c). tag i c) xs"
    using Cons.IH[OF _ tl] Cons.prems(1) by simp
  then show ?case
    using build_proxy_server_shape[OF r[unfolded s]] ss by (simp add: x)
qed

lemma policy_tag_inj:
  assumes "base @ ''-'' @ show_nat (i + 1) @ ''-'' @ r = base @ ''-'' @ show_nat (j + 1) @ ''-'' @ r'"
  shows "i = j"
proof -
  have no: "CHR ''-'' \<notin> set (show_nat k)" for k by (rule show_nat_no) (simp add: is_ascii_digit_def)
  have "show_nat (i + 1) @ CHR ''-'' # r = show_nat (j + 1) @ CHR ''-'' # r'"
    using assms by (simp only: append_same_eq same_append_eq append.simps list.inject)
  from conjunct1[OF split_unique[OF this no no]]
  have "show_nat (i + 1) = show_nat (j + 1)" .
  then have "i + 1 = j + 1" by (rule show_nat_inj)
  then show ?thesis by simp
qed

lemma distinct_policy_tags:
  assumes "length nodes \<noteq> 1"
  shows "distinct (map (\<lambda>(i, c). policy_tag nodes base i c) (List.enumerate 0 nodes))"
proof -
  have "inj_on (\<lambda>(i, c). policy_tag nodes base i c) (set (List.enumerate 0 nodes))"
  proof (rule inj_onI)
    fix x y assume x: "x \<in> set (List.enumerate 0 nodes)" and y: "y \<in> set (List.enumerate 0 nodes)"
      and eq: "(case x of (i, c) \<Rightarrow> policy_tag nodes base i c) = (case y of (i, c) \<Rightarrow> policy_tag nodes base i c)"
    obtain i c j d where xy: "x = (i, c)" "y = (j, d)" by (cases x, cases y) auto
    have "i = j"
      using eq unfolding xy prod.case policy_tag_def if_not_P[OF assms] by (rule policy_tag_inj)
    then show "x = y" using x y unfolding xy in_set_enumerate_eq by simp
  qed
  then show ?thesis by (simp add: distinct_map)
qed

lemma policy_tags_start:
  "t \<in> set (map (\<lambda>(i, c). policy_tag nodes base i c) (List.enumerate 0 nodes)) \<Longrightarrow> starts_with t base"
  by (auto simp: policy_tag_def)

lemma chain_shape:
  assumes "config_type node = Ct_ProxyChain"
    and "buildable_child_nodes ctx node \<noteq> []"
    and "list_all (\<lambda>c. \<not> is_group_type (config_type c)) (buildable_child_nodes ctx node)"
    and "build_group_proxy_servers (Suc n) X ctx node base = Some ss"
  shows "length ss = length (buildable_child_nodes ctx node)
     \<and> server_tag (hd ss) = base
     \<and> map server_detour ss = map Some (tl (map server_tag ss)) @ [None]"
proof -
  let ?nodes = "rev (buildable_child_nodes ctx node)"
  have leaf: "list_all (\<lambda>(i, c). \<not> is_group_type (config_type c) \<and> singbox_can_build_leaf c)
      (List.enumerate 0 ?nodes)"
    using assms(3) by (auto simp: list_all_iff buildable_child_nodes_def dest!: enumerate_set)
  have "fold_opt (chain_step (build_group_proxy_servers n X ctx) X ctx ?nodes base)
      (List.enumerate 0 ?nodes) [] = Some ss"
    using assms(1,4) by (simp add: build_chain_outbounds_list_def Let_def)
  from fold_chain_leaves[OF leaf this]
  have t: "map server_tag ss = map (\<lambda>(i, c). chain_tag base i c) (List.enumerate 0 ?nodes)"
    and d: "map server_detour ss = map (\<lambda>(i, c). chain_detour ?nodes base i) (List.enumerate 0 ?nodes)"
    by simp_all
  have len: "length ss = length ?nodes" using t by (metis length_enumerate length_map)
  have "map server_tag ss ! 0 = base"
    using assms(2) unfolding t by (simp add: nth_enumerate_eq chain_tag_def)
  then have "server_tag (hd ss) = base" using assms(2) len by (cases ss) auto
  then show ?thesis
    using len d assms(2) chain_detours_next[of ?nodes base] by (simp add: t)
qed

lemma policy_group_shape:
  assumes "config_type node = Ct_PolicyGroup"
    and "buildable_child_nodes ctx node \<noteq> []"
    and "list_all (\<lambda>c. \<not> is_group_type (config_type c)) (buildable_child_nodes ctx node)"
    and "build_all_proxy_servers X ctx node base True = Some ss"
  shows "server_tag (hd ss) = base
     \<and> (if length (buildable_child_nodes ctx node) = 1 then length ss = 1
        else length ss = length (buildable_child_nodes ctx node) + 2
          \<and> server_refs (ss ! 1) = map server_tag (drop 2 ss)
          \<and> server_refs (ss ! 0) = server_tag (ss ! 1) # map server_tag (drop 2 ss)
          \<and> distinct (map server_tag (drop 2 ss)))"
proof -
  let ?nodes = "buildable_child_nodes ctx node"
  let ?tags = "map (\<lambda>(i, c). policy_tag ?nodes base i c) (List.enumerate 0 ?nodes)"
  have g: "is_group_type (config_type node)" using assms(1) by (simp add: is_group_type_def)
  obtain ss0 where ss0: "build_outbounds_list (build_group_proxy_servers (length (all_proxies_map ctx)) X ctx)
      X ctx node base = Some ss0"
    and ss: "ss = (if length (ordered_proxy_tags ss0 base) > 1
          then build_selector_servers node (ordered_proxy_tags ss0 base) base @ ss0 else ss0)"
    using assms(1,4) g by (auto simp: build_all_proxy_servers_def walk_fuel_def Let_def)
  have leaf: "list_all (\<lambda>(i, c). \<not> is_group_type (config_type c) \<and> singbox_can_build_leaf c)
      (List.enumerate 0 ?nodes)"
    using assms(3) by (auto simp: list_all_iff buildable_child_nodes_def dest!: enumerate_set)
  have t: "map server_tag ss0 = ?tags"
    using concat_opt_leaves[OF leaf, where tag = "policy_tag ?nodes base"]
      ss0[unfolded build_outbounds_list_def Let_def] by blast
  have len: "length ss0 = length ?nodes" using t by (metis length_enumerate length_map)
  have start: "filter (\<lambda>t. starts_with t base) ?tags = ?tags"
    using policy_tags_start by (simp add: filter_id_conv)
  have first: "?tags ! 0 = base" if "length ?nodes = 1"
    using that by (simp add: nth_enumerate_eq policy_tag_def)
  show ?thesis
  proof (cases "length ?nodes = 1")
    case True
    then obtain s where s: "ss0 = [s]" using len by (metis One_nat_def length_0_conv length_Suc_conv)
    have "server_tag s = base" using first[OF True] t by (simp add: s flip: t)
    then show ?thesis using True by (simp add: ss ordered_proxy_tags_def s)
  next
    case False
    have "distinct ?tags" using distinct_policy_tags[OF False] .
    then have o: "ordered_proxy_tags ss0 base = map server_tag ss0"
      unfolding ordered_proxy_tags_def t start by (intro dedup_from_id) simp_all
    have "length ss0 > 1" using False len assms(2) by (cases ?nodes) auto
    then have "ss = build_selector_servers node (map server_tag ss0) base @ ss0"
      unfolding ss o by simp
    then show ?thesis
      using False len \<open>distinct ?tags\<close> t
      by (simp add: build_selector_servers_def Let_def default_singbox_outbound_def)
  qed
qed

section \<open>Properties\<close>

definition sample_context :: core_config_context where
  "sample_context = default_context
     \<lparr>all_proxies_map := [(''a'', sample_leaf ''a''), (''b'', sample_leaf ''b'')]\<rparr>"

definition sample_chain :: profile_item where
  "sample_chain = default_profile\<lparr>index_id := ''c'', protocol := Pp_ProxyChain [''a'', ''b'']\<rparr>"

text \<open>
  C38: every name that a selector or a latency test offers among the servers of a node is the
  tag of one of these servers, for every nesting of groups and chains.
\<close>

theorem server_references_resolve:
  assumes "build_all_proxy_servers X ctx node base sel = Some ss" and "s \<in> set ss"
  shows "set (server_refs s) \<subseteq> server_tag ` set ss"
proof -
  obtain ss0 where ss0: "(if is_group_type (config_type node)
        then build_group_proxy_servers (walk_fuel ctx) X ctx node base
        else map_option (\<lambda>s. case s of Some s \<Rightarrow> [s] | None \<Rightarrow> []) (build_proxy_server X ctx node base))
      = Some ss0"
    and ss: "ss = (if sel \<and> length (ordered_proxy_tags ss0 base) > 1
          then build_selector_servers node (ordered_proxy_tags ss0 base) base @ ss0 else ss0)"
    using assms(1) by (auto simp: build_all_proxy_servers_def Let_def)
  have no: "list_all (\<lambda>s. server_refs s = []) ss0"
  proof (cases "is_group_type (config_type node)")
    case True
    then show ?thesis using ss0 group_servers_no_refs by auto
  next
    case False
    then show ?thesis
      using ss0 build_proxy_server_shape by (fastforce split: option.splits)
  qed
  have "set (ordered_proxy_tags ss0 base) \<subseteq> server_tag ` set ss0"
    by (auto simp: ordered_proxy_tags_def)
  then show ?thesis
    using assms(2) no
    by (auto simp: ss build_selector_servers_def Let_def list_all_iff
        default_singbox_outbound_def split: if_splits)
qed

lemma server_references_resolve_witness:
  "set (server_refs (hd (the (build_all_proxy_servers no_externals sample_context
       (sample_group ''g'' [''a'', ''b'']) ''proxy'' True))))
     \<subseteq> server_tag ` set (the (build_all_proxy_servers no_externals sample_context
       (sample_group ''g'' [''a'', ''b'']) ''proxy'' True))"
proof -
  let ?r = "build_all_proxy_servers no_externals sample_context (sample_group ''g'' [''a'', ''b'']) ''proxy'' True"
  have "map_option (\<lambda>ss. ss \<noteq> []) ?r = Some True" by code_simp
  then obtain ss where ss: "?r = Some ss" "ss \<noteq> []" by auto
  then show ?thesis using server_references_resolve[OF ss(1), of "hd ss"] by simp
qed





text \<open>
  C39: if no identifier of a profile and no child reference begins with the reserved prefix, the
  walk over groups returns on every context the builder produces, whatever the nesting of groups in
  the stored profiles, with a depth of at most the number of registered nodes plus one, as long as
  the certificates of the nodes can be cut.
\<close>

theorem group_walk_returns:
  assumes "plain_env env" and "plain_id (index_id node)" and "pem_ok node"
    and "map_pem_ok (br_context (build X env config node))"
  shows "\<exists>ss. build_all_proxy_servers X (br_context (build X env config node)) node base sel = Some ss"
  using build_all_returns[OF proxies_acyclic[OF assms(1,2)] assms(4,3)] by blast

lemma group_walk_returns_witness:
  "\<exists>ss. build_all_proxy_servers no_externals
     (br_context (build no_externals sample_env default_app_config (sample_group ''g'' [''a'', ''h'', ''g''])))
     (sample_group ''g'' [''a'', ''h'', ''g'']) ''proxy'' True = Some ss"
  by (rule group_walk_returns) code_simp+

end
