(* ===== verification/SingboxRouting.thy ===== *)
theory SingboxRouting
  imports SingboxServers
begin

text \<open>
  \<open>singbox/routing.rs\<close> and the host file and domain notation parsers it shares with
  \<open>singbox/dns/address.rs\<close>: the route rules of the generated configuration. \<open>None\<close> is a run
  that does not return (a rule outbound whose group walk does not).
\<close>

section \<open>Constants (singbox/mod.rs)\<close>

definition SINGBOX_DIRECT_DNS_TAG :: string where "SINGBOX_DIRECT_DNS_TAG = ''direct_dns''"

definition PRIORITY_PROXY_DOMAIN_SUFFIXES :: "string list" where
  "PRIORITY_PROXY_DOMAIN_SUFFIXES =
     [''anthropic.com'', ''claude.ai'', ''claudeusercontent.com'', ''openai.com'', ''chatgpt.com'',
      ''oaistatic.com'', ''oaiusercontent.com'', ''openai.azure.com'', ''githubcopilot.com'',
      ''copilot-proxy.githubusercontent.com'', ''copilot-telemetry.githubusercontent.com'',
      ''cursor.com'', ''cursor.sh'', ''codeium.com'', ''windsurf.com'', ''sourcegraph.com'',
      ''perplexity.ai'', ''generativelanguage.googleapis.com'', ''aistudio.google.com'',
      ''gemini.google.com'', ''ai.google.dev'', ''poe.com'', ''x.ai'', ''grok.com'', ''cohere.ai'',
      ''mistral.ai'', ''huggingface.co'']"

definition IP_IF_NON_MATCH :: string where "IP_IF_NON_MATCH = ''IPIfNonMatch''"
definition IP_ON_DEMAND :: string where "IP_ON_DEMAND = ''IPOnDemand''"

section \<open>Rules under construction\<close>

abbreviation no_fields :: rule_fields where "no_fields \<equiv> default_rule_fields"

definition push_rules :: "singbox_rule list \<Rightarrow> singbox_config \<Rightarrow> singbox_config" where
  "push_rules rs cfg =
     cfg\<lparr>cfg_route := (cfg_route cfg)\<lparr>ro_rules := ro_rules (cfg_route cfg) @ rs\<rparr>\<rparr>"

definition push_if :: "bool \<Rightarrow> singbox_rule \<Rightarrow> singbox_rule list" where
  "push_if b r = (if b then [r] else [])"

definition is_some_nonempty :: "'a list option \<Rightarrow> bool" where
  "is_some_nonempty x = (case x of Some ys \<Rightarrow> ys \<noteq> [] | None \<Rightarrow> False)"

section \<open>Domain and address notation\<close>

text \<open>\<open>None\<close> is the source's \<open>false\<close>: the entry is not supported and leaves the rule alone.\<close>

definition parse_v2_domain :: "string \<Rightarrow> rule_fields \<Rightarrow> rule_fields option" where
  "parse_v2_domain d f =
     (if starts_with d ''#'' \<or> starts_with d ''ext:'' \<or> starts_with d ''ext-domain:'' then None
      else Some
        (case strip_prefix ''geosite:'' d of
           Some v \<Rightarrow> f\<lparr>r_geosite := opt_push v (r_geosite f)\<rparr>
         | None \<Rightarrow>
         (case strip_prefix ''regexp:'' d of
           Some v \<Rightarrow> f\<lparr>r_domain_regex := opt_push (replace_str ''<COMMA>'' '','' v) (r_domain_regex f)\<rparr>
         | None \<Rightarrow>
         (case strip_prefix ''domain:'' d of
           Some v \<Rightarrow> f\<lparr>r_domain_suffix := opt_push v (r_domain_suffix f)\<rparr>
         | None \<Rightarrow>
         (case strip_prefix ''full:'' d of
           Some v \<Rightarrow> f\<lparr>r_domain := opt_push v (r_domain f)\<rparr>
         | None \<Rightarrow>
         (case strip_prefix ''keyword:'' d of
           Some v \<Rightarrow> f\<lparr>r_domain_keyword := opt_push v (r_domain_keyword f)\<rparr>
         | None \<Rightarrow>
         (case strip_prefix ''dotless:'' d of
           Some v \<Rightarrow> f\<lparr>r_domain_keyword := opt_push v (r_domain_keyword f)\<rparr>
         | None \<Rightarrow> f\<lparr>r_domain_keyword := opt_push d (r_domain_keyword f)\<rparr>)))))))"

definition parse_v2_address :: "string \<Rightarrow> rule_fields \<Rightarrow> rule_fields option" where
  "parse_v2_address a f =
     (if starts_with a ''ext:'' \<or> starts_with a ''ext-ip:'' then None
      else if a = ''geoip:private'' then Some (f\<lparr>r_ip_is_private := Some True\<rparr>)
      else case strip_prefix ''geoip:'' a of
        Some v \<Rightarrow> Some (f\<lparr>r_geoip := opt_push v (r_geoip f)\<rparr>)
      | None \<Rightarrow> Some (f\<lparr>r_ip_cidr := opt_push a (r_ip_cidr f)\<rparr>))"

text \<open>\<open>items.iter().filter(|item| parse(item, &mut rule)).count()\<close>: the rule and the count.\<close>

fun parse_count ::
    "(string \<Rightarrow> rule_fields \<Rightarrow> rule_fields option) \<Rightarrow> string list \<Rightarrow> rule_fields \<Rightarrow> rule_fields \<times> nat" where
  "parse_count parse [] f = (f, 0)"
| "parse_count parse (x # xs) f =
     (case parse x f of
        None \<Rightarrow> parse_count parse xs f
      | Some f' \<Rightarrow> (case parse_count parse xs f' of (g, n) \<Rightarrow> (g, Suc n)))"

section \<open>The host file (dns/address.rs)\<close>

definition host_entry :: "string \<Rightarrow> (string \<times> string list) option" where
  "host_entry line =
     (case split_whitespace line of
        host # a # rest \<Rightarrow> Some (host, a # rest)
      | _ \<Rightarrow> None)"

definition parse_hosts_to_dictionary :: "string option \<Rightarrow> (string, string list) btree_map" where
  "parse_hosts_to_dictionary content =
     fold
       (\<lambda>line m. case host_entry line of
          None \<Rightarrow> m
        | Some (host, addresses) \<Rightarrow> bt_insert host (unwrap_or (bt_get m host) [] @ addresses) m)
       (filter (\<lambda>line. line \<noteq> [] \<and> \<not> starts_with line ''#'' \<and> contains_whitespace line)
          (map trim (lines_of (unwrap_or content []))))
       []"

definition normalize_bare_host_domain :: "string \<Rightarrow> rule_fields \<Rightarrow> rule_fields" where
  "normalize_bare_host_domain host f =
     (if CHR '':'' \<in> set host then f
      else case r_domain_keyword f of
        None \<Rightarrow> f
      | Some ks \<Rightarrow>
          (let f = f\<lparr>r_domain_keyword := None\<rparr>
           in if ks \<noteq> [] then f\<lparr>r_domain := Some ks\<rparr> else f))"

definition domain_strategy4_sbox :: "string option \<Rightarrow> string option" where
  "domain_strategy4_sbox s =
     (case s of
        None \<Rightarrow> None
      | Some s \<Rightarrow>
          (if starts_with s ''UseIPv4'' then Some ''prefer_ipv4''
           else if starts_with s ''UseIPv6'' then Some ''prefer_ipv6''
           else if starts_with s ''ForceIPv4'' then Some ''ipv4_only''
           else if starts_with s ''ForceIPv6'' then Some ''ipv6_only''
           else None))"

text \<open>One host of the loop of \<open>hosts_resolve_rule\<close>: the rule so far and whether it got a matcher.\<close>

definition add_host :: "string \<Rightarrow> rule_fields \<times> bool \<Rightarrow> rule_fields \<times> bool" where
  "add_host host = (\<lambda>(rule, any).
     (case parse_v2_domain host no_fields of
        None \<Rightarrow> (rule, any)
      | Some f \<Rightarrow>
          (let f = normalize_bare_host_domain host f in
           case r_domain f of
             Some items \<Rightarrow> (rule\<lparr>r_domain := opt_extend items (r_domain rule)\<rparr>, True)
           | None \<Rightarrow>
           (case r_domain_keyword f of
             Some items \<Rightarrow> (rule\<lparr>r_domain_keyword := opt_extend items (r_domain_keyword rule)\<rparr>, True)
           | None \<Rightarrow>
           (case r_domain_suffix f of
             Some items \<Rightarrow> (rule\<lparr>r_domain_suffix := opt_extend items (r_domain_suffix rule)\<rparr>, True)
           | None \<Rightarrow>
           (case r_domain_regex f of
             Some items \<Rightarrow> (rule\<lparr>r_domain_regex := opt_extend items (r_domain_regex rule)\<rparr>, True)
           | None \<Rightarrow>
           (case r_geosite f of
             Some items \<Rightarrow> (rule\<lparr>r_geosite := opt_extend items (r_geosite rule)\<rparr>, True)
           | None \<Rightarrow> (rule, any))))))))"

definition hosts_resolve_rule :: "simple_dns_item \<Rightarrow> singbox_rule option" where
  "hosts_resolve_rule sdns =
     (let hosts = bt_keys (parse_hosts_to_dictionary (dns_hosts sdns)) in
      if hosts = [] then None
      else (case fold add_host hosts (no_fields\<lparr>r_action := Some ''resolve''\<rparr>, False) of
              (rule, any) \<Rightarrow> if any then Some (flat_rule rule) else None))"

section \<open>TUN rules\<close>

definition tun_route_rules :: "singbox_rule list" where
  "tun_route_rules =
     [flat_rule (no_fields\<lparr>r_network := Some [''udp''], r_port := Some [135, 137, 138, 139, 5353],
                           r_action := Some ''reject''\<rparr>),
      flat_rule (no_fields\<lparr>r_ip_cidr := Some [''224.0.0.0/3'', ''ff00::/8''], r_action := Some ''reject''\<rparr>)]"

definition tun_dns_process_names :: "string list" where
  "tun_dns_process_names = []"

definition tun_direct_process_names :: "string list" where
  "tun_direct_process_names = tun_dns_process_names @ [''sing-box'']"

definition tun_icmp_routing :: "string \<Rightarrow> string" where
  "tun_icmp_routing v = (if v \<in> {''direct'', ''unreachable'', ''drop'', ''reply''} then v else ''rule'')"

definition tun_icmp_rules :: "string \<Rightarrow> singbox_rule list" where
  "tun_icmp_rules setting =
     (let v = tun_icmp_routing setting in
      if v = ''direct''
      then [flat_rule (no_fields\<lparr>r_network := Some [''icmp''], r_outbound := Some DIRECT_TAG\<rparr>)]
      else if v \<in> {''unreachable'', ''drop'', ''reply''}
      then [flat_rule (no_fields\<lparr>r_network := Some [''icmp''], r_action := Some ''reject'',
              r_method := Some (if v = ''unreachable'' then ''default'' else if v = ''drop'' then ''drop''
                                else ''reply'')\<rparr>)]
      else [])"

definition tun_rules :: "core_config_context \<Rightarrow> singbox_rule list" where
  "tun_rules ctx =
     tun_route_rules
     @ push_if (tun_dns_process_names \<noteq> [])
         (flat_rule (no_fields\<lparr>r_port := Some [53], r_action := Some ''hijack-dns'',
            r_process_name := Some tun_dns_process_names\<rparr>))
     @ push_if (tun_direct_process_names \<noteq> [])
         (flat_rule (no_fields\<lparr>r_outbound := Some DIRECT_TAG,
            r_process_name := Some tun_direct_process_names\<rparr>))
     @ tun_icmp_rules (icmp_routing (tun_mode (cx_app_config ctx)))"

section \<open>User rules\<close>

definition fill_rule_common :: "rules_item \<Rightarrow> rule_fields \<Rightarrow> rule_fields" where
  "fill_rule_common user f =
     (let f = (case nonempty_str (ri_port user) of
                 None \<Rightarrow> f
               | Some p \<Rightarrow>
                   (let items = filter (\<lambda>i. i \<noteq> []) (map trim (split_on is_comma p));
                        ranges = map (replace_str ''-'' '':'') (filter (\<lambda>i. CHR ''-'' \<in> set i) items);
                        ports = List.map_filter parse_i32 (filter (\<lambda>i. CHR ''-'' \<notin> set i) items);
                        f = (if ports \<noteq> [] then f\<lparr>r_port := Some ports\<rparr> else f)
                    in if ranges \<noteq> [] then f\<lparr>r_port_range := Some ranges\<rparr> else f));
          f = (case nonempty_str (ri_network user) of
                 None \<Rightarrow> f
               | Some n \<Rightarrow> f\<lparr>r_network :=
                   Some (filter (\<lambda>i. i \<noteq> []) (map trim (split_on is_comma n)))\<rparr>)
      in f\<lparr>r_protocol := opt_filter (\<lambda>items. items \<noteq> []) (ri_protocol user),
           r_inbound := opt_filter (\<lambda>items. items \<noteq> []) (ri_inbound_tag user)\<rparr>)"

definition route_ip_rule_has_matcher :: "rule_fields \<Rightarrow> bool" where
  "route_ip_rule_has_matcher f \<longleftrightarrow>
     is_some_nonempty (r_geoip f) \<or> is_some_nonempty (r_ip_cidr f) \<or> r_ip_is_private f = Some True"

definition domain_rules :: "rule_fields \<Rightarrow> string list option \<Rightarrow> singbox_rule list" where
  "domain_rules rule domains =
     (case domains of
        None \<Rightarrow> []
      | Some ds \<Rightarrow>
          (case parse_count parse_v2_domain ds rule of (f, n) \<Rightarrow> push_if (n > 0) (flat_rule f)))"

text \<open>The rules of an address list, and whether they set \<open>has_domain_ip_process\<close>.\<close>

definition ip_rules :: "rule_fields \<Rightarrow> string list option \<Rightarrow> singbox_rule list \<times> bool" where
  "ip_rules rule ips =
     (case ips of
        None \<Rightarrow> ([], False)
      | Some ips \<Rightarrow>
          (let negative_ips = map trim (List.map_filter (strip_prefix ''!'') ips) in
           if negative_ips = []
           then (case parse_count parse_v2_address ips rule of
                   (f, n) \<Rightarrow> (push_if (n > 0) (flat_rule f), n > 0))
           else
             (let (positive, np) = parse_count parse_v2_address
                    (filter (\<lambda>ip. \<not> starts_with ip ''!'') ips)
                    (rule\<lparr>r_outbound := None, r_action := None\<rparr>);
                  (negative, nn) = parse_count parse_v2_address negative_ips no_fields
              in if np > 0 \<and> nn > 0 \<and> route_ip_rule_has_matcher negative
                 then ([SingboxRule (no_fields\<lparr>r_outbound := r_outbound rule, r_action := r_action rule,
                           r_type := Some ''logical'', r_mode := Some ''and''\<rparr>)
                         (Some [flat_rule positive, flat_rule (negative\<lparr>r_invert := Some True\<rparr>)])], True)
                 else if np > 0 then ([flat_rule positive], True)
                 else ([], True))))"

definition exe_name :: "string \<Rightarrow> string" where
  "exe_name process =
     rev (strip_all [rev ''.exe''] (rev (last (split_on (\<lambda>c. c = CHR ''/'' \<or> c = backslash) process))))"

definition process_rules :: "rule_fields \<Rightarrow> string list option \<Rightarrow> singbox_rule list" where
  "process_rules rule processes =
     (case processes of
        None \<Rightarrow> []
      | Some ps \<Rightarrow>
          (let is_path = (\<lambda>p. p \<noteq> ''self/'' \<and> (CHR ''/'' \<in> set p \<or> backslash \<in> set p));
               names = map (\<lambda>p. if p = ''self/'' then ''sing-box'' else exe_name p)
                 (filter (\<lambda>p. \<not> is_path p) ps);
               paths = filter is_path ps
           in push_if (names \<noteq> []) (flat_rule (rule\<lparr>r_process_name := opt_extend names (r_process_name rule)\<rparr>))
              @ push_if (paths \<noteq> []) (flat_rule (rule\<lparr>r_process_path := opt_extend paths (r_process_path rule)\<rparr>))))"

definition gen_routing_user_rule_outbound ::
    "externals \<Rightarrow> core_config_context \<Rightarrow> string \<Rightarrow> singbox_config \<Rightarrow> (string \<times> singbox_config) option" where
  "gen_routing_user_rule_outbound X ctx outbound_tag cfg =
     (if outbound_tag \<in> {PROXY_TAG, DIRECT_TAG, BLOCK_TAG} then Some (outbound_tag, cfg)
      else case bt_get (all_proxies_map ctx) (''remark:'' @ outbound_tag) of
        None \<Rightarrow> Some (PROXY_TAG, cfg)
      | Some node \<Rightarrow>
          (if \<not> is_group_type (config_type node) \<and> \<not> singbox_supports_config_type (config_type node)
           then Some (PROXY_TAG, cfg)
           else
             (let tag = index_id node @ ''-'' @ PROXY_TAG @ ''-'' @ remarks node in
              if list_ex (\<lambda>o1. starts_with (ob_tag o1) tag) (cfg_outbounds cfg)
                 \<or> list_ex (\<lambda>e. starts_with (ep_tag e) tag) (cfg_endpoints cfg)
              then Some (tag, cfg)
              else map_option
                     (\<lambda>servers. if servers = [] then (PROXY_TAG, cfg)
                                else (tag, append_servers servers cfg))
                     (build_all_proxy_servers X ctx node tag True))))"

definition user_rule_base :: "string \<Rightarrow> rules_item \<Rightarrow> rule_fields" where
  "user_rule_base outbound_tag user =
     fill_rule_common user
       (if outbound_tag = BLOCK_TAG
        then no_fields\<lparr>r_outbound := None, r_action := Some ''reject''\<rparr>
        else no_fields\<lparr>r_outbound := Some outbound_tag\<rparr>)"

definition user_rules :: "rule_fields \<Rightarrow> rules_item \<Rightarrow> singbox_rule list" where
  "user_rules rule user =
     (let ds = domain_rules rule (ri_domain user);
          (irs, ip_seen) = ip_rules rule (ri_ip user);
          ps = process_rules rule (ri_process user)
      in ds @ irs @ ps
         @ push_if (ds = [] \<and> \<not> ip_seen \<and> ps = []
             \<and> (r_port rule \<noteq> None \<or> r_port_range rule \<noteq> None \<or> r_protocol rule \<noteq> None
                \<or> r_inbound rule \<noteq> None \<or> r_network rule \<noteq> None))
             (flat_rule rule))"

definition gen_routing_user_rule ::
    "externals \<Rightarrow> core_config_context \<Rightarrow> rules_item \<Rightarrow> singbox_config \<Rightarrow> singbox_config option" where
  "gen_routing_user_rule X ctx user cfg =
     map_option (\<lambda>(tag, cfg). push_rules (user_rules (user_rule_base tag user) user) cfg)
       (gen_routing_user_rule_outbound X ctx (unwrap_or (ri_outbound_tag user) PROXY_TAG) cfg)"

section \<open>The route\<close>

definition sniff_rules :: "core_config_context \<Rightarrow> singbox_rule list" where
  "sniff_rules ctx =
     (if (case inbound (cx_app_config ctx) of i # is \<Rightarrow> sniffing_enabled i | [] \<Rightarrow> True)
      then [flat_rule (no_fields\<lparr>r_action := Some ''sniff''\<rparr>),
            SingboxRule (no_fields\<lparr>r_type := Some ''logical'', r_mode := Some ''or'',
                r_action := Some ''hijack-dns''\<rparr>)
              (Some [flat_rule (no_fields\<lparr>r_port := Some [53]\<rparr>),
                     flat_rule (no_fields\<lparr>r_protocol := Some [''dns'']\<rparr>)])]
      else [flat_rule (no_fields\<lparr>r_port := Some [53], r_action := Some ''hijack-dns''\<rparr>)])"

definition priority_route_rule :: singbox_rule where
  "priority_route_rule =
     flat_rule (no_fields\<lparr>r_outbound := Some PROXY_TAG, r_domain_suffix := Some PRIORITY_PROXY_DOMAIN_SUFFIXES\<rparr>)"

definition resolve_rule :: "core_config_context \<Rightarrow> singbox_rule" where
  "resolve_rule ctx =
     flat_rule (no_fields\<lparr>r_action := Some ''resolve'',
       r_strategy := or_else
         (Option.bind (routing_item ctx) (\<lambda>r. nonempty_str (Some (rt_domain_strategy4_singbox r))))
         (nonempty_str (Some (rb_domain_strategy4_singbox (routing_basic (cx_app_config ctx)))))\<rparr>)"

definition fixed_route_rules :: "core_config_context \<Rightarrow> singbox_rule list" where
  "fixed_route_rules ctx =
     (if is_tun_enabled ctx then tun_rules ctx else [])
     @ sniff_rules ctx
     @ (case hosts_resolve_rule (simple_dns_item ctx) of Some r \<Rightarrow> [r] | None \<Rightarrow> [])
     @ [priority_route_rule,
        flat_rule (no_fields\<lparr>r_outbound := Some DIRECT_TAG, r_clash_mode := Some ''Direct''\<rparr>),
        flat_rule (no_fields\<lparr>r_outbound := Some PROXY_TAG, r_clash_mode := Some ''Global''\<rparr>)]
     @ push_if (rb_domain_strategy (routing_basic (cx_app_config ctx)) = IP_ON_DEMAND) (resolve_rule ctx)"

definition start_route :: "core_config_context \<Rightarrow> singbox_config \<Rightarrow> singbox_config" where
  "start_route ctx cfg =
     cfg\<lparr>cfg_route := (cfg_route cfg)
       \<lparr>ro_final := Some PROXY_TAG,
        ro_default_domain_resolver := Some (flat_rule (no_fields
          \<lparr>r_server := Some SINGBOX_DIRECT_DNS_TAG,
           r_strategy := domain_strategy4_sbox (strategy4_freedom (simple_dns_item ctx))\<rparr>)),
        ro_auto_detect_interface :=
          (if is_tun_enabled ctx then Some True else ro_auto_detect_interface (cfg_route cfg))\<rparr>\<rparr>"

definition routed_items :: "routing_item \<Rightarrow> rules_item list" where
  "routed_items routing =
     filter (\<lambda>item. ri_enabled item \<and> ri_rule_type item \<noteq> Some Rt_DNS) (rule_set routing)"

definition gen_routing ::
    "externals \<Rightarrow> core_config_context \<Rightarrow> singbox_config \<Rightarrow> singbox_config option" where
  "gen_routing X ctx cfg =
     (let cfg = push_rules (fixed_route_rules ctx) (start_route ctx cfg) in
      case routing_item ctx of
        None \<Rightarrow> Some cfg
      | Some routing \<Rightarrow>
          (case fold_opt (gen_routing_user_rule X ctx) (routed_items routing) cfg of
             None \<Rightarrow> None
           | Some cfg \<Rightarrow>
               (if rb_domain_strategy (routing_basic (cx_app_config ctx)) = IP_IF_NON_MATCH
                then fold_opt (gen_routing_user_rule X ctx)
                       (filter (\<lambda>item. is_some_nonempty (ri_ip item)) (routed_items routing))
                       (push_rules [resolve_rule ctx] cfg)
                else Some cfg)))"

end
