(* ===== verification/SingboxDns.thy ===== *)
theory SingboxDns
  imports SingboxRouting
begin

text \<open>
  \<open>singbox/dns.rs\<close> and \<open>singbox/dns/address.rs\<close>: the address parser for DNS servers and
  the DNS section of the generated configuration. \<open>url::Url::parse\<close> is the parameter
  \<open>url_parse\<close>; the fallback parser for addresses without a scheme is modelled in full.
\<close>

section \<open>Constants (singbox/mod.rs)\<close>

definition SINGBOX_REMOTE_DNS_TAG :: string where "SINGBOX_REMOTE_DNS_TAG = ''remote_dns''"
definition SINGBOX_LOCAL_DNS_TAG :: string where "SINGBOX_LOCAL_DNS_TAG = ''local_local''"
definition SINGBOX_HOSTS_DNS_TAG :: string where "SINGBOX_HOSTS_DNS_TAG = ''hosts_dns''"
definition SINGBOX_FAKE_DNS_TAG :: string where "SINGBOX_FAKE_DNS_TAG = ''fake_dns''"
definition SINGBOX_FAKEIP_INET4_RANGE :: string where "SINGBOX_FAKEIP_INET4_RANGE = ''198.18.0.0/15''"
definition SINGBOX_FAKEIP_INET6_RANGE :: string where "SINGBOX_FAKEIP_INET6_RANGE = ''fc00::/18''"

section \<open>Addresses (dns/address.rs)\<close>

text \<open>The loop keeps the lists of addresses and regions and the last region.\<close>

definition parse_direct_expected_ips :: "string option \<Rightarrow> string list \<times> string list \<times> string" where
  "parse_direct_expected_ips v =
     (let items = filter (\<lambda>i. i \<noteq> [])
            (map trim (split_on (\<lambda>c. c = CHR '','' \<or> c = CHR '';'') (unwrap_or v [])));
          regions = filter (\<lambda>r. r \<noteq> []) (List.map_filter (strip_prefix ''geoip:'') items)
      in (filter (\<lambda>i. \<not> starts_with i ''geoip:'') items, regions,
          if regions = [] then [] else last regions))"

definition parse_authority_port :: "string \<Rightarrow> u16 option" where
  "parse_authority_port p = opt_filter (\<lambda>n. n > 0) (parse_u16 p)"

definition parse_host_port :: "string \<Rightarrow> (string \<times> u16 option) option" where
  "parse_host_port authority =
     (case rsplit_once (CHR '':'') authority of
        Some (domain, p) \<Rightarrow>
          (if CHR '':'' \<notin> set domain
           then map_option (\<lambda>n. (domain, Some n)) (parse_authority_port p)
           else Some (authority, None))
      | None \<Rightarrow> Some (authority, None))"

definition parse_authority :: "string \<Rightarrow> (string \<times> u16 option) option" where
  "parse_authority authority =
     (if authority = [] then Some ([], None)
      else
        (let authority = (case rsplit_once (CHR ''@'') authority of
                            Some (user, rest) \<Rightarrow> rest | None \<Rightarrow> authority) in
         case (if starts_with authority ''['' then rsplit_once (CHR '']'') authority else None) of
           Some (inside, rest) \<Rightarrow>
             (if rest = [] then Some (inside @ '']'', None)
              else case Option.bind (strip_prefix '':'' rest) parse_authority_port of
                     Some n \<Rightarrow> Some (inside @ '']'', Some n)
                   | None \<Rightarrow> None)
         | None \<Rightarrow> parse_host_port authority))"

definition find_str_split :: "string \<Rightarrow> string \<Rightarrow> (string \<times> string) option" where
  "find_str_split p s = map_option (\<lambda>i. (take i s, drop (i + length p) s)) (find_str p s)"

text \<open>\<open>(host, scheme, port, path)\<close>; the first branch is the URL parser's.\<close>

definition parse_plain_address :: "string \<Rightarrow> (string \<times> string \<times> u16 option \<times> string) option" where
  "parse_plain_address input =
     (if contains_str input ''://'' then None
      else
        (let (scheme, rest) = (case find_str_split ''://'' input of Some p \<Rightarrow> p | None \<Rightarrow> ([], input));
             stop = (\<lambda>c. c \<in> set ''/?#'');
             authority = takeWhile (\<lambda>c. \<not> stop c) rest;
             tail = dropWhile (\<lambda>c. \<not> stop c) rest;
             path = (if starts_with tail ''/'' then takeWhile (\<lambda>c. c \<noteq> CHR ''#'') tail else [])
         in case parse_authority authority of
              None \<Rightarrow> None
            | Some (domain, p) \<Rightarrow>
                (if domain = [] then Some (input, [], None, []) else Some (domain, scheme, p, path))))"

definition parse_url_parts ::
    "externals \<Rightarrow> string \<Rightarrow> (string \<times> string \<times> u16 option \<times> string) option" where
  "parse_url_parts X input =
     (case url_parse X input of
        Some url \<Rightarrow>
          (case u_host url of
             Some host \<Rightarrow>
               (if u_port url = Some 0 then None
                else Some (host, u_scheme url, u_port url,
                       u_path url @ (case u_query url of Some q \<Rightarrow> ''?'' @ q | None \<Rightarrow> [])))
           | None \<Rightarrow> parse_plain_address input)
      | None \<Rightarrow> parse_plain_address input)"

definition first_dns_address :: "string \<Rightarrow> string option" where
  "first_dns_address adr =
     (let delimiter = (if CHR '','' \<in> set adr then CHR '','' else CHR '';'')
      in find (\<lambda>i. i \<noteq> []) (map trim (split_on (\<lambda>c. c = delimiter) adr)))"

text \<open>A scheme is ASCII (the URL parser's, or none), so \<open>to_lowercase\<close> is the ASCII one.\<close>

definition parse_dns_address :: "externals \<Rightarrow> string \<Rightarrow> singbox_dns_server option" where
  "parse_dns_address X adr =
     (case first_dns_address adr of
        None \<Rightarrow> None
      | Some first \<Rightarrow>
          (if first = ''local'' \<or> first = ''localhost''
           then Some (default_singbox_dns_server\<lparr>ds_type := ''local''\<rparr>)
           else case parse_url_parts X first of
             None \<Rightarrow> None
           | Some (domain, scheme, p, path) \<Rightarrow>
               (if eq_ignore_ascii_case scheme ''dhcp''
                then Some (default_singbox_dns_server
                  \<lparr>ds_type := ''dhcp'',
                   ds_server := (if domain \<noteq> [] \<and> domain \<noteq> ''auto'' then Some domain else None)\<rparr>)
                else
                  (let t = (if scheme = [] then ''udp''
                            else to_ascii_lowercase (replace_str ''+local'' [] scheme))
                   in Some (default_singbox_dns_server
                     \<lparr>ds_type := t, ds_server := (if domain \<noteq> [] then Some domain else None),
                      ds_server_port := map_option int p,
                      ds_path := (if (t = ''https'' \<or> t = ''h3'') \<and> path \<noteq> [] \<and> path \<noteq> ''/''
                                  then Some path else None)\<rparr>)))))"

definition parse_dns_address_or_default ::
    "externals \<Rightarrow> string \<Rightarrow> string \<Rightarrow> singbox_dns_server" where
  "parse_dns_address_or_default X adr default_adr =
     unwrap_or (or_else (parse_dns_address X adr) (parse_dns_address X default_adr))
       default_singbox_dns_server"

definition dns_rcode :: "i32 \<Rightarrow> string" where
  "dns_rcode v =
     (if v = 1 then ''FORMERR'' else if v = 2 then ''SERVFAIL'' else if v = 3 then ''NXDOMAIN''
      else if v = 4 then ''NOTIMP'' else if v = 5 then ''REFUSED'' else ''NOERROR'')"

definition is_ip_address :: "string \<Rightarrow> bool" where
  "is_ip_address v \<longleftrightarrow> parse_ip (trim v) \<noteq> None"

definition is_domain_name :: "string \<Rightarrow> bool" where
  "is_domain_name v =
     (let s = trim v
      in s \<noteq> [] \<and> \<not> is_ip_address s \<and> CHR ''.'' \<in> set s
         \<and> list_all is_ascii_alphanumeric (last (split_on (\<lambda>c. c = CHR ''.'') s)))"

definition predefined_hosts :: "(string \<times> string list) list" where
  "predefined_hosts =
     [(''dns.google'', [''8.8.8.8'', ''8.8.4.4'', ''2001:4860:4860::8888'',
        ''2001:4860:4860::8844'']),
      (''dns.alidns.com'', [''223.5.5.5'', ''223.6.6.6'', ''2400:3200::1'',
        ''2400:3200:baba::1'']),
      (''one.one.one.one'', [''1.1.1.1'', ''1.0.0.1'', ''2606:4700:4700::1111'',
        ''2606:4700:4700::1001'']),
      (''1dot1dot1dot1.cloudflare-dns.com'', [''1.1.1.1'', ''1.0.0.1'',
        ''2606:4700:4700::1111'', ''2606:4700:4700::1001'']),
      (''cloudflare-dns.com'', [''104.16.249.249'', ''104.16.248.249'',
        ''2606:4700::6810:f8f9'', ''2606:4700::6810:f9f9'']),
      (''dns.cloudflare.com'', [''104.16.132.229'', ''104.16.133.229'',
        ''2606:4700::6810:84e5'', ''2606:4700::6810:85e5'']),
      (''dot.pub'', [''1.12.12.12'', ''120.53.53.53'']),
      (''doh.pub'', [''1.12.12.12'', ''120.53.53.53'']),
      (''dns.quad9.net'', [''9.9.9.9'', ''149.112.112.112'', ''2620:fe::fe'',
        ''2620:fe::9'']),
      (''dns.yandex.net'', [''77.88.8.8'', ''77.88.8.1'', ''2a02:6b8::feed:0ff'',
        ''2a02:6b8:0:1::feed:0ff'']),
      (''dns.sb'', [''185.222.222.222'', ''2a09::'']),
      (''dns.umbrella.com'', [''208.67.220.220'', ''208.67.222.222'',
        ''2620:119:35::35'', ''2620:119:53::53'']),
      (''dns.sse.cisco.com'', [''208.67.220.220'', ''208.67.222.222'',
        ''2620:119:35::35'', ''2620:119:53::53'']),
      (''engage.cloudflareclient.com'', [''162.159.192.1''])]"

section \<open>Servers (dns.rs)\<close>

definition predefined_user_host ::
    "string \<times> string list \<Rightarrow> (string, string list) btree_map \<Rightarrow> (string, string list) btree_map" where
  "predefined_user_host = (\<lambda>(host, addresses) m.
     (case parse_v2_domain host no_fields of
        None \<Rightarrow> m
      | Some f \<Rightarrow>
          (case r_domain (normalize_bare_host_domain host f) of
             Some (domain # ds) \<Rightarrow> bt_insert domain (filter is_ip_address addresses) m
           | _ \<Rightarrow> m)))"

definition predefined_map :: "simple_dns_item \<Rightarrow> (string, string list) btree_map" where
  "predefined_map sdns =
     fold predefined_user_host (parse_hosts_to_dictionary (dns_hosts sdns))
       (if add_common_hosts sdns = Some True then bt_of_list predefined_hosts else [])"

text \<open>A server whose host is predefined is resolved through the hosts server.\<close>

definition resolve_by_hosts ::
    "(string, string list) btree_map \<Rightarrow> singbox_dns_server \<Rightarrow> singbox_dns_server" where
  "resolve_by_hosts m s =
     (case ds_server s of
        Some host \<Rightarrow> (if bt_contains m host then s\<lparr>ds_domain_resolver := Some SINGBOX_HOSTS_DNS_TAG\<rparr> else s)
      | None \<Rightarrow> s)"

definition dns_servers :: "externals \<Rightarrow> simple_dns_item \<Rightarrow> singbox_dns_server list" where
  "dns_servers X sdns =
     (let bootstrap = (parse_dns_address_or_default X
            (unwrap_or (bootstrap_dns sdns) DEFAULT_BOOTSTRAP_DNS) DEFAULT_BOOTSTRAP_DNS)
            \<lparr>ds_tag := SINGBOX_LOCAL_DNS_TAG\<rparr>;
          direct = (parse_dns_address_or_default X
            (unwrap_or (direct_dns sdns) DEFAULT_DIRECT_DNS) DEFAULT_DIRECT_DNS)
            \<lparr>ds_tag := SINGBOX_DIRECT_DNS_TAG, ds_domain_resolver := Some SINGBOX_LOCAL_DNS_TAG\<rparr>;
          remote = (parse_dns_address_or_default X
            (unwrap_or (remote_dns sdns) DEFAULT_REMOTE_DNS) DEFAULT_REMOTE_DNS)
            \<lparr>ds_tag := SINGBOX_REMOTE_DNS_TAG, ds_detour := Some PROXY_TAG,
             ds_domain_resolver := Some SINGBOX_LOCAL_DNS_TAG\<rparr>;
          m = predefined_map sdns
      in [resolve_by_hosts m bootstrap, resolve_by_hosts m remote, resolve_by_hosts m direct,
          default_singbox_dns_server
            \<lparr>ds_tag := SINGBOX_HOSTS_DNS_TAG, ds_type := ''hosts'', ds_predefined := Some m\<rparr>]
         @ (if fake_ip sdns = Some True
            then [default_singbox_dns_server
                    \<lparr>ds_tag := SINGBOX_FAKE_DNS_TAG, ds_type := ''fakeip'',
                     ds_inet4_range := Some SINGBOX_FAKEIP_INET4_RANGE,
                     ds_inet6_range := Some SINGBOX_FAKEIP_INET6_RANGE\<rparr>]
            else []))"

definition gen_dns_servers :: "externals \<Rightarrow> core_config_context \<Rightarrow> singbox_config \<Rightarrow> singbox_config" where
  "gen_dns_servers X ctx cfg =
     cfg\<lparr>cfg_dns := Some ((unwrap_or (cfg_dns cfg) default_singbox_dns)
       \<lparr>dn_servers := dns_servers X (simple_dns_item ctx)\<rparr>)\<rparr>"

section \<open>Rules (dns.rs)\<close>

text \<open>The regular expressions are written with \<open>/\<close> for their backslashes; none has a slash.\<close>

definition with_backslashes :: "string \<Rightarrow> string" where
  "with_backslashes s = map (\<lambda>c. if c = CHR ''/'' then backslash else c) s"

definition fakeip_filter_rule :: rule_fields where
  "fakeip_filter_rule = no_fields
     \<lparr>r_domain := Some
        [''amobile.music.tc.qq.com'', ''api-jooxtt.sanook.com'', ''api.joox.com'',
         ''aqqmusic.tc.qq.com'', ''dl.stream.qqmusic.qq.com'', ''ff.dorado.sdo.com'',
         ''heartbeat.belkin.com'', ''isure.stream.qqmusic.qq.com'', ''joox.com'',
         ''lens.l.google.com'', ''localhost.ptlogin2.qq.com'', ''localhost.sec.qq.com'',
         ''mesu.apple.com'', ''mobileoc.music.tc.qq.com'', ''music.taihe.com'',
         ''musicapi.taihe.com'', ''na.b.g-tun.com'', ''proxy.golang.org'',
         ''ps.res.netease.com'', ''shark007.net'', ''songsearch.kugou.com'',
         ''static.adtidy.org'', ''streamoc.music.tc.qq.com'', ''swcdn.apple.com'',
         ''swdist.apple.com'', ''swdownload.apple.com'', ''swquery.apple.com'',
         ''swscan.apple.com'', ''turn.cloudflare.com'', ''trackercdn.kugou.com'',
         ''xnotify.xboxlive.com''],
      r_domain_keyword := Some
        [''ntp'', ''stun'', ''time''],
      r_domain_regex := Some
        [''^[^.]+$'', with_backslashes ''^[^.]+/.[^.]+/.xboxlive/.com$'',
         with_backslashes ''^localhost/.[^.]+/.weixin/.qq/.com$'',
         with_backslashes ''^mijia/scloud$'',
         with_backslashes ''^xbox/.[^.]+/.microsoft/.com$'',
         with_backslashes ''^xbox/.[^.]+/.[^.]+/.microsoft/.com$''],
      r_domain_suffix := Some
        [''126.net'', ''3gppnetwork.org'', ''battle.net'', ''battlenet.com.cn'',
         ''cdn.nintendo.net'', ''cmbchina.com'', ''cmbimg.com'', ''ff14.sdo.com'',
         ''ffxiv.com'', ''finalfantasyxiv.com'', ''gcloudcs.com'', ''home.arpa'', ''invalid'',
         ''kuwo.cn'', ''lan'', ''linksys.com'', ''linksyssmartwifi.com'', ''local'',
         ''localdomain'', ''localhost'', ''market.xiaomi.com'', ''mcdn.bilivideo.cn'',
         ''media.dssott.com'', ''msftconnecttest.com'', ''msftncsi.com'', ''music.163.com'',
         ''music.migu.cn'', ''n0808.com'', ''nflxvideo.net'', ''oray.com'', ''orayimg.com'',
         ''router.asus.com'', ''sandai.net'', ''square-enix.com'', ''srv.nintendo.net'',
         ''steamcontent.com'', ''uu.163.com'', ''wargaming.net'', ''wggames.cn'',
         ''wotgame.cn'', ''wowsgame.cn'', ''xiami.com'', ''y.qq.com'']\<rparr>"

definition priority_proxy_dns_rule :: "string \<Rightarrow> string option \<Rightarrow> singbox_rule" where
  "priority_proxy_dns_rule server strategy =
     flat_rule (no_fields\<lparr>r_server := Some server, r_strategy := strategy,
       r_domain_suffix := Some PRIORITY_PROXY_DOMAIN_SUFFIXES\<rparr>)"

definition priority_proxy_dns_strategy :: "core_config_context \<Rightarrow> string option" where
  "priority_proxy_dns_strategy ctx =
     (if is_tun_enabled ctx \<and> \<not> enable_ipv6_address (tun_mode (cx_app_config ctx)) then Some ''ipv4_only''
      else domain_strategy4_sbox (strategy4_proxy (simple_dns_item ctx)))"

definition host_answer :: "string \<Rightarrow> rule_fields \<Rightarrow> rule_fields option" where
  "host_answer target f =
     (case Option.bind (strip_prefix ''#'' target) parse_i32 of
        Some rcode \<Rightarrow> Some (f\<lparr>r_rcode := Some (dns_rcode rcode)\<rparr>)
      | None \<Rightarrow>
          (if is_domain_name target
           then Some (f\<lparr>r_answer := Some [''*. IN CNAME '' @ target @ ''.'']\<rparr>)
           else if is_ip_address target \<and> \<not> is_some_nonempty (r_domain f)
           then (if (case parse_ip target of Some ip \<Rightarrow> is_ipv6 ip | None \<Rightarrow> False)
                 then Some (f\<lparr>r_answer := Some [''*. IN AAAA '' @ target]\<rparr>)
                 else Some (f\<lparr>r_answer := Some [''*. IN A '' @ target]\<rparr>))
           else None))"

definition host_rule :: "string \<times> string list \<Rightarrow> singbox_rule option" where
  "host_rule = (\<lambda>(host, addresses).
     (case addresses of
        [] \<Rightarrow> None
      | target # rest \<Rightarrow>
          (if target = [] then None
           else case parse_v2_domain host (no_fields\<lparr>r_query_type := Some [1, 5, 28],
                  r_action := Some ''predefined'', r_rcode := Some ''NOERROR''\<rparr>) of
             None \<Rightarrow> None
           | Some f \<Rightarrow> map_option flat_rule (host_answer target (normalize_bare_host_domain host f)))))"

definition dns_rule_has_matcher :: "rule_fields \<Rightarrow> bool" where
  "dns_rule_has_matcher f \<longleftrightarrow>
     is_some_nonempty (r_domain f) \<or> is_some_nonempty (r_domain_suffix f)
     \<or> is_some_nonempty (r_domain_keyword f) \<or> is_some_nonempty (r_domain_regex f)
     \<or> is_some_nonempty (r_geosite f) \<or> is_some_nonempty (r_geoip f)
     \<or> is_some_nonempty (r_ip_cidr f) \<or> is_some_nonempty (r_rule_set f)"

text \<open>
  The direct branch: the rule for the expected regions, and the rule left after their
  geosites were taken out of it.
\<close>

definition split_expected ::
    "string list \<Rightarrow> string list \<Rightarrow> string \<Rightarrow> rule_fields \<Rightarrow> rule_fields list \<times> rule_fields" where
  "split_expected cidr regions region f =
     (if regions \<noteq> [] \<and> region \<noteq> []
      then (case r_geosite f of
              None \<Rightarrow> ([], f)
            | Some geosite \<Rightarrow>
                (let hit = (\<lambda>item. ends_with item (''-'' @ region) \<or> ends_with item (''@'' @ region)
                              \<or> item = region);
                     matched = filter hit geosite
                 in if matched = [] then ([], f)
                    else
                      (let f = f\<lparr>r_geosite := Some (filter (\<lambda>i. i \<notin> set matched) geosite)\<rparr>;
                           e = f\<lparr>r_geosite := Some matched, r_geoip := Some regions\<rparr>
                       in ([if cidr \<noteq> [] then e\<lparr>r_ip_cidr := Some cidr\<rparr> else e], f))))
      else ([], f))"

definition dns_user_rules :: "simple_dns_item \<Rightarrow> rules_item \<Rightarrow> singbox_rule list" where
  "dns_user_rules sdns item =
     (case ri_domain item of
        None \<Rightarrow> []
      | Some domains \<Rightarrow>
          (case parse_count parse_v2_domain domains no_fields of (f, n) \<Rightarrow>
             if n = 0 then []
             else
               (let (before, f) =
                  (if ri_outbound_tag item = Some DIRECT_TAG
                   then (case parse_direct_expected_ips (direct_expected_ips sdns) of
                           (cidr, regions, region) \<Rightarrow>
                             split_expected cidr regions region
                               (f\<lparr>r_server := Some SINGBOX_DIRECT_DNS_TAG,
                                  r_strategy := domain_strategy4_sbox (strategy4_freedom sdns)\<rparr>))
                   else if ri_outbound_tag item = Some BLOCK_TAG
                   then ([], f\<lparr>r_action := Some ''predefined'', r_rcode := Some ''NXDOMAIN''\<rparr>)
                   else
                     ((if fake_ip sdns = Some True \<and> global_fake_ip sdns = Some False
                       then [f\<lparr>r_server := Some SINGBOX_FAKE_DNS_TAG, r_query_type := Some [1, 28],
                               r_rewrite_ttl := Some 1\<rparr>]
                       else []),
                      f\<lparr>r_server := Some SINGBOX_REMOTE_DNS_TAG,
                        r_strategy := domain_strategy4_sbox (strategy4_proxy sdns)\<rparr>))
                in map flat_rule before @ push_if (dns_rule_has_matcher f) (flat_rule f))))"

definition dns_routing_rules :: "core_config_context \<Rightarrow> singbox_rule list" where
  "dns_routing_rules ctx =
     (case routing_item ctx of
        None \<Rightarrow> []
      | Some routing \<Rightarrow>
          concat (map (dns_user_rules (simple_dns_item ctx))
            (filter (\<lambda>item. ri_enabled item \<and> ri_rule_type item \<noteq> Some Rt_Routing) (rule_set routing))))"

definition global_fakeip_rule :: singbox_rule where
  "global_fakeip_rule =
     SingboxRule (no_fields\<lparr>r_server := Some SINGBOX_FAKE_DNS_TAG, r_type := Some ''logical'',
         r_mode := Some ''and'', r_rewrite_ttl := Some 1\<rparr>)
       (Some [flat_rule (no_fields\<lparr>r_query_type := Some [1, 28]\<rparr>),
              flat_rule (fakeip_filter_rule\<lparr>r_invert := Some True\<rparr>)])"

definition dns_rules :: "core_config_context \<Rightarrow> singbox_rule list" where
  "dns_rules ctx =
     (let sdns = simple_dns_item ctx in
      [flat_rule (no_fields\<lparr>r_ip_accept_any := Some True, r_server := Some SINGBOX_HOSTS_DNS_TAG\<rparr>)]
      @ push_if (protect_domain_list ctx \<noteq> [])
          (flat_rule (no_fields\<lparr>r_server := Some SINGBOX_DIRECT_DNS_TAG,
             r_strategy := domain_strategy4_sbox (strategy4_freedom sdns),
             r_domain := Some (protect_domain_list ctx)\<rparr>))
      @ [priority_proxy_dns_rule SINGBOX_REMOTE_DNS_TAG (priority_proxy_dns_strategy ctx),
         flat_rule (no_fields\<lparr>r_server := Some SINGBOX_REMOTE_DNS_TAG,
           r_strategy := domain_strategy4_sbox (strategy4_proxy sdns), r_clash_mode := Some ''Global''\<rparr>),
         flat_rule (no_fields\<lparr>r_server := Some SINGBOX_DIRECT_DNS_TAG,
           r_strategy := domain_strategy4_sbox (strategy4_freedom sdns), r_clash_mode := Some ''Direct''\<rparr>)]
      @ List.map_filter host_rule (parse_hosts_to_dictionary (dns_hosts sdns))
      @ push_if (block_binding_query sdns = Some True)
          (flat_rule (no_fields\<lparr>r_query_type := Some [64, 65], r_action := Some ''predefined'',
             r_rcode := Some ''NOERROR''\<rparr>))
      @ push_if (fake_ip sdns = Some True \<and> global_fake_ip sdns = Some True) global_fakeip_rule
      @ dns_routing_rules ctx)"

definition gen_dns_rules :: "core_config_context \<Rightarrow> singbox_config \<Rightarrow> singbox_config" where
  "gen_dns_rules ctx cfg =
     cfg\<lparr>cfg_dns := Some ((unwrap_or (cfg_dns cfg) default_singbox_dns)\<lparr>dn_rules := dns_rules ctx\<rparr>)\<rparr>"

definition final_dns_uses_direct :: "core_config_context \<Rightarrow> bool" where
  "final_dns_uses_direct ctx =
     (case routing_item ctx of
        None \<Rightarrow> False
      | Some routing \<Rightarrow>
          (if rule_set routing = [] then False
           else
             (let r = last (rule_set routing) in
              ri_outbound_tag r = Some DIRECT_TAG
              \<and> \<not> is_some_nonempty (ri_domain r)
              \<and> \<not> is_some_nonempty (ri_process r)
              \<and> (case ri_ip r of None \<Rightarrow> True | Some ips \<Rightarrow> ips = [] \<or> ''0.0.0.0/0'' \<in> set ips)
              \<and> (case ri_port r of None \<Rightarrow> True | Some p \<Rightarrow> p = [] \<or> p = ''0-65535'')
              \<and> (case ri_network r of None \<Rightarrow> True | Some n \<Rightarrow> n = [] \<or> n = ''tcp,udp''))))"

definition gen_dns :: "externals \<Rightarrow> core_config_context \<Rightarrow> singbox_config \<Rightarrow> singbox_config" where
  "gen_dns X ctx cfg =
     (let cfg = gen_dns_rules ctx (gen_dns_servers X ctx cfg);
          direct = final_dns_uses_direct ctx;
          dns = (unwrap_or (cfg_dns cfg) default_singbox_dns)
            \<lparr>dn_independent_cache := Some True,
             dn_final := Some (if direct then SINGBOX_DIRECT_DNS_TAG else SINGBOX_REMOTE_DNS_TAG)\<rparr>;
          dns = (if is_tun_enabled ctx then dns\<lparr>dn_reverse_mapping := Some True\<rparr> else dns);
          sdns = simple_dns_item ctx;
          dns = (if \<not> direct \<and> fake_ip sdns = Some True \<and> global_fake_ip sdns = Some False
                 then dns\<lparr>dn_rules := dn_rules dns
                        @ [flat_rule (no_fields\<lparr>r_server := Some SINGBOX_FAKE_DNS_TAG,
                             r_query_type := Some [1, 28], r_rewrite_ttl := Some 1\<rparr>)]\<rparr>
                 else dns)
      in cfg\<lparr>cfg_dns := Some dns\<rparr>)"

end
