(* ===== verification/SingboxEntry.thy ===== *)
theory SingboxEntry
  imports SingboxDns
begin

text \<open>
  \<open>singbox/entry.rs\<close>, \<open>inbounds.rs\<close>, \<open>experimental.rs\<close> and the rest of \<open>support.rs\<close>: the
  checks in front of the generator, the inbounds, the conversion of geo matchers into rule
  sets, and the generators themselves, composed in the order of the source. A result is
  \<open>Some (Inl e)\<close> for an error, \<open>Some (Inr c)\<close> for a configuration and \<open>None\<close> for a run
  that does not return. Parsing the inline rule sets is \<open>serde_json\<close>'s; the parser is the
  argument \<open>rulesets_from_str\<close>.
\<close>

section \<open>Binding outbounds (support.rs)\<close>

definition is_loopback_address :: "string \<Rightarrow> bool" where
  "is_loopback_address adr =
     (let a = trim_matches (\<lambda>c. c = CHR ''['' \<or> c = CHR '']'') adr
      in eq_ignore_ascii_case a ''localhost''
         \<or> (case parse_ip a of Some ip \<Rightarrow> is_loopback ip | None \<Rightarrow> False))"

definition should_bind_outbound :: "singbox_outbound \<Rightarrow> bool" where
  "should_bind_outbound outb =
     (if ob_type outb \<in> {''direct'', ''block'', ''dns'', ''selector'', ''urltest''}
         \<or> is_some_nonempty (ob_detour outb)
      then False
      else case ob_server outb of None \<Rightarrow> True | Some s \<Rightarrow> \<not> is_loopback_address s)"

definition map_bindable ::
    "(singbox_outbound \<Rightarrow> singbox_outbound) \<Rightarrow> singbox_config \<Rightarrow> singbox_config" where
  "map_bindable f cfg =
     cfg\<lparr>cfg_outbounds := map (\<lambda>o1. if should_bind_outbound o1 then f o1 else o1) (cfg_outbounds cfg)\<rparr>"

definition apply_outbound_bind_interface ::
    "core_config_context \<Rightarrow> singbox_config \<Rightarrow> singbox_config" where
  "apply_outbound_bind_interface ctx cfg =
     (case nonempty_str (bind_interface (core_basic (cx_app_config ctx))) of
        None \<Rightarrow> cfg
      | Some name \<Rightarrow>
          (if \<not> (is_tun_enabled ctx \<or> is_windows (platform ctx)) then cfg
           else map_bindable (\<lambda>o1. o1\<lparr>ob_bind_interface := Some name\<rparr>) cfg))"

definition apply_outbound_send_through ::
    "core_config_context \<Rightarrow> singbox_config \<Rightarrow> singbox_config" where
  "apply_outbound_send_through ctx cfg =
     (case nonempty_str (send_through (core_basic (cx_app_config ctx))) of
        None \<Rightarrow> cfg
      | Some a \<Rightarrow> map_bindable (\<lambda>o1. o1\<lparr>ob_inet4_bind_address := Some a\<rparr>) cfg)"

section \<open>Inbounds (inbounds.rs)\<close>

definition build_mixed_inbound_with :: "string \<Rightarrow> i32 \<Rightarrow> singbox_inbound" where
  "build_mixed_inbound_with tag p = default_singbox_inbound
     \<lparr>ib_type := ''mixed'', ib_tag := tag, ib_listen := Some LOOPBACK, ib_listen_port := Some p\<rparr>"

definition build_mixed_inbound :: "in_item \<Rightarrow> inbound_protocol \<Rightarrow> singbox_inbound" where
  "build_mixed_inbound item p =
     build_mixed_inbound_with (inbound_protocol_tag p) (i32_add (local_port item) (port_offset p))"

definition tun_addresses :: "core_config_context \<Rightarrow> string list" where
  "tun_addresses ctx =
     [''172.18.0.1/30'']
     @ (if is_macos (platform ctx) \<or> enable_ipv6_address (tun_mode (cx_app_config ctx))
        then [''fdfe:dcba:9876::1/126''] else [])"

definition tun_platform :: "core_config_context \<Rightarrow> i32 option \<Rightarrow> singbox_tun_platform option" where
  "tun_platform ctx http_proxy_port =
     (if \<not> is_macos (platform ctx) then None
      else map_option
             (\<lambda>p. \<lparr>tp_http_proxy = Some \<lparr>hp_enabled = True, hp_server = Some LOOPBACK,
                                          hp_server_port = Some p\<rparr>\<rparr>)
             http_proxy_port)"

definition tun_interface_name :: "core_config_context \<Rightarrow> string option" where
  "tun_interface_name ctx = (if is_macos (platform ctx) then None else Some ''singbox_tun'')"

definition tun_mtu :: "core_config_context \<Rightarrow> i32" where
  "tun_mtu ctx =
     (let m = tun_mode_mtu (tun_mode (cx_app_config ctx));
          configured = (if m > 0 then m else WIREGUARD_DEFAULT_MTU)
      in if is_macos (platform ctx) \<and> configured > 1500 then 1500 else configured)"

definition tun_strict_route :: "core_config_context \<Rightarrow> bool" where
  "tun_strict_route ctx \<longleftrightarrow>
     \<not> is_macos (platform ctx) \<and> tun_strict_route_enabled (tun_mode (cx_app_config ctx))"

definition build_tun_inbound :: "core_config_context \<Rightarrow> i32 option \<Rightarrow> singbox_inbound" where
  "build_tun_inbound ctx http_proxy_port = default_singbox_inbound
     \<lparr>ib_type := ''tun'', ib_tag := ''tun'', ib_listen := None, ib_listen_port := None,
      ib_interface_name := tun_interface_name ctx, ib_address := Some (tun_addresses ctx),
      ib_mtu := Some (tun_mtu ctx), ib_auto_route := Some (tun_auto_route (tun_mode (cx_app_config ctx))),
      ib_strict_route := Some (tun_strict_route ctx),
      ib_stack := Some (unwrap_or (nonempty_str (Some (tun_stack (tun_mode (cx_app_config ctx))))) ''gvisor''),
      ib_platform := tun_platform ctx http_proxy_port\<rparr>"

definition lan_inbound :: "in_item \<Rightarrow> singbox_inbound" where
  "lan_inbound item =
     (let lan = (build_mixed_inbound item Ip_socks3)\<lparr>ib_listen := Some ''0.0.0.0''\<rparr>
      in if trim (in_user item) \<noteq> [] \<and> trim (in_pass item) \<noteq> []
         then lan\<lparr>ib_users := Some [\<lparr>us_username = in_user item, us_password = in_pass item\<rparr>]\<rparr>
         else lan)"

definition mixed_inbounds :: "in_item \<Rightarrow> singbox_inbound list" where
  "mixed_inbounds item =
     (let primary = build_mixed_inbound item Ip_socks in
      [if allow_lan_conn item \<and> \<not> new_port4_lan item then primary\<lparr>ib_listen := Some ''0.0.0.0''\<rparr>
       else primary]
      @ (if second_local_port_enabled item then [build_mixed_inbound item Ip_socks2] else [])
      @ (if allow_lan_conn item \<and> new_port4_lan item then [lan_inbound item] else []))"

definition gen_inbounds :: "core_config_context \<Rightarrow> singbox_config \<Rightarrow> singbox_config" where
  "gen_inbounds ctx cfg =
     (let item = (case inbound (cx_app_config ctx) of i # rest \<Rightarrow> i | [] \<Rightarrow> default_in_item);
          listen_port = inbound_port (cx_app_config ctx) Ip_socks;
          using_local = (address (cx_node ctx) = LOOPBACK \<and> port (cx_node ctx) = listen_port);
          available = (\<not> is_tun_enabled ctx \<or> \<not> using_local)
      in cfg\<lparr>cfg_inbounds :=
           (if available then mixed_inbounds item else [])
           @ (if is_tun_enabled ctx
              then [build_tun_inbound ctx (if available then Some listen_port else None)] else [])\<rparr>)"

section \<open>Experimental (experimental.rs)\<close>

definition state_port2 :: "app_config \<Rightarrow> bool \<Rightarrow> i32" where
  "state_port2 config tun = i32_add (inbound_port config Ip_api2) (if tun then 1 else 0)"

definition gen_experimental :: "core_config_context \<Rightarrow> singbox_config \<Rightarrow> singbox_config" where
  "gen_experimental ctx cfg =
     (let e = (unwrap_or (cfg_experimental cfg) default_singbox_experimental)
            \<lparr>ex_clash_api := Some
               \<lparr>ca_external_controller = Some (LOOPBACK @ '':''
                  @ show_int (state_port2 (cx_app_config ctx) (is_tun_enabled ctx))),
                ca_store_selected = None\<rparr>\<rparr>
      in cfg\<lparr>cfg_experimental := Some
           (if enable_cache_file4_sbox (core_basic (cx_app_config ctx))
            then e\<lparr>ex_cache_file := Some
                   \<lparr>cf_enabled = True, cf_path = Some ''cache.db'', cf_cache_id = None,
                    cf_store_fakeip =
                      (if fake_ip (simple_dns_item ctx) = Some True then Some True else None)\<rparr>\<rparr>
            else e)\<rparr>)"

text \<open>The matchers of one rule: geosite and geoip entries become rule set names.\<close>

definition convert_fields :: "rule_fields \<Rightarrow> rule_fields" where
  "convert_fields f =
     (let sites = (if is_some_nonempty (r_geosite f) then unwrap_or (r_geosite f) [] else []);
          ips = (if is_some_nonempty (r_geoip f) then unwrap_or (r_geoip f) [] else []);
          converted = map (\<lambda>i. ''geosite-'' @ i) sites @ map (\<lambda>i. ''geoip-'' @ i) ips;
          f = (if sites \<noteq> [] then f\<lparr>r_geosite := None\<rparr> else f);
          f = (if ips \<noteq> [] then f\<lparr>r_geoip := None\<rparr> else f)
      in if converted \<noteq> [] then f\<lparr>r_rule_set := opt_extend converted (r_rule_set f)\<rparr> else f)"

fun convert_rule_geo_to_ruleset :: "singbox_rule \<Rightarrow> singbox_rule" where
  "convert_rule_geo_to_ruleset (SingboxRule f rs) =
     SingboxRule (convert_fields f) (map_option (map convert_rule_geo_to_ruleset) rs)"

fun rule_set_tags :: "singbox_rule \<Rightarrow> string list" where
  "rule_set_tags (SingboxRule f rs) =
     unwrap_or (r_rule_set f) []
     @ (case rs of None \<Rightarrow> [] | Some xs \<Rightarrow> concat (map rule_set_tags xs))"

definition parse_inline_custom_rulesets ::
    "(string \<Rightarrow> singbox_ruleset list option) \<Rightarrow> string option
       \<Rightarrow> singbox_config_error + singbox_ruleset list" where
  "parse_inline_custom_rulesets rulesets_from_str v =
     (case opt_filter (\<lambda>s. starts_with s ''['') (map_option trim v) of
        None \<Rightarrow> Inr []
      | Some s \<Rightarrow>
          (case rulesets_from_str s of
             None \<Rightarrow> Inl CustomRulesetJson
           | Some rs \<Rightarrow>
               (case find (\<lambda>(i, r). nonempty_str (rs_tag r) = None \<or> nonempty_str (rs_type r) = None
                              \<or> nonempty_str (rs_format r) = None)
                       (List.enumerate 0 rs) of
                  Some (i, r) \<Rightarrow> Inl (CustomRulesetMissingRequiredFields i)
                | None \<Rightarrow> Inr rs)))"

definition SINGBOX_RULESET_URL :: string where
  "SINGBOX_RULESET_URL =
     ''https://raw.githubusercontent.com/2dust/sing-box-rules/rule-set-{0}/{1}.srs''"

definition remote_ruleset :: "string \<Rightarrow> string \<Rightarrow> singbox_ruleset" where
  "remote_ruleset tag source_url = default_singbox_ruleset
     \<lparr>rs_tag := Some tag, rs_type := Some ''remote'', rs_format := Some ''binary'',
      rs_url := Some (replace_str ''{1}'' tag
        (replace_str ''{0}'' (if starts_with tag ''geosite'' then ''geosite'' else ''geoip'') source_url)),
      rs_download_detour := Some PROXY_TAG\<rparr>"

definition ruleset_for_tag :: "string \<Rightarrow> string \<Rightarrow> core_config_context \<Rightarrow> singbox_ruleset" where
  "ruleset_for_tag tag source_url ctx =
     (case bt_get (singbox_ruleset_paths ctx) tag of
        Some path \<Rightarrow> default_singbox_ruleset
          \<lparr>rs_tag := Some tag, rs_type := Some ''local'', rs_format := Some ''binary'', rs_path := Some path\<rparr>
      | None \<Rightarrow> remote_ruleset tag source_url)"

definition convert_geo_to_ruleset ::
    "(string \<Rightarrow> singbox_ruleset list option) \<Rightarrow> core_config_context \<Rightarrow> singbox_config
       \<Rightarrow> singbox_config_error + singbox_config" where
  "convert_geo_to_ruleset rulesets_from_str ctx cfg =
     (let route_rules = map convert_rule_geo_to_ruleset (ro_rules (cfg_route cfg));
          dns = map_option (\<lambda>d. d\<lparr>dn_rules := map convert_rule_geo_to_ruleset (dn_rules d)\<rparr>) (cfg_dns cfg);
          tags = concat (map rule_set_tags route_rules)
            @ (case dns of Some d \<Rightarrow> concat (map rule_set_tags (dn_rules d)) | None \<Rightarrow> []);
          unique = sorted_list_of_set (set (filter (\<lambda>t. t \<noteq> []) tags));
          cfg = cfg\<lparr>cfg_route := (cfg_route cfg)\<lparr>ro_rules := route_rules\<rparr>, cfg_dns := dns\<rparr>
      in if unique = [] then Inr cfg
         else
           (case parse_inline_custom_rulesets rulesets_from_str
                   (map_option custom_ruleset_path4_singbox (routing_item ctx)) of
              Inl e \<Rightarrow> Inl e
            | Inr custom \<Rightarrow>
                (let source_url = unwrap_or (nonempty_str (srs_source_url (const_urls (cx_app_config ctx))))
                       SINGBOX_RULESET_URL
                 in Inr (cfg\<lparr>cfg_route := (cfg_route cfg)\<lparr>ro_rule_set := Some
                      (map (\<lambda>tag. case find (\<lambda>r. rs_tag r = Some tag) custom of
                              Some r \<Rightarrow> r | None \<Rightarrow> ruleset_for_tag tag source_url ctx)
                        unique)\<rparr>\<rparr>))))"

section \<open>Checks and log (entry.rs)\<close>

definition validate_active_wireguard :: "core_config_context \<Rightarrow> singbox_config_error + unit" where
  "validate_active_wireguard ctx =
     (if config_type (cx_node ctx) = Ct_WireGuard \<and> wireguard_public_key (protocol (cx_node ctx)) = None
      then Inl (MissingWireGuardPublicKey (remarks (cx_node ctx))) else Inr ())"

definition registered_children :: "core_config_context \<Rightarrow> profile_item \<Rightarrow> profile_item list" where
  "registered_children ctx node =
     List.map_filter (bt_get (all_proxies_map ctx)) (child_profile_ids (protocol node))"

text \<open>The work list of \<open>validate_proxy_ports\<close>, its top first; a pushed child list lies reversed.\<close>

partial_function (option) ports_loop ::
    "core_config_context \<Rightarrow> profile_item list \<Rightarrow> string set \<Rightarrow> (singbox_config_error + unit) option" where
  "ports_loop ctx pending seen =
     (case pending of
        [] \<Rightarrow> Some (Inr ())
      | node # rest \<Rightarrow>
          (if index_id node \<noteq> [] \<and> index_id node \<in> seen then ports_loop ctx rest seen
           else if config_type node = Ct_Custom
           then ports_loop ctx rest (if index_id node = [] then seen else insert (index_id node) seen)
           else if is_group_type (config_type node)
           then ports_loop ctx (rev (registered_children ctx node) @ rest)
                  (if index_id node = [] then seen else insert (index_id node) seen)
           else if \<not> (1 \<le> port node \<and> port node \<le> 65535)
           then Some (Inl (InvalidNodePort (remarks node) (port node)))
           else ports_loop ctx rest (if index_id node = [] then seen else insert (index_id node) seen)))"

declare ports_loop.simps [code]

definition validate_proxy_ports :: "core_config_context \<Rightarrow> (singbox_config_error + unit) option" where
  "validate_proxy_ports ctx = ports_loop ctx [cx_node ctx] {}"

definition gen_log :: "core_config_context \<Rightarrow> singbox_config \<Rightarrow> singbox_config" where
  "gen_log ctx cfg =
     (let log = unwrap_or (cfg_log cfg) default_singbox_log;
          lvl = loglevel (core_basic (cx_app_config ctx));
          log = log\<lparr>lg_level := (if lvl \<in> {''debug'', ''info'', ''error''} then lvl
                               else if lvl = ''warning'' then ''warn'' else lg_level log)\<rparr>;
          log = (if lvl = ''none'' then log\<lparr>lg_disabled := Some True\<rparr> else log);
          log = (if log_enabled (core_basic (cx_app_config ctx))
                 then log\<lparr>lg_output := Some ''sbox.log''\<rparr> else log)
      in cfg\<lparr>cfg_log := Some log\<rparr>)"

section \<open>The generators (entry.rs)\<close>

definition finish_config :: "core_config_context \<Rightarrow> singbox_config \<Rightarrow> singbox_config" where
  "finish_config ctx cfg = apply_outbound_send_through ctx (apply_outbound_bind_interface ctx cfg)"

definition generate_body ::
    "externals \<Rightarrow> (string \<Rightarrow> singbox_ruleset list option) \<Rightarrow> core_config_context
       \<Rightarrow> (singbox_config_error + singbox_config) option" where
  "generate_body X rulesets_from_str ctx =
     (case gen_outbounds X ctx (gen_inbounds ctx (gen_log ctx sample_config)) of
        None \<Rightarrow> None
      | Some cfg \<Rightarrow>
          (case gen_routing X ctx cfg of
             None \<Rightarrow> None
           | Some cfg \<Rightarrow>
               Some (case convert_geo_to_ruleset rulesets_from_str ctx
                            (gen_experimental ctx (gen_dns X ctx cfg)) of
                       Inl e \<Rightarrow> Inl e
                     | Inr cfg \<Rightarrow> Inr (finish_config ctx cfg))))"

definition generate_singbox_config ::
    "externals \<Rightarrow> (string \<Rightarrow> singbox_ruleset list option) \<Rightarrow> core_config_context
       \<Rightarrow> (singbox_config_error + singbox_config) option" where
  "generate_singbox_config X rulesets_from_str ctx =
     (case validate_proxy_ports ctx of
        None \<Rightarrow> None
      | Some (Inl e) \<Rightarrow> Some (Inl e)
      | Some (Inr u) \<Rightarrow>
          (case validate_active_wireguard ctx of
             Inl e \<Rightarrow> Some (Inl e)
           | Inr u \<Rightarrow> generate_body X rulesets_from_str ctx))"

section \<open>Speed test configuration (entry.rs)\<close>

record speedtest_config_entry =
  sp_index_id :: string
  sp_port :: i32
  sp_context :: core_config_context

definition speedtest_inbound_tag :: "i32 \<Rightarrow> string" where
  "speedtest_inbound_tag p = ''mixed'' @ show_int p"

definition speedtest_proxy_tag :: "i32 \<Rightarrow> string" where
  "speedtest_proxy_tag p = PROXY_TAG @ show_int p"

definition speedtest_base :: singbox_config where
  "speedtest_base = sample_config
     \<lparr>cfg_inbounds := [], cfg_outbounds := [], cfg_endpoints := [],
      cfg_route := (cfg_route sample_config)
        \<lparr>ro_rules := [], ro_rule_set := None, ro_final := None,
         ro_default_domain_resolver :=
           Some (flat_rule (no_fields\<lparr>r_server := Some SINGBOX_DIRECT_DNS_TAG\<rparr>))\<rparr>,
      cfg_dns := Some (default_singbox_dns
        \<lparr>dn_servers := [default_singbox_dns_server
           \<lparr>ds_type := ''udp'', ds_tag := SINGBOX_DIRECT_DNS_TAG, ds_server := Some DEFAULT_DIRECT_DNS\<rparr>],
         dn_final := Some SINGBOX_DIRECT_DNS_TAG\<rparr>)\<rparr>"

definition add_speedtest_entry ::
    "externals \<Rightarrow> speedtest_config_entry \<Rightarrow> singbox_config \<Rightarrow> singbox_config option" where
  "add_speedtest_entry X entry cfg =
     map_option
       (\<lambda>servers. push_rules
          [flat_rule (no_fields\<lparr>r_inbound := Some [speedtest_inbound_tag (sp_port entry)],
             r_outbound := Some (speedtest_proxy_tag (sp_port entry))\<rparr>)]
          (append_servers servers
            (cfg\<lparr>cfg_inbounds := cfg_inbounds cfg
               @ [build_mixed_inbound_with (speedtest_inbound_tag (sp_port entry)) (sp_port entry)]\<rparr>)))
       (build_all_proxy_servers X (sp_context entry) (cx_node (sp_context entry))
          (speedtest_proxy_tag (sp_port entry)) True)"

definition apply_common_config_settings ::
    "speedtest_config_entry list \<Rightarrow> singbox_config \<Rightarrow> singbox_config" where
  "apply_common_config_settings entries cfg =
     (case entries of
        [] \<Rightarrow> cfg
      | entry # rest \<Rightarrow> finish_config (sp_context entry) (gen_log (sp_context entry) cfg))"

definition generate_singbox_speedtest_config ::
    "externals \<Rightarrow> speedtest_config_entry list \<Rightarrow> singbox_config option" where
  "generate_singbox_speedtest_config X entries =
     map_option (apply_common_config_settings entries)
       (fold_opt (add_speedtest_entry X) entries speedtest_base)"

end
