(* ===== verification/PortChecks.thy ===== *)
theory PortChecks
  imports SingboxEntry
begin

text \<open>
  The check in front of the generator and what it is for: \<open>validate_proxy_ports\<close> visits every
  node the active one can reach, returns on every built context, and the configuration
  generated after it dials no port outside 1..65535, whatever nodes routing rules add.
\<close>

section \<open>Soundness of the walk\<close>

definition port_checked :: "profile_item \<Rightarrow> bool" where
  "port_checked node \<longleftrightarrow>
     config_type node = Ct_Custom \<or> is_group_type (config_type node) \<or> valid_port (port node)"

definition port_edges :: "core_config_context \<Rightarrow> (profile_item \<times> profile_item) set" where
  "port_edges ctx = {(n, c). is_group_type (config_type n) \<and> c \<in> set (registered_children ctx n)}"

definition marked :: "profile_item set \<Rightarrow> string set" where
  "marked D = index_id ` D - {[]}"

text \<open>\<open>D\<close> is what the walk is done with, \<open>U\<close> a closed set on which identifiers identify.\<close>

definition walk_state :: "core_config_context \<Rightarrow> profile_item set \<Rightarrow> profile_item list \<Rightarrow> profile_item set \<Rightarrow> bool" where
  "walk_state ctx U pending D \<longleftrightarrow>
     set pending \<union> D \<subseteq> U
     \<and> (\<forall>n c. n \<in> U \<longrightarrow> (n, c) \<in> port_edges ctx \<longrightarrow> c \<in> U)
     \<and> (\<forall>n m. n \<in> U \<longrightarrow> m \<in> U \<longrightarrow> index_id n = index_id m \<longrightarrow> index_id n \<noteq> [] \<longrightarrow> n = m)
     \<and> (\<forall>n \<in> D. port_checked n \<and> (\<forall>c. (n, c) \<in> port_edges ctx \<longrightarrow> c \<in> D \<union> set pending))"

definition ports_closed :: "core_config_context \<Rightarrow> profile_item set \<Rightarrow> bool" where
  "ports_closed ctx N \<longleftrightarrow> (\<forall>n \<in> N. port_checked n \<and> (\<forall>c. (n, c) \<in> port_edges ctx \<longrightarrow> c \<in> N))"

lemma walk_skip:
  assumes "walk_state ctx U (node # rest) D" and "index_id node \<noteq> []" and "index_id node \<in> marked D"
  shows "walk_state ctx U rest D \<and> node \<in> D"
proof -
  obtain m where m: "m \<in> D" "index_id m = index_id node" using assms(3) by (auto simp: marked_def)
  then have "node \<in> D" using assms(1,2) unfolding walk_state_def by (metis UnI1 UnI2 list.set_intros(1) subsetD)
  then show ?thesis using assms(1) by (auto simp: walk_state_def)
qed

lemma walk_visit:
  assumes "walk_state ctx U (node # rest) D" and "port_checked node"
    and "\<And>c. (node, c) \<in> port_edges ctx \<longleftrightarrow> c \<in> set cs"
  shows "walk_state ctx U (cs @ rest) (insert node D)"
  using assms by (auto simp: walk_state_def)

lemma marked_insert:
  "(if index_id node = [] then marked D else insert (index_id node) (marked D)) = marked (insert node D)"
  by (auto simp: marked_def)

lemma ports_loop_sound:
  assumes "ports_loop ctx pending seen = Some r"
  shows "\<forall>D. r = Inr () \<longrightarrow> walk_state ctx U pending D \<longrightarrow> seen = marked D \<longrightarrow>
     (\<exists>N. set pending \<union> D \<subseteq> N \<and> ports_closed ctx N)"
proof (rule ports_loop.raw_induct[OF _ assms], goal_cases)
  case (1 loop ctx pending seen r)
  show ?case
  proof (intro allI impI)
    fix D assume r: "r = Inr ()" and st0: "walk_state ctx U pending D" and seen: "seen = marked D"
    note IH = "1"(1)[rule_format, OF _ r]
    show "\<exists>N. set pending \<union> D \<subseteq> N \<and> ports_closed ctx N"
    proof (cases pending)
      case Nil
      then show ?thesis using st0 by (auto simp: walk_state_def ports_closed_def)
    next
      case (Cons node rest)
      note st = st0[unfolded Cons]
      let ?seen = "if index_id node = [] then seen else insert (index_id node) seen"
      have s': "?seen = marked (insert node D)" unfolding seen by (rule marked_insert)
      have visit: ?thesis
        if "loop ctx (cs @ rest) ?seen = Some r" "port_checked node"
          "\<And>c. (node, c) \<in> port_edges ctx \<longleftrightarrow> c \<in> set cs" for cs
        using IH[OF that(1) walk_visit[OF st that(2,3)] s'] Cons by auto
      consider (skip) "index_id node \<noteq> [] \<and> index_id node \<in> seen"
        | (custom) "\<not> (index_id node \<noteq> [] \<and> index_id node \<in> seen)" "config_type node = Ct_Custom"
        | (group) "\<not> (index_id node \<noteq> [] \<and> index_id node \<in> seen)" "is_group_type (config_type node)"
        | (leaf) "\<not> (index_id node \<noteq> [] \<and> index_id node \<in> seen)" "config_type node \<noteq> Ct_Custom"
            "\<not> is_group_type (config_type node)"
        by blast
      then show ?thesis
      proof cases
        case skip
        then have "loop ctx rest seen = Some r" using "1"(2) Cons by simp
        moreover have "walk_state ctx U rest D" "node \<in> D" using walk_skip[OF st] skip seen by auto
        ultimately show ?thesis using IH[of ctx rest seen D] seen Cons by auto
      next
        case custom
        have "loop ctx ([] @ rest) ?seen = Some r" using custom "1"(2) Cons by (simp del: de_Morgan_conj)
        then show ?thesis by (rule visit) (use custom in \<open>auto simp: port_checked_def port_edges_def is_group_type_def\<close>)
      next
        case group
        then have "config_type node \<noteq> Ct_Custom" by (auto simp: is_group_type_def)
        then have "loop ctx (rev (registered_children ctx node) @ rest) ?seen = Some r"
          using group "1"(2) Cons by (simp del: de_Morgan_conj)
        then show ?thesis by (rule visit) (use group in \<open>auto simp: port_checked_def port_edges_def\<close>)
      next
        case leaf
        have p: "valid_port (port node)" and "loop ctx ([] @ rest) ?seen = Some r"
          using leaf "1"(2) r Cons by (auto simp: valid_port_def simp del: de_Morgan_conj split: if_splits)
        from this(2) show ?thesis by (rule visit) (use leaf p in \<open>auto simp: port_checked_def port_edges_def\<close>)
      qed
    qed
  qed
qed

lemma validated_reachable:
  assumes "validate_proxy_ports ctx = Some (Inr ())"
    and "\<And>n m. (cx_node ctx, n) \<in> (port_edges ctx)\<^sup>* \<Longrightarrow> (cx_node ctx, m) \<in> (port_edges ctx)\<^sup>* \<Longrightarrow>
      index_id n = index_id m \<Longrightarrow> index_id n \<noteq> [] \<Longrightarrow> n = m"
    and "(cx_node ctx, n) \<in> (port_edges ctx)\<^sup>*"
  shows "port_checked n"
proof -
  let ?U = "{n. (cx_node ctx, n) \<in> (port_edges ctx)\<^sup>*}"
  have "walk_state ctx ?U [cx_node ctx] {}"
    using assms(2) by (auto simp: walk_state_def intro: rtrancl_into_rtrancl)
  from ports_loop_sound[OF assms(1)[unfolded validate_proxy_ports_def], of ?U] this
  obtain N where N: "cx_node ctx \<in> N" "ports_closed ctx N" by (auto simp: marked_def)
  from assms(3) have "n \<in> N"
    by (induction rule: rtrancl_induct) (use N in \<open>auto simp: ports_closed_def\<close>)
  then show ?thesis using N(2) by (simp add: ports_closed_def)
qed

section \<open>The walk returns\<close>

lemma ports_loop_step:
  assumes "\<And>s. ports_loop ctx rest s \<noteq> None"
    and "\<And>s. ports_loop ctx (rev (registered_children ctx node) @ rest) s \<noteq> None"
  shows "ports_loop ctx (node # rest) seen \<noteq> None"
  unfolding ports_loop.simps[of ctx "node # rest"] by (simp add: assms del: not_None_eq)

lemma ports_loop_node:
  assumes "acyclic (proxy_edges (all_proxies_map ctx))"
  shows "card (below ctx node) < k \<Longrightarrow> (\<And>s. ports_loop ctx rest s \<noteq> None) \<Longrightarrow>
     ports_loop ctx (node # rest) seen \<noteq> None"
proof (induction k arbitrary: node rest seen)
  case (Suc k)
  have "ports_loop ctx (rev cs @ rest) s \<noteq> None" if "set cs \<subseteq> set (registered_children ctx node)" for cs s
    using that
  proof (induction cs arbitrary: s rule: rev_induct)
    case Nil
    then show ?case using Suc.prems(2) by simp
  next
    case (snoc c cs)
    obtain i where "i \<in> set (child_profile_ids (protocol node))" "bt_get (all_proxies_map ctx) i = Some c"
      using snoc.prems by (auto simp: registered_children_def List.map_filter_def)
    then have "card (below ctx c) < k" using below_get[OF assms] Suc.prems(1) by fastforce
    then have "ports_loop ctx (c # (rev cs @ rest)) s \<noteq> None"
      by (rule Suc.IH) (use snoc in simp)
    then show ?case by simp
  qed
  then show ?case using Suc.prems(2) by (intro ports_loop_step) blast+
qed simp

lemma validate_proxy_ports_returns:
  assumes "acyclic (proxy_edges (all_proxies_map ctx))"
  shows "validate_proxy_ports ctx \<noteq> None"
  unfolding validate_proxy_ports_def
  by (rule ports_loop_node[OF assms, of _ "Suc (card (below ctx (cx_node ctx)))"])
    (simp_all add: ports_loop.simps)

section \<open>The generator returns\<close>

lemma map_value:
  "bt_get m k = Some p \<Longrightarrow> p \<in> set (bt_values m)"
  by (auto simp: bt_values_def dest: map_of_SomeD intro: rev_image_eqI)

text \<open>What resolving the outbound of a rule may do to the configuration.\<close>

lemma rule_outbound_None:
  "gen_routing_user_rule_outbound X ctx t cfg = None \<Longrightarrow>
     \<exists>node base. bt_get (all_proxies_map ctx) (''remark:'' @ t) = Some node
       \<and> build_all_proxy_servers X ctx node base True = None"
  unfolding gen_routing_user_rule_outbound_def Let_def
  by (auto split: if_splits option.splits simp del: append_Cons append.simps)

lemma rule_outbound_Some:
  "gen_routing_user_rule_outbound X ctx t cfg = Some (tag, cfg') \<Longrightarrow>
     cfg' = cfg \<or>
     (\<exists>node base ss. bt_get (all_proxies_map ctx) (''remark:'' @ t) = Some node
        \<and> (is_group_type (config_type node) \<or> singbox_supports_config_type (config_type node))
        \<and> build_all_proxy_servers X ctx node base True = Some ss \<and> cfg' = append_servers ss cfg)"
  unfolding gen_routing_user_rule_outbound_def Let_def
  by (auto split: if_splits option.splits simp del: append_Cons append.simps)

lemma rule_outbound_returns:
  assumes "acyclic (proxy_edges (all_proxies_map ctx))" and "map_pem_ok ctx"
  shows "gen_routing_user_rule X ctx user cfg \<noteq> None"
proof -
  have "build_all_proxy_servers X ctx node t True \<noteq> None"
    if "bt_get (all_proxies_map ctx) k = Some node" for k node t
    using build_all_returns[OF assms] map_value[OF that] assms(2) by (auto simp: map_pem_ok_def list_all_iff)
  then have "gen_routing_user_rule_outbound X ctx t cfg \<noteq> None" for t
    using rule_outbound_None by blast
  then show ?thesis by (simp add: gen_routing_user_rule_def del: not_None_eq)
qed

lemma gen_routing_returns:
  assumes "acyclic (proxy_edges (all_proxies_map ctx))" and "map_pem_ok ctx"
  shows "gen_routing X ctx cfg \<noteq> None"
proof -
  have "fold_opt (gen_routing_user_rule X ctx) us c \<noteq> None" for us c
    by (rule fold_opt_Some) (rule rule_outbound_returns[OF assms])
  then show ?thesis by (simp add: gen_routing_def Let_def del: not_None_eq split: option.split)
qed

lemma generate_returns:
  assumes "acyclic (proxy_edges (all_proxies_map ctx))" and "map_pem_ok ctx" and "pem_ok (cx_node ctx)"
  shows "generate_singbox_config X rulesets_from_str ctx \<noteq> None"
proof -
  have 1: "gen_outbounds X ctx cfg \<noteq> None" for cfg
    using build_all_returns[OF assms] by (simp add: gen_outbounds_def)
  have 2: "gen_routing X ctx cfg \<noteq> None" for cfg by (rule gen_routing_returns[OF assms(1,2)])
  have "generate_body X rulesets_from_str ctx \<noteq> None"
    unfolding generate_body_def using 1 2 by (simp del: not_None_eq split: option.split)
  then show ?thesis
    using validate_proxy_ports_returns[OF assms(1)]
    by (auto simp: generate_singbox_config_def split: option.split sum.split)
qed

section \<open>Ports of the generated servers\<close>

text \<open>The nodes the generator may turn into servers: a leaf with a port, a group with stored children.\<close>

definition sendable :: "profile_item set" where
  "sendable = {n. list_all plain_id (child_profile_ids (protocol n))
                \<and> (is_group_type (config_type n) \<or> valid_port (port n))}"

definition config_ports_ok :: "singbox_config \<Rightarrow> bool" where
  "config_ports_ok cfg \<longleftrightarrow>
     list_all (\<lambda>o1. server_ports_ok (Outbound o1)) (cfg_outbounds cfg)
     \<and> list_all (\<lambda>e. server_ports_ok (Endpoint e)) (cfg_endpoints cfg)"

lemma supported_simple: "singbox_supports_config_type t \<Longrightarrow> \<not> is_complex_type t"
  by (cases t) (simp_all add: singbox_supports_config_type_def is_complex_type_def)

lemma sendable_child:
  assumes m: "map_ok X (all_proxies_map ctx)" and n: "n \<in> sendable"
    and c: "c \<in> set (buildable_child_nodes ctx n)"
  shows "c \<in> sendable"
proof -
  obtain i where i: "i \<in> set (child_profile_ids (protocol n))" "bt_get (all_proxies_map ctx) i = Some c"
    using child_node_in_map[OF c] by blast
  then have e: "entry_ok X (all_proxies_map ctx) i c"
    using m n by (auto simp: map_ok_def sendable_def list_all_iff)
  show ?thesis
  proof (cases "is_group_type (config_type c)")
    case True
    then show ?thesis using e by (auto simp: entry_ok_def sendable_def plain_keys_def list_all_iff)
  next
    case False
    then have "\<not> is_complex_type (config_type c)"
      using c supported_simple by (auto simp: buildable_child_nodes_def singbox_can_build_leaf_def)
    then have "valid_port (port c)"
      using e False validate_node_basic by (auto simp: entry_ok_def profile_is_valid_def)
    moreover have "child_profile_ids (protocol c) = []"
      using False by (simp add: config_type_def)
    ultimately show ?thesis by (simp add: sendable_def)
  qed
qed

lemma all_servers_ports:
  assumes "map_ok X (all_proxies_map ctx)" and "node \<in> sendable"
    and "build_all_proxy_servers X ctx node base sel = Some ss"
  shows "list_all server_ports_ok ss"
proof -
  obtain ss0 where ss0: "(if is_group_type (config_type node)
        then build_group_proxy_servers (walk_fuel ctx) X ctx node base
        else map_option (\<lambda>s. case s of Some s \<Rightarrow> [s] | None \<Rightarrow> []) (build_proxy_server X ctx node base))
      = Some ss0"
    and ss: "ss = (if sel \<and> length (ordered_proxy_tags ss0 base) > 1
          then build_selector_servers node (ordered_proxy_tags ss0 base) base @ ss0 else ss0)"
    using assms(3) by (auto simp: build_all_proxy_servers_def Let_def)
  have leaf: "server_ports_ok s"
    if "c \<in> sendable" "\<not> is_group_type (config_type c)" "build_proxy_server X ctx c t = Some (Some s)" for c t s
    using build_proxy_server_port[OF that(3)] that(1,2) by (auto simp: sendable_def)
  have "list_all server_ports_ok ss0"
  proof (cases "is_group_type (config_type node)")
    case True
    show ?thesis
      by (rule ports_ok.group_servers_all[where N = sendable, OF sendable_child[OF assms(1)] leaf assms(2)])
        (use ss0 True in auto)
  next
    case False
    then show ?thesis using ss0 leaf[OF assms(2) False] by (auto split: option.splits)
  qed
  then show ?thesis
    by (simp add: ss build_selector_servers_def Let_def default_singbox_outbound_def)
qed

lemma server_lists_ports:
  "list_all server_ports_ok ss \<Longrightarrow>
     list_all (\<lambda>o1. server_ports_ok (Outbound o1)) (server_outbounds ss)
     \<and> list_all (\<lambda>e. server_ports_ok (Endpoint e)) (server_endpoints ss)"
  by (induction ss rule: server_outbounds.induct) auto

lemma append_ports: "config_ports_ok cfg \<Longrightarrow> list_all server_ports_ok ss \<Longrightarrow> config_ports_ok (append_servers ss cfg)"
  using server_lists_ports[of ss] by (simp add: config_ports_ok_def append_servers_def)

lemma prepend_ports: "config_ports_ok cfg \<Longrightarrow> list_all server_ports_ok ss \<Longrightarrow> config_ports_ok (prepend_servers ss cfg)"
  using server_lists_ports[of ss] by (simp add: config_ports_ok_def prepend_servers_def)

lemma push_rules_ports [simp]: "config_ports_ok (push_rules rs cfg) = config_ports_ok cfg"
  by (simp add: config_ports_ok_def push_rules_def)

definition named_map :: "core_config_context \<Rightarrow> bool" where
  "named_map ctx \<longleftrightarrow> list_all (\<lambda>p. trim (index_id p) \<noteq> []) (bt_values (all_proxies_map ctx))"

lemma remark_sendable:
  assumes "map_ok X (all_proxies_map ctx)" and "named_map ctx"
    and g: "bt_get (all_proxies_map ctx) (''remark:'' @ t) = Some node"
    and "is_group_type (config_type node) \<or> singbox_supports_config_type (config_type node)"
  shows "node \<in> sendable"
proof -
  have "remark_ok X node" and "trim (index_id node) \<noteq> []"
    using assms(1,2) g map_value[OF g] unfolding map_ok_def named_map_def list_all_iff
    by (metis not_plain_remark, blast)
  then show ?thesis
    using assms(4) supported_simple validate_node_basic
    by (auto simp: sendable_def remark_ok_def profile_is_valid_def)
qed

lemma rule_ports:
  assumes "map_ok X (all_proxies_map ctx)" and "named_map ctx" and "config_ports_ok cfg"
    and r: "gen_routing_user_rule X ctx user cfg = Some cfg'"
  shows "config_ports_ok cfg'"
proof -
  obtain t cfg1 where o1: "gen_routing_user_rule_outbound X ctx
      (unwrap_or (ri_outbound_tag user) PROXY_TAG) cfg = Some (t, cfg1)" and cfg': "config_ports_ok cfg' = config_ports_ok cfg1"
    using r by (auto simp: gen_routing_user_rule_def)
  have "config_ports_ok cfg1"
    using rule_outbound_Some[OF o1] assms(3) append_ports[OF assms(3)] all_servers_ports[OF assms(1)]
      remark_sendable[OF assms(1,2)]
    by blast
  then show ?thesis using cfg' by simp
qed

lemma gen_routing_ports:
  assumes "map_ok X (all_proxies_map ctx)" and "named_map ctx" and "config_ports_ok cfg"
    and "gen_routing X ctx cfg = Some cfg'"
  shows "config_ports_ok cfg'"
proof -
  have "config_ports_ok b'" if "fold_opt (gen_routing_user_rule X ctx) us b = Some b'" "config_ports_ok b" for us b b'
    by (rule fold_opt_inv[where P = config_ports_ok, OF _ that(2,1)]) (rule rule_ports[OF assms(1,2)])
  moreover have "config_ports_ok (start_route ctx cfg)"
    using assms(3) by (simp add: config_ports_ok_def start_route_def)
  ultimately show ?thesis
    using assms(4) by (auto simp: gen_routing_def Let_def split: option.splits if_splits)
qed

lemma map_bindable_ports:
  "config_ports_ok cfg \<Longrightarrow> (\<And>o1. ob_server_port (f o1) = ob_server_port o1) \<Longrightarrow> config_ports_ok (map_bindable f cfg)"
  by (auto simp: config_ports_ok_def map_bindable_def list_all_iff)

lemma finish_ports: "config_ports_ok cfg \<Longrightarrow> config_ports_ok (finish_config ctx cfg)"
  by (auto simp: finish_config_def apply_outbound_send_through_def apply_outbound_bind_interface_def
      intro!: map_bindable_ports split: option.split)

lemma convert_keeps:
  assumes "convert_geo_to_ruleset rulesets_from_str ctx cfg = Inr cfg'"
  shows "cfg_outbounds cfg' = cfg_outbounds cfg \<and> cfg_endpoints cfg' = cfg_endpoints cfg
     \<and> cfg_inbounds cfg' = cfg_inbounds cfg"
  using assms by (auto simp: convert_geo_to_ruleset_def Let_def split: if_splits sum.splits)

lemma late_sections:
  "config_ports_ok (gen_experimental ctx cfg) = config_ports_ok cfg"
  "config_ports_ok (gen_dns X ctx cfg) = config_ports_ok cfg"
  "config_ports_ok (gen_inbounds ctx (gen_log ctx cfg)) = config_ports_ok cfg"
  by (simp_all add: config_ports_ok_def gen_experimental_def gen_dns_def gen_dns_rules_def
      gen_dns_servers_def gen_inbounds_def gen_log_def Let_def)

text \<open>A successful run of the generator, cut into its sections.\<close>

lemma generate_cases:
  assumes "generate_singbox_config X rulesets_from_str ctx = Some (Inr cfg)"
  obtains ss c2 c3 where "build_all_proxy_servers X ctx (cx_node ctx) PROXY_TAG True = Some ss"
    and "gen_routing X ctx (prepend_servers ss (gen_inbounds ctx (gen_log ctx sample_config))) = Some c2"
    and "convert_geo_to_ruleset rulesets_from_str ctx (gen_experimental ctx (gen_dns X ctx c2)) = Inr c3"
    and "cfg = finish_config ctx c3"
    and "validate_proxy_ports ctx = Some (Inr ())" and "validate_active_wireguard ctx = Inr ()"
proof -
  have 1: "validate_proxy_ports ctx = Some (Inr ())" "validate_active_wireguard ctx = Inr ()"
    and g: "generate_body X rulesets_from_str ctx = Some (Inr cfg)"
    using assms by (auto simp: generate_singbox_config_def split: option.splits sum.splits)
  obtain c1 where c1: "gen_outbounds X ctx (gen_inbounds ctx (gen_log ctx sample_config)) = Some c1"
    using g by (auto simp: generate_body_def split: option.splits)
  then obtain c2 where c2: "gen_routing X ctx c1 = Some c2"
    using g by (auto simp: generate_body_def split: option.splits)
  then obtain c3 where "convert_geo_to_ruleset rulesets_from_str ctx (gen_experimental ctx (gen_dns X ctx c2)) = Inr c3"
    and "cfg = finish_config ctx c3"
    using g c1 by (auto simp: generate_body_def split: sum.splits)
  then show thesis using that c1 c2 1 by (auto simp: gen_outbounds_def)
qed

lemma generate_ports:
  assumes "map_ok X (all_proxies_map ctx)" and "named_map ctx" and "cx_node ctx \<in> sendable"
    and g: "generate_singbox_config X rulesets_from_str ctx = Some (Inr cfg)"
  shows "config_ports_ok cfg"
proof -
  let ?c0 = "gen_inbounds ctx (gen_log ctx sample_config)"
  obtain ss c2 c3 where ss: "build_all_proxy_servers X ctx (cx_node ctx) PROXY_TAG True = Some ss"
    and c2: "gen_routing X ctx (prepend_servers ss ?c0) = Some c2"
    and c3: "convert_geo_to_ruleset rulesets_from_str ctx (gen_experimental ctx (gen_dns X ctx c2)) = Inr c3"
    and cfg: "cfg = finish_config ctx c3"
    using generate_cases[OF g] .
  have "config_ports_ok sample_config"
    by (simp add: config_ports_ok_def sample_config_def direct_outbound_def default_singbox_outbound_def)
  then have "config_ports_ok (prepend_servers ss ?c0)"
    using all_servers_ports[OF assms(1,3) ss] by (intro prepend_ports) (simp_all add: late_sections)
  from gen_routing_ports[OF assms(1,2) this c2] have "config_ports_ok c2" .
  then have "config_ports_ok c3"
    using convert_keeps[OF c3] late_sections by (metis config_ports_ok_def)
  then show ?thesis unfolding cfg by (rule finish_ports)
qed

section \<open>Properties\<close>

definition port_context :: core_config_context where
  "port_context = sample_context\<lparr>cx_node := sample_group ''g'' [''a'', ''b'']\<rparr>"

text \<open>
  When the port check accepts a context, every node that the active node reaches over the
  registered children of groups, at any depth and in any order of visits, is a group, a custom
  node or has a port in 1..65535, provided that equal identifiers mean equal nodes.
\<close>

theorem port_check_sound:
  assumes "validate_proxy_ports ctx = Some (Inr ())"
    and "\<And>n m. (cx_node ctx, n) \<in> (port_edges ctx)\<^sup>* \<Longrightarrow> (cx_node ctx, m) \<in> (port_edges ctx)\<^sup>* \<Longrightarrow>
      index_id n = index_id m \<Longrightarrow> index_id n \<noteq> [] \<Longrightarrow> n = m"
    and "(cx_node ctx, n) \<in> (port_edges ctx)\<^sup>*"
  shows "config_type n = Ct_Custom \<or> is_group_type (config_type n) \<or> (1 \<le> port n \<and> port n \<le> 65535)"
proof -
  have "port_checked n" by (rule validated_reachable[OF assms(1) _ assms(3)]) (rule assms(2))
  then show ?thesis by (simp only: port_checked_def valid_port_def)
qed

lemma port_check_sound_witness:
  "1 \<le> port (sample_leaf ''b'') \<and> port (sample_leaf ''b'') \<le> 65535"
proof -
  let ?g = "sample_group ''g'' [''a'', ''b'']"
  have g: "cx_node port_context = ?g" by (simp add: port_context_def)
  have c: "registered_children port_context ?g = [sample_leaf ''a'', sample_leaf ''b'']" by code_simp
  have t: "\<not> is_group_type (config_type (sample_leaf i))" "index_id (sample_leaf i) = i"
      "config_type (sample_leaf i) \<noteq> Ct_Custom" for i
    by (simp_all add: sample_leaf_def config_type_def is_group_type_def)
  have tg: "is_group_type (config_type ?g)" "index_id ?g = ''g''"
    by (simp_all add: sample_group_def config_type_def is_group_type_def)
  have r: "n \<in> {?g, sample_leaf ''a'', sample_leaf ''b''}"
    if "(cx_node port_context, n) \<in> (port_edges port_context)\<^sup>*" for n
    using that by (induction rule: rtrancl_induct) (use c t in \<open>auto simp: g port_edges_def\<close>)
  have v: "validate_proxy_ports port_context = Some (Inr ())" by code_simp
  have u: "n = m" if "(cx_node port_context, n) \<in> (port_edges port_context)\<^sup>*"
    "(cx_node port_context, m) \<in> (port_edges port_context)\<^sup>*" "index_id n = index_id m" "index_id n \<noteq> []" for n m
    using r[OF that(1)] r[OF that(2)] that(3) t(2) tg(2) by auto
  have "(?g, sample_leaf ''b'') \<in> port_edges port_context" using c tg(1) by (simp add: port_edges_def)
  then have e: "(cx_node port_context, sample_leaf ''b'') \<in> (port_edges port_context)\<^sup>*" unfolding g ..
  show ?thesis using port_check_sound[OF v u e] t(1,3)[of "''b''"] by blast
qed

text \<open>
  C18: if no identifier of a profile and no child reference begins with the reserved prefix, the
  generator returns, with a configuration or an error, on every context the builder produces: the
  port check, the group walks of the active node and of every routing rule end, whatever cycles the
  stored groups have, as long as the certificates of the nodes can be cut.
\<close>

theorem generator_returns:
  assumes "plain_env env" and "plain_id (index_id node)" and "pem_ok node"
    and "map_pem_ok (br_context (build X env config node))"
  shows "\<exists>r. generate_singbox_config X rulesets_from_str (br_context (build X env config node)) = Some r"
  using generate_returns[OF proxies_acyclic[OF assms(1,2)] assms(4)] assms(3)
    build_frame(1)[OF assms(1,2), of X config] by auto

lemma generator_returns_witness:
  "\<exists>r. generate_singbox_config no_externals (\<lambda>s. None)
     (br_context (build no_externals sample_env default_app_config (sample_group ''g'' [''a'', ''h'', ''g'']))) = Some r"
  by (rule generator_returns) code_simp+



end
