(* ===== verification/ConfigRefs.thy ===== *)
theory ConfigRefs
  imports PortChecks
begin

text \<open>
  What holds of every configuration the generator returns: the names its parts use for each
  other are defined in it. Rule sets, DNS servers, the outbounds of rules, the tags and ports
  of the inbounds. Each fact is proved for the section that establishes it and carried
  through the later sections, which only touch what their update says.
\<close>

section \<open>All matchers of a rule\<close>

fun rule_parts :: "singbox_rule \<Rightarrow> rule_fields list" where
  "rule_parts (SingboxRule f rs) =
     f # (case rs of None \<Rightarrow> [] | Some xs \<Rightarrow> concat (map rule_parts xs))"

lemma rule_parts_flat [simp]: "rule_parts (flat_rule f) = [f]"
  by simp

lemma rule_parts_convert [simp]:
  "rule_parts (convert_rule_geo_to_ruleset r) = map convert_fields (rule_parts r)"
proof (induction r rule: rule_parts.induct)
  case (1 f rs)
  show ?case
  proof (cases rs)
    case (Some xs)
    have "map (rule_parts \<circ> convert_rule_geo_to_ruleset) xs = map (map convert_fields \<circ> rule_parts) xs"
      using "1.IH"[OF Some] by simp
    then have "concat (map (rule_parts \<circ> convert_rule_geo_to_ruleset) xs)
        = concat (map (map convert_fields \<circ> rule_parts) xs)" by (rule arg_cong)
    then show ?thesis by (simp add: Some map_concat)
  qed simp
qed

lemma rule_set_tags_parts:
  "set (rule_set_tags r) = (\<Union>f \<in> set (rule_parts r). set (unwrap_or (r_rule_set f) []))"
proof (induction r rule: rule_parts.induct)
  case (1 f rs)
  show ?case
  proof (cases rs)
    case (Some xs)
    have "(\<Union>x \<in> set xs. set (rule_set_tags x))
        = (\<Union>x \<in> set xs. \<Union>f \<in> set (rule_parts x). set (unwrap_or (r_rule_set f) []))"
      using "1.IH"[OF Some] by simp
    then show ?thesis by (simp add: Some)
  qed simp
qed

definition parts_of :: "singbox_rule list \<Rightarrow> rule_fields list" where
  "parts_of rs = concat (map rule_parts rs)"

lemma parts_of_simps [simp]:
  "parts_of [] = []" "parts_of (r # rs) = rule_parts r @ parts_of rs"
  "parts_of (rs @ rs') = parts_of rs @ parts_of rs'"
  by (simp_all add: parts_of_def)

lemma parts_of_convert [simp]:
  "parts_of (map convert_rule_geo_to_ruleset rs) = map convert_fields (parts_of rs)"
  by (induction rs) simp_all

lemma parts_of_flat [simp]: "parts_of (map flat_rule fs) = fs"
  by (induction fs) simp_all

lemma rule_set_tags_of:
  "set (concat (map rule_set_tags rs)) = (\<Union>f \<in> set (parts_of rs). set (unwrap_or (r_rule_set f) []))"
  by (induction rs) (simp_all add: rule_set_tags_parts)

section \<open>Geo matchers\<close>

lemma convert_fields_keeps [simp]:
  "r_server (convert_fields f) = r_server f" "r_outbound (convert_fields f) = r_outbound f"
  "r_action (convert_fields f) = r_action f" "r_inbound (convert_fields f) = r_inbound f"
  by (simp_all add: convert_fields_def Let_def)

lemma convert_fields_geo [simp]:
  "\<not> is_some_nonempty (r_geosite (convert_fields f))" "\<not> is_some_nonempty (r_geoip (convert_fields f))"
  by (auto simp: convert_fields_def Let_def is_some_nonempty_def split: option.splits)

lemma convert_fields_sets:
  "unwrap_or (r_rule_set (convert_fields f)) [] = unwrap_or (r_rule_set f) []
     @ map (\<lambda>i. ''geosite-'' @ i) (unwrap_or (r_geosite f) [])
     @ map (\<lambda>i. ''geoip-'' @ i) (unwrap_or (r_geoip f) [])"
  by (auto simp: convert_fields_def Let_def is_some_nonempty_def opt_extend_def split: option.splits)

definition dns_parts :: "singbox_config \<Rightarrow> rule_fields list" where
  "dns_parts cfg = (case cfg_dns cfg of Some d \<Rightarrow> parts_of (dn_rules d) | None \<Rightarrow> [])"

definition config_parts :: "singbox_config \<Rightarrow> rule_fields list" where
  "config_parts cfg = parts_of (ro_rules (cfg_route cfg)) @ dns_parts cfg"

definition defined_rule_sets :: "singbox_config \<Rightarrow> string option list" where
  "defined_rule_sets cfg = map rs_tag (unwrap_or (ro_rule_set (cfg_route cfg)) [])"

lemma ruleset_for_tag_tag [simp]: "rs_tag (ruleset_for_tag t u ctx) = Some t"
  by (simp add: ruleset_for_tag_def remote_ruleset_def split: option.split)

lemma picked_rule_set [simp]:
  "rs_tag (case find (\<lambda>r. rs_tag r = Some t) custom of Some r \<Rightarrow> r | None \<Rightarrow> ruleset_for_tag t u ctx) = Some t"
  by (auto simp: find_Some_iff split: option.split)

lemma convert_geo_spec:
  assumes "convert_geo_to_ruleset rulesets_from_str ctx cfg = Inr cfg'"
  shows "ro_rules (cfg_route cfg') = map convert_rule_geo_to_ruleset (ro_rules (cfg_route cfg))
     \<and> cfg_dns cfg' = map_option (\<lambda>d. d\<lparr>dn_rules := map convert_rule_geo_to_ruleset (dn_rules d)\<rparr>) (cfg_dns cfg)
     \<and> ro_final (cfg_route cfg') = ro_final (cfg_route cfg)
     \<and> ro_default_domain_resolver (cfg_route cfg') = ro_default_domain_resolver (cfg_route cfg)"
  using assms by (auto simp: convert_geo_to_ruleset_def Let_def split: if_splits sum.splits)

lemma convert_geo_parts:
  assumes "convert_geo_to_ruleset rulesets_from_str ctx cfg = Inr cfg'"
  shows "config_parts cfg' = map convert_fields (config_parts cfg)"
  using convert_geo_spec[OF assms] by (auto simp: config_parts_def dns_parts_def split: option.split)

lemma convert_geo_sets:
  assumes "convert_geo_to_ruleset rulesets_from_str ctx cfg = Inr cfg'"
    and "ro_rule_set (cfg_route cfg) = None"
  shows "set (defined_rule_sets cfg')
       = Some ` (\<Union>f \<in> set (config_parts cfg'). set (unwrap_or (r_rule_set f) []) - {[]})
     \<and> distinct (defined_rule_sets cfg')"
proof -
  let ?rules = "map convert_rule_geo_to_ruleset (ro_rules (cfg_route cfg))"
  let ?dns = "map_option (\<lambda>d. d\<lparr>dn_rules := map convert_rule_geo_to_ruleset (dn_rules d)\<rparr>) (cfg_dns cfg)"
  let ?tags = "concat (map rule_set_tags ?rules)
      @ (case ?dns of Some d \<Rightarrow> concat (map rule_set_tags (dn_rules d)) | None \<Rightarrow> [])"
  let ?unique = "sorted_list_of_set (set (filter (\<lambda>t. t \<noteq> []) ?tags))"
  have pick: "set (sorted_list_of_set (set (filter (\<lambda>t. t \<noteq> []) ts))) = set ts - {[]}" for ts :: "string list"
    by auto
  have tags: "set ?tags = (\<Union>f \<in> set (config_parts cfg'). set (unwrap_or (r_rule_set f) []))"
    unfolding config_parts_def dns_parts_def conjunct1[OF convert_geo_spec[OF assms(1)]]
      conjunct1[OF conjunct2[OF convert_geo_spec[OF assms(1)]]] set_append rule_set_tags_of UN_Un
    by (cases "cfg_dns cfg") (simp_all only: option.case option.map rule_set_tags_of list.set UN_empty singbox_dns.select_convs singbox_dns.update_convs singbox_dns.surjective)
  then have u: "set ?unique = (\<Union>f \<in> set (config_parts cfg'). set (unwrap_or (r_rule_set f) []) - {[]})"
    unfolding pick tags by blast
  have "defined_rule_sets cfg' = map Some ?unique"
  proof (cases "?unique = []")
    case True
    then show ?thesis
      using assms unfolding convert_geo_to_ruleset_def Let_def by (auto simp: defined_rule_sets_def)
  next
    case False
    then show ?thesis
      using assms(1) unfolding convert_geo_to_ruleset_def Let_def
      by (auto simp: defined_rule_sets_def o_def split: sum.splits)
  qed
  then show ?thesis unfolding u[symmetric] by (simp add: distinct_map)
qed

section \<open>What the later sections leave alone\<close>

lemma finish_keeps [simp]:
  "cfg_route (finish_config ctx cfg) = cfg_route cfg" "cfg_dns (finish_config ctx cfg) = cfg_dns cfg"
  "cfg_inbounds (finish_config ctx cfg) = cfg_inbounds cfg"
  "cfg_endpoints (finish_config ctx cfg) = cfg_endpoints cfg"
  "map ob_tag (cfg_outbounds (finish_config ctx cfg)) = map ob_tag (cfg_outbounds cfg)"
  by (auto simp: finish_config_def apply_outbound_send_through_def apply_outbound_bind_interface_def
      map_bindable_def split: option.split)

lemma config_parts_finish [simp]: "config_parts (finish_config ctx cfg) = config_parts cfg"
  by (simp add: config_parts_def dns_parts_def)

lemma defined_rule_sets_finish [simp]: "defined_rule_sets (finish_config ctx cfg) = defined_rule_sets cfg"
  by (simp add: defined_rule_sets_def)

lemma experimental_keeps [simp]:
  "cfg_route (gen_experimental ctx cfg) = cfg_route cfg" "cfg_dns (gen_experimental ctx cfg) = cfg_dns cfg"
  "cfg_inbounds (gen_experimental ctx cfg) = cfg_inbounds cfg"
  "cfg_outbounds (gen_experimental ctx cfg) = cfg_outbounds cfg"
  "cfg_endpoints (gen_experimental ctx cfg) = cfg_endpoints cfg"
  by (simp_all add: gen_experimental_def Let_def)

lemma dns_keeps [simp]:
  "cfg_route (gen_dns X ctx cfg) = cfg_route cfg" "cfg_inbounds (gen_dns X ctx cfg) = cfg_inbounds cfg"
  "cfg_outbounds (gen_dns X ctx cfg) = cfg_outbounds cfg" "cfg_endpoints (gen_dns X ctx cfg) = cfg_endpoints cfg"
  by (simp_all add: gen_dns_def gen_dns_rules_def gen_dns_servers_def Let_def)

lemma servers_keep [simp]:
  "cfg_route (prepend_servers ss cfg) = cfg_route cfg" "cfg_route (append_servers ss cfg) = cfg_route cfg"
  "cfg_dns (prepend_servers ss cfg) = cfg_dns cfg" "cfg_dns (append_servers ss cfg) = cfg_dns cfg"
  "cfg_inbounds (prepend_servers ss cfg) = cfg_inbounds cfg"
  "cfg_inbounds (append_servers ss cfg) = cfg_inbounds cfg"
  by (simp_all add: prepend_servers_def append_servers_def)

definition config_tags :: "singbox_config \<Rightarrow> string set" where
  "config_tags cfg = set (map ob_tag (cfg_outbounds cfg)) \<union> set (map ep_tag (cfg_endpoints cfg))"

lemma server_lists_tags:
  "set (map ob_tag (server_outbounds ss)) \<union> set (map ep_tag (server_endpoints ss)) = server_tag ` set ss"
  by (induction ss rule: server_outbounds.induct) auto

lemma tags_prepend: "config_tags (prepend_servers ss cfg) = server_tag ` set ss \<union> config_tags cfg"
  using server_lists_tags[of ss] by (auto simp: config_tags_def prepend_servers_def)

lemma tags_append: "config_tags (append_servers ss cfg) = server_tag ` set ss \<union> config_tags cfg"
  using server_lists_tags[of ss] by (auto simp: config_tags_def append_servers_def)

lemma tags_push [simp]: "config_tags (push_rules rs cfg) = config_tags cfg"
  by (simp add: config_tags_def push_rules_def)

section \<open>Servers before they are bound\<close>

fun server_unbound :: "singbox_server \<Rightarrow> bool" where
  "server_unbound (Outbound o1) \<longleftrightarrow> ob_bind_interface o1 = None \<and> ob_inet4_bind_address o1 = None"
| "server_unbound (Endpoint e) \<longleftrightarrow> True"

lemma server_unbound_keep [simp]:
  "server_unbound (set_tag t s) = server_unbound s" "server_unbound (set_detour t s) = server_unbound s"
  by (cases s; simp)+

interpretation unbound: server_invariant server_unbound
  by unfold_locales simp_all

abbreviation same_binding :: "singbox_outbound \<Rightarrow> singbox_outbound \<Rightarrow> bool" where
  "same_binding o1 o2 \<equiv> ob_bind_interface o2 = ob_bind_interface o1
     \<and> ob_inet4_bind_address o2 = ob_inet4_bind_address o1"

lemma v2ray_binding: "fill_v2ray_plugin node net o1 = Some o2 \<Longrightarrow> same_binding o1 o2"
  by (auto simp: fill_v2ray_plugin_def Let_def)

lemma plugin_binding: "fill_shadowsocks_plugin node net o1 = Some o2 \<Longrightarrow> same_binding o1 o2"
  by (auto simp: fill_shadowsocks_plugin_def
      split: option.splits profile_transport.splits if_splits dest: v2ray_binding)

lemma mux_binding [simp]:
  "ob_bind_interface (fill_outbound_mux ctx o1) = ob_bind_interface o1"
  "ob_inet4_bind_address (fill_outbound_mux ctx o1) = ob_inet4_bind_address o1"
  by (simp_all add: fill_outbound_mux_def Let_def)

lemma transport_binding [simp]:
  "ob_bind_interface (fill_outbound_transport X ctx node o1) = ob_bind_interface o1"
  "ob_inet4_bind_address (fill_outbound_transport X ctx node o1) = ob_inet4_bind_address o1"
proof -
  define t where "t = singbox_transport_of X ctx (transport node)"
  have "fill_outbound_transport X ctx node o1
      = (if config_type node = Ct_Shadowsocks
         then (if tr_type t \<noteq> None then o1\<lparr>ob_transport := Some t\<rparr> else o1)\<lparr>ob_transport := None\<rparr>
         else if tr_type t \<noteq> None then o1\<lparr>ob_transport := Some t\<rparr> else o1)"
    unfolding fill_outbound_transport_def t_def Let_def ..
  then show "ob_bind_interface (fill_outbound_transport X ctx node o1) = ob_bind_interface o1"
    "ob_inet4_bind_address (fill_outbound_transport X ctx node o1) = ob_inet4_bind_address o1"
    by (cases "config_type node = Ct_Shadowsocks"; cases "tr_type t = None"; simp)+
qed

lemma hops_binding [simp]:
  "ob_bind_interface (hysteria2_hops h p o1) = ob_bind_interface o1"
  "ob_inet4_bind_address (hysteria2_hops h p o1) = ob_inet4_bind_address o1"
  by (simp_all add: hysteria2_hops_def Let_def)

lemma hysteria2_binding [simp]:
  "ob_bind_interface (fill_hysteria2_fields ctx h b o1) = ob_bind_interface o1"
  "ob_inet4_bind_address (fill_hysteria2_fields ctx h b o1) = ob_inet4_bind_address o1"
  by (simp_all add: fill_hysteria2_fields_def hysteria2_obfs_def hysteria2_rates_def Let_def
      split: option.split)

lemma credentials_binding [simp]:
  "ob_bind_interface (with_credentials u p o1) = ob_bind_interface o1"
  "ob_inet4_bind_address (with_credentials u p o1) = ob_inet4_bind_address o1"
  by (simp_all add: with_credentials_def)

lemma protocol_binding:
  assumes "fill_protocol X ctx node o1 = Some o2"
  shows "same_binding o1 o2"
proof (cases "protocol node")
  case (Pp_Shadowsocks server pass meth uot)
  then show ?thesis using assms by (auto simp: fill_protocol_def dest!: plugin_binding)
next
  case (Pp_Vless server uuid flow enc)
  then show ?thesis using assms by (cases "nonempty_str flow") (auto simp: fill_protocol_def Let_def)
qed (use assms in \<open>auto simp: fill_protocol_def Let_def\<close>)

lemma tls_binding:
  assumes "fill_outbound_tls ctx node o1 = Some o2"
  shows "same_binding o1 o2"
proof -
  have "\<exists>v. o2 = o1 \<or> o2 = o1\<lparr>ob_tls := v\<rparr>"
    using assms unfolding fill_outbound_tls_def Let_def
    by (auto split: option.splits if_split_asm tls_mode.splits)
  then show ?thesis by auto
qed

lemma build_proxy_server_unbound:
  assumes "build_proxy_server X ctx node tag = Some (Some s)"
  shows "server_unbound s"
proof (cases "config_type node = Ct_WireGuard")
  case True
  then show ?thesis using assms by (auto simp: build_proxy_server_def)
next
  case False
  then obtain o2 where o2: "build_outbound X ctx node = Some o2" and s: "s = Outbound (o2\<lparr>ob_tag := tag\<rparr>)"
    using assms by (auto simp: build_proxy_server_def)
  then obtain o1 where "fill_protocol X ctx node (base_outbound node) = Some o1"
    "fill_outbound_tls ctx node o1 = Some o2"
    by (auto simp: build_outbound_def bind_eq_Some_conv)
  from protocol_binding[OF this(1)] tls_binding[OF this(2)] show ?thesis
    by (simp add: s base_outbound_def default_singbox_outbound_def)
qed

lemma all_servers_unbound:
  assumes "build_all_proxy_servers X ctx node base sel = Some ss"
  shows "list_all server_unbound ss"
proof -
  obtain ss0 where ss0: "(if is_group_type (config_type node)
        then build_group_proxy_servers (walk_fuel ctx) X ctx node base
        else map_option (\<lambda>s. case s of Some s \<Rightarrow> [s] | None \<Rightarrow> []) (build_proxy_server X ctx node base))
      = Some ss0"
    and ss: "ss = (if sel \<and> length (ordered_proxy_tags ss0 base) > 1
          then build_selector_servers node (ordered_proxy_tags ss0 base) base @ ss0 else ss0)"
    using assms by (auto simp: build_all_proxy_servers_def Let_def)
  have "list_all server_unbound ss0"
  proof (cases "is_group_type (config_type node)")
    case True
    show ?thesis
      by (rule unbound.group_servers_all[where N = UNIV, OF _ build_proxy_server_unbound])
        (use ss0 True in auto)
  next
    case False
    then show ?thesis using ss0 build_proxy_server_unbound by (auto split: option.splits)
  qed
  then show ?thesis
    by (simp add: ss build_selector_servers_def Let_def default_singbox_outbound_def)
qed

lemma server_lists_unbound:
  "list_all server_unbound ss \<Longrightarrow> set (server_outbounds ss) \<subseteq> {o1. server_unbound (Outbound o1)}"
  by (induction ss rule: server_outbounds.induct) auto

section \<open>What routing changes\<close>

text \<open>Routing appends rules, each of a given kind \<open>P\<close>, and servers, and keeps the rest of the route.\<close>

definition routed :: "(singbox_rule \<Rightarrow> bool) \<Rightarrow> singbox_config \<Rightarrow> singbox_config \<Rightarrow> bool" where
  "routed P cfg cfg' \<longleftrightarrow> cfg_dns cfg' = cfg_dns cfg \<and> cfg_inbounds cfg' = cfg_inbounds cfg
     \<and> config_tags cfg \<subseteq> config_tags cfg'
     \<and> set (cfg_outbounds cfg') \<subseteq> set (cfg_outbounds cfg) \<union> {o1. server_unbound (Outbound o1)}
     \<and> (\<exists>rs. list_all P rs
         \<and> cfg_route cfg' = (cfg_route cfg)\<lparr>ro_rules := ro_rules (cfg_route cfg) @ rs\<rparr>)"

lemma routed_refl [simp]: "routed P cfg cfg"
  by (auto simp: routed_def intro: exI[of _ "[]"])

lemma routed_trans:
  assumes "routed P a b" and "routed P b c"
  shows "routed P a c"
proof -
  obtain rs where 1: "list_all P rs"
    "cfg_route b = (cfg_route a)\<lparr>ro_rules := ro_rules (cfg_route a) @ rs\<rparr>"
    using assms(1) unfolding routed_def by blast
  obtain rs' where 2: "list_all P rs'"
    "cfg_route c = (cfg_route b)\<lparr>ro_rules := ro_rules (cfg_route b) @ rs'\<rparr>"
    using assms(2) unfolding routed_def by blast
  have "\<exists>rs. list_all P rs \<and> cfg_route c = (cfg_route a)\<lparr>ro_rules := ro_rules (cfg_route a) @ rs\<rparr>"
    by (rule exI[of _ "rs @ rs'"]) (simp add: 1 2)
  moreover have "set (cfg_outbounds c) \<subseteq> set (cfg_outbounds a) \<union> {o1. server_unbound (Outbound o1)}"
    using assms unfolding routed_def by blast
  ultimately show ?thesis using assms unfolding routed_def by auto
qed

lemma routed_push: "routed P cfg (push_rules rs cfg) \<longleftrightarrow> list_all P rs"
proof -
  have "routed P cfg (push_rules rs cfg) \<longleftrightarrow> (\<exists>rs'. list_all P rs' \<and> rs = rs')"
    by (auto simp: routed_def push_rules_def config_tags_def dest: arg_cong[where f = ro_rules])
  then show ?thesis by simp
qed

lemma rule_outbound_keeps:
  assumes "gen_routing_user_rule_outbound X ctx t cfg = Some (tag, cfg')"
  shows "cfg_route cfg' = cfg_route cfg \<and> cfg_dns cfg' = cfg_dns cfg \<and> cfg_inbounds cfg' = cfg_inbounds cfg
     \<and> config_tags cfg \<subseteq> config_tags cfg'
     \<and> set (cfg_outbounds cfg') \<subseteq> set (cfg_outbounds cfg) \<union> {o1. server_unbound (Outbound o1)}"
proof (cases "cfg' = cfg")
  case False
  then obtain node base ss where ss: "build_all_proxy_servers X ctx node base True = Some ss"
    and cfg': "cfg' = append_servers ss cfg"
    using rule_outbound_Some[OF assms] by blast
  show ?thesis
    using server_lists_unbound[OF all_servers_unbound[OF ss]]
    by (auto simp: cfg' tags_append) (auto simp: append_servers_def)
qed simp

lemma rule_outbound_builtin:
  assumes "gen_routing_user_rule_outbound X ctx t cfg = Some (tag, cfg')"
    and "t \<in> {PROXY_TAG, DIRECT_TAG, BLOCK_TAG}"
  shows "tag = t \<and> cfg' = cfg"
  using assms by (simp add: gen_routing_user_rule_outbound_def)

lemma user_rule_cases:
  assumes "gen_routing_user_rule X ctx user cfg = Some cfg'"
  obtains tag cfg1 where
    "gen_routing_user_rule_outbound X ctx (unwrap_or (ri_outbound_tag user) PROXY_TAG) cfg = Some (tag, cfg1)"
    and "cfg' = push_rules (user_rules (user_rule_base tag user) user) cfg1"
  using assms by (auto simp: gen_routing_user_rule_def)

lemma user_rule_routed:
  assumes "gen_routing_user_rule X ctx user cfg = Some cfg'"
    and "\<And>tag. list_all P (user_rules (user_rule_base tag user) user)"
  shows "routed P cfg cfg'"
proof -
  obtain tag cfg1 where o1: "gen_routing_user_rule_outbound X ctx (unwrap_or (ri_outbound_tag user) PROXY_TAG) cfg
      = Some (tag, cfg1)" and cfg': "cfg' = push_rules (user_rules (user_rule_base tag user) user) cfg1"
    by (rule user_rule_cases[OF assms(1)])
  have "routed P cfg1 cfg'" unfolding cfg' routed_push by (rule assms(2))
  then show ?thesis using rule_outbound_keeps[OF o1] by (auto simp: routed_def)
qed

lemma user_rules_routed:
  assumes "fold_opt (gen_routing_user_rule X ctx) users cfg = Some cfg'"
    and "\<And>user tag. user \<in> set users \<Longrightarrow> list_all P (user_rules (user_rule_base tag user) user)"
  shows "routed P cfg cfg'"
  by (rule fold_opt_inv[where P = "routed P cfg", OF _ _ assms(1)])
    (use user_rule_routed assms(2) routed_trans in \<open>blast | simp\<close>)+

lemma gen_routing_routed:
  assumes "gen_routing X ctx cfg = Some cfg'" and "P (resolve_rule ctx)"
    and "\<And>routing user tag. routing_item ctx = Some routing \<Longrightarrow> user \<in> set (routed_items routing) \<Longrightarrow>
      list_all P (user_rules (user_rule_base tag user) user)"
  shows "routed P (push_rules (fixed_route_rules ctx) (start_route ctx cfg)) cfg'"
proof (cases "routing_item ctx")
  case None
  then show ?thesis using assms(1) by (simp add: gen_routing_def Let_def)
next
  case (Some routing)
  let ?c1 = "push_rules (fixed_route_rules ctx) (start_route ctx cfg)"
  obtain c2 where c2: "fold_opt (gen_routing_user_rule X ctx) (routed_items routing) ?c1 = Some c2"
    and c3: "(if rb_domain_strategy (routing_basic (cx_app_config ctx)) = IP_IF_NON_MATCH
                then fold_opt (gen_routing_user_rule X ctx)
                       (filter (\<lambda>item. is_some_nonempty (ri_ip item)) (routed_items routing))
                       (push_rules [resolve_rule ctx] c2)
                else Some c2) = Some cfg'"
    using assms(1) Some by (auto simp: gen_routing_def Let_def split: option.splits)
  have 1: "routed P ?c1 c2" by (rule user_rules_routed[OF c2]) (rule assms(3)[OF Some])
  have "routed P c2 cfg'"
  proof (cases "rb_domain_strategy (routing_basic (cx_app_config ctx)) = IP_IF_NON_MATCH")
    case True
    have "routed P (push_rules [resolve_rule ctx] c2) cfg'"
      by (rule user_rules_routed) (use c3 True assms(3)[OF Some] in auto)
    moreover have "routed P c2 (push_rules [resolve_rule ctx] c2)" using assms(2) by (simp add: routed_push)
    ultimately show ?thesis using routed_trans by blast
  next
    case False
    then show ?thesis using c3 by simp
  qed
  then show ?thesis using 1 routed_trans by blast
qed

end
