(* ===== verification/ConfigProps.thy ===== *)
theory ConfigProps
  imports ConfigRefs
begin

text \<open>
  The properties of generated configurations: every route rule acts, rule sets and DNS
  servers are defined where they are named, inbounds do not collide and listen beyond the
  loopback interface only when the settings allow it, the final outbound exists, and the
  speed test configuration routes every test inbound to its own node.
\<close>

section \<open>What a user rule does\<close>

definition targets :: "rule_fields \<Rightarrow> singbox_rule \<Rightarrow> bool" where
  "targets base r \<longleftrightarrow>
     r_outbound (flat_fields r) = r_outbound base \<and> r_action (flat_fields r) = r_action base"

definition rule_target :: "singbox_rule \<Rightarrow> string option \<times> string option" where
  "rule_target r = (r_outbound (flat_fields r), r_action (flat_fields r))"

definition rule_acts :: "singbox_rule \<Rightarrow> bool" where
  "rule_acts r \<longleftrightarrow> r_outbound (flat_fields r) \<noteq> None \<or> r_action (flat_fields r) \<noteq> None"

text \<open>
  A rule that names addresses together with excluded ones, none of which the generator can read:
  the only rules that lose their target.
\<close>

definition supported_address :: "string \<Rightarrow> bool" where
  "supported_address ip \<longleftrightarrow> parse_v2_address ip no_fields \<noteq> None"

definition exclusions_unknown :: "rules_item \<Rightarrow> bool" where
  "exclusions_unknown user \<longleftrightarrow>
     (let ips = unwrap_or (ri_ip user) [];
          excluded = map trim (List.map_filter (strip_prefix ''!'') ips)
      in excluded \<noteq> [] \<and> \<not> list_ex supported_address excluded
         \<and> list_ex supported_address (filter (\<lambda>ip. \<not> starts_with ip ''!'') ips))"

lemma parse_domain_keeps:
  "parse_v2_domain d f = Some g \<Longrightarrow>
     r_outbound g = r_outbound f \<and> r_action g = r_action f \<and> r_server g = r_server f"
  by (auto simp: parse_v2_domain_def split: if_splits option.splits)

lemma parse_address_keeps:
  "parse_v2_address d f = Some g \<Longrightarrow>
     r_outbound g = r_outbound f \<and> r_action g = r_action f \<and> r_server g = r_server f"
  by (auto simp: parse_v2_address_def split: if_splits option.splits)

lemma parse_address_matcher:
  "parse_v2_address d f = Some g \<Longrightarrow> route_ip_rule_has_matcher g"
  by (auto simp: parse_v2_address_def route_ip_rule_has_matcher_def is_some_nonempty_def opt_push_def
      split: if_splits option.splits)

lemma parse_address_any: "parse_v2_address d f = None \<longleftrightarrow> parse_v2_address d g = None"
  by (auto simp: parse_v2_address_def split: option.splits)

lemma parse_count_keeps:
  assumes "\<And>d f g. parse d f = Some g \<Longrightarrow>
      r_outbound g = r_outbound f \<and> r_action g = r_action f \<and> r_server g = r_server f"
    and "parse_count parse xs f = (g, n)"
  shows "r_outbound g = r_outbound f \<and> r_action g = r_action f \<and> r_server g = r_server f"
  using assms(2)
proof (induction xs arbitrary: f n)
  case (Cons x xs)
  show ?case
  proof (cases "parse x f")
    case None
    then show ?thesis using Cons by simp
  next
    case (Some h)
    then obtain m where "parse_count parse xs h = (g, m)"
      using Cons.prems by (auto split: prod.splits)
    then show ?thesis using Cons.IH assms(1)[OF Some] by fastforce
  qed
qed simp

lemma supported_any: "parse_v2_address ip f \<noteq> None \<longleftrightarrow> supported_address ip"
  using parse_address_any[of ip f no_fields] by (simp only: supported_address_def)

lemma parse_count_supported:
  "parse_count parse_v2_address xs f = (g, n) \<Longrightarrow>
     (n > 0 \<longleftrightarrow> list_ex supported_address xs) \<and> (n > 0 \<or> route_ip_rule_has_matcher f \<longrightarrow> route_ip_rule_has_matcher g)"
proof (induction xs arbitrary: f n)
  case (Cons x xs)
  then show ?case
    using supported_any[of x f] by (auto split: option.splits prod.splits dest: parse_address_matcher)
qed auto

lemma domain_rules_target: "list_all (targets base) (domain_rules base ds)"
  using parse_count_keeps[OF parse_domain_keeps]
  by (auto simp: domain_rules_def push_if_def targets_def split: option.split prod.split)

lemma process_rules_target: "list_all (targets base) (process_rules base ps)"
  by (auto simp: process_rules_def push_if_def targets_def Let_def split: option.split)

lemma ip_rules_target:
  assumes b: "r_outbound base \<noteq> None \<or> r_action base \<noteq> None" and user: "ri_ip user = ips"
  shows "list_all (targets base) (fst (ip_rules base ips)) \<longleftrightarrow> \<not> exclusions_unknown user"
proof (cases ips)
  case None
  then show ?thesis using user by (simp add: ip_rules_def exclusions_unknown_def Let_def)
next
  case (Some xs)
  let ?neg = "map trim (List.map_filter (strip_prefix ''!'') xs)"
  let ?pos = "filter (\<lambda>ip. \<not> starts_with ip ''!'') xs"
  show ?thesis
  proof (cases "?neg = []")
    case True
    then show ?thesis
      using Some user parse_count_keeps[OF parse_address_keeps]
      by (auto simp: ip_rules_def push_if_def targets_def exclusions_unknown_def Let_def split: prod.split)
  next
    case False
    let ?bare = "base\<lparr>r_outbound := None, r_action := None\<rparr>"
    obtain positive np where p: "parse_count parse_v2_address ?pos ?bare = (positive, np)" by force
    obtain negative nn where n: "parse_count parse_v2_address ?neg no_fields = (negative, nn)" by force
    have "r_outbound positive = None" "r_action positive = None"
      using parse_count_keeps[OF parse_address_keeps p] by simp_all
    then show ?thesis
      using False b parse_count_supported[OF p] parse_count_supported[OF n]
      by (auto simp: Some user ip_rules_def p n targets_def exclusions_unknown_def Let_def)
  qed
qed

lemma user_rules_target:
  assumes "r_outbound base \<noteq> None \<or> r_action base \<noteq> None"
  shows "list_all (targets base) (user_rules base user) \<longleftrightarrow> \<not> exclusions_unknown user"
proof -
  obtain irs seen where i: "ip_rules base (ri_ip user) = (irs, seen)" by force
  have "list_all (targets base) irs \<longleftrightarrow> \<not> exclusions_unknown user"
    using ip_rules_target[OF assms refl] by (metis fst_conv i)
  then show ?thesis
    using domain_rules_target[of base] process_rules_target[of base]
    by (auto simp: user_rules_def i Let_def push_if_def targets_def)
qed

lemma user_rules_target_or_none:
  "r \<in> set (user_rules base user) \<Longrightarrow>
     targets base r \<or> r_outbound (flat_fields r) = None \<and> r_action (flat_fields r) = None"
proof -
  assume r: "r \<in> set (user_rules base user)"
  obtain irs seen where i: "ip_rules base (ri_ip user) = (irs, seen)" by force
  have "targets base r \<or> r_outbound (flat_fields r) = None \<and> r_action (flat_fields r) = None" if "r \<in> set irs"
    using that i parse_count_keeps[OF parse_address_keeps]
    by (auto simp: ip_rules_def push_if_def targets_def Let_def
        split: option.splits prod.splits if_splits)
  then show ?thesis
    using r domain_rules_target[of base] process_rules_target[of base]
    by (auto simp: user_rules_def i Let_def push_if_def targets_def list_all_iff split: if_splits)
qed

lemma user_rule_base_target [simp]:
  "r_outbound (user_rule_base tag user) = (if tag = BLOCK_TAG then None else Some tag)"
  "r_action (user_rule_base tag user) = (if tag = BLOCK_TAG then Some ''reject'' else None)"
  by (auto simp: user_rule_base_def fill_rule_common_def default_rule_fields_def Let_def split: option.split)

lemma user_rules_act:
  "\<not> exclusions_unknown user \<Longrightarrow> list_all rule_acts (user_rules (user_rule_base tag user) user)"
  using user_rules_target[of "user_rule_base tag user" user]
  by (auto simp: list_all_iff targets_def rule_acts_def)

lemma hosts_rule_action:
  assumes "hosts_resolve_rule sdns = Some r"
  shows "r_action (flat_fields r) = Some ''resolve''"
proof -
  have "r_action (fst (fold add_host hs st)) = r_action (fst st)" for hs st
    by (induction hs arbitrary: st)
      (auto simp: add_host_def Let_def split: prod.split option.split)
  from this[of "bt_keys (parse_hosts_to_dictionary (dns_hosts sdns))" "(no_fields\<lparr>r_action := Some ''resolve''\<rparr>, False)"]
  show ?thesis
    using assms by (auto simp: hosts_resolve_rule_def Let_def split: if_splits prod.splits)
qed

lemma fixed_rules_act: "list_all rule_acts (fixed_route_rules ctx)"
  by (auto simp: fixed_route_rules_def tun_rules_def tun_route_rules_def tun_icmp_rules_def Let_def
      sniff_rules_def priority_route_rule_def resolve_rule_def push_if_def rule_acts_def
      split: option.split dest: hosts_rule_action)

section \<open>DNS servers\<close>

text \<open>The servers the DNS rules of a context may name.\<close>

definition dns_names :: "simple_dns_item \<Rightarrow> string list" where
  "dns_names sdns =
     [SINGBOX_LOCAL_DNS_TAG, SINGBOX_REMOTE_DNS_TAG, SINGBOX_DIRECT_DNS_TAG, SINGBOX_HOSTS_DNS_TAG]
     @ (if fake_ip sdns = Some True then [SINGBOX_FAKE_DNS_TAG] else [])"

definition names_server :: "string list \<Rightarrow> rule_fields \<Rightarrow> bool" where
  "names_server names f \<longleftrightarrow> (case r_server f of None \<Rightarrow> True | Some t \<Rightarrow> t \<in> set names)"

lemma resolve_by_hosts_keeps [simp]:
  "ds_tag (resolve_by_hosts m s) = ds_tag s" "ds_detour (resolve_by_hosts m s) = ds_detour s"
  by (simp_all add: resolve_by_hosts_def split: option.split)

lemma resolve_by_hosts_resolver:
  "ds_domain_resolver (resolve_by_hosts m s) = ds_domain_resolver s
   \<or> ds_domain_resolver (resolve_by_hosts m s) = Some SINGBOX_HOSTS_DNS_TAG"
  by (simp add: resolve_by_hosts_def split: option.split)

lemma dns_server_tags [simp]: "map ds_tag (dns_servers X sdns) = dns_names sdns"
  by (simp add: dns_servers_def dns_names_def Let_def)

lemma dns_address_plain:
  "parse_dns_address X a = Some s \<Longrightarrow> ds_domain_resolver s = None \<and> ds_detour s = None"
  unfolding parse_dns_address_def Let_def
  by (auto simp: default_singbox_dns_server_def split: option.splits if_splits prod.splits)

lemma dns_default_plain:
  "ds_domain_resolver (parse_dns_address_or_default X a d) = None
   \<and> ds_detour (parse_dns_address_or_default X a d) = None"
  unfolding parse_dns_address_or_default_def or_else_def
  by (auto simp: default_singbox_dns_server_def dest: dns_address_plain split: option.split)
    (auto simp: unwrap_or_def default_singbox_dns_server_def dest: dns_address_plain split: option.split)

lemma dns_server_links:
  assumes "s \<in> set (dns_servers X sdns)"
  shows "(case ds_domain_resolver s of None \<Rightarrow> True | Some t \<Rightarrow> t \<in> {SINGBOX_LOCAL_DNS_TAG, SINGBOX_HOSTS_DNS_TAG})
     \<and> ds_detour s \<in> {None, Some PROXY_TAG}"
proof -
  have "(case ds_domain_resolver (resolve_by_hosts m s) of None \<Rightarrow> True
        | Some t \<Rightarrow> t \<in> {SINGBOX_LOCAL_DNS_TAG, SINGBOX_HOSTS_DNS_TAG})"
    if "ds_domain_resolver s \<in> {None, Some SINGBOX_LOCAL_DNS_TAG}" for m s
    using that resolve_by_hosts_resolver[of m s] by (auto split: option.split)
  then show ?thesis
    using assms by (auto simp: dns_servers_def Let_def dns_default_plain default_singbox_dns_server_def)
qed

lemma host_rules_server:
  assumes "host_rule h = Some r"
  shows "list_all (\<lambda>f. r_server f = None) (rule_parts r)"
proof -
  obtain host addresses where h: "h = (host, addresses)" by force
  let ?f0 = "no_fields\<lparr>r_query_type := Some [1, 5, 28], r_action := Some ''predefined'', r_rcode := Some ''NOERROR''\<rparr>"
  obtain target f g where f: "parse_v2_domain host ?f0 = Some f"
    and g: "host_answer target (normalize_bare_host_domain host f) = Some g" and r: "r = flat_rule g"
    using assms by (auto simp: h host_rule_def split: list.splits if_splits option.splits)
  have "r_server (normalize_bare_host_domain host f) = r_server f"
    by (simp add: normalize_bare_host_domain_def Let_def split: option.split)
  moreover have "r_server g = r_server (normalize_bare_host_domain host f)"
    using g by (auto simp: host_answer_def split: option.splits if_splits)
  ultimately show ?thesis
    using parse_domain_keeps[OF f] r by (simp add: default_rule_fields_def)
qed

lemma expected_rules_server:
  assumes "split_expected cidr regions region f = (es, g)"
  shows "list_all (\<lambda>e. r_server e = r_server f) es \<and> r_server g = r_server f"
  using assms by (auto simp: split_expected_def Let_def split: if_splits option.splits)

lemma dns_user_rules_server:
  "list_all (names_server (dns_names sdns)) (parts_of (dns_user_rules sdns item))"
proof (cases "ri_domain item")
  case None
  then show ?thesis by (simp add: dns_user_rules_def)
next
  case (Some ds)
  obtain f n where f: "parse_count parse_v2_domain ds no_fields = (f, n)" by force
  have s: "r_server f = None"
    using parse_count_keeps[OF parse_domain_keeps f] by (simp add: default_rule_fields_def)
  obtain es g where e: "split_expected
      (fst (parse_direct_expected_ips (direct_expected_ips sdns)))
      (fst (snd (parse_direct_expected_ips (direct_expected_ips sdns))))
      (snd (snd (parse_direct_expected_ips (direct_expected_ips sdns))))
      (f\<lparr>r_server := Some SINGBOX_DIRECT_DNS_TAG,
         r_strategy := domain_strategy4_sbox (strategy4_freedom sdns)\<rparr>) = (es, g)" by force
  show ?thesis
    using expected_rules_server[OF e] e s
    by (auto simp: dns_user_rules_def Some f Let_def push_if_def names_server_def dns_names_def
        list_all_iff split: prod.splits)
qed

lemma dns_rules_server: "list_all (names_server (dns_names (simple_dns_item ctx))) (parts_of (dns_rules ctx))"
proof -
  let ?ok = "\<lambda>rs. list_all (names_server (dns_names (simple_dns_item ctx))) (parts_of rs)"
  have "?ok (dns_routing_rules ctx)"
    using dns_user_rules_server
    by (auto simp: dns_routing_rules_def parts_of_def list_all_iff split: option.split)
  moreover have "?ok (List.map_filter host_rule hs)" for hs
    by (induction hs)
      (auto simp: map_filter_simps names_server_def list_all_iff dest!: host_rules_server split: option.split)
  ultimately show ?thesis
    by (simp add: dns_rules_def Let_def push_if_def names_server_def dns_names_def
        priority_proxy_dns_rule_def global_fakeip_rule_def fakeip_filter_rule_def default_rule_fields_def)
qed

lemma gen_dns_shape:
  "\<exists>d. cfg_dns (gen_dns X ctx cfg) = Some d \<and> dn_servers d = dns_servers X (simple_dns_item ctx)
     \<and> dn_final d \<in> {Some SINGBOX_DIRECT_DNS_TAG, Some SINGBOX_REMOTE_DNS_TAG}
     \<and> list_all (names_server (dns_names (simple_dns_item ctx))) (parts_of (dn_rules d))"
  using dns_rules_server[of ctx]
  by (auto simp: gen_dns_def gen_dns_rules_def gen_dns_servers_def Let_def names_server_def dns_names_def)

end
