(* ===== verification/GeneratorProps.thy ===== *)
theory GeneratorProps
  imports ConfigProps
begin

text \<open>
  The properties of whole generated configurations, each with a run that meets its
  hypotheses. They quantify over every context the generator accepts; where the settings
  have to be sensible for the property to hold, a hypothesis says so.
\<close>

section \<open>A sample run\<close>

definition sample_routing :: routing_item where
  "sample_routing = default_routing_item\<lparr>rule_set :=
     [default_rules_item\<lparr>ri_outbound_tag := Some ''direct'', ri_enabled := True,
        ri_domain := Some [''geosite:cn'', ''domain:example.cn'']\<rparr>,
      default_rules_item\<lparr>ri_outbound_tag := Some ''block'', ri_enabled := True,
        ri_ip := Some [''10.0.0.0/8'', ''!geoip:private'']\<rparr>]\<rparr>"

definition sample_run :: core_config_context where
  "sample_run = sample_context\<lparr>cx_node := sample_leaf ''a'', routing_item := Some sample_routing,
     is_tun_enabled := True\<rparr>"

lemma sample_generated:
  obtains cfg where "generate_singbox_config no_externals (\<lambda>s. None) sample_run = Some (Inr cfg)"
proof -
  have "map_option isl (generate_singbox_config no_externals (\<lambda>s. None) sample_run) = Some False"
    by code_simp
  then obtain r where r: "generate_singbox_config no_externals (\<lambda>s. None) sample_run = Some r" "\<not> isl r"
    by auto
  then show thesis using that by (cases r) auto
qed

lemma sample_exclusions: "list_all (\<lambda>u. \<not> exclusions_unknown u) (routed_items sample_routing)"
  by code_simp

lemma sample_routing_item: "routing_item sample_run = Some sample_routing"
  by (simp add: sample_run_def)

section \<open>The route\<close>

lemma flat_convert [simp]: "flat_fields (convert_rule_geo_to_ruleset r) = convert_fields (flat_fields r)"
  by (cases r) simp

lemma acts_convert [simp]: "rule_acts (convert_rule_geo_to_ruleset r) = rule_acts r"
  by (simp add: rule_acts_def)

lemma generated_route:
  assumes g: "generate_singbox_config X rulesets_from_str ctx = Some (Inr cfg)" and "P (resolve_rule ctx)"
    and "\<And>routing user tag. routing_item ctx = Some routing \<Longrightarrow> user \<in> set (routed_items routing) \<Longrightarrow>
      list_all P (user_rules (user_rule_base tag user) user)"
  shows "\<exists>rs. list_all P rs
     \<and> ro_rules (cfg_route cfg) = map convert_rule_geo_to_ruleset (fixed_route_rules ctx @ rs)
     \<and> ro_final (cfg_route cfg) = Some PROXY_TAG
     \<and> ro_default_domain_resolver (cfg_route cfg) = ro_default_domain_resolver (cfg_route (start_route ctx sample_config))"
proof -
  let ?c0 = "gen_inbounds ctx (gen_log ctx sample_config)"
  obtain ss c2 c3 where c2: "gen_routing X ctx (prepend_servers ss ?c0) = Some c2"
    and c3: "convert_geo_to_ruleset rulesets_from_str ctx (gen_experimental ctx (gen_dns X ctx c2)) = Inr c3"
    and cfg: "cfg = finish_config ctx c3"
    using generate_cases[OF g] .
  have "routed P (push_rules (fixed_route_rules ctx) (start_route ctx (prepend_servers ss ?c0))) c2"
    using gen_routing_routed[OF c2, of P] assms(2,3) by blast
  moreover have "ro_rules (cfg_route ?c0) = []"
    by (simp add: gen_inbounds_def gen_log_def sample_config_def default_singbox_route_def Let_def)
  ultimately obtain rs where "list_all P rs" "ro_rules (cfg_route c2) = fixed_route_rules ctx @ rs"
    "ro_final (cfg_route c2) = Some PROXY_TAG"
    "ro_default_domain_resolver (cfg_route c2) = ro_default_domain_resolver (cfg_route (start_route ctx sample_config))"
    by (auto simp: routed_def push_rules_def start_route_def)
  then show ?thesis using convert_geo_spec[OF c3] unfolding cfg by auto
qed

lemma routed_any:
  assumes "gen_routing X ctx cfg = Some cfg'"
  shows "routed (\<lambda>r. True) (push_rules (fixed_route_rules ctx) (start_route ctx cfg)) cfg'"
  by (rule gen_routing_routed[OF assms]) (simp_all add: list_all_iff)

lemma generated_resolver:
  assumes "generate_singbox_config X rulesets_from_str ctx = Some (Inr cfg)"
  shows "ro_default_domain_resolver (cfg_route cfg) = Some (flat_rule (no_fields
          \<lparr>r_server := Some SINGBOX_DIRECT_DNS_TAG,
           r_strategy := domain_strategy4_sbox (strategy4_freedom (simple_dns_item ctx))\<rparr>))"
proof -
  have "list_all (\<lambda>r. True) (user_rules (user_rule_base tag user) user)" for tag user
    by (simp add: list_all_iff)
  then show ?thesis
    using generated_route[OF assms, of "\<lambda>r. True"] by (auto simp: start_route_def)
qed

text \<open>
  C22: every rule of a generated route does something: it names an outbound or an action, unless
  an enabled rule of the routing names addresses together with excluded addresses of which the
  generator can read none. The rules start with the fixed ones, in front of every user rule, and
  the final outbound is the proxy.
\<close>

theorem route_rules_act:
  assumes "generate_singbox_config X rulesets_from_str ctx = Some (Inr cfg)"
    and "\<And>routing. routing_item ctx = Some routing \<Longrightarrow> list_all (\<lambda>u. \<not> exclusions_unknown u) (routed_items routing)"
  shows "list_all rule_acts (ro_rules (cfg_route cfg))
     \<and> ro_final (cfg_route cfg) = Some PROXY_TAG
     \<and> take (length (fixed_route_rules ctx)) (ro_rules (cfg_route cfg))
         = map convert_rule_geo_to_ruleset (fixed_route_rules ctx)"
proof -
  have "rule_acts (resolve_rule ctx)" by (simp add: rule_acts_def resolve_rule_def)
  moreover have "list_all rule_acts (user_rules (user_rule_base tag user) user)"
    if "routing_item ctx = Some routing" "user \<in> set (routed_items routing)" for routing user tag
    by (rule user_rules_act) (use assms(2)[OF that(1)] that(2) in \<open>simp add: list_all_iff\<close>)
  ultimately obtain rs where rs: "list_all rule_acts rs"
    "ro_rules (cfg_route cfg) = map convert_rule_geo_to_ruleset (fixed_route_rules ctx @ rs)"
    "ro_final (cfg_route cfg) = Some PROXY_TAG"
    using generated_route[OF assms(1), of rule_acts] by blast
  then show ?thesis using fixed_rules_act[of ctx] by (auto simp: list_all_iff)
qed

lemma route_rules_act_witness:
  "\<exists>cfg. generate_singbox_config no_externals (\<lambda>s. None) sample_run = Some (Inr cfg)
     \<and> list_all rule_acts (ro_rules (cfg_route cfg))"
proof -
  obtain cfg where g: "generate_singbox_config no_externals (\<lambda>s. None) sample_run = Some (Inr cfg)"
    by (rule sample_generated)
  have "list_all (\<lambda>u. \<not> exclusions_unknown u) (routed_items routing)" if "routing_item sample_run = Some routing" for routing
    using that sample_exclusions by (simp add: sample_routing_item)
  from route_rules_act[OF g this] g show ?thesis by blast
qed

text \<open>
  C21: a user rule only appends rules, and each of them carries the target the user chose (a
  block rule rejects and names no outbound, a direct or proxy rule names that outbound and
  nothing else) or none at all. One without a target is appended exactly when the rule names
  addresses together with excluded addresses of which the generator can read none.
\<close>

theorem user_rule_targets:
  assumes "gen_routing_user_rule X ctx user cfg = Some cfg'"
    and "unwrap_or (ri_outbound_tag user) PROXY_TAG = t" and "t \<in> {PROXY_TAG, DIRECT_TAG, BLOCK_TAG}"
  shows "\<exists>rs. ro_rules (cfg_route cfg') = ro_rules (cfg_route cfg) @ rs
     \<and> rule_target ` set rs
         \<subseteq> {if t = BLOCK_TAG then (None, Some ''reject'') else (Some t, None), (None, None)}
     \<and> (exclusions_unknown user \<longleftrightarrow> (None, None) \<in> rule_target ` set rs)"
proof -
  obtain tag cfg1 where o1: "gen_routing_user_rule_outbound X ctx (unwrap_or (ri_outbound_tag user) PROXY_TAG) cfg
      = Some (tag, cfg1)" and cfg': "cfg' = push_rules (user_rules (user_rule_base tag user) user) cfg1"
    by (rule user_rule_cases[OF assms(1)])
  have tag: "tag = t" "cfg1 = cfg" using rule_outbound_builtin[OF o1] assms(2,3) by simp_all
  let ?base = "user_rule_base t user"
  let ?chosen = "if t = BLOCK_TAG then (None, Some ''reject'') else (Some t, None)"
  have targets: "targets ?base r \<longleftrightarrow> rule_target r = ?chosen" for r
    by (simp add: targets_def rule_target_def)
  have all: "rule_target r = ?chosen \<or> rule_target r = (None, None)" if "r \<in> set (user_rules ?base user)" for r
    using user_rules_target_or_none[OF that] unfolding targets by (simp add: rule_target_def)
  have "(None, None) \<in> rule_target ` set (user_rules ?base user)
      \<longleftrightarrow> \<not> list_all (targets ?base) (user_rules ?base user)"
    using all by (force simp: list_all_iff targets)
  also have "\<dots> \<longleftrightarrow> exclusions_unknown user" using user_rules_target[of ?base user] by simp
  finally have none: "exclusions_unknown user \<longleftrightarrow> (None, None) \<in> rule_target ` set (user_rules ?base user)" ..
  have "ro_rules (cfg_route cfg') = ro_rules (cfg_route cfg) @ user_rules ?base user"
    by (simp add: cfg' tag push_rules_def)
  moreover have "rule_target ` set (user_rules ?base user) \<subseteq> {?chosen, (None, None)}" using all by blast
  ultimately show ?thesis using none by blast
qed

definition unknown_exclusion :: rules_item where
  "unknown_exclusion = default_rules_item\<lparr>ri_outbound_tag := Some ''block'', ri_enabled := True,
     ri_ip := Some [''10.0.0.0/8'', ''!ext:geo.dat:cn'']\<rparr>"

lemma user_rule_targets_witness:
  "\<exists>cfg cfg'. gen_routing_user_rule no_externals sample_run (hd (rule_set sample_routing)) sample_config = Some cfg
     \<and> rule_target ` set (ro_rules (cfg_route cfg)) \<subseteq> {(Some ''direct'', None)}
     \<and> gen_routing_user_rule no_externals sample_run unknown_exclusion sample_config = Some cfg'
     \<and> (None, None) \<in> rule_target ` set (ro_rules (cfg_route cfg'))"
proof -
  let ?u = "hd (rule_set sample_routing)"
  let ?r = "\<lambda>u. gen_routing_user_rule no_externals sample_run u sample_config"
  have "map_option (\<lambda>c. True) (?r ?u) = Some True" "map_option (\<lambda>c. True) (?r unknown_exclusion) = Some True"
    by code_simp+
  then obtain cfg cfg' where g: "?r ?u = Some cfg" "?r unknown_exclusion = Some cfg'" by auto
  have e: "\<not> exclusions_unknown ?u" "exclusions_unknown unknown_exclusion" by code_simp+
  have t: "unwrap_or (ri_outbound_tag ?u) PROXY_TAG = DIRECT_TAG"
    "unwrap_or (ri_outbound_tag unknown_exclusion) PROXY_TAG = BLOCK_TAG"
    by code_simp+
  have d: "DIRECT_TAG \<noteq> BLOCK_TAG" "DIRECT_TAG = ''direct''" by (simp_all add: DIRECT_TAG_def BLOCK_TAG_def)
  have no: "ro_rules (cfg_route sample_config) = []"
    by (simp add: sample_config_def default_singbox_route_def)
  have "rule_target ` set (ro_rules (cfg_route cfg)) \<subseteq> {(Some ''direct'', None)}"
    using user_rule_targets[OF g(1) t(1)] d e(1) no by fastforce
  moreover have "(None, None) \<in> rule_target ` set (ro_rules (cfg_route cfg'))"
    using user_rule_targets[OF g(2) t(2)] e(2) no by fastforce
  ultimately show ?thesis using g by blast
qed

section \<open>Names that resolve\<close>

text \<open>
  C19: after a successful run no matcher of a route or DNS rule, nested ones included, still
  names a geosite or geoip list, and the rule sets defined are exactly the ones named, each once.
\<close>

theorem rule_sets_defined:
  assumes "generate_singbox_config X rulesets_from_str ctx = Some (Inr cfg)"
  shows "list_all (\<lambda>f. \<not> is_some_nonempty (r_geosite f) \<and> \<not> is_some_nonempty (r_geoip f)) (config_parts cfg)
     \<and> set (defined_rule_sets cfg)
         = Some ` (\<Union>f \<in> set (config_parts cfg). set (unwrap_or (r_rule_set f) []) - {[]})
     \<and> distinct (defined_rule_sets cfg)"
proof -
  let ?c0 = "gen_inbounds ctx (gen_log ctx sample_config)"
  obtain ss c2 c3 where c2: "gen_routing X ctx (prepend_servers ss ?c0) = Some c2"
    and c3: "convert_geo_to_ruleset rulesets_from_str ctx (gen_experimental ctx (gen_dns X ctx c2)) = Inr c3"
    and cfg: "cfg = finish_config ctx c3"
    using generate_cases[OF assms] .
  have "ro_rule_set (cfg_route c2) = None"
    using routed_any[OF c2]
    by (auto simp: routed_def push_rules_def start_route_def gen_inbounds_def gen_log_def sample_config_def
        default_singbox_route_def Let_def)
  then show ?thesis
    using convert_geo_sets[OF c3] convert_geo_parts[OF c3] by (auto simp: cfg list_all_iff)
qed

lemma rule_sets_defined_witness:
  "\<exists>cfg. generate_singbox_config no_externals (\<lambda>s. None) sample_run = Some (Inr cfg)
     \<and> distinct (defined_rule_sets cfg)"
proof -
  obtain cfg where g: "generate_singbox_config no_externals (\<lambda>s. None) sample_run = Some (Inr cfg)"
    by (rule sample_generated)
  show ?thesis using rule_sets_defined[OF g] g by blast
qed

text \<open>
  C20: every DNS server a generated configuration refers to is one of its own: in the rules of
  every depth, as the final server, as the resolver of another server and as the default
  resolver of the route. Detours of DNS servers go to the proxy only.
\<close>

theorem dns_references_resolve:
  assumes "generate_singbox_config X rulesets_from_str ctx = Some (Inr cfg)"
  shows "\<exists>d. cfg_dns cfg = Some d \<and> distinct (map ds_tag (dn_servers d))
     \<and> (\<forall>t. (\<exists>f \<in> set (dns_parts cfg). r_server f = Some t) \<or> dn_final d = Some t
           \<or> (\<exists>s \<in> set (dn_servers d). ds_domain_resolver s = Some t)
           \<or> (\<exists>r. ro_default_domain_resolver (cfg_route cfg) = Some r \<and> r_server (flat_fields r) = Some t)
           \<longrightarrow> t \<in> ds_tag ` set (dn_servers d))
     \<and> (\<forall>s \<in> set (dn_servers d). ds_detour s \<in> {None, Some PROXY_TAG})"
proof -
  obtain ss c2 c3 where c3: "convert_geo_to_ruleset rulesets_from_str ctx (gen_experimental ctx (gen_dns X ctx c2)) = Inr c3"
    and cfg: "cfg = finish_config ctx c3"
    using generate_cases[OF assms] .
  let ?names = "dns_names (simple_dns_item ctx)"
  obtain d where d: "cfg_dns (gen_dns X ctx c2) = Some d" "dn_servers d = dns_servers X (simple_dns_item ctx)"
    "dn_final d \<in> {Some SINGBOX_DIRECT_DNS_TAG, Some SINGBOX_REMOTE_DNS_TAG}"
    "list_all (names_server ?names) (parts_of (dn_rules d))"
    using gen_dns_shape[of X ctx c2] by blast
  let ?d = "d\<lparr>dn_rules := map convert_rule_geo_to_ruleset (dn_rules d)\<rparr>"
  have cd: "cfg_dns cfg = Some ?d" using convert_geo_spec[OF c3] d(1) by (simp add: cfg)
  note resolver = generated_resolver[OF assms]
  have sv: "dn_servers ?d = dn_servers d" and fin: "dn_final ?d = dn_final d" by simp_all
  have tags: "set ?names = ds_tag ` set (dn_servers d)"
    unfolding d(2) by (simp only: dns_server_tags[of X "simple_dns_item ctx", symmetric] list.set_map)
  have parts: "t \<in> set ?names" if "f \<in> set (dns_parts cfg)" "r_server f = Some t" for f t
    using that d(4) by (auto simp: dns_parts_def cd list_all_iff names_server_def)
  have links: "t \<in> set ?names" if "s \<in> set (dn_servers d)" "ds_domain_resolver s = Some t" for s t
    using that d(2) dns_server_links[of s X "simple_dns_item ctx"] by (auto simp: dns_names_def)
  have final: "t \<in> set ?names" if "dn_final d = Some t" for t
    using that d(3) by (auto simp: dns_names_def)
  have direct: "t \<in> set ?names" if "Some (flat_rule (no_fields\<lparr>r_server := Some SINGBOX_DIRECT_DNS_TAG,
      r_strategy := y\<rparr>)) = Some r" "r_server (flat_fields r) = Some t" for r t y
    using that by (auto simp: dns_names_def)
  have detours: "\<forall>s \<in> set (dn_servers d). ds_detour s \<in> {None, Some PROXY_TAG}"
    using d(2) dns_server_links[of _ X "simple_dns_item ctx"] by simp
  have "distinct ?names"
    by (simp add: dns_names_def SINGBOX_LOCAL_DNS_TAG_def SINGBOX_REMOTE_DNS_TAG_def SINGBOX_DIRECT_DNS_TAG_def
        SINGBOX_HOSTS_DNS_TAG_def SINGBOX_FAKE_DNS_TAG_def)
  then have dist: "distinct (map ds_tag (dn_servers d))" using d(2) by simp
  show ?thesis
    unfolding resolver
    by (rule exI[of _ ?d], unfold sv fin tags[symmetric])
      (intro conjI cd dist detours allI impI, elim disjE exE conjE bexE, (erule parts final links direct; assumption)+)
qed

lemma dns_references_resolve_witness:
  "\<exists>cfg d. generate_singbox_config no_externals (\<lambda>s. None) sample_run = Some (Inr cfg)
     \<and> cfg_dns cfg = Some d \<and> distinct (map ds_tag (dn_servers d))"
proof -
  obtain cfg where g: "generate_singbox_config no_externals (\<lambda>s. None) sample_run = Some (Inr cfg)"
    by (rule sample_generated)
  show ?thesis using dns_references_resolve[OF g] g by blast
qed

end
