(* ===== verification/ServerProps.thy ===== *)
theory ServerProps
  imports GeneratorProps
begin

text \<open>
  The inbounds and outbounds of generated configurations: ports and tags do not collide,
  only what the settings open is reachable from outside, the final outbound is there, no
  local or chained outbound is bound to an interface, and a speed test configuration routes
  each test port to its own node.
\<close>

section \<open>Inbounds\<close>

lemma i32_add_inj:
  assumes "i32_add p a = i32_add p b" and "0 \<le> a" "a < 4294967296" "0 \<le> b" "b < 4294967296"
  shows "a = b"
proof -
  have "(p + a + 2147483648) mod 4294967296 = (p + b + 2147483648) mod 4294967296"
    using assms(1) by (simp add: i32_add_def)
  then have "4294967296 dvd (a - b)" by (simp add: mod_eq_dvd_iff)
  then obtain k where k: "a - b = 4294967296 * k" by (auto simp: dvd_def)
  then have "k < 1" "k > -1" using assms(2-) by linarith+
  then have "k = 0" by simp
  then show ?thesis using k by simp
qed

lemma mixed_ports_distinct [simp]:
  "i32_add p 0 \<noteq> i32_add p 1" "i32_add p 0 \<noteq> i32_add p 2" "i32_add p 1 \<noteq> i32_add p 2"
  using i32_add_inj by fastforce+

definition lan_open :: "core_config_context \<Rightarrow> bool" where
  "lan_open ctx \<longleftrightarrow> (case inbound (cx_app_config ctx) of i # rest \<Rightarrow> allow_lan_conn i | [] \<Rightarrow> False)"

definition own_mixed_port :: "core_config_context \<Rightarrow> bool" where
  "own_mixed_port ctx \<longleftrightarrow>
     address (cx_node ctx) = LOOPBACK \<and> port (cx_node ctx) = inbound_port (cx_app_config ctx) Ip_socks"

lemma map_filter_app: "List.map_filter f (xs @ ys) = List.map_filter f xs @ List.map_filter f ys"
  by (induction xs) (simp_all add: map_filter_simps split: option.split)

lemma mixed_inbounds_ok:
  "distinct (map ib_tag (mixed_inbounds item)) \<and> ''tun'' \<notin> set (map ib_tag (mixed_inbounds item))
   \<and> distinct (List.map_filter ib_listen_port (mixed_inbounds item))
   \<and> list_all (\<lambda>i. ib_listen i = Some LOOPBACK \<or> (ib_listen i = Some ''0.0.0.0'' \<and> allow_lan_conn item))
       (mixed_inbounds item)"
  by (simp add: mixed_inbounds_def build_mixed_inbound_def build_mixed_inbound_with_def lan_inbound_def
      Let_def map_filter_simps LOOPBACK_def)

lemma gen_inbounds_eq:
  "cfg_inbounds (gen_inbounds ctx cfg) =
     (if \<not> is_tun_enabled ctx \<or> \<not> own_mixed_port ctx
      then mixed_inbounds (case inbound (cx_app_config ctx) of i # rest \<Rightarrow> i | [] \<Rightarrow> default_in_item) else [])
     @ (if is_tun_enabled ctx
        then [build_tun_inbound ctx (if \<not> own_mixed_port ctx then Some (inbound_port (cx_app_config ctx) Ip_socks)
                                     else None)] else [])"
  by (simp add: gen_inbounds_def own_mixed_port_def Let_def)

lemma generated_inbounds:
  assumes "generate_singbox_config X rulesets_from_str ctx = Some (Inr cfg)"
  shows "cfg_inbounds cfg = cfg_inbounds (gen_inbounds ctx sample_config)"
proof -
  obtain ss c2 c3 where c2: "gen_routing X ctx (prepend_servers ss (gen_inbounds ctx (gen_log ctx sample_config))) = Some c2"
    and c3: "convert_geo_to_ruleset rulesets_from_str ctx (gen_experimental ctx (gen_dns X ctx c2)) = Inr c3"
    and cfg: "cfg = finish_config ctx c3"
    using generate_cases[OF assms] .
  have "cfg_inbounds c2 = cfg_inbounds (gen_inbounds ctx (gen_log ctx sample_config))"
    using routed_any[OF c2] by (auto simp: routed_def push_rules_def start_route_def)
  then show ?thesis
    using convert_keeps[OF c3] by (simp add: cfg gen_inbounds_eq)
qed

text \<open>
  C25: the inbounds of a generated configuration have different tags and listen on different
  ports, whatever port is configured; an inbound other than TUN listens on the loopback
  address, or on every address only when the first inbound item allows it; with TUN there is
  exactly one TUN inbound, and none of the mixed ones when the node is that inbound itself.
\<close>

theorem inbounds_safe:
  assumes "generate_singbox_config X rulesets_from_str ctx = Some (Inr cfg)"
  shows "distinct (map ib_tag (cfg_inbounds cfg))
     \<and> distinct (List.map_filter ib_listen_port (cfg_inbounds cfg))
     \<and> list_all (\<lambda>i. ib_tag i = ''tun'' \<or> ib_listen i = Some LOOPBACK
          \<or> (ib_listen i = Some ''0.0.0.0'' \<and> lan_open ctx)) (cfg_inbounds cfg)
     \<and> length (filter (\<lambda>i. ib_tag i = ''tun'') (cfg_inbounds cfg)) = (if is_tun_enabled ctx then 1 else 0)
     \<and> (is_tun_enabled ctx \<longrightarrow> own_mixed_port ctx \<longrightarrow> length (cfg_inbounds cfg) = 1)"
proof -
  let ?item = "case inbound (cx_app_config ctx) of i # rest \<Rightarrow> i | [] \<Rightarrow> default_in_item"
  have lan: "allow_lan_conn ?item = lan_open ctx"
    by (simp add: lan_open_def default_in_item_def split: list.split)
  have tun: "ib_tag (build_tun_inbound ctx p) = ''tun''" "ib_listen_port (build_tun_inbound ctx p) = None" for p
    by (simp_all add: build_tun_inbound_def)
  have none: "filter (\<lambda>i. ib_tag i = ''tun'') (mixed_inbounds ?item) = []"
    using mixed_inbounds_ok[of ?item] unfolding filter_empty_conv by (metis image_eqI list.set_map)
  show ?thesis
    unfolding generated_inbounds[OF assms] gen_inbounds_eq
    using mixed_inbounds_ok[of ?item] none
    by (auto simp: tun lan map_filter_simps map_filter_app list_all_iff)
qed

lemma inbounds_safe_witness:
  "\<exists>cfg. generate_singbox_config no_externals (\<lambda>s. None) sample_run = Some (Inr cfg)
     \<and> distinct (map ib_tag (cfg_inbounds cfg))"
proof -
  obtain cfg where g: "generate_singbox_config no_externals (\<lambda>s. None) sample_run = Some (Inr cfg)"
    by (rule sample_generated)
  show ?thesis using inbounds_safe[OF g] g by blast
qed

section \<open>The outbounds the route relies on\<close>

lemma generated_tags:
  assumes "generate_singbox_config X rulesets_from_str ctx = Some (Inr cfg)"
  shows "\<exists>ss. build_all_proxy_servers X ctx (cx_node ctx) PROXY_TAG True = Some ss
     \<and> insert DIRECT_TAG (server_tag ` set ss) \<subseteq> config_tags cfg
     \<and> validate_active_wireguard ctx = Inr ()"
proof -
  let ?c0 = "gen_inbounds ctx (gen_log ctx sample_config)"
  obtain ss c2 c3 where ss: "build_all_proxy_servers X ctx (cx_node ctx) PROXY_TAG True = Some ss"
    and c2: "gen_routing X ctx (prepend_servers ss ?c0) = Some c2"
    and c3: "convert_geo_to_ruleset rulesets_from_str ctx (gen_experimental ctx (gen_dns X ctx c2)) = Inr c3"
    and cfg: "cfg = finish_config ctx c3" and w: "validate_active_wireguard ctx = Inr ()"
    using generate_cases[OF assms] .
  have "config_tags cfg = config_tags c2"
    using convert_keeps[OF c3] by (simp add: cfg config_tags_def del: map_map list.set_map)
  moreover have "DIRECT_TAG \<in> config_tags ?c0"
    by (simp add: config_tags_def gen_inbounds_def gen_log_def sample_config_def direct_outbound_def Let_def)
  moreover have "config_tags (push_rules (fixed_route_rules ctx) (start_route ctx (prepend_servers ss ?c0))) \<subseteq> config_tags c2"
    using routed_any[OF c2] by (simp add: routed_def)
  moreover have "config_tags (start_route ctx (prepend_servers ss ?c0)) = config_tags (prepend_servers ss ?c0)"
    by (simp add: config_tags_def start_route_def)
  ultimately have "insert DIRECT_TAG (server_tag ` set ss) \<subseteq> config_tags cfg" by (auto simp: tags_prepend)
  then show ?thesis using ss w by blast
qed

text \<open>Groups whose children are ordinary nodes of which at least one can be used.\<close>

definition simple_group :: "core_config_context \<Rightarrow> profile_item \<Rightarrow> bool" where
  "simple_group ctx node \<longleftrightarrow> buildable_child_nodes ctx node \<noteq> []
     \<and> list_all (\<lambda>c. \<not> is_group_type (config_type c)) (buildable_child_nodes ctx node)"

lemma base_tag_present:
  assumes ss: "build_all_proxy_servers X ctx node base True = Some ss"
    and "\<not> is_group_type (config_type node) \<Longrightarrow> config_type node = Ct_WireGuard \<Longrightarrow>
      wireguard_public_key (protocol node) \<noteq> None"
    and "is_group_type (config_type node) \<Longrightarrow> simple_group ctx node"
  shows "base \<in> server_tag ` set ss"
proof -
  consider (leaf) "\<not> is_group_type (config_type node)" | (policy) "config_type node = Ct_PolicyGroup"
    | (chain) "config_type node = Ct_ProxyChain"
    by (auto simp: is_group_type_def)
  then show ?thesis
  proof cases
    case leaf
    obtain r where r: "build_proxy_server X ctx node base = Some r"
      using ss leaf by (auto simp: build_all_proxy_servers_def)
    have "\<exists>s. r = Some s"
    proof (cases "config_type node = Ct_WireGuard")
      case True
      have "singbox_can_build_leaf node"
        using assms(2)[OF leaf True] True by (simp add: singbox_can_build_leaf_def singbox_supports_config_type_def)
      then show ?thesis by (rule build_proxy_server_buildable[OF r])
    next
      case False
      then show ?thesis using r by (auto simp: build_proxy_server_def)
    qed
    then obtain s where s: "r = Some s" by blast
    have "server_tag s = base" using build_proxy_server_shape[OF r[unfolded s]] by simp
    then show ?thesis
      using ss leaf r s by (auto simp: build_all_proxy_servers_def Let_def ordered_proxy_tags_def)
  next
    case policy
    then have g: "simple_group ctx node" using assms(3) by (simp add: is_group_type_def)
    have shape: "server_tag (hd ss) = base" "length ss \<noteq> 0"
      using policy_group_shape[OF policy _ _ ss] g by (auto simp: simple_group_def split: if_splits)
    then show ?thesis by (cases ss) auto
  next
    case chain
    then have g: "simple_group ctx node" and t: "is_group_type (config_type node)"
      using assms(3) by (simp_all add: is_group_type_def)
    obtain ss0 where ss0: "build_group_proxy_servers (walk_fuel ctx) X ctx node base = Some ss0"
      and sub: "set ss0 \<subseteq> set ss"
      using ss t by (auto simp: build_all_proxy_servers_def Let_def split: if_splits)
    have "server_tag (hd ss0) = base" "length ss0 \<noteq> 0"
      using chain_shape[OF chain _ _ ss0[unfolded walk_fuel_def]] g by (auto simp: simple_group_def)
    then show ?thesis using sub by (cases ss0) auto
  qed
qed

text \<open>
  C26: the outbounds that the fixed rules and the final rule of the route name are part of the
  configuration: the direct one always, the proxy one for every ordinary active node and for
  groups and chains of ordinary nodes of which one can be used.
\<close>

theorem final_outbound_exists:
  assumes "generate_singbox_config X rulesets_from_str ctx = Some (Inr cfg)"
    and "is_group_type (config_type (cx_node ctx)) \<Longrightarrow> simple_group ctx (cx_node ctx)"
  shows "PROXY_TAG \<in> config_tags cfg \<and> DIRECT_TAG \<in> config_tags cfg"
proof -
  obtain ss where ss: "build_all_proxy_servers X ctx (cx_node ctx) PROXY_TAG True = Some ss"
    and t: "insert DIRECT_TAG (server_tag ` set ss) \<subseteq> config_tags cfg"
    and w: "validate_active_wireguard ctx = Inr ()"
    using generated_tags[OF assms(1)] by blast
  have "wireguard_public_key (protocol (cx_node ctx)) \<noteq> None" if "config_type (cx_node ctx) = Ct_WireGuard"
    using w that by (auto simp: validate_active_wireguard_def split: if_splits)
  then show ?thesis using base_tag_present[OF ss _ assms(2)] t by blast
qed

lemma final_outbound_exists_witness:
  "\<exists>cfg. generate_singbox_config no_externals (\<lambda>s. None) sample_run = Some (Inr cfg)
     \<and> PROXY_TAG \<in> config_tags cfg"
proof -
  obtain cfg where g: "generate_singbox_config no_externals (\<lambda>s. None) sample_run = Some (Inr cfg)"
    by (rule sample_generated)
  have "\<not> is_group_type (config_type (cx_node sample_run))" by code_simp
  then show ?thesis using final_outbound_exists[OF g] g by blast
qed

end
