(* ===== verification/OutboundProps.thy ===== *)
theory OutboundProps
  imports ServerProps
begin

text \<open>
  The outbounds of generated configurations after binding: which of them are tied to an
  interface or a source address. And the speed test configuration: each test port reaches the
  node it is meant for.
\<close>

section \<open>Binding\<close>

lemma should_bind_keep [simp]:
  "should_bind_outbound (o1\<lparr>ob_bind_interface := v\<rparr>) = should_bind_outbound o1"
  "should_bind_outbound (o1\<lparr>ob_inet4_bind_address := v\<rparr>) = should_bind_outbound o1"
  by (simp_all add: should_bind_outbound_def)

definition bound_name :: "core_config_context \<Rightarrow> string option" where
  "bound_name ctx = (if is_tun_enabled ctx \<or> is_windows (platform ctx)
     then nonempty_str (bind_interface (core_basic (cx_app_config ctx))) else None)"

definition bound_source :: "core_config_context \<Rightarrow> string option" where
  "bound_source ctx = nonempty_str (send_through (core_basic (cx_app_config ctx)))"

definition bound_by :: "core_config_context \<Rightarrow> singbox_outbound \<Rightarrow> bool" where
  "bound_by ctx o1 \<longleftrightarrow>
     ob_bind_interface o1 = (if should_bind_outbound o1 then bound_name ctx else None)
     \<and> ob_inet4_bind_address o1 = (if should_bind_outbound o1 then bound_source ctx else None)"

definition tie :: "(string \<Rightarrow> singbox_outbound \<Rightarrow> singbox_outbound) \<Rightarrow> string option
    \<Rightarrow> singbox_outbound \<Rightarrow> singbox_outbound" where
  "tie upd v o1 = (case v of None \<Rightarrow> o1 | Some n \<Rightarrow> if should_bind_outbound o1 then upd n o1 else o1)"

lemma tie_None [simp]: "tie upd None = (\<lambda>o1. o1)"
  by (simp add: tie_def fun_eq_iff)

lemma bind_interface_outbounds:
  "cfg_outbounds (apply_outbound_bind_interface ctx cfg) =
     map (tie (\<lambda>n o1. o1\<lparr>ob_bind_interface := Some n\<rparr>) (bound_name ctx)) (cfg_outbounds cfg)"
proof -
  define v where "v = nonempty_str (bind_interface (core_basic (cx_app_config ctx)))"
  show ?thesis
    unfolding apply_outbound_bind_interface_def bound_name_def v_def[symmetric]
    by (cases v) (simp_all add: map_bindable_def tie_def)
qed

lemma send_through_outbounds:
  "cfg_outbounds (apply_outbound_send_through ctx cfg) =
     map (tie (\<lambda>a o1. o1\<lparr>ob_inet4_bind_address := Some a\<rparr>) (bound_source ctx)) (cfg_outbounds cfg)"
proof -
  define v where "v = nonempty_str (send_through (core_basic (cx_app_config ctx)))"
  show ?thesis
    unfolding apply_outbound_send_through_def bound_source_def v_def[symmetric]
    by (cases v) (simp_all add: map_bindable_def tie_def)
qed

lemma tied_bound:
  assumes "ob_bind_interface o1 = None" "ob_inet4_bind_address o1 = None"
  shows "bound_by ctx (tie (\<lambda>a o1. o1\<lparr>ob_inet4_bind_address := Some a\<rparr>) (bound_source ctx)
           (tie (\<lambda>n o1. o1\<lparr>ob_bind_interface := Some n\<rparr>) (bound_name ctx) o1))"
  using assms
  by (cases "bound_name ctx"; cases "bound_source ctx"; cases "should_bind_outbound o1")
    (simp_all add: tie_def bound_by_def)

lemma finish_bound:
  assumes "\<forall>o1 \<in> set (cfg_outbounds cfg). server_unbound (Outbound o1)"
  shows "list_all (bound_by ctx) (cfg_outbounds (finish_config ctx cfg))"
  using assms
  by (simp add: finish_config_def send_through_outbounds bind_interface_outbounds list_all_iff tied_bound)

lemma generated_unbound:
  assumes "build_all_proxy_servers X ctx (cx_node ctx) PROXY_TAG True = Some ss"
    and "gen_routing X ctx (prepend_servers ss (gen_inbounds ctx (gen_log ctx sample_config))) = Some c2"
  shows "\<forall>o1 \<in> set (cfg_outbounds c2). server_unbound (Outbound o1)"
proof -
  have "cfg_outbounds (push_rules rs (start_route ctx (prepend_servers ss (gen_inbounds ctx (gen_log ctx sample_config)))))
      = server_outbounds ss @ [direct_outbound]" for rs
    by (simp add: push_rules_def start_route_def prepend_servers_def gen_inbounds_def gen_log_def
        sample_config_def Let_def)
  then have "set (cfg_outbounds c2) \<subseteq> set (server_outbounds ss) \<union> {direct_outbound}
      \<union> {o1. server_unbound (Outbound o1)}"
    using routed_any[OF assms(2)] by (simp add: routed_def)
  moreover have "server_unbound (Outbound direct_outbound)"
    by (simp add: direct_outbound_def default_singbox_outbound_def)
  ultimately show ?thesis
    using server_lists_unbound[OF all_servers_unbound[OF assms(1)]] by auto
qed

text \<open>
  In a generated configuration exactly the outbounds that open a connection of their own
  (neither built in nor a selector, not dialling through another outbound, not to the machine
  itself) are tied to the configured interface, and that only with TUN or on Windows, and to
  the configured source address; every other outbound is tied to nothing.
\<close>

theorem bound_outbounds:
  assumes "generate_singbox_config X rulesets_from_str ctx = Some (Inr cfg)"
  shows "list_all (bound_by ctx) (cfg_outbounds cfg)"
proof -
  obtain ss c2 c3 where ss: "build_all_proxy_servers X ctx (cx_node ctx) PROXY_TAG True = Some ss"
    and c2: "gen_routing X ctx (prepend_servers ss (gen_inbounds ctx (gen_log ctx sample_config))) = Some c2"
    and c3: "convert_geo_to_ruleset rulesets_from_str ctx (gen_experimental ctx (gen_dns X ctx c2)) = Inr c3"
    and cfg: "cfg = finish_config ctx c3"
    using generate_cases[OF assms] .
  have "cfg_outbounds c3 = cfg_outbounds c2" using convert_keeps[OF c3] by simp
  then show ?thesis using generated_unbound[OF ss c2] by (simp add: cfg finish_bound)
qed

lemma bound_outbounds_witness:
  "\<exists>cfg. generate_singbox_config no_externals (\<lambda>s. None) sample_run = Some (Inr cfg)
     \<and> list_all (bound_by sample_run) (cfg_outbounds cfg)"
proof -
  obtain cfg where g: "generate_singbox_config no_externals (\<lambda>s. None) sample_run = Some (Inr cfg)"
    by (rule sample_generated)
  show ?thesis using bound_outbounds[OF g] g by blast
qed

section \<open>Speed test configurations\<close>

lemma show_int_inj: "show_int a = show_int b \<Longrightarrow> a = b"
proof -
  assume e: "show_int a = show_int b"
  have no: "CHR ''-'' \<notin> set (show_nat k)" for k by (rule show_nat_no) (simp add: is_ascii_digit_def)
  have "a < 0 \<longleftrightarrow> b < 0"
    using e no by (auto simp: show_int_def split: if_splits) (metis list.set_intros(1))+
  then show "a = b"
    using e by (auto simp: show_int_def split: if_splits dest!: show_nat_inj)
qed

definition speedtest_rule :: "speedtest_config_entry \<Rightarrow> singbox_rule" where
  "speedtest_rule entry = flat_rule (no_fields\<lparr>r_inbound := Some [speedtest_inbound_tag (sp_port entry)],
     r_outbound := Some (speedtest_proxy_tag (sp_port entry))\<rparr>)"

definition speedtest_inbound :: "speedtest_config_entry \<Rightarrow> singbox_inbound" where
  "speedtest_inbound entry =
     build_mixed_inbound_with (speedtest_inbound_tag (sp_port entry)) (sp_port entry)"

text \<open>An entry whose node has an outbound: no WireGuard node without key, no unusable group.\<close>

definition speedtest_usable :: "speedtest_config_entry \<Rightarrow> bool" where
  "speedtest_usable entry \<longleftrightarrow>
     (let node = cx_node (sp_context entry) in
      if is_group_type (config_type node) then simple_group (sp_context entry) node
      else config_type node = Ct_WireGuard \<longrightarrow> wireguard_public_key (protocol node) \<noteq> None)"

lemma speedtest_fold:
  "fold_opt (add_speedtest_entry X) entries cfg = Some cfg' \<Longrightarrow>
     cfg_inbounds cfg' = cfg_inbounds cfg @ map speedtest_inbound entries
     \<and> ro_rules (cfg_route cfg') = ro_rules (cfg_route cfg) @ map speedtest_rule entries
     \<and> config_tags cfg \<subseteq> config_tags cfg'
     \<and> (\<forall>entry \<in> set entries. speedtest_usable entry \<longrightarrow> speedtest_proxy_tag (sp_port entry) \<in> config_tags cfg')"
proof (induction entries arbitrary: cfg)
  case (Cons entry rest)
  obtain cfg1 where c1: "add_speedtest_entry X entry cfg = Some cfg1"
    and r: "fold_opt (add_speedtest_entry X) rest cfg1 = Some cfg'"
    using Cons.prems by (auto split: option.splits)
  obtain ss where ss: "build_all_proxy_servers X (sp_context entry) (cx_node (sp_context entry))
      (speedtest_proxy_tag (sp_port entry)) True = Some ss"
    and cfg1: "cfg1 = push_rules [speedtest_rule entry]
      (append_servers ss (cfg\<lparr>cfg_inbounds := cfg_inbounds cfg @ [speedtest_inbound entry]\<rparr>))"
    using c1 by (auto simp: add_speedtest_entry_def speedtest_rule_def speedtest_inbound_def)
  have "config_tags (cfg\<lparr>cfg_inbounds := i\<rparr>) = config_tags cfg" for i by (simp add: config_tags_def)
  then have tags: "config_tags cfg1 = server_tag ` set ss \<union> config_tags cfg" by (simp add: cfg1 tags_append)
  have "speedtest_proxy_tag (sp_port entry) \<in> server_tag ` set ss" if "speedtest_usable entry"
    by (rule base_tag_present[OF ss]) (use that in \<open>auto simp: speedtest_usable_def Let_def\<close>)
  moreover have "cfg_inbounds cfg1 = cfg_inbounds cfg @ [speedtest_inbound entry]"
    "ro_rules (cfg_route cfg1) = ro_rules (cfg_route cfg) @ [speedtest_rule entry]"
    by (simp_all add: cfg1 push_rules_def append_servers_def)
  ultimately show ?case using Cons.IH[OF r] tags by auto
qed simp

lemma tags_finish [simp]: "config_tags (finish_config ctx cfg) = config_tags cfg"
  by (simp add: config_tags_def del: list.set_map)

lemma log_keeps [simp]:
  "cfg_inbounds (gen_log ctx cfg) = cfg_inbounds cfg" "cfg_route (gen_log ctx cfg) = cfg_route cfg"
  "config_tags (gen_log ctx cfg) = config_tags cfg"
  by (simp_all add: gen_log_def config_tags_def Let_def)

lemma common_settings_keep [simp]:
  "cfg_inbounds (apply_common_config_settings entries cfg) = cfg_inbounds cfg"
  "cfg_route (apply_common_config_settings entries cfg) = cfg_route cfg"
  "config_tags (apply_common_config_settings entries cfg) = config_tags cfg"
  unfolding apply_common_config_settings_def by (simp_all split: list.split)

text \<open>
  A speed test configuration has one inbound per entry, in order, on the entry's port and
  on the loopback address only, with one rule that sends what enters there to the entry's own
  outbound. Different ports give different inbound and outbound tags, so no node is measured
  through another, and the outbound is there whenever the entry's node can be used at all.
\<close>

theorem speedtest_routes:
  assumes "generate_singbox_speedtest_config X entries = Some cfg"
  shows "cfg_inbounds cfg = map speedtest_inbound entries
     \<and> list_all (\<lambda>i. ib_listen i = Some LOOPBACK) (cfg_inbounds cfg)
     \<and> ro_rules (cfg_route cfg) = map speedtest_rule entries
     \<and> (distinct (map sp_port entries) \<longrightarrow>
          distinct (map ib_tag (cfg_inbounds cfg))
          \<and> distinct (map (\<lambda>r. r_outbound (flat_fields r)) (ro_rules (cfg_route cfg))))
     \<and> (\<forall>entry \<in> set entries. speedtest_usable entry \<longrightarrow>
          speedtest_proxy_tag (sp_port entry) \<in> config_tags cfg)"
proof -
  obtain c1 where c1: "fold_opt (add_speedtest_entry X) entries speedtest_base = Some c1"
    and cfg: "cfg = apply_common_config_settings entries c1"
    using assms by (auto simp: generate_singbox_speedtest_config_def)
  have base: "cfg_inbounds speedtest_base = []" "ro_rules (cfg_route speedtest_base) = []"
    by (simp_all add: speedtest_base_def)
  have "inj_on (\<lambda>e. speedtest_inbound_tag (sp_port e)) (set entries)"
    "inj_on (\<lambda>e. speedtest_proxy_tag (sp_port e)) (set entries)" if "distinct (map sp_port entries)"
    using that
    by (auto simp: inj_on_def distinct_map speedtest_inbound_tag_def speedtest_proxy_tag_def dest!: show_int_inj)
  then have "distinct (map (\<lambda>e. speedtest_inbound_tag (sp_port e)) entries)"
    "distinct (map (\<lambda>e. Some (speedtest_proxy_tag (sp_port e))) entries)" if "distinct (map sp_port entries)"
    using that by (auto simp: distinct_map inj_on_def)
  moreover have "ib_tag (speedtest_inbound e) = speedtest_inbound_tag (sp_port e)"
    "ib_listen (speedtest_inbound e) = Some LOOPBACK"
    "r_outbound (flat_fields (speedtest_rule e)) = Some (speedtest_proxy_tag (sp_port e))" for e
    by (simp_all add: speedtest_inbound_def speedtest_rule_def build_mixed_inbound_with_def)
  ultimately show ?thesis
    using speedtest_fold[OF c1] by (auto simp: cfg base list_all_iff comp_def)
qed

definition sample_entries :: "speedtest_config_entry list" where
  "sample_entries =
     [\<lparr>sp_index_id = ''a'', sp_port = 20001, sp_context = sample_context\<lparr>cx_node := sample_leaf ''a''\<rparr>\<rparr>,
      \<lparr>sp_index_id = ''b'', sp_port = 20002, sp_context = sample_context\<lparr>cx_node := sample_leaf ''b''\<rparr>\<rparr>]"

lemma speedtest_routes_witness:
  "\<exists>cfg. generate_singbox_speedtest_config no_externals sample_entries = Some cfg
     \<and> distinct (map ib_tag (cfg_inbounds cfg)) \<and> length (cfg_inbounds cfg) = 2
     \<and> ''proxy20002'' \<in> config_tags cfg"
proof -
  have "map_option (\<lambda>c. True) (generate_singbox_speedtest_config no_externals sample_entries) = Some True"
    by code_simp
  then obtain cfg where g: "generate_singbox_speedtest_config no_externals sample_entries = Some cfg" by auto
  have d: "distinct (map sp_port sample_entries)" by (simp add: sample_entries_def)
  have "list_all speedtest_usable sample_entries"
    "map (\<lambda>e. speedtest_proxy_tag (sp_port e)) sample_entries = [''proxy20001'', ''proxy20002'']"
    by code_simp+
  then have "\<exists>e \<in> set sample_entries. speedtest_usable e \<and> speedtest_proxy_tag (sp_port e) = ''proxy20002''"
    by (auto simp: sample_entries_def)
  then have "''proxy20002'' \<in> config_tags cfg" using speedtest_routes[OF g] by auto
  moreover have "length sample_entries = 2" by (simp add: sample_entries_def)
  ultimately show ?thesis using speedtest_routes[OF g] g d by (metis length_map)
qed

end
