(* ===== verification/Findings.thy ===== *)
theory Findings
  imports OutboundProps
begin

text \<open>
  Inputs on which the code does not do what its other parts expect of it, over the same
  definitions as the properties. A result of \<open>None\<close> is a panic.
\<close>

section \<open>Groups without a usable node\<close>

definition names_builtin :: "rules_item \<Rightarrow> bool" where
  "names_builtin user \<longleftrightarrow> unwrap_or (ri_outbound_tag user) PROXY_TAG \<in> {PROXY_TAG, DIRECT_TAG, BLOCK_TAG}"

lemma builtin_rule_tags:
  assumes "gen_routing_user_rule X ctx user cfg = Some cfg'" and "names_builtin user"
  shows "config_tags cfg' = config_tags cfg"
proof -
  obtain tag cfg1 where o1: "gen_routing_user_rule_outbound X ctx (unwrap_or (ri_outbound_tag user) PROXY_TAG) cfg
      = Some (tag, cfg1)" and cfg': "cfg' = push_rules (user_rules (user_rule_base tag user) user) cfg1"
    by (rule user_rule_cases[OF assms(1)])
  then show ?thesis using rule_outbound_builtin[OF o1] assms(2) by (simp add: names_builtin_def)
qed

lemma builtin_rules_tags:
  assumes "fold_opt (gen_routing_user_rule X ctx) users cfg = Some cfg'" and "list_all names_builtin users"
  shows "config_tags cfg' = config_tags cfg"
  by (rule fold_opt_inv[where P = "\<lambda>c. config_tags c = config_tags cfg", OF _ _ assms(1)])
    (use assms(2) builtin_rule_tags in \<open>auto simp: list_all_iff\<close>)

lemma builtin_routing_tags:
  assumes "gen_routing X ctx cfg = Some cfg'"
    and "\<And>routing. routing_item ctx = Some routing \<Longrightarrow> list_all names_builtin (routed_items routing)"
  shows "config_tags cfg' = config_tags cfg"
proof -
  have start: "config_tags (start_route ctx cfg) = config_tags cfg"
    by (simp add: config_tags_def start_route_def)
  have some: "list_all names_builtin (filter P (routed_items routing))" if "routing_item ctx = Some routing" for P routing
    using assms(2)[OF that] by (simp add: list_all_iff)
  show ?thesis
    using assms some
    by (auto simp: gen_routing_def Let_def start split: option.splits if_splits dest!: builtin_rules_tags)
qed


definition keyless_wireguard :: profile_item where
  "keyless_wireguard = (sample_leaf ''w'')\<lparr>protocol :=
     Pp_WireGuard \<lparr>se_address = ''a.example'', se_port = 443\<rparr> ''k'' None None None None None None\<rparr>"

definition subscribed_env :: snapshot_env where
  "subscribed_env = sample_env\<lparr>sn_profiles := [sample_leaf ''a''\<lparr>subscription_id := Some ''s''\<rparr>],
     sn_routings := []\<rparr>"

definition subscribed_group :: profile_item where
  "subscribed_group = default_profile\<lparr>index_id := ''g'', remarks := ''g'',
     protocol := Pp_PolicyGroup [] (Some ''s'') None Ml_LeastPing\<rparr>"


section \<open>The reserved prefix\<close>

text \<open>
  An identifier that begins with the prefix of the entries of routing rules: the entry of a rule
  for the node \<open>p\<close> takes the place of its stored child, and the node becomes its own child.
\<close>

definition colliding_env :: snapshot_env where
  "colliding_env = sample_env
     \<lparr>sn_profiles := [sample_group ''p'' [''remark:p''], sample_leaf ''remark:p''],
      sn_routings := [default_routing_item\<lparr>rule_set := [default_rules_item\<lparr>ri_outbound_tag := Some ''p''\<rparr>]\<rparr>]\<rparr>"

lemma reserved_prefix_cycle:
  "(''remark:p'', ''remark:p'') \<in> proxy_edges (all_proxies_map (br_context
     (build no_externals colliding_env default_app_config (sample_group ''p'' [''remark:p'']))))"
proof -
  have "map_option (\<lambda>n. child_profile_ids (protocol n)) (bt_get (all_proxies_map (br_context
      (build no_externals colliding_env default_app_config (sample_group ''p'' [''remark:p''])))) ''remark:p'')
    = Some [''remark:p'']"
    by code_simp
  then show ?thesis by (auto simp: proxy_edges_def)
qed

section \<open>Certificates\<close>

text \<open>
  A certificate chain whose end marker follows the begin marker within its five dashes
  makes the parser slice out of range, which panics.
\<close>

theorem pem_markers_overlap:
  "parse_pem_chain ''-----BEGIN CERTIFICATE-----END CERTIFICATE-----'' = None"
  by code_simp

end
