(* ===== verification/Bytes.thy ===== *)
theory Bytes
  imports VoyaPrelude "HOL-Library.Word" "HOL-Library.Monad_Syntax"
begin

text \<open>
  Bytes on the wire: \<open>u8\<close> as an 8-bit word, big-endian integers, slices that panic out of
  range, the standard library's UTF-8 decoding, and the contract of a codec: a printer and a
  parser of byte strings where the parser takes back exactly what the printer wrote.
\<close>

type_synonym byte = "8 word"

section \<open>Results\<close>

text \<open>The \<open>?\<close> operator: an error ends the function, a value is passed on.\<close>

definition bind_ok :: "'e + 'a \<Rightarrow> ('a \<Rightarrow> 'e + 'b) \<Rightarrow> 'e + 'b" where
  "bind_ok m f = (case m of Inl e \<Rightarrow> Inl e | Inr x \<Rightarrow> f x)"

lemma bind_ok_simps [simp]: "bind_ok (Inl e) f = Inl e" "bind_ok (Inr x) f = f x"
  by (simp_all add: bind_ok_def)

lemma bind_ok_Inr: "bind_ok m f = Inr y \<longleftrightarrow> (\<exists>x. m = Inr x \<and> f x = Inr y)"
  by (cases m) simp_all

lemma bind_ok_Inl: "bind_ok m f = Inl e \<longleftrightarrow> m = Inl e \<or> (\<exists>x. m = Inr x \<and> f x = Inl e)"
  by (cases m) auto

section \<open>Slices\<close>

text \<open>\<open>xs[i]\<close> and \<open>xs[a..b]\<close>: \<open>None\<close> is the panic of an access out of range.\<close>

definition nth_opt :: "'a list \<Rightarrow> nat \<Rightarrow> 'a option" where
  "nth_opt xs i = (if i < length xs then Some (xs ! i) else None)"

definition slice_opt :: "'a list \<Rightarrow> nat \<Rightarrow> nat \<Rightarrow> 'a list option" where
  "slice_opt xs a b = (if a \<le> b \<and> b \<le> length xs then Some (take (b - a) (drop a xs)) else None)"

lemma nth_opt_in [simp]: "i < length xs \<Longrightarrow> nth_opt xs i = Some (xs ! i)"
  by (simp add: nth_opt_def)

lemma slice_opt_in [simp]: "a \<le> b \<Longrightarrow> b \<le> length xs \<Longrightarrow> slice_opt xs a b = Some (take (b - a) (drop a xs))"
  by (simp add: slice_opt_def)

lemma slice_opt_length: "slice_opt xs a b = Some ys \<Longrightarrow> length ys = b - a"
  by (auto simp: slice_opt_def split: if_splits)

lemma bind_total:
  "m \<noteq> None \<Longrightarrow> (\<And>x. m = Some x \<Longrightarrow> f x \<noteq> None) \<Longrightarrow> Option.bind m f \<noteq> None"
  by (cases m) auto

section \<open>Big-endian integers\<close>

definition be16 :: "u16 \<Rightarrow> byte list" where
  "be16 n = [word_of_nat (n div 256), word_of_nat n]"

fun be_val :: "byte list \<Rightarrow> nat" where
  "be_val [] = 0"
| "be_val (b # bs) = unat b * 256 ^ length bs + be_val bs"

lemma unat_byte_mod [simp]: "unat (word_of_nat n :: byte) = n mod 256"
  by (simp add: unat_of_nat)

lemma be_val_be16 [simp]: "n < 65536 \<Longrightarrow> be_val (be16 n) = n"
  by (simp add: be16_def div_mult_mod_eq)

lemma byte_less [simp]: "unat (b :: byte) < 256"
  using unsigned_less[of b] by simp

lemma be_val_bound: "be_val bs < 256 ^ length bs"
proof (induction bs)
  case (Cons b bs)
  have "unat b * 256 ^ length bs + be_val bs < (unat b + 1) * 256 ^ length bs"
    using Cons.IH by (simp add: algebra_simps)
  also have "\<dots> \<le> 256 * 256 ^ length bs" by (intro mult_le_mono1) (use byte_less[of b] in linarith)
  finally show ?case by simp
qed simp

lemma be16_length [simp]: "length (be16 n) = 2"
  by (simp add: be16_def)

section \<open>Strings and bytes\<close>

definition as_bytes :: "string \<Rightarrow> byte list" where
  "as_bytes s = map (\<lambda>c. word_of_nat (byte_of c)) s"

definition of_bytes :: "byte list \<Rightarrow> string" where
  "of_bytes bs = map (\<lambda>b. char_of (unat b)) bs"

lemma of_as_bytes [simp]: "of_bytes (as_bytes s) = s"
  by (induction s) (simp_all add: of_bytes_def as_bytes_def)

lemma as_bytes_length [simp]: "length (as_bytes s) = length s"
  by (simp add: as_bytes_def)

text \<open>
  \<open>core::str::Utf8Chunks\<close>: the length of the first character, or of the invalid bytes that
  the decoder skips, and which of the two it is.
\<close>

definition is_continuation :: "byte \<Rightarrow> bool" where
  "is_continuation b \<longleftrightarrow> 0x80 \<le> b \<and> b \<le> 0xBF"

definition second_of_three :: "byte \<Rightarrow> byte \<Rightarrow> bool" where
  "second_of_three b c \<longleftrightarrow>
     (if b = 0xE0 then 0xA0 \<le> c \<and> c \<le> 0xBF else if b = 0xED then 0x80 \<le> c \<and> c \<le> 0x9F
      else is_continuation c)"

definition second_of_four :: "byte \<Rightarrow> byte \<Rightarrow> bool" where
  "second_of_four b c \<longleftrightarrow>
     (if b = 0xF0 then 0x90 \<le> c \<and> c \<le> 0xBF else if b = 0xF4 then 0x80 \<le> c \<and> c \<le> 0x8F
      else is_continuation c)"

definition utf8_step :: "byte \<Rightarrow> byte list \<Rightarrow> nat \<times> bool" where
  "utf8_step b bs =
     (let at = (\<lambda>i. if i < length bs then Some (bs ! i) else None);
          ok = (\<lambda>P i. case at i of Some c \<Rightarrow> P c | None \<Rightarrow> False)
      in if b < 0x80 then (1, True)
         else if 0xC2 \<le> b \<and> b \<le> 0xDF then (if ok is_continuation 0 then (2, True) else (1, False))
         else if 0xE0 \<le> b \<and> b \<le> 0xEF
         then (if \<not> ok (second_of_three b) 0 then (1, False)
               else if \<not> ok is_continuation 1 then (2, False) else (3, True))
         else if 0xF0 \<le> b \<and> b \<le> 0xF4
         then (if \<not> ok (second_of_four b) 0 then (1, False)
               else if \<not> ok is_continuation 1 then (2, False)
               else if \<not> ok is_continuation 2 then (3, False) else (4, True))
         else (1, False))"

lemma utf8_step_bounds: "utf8_step b bs = (n, v) \<Longrightarrow> 1 \<le> n \<and> n \<le> Suc (length bs)"
  by (auto simp: utf8_step_def Let_def simp del: length_greater_0_conv split: if_splits option.splits)

lemma utf8_step_pos: "(n, v) = utf8_step b bs \<Longrightarrow> 0 < n" "utf8_step b bs = (n, v) \<Longrightarrow> 0 < n"
  using utf8_step_bounds[of b bs n v] by auto

function utf8_lossy :: "byte list \<Rightarrow> byte list" where
  "utf8_lossy [] = []"
| "utf8_lossy (b # bs) =
     (case utf8_step b bs of (n, v) \<Rightarrow>
        (if v then take n (b # bs) else [0xEF, 0xBF, 0xBD]) @ utf8_lossy (drop n (b # bs)))"
  by pat_completeness auto
termination by (relation "measure length") (auto dest: utf8_step_pos)

function utf8_valid :: "byte list \<Rightarrow> bool" where
  "utf8_valid [] = True"
| "utf8_valid (b # bs) = (case utf8_step b bs of (n, v) \<Rightarrow> v \<and> utf8_valid (drop n (b # bs)))"
  by pat_completeness auto
termination by (relation "measure length") (auto dest: utf8_step_pos)

lemma utf8_lossy_valid: "utf8_valid bs \<Longrightarrow> utf8_lossy bs = bs"
proof (induction bs rule: utf8_valid.induct)
  case (2 b bs)
  obtain n where n: "utf8_step b bs = (n, True)" using "2.prems" by (auto split: prod.splits)
  then have "utf8_lossy (drop n (b # bs)) = drop n (b # bs)" using "2.IH"[of n] "2.prems" by (simp add: n)
  then show ?case by (simp add: n)
qed simp

definition from_utf8_lossy :: "byte list \<Rightarrow> string" where
  "from_utf8_lossy bs = of_bytes (utf8_lossy bs)"

definition from_utf8 :: "byte list \<Rightarrow> string option" where
  "from_utf8 bs = (if utf8_valid bs then Some (of_bytes bs) else None)"

lemma ascii_valid: "list_all (\<lambda>b. b < 0x80) bs \<Longrightarrow> utf8_valid bs"
  by (induction bs) (simp_all add: utf8_step_def)

section \<open>Codecs\<close>

text \<open>
  A printer and a parser of a value in front of other bytes: what was printed is read back and
  the rest is untouched; what is read is a non-empty prefix of the input.
\<close>

locale codec =
  fixes enc :: "'a \<Rightarrow> byte list"
    and dec :: "byte list \<Rightarrow> 'e + ('a \<times> byte list)"
    and ok :: "'a \<Rightarrow> bool"
  assumes dec_enc: "ok x \<Longrightarrow> dec (enc x @ r) = Inr (x, r)"
    and dec_prefix: "dec bs = Inr (x, r) \<Longrightarrow> \<exists>p. p \<noteq> [] \<and> bs = p @ r"
begin

text \<open>Printed values are self-delimiting: no two of them can be confused in a stream.\<close>

lemma enc_unambiguous:
  assumes "ok x" and "ok y" and "enc x @ r = enc y @ s"
  shows "x = y \<and> r = s"
  using dec_enc[OF assms(1), of r] dec_enc[OF assms(2), of s] unfolding assms(3) by simp

lemma dec_shorter: "dec bs = Inr (x, r) \<Longrightarrow> length r < length bs"
  using dec_prefix by fastforce

lemma dec_exact: "ok x \<Longrightarrow> dec (enc x) = Inr (x, [])"
  using dec_enc[of x "[]"] by simp

end

end
