(* ===== verification/IpText.thy ===== *)
theory IpText
  imports NetAddr
begin

text \<open>
  \<open>Display\<close> and \<open>FromStr\<close> of \<open>std::net::IpAddr\<close> are inverse: the text of an address, with
  the longest run of zero groups cut and mapped IPv4 addresses in dotted form, is read back as
  the same address.
\<close>

section \<open>Hexadecimal groups\<close>

lemma hex_digit_value [simp]: "n < 16 \<Longrightarrow> hex_val (hex_digit_chr n) = n"
  by (auto simp: hex_val_def hex_digit_chr_def is_ascii_digit_def digit_chr_def)

lemma hex_digit_is [simp]: "n < 16 \<Longrightarrow> is_ascii_hexdigit (hex_digit_chr n)"
  by (auto simp: is_ascii_hexdigit_def is_ascii_digit_def hex_digit_chr_def digit_chr_def)

lemma hex_digit_not_dot: "n < 16 \<Longrightarrow> hex_digit_chr n \<noteq> CHR ''.''"
  using hex_digit_is[of n] by (auto simp: is_ascii_hexdigit_def is_ascii_digit_def)

lemma radix_val_append: "radix_val r acc (a @ [c]) = r * radix_val r acc a + hex_val c"
  by (induction a arbitrary: acc) simp_all

lemma show_hex_digits: "list_all is_ascii_hexdigit (show_hex n)"
proof (induction n rule: show_hex.induct)
  case (1 n)
  then show ?case by (simp add: show_hex.simps[of n])
qed

lemma show_hex_value: "radix_val 16 0 (show_hex n) = n"
proof (induction n rule: show_hex.induct)
  case (1 n)
  then show ?case by (simp add: show_hex.simps[of n] radix_val_append)
qed

lemma show_hex_length: "n < 65536 \<Longrightarrow> length (show_hex n) \<le> 4"
  by (simp add: show_hex.simps[of n] show_hex.simps[of "n div 16"] show_hex.simps[of "n div 16 div 16"]
      show_hex.simps[of "n div 16 div 16 div 16"])

lemma show_hex_nonempty [simp]: "show_hex n \<noteq> []"
  by (simp add: show_hex.simps[of n])

lemma show_hex_no_dot: "CHR ''.'' \<notin> set (show_hex n)"
  using show_hex_digits[of n] by (auto simp: list_all_iff is_ascii_hexdigit_def is_ascii_digit_def)

lemma read_hex:
  assumes "g < 65536" and "b = [] \<or> hd b = CHR '':''"
  shows "read_number 16 4 True 65535 (show_hex g @ b) = Some (g, b)"
proof -
  have "b = [] \<or> \<not> is_ascii_hexdigit (hd b)"
    using assms(2) by (auto simp: is_ascii_hexdigit_def is_ascii_digit_def)
  then have "takeWhile is_ascii_hexdigit (show_hex g @ b) = show_hex g"
    "dropWhile is_ascii_hexdigit (show_hex g @ b) = b"
    using takeWhile_digits[OF show_hex_digits] by blast+
  then show ?thesis
    using assms(1) show_hex_length[OF assms(1)] by (simp add: read_number_def show_hex_value)
qed

section \<open>Groups\<close>

lemma read_number_rest: "read_number r m z l s = Some (n, t) \<Longrightarrow> set t \<subseteq> set s"
  by (auto simp: read_number_def Let_def split: if_splits dest: set_dropWhileD)

text \<open>Text without a dot is never the start of an IPv4 address.\<close>

lemma no_dot_no_later: "CHR ''.'' \<notin> set t \<Longrightarrow> read_v4_groups (Suc i) (Suc n) t = None"
  by (cases t) (auto simp: read_separator_def)

lemma no_dot_no_v4:
  assumes "CHR ''.'' \<notin> set s"
  shows "read_ipv4_addr s = None"
proof -
  have "read_v4_groups 0 (Suc (Suc n)) s = None" for n
  proof (cases "read_number 10 3 False 255 s")
    case (Some gr)
    obtain g r where gr: "gr = (g, r)" by (cases gr)
    have "CHR ''.'' \<notin> set r" using read_number_rest[OF Some[unfolded gr]] assms by auto
    then have "read_v4_groups (Suc 0) (Suc n) r = None" by (rule no_dot_no_later)
    then show ?thesis using Some gr by (subst read_v4_groups.simps(2)) (simp add: read_separator_def)
  qed (simp add: read_separator_def)
  moreover have "(4 :: nat) = Suc (Suc 2)" by simp
  ultimately show ?thesis by (simp only: read_ipv4_addr_def)
qed

lemma colon_no_number: "s = [] \<or> hd s = CHR '':'' \<Longrightarrow> read_number r m z l s = None"
  by (cases s) (auto simp: read_number_def is_ascii_digit_def is_ascii_hexdigit_def)

lemma colon_no_v4:
  assumes "s = [] \<or> hd s = CHR '':''"
  shows "read_ipv4_addr s = None"
proof -
  have "read_v4_groups 0 (Suc n) s = None" for n
    using colon_no_number[OF assms] by (simp add: read_separator_def)
  moreover have "(4 :: nat) = Suc 3" by simp
  ultimately show ?thesis by (simp only: read_ipv4_addr_def)
qed

lemma groups_at_colon: "hd s = CHR '':'' \<or> s = [] \<Longrightarrow> read_groups 0 left s = ([], False, s)"
  by (cases left) (auto simp: read_separator_def colon_no_v4 colon_no_number)

definition group_text :: "nat list \<Rightarrow> string" where
  "group_text gs = concat (map (\<lambda>g. CHR '':'' # show_hex g) gs)"

lemma group_text_Cons [simp]: "group_text (g # gs) = CHR '':'' # show_hex g @ group_text gs"
  and group_text_Nil [simp]: "group_text [] = []"
  by (simp_all add: group_text_def)

lemma join_group_text: "join_with '':'' (map show_hex (g # gs)) = show_hex g @ group_text gs"
  by (induction gs arbitrary: g) simp_all

lemma group_text_no_dot: "CHR ''.'' \<notin> set (group_text gs)"
  by (induction gs) (auto simp: show_hex_no_dot)

text \<open>What may follow the groups: the end, or the two colons of a cut run.\<close>

definition ends_groups :: "string \<Rightarrow> bool" where
  "ends_groups r \<longleftrightarrow> (r = [] \<or> (\<exists>t. r = CHR '':'' # CHR '':'' # t)) \<and> CHR ''.'' \<notin> set r"

lemma read_groups_v4:
  "0 < left \<Longrightarrow> read_separator (CHR '':'') i read_ipv4_addr s = Some (os, r) \<Longrightarrow>
     read_groups i (Suc left) s = ([256 * (os ! 0) + os ! 1, 256 * (os ! 2) + os ! 3], True, r)"
  by simp

lemma read_groups_step:
  "read_separator (CHR '':'') i read_ipv4_addr s = None \<Longrightarrow>
     read_separator (CHR '':'') i (read_number 16 4 True 65535) s = Some (g, r) \<Longrightarrow>
     read_groups (Suc i) left r = (gs, v4, r') \<Longrightarrow> read_groups i (Suc left) s = (g # gs, v4, r')"
  by (cases left) simp_all

lemma ends_groups_colon: "ends_groups r \<Longrightarrow> group_text gs @ r = [] \<or> hd (group_text gs @ r) = CHR '':''"
  by (cases gs) (auto simp: ends_groups_def)

lemma separator_at_end:
  assumes "ends_groups r" and "0 < i" and "\<And>t. r = CHR '':'' # CHR '':'' # t \<Longrightarrow> f (CHR '':'' # t) = None"
  shows "read_separator (CHR '':'') i f r = None"
  using assms by (auto simp: read_separator_def ends_groups_def)

lemma no_groups_left:
  assumes "ends_groups r" and "0 < i"
  shows "read_groups i left r = ([], False, r)"
proof -
  have "read_separator (CHR '':'') i read_ipv4_addr r = None"
    by (rule separator_at_end[OF assms]) (simp add: colon_no_v4)
  moreover have "read_separator (CHR '':'') i (read_number 16 4 True 65535) r = None"
    by (rule separator_at_end[OF assms]) (simp add: colon_no_number)
  ultimately show ?thesis by (cases left) simp_all
qed

lemma read_later_groups:
  assumes "length gs \<le> left" and "\<forall>g \<in> set gs. g < 65536" and "ends_groups r" and "0 < i"
  shows "read_groups i left (group_text gs @ r) = (gs, False, r)"
  using assms(1,2,4)
proof (induction gs arbitrary: i left)
  case Nil
  then show ?case using no_groups_left[OF assms(3)] by simp
next
  case (Cons g gs)
  then obtain left' where l: "left = Suc left'" by (cases left) auto
  have "CHR ''.'' \<notin> set (show_hex g @ group_text gs @ r)"
    using show_hex_no_dot group_text_no_dot assms(3) by (auto simp: ends_groups_def)
  then have v4: "read_ipv4_addr (show_hex g @ group_text gs @ r) = None" by (rule no_dot_no_v4)
  have n: "read_number 16 4 True 65535 (show_hex g @ group_text gs @ r) = Some (g, group_text gs @ r)"
    by (rule read_hex) (use Cons.prems ends_groups_colon[OF assms(3)] in auto)
  have "read_groups (Suc i) left' (group_text gs @ r) = (gs, False, r)"
    using Cons.IH[of left' "Suc i"] Cons.prems l by simp
  then show ?case using v4 n Cons.prems by (auto simp: l read_separator_def)
qed

lemma read_joined_groups:
  assumes "length gs \<le> left" and "\<forall>g \<in> set gs. g < 65536" and "ends_groups r"
  shows "read_groups 0 left (join_with '':'' (map show_hex gs) @ r) = (gs, False, r)"
proof (cases gs)
  case Nil
  have "read_ipv4_addr r = None" by (rule no_dot_no_v4) (use assms(3) in \<open>simp add: ends_groups_def\<close>)
  moreover have "read_number 16 4 True 65535 r = None"
    by (rule colon_no_number) (use assms(3) in \<open>auto simp: ends_groups_def\<close>)
  ultimately show ?thesis by (cases left) (simp_all add: Nil read_separator_def)
next
  case (Cons g gs')
  then obtain left' where l: "left = Suc left'" using assms(1) by (cases left) auto
  have "CHR ''.'' \<notin> set (show_hex g @ group_text gs' @ r)"
    using show_hex_no_dot group_text_no_dot assms(3) by (auto simp: ends_groups_def)
  then have v4: "read_ipv4_addr (show_hex g @ group_text gs' @ r) = None" by (rule no_dot_no_v4)
  have n: "read_number 16 4 True 65535 (show_hex g @ group_text gs' @ r) = Some (g, group_text gs' @ r)"
    by (rule read_hex) (use assms(2) Cons ends_groups_colon[OF assms(3)] in auto)
  have "read_groups 1 left' (group_text gs' @ r) = (gs', False, r)"
    using read_later_groups[of gs' left' r 1] assms Cons l by simp
  then show ?thesis
    using v4 n assms(1) by (auto simp: Cons l read_separator_def join_group_text simp del: list.map(2))
qed

section \<open>The cut run\<close>

definition zeros_at :: "nat list \<Rightarrow> nat \<times> nat \<Rightarrow> bool" where
  "zeros_at xs r \<longleftrightarrow> fst r + snd r \<le> length xs \<and> (\<forall>k. fst r \<le> k \<and> k < fst r + snd r \<longrightarrow> xs ! k = 0)"

lemma zero_run_zeros:
  assumes "zeros_at (pre @ gs) best"
    and "zeros_at (pre @ gs) cur" and "snd cur = 0 \<or> fst cur + snd cur = length pre"
  shows "zeros_at (pre @ gs) (zero_run (length pre) cur best gs)"
  using assms
proof (induction gs arbitrary: pre cur best)
  case (Cons g gs)
  obtain cs cl bs bl where p: "cur = (cs, cl)" "best = (bs, bl)" by (cases cur; cases best)
  let ?next = "if cl = 0 then (length pre, 1) else (cs, Suc cl)"
  have z: "zeros_at ((pre @ [g]) @ gs) ?next" if "g = 0"
    using Cons.prems(2,3) that by (auto simp: p zeros_at_def nth_append less_Suc_eq)
  have e: "snd ?next = 0 \<or> fst ?next + snd ?next = length (pre @ [g])" using Cons.prems(3) by (auto simp: p)
  have b: "zeros_at ((pre @ [g]) @ gs) best" using Cons.prems(1) by simp
  have n: "zeros_at ((pre @ [g]) @ gs) (0, 0)" by (simp add: zeros_at_def)
  show ?case
  proof (cases "g = 0")
    case True
    have "zeros_at ((pre @ [g]) @ gs) (if bl < snd ?next then ?next else (bs, bl))"
      using z[OF True] b by (simp add: p)
    from Cons.IH[OF this z[OF True] e] show ?thesis by (simp add: True p Let_def)
  next
    case False
    from Cons.IH[OF b n] show ?thesis using False by (simp add: p)
  qed
qed simp

lemma cut_run:
  assumes "zero_run 0 (0, 0) (0, 0) gs = (start, len)"
  shows "start + len \<le> length gs \<and> gs = take start gs @ replicate len 0 @ drop (start + len) gs"
proof -
  have z: "zeros_at gs (start, len)"
    using zero_run_zeros[of "[]" gs "(0, 0)" "(0, 0)"] assms by (simp add: zeros_at_def)
  then have "take len (drop start gs) = replicate len 0"
    by (intro nth_equalityI) (auto simp: zeros_at_def)
  moreover have "gs = take start gs @ take len (drop start gs) @ drop (start + len) gs"
    by (metis add.commute append_take_drop_id drop_drop)
  ultimately show ?thesis using z by (simp add: zeros_at_def)
qed

section \<open>Reading back an IPv6 address\<close>

lemma read_mapped:
  assumes "length gs = 8" and "\<forall>g \<in> set gs. g < 65536" and "take 6 gs = [0, 0, 0, 0, 0, 65535]"
  shows "read_ipv6_addr (show_ipv6 gs) = Some (gs, [])"
proof -
  let ?v4 = "[gs ! 6 div 256, gs ! 6 mod 256, gs ! 7 div 256, gs ! 7 mod 256]"
  have b: "gs ! 6 < 65536" "gs ! 7 < 65536" using assms(1,2) by simp_all
  have "drop 6 gs = [gs ! 6, gs ! 7]"
    using assms(1) by (intro nth_equalityI) (auto simp: nth_Cons less_Suc_eq split: nat.splits)
  then have gs: "gs = [0, 0, 0, 0, 0, 65535, gs ! 6, gs ! 7]"
    using append_take_drop_id[of 6 gs] assms(3) by simp
  have v4: "read_ipv4_addr (show_ipv4 ?v4) = Some (?v4, [])" by (rule read_show_ipv4) (use b in simp_all)
  let ?s = "CHR '':'' # CHR '':'' # ''ffff:'' @ show_ipv4 ?v4"
  have s: "show_ipv6 gs = ?s" using assms(3) by (simp add: show_ipv6_def)
  have start: "read_groups 0 8 ?s = ([], False, ?s)"
    using groups_at_colon[of ?s 8] by simp
  have ffff: "show_hex 65535 = ''ffff''" by code_simp
  have "read_v4_groups 0 (Suc k) (''ffff:'' @ show_ipv4 ?v4) = None" for k
    by (simp add: read_separator_def read_number_def is_ascii_digit_def)
  moreover have "(4 :: nat) = Suc 3" by simp
  ultimately have f: "read_ipv4_addr (''ffff:'' @ show_ipv4 ?v4) = None"
    by (simp only: read_ipv4_addr_def)
  have n: "read_number 16 4 True 65535 (''ffff'' @ CHR '':'' # show_ipv4 ?v4) = Some (65535, CHR '':'' # show_ipv4 ?v4)"
    using read_hex[of 65535 "CHR '':'' # show_ipv4 ?v4"] by (simp add: ffff)
  have "read_separator (CHR '':'') 1 read_ipv4_addr (CHR '':'' # show_ipv4 ?v4) = Some (?v4, [])"
    using v4 by (simp add: read_separator_def)
  from read_groups_v4[OF _ this, of 5]
  have "read_groups (Suc 0) 6 (CHR '':'' # show_ipv4 ?v4) = ([gs ! 6, gs ! 7], True, [])" by simp
  from read_groups_step[OF _ _ this, of "''ffff:'' @ show_ipv4 ?v4" 65535] f n
  have tail: "read_groups 0 7 (''ffff:'' @ show_ipv4 ?v4) = ([65535, gs ! 6, gs ! 7], True, [])"
    by (simp add: read_separator_def)
  have "replicate 5 (0 :: nat) = [0, 0, 0, 0, 0]" by code_simp
  then have "read_ipv6_addr ?s = Some ([0, 0, 0, 0, 0, 65535, gs ! 6, gs ! 7], [])"
    unfolding read_ipv6_addr_def start using tail by simp
  then show ?thesis using gs s by simp
qed

lemma read_show_ipv6:
  assumes "length gs = 8" and "\<forall>g \<in> set gs. g < 65536"
  shows "read_ipv6_addr (show_ipv6 gs) = Some (gs, [])"
proof (cases "take 6 gs = [0, 0, 0, 0, 0, 65535]")
  case True
  then show ?thesis by (rule read_mapped[OF assms])
next
  case False
  obtain start len where z: "zero_run 0 (0, 0) (0, 0) gs = (start, len)" by fastforce
  show ?thesis
  proof (cases "1 < len")
    case True
    let ?h = "take start gs" and ?t = "drop (start + len) gs"
    have c: "start + len \<le> 8" "gs = ?h @ replicate len 0 @ ?t" using cut_run[OF z] assms(1) by simp_all
    have ok: "\<forall>g \<in> set ?h. g < 65536" "\<forall>g \<in> set ?t. g < 65536"
      using assms(2) by (meson in_set_takeD in_set_dropD)+
    have s: "show_ipv6 gs = join_with '':'' (map show_hex ?h) @ ''::'' @ join_with '':'' (map show_hex ?t)"
      using False True z by (simp add: show_ipv6_def)
    have no_dot: "CHR ''.'' \<notin> set (join_with '':'' (map show_hex xs))" for xs
      using group_text_no_dot show_hex_no_dot by (cases xs) (auto simp: join_group_text simp del: list.map(2))
    have h: "read_groups 0 8 (show_ipv6 gs) = (?h, False, ''::'' @ join_with '':'' (map show_hex ?t))"
      unfolding s by (rule read_joined_groups) (use ok no_dot assms(1) c in \<open>auto simp: ends_groups_def\<close>)
    have t: "read_groups 0 (8 - (length ?h + 1)) (join_with '':'' (map show_hex ?t)) = (?t, False, [])"
      using read_joined_groups[of ?t "8 - (length ?h + 1)" "[]"] ok(2) assms(1) c True
      by (simp add: ends_groups_def)
    have "length ?h \<noteq> 8" "8 - length ?h - length ?t = len" using assms(1) c True by simp_all
    then show ?thesis
      unfolding read_ipv6_addr_def h using t c(2) by simp
  next
    case small: False
    have s: "show_ipv6 gs = join_with '':'' (map show_hex gs)"
      using False small z by (simp add: show_ipv6_def)
    have "read_groups 0 8 (show_ipv6 gs) = (gs, False, [])"
      using read_joined_groups[of gs 8 "[]"] assms by (simp add: s ends_groups_def)
    then show ?thesis unfolding read_ipv6_addr_def using assms(1) by simp
  qed
qed

lemma show_ipv6_not_v4:
  assumes "length gs = 8"
  shows "read_ipv4_addr (show_ipv6 gs) = None"
proof (cases "take 6 gs = [0, 0, 0, 0, 0, 65535]")
  case True
  then show ?thesis by (simp add: show_ipv6_def colon_no_v4)
next
  case False
  obtain start len where z: "zero_run 0 (0, 0) (0, 0) gs = (start, len)" by fastforce
  have no_dot: "CHR ''.'' \<notin> set (join_with '':'' (map show_hex xs))" for xs
    using group_text_no_dot show_hex_no_dot by (cases xs) (auto simp: join_group_text simp del: list.map(2))
  show ?thesis by (rule no_dot_no_v4) (use False z no_dot in \<open>auto simp: show_ipv6_def\<close>)
qed

lemma parse_show_ip:
  assumes "ip_ok ip"
  shows "parse_ip (show_ip ip) = Some ip"
proof (cases ip)
  case (V4 os)
  then show ?thesis using parse_show_ipv4 assms by simp
next
  case (V6 gs)
  then show ?thesis using read_show_ipv6[of gs] show_ipv6_not_v4[of gs] assms by (simp add: parse_ip_def)
qed

lemma show_ip_inj: "ip_ok a \<Longrightarrow> ip_ok b \<Longrightarrow> show_ip a = show_ip b \<Longrightarrow> a = b"
  by (metis parse_show_ip option.inject)

end
