(* ===== verification/UdpTest.thy ===== *)
theory UdpTest
  imports Bytes IpText
begin

text \<open>
  \<open>voya-udptest/src/lib.rs\<close>: the UDP probes of speed tests and the SOCKS5 UDP-associate
  channel they use. Packets are lists of bytes. Where the code indexes or slices a packet the
  model does so with \<open>nth_opt\<close> and \<open>slice_opt\<close>, so a panic is the value \<open>None\<close>. The TCP
  peer is the bytes it will send and the number of writes it accepts; a clock reading is a
  number of nanoseconds.
\<close>

section \<open>Probe kinds\<close>

datatype udp_test_kind = Ntp | Dns | Stun | Mcbe

datatype udp_test_error =
  UtIo | UtTimeout nat | SocksNoAuthRejected | SocksUdpAssociateRejected byte | InvalidRelayAddress
| ChannelNotEstablished | PacketTooShort | FragmentUnsupported | UnsupportedAddressType byte
| DomainTooLong | InvalidTargetPort | ResponseVerificationFailed udp_test_kind

type_synonym 'a udp_result = "udp_test_error + 'a"

definition SOCKS5_VERSION :: byte where "SOCKS5_VERSION = 0x05"
definition SOCKS5_CMD_UDP_ASSOCIATE :: byte where "SOCKS5_CMD_UDP_ASSOCIATE = 0x03"
definition SOCKS5_ATYP_IPV4 :: byte where "SOCKS5_ATYP_IPV4 = 0x01"
definition SOCKS5_ATYP_DOMAIN :: byte where "SOCKS5_ATYP_DOMAIN = 0x03"
definition SOCKS5_ATYP_IPV6 :: byte where "SOCKS5_ATYP_IPV6 = 0x04"
definition STUN_BINDING_SUCCESS_RESPONSE_TYPE :: nat where "STUN_BINDING_SUCCESS_RESPONSE_TYPE = 0x0101"
definition STUN_MAGIC_COOKIE :: nat where "STUN_MAGIC_COOKIE = 0x2112a442"

definition DNS_QUERY_PACKET :: "byte list" where
  "DNS_QUERY_PACKET =
     [0x12, 0x34, 0x01, 0x00, 0x00, 0x01, 0x00, 0x00, 0x00, 0x00, 0x00, 0x00, 0x03, 0x77, 0x77, 0x77,
      0x06, 0x67, 0x6f, 0x6f, 0x67, 0x6c, 0x65, 0x03, 0x63, 0x6f, 0x6d, 0x00, 0x00, 0x01, 0x00, 0x01]"

definition STUN_BINDING_REQUEST_PACKET :: "byte list" where
  "STUN_BINDING_REQUEST_PACKET =
     [0x00, 0x01, 0x00, 0x00, 0x21, 0x12, 0xa4, 0x42, 0x66, 0x0e, 0xab, 0xbc, 0x61, 0x0d, 0xa4, 0x40,
      0x8c, 0x65, 0xc1, 0xbe]"

definition MCBE_QUERY_PACKET :: "byte list" where
  "MCBE_QUERY_PACKET =
     [0x01, 0x27, 0xc4, 0x15, 0x00, 0x00, 0x00, 0x00, 0x00, 0x00, 0xff, 0xff, 0x00, 0xfe, 0xfe, 0xfe,
      0xfe, 0xfd, 0xfd, 0xfd, 0xfd, 0x12, 0x34, 0x56, 0x78, 0x66, 0x0e, 0xab, 0xbc, 0x61, 0x0d, 0x1f,
      0x4e, 0xa4, 0x40, 0x8c, 0x65, 0xc1, 0xbe, 0xf5, 0x4b]"

definition MCBE_MAGIC_BYTES :: "byte list" where
  "MCBE_MAGIC_BYTES =
     [0x00, 0xff, 0xff, 0x00, 0xfe, 0xfe, 0xfe, 0xfe, 0xfd, 0xfd, 0xfd, 0xfd, 0x12, 0x34, 0x56, 0x78]"

definition kind_from_name :: "string \<Rightarrow> udp_test_kind" where
  "kind_from_name v =
     (let n = to_ascii_lowercase (trim v) in
      if n = ''dns'' then Dns else if n = ''stun'' then Stun else if n = ''mcbe'' then Mcbe else Ntp)"

fun kind_name :: "udp_test_kind \<Rightarrow> string" where
  "kind_name Ntp = ''ntp''"
| "kind_name Dns = ''dns''"
| "kind_name Stun = ''stun''"
| "kind_name Mcbe = ''mcbe''"

fun default_target_host :: "udp_test_kind \<Rightarrow> string" where
  "default_target_host Ntp = ''pool.ntp.org''"
| "default_target_host Dns = ''8.8.8.8''"
| "default_target_host Stun = ''stun.voztovoice.org''"
| "default_target_host Mcbe = ''pms.mc-complex.com''"

fun default_target_port :: "udp_test_kind \<Rightarrow> u16" where
  "default_target_port Ntp = 123"
| "default_target_port Dns = 53"
| "default_target_port Stun = 3478"
| "default_target_port Mcbe = 19132"

fun build_request_packet :: "udp_test_kind \<Rightarrow> byte list" where
  "build_request_packet Ntp = (replicate 48 0)[0 := 0x23]"
| "build_request_packet Dns = DNS_QUERY_PACKET"
| "build_request_packet Stun = STUN_BINDING_REQUEST_PACKET"
| "build_request_packet Mcbe = MCBE_QUERY_PACKET"

section \<open>Checking responses\<close>

text \<open>\<open>u16::from_be_bytes([r[i], r[i + 1]])\<close>\<close>

definition be16_at :: "byte list \<Rightarrow> nat \<Rightarrow> nat option" where
  "be16_at r i = do { a \<leftarrow> nth_opt r i; b \<leftarrow> nth_opt r (i + 1); Some (be_val [a, b]) }"

definition verify_ntp_response :: "byte list \<Rightarrow> bool option" where
  "verify_ntp_response r =
     (if length r \<ge> 48 then do { b \<leftarrow> nth_opt r 0; Some (and b 0x07 = 4) } else Some False)"

definition verify_dns_response :: "byte list \<Rightarrow> bool option" where
  "verify_dns_response r =
     (if length r < 12 then Some False
      else do {
        transaction_id \<leftarrow> be16_at r 0;
        flags \<leftarrow> be16_at r 2;
        answer_count \<leftarrow> be16_at r 6;
        Some (transaction_id = 0x1234 \<and> and flags 0x8000 \<noteq> 0 \<and> and flags 0x000f = 0 \<and> answer_count > 0)
      })"

definition verify_stun_response :: "byte list \<Rightarrow> bool option" where
  "verify_stun_response r =
     (if length r < 20 then Some False
      else do {
        message_type \<leftarrow> be16_at r 0;
        message_length \<leftarrow> be16_at r 2;
        c0 \<leftarrow> nth_opt r 4; c1 \<leftarrow> nth_opt r 5; c2 \<leftarrow> nth_opt r 6; c3 \<leftarrow> nth_opt r 7;
        Some (message_type = STUN_BINDING_SUCCESS_RESPONSE_TYPE \<and> message_length mod 4 = 0
          \<and> length r = 20 + message_length \<and> be_val [c0, c1, c2, c3] = STUN_MAGIC_COOKIE)
      })"

text \<open>\<open>get\<close> does not panic, so a slice out of range is an ordinary answer there.\<close>

definition verify_mcbe_response :: "byte list \<Rightarrow> bool option" where
  "verify_mcbe_response r =
     (if length r < 48 then Some False
      else do {
        first \<leftarrow> nth_opt r 0;
        if first \<noteq> 0x1c then Some False
        else if slice_opt r 17 33 \<noteq> Some MCBE_MAGIC_BYTES then Some False
        else (case slice_opt r 33 35 of
                None \<Rightarrow> Some False
              | Some length_bytes \<Rightarrow>
                  do {
                    len \<leftarrow> be16_at length_bytes 0;
                    (case slice_opt r 35 (35 + len) of
                       None \<Rightarrow> Some False
                     | Some data \<Rightarrow>
                         (case from_utf8 data of
                            None \<Rightarrow> Some False
                          | Some txt \<Rightarrow>
                              (let parts = split_on (\<lambda>c. c = CHR '';'') txt;
                                   game_mode = (if 8 < length parts then parts ! 8 else [])
                               in Some (game_mode \<in>
                                    {''Survival'', ''Creative'', ''Adventure'', ''Spectator''}))))
                  })
      })"

fun verify_response :: "udp_test_kind \<Rightarrow> byte list \<Rightarrow> bool option" where
  "verify_response Ntp r = verify_ntp_response r"
| "verify_response Dns r = verify_dns_response r"
| "verify_response Stun r = verify_stun_response r"
| "verify_response Mcbe r = verify_mcbe_response r"

section \<open>Targets\<close>

record udp_test_target =
  ut_kind :: udp_test_kind
  ut_host :: string
  ut_port :: u16

definition parse_host_and_port :: "string \<Rightarrow> udp_test_kind \<Rightarrow> string \<times> u16" where
  "parse_host_and_port v kind =
     (let default_port = default_target_port kind;
          plain = (case rsplit_once (CHR '':'') v of
                     Some (host, p) \<Rightarrow>
                       (if host \<noteq> []
                        then (case parse_u16 p of Some p \<Rightarrow> (host, p) | None \<Rightarrow> (v, default_port))
                        else (v, default_port))
                   | None \<Rightarrow> (v, default_port))
      in if v = [] then (default_target_host kind, default_port)
         else case strip_prefix ''['' v of
                None \<Rightarrow> plain
              | Some rest \<Rightarrow>
                  (case split_once (CHR '']'') rest of
                     None \<Rightarrow> plain
                   | Some (host, tail) \<Rightarrow>
                       (host, unwrap_or (Option.bind (strip_prefix '':'' tail) parse_u16) default_port)))"

definition parse_udp_test_target :: "string option \<Rightarrow> udp_test_target" where
  "parse_udp_test_target target =
     (let t = opt_filter (\<lambda>v. v \<noteq> []) (map_option trim target);
          (kind, host_port) =
            (case Option.bind t (split_once (CHR '':'')) of
               None \<Rightarrow> (Ntp, None)
             | Some (kind, host) \<Rightarrow> (kind_from_name kind, Some host));
          (host, p) = parse_host_and_port (unwrap_or host_port []) kind
      in \<lparr>ut_kind = kind, ut_host = host, ut_port = p\<rparr>)"

section \<open>SOCKS5 addresses\<close>

record socks5_remote_endpoint =
  re_host :: string
  re_port :: u16
  re_is_domain :: bool

fun ip_octets :: "ip_addr \<Rightarrow> byte list" where
  "ip_octets (V4 os) = map word_of_nat os"
| "ip_octets (V6 gs) = concat (map be16 gs)"

fun octet_pairs :: "byte list \<Rightarrow> nat list" where
  "octet_pairs (a # b # bs) = be_val [a, b] # octet_pairs bs"
| "octet_pairs bs = []"

definition ipv4_text :: "byte list \<Rightarrow> string" where
  "ipv4_text bs = show_ip (V4 (map unat bs))"

definition ipv6_text :: "byte list \<Rightarrow> string" where
  "ipv6_text bs = show_ip (V6 (octet_pairs bs))"

definition encode_socks5_address :: "string \<Rightarrow> u16 \<Rightarrow> byte list udp_result" where
  "encode_socks5_address host p =
     (case parse_ip host of
        Some (V4 os) \<Rightarrow> Inr (SOCKS5_ATYP_IPV4 # ip_octets (V4 os) @ be16 p)
      | Some (V6 gs) \<Rightarrow> Inr (SOCKS5_ATYP_IPV6 # ip_octets (V6 gs) @ be16 p)
      | None \<Rightarrow>
          (let bytes = as_bytes host in
           if length bytes \<le> 255
           then Inr (SOCKS5_ATYP_DOMAIN # word_of_nat (length bytes) # bytes @ be16 p)
           else Inl DomainTooLong))"

definition build_socks5_udp_packet :: "string \<Rightarrow> u16 \<Rightarrow> byte list \<Rightarrow> byte list udp_result" where
  "build_socks5_udp_packet host p data =
     bind_ok (encode_socks5_address host p) (\<lambda>a. Inr ([0x00, 0x00, 0x00] @ a @ data))"

text \<open>The port behind an address that ends at \<open>offset\<close>, and the offset behind it.\<close>

definition endpoint_at ::
    "byte list \<Rightarrow> nat \<Rightarrow> string \<Rightarrow> bool \<Rightarrow> (socks5_remote_endpoint \<times> nat) udp_result option" where
  "endpoint_at packet offset host domain =
     do {
       p \<leftarrow> be16_at packet offset;
       Some (Inr (\<lparr>re_host = host, re_port = p, re_is_domain = domain\<rparr>, offset + 2))
     }"

definition parse_socks5_address_from_packet ::
    "byte list \<Rightarrow> nat \<Rightarrow> (socks5_remote_endpoint \<times> nat) udp_result option" where
  "parse_socks5_address_from_packet packet offset =
     (if length packet \<le> offset then Some (Inl PacketTooShort)
      else do {
        atyp \<leftarrow> nth_opt packet offset;
        let offset = offset + 1;
        if atyp = SOCKS5_ATYP_IPV4
        then (if length packet < offset + 4 + 2 then Some (Inl PacketTooShort)
              else do {
                adr \<leftarrow> slice_opt packet offset (offset + 4);
                endpoint_at packet (offset + 4) (ipv4_text adr) False
              })
        else if atyp = SOCKS5_ATYP_IPV6
        then (if length packet < offset + 16 + 2 then Some (Inl PacketTooShort)
              else do {
                adr \<leftarrow> slice_opt packet offset (offset + 16);
                endpoint_at packet (offset + 16) (ipv6_text adr) False
              })
        else if atyp = SOCKS5_ATYP_DOMAIN
        then (if length packet \<le> offset then Some (Inl PacketTooShort)
              else do {
                len \<leftarrow> map_option unat (nth_opt packet offset);
                let offset = offset + 1;
                if length packet < offset + len + 2 then Some (Inl PacketTooShort)
                else do {
                  name \<leftarrow> slice_opt packet offset (offset + len);
                  endpoint_at packet (offset + len) (from_utf8_lossy name) True
                }
              })
        else Some (Inl (UnsupportedAddressType atyp))
      })"

definition parse_socks5_udp_packet ::
    "byte list \<Rightarrow> (socks5_remote_endpoint \<times> byte list) udp_result option" where
  "parse_socks5_udp_packet packet =
     (if length packet < 4 then Some (Inl PacketTooShort)
      else do {
        fragment \<leftarrow> nth_opt packet 2;
        if fragment \<noteq> 0x00 then Some (Inl FragmentUnsupported)
        else do {
          r \<leftarrow> parse_socks5_address_from_packet packet 3;
          (case r of
             Inl e \<Rightarrow> Some (Inl e)
           | Inr (remote, offset) \<Rightarrow>
               do { payload \<leftarrow> slice_opt packet offset (length packet); Some (Inr (remote, payload)) })
        }
      })"

section \<open>Addresses in a stream\<close>

text \<open>\<open>read_exact\<close>: the first \<open>n\<close> bytes of the stream and the rest, or the end of the stream.\<close>

definition read_exact :: "nat \<Rightarrow> byte list \<Rightarrow> (byte list \<times> byte list) udp_result" where
  "read_exact n s = (if length s < n then Inl UtIo else Inr (take n s, drop n s))"

definition read_port :: "byte list \<Rightarrow> (u16 \<times> byte list) udp_result" where
  "read_port s = bind_ok (read_exact 2 s) (\<lambda>(p, s). Inr (be_val p, s))"

definition read_endpoint ::
    "string \<Rightarrow> bool \<Rightarrow> byte list \<Rightarrow> (socks5_remote_endpoint \<times> byte list) udp_result" where
  "read_endpoint host domain s =
     bind_ok (read_port s)
       (\<lambda>(p, s). Inr (\<lparr>re_host = host, re_port = p, re_is_domain = domain\<rparr>, s))"

definition read_socks5_address :: "byte list \<Rightarrow> (socks5_remote_endpoint \<times> byte list) udp_result" where
  "read_socks5_address s =
     bind_ok (read_exact 1 s) (\<lambda>(atyp, s).
       if hd atyp = SOCKS5_ATYP_IPV4
       then bind_ok (read_exact 4 s) (\<lambda>(adr, s). read_endpoint (ipv4_text adr) False s)
       else if hd atyp = SOCKS5_ATYP_IPV6
       then bind_ok (read_exact 16 s) (\<lambda>(adr, s). read_endpoint (ipv6_text adr) False s)
       else if hd atyp = SOCKS5_ATYP_DOMAIN
       then bind_ok (read_exact 1 s) (\<lambda>(len, s).
              bind_ok (read_exact (unat (hd len)) s) (\<lambda>(name, s).
                read_endpoint (from_utf8_lossy name) True s))
       else Inl (UnsupportedAddressType (hd atyp)))"

section \<open>The channel\<close>

text \<open>
  The peer of the TCP connection: whether it can be reached and bound to, how many writes it
  takes before failing, what it sends, and its address.
\<close>

record tcp_peer =
  peer_connects :: bool
  peer_binds :: bool
  peer_writes :: nat
  peer_bytes :: "byte list"
  peer_ip :: "ip_addr option"

record socks5_udp_channel =
  socks5_host :: string
  socks5_tcp_port :: u16
  tcp_stream :: "byte list option"
  udp_socket :: bool
  relay_endpoint :: "(ip_addr \<times> u16) option"

definition new_channel :: "string \<Rightarrow> u16 \<Rightarrow> socks5_udp_channel" where
  "new_channel host p =
     \<lparr>socks5_host = host, socks5_tcp_port = p, tcp_stream = None, udp_socket = False, relay_endpoint = None\<rparr>"

definition relay_ip_of :: "tcp_peer \<Rightarrow> string \<Rightarrow> ip_addr udp_result" where
  "relay_ip_of peer host =
     (if host = ''0.0.0.0'' \<or> host = ''::''
      then (case peer_ip peer of Some ip \<Rightarrow> Inr ip | None \<Rightarrow> Inl UtIo)
      else (case parse_ip host of Some ip \<Rightarrow> Inr ip | None \<Rightarrow> Inl InvalidRelayAddress))"

definition associate_request :: "byte list udp_result" where
  "associate_request =
     bind_ok (encode_socks5_address ''0.0.0.0'' 0)
       (\<lambda>a. Inr ([SOCKS5_VERSION, SOCKS5_CMD_UDP_ASSOCIATE, 0x00] @ a))"

definition write_all :: "nat \<Rightarrow> tcp_peer \<Rightarrow> unit udp_result" where
  "write_all i peer = (if i < peer_writes peer then Inr () else Inl UtIo)"

definition establish_udp_association ::
    "tcp_peer \<Rightarrow> socks5_udp_channel \<Rightarrow> socks5_udp_channel udp_result" where
  "establish_udp_association peer ch =
     (if \<not> peer_connects peer \<or> \<not> peer_binds peer then Inl UtIo
      else
        bind_ok (write_all 0 peer) (\<lambda>_.
        bind_ok (read_exact 2 (peer_bytes peer)) (\<lambda>(handshake, s).
        if handshake \<noteq> [SOCKS5_VERSION, 0x00] then Inl SocksNoAuthRejected
        else
          bind_ok associate_request (\<lambda>request.
          bind_ok (write_all 1 peer) (\<lambda>_.
          bind_ok (read_exact 3 s) (\<lambda>(header, s).
          if header ! 0 \<noteq> SOCKS5_VERSION \<or> header ! 1 \<noteq> 0x00
          then Inl (SocksUdpAssociateRejected (header ! 1))
          else
            bind_ok (read_socks5_address s) (\<lambda>(relay, s).
            bind_ok (relay_ip_of peer (re_host relay)) (\<lambda>ip.
            Inr (ch\<lparr>relay_endpoint := Some (ip, re_port relay), udp_socket := True,
                    tcp_stream := Some s\<rparr>)))))))))"

text \<open>What is sent and to whom; the socket's own failure is the argument \<open>sends\<close>.\<close>

definition send_to_host ::
    "bool \<Rightarrow> socks5_udp_channel \<Rightarrow> string \<Rightarrow> u16 \<Rightarrow> byte list
       \<Rightarrow> ((ip_addr \<times> u16) \<times> byte list) udp_result" where
  "send_to_host sends ch host p data =
     (if \<not> udp_socket ch then Inl ChannelNotEstablished
      else case relay_endpoint ch of
             None \<Rightarrow> Inl ChannelNotEstablished
           | Some relay \<Rightarrow>
               bind_ok (build_socks5_udp_packet host p data)
                 (\<lambda>packet. if sends then Inr (relay, packet) else Inl UtIo))"

definition receive ::
    "socks5_udp_channel \<Rightarrow> byte list option
       \<Rightarrow> (socks5_remote_endpoint \<times> byte list) udp_result option" where
  "receive ch datagram =
     (if \<not> udp_socket ch then Some (Inl ChannelNotEstablished)
      else case datagram of
             None \<Rightarrow> Some (Inl UtIo)
           | Some d \<Rightarrow> parse_socks5_udp_packet (take 4096 d))"

section \<open>The probe\<close>

definition DURATION_MAX :: nat where
  "DURATION_MAX = 18446744073709551615 * 1000000000 + 999999999"

text \<open>One round trip: what the socket did, what came back, and the time it took.\<close>

record round_trip =
  rt_sends :: bool
  rt_datagram :: "byte list option"
  rt_elapsed :: nat

definition probe_attempt ::
    "udp_test_kind \<Rightarrow> socks5_udp_channel \<Rightarrow> udp_test_target \<Rightarrow> round_trip
       \<Rightarrow> (nat \<times> byte list) udp_result option" where
  "probe_attempt kind ch target rt =
     (case send_to_host (rt_sends rt) ch (ut_host target) (ut_port target) (build_request_packet kind) of
        Inl e \<Rightarrow> Some (Inl e)
      | Inr sent \<Rightarrow>
          map_option (\<lambda>r. bind_ok r (\<lambda>(remote, response). Inr (rt_elapsed rt, response)))
            (receive ch (rt_datagram rt)))"

text \<open>
  The loop over the attempts 0 and 1. The check of the first response ends its iteration
  early, which is where the iteration ends anyway.
\<close>

fun probe_loop ::
    "udp_test_kind \<Rightarrow> (nat \<Rightarrow> (nat \<times> byte list) udp_result option) \<Rightarrow> nat list \<Rightarrow> nat \<Rightarrow> byte list
       \<Rightarrow> (nat \<times> byte list) udp_result option" where
  "probe_loop kind attempt [] best last_response = Some (Inr (best, last_response))"
| "probe_loop kind attempt (i # rest) best last_response =
     do {
       r \<leftarrow> attempt i;
       (case r of
          Inl e \<Rightarrow> (if i = 0 then probe_loop kind attempt rest best last_response else Some (Inl e))
        | Inr (elapsed, response) \<Rightarrow>
            (let best = (if elapsed < best then elapsed else best) in
             if i = 0
             then do { verified \<leftarrow> verify_response kind response;
                       probe_loop kind attempt rest best response }
             else probe_loop kind attempt rest best response))
     }"

text \<open>Without the deadline; \<open>trips i\<close> is what happens in attempt \<open>i\<close>.\<close>

definition probe_all ::
    "udp_test_kind \<Rightarrow> tcp_peer \<Rightarrow> (nat \<Rightarrow> round_trip) \<Rightarrow> string \<Rightarrow> u16 \<Rightarrow> udp_test_target
       \<Rightarrow> nat udp_result option" where
  "probe_all kind peer trips host p target =
     (case establish_udp_association peer (new_channel host p) of
        Inl e \<Rightarrow> Some (Inl e)
      | Inr ch \<Rightarrow>
          do {
            r \<leftarrow> probe_loop kind (\<lambda>i. probe_attempt kind ch target (trips i)) [0, 1] DURATION_MAX [];
            (case r of
               Inl e \<Rightarrow> Some (Inl e)
             | Inr (best, last_response) \<Rightarrow>
                 do {
                   verified \<leftarrow> verify_response kind last_response;
                   Some (if verified then Inr best else Inl (ResponseVerificationFailed kind))
                 })
          })"

definition send_via_socks5 ::
    "nat option \<Rightarrow> udp_test_kind \<Rightarrow> tcp_peer \<Rightarrow> (nat \<Rightarrow> round_trip) \<Rightarrow> string \<Rightarrow> u16 \<Rightarrow> udp_test_target
       \<Rightarrow> nat udp_result option" where
  "send_via_socks5 expired kind peer trips host p target =
     (case expired of
        Some limit \<Rightarrow> Some (Inl (UtTimeout limit))
      | None \<Rightarrow> probe_all kind peer trips host p target)"

end
