(* ===== verification/UdpProps.thy ===== *)
theory UdpProps
  imports UdpTest
begin

text \<open>
  What holds of the UDP probes: packets are read back as they were built, no packet and no
  response makes a parser run out of range, the parser of datagrams accepts what the parser
  of the stream accepts, and the channel and the probe return a time only for the exchanges
  that deserve it.
\<close>

section \<open>Reading\<close>

lemma read_exact_Inr: "read_exact n s = Inr (a, r) \<longleftrightarrow> s = a @ r \<and> length a = n"
  by (auto simp: read_exact_def)

lemma read_exact_append [simp]: "length a = n \<Longrightarrow> read_exact n (a @ s) = Inr (a, s)"
  by (simp add: read_exact_Inr)

lemma read_exact_Cons [simp]: "read_exact 1 (b # s) = Inr ([b], s)" "read_exact (Suc 0) (b # s) = Inr ([b], s)"
  by (simp_all add: read_exact_Inr)

lemma read_port_be16 [simp]: "p < 65536 \<Longrightarrow> read_port (be16 p @ r) = Inr (p, r)"
  by (simp add: read_port_def)

lemma read_port_Inr: "read_port s = Inr (p, r) \<Longrightarrow> \<exists>a. s = a @ r \<and> length a = 2 \<and> p = be_val a"
  by (auto simp: read_port_def bind_ok_Inr read_exact_Inr)

lemma two_bytes_bound: "length a = 2 \<Longrightarrow> be_val a < 65536"
  using be_val_bound[of a] by simp

interpretation port_codec: codec be16 read_port "\<lambda>p. p < 65536"
proof unfold_locales
  fix bs p r assume "read_port bs = Inr (p, r)"
  from read_port_Inr[OF this] show "\<exists>a. a \<noteq> [] \<and> bs = a @ r" by force
qed simp

lemma read_endpoint_be16 [simp]:
  "p < 65536 \<Longrightarrow> read_endpoint host d (be16 p @ r) = Inr (\<lparr>re_host = host, re_port = p, re_is_domain = d\<rparr>, r)"
  by (simp add: read_endpoint_def)

lemma read_endpoint_Inr:
  "read_endpoint host d s = Inr (ep, r) \<Longrightarrow>
     \<exists>a. s = a @ r \<and> length a = 2 \<and> ep = \<lparr>re_host = host, re_port = be_val a, re_is_domain = d\<rparr>"
  by (auto simp: read_endpoint_def bind_ok_Inr dest!: read_port_Inr)

section \<open>Octets\<close>

lemma unat_octets: "\<forall>n \<in> set os. n < 256 \<Longrightarrow> map unat (map (word_of_nat :: nat \<Rightarrow> byte) os) = os"
  by (induction os) simp_all

lemma ipv4_text_octets: "ip_ok (V4 os) \<Longrightarrow> ipv4_text (ip_octets (V4 os)) = show_ip (V4 os)"
  by (simp add: ipv4_text_def unat_octets del: map_map)

lemma octet_pairs_be16: "\<forall>g \<in> set gs. g < 65536 \<Longrightarrow> octet_pairs (concat (map be16 gs)) = gs"
proof (induction gs)
  case (Cons g gs)
  have "octet_pairs (be16 g @ bs) = be_val (be16 g) # octet_pairs bs" for bs by (simp add: be16_def)
  then show ?case using Cons by simp
qed simp

lemma ipv6_text_octets: "ip_ok (V6 gs) \<Longrightarrow> ipv6_text (ip_octets (V6 gs)) = show_ip (V6 gs)"
  by (simp add: ipv6_text_def octet_pairs_be16)

lemma octets_length: "ip_ok ip \<Longrightarrow> length (ip_octets ip) = (case ip of V4 os \<Rightarrow> 4 | V6 gs \<Rightarrow> 16)"
  by (cases ip) (auto simp: length_concat comp_def sum_list_triv)

section \<open>Addresses\<close>

definition endpoint_for :: "string \<Rightarrow> u16 \<Rightarrow> socks5_remote_endpoint" where
  "endpoint_for host p =
     \<lparr>re_host = (case parse_ip host of Some ip \<Rightarrow> show_ip ip | None \<Rightarrow> host), re_port = p,
      re_is_domain = (parse_ip host = None)\<rparr>"

definition sendable_target :: "string \<Rightarrow> u16 \<Rightarrow> bool" where
  "sendable_target host p \<longleftrightarrow>
     p < 65536 \<and> utf8_valid (as_bytes host) \<and> (parse_ip host = None \<longrightarrow> length host \<le> 255)"

lemma atyps [simp]:
  "SOCKS5_ATYP_IPV6 \<noteq> SOCKS5_ATYP_IPV4" "SOCKS5_ATYP_DOMAIN \<noteq> SOCKS5_ATYP_IPV4"
  "SOCKS5_ATYP_DOMAIN \<noteq> SOCKS5_ATYP_IPV6"
  by (simp_all add: SOCKS5_ATYP_IPV4_def SOCKS5_ATYP_IPV6_def SOCKS5_ATYP_DOMAIN_def)

lemma lossy_as_bytes: "utf8_valid (as_bytes host) \<Longrightarrow> from_utf8_lossy (as_bytes host) = host"
  by (simp add: from_utf8_lossy_def utf8_lossy_valid)

lemma encode_error:
  "encode_socks5_address host p = Inl e \<longleftrightarrow> parse_ip host = None \<and> 255 < length host \<and> e = DomainTooLong"
  by (auto simp: encode_socks5_address_def Let_def split: option.split ip_addr.split)

lemma read_encoded:
  assumes "encode_socks5_address host p = Inr a" and "p < 65536" and "utf8_valid (as_bytes host)"
  shows "read_socks5_address (a @ r) = Inr (endpoint_for host p, r)"
proof (cases "parse_ip host")
  case None
  then have len: "length host < 256" and a: "a = SOCKS5_ATYP_DOMAIN # word_of_nat (length host) # as_bytes host @ be16 p"
    using assms(1) by (auto simp: encode_socks5_address_def Let_def split: if_splits)
  show ?thesis
    using len assms(2,3) None
    by (simp add: a read_socks5_address_def endpoint_for_def lossy_as_bytes)
next
  case (Some ip)
  then have ok: "ip_ok ip" by (rule parse_ip_ok)
  show ?thesis
  proof (cases ip)
    case (V4 os)
    have a: "a = SOCKS5_ATYP_IPV4 # ip_octets (V4 os) @ be16 p"
      using assms(1) Some V4 by (simp add: encode_socks5_address_def)
    show ?thesis
      using ok octets_length[OF ok] assms(2) Some unfolding V4
      by (simp add: a read_socks5_address_def endpoint_for_def ipv4_text_octets
          del: ip_octets.simps ip_ok.simps show_ip.simps)
  next
    case (V6 gs)
    have a: "a = SOCKS5_ATYP_IPV6 # ip_octets (V6 gs) @ be16 p"
      using assms(1) Some V6 by (simp add: encode_socks5_address_def)
    show ?thesis
      using ok octets_length[OF ok] assms(2) Some unfolding V6
      by (simp add: a read_socks5_address_def endpoint_for_def ipv6_text_octets
          del: ip_octets.simps ip_ok.simps show_ip.simps)
  qed
qed

text \<open>What a successful read has consumed.\<close>

lemma read_address_prefix:
  assumes "read_socks5_address s = Inr (ep, r)"
  shows "re_port ep < 65536 \<and> (\<exists>p. s = p @ r \<and> 4 \<le> length p)"
proof -
  obtain t s1 where s: "s = t # s1"
    and "if t = SOCKS5_ATYP_IPV4
       then bind_ok (read_exact 4 s1) (\<lambda>(adr, s). read_endpoint (ipv4_text adr) False s) = Inr (ep, r)
       else if t = SOCKS5_ATYP_IPV6
       then bind_ok (read_exact 16 s1) (\<lambda>(adr, s). read_endpoint (ipv6_text adr) False s) = Inr (ep, r)
       else if t = SOCKS5_ATYP_DOMAIN
       then bind_ok (read_exact 1 s1) (\<lambda>(len, s). bind_ok (read_exact (unat (hd len)) s)
              (\<lambda>(name, s). read_endpoint (from_utf8_lossy name) True s)) = Inr (ep, r)
       else False"
    using assms by (cases s) (auto simp: read_socks5_address_def read_exact_def split: if_splits)
  then show ?thesis
    by (auto simp: bind_ok_Inr read_exact_Inr length_Suc_conv two_bytes_bound numeral_2_eq_2
        dest!: read_endpoint_Inr split: if_splits)
qed

definition address_ok :: "socks5_remote_endpoint \<Rightarrow> bool" where
  "address_ok ep \<longleftrightarrow> sendable_target (re_host ep) (re_port ep) \<and> endpoint_for (re_host ep) (re_port ep) = ep"

definition encode_endpoint :: "socks5_remote_endpoint \<Rightarrow> byte list" where
  "encode_endpoint ep = (case encode_socks5_address (re_host ep) (re_port ep) of Inr a \<Rightarrow> a | Inl e \<Rightarrow> [])"

interpretation address_codec: codec encode_endpoint read_socks5_address address_ok
proof unfold_locales
  fix ep r assume ok: "address_ok ep"
  then obtain a where a: "encode_socks5_address (re_host ep) (re_port ep) = Inr a"
    by (cases "encode_socks5_address (re_host ep) (re_port ep)")
      (auto simp: address_ok_def sendable_target_def encode_error)
  have "read_socks5_address (a @ r) = Inr (endpoint_for (re_host ep) (re_port ep), r)"
    by (rule read_encoded[OF a]) (use ok in \<open>auto simp: address_ok_def sendable_target_def\<close>)
  then show "read_socks5_address (encode_endpoint ep @ r) = Inr (ep, r)"
    using a ok by (simp add: encode_endpoint_def address_ok_def)
next
  fix bs ep r assume "read_socks5_address bs = Inr (ep, r)"
  from read_address_prefix[OF this] show "\<exists>p. p \<noteq> [] \<and> bs = p @ r" by force
qed

section \<open>Datagrams\<close>

lemma read_exact_drop:
  "read_exact n (drop i s) = (if length s - i < n then Inl UtIo else Inr (take n (drop i s), drop (n + i) s))"
  by (simp add: read_exact_def)

lemma be16_at_drop: "i + 2 \<le> length s \<Longrightarrow> be16_at s i = Some (be_val (take 2 (drop i s)))"
proof -
  assume l: "i + 2 \<le> length s"
  then have "drop i s = s ! i # s ! Suc i # drop (Suc (Suc i)) s"
    by (simp add: Cons_nth_drop_Suc)
  then show ?thesis using l by (simp add: be16_at_def numeral_2_eq_2)
qed

lemma endpoint_at_drop:
  "i + 2 \<le> length s \<Longrightarrow> endpoint_at s i host d =
     Some (Inr (\<lparr>re_host = host, re_port = be_val (take 2 (drop i s)), re_is_domain = d\<rparr>, i + 2))"
  by (simp add: endpoint_at_def be16_at_drop)

lemma read_endpoint_drop:
  "read_endpoint host d (drop i s) =
     (if length s - i < 2 then Inl UtIo
      else Inr (\<lparr>re_host = host, re_port = be_val (take 2 (drop i s)), re_is_domain = d\<rparr>, drop (2 + i) s))"
  by (simp add: read_endpoint_def read_port_def read_exact_drop)

text \<open>The stream parser on the bytes behind the offset, its end of stream told as a short packet.\<close>

definition as_packet_result ::
    "nat \<Rightarrow> (socks5_remote_endpoint \<times> byte list) udp_result \<Rightarrow> (socks5_remote_endpoint \<times> nat) udp_result" where
  "as_packet_result n r =
     (case r of Inr (ep, rest) \<Rightarrow> Inr (ep, n - length rest)
      | Inl e \<Rightarrow> Inl (if e = UtIo then PacketTooShort else e))"

lemma packet_address_eq:
  "parse_socks5_address_from_packet packet i =
     Some (as_packet_result (length packet) (read_socks5_address (drop i packet)))"
proof (cases "i < length packet")
  case False
  then show ?thesis
    by (simp add: parse_socks5_address_from_packet_def read_socks5_address_def read_exact_def as_packet_result_def)
next
  case True
  let ?s = "drop (Suc i) packet"
  have s: "drop i packet = packet ! i # ?s" using True by (simp add: Cons_nth_drop_Suc)
  consider (v4) "packet ! i = SOCKS5_ATYP_IPV4" | (v6) "packet ! i = SOCKS5_ATYP_IPV6"
    | (domain) "packet ! i = SOCKS5_ATYP_DOMAIN"
    | (other) "packet ! i \<notin> {SOCKS5_ATYP_IPV4, SOCKS5_ATYP_IPV6, SOCKS5_ATYP_DOMAIN}" by blast
  then show ?thesis
  proof cases
    case v4
    then show ?thesis
      using True
      by (auto simp: parse_socks5_address_from_packet_def read_socks5_address_def s read_exact_drop
          read_endpoint_drop endpoint_at_drop as_packet_result_def add.commute)
  next
    case v6
    then show ?thesis
      using True
      by (auto simp: parse_socks5_address_from_packet_def read_socks5_address_def s read_exact_drop
          read_endpoint_drop endpoint_at_drop as_packet_result_def add.commute)
  next
    case other
    then show ?thesis
      using True by (simp add: parse_socks5_address_from_packet_def read_socks5_address_def s as_packet_result_def)
  next
    case domain
    show ?thesis
    proof (cases "Suc i < length packet")
      case False
      then show ?thesis
        using True domain
        by (simp add: parse_socks5_address_from_packet_def read_socks5_address_def s read_exact_def
            as_packet_result_def)
    next
      case len: True
      have "?s = packet ! Suc i # drop (Suc (Suc i)) packet" using len by (simp add: Cons_nth_drop_Suc)
      then show ?thesis
        using True len domain
        by (auto simp: parse_socks5_address_from_packet_def read_socks5_address_def s read_exact_drop
            read_endpoint_drop endpoint_at_drop as_packet_result_def add.commute)
    qed
  qed
qed

lemma parse_packet_eq:
  "parse_socks5_udp_packet packet =
     (if length packet < 4 then Some (Inl PacketTooShort)
      else if packet ! 2 \<noteq> 0 then Some (Inl FragmentUnsupported)
      else Some (case read_socks5_address (drop 3 packet) of
             Inr (ep, rest) \<Rightarrow> Inr (ep, rest) | Inl e \<Rightarrow> Inl (if e = UtIo then PacketTooShort else e)))"
proof -
  have "drop (length packet - length rest) packet = rest" "length rest \<le> length packet"
    if r: "read_socks5_address (drop 3 packet) = Inr (ep, rest)" for ep rest
  proof -
    obtain p where "drop 3 packet = p @ rest" using read_address_prefix[OF r] by blast
    then obtain q where q: "packet = q @ rest" by (metis append_assoc append_take_drop_id)
    then show "drop (length packet - length rest) packet = rest" "length rest \<le> length packet" by simp_all
  qed
  then show ?thesis
    by (auto simp: parse_socks5_udp_packet_def packet_address_eq as_packet_result_def split: sum.split)
qed

text \<open>
  C23: the parser of datagrams, which works with offsets into the packet, agrees with reading the
  packet as a TCP stream behind its three leading bytes: the same endpoint, the payload exactly what
  the stream reader leaves, the same error, a short packet where the stream ends too early. It
  never runs out of range.
\<close>

theorem packet_parser_agrees:
  "parse_socks5_udp_packet packet =
     Some (if length packet < 4 then Inl PacketTooShort
       else if packet ! 2 \<noteq> 0 then Inl FragmentUnsupported
       else case read_socks5_address (drop 3 packet) of
              Inr (ep, payload) \<Rightarrow> Inr (ep, payload)
            | Inl e \<Rightarrow> Inl (if e = UtIo then PacketTooShort else e))"
  by (simp add: parse_packet_eq)

text \<open>
  C24: a packet built for a target is read back as that target and the same payload: a domain
  name as it was, an IP address as its canonical text, which denotes the same address. The
  packet cannot be built exactly for domain names of more than 255 bytes.
\<close>

theorem socks5_packet_roundtrip:
  assumes "p < 65536" and "utf8_valid (as_bytes host)"
  shows "case build_socks5_udp_packet host p data of
      Inr packet \<Rightarrow>
        parse_socks5_udp_packet packet = Some (Inr (endpoint_for host p, data))
        \<and> length packet \<le> length data + 262
        \<and> (\<forall>ip. parse_ip host = Some ip \<longrightarrow> parse_ip (re_host (endpoint_for host p)) = Some ip)
    | Inl e \<Rightarrow> e = DomainTooLong \<and> parse_ip host = None \<and> 255 < length host"
proof (cases "encode_socks5_address host p")
  case (Inl e)
  then have "parse_ip host = None \<and> 255 < length host \<and> e = DomainTooLong" by (simp only: encode_error)
  then show ?thesis by (simp add: build_socks5_udp_packet_def Inl)
next
  case (Inr a)
  then have b: "build_socks5_udp_packet host p data = Inr ([0, 0, 0] @ a @ data)"
    by (simp add: build_socks5_udp_packet_def)
  have r: "read_socks5_address (a @ data) = Inr (endpoint_for host p, data)"
    by (rule read_encoded[OF Inr assms])
  obtain x where "a = x @ []" "4 \<le> length x"
    using read_address_prefix[OF read_encoded[OF Inr assms, of "[]", simplified]] by blast
  then have "4 \<le> length a" by simp
  moreover have "length a \<le> 259"
    using Inr parse_ip_ok[of host] octets_length
    by (auto simp: encode_socks5_address_def Let_def length_concat comp_def sum_list_triv
        split: option.splits ip_addr.splits if_splits)
  moreover have "parse_ip (re_host (endpoint_for host p)) = Some ip" if "parse_ip host = Some ip" for ip
    using that parse_show_ip[OF parse_ip_ok[OF that]] by (simp add: endpoint_for_def)
  moreover have "parse_socks5_udp_packet ([0, 0, 0] @ a @ data) = Some (Inr (endpoint_for host p, data))"
    using \<open>4 \<le> length a\<close> r by (auto simp: parse_packet_eq)
  ultimately show ?thesis unfolding b by simp
qed

lemma socks5_packet_roundtrip_witness:
  "\<exists>packet. build_socks5_udp_packet ''2001:db8::1'' 8081 [1, 2] = Inr packet
     \<and> parse_socks5_udp_packet packet
         = Some (Inr (\<lparr>re_host = ''2001:db8::1'', re_port = 8081, re_is_domain = False\<rparr>, [1, 2]))"
proof -
  have "utf8_valid (as_bytes ''2001:db8::1'')" by code_simp
  moreover have "endpoint_for ''2001:db8::1'' 8081 = \<lparr>re_host = ''2001:db8::1'', re_port = 8081, re_is_domain = False\<rparr>"
    "isl (build_socks5_udp_packet ''2001:db8::1'' 8081 [1, 2]) = False" by code_simp+
  ultimately show ?thesis
    using socks5_packet_roundtrip[of 8081 "''2001:db8::1''" "[1, 2]"]
    by (cases "build_socks5_udp_packet ''2001:db8::1'' 8081 [1, 2]") auto
qed

text \<open>
  C28: whatever bytes arrive, the packet parser answers: it never indexes out of range. What it
  accepts has a port in range, and the payload is the end of the packet behind a header of at
  least seven bytes.
\<close>

theorem packet_parser_total:
  "\<exists>r. parse_socks5_udp_packet packet = Some r
     \<and> (case r of Inr (ep, data) \<Rightarrow>
           re_port ep < 65536 \<and> (\<exists>header. packet = header @ data \<and> 7 \<le> length header)
         | Inl e \<Rightarrow> e = PacketTooShort \<or> e = FragmentUnsupported \<or> (\<exists>b. e = UnsupportedAddressType b))"
proof -
  have "re_port ep < 65536 \<and> (\<exists>header. packet = header @ rest \<and> 7 \<le> length header)"
    if l: "\<not> length packet < 4" and r: "read_socks5_address (drop 3 packet) = Inr (ep, rest)" for ep rest
  proof -
    obtain x where x: "re_port ep < 65536" "drop 3 packet = x @ rest" "4 \<le> length x"
      using read_address_prefix[OF r] by blast
    then have "packet = (take 3 packet @ x) @ rest" by (metis append_assoc append_take_drop_id)
    then show ?thesis using x l by (intro conjI exI[of _ "take 3 packet @ x"]) simp_all
  qed
  moreover have "e = UtIo \<or> (\<exists>b. e = UnsupportedAddressType b)" if "read_socks5_address s = Inl e" for s e
    using that
    by (auto simp: read_socks5_address_def read_endpoint_def read_port_def bind_ok_Inl read_exact_def split: if_splits)
  ultimately show ?thesis by (auto simp: parse_packet_eq split: sum.split)
qed

text \<open>
  packets for different targets are different: two packets that coincide were built for
  the same endpoint and payload.
\<close>

theorem packets_unambiguous:
  assumes "address_ok a" and "address_ok b"
    and "build_socks5_udp_packet (re_host a) (re_port a) x = build_socks5_udp_packet (re_host b) (re_port b) y"
  shows "a = b \<and> x = y"
proof -
  have "build_socks5_udp_packet (re_host ep) (re_port ep) d = Inr ([0, 0, 0] @ encode_endpoint ep @ d)"
    if "address_ok ep" for ep d
    using that
    by (cases "encode_socks5_address (re_host ep) (re_port ep)")
      (auto simp: build_socks5_udp_packet_def encode_endpoint_def address_ok_def sendable_target_def encode_error)
  then have "encode_endpoint a @ x = encode_endpoint b @ y" using assms by simp
  then show ?thesis by (rule address_codec.enc_unambiguous[OF assms(1,2)])
qed

lemma packets_unambiguous_witness:
  "address_ok \<lparr>re_host = ''example.com'', re_port = 53, re_is_domain = True\<rparr>
   \<and> ([1 :: byte] = [1])"
proof -
  let ?a = "\<lparr>re_host = ''example.com'', re_port = 53, re_is_domain = True\<rparr>"
  have ok: "address_ok ?a" by code_simp
  have "?a = ?a \<and> [1 :: byte] = [1]" by (rule packets_unambiguous[OF ok ok refl])
  then show ?thesis using ok by blast
qed

section \<open>Responses\<close>

lemma be16_at_in: "i + 1 < length r \<Longrightarrow> \<exists>n. be16_at r i = Some n"
  by (simp add: be16_at_def)

lemma verify_total: "verify_response kind r \<noteq> None"
proof (cases kind)
  case Ntp
  then show ?thesis by (auto simp: verify_ntp_response_def nth_opt_def)
next
  case Dns
  then show ?thesis by (auto simp: verify_dns_response_def be16_at_def nth_opt_def)
next
  case Stun
  then show ?thesis by (auto simp: verify_stun_response_def be16_at_def nth_opt_def)
next
  case Mcbe
  then show ?thesis
    unfolding Mcbe verify_response.simps verify_mcbe_response_def
    by (auto simp: nth_opt_def be16_at_def Let_def simp del: not_None_eq
        intro!: bind_total split: option.split dest: slice_opt_length)
qed

text \<open>
  the check of a response answers for every response, of any length and content, without
  reading out of range; and no probe takes its own request, sent back to it, for an answer.
\<close>

theorem response_check_total:
  "(\<exists>b. verify_response kind response = Some b)
   \<and> verify_response kind (build_request_packet kind) = Some False"
proof
  show "\<exists>b. verify_response kind response = Some b" using verify_total by blast
  show "verify_response kind (build_request_packet kind) = Some False" by (cases kind) (simp_all only:, code_simp+)
qed

section \<open>The channel\<close>

lemma associate_request_value: "associate_request = Inr [5, 3, 0, 1, 0, 0, 0, 0, 0, 0]"
  by code_simp

text \<open>
  The association succeeds exactly if the peer can be reached, takes both messages, and
  answers with the method without authentication, a success reply and an address; the relay is
  then that address, or the peer's own where the reply leaves it open, and nothing else of the
  channel changes.
\<close>

theorem association_iff:
  "establish_udp_association peer ch = Inr ch' \<longleftrightarrow>
     peer_connects peer \<and> peer_binds peer \<and> 2 \<le> peer_writes peer
     \<and> (\<exists>reserved s relay rest ip.
          peer_bytes peer = [SOCKS5_VERSION, 0, SOCKS5_VERSION, 0, reserved] @ s
          \<and> read_socks5_address s = Inr (relay, rest)
          \<and> relay_ip_of peer (re_host relay) = Inr ip
          \<and> ch' = ch\<lparr>relay_endpoint := Some (ip, re_port relay), udp_socket := True, tcp_stream := Some rest\<rparr>)"
  (is "?l \<longleftrightarrow> ?r")
proof
  have three: "length xs = 3 \<longleftrightarrow> (\<exists>a b c. xs = [a, b, c])" for xs :: "byte list"
    by (auto simp: length_Suc_conv numeral_3_eq_3)
  have w: "write_all 0 peer = Inr () \<longleftrightarrow> 0 < peer_writes peer" "write_all (Suc 0) peer = Inr () \<longleftrightarrow> 2 \<le> peer_writes peer"
    by (simp_all add: write_all_def Suc_le_eq numeral_2_eq_2)
  assume ?l
  then show ?r
    unfolding establish_udp_association_def
    by (auto simp: bind_ok_Inr read_exact_Inr w associate_request_value three split: if_splits)
next
  assume ?r
  then show ?l
    by (auto simp: establish_udp_association_def read_exact_def write_all_def associate_request_value)
qed

text \<open>
  on a channel that has not been established nothing is sent and nothing received: both
  report the missing association, whatever the socket would have done.
\<close>

theorem unestablished_channel:
  "send_to_host sends (new_channel host p) target q data = Inl ChannelNotEstablished
   \<and> receive (new_channel host p) datagram = Some (Inl ChannelNotEstablished)"
  by (simp add: send_to_host_def receive_def new_channel_def)

section \<open>The probe\<close>

text \<open>
  C29: the probe's result depends on its second exchange: it is a time exactly if the channel
  was established and the second exchange brought a response that passes the check, and the
  time is the shorter one of the two exchanges that brought a response at all. A first
  exchange that fails is ignored; the probe always answers.
\<close>

theorem probe_result:
  assumes "establish_udp_association peer (new_channel host p) = Inr ch"
    and "\<And>i. rt_elapsed (trips i) \<le> DURATION_MAX"
  shows "\<exists>r0 r1. probe_attempt kind ch target (trips 0) = Some r0
     \<and> probe_attempt kind ch target (trips 1) = Some r1
     \<and> probe_all kind peer trips host p target = Some
          (case r1 of
             Inl e \<Rightarrow> Inl e
           | Inr (t1, response) \<Rightarrow>
               if verify_response kind response = Some True
               then Inr (case r0 of Inl e \<Rightarrow> t1 | Inr (t0, first) \<Rightarrow> min t0 t1)
               else Inl (ResponseVerificationFailed kind))"
proof -
  have "probe_attempt kind ch target rt \<noteq> None" for rt
    by (auto simp: probe_attempt_def receive_def parse_packet_eq split: sum.split option.split)
  then obtain r0 r1 where r: "probe_attempt kind ch target (trips 0) = Some r0"
    "probe_attempt kind ch target (trips 1) = Some r1" by blast
  note r' = r(1) r(2)[unfolded One_nat_def]
  have bound: "t \<le> DURATION_MAX" if "probe_attempt kind ch target (trips i) = Some (Inr (t, d))" for i t d
    using that assms(2)[of i] by (auto simp: probe_attempt_def bind_ok_Inr split: sum.splits)
  show ?thesis
  proof (intro exI conjI)
    show "probe_attempt kind ch target (trips 0) = Some r0" "probe_attempt kind ch target (trips 1) = Some r1"
      by (fact r)+
    have best: "(if t < DURATION_MAX then t else DURATION_MAX) = t" if "t \<le> DURATION_MAX" for t using that by simp
    have v: "\<exists>b. verify_response kind d = Some b" for d using verify_total by blast
    show "probe_all kind peer trips host p target = Some
          (case r1 of
             Inl e \<Rightarrow> Inl e
           | Inr (t1, response) \<Rightarrow>
               if verify_response kind response = Some True
               then Inr (case r0 of Inl e \<Rightarrow> t1 | Inr (t0, first) \<Rightarrow> min t0 t1)
               else Inl (ResponseVerificationFailed kind))"
    proof (cases r1)
      case (Inl e)
      show ?thesis
      proof (cases r0)
        case (Inr x)
        obtain t0 d0 where x: "x = (t0, d0)" by fastforce
        show ?thesis using v[of d0] by (auto simp: probe_all_def assms(1) r' Inl Inr x Let_def)
      qed (simp add: probe_all_def assms(1) r' Inl)
    next
      case (Inr y)
      obtain t1 d1 where y: "y = (t1, d1)" by fastforce
      have t1: "t1 \<le> DURATION_MAX" using bound[of 1] r(2) by (simp add: Inr y)
      show ?thesis
      proof (cases r0)
        case (Inl e)
        show ?thesis using v[of d1] best[OF t1] by (auto simp: probe_all_def assms(1) r' Inl Inr y Let_def)
      next
        case (Inr x)
        obtain t0 d0 where x: "x = (t0, d0)" by fastforce
        have t0: "t0 \<le> DURATION_MAX" using bound[of 0] r(1) by (simp add: Inr x)
        show ?thesis
          using v[of d0] v[of d1] best[OF t0] t1
          by (auto simp: probe_all_def assms(1) r' Inr x y Let_def min_def \<open>r1 = Inr y\<close>)
      qed
    qed
  qed
qed

definition sample_peer :: tcp_peer where
  "sample_peer = \<lparr>peer_connects = True, peer_binds = True, peer_writes = 2,
     peer_bytes = [5, 0, 5, 0, 0, 1, 127, 0, 0, 1, 4, 56], peer_ip = Some (V4 [127, 0, 0, 1])\<rparr>"

definition sample_trip :: "nat \<Rightarrow> round_trip" where
  "sample_trip i = \<lparr>rt_sends = True,
     rt_datagram = Some ([0, 0, 0, 1, 8, 8, 8, 8, 0, 53, 0x12, 0x34, 0x81, 0x80, 0, 1, 0, 1, 0, 0, 0, 0]),
     rt_elapsed = (if i = 0 then 30 else 20)\<rparr>"

definition sample_target :: udp_test_target where
  "sample_target = \<lparr>ut_kind = Dns, ut_host = ''8.8.8.8'', ut_port = 53\<rparr>"

lemma probe_result_witness:
  "probe_all Dns sample_peer sample_trip ''127.0.0.1'' 1080 sample_target = Some (Inr 20)"
proof -
  have "\<not> isl (establish_udp_association sample_peer (new_channel ''127.0.0.1'' 1080))" by code_simp
  then obtain ch where ch: "establish_udp_association sample_peer (new_channel ''127.0.0.1'' 1080) = Inr ch"
    by (cases "establish_udp_association sample_peer (new_channel ''127.0.0.1'' 1080)") auto
  have e: "rt_elapsed (sample_trip i) \<le> DURATION_MAX" for i by (simp add: sample_trip_def DURATION_MAX_def)
  have "probe_all Dns sample_peer sample_trip ''127.0.0.1'' 1080 sample_target = Some (Inr 20)" by code_simp
  then show ?thesis using probe_result[OF ch e, of Dns sample_target] by blast
qed

section \<open>Targets\<close>

lemma parse_u16_show:
  assumes "p \<le> 65535"
  shows "parse_u16 (show_nat p) = Some p"
proof (cases "show_nat p")
  case (Cons c cs)
  then have "c \<noteq> CHR ''+''" using show_nat_digits[of p] by (auto simp: is_ascii_digit_def)
  then have "parse_unsigned 65535 (c # cs) = Some p"
    using assms parse_show_nat[of p] by (simp add: parse_unsigned_def Cons)
  then show ?thesis by (simp add: parse_u16_def Cons)
qed simp

text \<open>
  a target written as kind, host and port, the host of an IPv6 address in brackets, is
  parsed as that kind, host and port.
\<close>

theorem target_roundtrip:
  assumes "p < 65536" and "host \<noteq> []" and "CHR ''['' \<notin> set host" "CHR '']'' \<notin> set host"
    and "trim (kind_name kind @ '':'' @ txt) = kind_name kind @ '':'' @ txt"
    and "txt = host @ '':'' @ show_nat p \<or> txt = ''['' @ host @ '']:'' @ show_nat p"
  shows "parse_udp_test_target (Some (kind_name kind @ '':'' @ txt))
     = \<lparr>ut_kind = kind, ut_host = host, ut_port = p\<rparr>"
proof -
  have k: "kind_from_name (kind_name kind) = kind" by (cases kind) (simp_all only:, code_simp+)
  have no: "CHR '':'' \<notin> set (kind_name kind)" by (cases kind) simp_all
  have split: "split_once (CHR '':'') (kind_name kind @ '':'' @ txt) = Some (kind_name kind, txt)"
    using no by (simp add: split_once_Some)
  have no_colon: "CHR '':'' \<notin> set (show_nat p)" by (rule show_nat_no) (simp add: is_ascii_digit_def)
  have port: "parse_u16 (show_nat p) = Some p" by (rule parse_u16_show) (use assms(1) in simp)
  have "parse_host_and_port txt kind = (host, p)"
    using assms(6)
  proof
    assume t: "txt = host @ '':'' @ show_nat p"
    have "rsplit_once (CHR '':'') txt = Some (host, show_nat p)" using no_colon by (simp add: t rsplit_once_Some)
    moreover have "strip_prefix ''['' txt = None" using assms(2,3) by (cases host) (auto simp: t)
    ultimately show ?thesis using assms(2) port by (simp add: parse_host_and_port_def t)
  next
    assume t: "txt = ''['' @ host @ '']:'' @ show_nat p"
    have "split_once (CHR '']'') (host @ '']:'' @ show_nat p) = Some (host, '':'' @ show_nat p)"
      using assms(4) by (simp add: split_once_Some)
    then show ?thesis using port by (simp add: parse_host_and_port_def t)
  qed
  then show ?thesis
    using k split assms(5) by (simp add: parse_udp_test_target_def opt_filter_def)
qed

lemma target_roundtrip_witness:
  "parse_udp_test_target (Some ''stun:[2001:db8::1]:3479'')
     = \<lparr>ut_kind = Stun, ut_host = ''2001:db8::1'', ut_port = 3479\<rparr>"
proof -
  let ?t = "''['' @ ''2001:db8::1'' @ '']:'' @ show_nat 3479"
  have t: "kind_name Stun @ '':'' @ ?t = ''stun:[2001:db8::1]:3479''" by code_simp
  moreover have "trim (kind_name Stun @ '':'' @ ?t) = kind_name Stun @ '':'' @ ?t" by code_simp
  ultimately show ?thesis using target_roundtrip[of 3479 "''2001:db8::1''" Stun ?t] by simp
qed

end
