(* ===== verification/Process.thy ===== *)
theory Process
  imports VoyaPrelude
begin

text \<open>
  \<open>voya-platform/src/process.rs\<close>, \<open>elevation.rs\<close> and the launcher paths of \<open>privilege.rs\<close>:
  command lines, spawn requests, the wrapping of a spawn by the passwordless launcher, and
  \<open>StdProcessRunner\<close> over an operating system that may do anything. The system is an
  \<open>oracle\<close>: an arbitrary answer for every call, saying which processes have ended on their
  own by then, whether the call succeeds, which process identifier a spawn gets and what a
  one-shot command printed and killed. Spawns of the supervisor have neither standard input
  nor generated scripts, so these two fields are left out; poisoned locks are left out too.
\<close>

section \<open>Requests and handles\<close>

datatype target_os = Os_Windows | Os_Linux | Os_Macos | Os_Other

datatype process_role = Role_Main | Role_Pre | Role_SudoKill | Role_SysProxy | Role_Probe | Role_Autostart

record process_handle =
  ph_id :: nat
  ph_role :: process_role

record core_launch =
  cl_executable :: string
  cl_arguments :: string
  cl_working_dir :: string
  cl_environment :: "(string, string) btree_map"

record process_spawn =
  ps_role :: process_role
  ps_executable :: string
  ps_arguments :: "string list"
  ps_working_dir :: string
  ps_environment :: "(string, string) btree_map"
  ps_display_log :: bool

record process_output =
  po_status_code :: "int option"
  po_stdout :: string
  po_stderr :: string

datatype process_error =
  Pe_Spawn string | Pe_Wait | Pe_Stop | Pe_ArgumentParse string | Pe_Job

definition process_spawn_new :: "process_role \<Rightarrow> string \<Rightarrow> process_spawn" where
  "process_spawn_new r e =
     \<lparr>ps_role = r, ps_executable = e, ps_arguments = [], ps_working_dir = [], ps_environment = [],
      ps_display_log = True\<rparr>"

section \<open>Command lines\<close>

text \<open>The characters of a string, each as the bytes that encode it.\<close>

definition continues_char :: "char \<Rightarrow> bool" where
  "continues_char c \<longleftrightarrow> 128 \<le> byte_of c \<and> byte_of c < 192"

function chars_of :: "string \<Rightarrow> string list" where
  "chars_of [] = []"
| "chars_of (c # cs) = (c # takeWhile continues_char cs) # chars_of (dropWhile continues_char cs)"
  by pat_completeness auto
termination by (relation "measure length") (auto simp: le_imp_less_Suc length_dropWhile_le)

record split_state =
  sl_args :: "string list"
  sl_current :: string
  sl_quote :: "string option"
  sl_escaped :: bool
  sl_saw_token :: bool

definition quote_char :: "string \<Rightarrow> bool" where
  "quote_char c \<longleftrightarrow> c = [CHR 0x27] \<or> c = [CHR 0x22]"

definition split_push :: "string \<Rightarrow> split_state \<Rightarrow> split_state" where
  "split_push c s = s\<lparr>sl_current := sl_current s @ c, sl_saw_token := True\<rparr>"

definition split_step :: "string \<Rightarrow> split_state \<Rightarrow> split_state" where
  "split_step c s =
     (if sl_escaped s then (split_push c s)\<lparr>sl_escaped := False\<rparr>
      else if c = [CHR 0x5C] then s\<lparr>sl_escaped := True, sl_saw_token := True\<rparr>
      else case sl_quote s of
             Some q \<Rightarrow> (if c = q then s\<lparr>sl_quote := None, sl_saw_token := True\<rparr> else split_push c s)
           | None \<Rightarrow>
               (if quote_char c then s\<lparr>sl_quote := Some c, sl_saw_token := True\<rparr>
                else if c \<in> set white_space
                then (if sl_saw_token s
                      then s\<lparr>sl_args := sl_args s @ [sl_current s], sl_current := [], sl_saw_token := False\<rparr>
                      else s)
                else split_push c s))"

definition split_start :: split_state where
  "split_start = \<lparr>sl_args = [], sl_current = [], sl_quote = None, sl_escaped = False, sl_saw_token = False\<rparr>"

definition split_command_line :: "string \<Rightarrow> process_error + string list" where
  "split_command_line input =
     (let s = fold split_step (chars_of input) split_start;
          current = (if sl_escaped s then sl_current s @ [CHR 0x5C] else sl_current s)
      in case sl_quote s of
           Some q \<Rightarrow> Inl (Pe_ArgumentParse (''unterminated quote '' @ q))
         | None \<Rightarrow> Inr (if sl_saw_token s then sl_args s @ [current] else sl_args s))"

text \<open>\<open>quote_path\<close> of \<open>coreinfo.rs\<close>\<close>

definition quote_path :: "string \<Rightarrow> string" where
  "quote_path path = (if path = [] then [] else [CHR 0x22] @ path @ [CHR 0x22])"

definition from_core_launch ::
    "process_role \<Rightarrow> core_launch \<Rightarrow> bool \<Rightarrow> process_error + process_spawn" where
  "from_core_launch r launch display_log =
     (case split_command_line (cl_arguments launch) of
        Inl e \<Rightarrow> Inl e
      | Inr arguments \<Rightarrow>
          Inr \<lparr>ps_role = r, ps_executable = cl_executable launch, ps_arguments = arguments,
               ps_working_dir = cl_working_dir launch, ps_environment = cl_environment launch,
               ps_display_log = display_log\<rparr>)"

section \<open>Elevation\<close>

definition SUDO_EXECUTABLE :: string where "SUDO_EXECUTABLE = ''/usr/bin/sudo''"
definition MACOS_LAUNCHER_DIR :: string where "MACOS_LAUNCHER_DIR = ''/usr/local/libexec/voya-vpn''"
definition LINUX_LAUNCHER_DIR :: string where "LINUX_LAUNCHER_DIR = ''/usr/libexec/voya-vpn''"
definition LAUNCHER_FILE_NAME :: string where "LAUNCHER_FILE_NAME = ''voya-elevate''"

fun elevate_launcher_dir :: "target_os \<Rightarrow> string option" where
  "elevate_launcher_dir Os_Macos = Some MACOS_LAUNCHER_DIR"
| "elevate_launcher_dir Os_Linux = Some LINUX_LAUNCHER_DIR"
| "elevate_launcher_dir Os_Windows = None"
| "elevate_launcher_dir Os_Other = None"

definition elevate_launcher_path :: "target_os \<Rightarrow> string option" where
  "elevate_launcher_path os =
     map_option (\<lambda>dir. dir @ ''/'' @ LAUNCHER_FILE_NAME) (elevate_launcher_dir os)"

definition should_use_unix_sudo :: "target_os \<Rightarrow> bool \<Rightarrow> bool \<Rightarrow> bool" where
  "should_use_unix_sudo os tun_enabled may_need_sudo \<longleftrightarrow>
     may_need_sudo \<and> tun_enabled \<and> os \<in> {Os_Linux, Os_Macos}"

definition wrap_spawn_with_unix_sudo_passwordless :: "process_spawn \<Rightarrow> string \<Rightarrow> process_spawn" where
  "wrap_spawn_with_unix_sudo_passwordless sp launcher =
     sp\<lparr>ps_executable := SUDO_EXECUTABLE,
        ps_arguments := [''-n'', ''--'', launcher, ''run'', ps_executable sp] @ ps_arguments sp\<rparr>"

datatype elevation_error = UnsupportedOs | InvalidKillTarget string

text \<open>\<open>Path::file_name\<close> on Unix: the last component, if it is a name.\<close>

definition path_file_name :: "string \<Rightarrow> string option" where
  "path_file_name path =
     (let parts = filter (\<lambda>c. c \<noteq> [] \<and> c \<noteq> ''.'') (split_on (\<lambda>c. c = CHR ''/'') path) in
      if parts = [] \<or> last parts = ''..'' then None else Some (last parts))"

definition LINUX_COMM_MAX_VISIBLE_CHARS :: nat where "LINUX_COMM_MAX_VISIBLE_CHARS = 15"

definition expected_process_comm_names :: "string \<Rightarrow> elevation_error + string list" where
  "expected_process_comm_names executable =
     (case opt_filter (\<lambda>n. n \<noteq> []) (path_file_name executable) of
        None \<Rightarrow> Inl (InvalidKillTarget executable)
      | Some name \<Rightarrow>
          (let truncated = concat (take LINUX_COMM_MAX_VISIBLE_CHARS (chars_of name)) in
           Inr (if truncated \<noteq> name then [name, truncated] else [name])))"

definition unix_sudo_kill_spawn_passwordless ::
    "target_os \<Rightarrow> string \<Rightarrow> nat \<Rightarrow> string \<Rightarrow> string \<Rightarrow> elevation_error + process_spawn" where
  "unix_sudo_kill_spawn_passwordless os launcher target_pid expected_executable working_dir =
     (if os \<notin> {Os_Linux, Os_Macos} then Inl UnsupportedOs
      else case expected_process_comm_names expected_executable of
             Inl e \<Rightarrow> Inl e
           | Inr names \<Rightarrow>
               Inr ((process_spawn_new Role_SudoKill SUDO_EXECUTABLE)
                 \<lparr>ps_arguments := [''-n'', ''--'', launcher, ''kill'', show_nat target_pid] @ names,
                  ps_working_dir := working_dir, ps_display_log := True\<rparr>))"

section \<open>The operating system\<close>

record os_answer =
  an_dies :: "nat list"
  an_ok :: bool
  an_kill_ok :: bool
  an_pid :: nat
  an_output :: process_output
  an_kills :: "nat list"
  an_job :: bool

text \<open>
  The processes that are running, the ones the runner still has a control channel to
  (\<open>children\<close>), the ones it has ever started, and the answers to come.
\<close>

record world =
  w_alive :: "nat set"
  w_children :: "nat set"
  w_started :: "nat set"
  w_clock :: nat
  w_oracle :: "nat \<Rightarrow> os_answer"

definition consult :: "'a world_scheme \<Rightarrow> os_answer \<times> 'a world_scheme" where
  "consult w =
     (let a = w_oracle w (w_clock w)
      in (a, w\<lparr>w_clock := Suc (w_clock w), w_alive := w_alive w - set (an_dies a)\<rparr>))"

section \<open>The process runner\<close>

text \<open>The system does not hand out the identifier of a process that is running or not yet waited for.\<close>

definition runner_spawn ::
    "process_spawn \<Rightarrow> 'a world_scheme \<Rightarrow> (process_error + process_handle) \<times> 'a world_scheme" where
  "runner_spawn sp w =
     (let (a, w) = consult w in
      if \<not> an_ok a \<or> an_pid a \<in> w_alive w \<or> an_pid a \<in> w_children w
      then (Inl (Pe_Spawn (ps_executable sp)), w)
      else (Inr \<lparr>ph_id = an_pid a, ph_role = ps_role sp\<rparr>,
            w\<lparr>w_alive := insert (an_pid a) (w_alive w), w_children := insert (an_pid a) (w_children w),
              w_started := insert (an_pid a) (w_started w)\<rparr>))"

definition runner_oneshot ::
    "process_spawn \<Rightarrow> 'a world_scheme \<Rightarrow> (process_error + process_output) \<times> 'a world_scheme" where
  "runner_oneshot sp w =
     (let (a, w) = consult w in
      if \<not> an_ok a then (Inl (Pe_Spawn (ps_executable sp)), w)
      else (Inr (an_output a), w\<lparr>w_alive := w_alive w - set (an_kills a)\<rparr>))"

text \<open>\<open>stop_child\<close>: wait without blocking, kill, wait; the last two fail together here.\<close>

definition stop_child :: "nat \<Rightarrow> 'a world_scheme \<Rightarrow> (process_error + unit) \<times> 'a world_scheme" where
  "stop_child pid w =
     (let (a, w) = consult w in
      if pid \<notin> w_alive w then (if an_kill_ok a then Inr () else Inl Pe_Wait, w)
      else if an_kill_ok a then (Inr (), w\<lparr>w_alive := w_alive w - {pid}\<rparr>)
      else (Inl Pe_Stop, w))"

definition runner_stop ::
    "process_handle \<Rightarrow> 'a world_scheme \<Rightarrow> (process_error + unit) \<times> 'a world_scheme" where
  "runner_stop h w =
     (if ph_id h \<notin> w_children w then (Inr (), w)
      else stop_child (ph_id h) (w\<lparr>w_children := w_children w - {ph_id h}\<rparr>))"

end
