(* ===== verification/Supervisor.thy ===== *)
theory Supervisor
  imports Process Entities "HOL-Library.Word"
begin

text \<open>
  \<open>voya-app/src/supervisor.rs\<close> and \<open>supervisor/actor.rs\<close>: the actor that owns the running
  core. Its state is the running core and the generation of the native tunnel; its operations
  take the actor and the world and return a result, the new actor and the new world. The
  channel is the queue of a system of clients, actor and operating system, whose steps are an
  inductive relation: a client sends a command, the actor handles the oldest one, a process
  ends, the runner notices it and tells the actor, the watcher of a native tunnel does.
\<close>

section \<open>Requests and snapshots\<close>

record core_process_spec =
  cs_core_type :: core_type
  cs_launch :: core_launch
  cs_config_path :: "string option"
  cs_display_log :: bool
  cs_may_need_sudo :: bool

record supervisor_start_request =
  rq_profile_id :: "string option"
  rq_main :: core_process_spec
  rq_pre :: "core_process_spec option"
  rq_tun_enabled :: bool
  rq_sudo_script_dir :: string
  rq_restart_on_crash :: bool

datatype supervisor_connection_state = Disconnected | Connected

record supervisor_snapshot =
  ss_state :: supervisor_connection_state
  ss_profile_id :: "string option"
  ss_main_pid :: "nat option"
  ss_pre_pid :: "nat option"
  ss_core_type :: "core_type option"

definition disconnected :: supervisor_snapshot where
  "disconnected = \<lparr>ss_state = Disconnected, ss_profile_id = None, ss_main_pid = None, ss_pre_pid = None,
     ss_core_type = None\<rparr>"

datatype supervisor_error =
  CommandChannelClosed | ResponseDropped | ElevationNotGranted core_type | Se_Process process_error
| TunCleanup | Se_NativeTun | Se_Elevation elevation_error | UnknownSudoKillTarget nat
| MissingNativeTunConfigPath process_role | SudoKillFailed nat "int option" string | Se_Job string

section \<open>Native tunnels\<close>

datatype tun_backend = Tb_Process | Tb_MacosPacketTunnel | Tb_WindowsService | Tb_Unsupported

fun is_native :: "tun_backend \<Rightarrow> bool" where
  "is_native Tb_MacosPacketTunnel = True"
| "is_native Tb_WindowsService = True"
| "is_native Tb_Process = False"
| "is_native Tb_Unsupported = False"

fun tun_backend_of :: "target_os \<Rightarrow> tun_backend" where
  "tun_backend_of Os_Windows = Tb_WindowsService"
| "tun_backend_of Os_Linux = Tb_Process"
| "tun_backend_of Os_Macos = Tb_MacosPacketTunnel"
| "tun_backend_of Os_Other = Tb_Unsupported"

datatype native_tun_provider_state =
  Np_NotApplicable | Np_MissingComponent | Np_PermissionRequired | Np_Stopped | Np_Starting
| Np_Running | Np_Error

fun provider_state_name :: "native_tun_provider_state \<Rightarrow> string" where
  "provider_state_name Np_NotApplicable = ''NotApplicable''"
| "provider_state_name Np_MissingComponent = ''MissingComponent''"
| "provider_state_name Np_PermissionRequired = ''PermissionRequired''"
| "provider_state_name Np_Stopped = ''Stopped''"
| "provider_state_name Np_Starting = ''Starting''"
| "provider_state_name Np_Running = ''Running''"
| "provider_state_name Np_Error = ''Error''"

record native_tun_status =
  ns_backend :: tun_backend
  ns_provider_state :: native_tun_provider_state
  ns_component_ready :: bool
  ns_message :: "string option"

record native_tun_start_request =
  nr_backend :: tun_backend
  nr_profile_id :: "string option"
  nr_main_launch :: core_launch
  nr_pre_launch :: "core_launch option"
  nr_main_config_path :: string
  nr_pre_config_path :: "string option"

record native_tun_exit_event =
  ne_profile_id :: "string option"
  ne_backend :: tun_backend
  ne_message :: string

definition terminal_native_tun_message :: "native_tun_status \<Rightarrow> string option" where
  "terminal_native_tun_message status =
     (if ns_provider_state status \<notin> {Np_Stopped, Np_Error, Np_PermissionRequired, Np_MissingComponent}
      then None
      else Some (unwrap_or (ns_message status)
             (''native TUN provider ended with state '' @ provider_state_name (ns_provider_state status))))"

text \<open>
  The rest of the world: the grant of elevation, the tunnels the controller runs, the events
  told to the sink, the watchers, each with the generation and backend it looks after, and the
  processes whose reaper gave up because it could not wait for them.
\<close>

record sup_world = world +
  w_granted :: bool
  w_tunnels :: "tun_backend set"
  w_events :: "native_tun_exit_event list"
  w_watchers :: "(64 word \<times> tun_backend) list"
  w_unwatched :: "nat set"

definition native_start ::
    "native_tun_start_request \<Rightarrow> sup_world \<Rightarrow> (supervisor_error + unit) \<times> sup_world" where
  "native_start r w =
     (let (a, w) = consult w in
      if an_ok a then (Inr (), w\<lparr>w_tunnels := insert (nr_backend r) (w_tunnels w)\<rparr>) else (Inl Se_NativeTun, w))"

definition native_stop :: "tun_backend \<Rightarrow> sup_world \<Rightarrow> (supervisor_error + unit) \<times> sup_world" where
  "native_stop b w =
     (let (a, w) = consult w in
      if an_ok a then (Inr (), w\<lparr>w_tunnels := w_tunnels w - {b}\<rparr>) else (Inl Se_NativeTun, w))"

definition cleanup_before_start :: "sup_world \<Rightarrow> (supervisor_error + unit) \<times> sup_world" where
  "cleanup_before_start w = (let (a, w) = consult w in (if an_ok a then Inr () else Inl TunCleanup, w))"

text \<open>A job is the set of processes assigned to it; they are killed when it is closed.\<close>

definition create_job :: "sup_world \<Rightarrow> (supervisor_error + nat set option) \<times> sup_world" where
  "create_job w =
     (let (a, w) = consult w in
      (if an_ok a then Inr (if an_job a then Some {} else None) else Inl (Se_Process Pe_Job), w))"

definition job_assign ::
    "nat set \<Rightarrow> process_handle \<Rightarrow> sup_world \<Rightarrow> (supervisor_error + nat set) \<times> sup_world" where
  "job_assign job h w =
     (let (a, w) = consult w in (if an_ok a then Inr (insert (ph_id h) job) else Inl (Se_Process Pe_Job), w))"

definition close_job :: "nat set option \<Rightarrow> sup_world \<Rightarrow> sup_world" where
  "close_job job w = (case job of None \<Rightarrow> w | Some ps \<Rightarrow> w\<lparr>w_alive := w_alive w - ps\<rparr>)"

section \<open>The running core\<close>

record running_native_tun =
  rn_backend :: tun_backend
  rn_generation :: "64 word"

record running_core =
  rc_profile_id :: "string option"
  rc_main :: "process_handle option"
  rc_pre :: "process_handle option"
  rc_native_tun :: "running_native_tun option"
  rc_elevated :: "process_handle list"
  rc_job :: "nat set option"
  rc_last_request :: "supervisor_start_request option"
  rc_core_type :: "core_type option"

record supervisor_actor =
  sa_os :: target_os
  sa_running :: running_core
  sa_generation :: "64 word"

definition empty_core :: running_core where
  "empty_core = \<lparr>rc_profile_id = None, rc_main = None, rc_pre = None, rc_native_tun = None,
     rc_elevated = [], rc_job = None, rc_last_request = None, rc_core_type = None\<rparr>"

definition new_actor :: "target_os \<Rightarrow> supervisor_actor" where
  "new_actor os = \<lparr>sa_os = os, sa_running = empty_core, sa_generation = 0\<rparr>"

definition has_pid :: "process_handle option \<Rightarrow> nat \<Rightarrow> bool" where
  "has_pid h pid \<longleftrightarrow> (case h of Some h \<Rightarrow> ph_id h = pid | None \<Rightarrow> False)"

definition contains_pid :: "running_core \<Rightarrow> nat \<Rightarrow> bool" where
  "contains_pid r pid \<longleftrightarrow> has_pid (rc_main r) pid \<or> has_pid (rc_pre r) pid"

definition sudo_kill_target :: "running_core \<Rightarrow> process_handle \<Rightarrow> core_process_spec option" where
  "sudo_kill_target r h =
     (case rc_last_request r of
        None \<Rightarrow> None
      | Some request \<Rightarrow>
          (if has_pid (rc_main r) (ph_id h) then Some (rq_main request)
           else if has_pid (rc_pre r) (ph_id h) then rq_pre request
           else None))"

definition snapshot :: "running_core \<Rightarrow> supervisor_snapshot" where
  "snapshot r =
     \<lparr>ss_state = (if rc_main r \<noteq> None \<or> rc_native_tun r \<noteq> None then Connected else Disconnected),
      ss_profile_id = rc_profile_id r, ss_main_pid = map_option ph_id (rc_main r),
      ss_pre_pid = map_option ph_id (rc_pre r), ss_core_type = rc_core_type r\<rparr>"

definition supervisor_tun_backend :: "target_os \<Rightarrow> bool \<Rightarrow> tun_backend" where
  "supervisor_tun_backend os tun_enabled = (if tun_enabled then tun_backend_of os else Tb_Process)"

definition process_uses_unix_sudo :: "target_os \<Rightarrow> core_process_spec \<Rightarrow> bool \<Rightarrow> bool" where
  "process_uses_unix_sudo os spec tun_enabled \<longleftrightarrow>
     supervisor_tun_backend os tun_enabled = Tb_Process
     \<and> should_use_unix_sudo os tun_enabled (cs_may_need_sudo spec)"

definition native_tun_start_request_of ::
    "supervisor_start_request \<Rightarrow> tun_backend \<Rightarrow> supervisor_error + native_tun_start_request" where
  "native_tun_start_request_of request backend =
     (case cs_config_path (rq_main request) of
        None \<Rightarrow> Inl (MissingNativeTunConfigPath Role_Main)
      | Some main_config_path \<Rightarrow>
          (case rq_pre request of
             Some pre \<Rightarrow>
               (case cs_config_path pre of
                  None \<Rightarrow> Inl (MissingNativeTunConfigPath Role_Pre)
                | Some p \<Rightarrow>
                    Inr \<lparr>nr_backend = backend, nr_profile_id = rq_profile_id request,
                         nr_main_launch = cs_launch (rq_main request), nr_pre_launch = Some (cs_launch pre),
                         nr_main_config_path = main_config_path, nr_pre_config_path = Some p\<rparr>)
           | None \<Rightarrow>
               Inr \<lparr>nr_backend = backend, nr_profile_id = rq_profile_id request,
                    nr_main_launch = cs_launch (rq_main request), nr_pre_launch = None,
                    nr_main_config_path = main_config_path, nr_pre_config_path = None\<rparr>))"

section \<open>Killing elevated processes\<close>

definition sudo_kill_error_message :: "process_output \<Rightarrow> string" where
  "sudo_kill_error_message output =
     (if trim (po_stderr output) \<noteq> [] then trim (po_stderr output)
      else if trim (po_stdout output) \<noteq> [] then trim (po_stdout output)
      else ''sudo kill command failed'')"

definition ensure_sudo_kill_success :: "nat \<Rightarrow> process_output \<Rightarrow> supervisor_error + unit" where
  "ensure_sudo_kill_success pid output =
     (if po_status_code output = Some 0 then Inr ()
      else Inl (SudoKillFailed pid (po_status_code output) (sudo_kill_error_message output)))"

definition elevation_launcher :: "target_os \<Rightarrow> core_type \<Rightarrow> sup_world \<Rightarrow> supervisor_error + string" where
  "elevation_launcher os core w =
     (if \<not> w_granted w then Inl (ElevationNotGranted core)
      else case elevate_launcher_path os of
             Some p \<Rightarrow> Inr p
           | None \<Rightarrow> Inl (ElevationNotGranted core))"

definition sudo_kill ::
    "target_os \<Rightarrow> process_handle \<Rightarrow> running_core \<Rightarrow> sup_world \<Rightarrow> (supervisor_error + unit) \<times> sup_world" where
  "sudo_kill os h r w =
     (if rc_last_request r = None then (Inr (), w)
      else case sudo_kill_target r h of
             None \<Rightarrow> (Inl (UnknownSudoKillTarget (ph_id h)), w)
           | Some target \<Rightarrow>
               (case elevation_launcher os (cs_core_type target) w of
                  Inl e \<Rightarrow> (Inl e, w)
                | Inr launcher \<Rightarrow>
                    (case unix_sudo_kill_spawn_passwordless os launcher (ph_id h)
                            (cl_executable (cs_launch target)) (cl_working_dir (cs_launch target)) of
                       Inl e \<Rightarrow> (Inl (Se_Elevation e), w)
                     | Inr sp \<Rightarrow>
                         (case runner_oneshot sp w of
                            (Inl e, w) \<Rightarrow> (Inl (Se_Process e), w)
                          | (Inr output, w) \<Rightarrow> (ensure_sudo_kill_success (ph_id h) output, w)))))"

fun sudo_kill_all ::
    "target_os \<Rightarrow> process_handle list \<Rightarrow> running_core \<Rightarrow> sup_world \<Rightarrow> (supervisor_error + unit) \<times> sup_world" where
  "sudo_kill_all os [] r w = (Inr (), w)"
| "sudo_kill_all os (h # hs) r w =
     (case sudo_kill os h r w of
        (Inl e, w) \<Rightarrow> (Inl e, w)
      | (Inr u, w) \<Rightarrow> sudo_kill_all os hs r w)"

section \<open>Stopping\<close>

text \<open>One best-effort step: an error is kept if it is the first one.\<close>

definition keep_first ::
    "supervisor_error option \<Rightarrow> (supervisor_error + unit) \<Rightarrow> supervisor_error option" where
  "keep_first first_error r = (case r of Inl e \<Rightarrow> or_else first_error (Some e) | Inr u \<Rightarrow> first_error)"

definition stop_handle ::
    "process_handle option \<Rightarrow> supervisor_error option \<Rightarrow> sup_world \<Rightarrow> supervisor_error option \<times> sup_world" where
  "stop_handle h first_error w =
     (case h of
        None \<Rightarrow> (first_error, w)
      | Some h \<Rightarrow>
          (case runner_stop h w of
             (Inl e, w) \<Rightarrow> (keep_first first_error (Inl (Se_Process e)), w)
           | (Inr u, w) \<Rightarrow> (first_error, w)))"

definition stop_native ::
    "running_core \<Rightarrow> sup_world \<Rightarrow> supervisor_error option \<times> sup_world" where
  "stop_native r w =
     (case rc_native_tun r of
        None \<Rightarrow> (None, w)
      | Some t \<Rightarrow> (case native_stop (rn_backend t) w of (res, w) \<Rightarrow> (keep_first None res, w)))"

definition stop_running ::
    "target_os \<Rightarrow> running_core \<Rightarrow> sup_world \<Rightarrow> (supervisor_error + unit) \<times> sup_world" where
  "stop_running os r w =
     (let (first_error, w) = stop_native r w in
      case sudo_kill_all os (rc_elevated r) r w of
        (Inl e, w) \<Rightarrow> (Inl e, w)
      | (Inr u, w) \<Rightarrow>
          (let (first_error, w) = stop_handle (rc_main r) first_error w;
               (first_error, w) = stop_handle (rc_pre r) first_error w
           in (case first_error of Some e \<Rightarrow> Inl e | None \<Rightarrow> Inr (), w)))"

text \<open>The stopped core is dropped, which closes its job.\<close>

definition sup_stop ::
    "supervisor_actor \<Rightarrow> sup_world \<Rightarrow> (supervisor_error + supervisor_snapshot) \<times> supervisor_actor \<times> sup_world" where
  "sup_stop a w =
     (case stop_running (sa_os a) (sa_running a) w of
        (Inl e, w) \<Rightarrow> (Inl e, a, w)
      | (Inr u, w) \<Rightarrow>
          (Inr disconnected, a\<lparr>sa_running := empty_core\<rparr>, close_job (rc_job (sa_running a)) w))"

definition cleanup_partial_start ::
    "target_os \<Rightarrow> running_core \<Rightarrow> supervisor_error \<Rightarrow> sup_world \<Rightarrow> supervisor_error \<times> sup_world" where
  "cleanup_partial_start os r start_error w =
     (case stop_running os r w of
        (Inl cleanup_error, w) \<Rightarrow> (cleanup_error, close_job (rc_job r) w)
      | (Inr u, w) \<Rightarrow> (start_error, close_job (rc_job r) w))"

section \<open>Starting\<close>

definition spawn_process ::
    "target_os \<Rightarrow> process_role \<Rightarrow> core_process_spec \<Rightarrow> bool \<Rightarrow> sup_world
       \<Rightarrow> (supervisor_error + process_handle) \<times> sup_world" where
  "spawn_process os r spec tun_enabled w =
     (case from_core_launch r (cs_launch spec) (cs_display_log spec) of
        Inl e \<Rightarrow> (Inl (Se_Process e), w)
      | Inr sp \<Rightarrow>
          (case (if process_uses_unix_sudo os spec tun_enabled
                 then (case elevation_launcher os (cs_core_type spec) w of
                         Inl e \<Rightarrow> Inl e
                       | Inr launcher \<Rightarrow> Inr (wrap_spawn_with_unix_sudo_passwordless sp launcher))
                 else Inr sp) of
             Inl e \<Rightarrow> (Inl e, w)
           | Inr sp \<Rightarrow>
               (case runner_spawn sp w of
                  (Inl e, w) \<Rightarrow> (Inl (Se_Process e), w)
                | (Inr h, w) \<Rightarrow> (Inr h, w))))"

definition request_core_type :: "supervisor_start_request \<Rightarrow> core_type" where
  "request_core_type request =
     (case rq_pre request of Some pre \<Rightarrow> cs_core_type pre | None \<Rightarrow> cs_core_type (rq_main request))"

text \<open>
  A spawned process joins the partial core and the job; when the job refuses it, everything
  started so far is stopped again.
\<close>

definition assign_to_job ::
    "target_os \<Rightarrow> running_core \<Rightarrow> process_handle \<Rightarrow> sup_world \<Rightarrow> (supervisor_error + running_core) \<times> sup_world" where
  "assign_to_job os r h w =
     (case rc_job r of
        None \<Rightarrow> (Inr r, w)
      | Some job \<Rightarrow>
          (case job_assign job h w of
             (Inr job, w) \<Rightarrow> (Inr (r\<lparr>rc_job := Some job\<rparr>), w)
           | (Inl e, w) \<Rightarrow> (case cleanup_partial_start os r e w of (e, w) \<Rightarrow> (Inl e, w))))"

definition start_pre ::
    "target_os \<Rightarrow> supervisor_start_request \<Rightarrow> running_core \<Rightarrow> sup_world
       \<Rightarrow> (supervisor_error + running_core) \<times> sup_world" where
  "start_pre os request partial w =
     (case rq_pre request of
        None \<Rightarrow> (Inr partial, w)
      | Some spec \<Rightarrow>
          (case spawn_process os Role_Pre spec (rq_tun_enabled request) w of
             (Inl e, w) \<Rightarrow> (case cleanup_partial_start os partial e w of (e, w) \<Rightarrow> (Inl e, w))
           | (Inr pre, w) \<Rightarrow>
               assign_to_job os
                 (partial\<lparr>rc_pre := Some pre,
                    rc_elevated := rc_elevated partial
                      @ (if process_uses_unix_sudo os spec (rq_tun_enabled request) then [pre] else [])\<rparr>)
                 pre w))"

definition start_main ::
    "target_os \<Rightarrow> supervisor_start_request \<Rightarrow> nat set option \<Rightarrow> sup_world
       \<Rightarrow> (supervisor_error + running_core) \<times> sup_world" where
  "start_main os request job w =
     (case spawn_process os Role_Main (rq_main request) (rq_tun_enabled request) w of
        (Inl e, w) \<Rightarrow> (Inl e, close_job job w)
      | (Inr main, w) \<Rightarrow>
          assign_to_job os
            \<lparr>rc_profile_id = rq_profile_id request, rc_main = Some main, rc_pre = None, rc_native_tun = None,
             rc_elevated = (if process_uses_unix_sudo os (rq_main request) (rq_tun_enabled request)
                            then [main] else []),
             rc_job = job, rc_last_request = Some request,
             rc_core_type = Some (cs_core_type (rq_main request))\<rparr>
            main w)"

definition start_processes ::
    "target_os \<Rightarrow> supervisor_start_request \<Rightarrow> sup_world \<Rightarrow> (supervisor_error + running_core) \<times> sup_world" where
  "start_processes os request w =
     (case (if os = Os_Windows \<and> rq_tun_enabled request then cleanup_before_start w else (Inr (), w)) of
        (Inl e, w) \<Rightarrow> (Inl e, w)
      | (Inr u, w) \<Rightarrow>
          (case (if os = Os_Windows then create_job w else (Inr None, w)) of
             (Inl e, w) \<Rightarrow> (Inl e, w)
           | (Inr job, w) \<Rightarrow>
               (case start_main os request job w of
                  (Inl e, w) \<Rightarrow> (Inl e, w)
                | (Inr partial, w) \<Rightarrow>
                    (case start_pre os request partial w of
                       (Inl e, w) \<Rightarrow> (Inl e, w)
                     | (Inr partial, w) \<Rightarrow>
                         (Inr (partial\<lparr>rc_core_type := Some (request_core_type request)\<rparr>), w)))))"

definition start_native_tun ::
    "supervisor_start_request \<Rightarrow> tun_backend \<Rightarrow> supervisor_actor \<Rightarrow> sup_world
       \<Rightarrow> (supervisor_error + supervisor_snapshot) \<times> supervisor_actor \<times> sup_world" where
  "start_native_tun request backend a w =
     (case native_tun_start_request_of request backend of
        Inl e \<Rightarrow> (Inl e, a, w)
      | Inr native_request \<Rightarrow>
          (case native_start native_request w of
             (Inl e, w) \<Rightarrow> (Inl e, a, w)
           | (Inr u, w) \<Rightarrow>
               (let generation = sa_generation a + 1;
                    running = \<lparr>rc_profile_id = rq_profile_id request, rc_main = None, rc_pre = None,
                      rc_native_tun = Some \<lparr>rn_backend = backend, rn_generation = generation\<rparr>,
                      rc_elevated = [], rc_job = None, rc_last_request = Some request,
                      rc_core_type = Some (request_core_type request)\<rparr>
                in (Inr (snapshot running), a\<lparr>sa_running := running, sa_generation := generation\<rparr>,
                    w\<lparr>w_watchers := w_watchers w @ [(generation, backend)]\<rparr>))))"

definition sup_start ::
    "supervisor_start_request \<Rightarrow> supervisor_actor \<Rightarrow> sup_world
       \<Rightarrow> (supervisor_error + supervisor_snapshot) \<times> supervisor_actor \<times> sup_world" where
  "sup_start request a w =
     (case sup_stop a w of
        (Inl e, a, w) \<Rightarrow> (Inl e, a, w)
      | (Inr u, a, w) \<Rightarrow>
          (let backend = supervisor_tun_backend (sa_os a) (rq_tun_enabled request) in
           if is_native backend then start_native_tun request backend a w
           else case start_processes (sa_os a) request w of
                  (Inl e, w) \<Rightarrow> (Inl e, a, w)
                | (Inr running, w) \<Rightarrow> (Inr (snapshot running), a\<lparr>sa_running := running\<rparr>, w)))"

section \<open>Events\<close>

definition process_exited ::
    "nat \<Rightarrow> supervisor_actor \<Rightarrow> sup_world
       \<Rightarrow> (supervisor_error + supervisor_snapshot) \<times> supervisor_actor \<times> sup_world" where
  "process_exited pid a w =
     (if \<not> contains_pid (sa_running a) pid then (Inr (snapshot (sa_running a)), a, w)
      else
        (let restart = opt_filter rq_restart_on_crash (rc_last_request (sa_running a)) in
         case sup_stop a w of
           (Inl e, a, w) \<Rightarrow> (Inl e, a, w)
         | (Inr u, a, w) \<Rightarrow>
             (case restart of
                Some request \<Rightarrow> sup_start request a w
              | None \<Rightarrow> (Inr disconnected, a, w))))"

definition native_tun_exited ::
    "64 word \<Rightarrow> string \<Rightarrow> supervisor_actor \<Rightarrow> sup_world \<Rightarrow> supervisor_actor \<times> sup_world" where
  "native_tun_exited generation message a w =
     (case rc_native_tun (sa_running a) of
        None \<Rightarrow> (a, w)
      | Some t \<Rightarrow>
          (if rn_generation t \<noteq> generation then (a, w)
           else
             (case stop_running (sa_os a) (sa_running a) w of
                (res, w) \<Rightarrow>
                  (a\<lparr>sa_running := empty_core\<rparr>,
                   (close_job (rc_job (sa_running a)) w)
                     \<lparr>w_events := w_events w
                        @ [\<lparr>ne_profile_id = rc_profile_id (sa_running a), ne_backend = rn_backend t,
                            ne_message = message\<rparr>]\<rparr>))))"

text \<open>\<open>Drop\<close> of the actor: a last stop, its error only logged.\<close>

definition drop_actor :: "supervisor_actor \<Rightarrow> sup_world \<Rightarrow> sup_world" where
  "drop_actor a w = close_job (rc_job (sa_running a)) (snd (stop_running (sa_os a) (sa_running a) w))"

section \<open>Commands\<close>

text \<open>Every command but the last carries the reply channel of its sender, a number here.\<close>

datatype supervisor_command =
  Cmd_Start supervisor_start_request nat
| Cmd_Stop nat
| Cmd_Restart supervisor_start_request nat
| Cmd_Status nat
| Cmd_ProcessExited nat "int option" nat
| Cmd_NativeTunExited "64 word" string

fun reply_channel :: "supervisor_command \<Rightarrow> nat option" where
  "reply_channel (Cmd_Start r c) = Some c"
| "reply_channel (Cmd_Stop c) = Some c"
| "reply_channel (Cmd_Restart r c) = Some c"
| "reply_channel (Cmd_Status c) = Some c"
| "reply_channel (Cmd_ProcessExited p e c) = Some c"
| "reply_channel (Cmd_NativeTunExited g m) = None"

fun run_command ::
    "supervisor_command \<Rightarrow> supervisor_actor \<Rightarrow> sup_world
       \<Rightarrow> (supervisor_error + supervisor_snapshot) \<times> supervisor_actor \<times> sup_world" where
  "run_command (Cmd_Start request c) a w = sup_start request a w"
| "run_command (Cmd_Stop c) a w = sup_stop a w"
| "run_command (Cmd_Restart request c) a w =
     (case sup_stop a w of
        (Inl e, a, w) \<Rightarrow> (Inl e, a, w)
      | (Inr u, a, w) \<Rightarrow> sup_start request a w)"
| "run_command (Cmd_Status c) a w = (Inr (snapshot (sa_running a)), a, w)"
| "run_command (Cmd_ProcessExited pid e c) a w = process_exited pid a w"
| "run_command (Cmd_NativeTunExited g m) a w =
     (case native_tun_exited g m a w of (a, w) \<Rightarrow> (Inr (snapshot (sa_running a)), a, w))"

section \<open>The system\<close>

record system =
  sy_actor :: supervisor_actor
  sy_world :: sup_world
  sy_queue :: "supervisor_command list"
  sy_replies :: "(nat \<times> (supervisor_error + supervisor_snapshot)) list"

text \<open>\<open>SupervisorActor::handle\<close> on the oldest command; a reply is sent if the command has a channel.\<close>

definition handle_next :: "system \<Rightarrow> system" where
  "handle_next s =
     (case sy_queue s of
        [] \<Rightarrow> s
      | c # q \<Rightarrow>
          (case run_command c (sy_actor s) (sy_world s) of
             (r, a, w) \<Rightarrow>
               s\<lparr>sy_actor := a, sy_world := w, sy_queue := q,
                 sy_replies := sy_replies s
                   @ (case reply_channel c of Some ch \<Rightarrow> [(ch, r)] | None \<Rightarrow> [])\<rparr>))"

definition enqueue :: "supervisor_command \<Rightarrow> system \<Rightarrow> system" where
  "enqueue c s = s\<lparr>sy_queue := sy_queue s @ [c]\<rparr>"

text \<open>
  The channel has sixteen places; senders that find it full wait in order, so the queue is
  the channel together with the waiting senders. The commands of clients are the four of
  \<open>CoreSupervisor\<close>; exits are told by the runner's reaper and by the watcher of a tunnel. The
  reaper of a child (\<open>run_child_reaper\<close>) drops its control and tells an exit when the child has
  ended, but also when asking whether it has fails, and then the child may go on running.
\<close>

inductive sup_step :: "system \<Rightarrow> system \<Rightarrow> bool" where
  request: "c \<in> {Cmd_Start r ch, Cmd_Stop ch, Cmd_Restart r ch, Cmd_Status ch} \<Longrightarrow>
     sup_step s (enqueue c s)"
| handle: "sy_queue s \<noteq> [] \<Longrightarrow> sup_step s (handle_next s)"
| die: "pid \<in> w_alive (sy_world s) \<Longrightarrow>
     sup_step s (s\<lparr>sy_world := (sy_world s)\<lparr>w_alive := w_alive (sy_world s) - {pid}\<rparr>\<rparr>)"
| reap: "pid \<in> w_children (sy_world s) \<Longrightarrow> pid \<notin> w_alive (sy_world s) \<Longrightarrow>
     sup_step s (enqueue (Cmd_ProcessExited pid code ch)
       (s\<lparr>sy_world := (sy_world s)\<lparr>w_children := w_children (sy_world s) - {pid}\<rparr>\<rparr>))"
| wait_fails: "pid \<in> w_children (sy_world s) \<Longrightarrow>
     sup_step s (enqueue (Cmd_ProcessExited pid None ch)
       (s\<lparr>sy_world := (sy_world s)\<lparr>w_children := w_children (sy_world s) - {pid},
            w_unwatched := insert pid (w_unwatched (sy_world s))\<rparr>\<rparr>))"
| watch: "(generation, backend) \<in> set (w_watchers (sy_world s)) \<Longrightarrow>
     terminal_native_tun_message status = Some message \<Longrightarrow>
     sup_step s (enqueue (Cmd_NativeTunExited generation message)
       (s\<lparr>sy_world := (sy_world s)\<lparr>w_watchers := remove1 (generation, backend) (w_watchers (sy_world s))\<rparr>\<rparr>))"
| grant: "sup_step s (s\<lparr>sy_world := (sy_world s)\<lparr>w_granted := g\<rparr>\<rparr>)"

definition start_world :: "(nat \<Rightarrow> os_answer) \<Rightarrow> nat set \<Rightarrow> sup_world" where
  "start_world ora others =
     \<lparr>w_alive = others, w_children = {}, w_started = {}, w_clock = 0, w_oracle = ora, w_granted = False,
      w_tunnels = {}, w_events = [], w_watchers = [], w_unwatched = {}\<rparr>"

definition start_system :: "target_os \<Rightarrow> (nat \<Rightarrow> os_answer) \<Rightarrow> nat set \<Rightarrow> system" where
  "start_system os ora others =
     \<lparr>sy_actor = new_actor os, sy_world = start_world ora others, sy_queue = [], sy_replies = []\<rparr>"

inductive reachable :: "system \<Rightarrow> bool" where
  init: "reachable (start_system os ora others)"
| step: "reachable s \<Longrightarrow> sup_step s s' \<Longrightarrow> reachable s'"

end
