(* ===== verification/SupervisorProps.thy ===== *)
theory SupervisorProps
  imports Supervisor
begin

text \<open>
  What the supervisor guarantees in every reachable state of the system: its record of the
  running core is consistent, no process it started is left behind, commands are answered in
  order, and each operation does what the connection state it reports says.
\<close>

section \<open>A consistent core\<close>

definition handles :: "running_core \<Rightarrow> process_handle set" where
  "handles r = set_option (rc_main r) \<union> set_option (rc_pre r)"

definition pids :: "running_core \<Rightarrow> nat set" where
  "pids r = ph_id ` handles r"

definition core_ok :: "running_core \<Rightarrow> bool" where
  "core_ok r \<longleftrightarrow>
     (rc_native_tun r \<noteq> None \<longrightarrow> handles r = {} \<and> rc_elevated r = [])
     \<and> (rc_main r = None \<longrightarrow> rc_pre r = None)
     \<and> set (rc_elevated r) \<subseteq> handles r
     \<and> (\<forall>m p. rc_main r = Some m \<longrightarrow> rc_pre r = Some p \<longrightarrow> ph_id m \<noteq> ph_id p)
     \<and> (case rc_last_request r of
          None \<Rightarrow> r = empty_core
        | Some request \<Rightarrow> (rc_main r \<noteq> None \<or> rc_native_tun r \<noteq> None)
            \<and> rc_profile_id r = rq_profile_id request \<and> rc_core_type r = Some (request_core_type request)
            \<and> (rc_main r \<noteq> None \<longrightarrow> (rc_pre r \<noteq> None \<longleftrightarrow> rq_pre request \<noteq> None)))"

definition actor_ok :: "supervisor_actor \<Rightarrow> bool" where
  "actor_ok a \<longleftrightarrow> core_ok (sa_running a)
     \<and> (\<forall>t. rc_native_tun (sa_running a) = Some t \<longrightarrow> rn_generation t = sa_generation a)"

lemma empty_core_simps [simp]:
  "rc_main empty_core = None" "rc_pre empty_core = None" "rc_native_tun empty_core = None"
  "rc_elevated empty_core = []" "rc_last_request empty_core = None" "rc_job empty_core = None"
  "rc_profile_id empty_core = None" "rc_core_type empty_core = None"
  "handles empty_core = {}" "pids empty_core = {}" "core_ok empty_core"
  by (simp_all add: empty_core_def handles_def pids_def core_ok_def)

lemma new_actor_ok [simp]: "actor_ok (new_actor os)"
  by (simp add: actor_ok_def new_actor_def)

lemma snapshot_empty [simp]: "snapshot empty_core = disconnected"
  by (simp add: snapshot_def disconnected_def)

section \<open>What the calls change\<close>

text \<open>
  The world before and after: the answers, the started processes and the events told are
  kept, running processes only disappear.
\<close>

definition shrinks :: "sup_world \<Rightarrow> sup_world \<Rightarrow> bool" where
  "shrinks w w' \<longleftrightarrow> w_oracle w' = w_oracle w \<and> w_started w' = w_started w \<and> w_alive w' \<subseteq> w_alive w
     \<and> w_events w' = w_events w \<and> w_unwatched w' = w_unwatched w"

lemma shrinks_refl [simp]: "shrinks w w"
  by (simp add: shrinks_def)

lemma shrinks_trans: "shrinks a b \<Longrightarrow> shrinks b c \<Longrightarrow> shrinks a c"
  by (auto simp: shrinks_def)

lemma consult_shrinks: "consult w = (a, w') \<Longrightarrow> shrinks w w' \<and> w_children w' = w_children w \<and> a = w_oracle w (w_clock w)"
  by (auto simp: consult_def shrinks_def Let_def)

lemma close_job_shrinks [simp]: "shrinks w (close_job j w)" "w_children (close_job j w) = w_children w"
  by (auto simp: close_job_def shrinks_def split: option.split)

definition reliable :: "sup_world \<Rightarrow> bool" where
  "reliable w \<longleftrightarrow> (\<forall>t. an_kill_ok (w_oracle w t))"

text \<open>
  Every running process the runner has started still has its control channel, if its reaper did
  not give up.
\<close>

definition accounted :: "sup_world \<Rightarrow> bool" where
  "accounted w \<longleftrightarrow> w_alive w \<inter> w_started w \<subseteq> w_children w \<union> w_unwatched w"

lemma shrinks_accounted: "shrinks w w' \<Longrightarrow> w_children w' = w_children w \<Longrightarrow> accounted w \<Longrightarrow> accounted w'"
  by (auto simp: shrinks_def accounted_def)

lemma shrinks_reliable: "shrinks w w' \<Longrightarrow> reliable w' = reliable w"
  by (simp add: shrinks_def reliable_def)

lemma runner_stop_effect:
  assumes "runner_stop h w = (res, w')"
  shows "shrinks w w' \<and> w_children w' = w_children w - {ph_id h}
     \<and> (reliable w \<longrightarrow> res = Inr () \<and> (accounted w \<longrightarrow> accounted w'))"
proof (cases "ph_id h \<in> w_children w")
  case False
  then show ?thesis using assms by (simp add: runner_stop_def)
next
  case True
  let ?w = "w\<lparr>w_children := w_children w - {ph_id h}\<rparr>"
  obtain a w1 where c: "consult ?w = (a, w1)" by fastforce
  note e = consult_shrinks[OF c]
  show ?thesis
    using assms True e c
    by (auto simp: runner_stop_def stop_child_def shrinks_def reliable_def accounted_def split: if_splits) blast
qed

lemma oneshot_effect:
  assumes "runner_oneshot sp w = (res, w')"
  shows "shrinks w w' \<and> w_children w' = w_children w"
proof -
  obtain a w1 where c: "consult w = (a, w1)" by fastforce
  then show ?thesis
    using consult_shrinks[OF c] assms by (auto simp: runner_oneshot_def shrinks_def split: if_splits)
qed

lemma sudo_kill_effect:
  assumes "sudo_kill os h r w = (res, w')"
  shows "shrinks w w' \<and> w_children w' = w_children w"
  using assms
  by (auto simp: sudo_kill_def split: if_splits option.splits sum.splits prod.splits dest!: oneshot_effect)

lemma sudo_kill_all_effect:
  "sudo_kill_all os hs r w = (res, w') \<Longrightarrow> shrinks w w' \<and> w_children w' = w_children w"
proof (induction hs arbitrary: w)
  case (Cons h hs)
  obtain x w1 where k: "sudo_kill os h r w = (x, w1)" by fastforce
  note e = sudo_kill_effect[OF k]
  show ?case
  proof (cases x)
    case (Inl err)
    then show ?thesis using Cons.prems k e by simp
  next
    case (Inr u)
    then have "sudo_kill_all os hs r w1 = (res, w')" using Cons.prems k by simp
    from Cons.IH[OF this] e show ?thesis by (auto intro: shrinks_trans)
  qed
qed simp

lemma stop_handle_effect:
  assumes "stop_handle h e w = (e', w')"
  shows "shrinks w w' \<and> w_children w' = w_children w - ph_id ` set_option h
     \<and> (reliable w \<longrightarrow> e' = e \<and> (accounted w \<longrightarrow> accounted w'))"
  using assms
  by (cases h) (auto simp: stop_handle_def split: sum.splits prod.splits dest!: runner_stop_effect)

lemma stop_native_effect:
  assumes "stop_native r w = (e, w')"
  shows "shrinks w w' \<and> w_children w' = w_children w"
proof (cases "rc_native_tun r")
  case (Some t)
  obtain a w1 where c: "consult w = (a, w1)" by fastforce
  then show ?thesis
    using consult_shrinks[OF c] assms Some
    by (auto simp: stop_native_def native_stop_def shrinks_def split: if_splits)
qed (use assms in \<open>simp add: stop_native_def\<close>)

lemma stop_running_shrinks:
  assumes "stop_running os r w = (res, w')"
  shows "shrinks w w' \<and> w_children w' \<subseteq> w_children w
     \<and> (rc_elevated r = [] \<longrightarrow> w_children w' = w_children w - pids r
          \<and> (reliable w \<longrightarrow> accounted w \<longrightarrow> accounted w'))"
proof -
  obtain e1 w1 where n: "stop_native r w = (e1, w1)" by fastforce
  obtain x w2 where k: "sudo_kill_all os (rc_elevated r) r w1 = (x, w2)" by fastforce
  note en = stop_native_effect[OF n] and ek = sudo_kill_all_effect[OF k]
  show ?thesis
  proof (cases x)
    case (Inl err)
    then have "w' = w2" using assms n k by (simp add: stop_running_def)
    then show ?thesis using en ek Inl k by (cases "rc_elevated r") (auto intro: shrinks_trans)
  next
    case (Inr u)
    obtain e3 w3 where m: "stop_handle (rc_main r) e1 w2 = (e3, w3)" by fastforce
    obtain e4 w4 where p: "stop_handle (rc_pre r) e3 w3 = (e4, w4)" by fastforce
    have w': "w' = w4" using assms n k m p Inr by (simp add: stop_running_def)
    note em = stop_handle_effect[OF m] and ep = stop_handle_effect[OF p]
    have s2: "shrinks w w2" using en ek by (auto intro: shrinks_trans)
    have s3: "shrinks w w3" using s2 em by (auto intro: shrinks_trans)
    have s4: "shrinks w w4" using s3 ep by (auto intro: shrinks_trans)
    have "accounted w4" if "accounted w" "reliable w"
    proof -
      have "accounted w2" using shrinks_accounted[OF s2 _ that(1)] en ek by simp
      moreover have "reliable w2" "reliable w3" using that(2) shrinks_reliable s2 s3 by blast+
      ultimately show ?thesis using em ep by blast
    qed
    moreover have "w_children w4 = w_children w - pids r"
      using en ek em ep by (auto simp: pids_def handles_def)
    ultimately show ?thesis using s4 by (simp add: w')
  qed
qed

section \<open>Stopping\<close>

lemma sup_stop_cases:
  assumes "sup_stop a w = (res, a', w')"
  shows "(\<exists>e. res = Inl e \<and> a' = a) \<or> (res = Inr disconnected \<and> a' = a\<lparr>sa_running := empty_core\<rparr>)"
  using assms by (auto simp: sup_stop_def split: sum.splits prod.splits)

lemma sup_stop_world:
  assumes "sup_stop a w = (res, a', w')"
  shows "shrinks w w' \<and> w_children w' \<subseteq> w_children w
     \<and> (rc_elevated (sa_running a) = [] \<longrightarrow> w_children w' = w_children w - pids (sa_running a)
          \<and> (reliable w \<longrightarrow> accounted w \<longrightarrow> accounted w'))"
proof -
  obtain x w1 where s: "stop_running (sa_os a) (sa_running a) w = (x, w1)" by fastforce
  note e = stop_running_shrinks[OF s]
  have "w' = w1 \<or> w' = close_job (rc_job (sa_running a)) w1"
    using assms s by (auto simp: sup_stop_def split: sum.splits)
  moreover have "accounted (close_job j w1)" if "accounted w1" for j
    by (rule shrinks_accounted[OF _ _ that]) simp_all
  ultimately show ?thesis using e by (auto intro: shrinks_trans)
qed

lemma sup_stop_ok: "actor_ok a \<Longrightarrow> sup_stop a w = (res, a', w') \<Longrightarrow> actor_ok a'"
  using sup_stop_cases[of a w res a' w'] by (auto simp: actor_ok_def)

section \<open>Starting processes\<close>

definition well :: "sup_world \<Rightarrow> sup_world \<Rightarrow> bool" where
  "well w w' \<longleftrightarrow> w_oracle w' = w_oracle w \<and> (reliable w \<longrightarrow> accounted w \<longrightarrow> accounted w')"

lemma well_refl [simp]: "well w w"
  by (simp add: well_def)

lemma well_update [simp]:
  "well w (w1\<lparr>w_tunnels := y\<rparr>) = well w w1" "well w (w1\<lparr>w_watchers := z\<rparr>) = well w w1"
  by (simp_all add: well_def accounted_def)

lemma well_trans: "well a b \<Longrightarrow> well b c \<Longrightarrow> well a c"
  by (auto simp: well_def reliable_def)

lemma shrinks_well: "shrinks w w' \<Longrightarrow> w_children w' = w_children w \<Longrightarrow> well w w'"
  using shrinks_accounted[of w w'] by (auto simp: well_def shrinks_def)

lemma well_close: "well a b \<Longrightarrow> well a (close_job j b)"
  by (rule well_trans, assumption) (simp add: shrinks_well)

lemma stop_running_well: "stop_running os r w = (res, w') \<Longrightarrow> rc_elevated r = [] \<Longrightarrow> well w w'"
  using stop_running_shrinks[of os r w res w'] by (auto simp: well_def shrinks_def)

lemma no_sudo [simp]: "os \<noteq> Os_Linux \<Longrightarrow> \<not> process_uses_unix_sudo os spec tun"
  by (cases os) (auto simp: process_uses_unix_sudo_def should_use_unix_sudo_def supervisor_tun_backend_def
      split: if_splits)

lemma runner_spawn_effect:
  assumes "runner_spawn sp w = (res, w')"
  shows "well w w' \<and> (case res of
      Inl e \<Rightarrow> w_children w' = w_children w
    | Inr h \<Rightarrow> ph_id h \<notin> w_children w \<and> w_children w' = insert (ph_id h) (w_children w)
        \<and> w_started w' = insert (ph_id h) (w_started w))"
proof -
  obtain a w1 where c: "consult w = (a, w1)" by fastforce
  note e = consult_shrinks[OF c]
  then have "well w w1" using shrinks_well by blast
  moreover have "well w1 (w1\<lparr>w_alive := insert p (w_alive w1), w_children := insert p (w_children w1),
      w_started := insert p (w_started w1)\<rparr>)" if "p \<notin> w_alive w1" for p
    using that by (auto simp: well_def accounted_def)
  ultimately show ?thesis
    using assms e c by (auto simp: runner_spawn_def shrinks_def split: if_splits intro: well_trans)
qed

lemma spawn_process_effect:
  assumes "spawn_process os r spec tun w = (res, w')"
  shows "well w w' \<and> (case res of
      Inl e \<Rightarrow> w_children w' = w_children w
    | Inr h \<Rightarrow> ph_id h \<notin> w_children w \<and> w_children w' = insert (ph_id h) (w_children w))"
  using assms
  by (auto simp: spawn_process_def split: sum.splits prod.splits if_splits dest!: runner_spawn_effect)

lemma cleanup_effect:
  assumes "cleanup_partial_start os r e w = (e', w')" and "rc_elevated r = []"
  shows "well w w' \<and> w_children w' = w_children w - pids r"
proof -
  obtain x w1 where s: "stop_running os r w = (x, w1)" by fastforce
  have "w' = close_job (rc_job r) w1" using assms s by (auto simp: cleanup_partial_start_def split: sum.splits)
  then show ?thesis
    using stop_running_well[OF s assms(2)] stop_running_shrinks[OF s] assms(2)
    by (auto intro: well_close)
qed

lemma assign_effect:
  assumes "assign_to_job os r h w = (res, w')"
  shows "case res of
      Inr r' \<Rightarrow> (\<exists>j. r' = r\<lparr>rc_job := j\<rparr>) \<and> well w w' \<and> w_children w' = w_children w
    | Inl e \<Rightarrow> rc_elevated r = [] \<longrightarrow> well w w' \<and> w_children w' = w_children w - pids r"
proof (cases "rc_job r")
  case None
  then have "res = Inr (r\<lparr>rc_job := None\<rparr>)" "w' = w" using assms by (auto simp: assign_to_job_def)
  then show ?thesis by auto
next
  case (Some job)
  obtain a w1 where c: "consult w = (a, w1)" by fastforce
  have w1: "well w w1" "w_children w1 = w_children w"
    using consult_shrinks[OF c] shrinks_well by blast+
  show ?thesis
  proof (cases "an_ok a")
    case True
    then show ?thesis using assms Some c w1 by (auto simp: assign_to_job_def job_assign_def)
  next
    case False
    obtain e' w2 where cl: "cleanup_partial_start os r (Se_Process Pe_Job) w1 = (e', w2)" by fastforce
    then have "res = Inl e'" "w' = w2" using assms Some c False by (auto simp: assign_to_job_def job_assign_def)
    then show ?thesis using cleanup_effect[OF cl] w1 by (auto intro: well_trans)
  qed
qed

lemma start_main_effect:
  assumes "start_main os request job w = (res, w')"
  shows "case res of
      Inr r \<Rightarrow> (\<exists>main j. ph_id main \<notin> w_children w
          \<and> r = \<lparr>rc_profile_id = rq_profile_id request, rc_main = Some main, rc_pre = None, rc_native_tun = None,
               rc_elevated = (if process_uses_unix_sudo os (rq_main request) (rq_tun_enabled request)
                              then [main] else []),
               rc_job = j, rc_last_request = Some request, rc_core_type = Some (cs_core_type (rq_main request))\<rparr>
          \<and> w_children w' = insert (ph_id main) (w_children w)) \<and> well w w'
    | Inl e \<Rightarrow> os \<noteq> Os_Linux \<longrightarrow> well w w' \<and> w_children w' = w_children w"
proof -
  obtain x w1 where sp: "spawn_process os Role_Main (rq_main request) (rq_tun_enabled request) w = (x, w1)"
    by fastforce
  note e = spawn_process_effect[OF sp]
  show ?thesis
  proof (cases x)
    case (Inl err)
    then show ?thesis
      using assms sp e by (auto simp: start_main_def intro: well_close)
  next
    case (Inr main)
    let ?r = "\<lparr>rc_profile_id = rq_profile_id request, rc_main = Some main, rc_pre = None, rc_native_tun = None,
               rc_elevated = (if process_uses_unix_sudo os (rq_main request) (rq_tun_enabled request)
                              then [main] else []),
               rc_job = job, rc_last_request = Some request, rc_core_type = Some (cs_core_type (rq_main request))\<rparr>"
    have as: "assign_to_job os ?r main w1 = (res, w')" using assms sp Inr by (simp add: start_main_def)
    show ?thesis
      using assign_effect[OF as] e Inr
      by (cases res) (auto simp: pids_def handles_def intro: well_trans)
  qed
qed

lemma start_pre_effect:
  assumes "start_pre os request r w = (res, w')" and "rc_pre r = None"
  shows "case res of
      Inr r' \<Rightarrow> well w w' \<and> (\<exists>pre j el.
          r' = r\<lparr>rc_pre := pre, rc_job := j, rc_elevated := rc_elevated r @ el\<rparr>
          \<and> set el \<subseteq> set_option pre \<and> (os \<noteq> Os_Linux \<longrightarrow> el = []) \<and> (pre \<noteq> None \<longleftrightarrow> rq_pre request \<noteq> None)
          \<and> (\<forall>p. pre = Some p \<longrightarrow> ph_id p \<notin> w_children w)
          \<and> w_children w' = w_children w \<union> ph_id ` set_option pre)
    | Inl e \<Rightarrow> os \<noteq> Os_Linux \<longrightarrow> rc_elevated r = [] \<longrightarrow> well w w' \<and> w_children w' = w_children w - pids r"
proof (cases "rq_pre request")
  case None
  then have "res = Inr (r\<lparr>rc_pre := None, rc_job := rc_job r, rc_elevated := rc_elevated r @ []\<rparr>)" "w' = w"
    using assms by (auto simp: start_pre_def)
  moreover have "\<exists>pre j el. r\<lparr>rc_pre := None, rc_job := rc_job r, rc_elevated := rc_elevated r @ []\<rparr>
        = r\<lparr>rc_pre := pre, rc_job := j, rc_elevated := rc_elevated r @ el\<rparr>
      \<and> set el \<subseteq> set_option pre \<and> (os \<noteq> Os_Linux \<longrightarrow> el = []) \<and> (pre \<noteq> None \<longleftrightarrow> rq_pre request \<noteq> None)
      \<and> (\<forall>p. pre = Some p \<longrightarrow> ph_id p \<notin> w_children w)
      \<and> w_children w = w_children w \<union> ph_id ` set_option pre"
    by (intro exI[of _ None] exI[of _ "rc_job r"] exI[of _ "[]"]) (simp add: None)
  ultimately show ?thesis by simp
next
  case (Some spec)
  obtain x w1 where sp: "spawn_process os Role_Pre spec (rq_tun_enabled request) w = (x, w1)" by fastforce
  note e = spawn_process_effect[OF sp]
  show ?thesis
  proof (cases x)
    case (Inl err)
    obtain e' w2 where cl: "cleanup_partial_start os r err w1 = (e', w2)" by fastforce
    have "res = Inl e'" "w' = w2" using assms Some sp Inl cl by (auto simp: start_pre_def)
    then show ?thesis using cleanup_effect[OF cl] e Inl by (auto intro: well_trans)
  next
    case (Inr pre)
    let ?el = "if process_uses_unix_sudo os spec (rq_tun_enabled request) then [pre] else []"
    let ?r = "r\<lparr>rc_pre := Some pre, rc_elevated := rc_elevated r @ ?el\<rparr>"
    have as: "assign_to_job os ?r pre w1 = (res, w')" using assms Some sp Inr by (simp add: start_pre_def)
    show ?thesis
    proof (cases res)
      case (Inl err)
      then show ?thesis
        using assign_effect[OF as] e \<open>x = Inr pre\<close> assms(2)
        by (auto simp: pids_def handles_def intro: well_trans)
    next
      case (Inr r')
      then obtain j where j: "r' = ?r\<lparr>rc_job := j\<rparr>" "well w1 w'" "w_children w' = w_children w1"
        using assign_effect[OF as] by auto
      have "r' = r\<lparr>rc_pre := Some pre, rc_job := j, rc_elevated := rc_elevated r @ ?el\<rparr>" by (simp add: j(1))
      moreover have "set ?el \<subseteq> set_option (Some pre)" "os \<noteq> Os_Linux \<longrightarrow> ?el = []" by auto
      moreover have "well w w'" using e j(2) by (auto intro: well_trans)
      moreover have "w_children w' = w_children w \<union> ph_id ` set_option (Some pre)" "ph_id pre \<notin> w_children w"
        using e j(3) \<open>x = Inr pre\<close> by auto
      ultimately show ?thesis unfolding Inr sum.case using Some by blast
    qed
  qed
qed

lemma start_processes_effect:
  assumes "start_processes os request w = (res, w')"
  shows "case res of
      Inr r \<Rightarrow> core_ok r \<and> rc_main r \<noteq> None \<and> rc_native_tun r = None \<and> rc_last_request r = Some request
        \<and> well w w' \<and> (os \<noteq> Os_Linux \<longrightarrow> rc_elevated r = []) \<and> w_children w' = w_children w \<union> pids r
    | Inl e \<Rightarrow> os \<noteq> Os_Linux \<longrightarrow> well w w' \<and> w_children w' = w_children w"
proof -
  have cl: "well w1 w2 \<and> w_children w2 = w_children w1" if "cleanup_before_start w1 = (x, w2)" for w1 w2 x
    using that consult_shrinks[of w1] shrinks_well by (fastforce simp: cleanup_before_start_def split: prod.splits)
  have jb: "well w1 w2 \<and> w_children w2 = w_children w1" if "create_job w1 = (x, w2)" for w1 w2 x
    using that consult_shrinks[of w1] shrinks_well by (fastforce simp: create_job_def split: prod.splits)
  obtain x1 w1 where s1: "(if os = Os_Windows \<and> rq_tun_enabled request then cleanup_before_start w
      else (Inr (), w)) = (x1, w1)" by fastforce
  have e1: "well w w1" "w_children w1 = w_children w" using s1 by (auto split: if_splits dest: cl)
  show ?thesis
  proof (cases x1)
    case (Inl err)
    then have "res = Inl err" "w' = w1" using assms s1 by (simp_all add: start_processes_def)
    then show ?thesis using e1 by simp
  next
    case (Inr u)
    obtain x2 w2 where s2: "(if os = Os_Windows then create_job w1 else (Inr None, w1)) = (x2, w2)" by fastforce
    have e2: "well w w2" "w_children w2 = w_children w"
      using s2 e1 by (auto split: if_splits dest: jb intro: well_trans)
    show ?thesis
    proof (cases x2)
      case (Inl err)
      then have "res = Inl err" "w' = w2" using assms s1 s2 Inr by (simp_all add: start_processes_def)
      then show ?thesis using e2 by simp
    next
      case x2: (Inr job)
      obtain x3 w3 where s3: "start_main os request job w2 = (x3, w3)" by fastforce
      note e3 = start_main_effect[OF s3]
      show ?thesis
      proof (cases x3)
        case (Inl err)
        then have "res = Inl err" "w' = w3"
          using assms s1 s2 s3 \<open>x1 = Inr u\<close> x2 by (simp_all add: start_processes_def)
        then show ?thesis using e3 e2 Inl by (auto intro: well_trans)
      next
        case x3: (Inr r)
        obtain main j where r: "ph_id main \<notin> w_children w2" "well w2 w3"
          "r = \<lparr>rc_profile_id = rq_profile_id request, rc_main = Some main, rc_pre = None, rc_native_tun = None,
               rc_elevated = (if process_uses_unix_sudo os (rq_main request) (rq_tun_enabled request)
                              then [main] else []),
               rc_job = j, rc_last_request = Some request, rc_core_type = Some (cs_core_type (rq_main request))\<rparr>"
          "w_children w3 = insert (ph_id main) (w_children w2)"
          using e3 by (auto simp: x3)
        obtain x4 w4 where s4: "start_pre os request r w3 = (x4, w4)" by fastforce
        have e4: "case x4 of
            Inr r' \<Rightarrow> well w3 w4 \<and> (\<exists>pre j el.
                r' = r\<lparr>rc_pre := pre, rc_job := j, rc_elevated := rc_elevated r @ el\<rparr>
                \<and> set el \<subseteq> set_option pre \<and> (os \<noteq> Os_Linux \<longrightarrow> el = []) \<and> (pre \<noteq> None \<longleftrightarrow> rq_pre request \<noteq> None)
                \<and> (\<forall>p. pre = Some p \<longrightarrow> ph_id p \<notin> w_children w3)
                \<and> w_children w4 = w_children w3 \<union> ph_id ` set_option pre)
          | Inl e \<Rightarrow> os \<noteq> Os_Linux \<longrightarrow> rc_elevated r = [] \<longrightarrow> well w3 w4 \<and> w_children w4 = w_children w3 - pids r"
          by (rule start_pre_effect[OF s4]) (simp add: r(3))
        have w3: "well w w3" using e2 r(2) by (auto intro: well_trans)
        show ?thesis
        proof (cases x4)
          case (Inl err)
          then have "res = Inl err" "w' = w4"
            using assms s1 s2 s3 s4 \<open>x1 = Inr u\<close> x2 x3 by (simp_all add: start_processes_def)
          moreover have "pids r = {ph_id main}" "os \<noteq> Os_Linux \<longrightarrow> rc_elevated r = []"
            by (simp_all add: r(3) pids_def handles_def)
          ultimately show ?thesis using e4 Inl w3 r(1,4) e2(2) by (auto intro: well_trans)
        next
          case x4: (Inr r')
          obtain pre j' el where r': "r' = r\<lparr>rc_pre := pre, rc_job := j', rc_elevated := rc_elevated r @ el\<rparr>"
            "set el \<subseteq> set_option pre" "os \<noteq> Os_Linux \<longrightarrow> el = []" "pre \<noteq> None \<longleftrightarrow> rq_pre request \<noteq> None"
            "\<forall>p. pre = Some p \<longrightarrow> ph_id p \<notin> w_children w3" "w_children w4 = w_children w3 \<union> ph_id ` set_option pre"
            and w4: "well w3 w4"
            using e4 unfolding x4 sum.case by (elim conjE exE) (rule that; assumption)
          have res: "res = Inr (r'\<lparr>rc_core_type := Some (request_core_type request)\<rparr>)" and w': "w' = w4"
            using assms s1 s2 s3 s4 \<open>x1 = Inr u\<close> x2 x3 x4 by (simp_all add: start_processes_def)
          have "core_ok (r'\<lparr>rc_core_type := Some (request_core_type request)\<rparr>)"
            using r'(2,4,5) r(4) by (auto simp: core_ok_def r'(1) r(3) handles_def)
          then show ?thesis
            using r' r(4) e2 w3 w4
            by (auto simp: res w' r(3) pids_def handles_def intro: well_trans)
        qed
      qed
    qed
  qed
qed

section \<open>Operations\<close>

text \<open>A world in which the runner only has channels to processes of the running core.\<close>

definition clean :: "supervisor_actor \<Rightarrow> sup_world \<Rightarrow> bool" where
  "clean a w \<longleftrightarrow> rc_elevated (sa_running a) = [] \<and> w_children w \<subseteq> pids (sa_running a)
     \<and> (reliable w \<longrightarrow> accounted w)"

lemma sup_stop_clean: "clean a w \<Longrightarrow> sup_stop a w = (res, a', w') \<Longrightarrow> clean a' w'"
  using sup_stop_cases[of a w res a' w'] sup_stop_world[of a w res a' w']
  by (auto simp: clean_def dest: shrinks_reliable)

lemma sup_stop_os: "sup_stop a w = (res, a', w') \<Longrightarrow> sa_os a' = sa_os a \<and> sa_generation a' = sa_generation a"
  using sup_stop_cases[of a w res a' w'] by auto

lemma native_effect:
  assumes "start_native_tun request backend a w = (res, a', w')"
  shows "well w w' \<and> w_children w' = w_children w \<and> sa_os a' = sa_os a
     \<and> ((\<exists>e. res = Inl e \<and> a' = a)
        \<or> (res = Inr (snapshot (sa_running a')) \<and> sa_generation a' = sa_generation a + 1
           \<and> rc_native_tun (sa_running a') = Some \<lparr>rn_backend = backend, rn_generation = sa_generation a'\<rparr>
           \<and> rc_last_request (sa_running a') = Some request \<and> handles (sa_running a') = {}
           \<and> rc_elevated (sa_running a') = [] \<and> core_ok (sa_running a')))"
proof (cases "native_tun_start_request_of request backend")
  case (Inl e)
  then show ?thesis using assms by (auto simp: start_native_tun_def)
next
  case (Inr nr)
  obtain x w1 where n: "native_start nr w = (x, w1)" by fastforce
  obtain an w2 where c: "consult w = (an, w2)" by fastforce
  have w2: "well w w2" "w_children w2 = w_children w" using consult_shrinks[OF c] shrinks_well by blast+
  have w1: "w1 = (if an_ok an then w2\<lparr>w_tunnels := insert (nr_backend nr) (w_tunnels w2)\<rparr> else w2)"
    using n c by (simp add: native_start_def split: if_splits)
  have e: "well w w1" "w_children w1 = w_children w" unfolding w1 using w2 by simp_all
  have wt: "well w (w1\<lparr>w_watchers := y\<rparr>)" for y using e(1) by simp
  show ?thesis
  proof (cases x)
    case (Inl err)
    then show ?thesis using assms Inr n e by (auto simp: start_native_tun_def)
  next
    case x: (Inr u)
    have "res = Inr (snapshot (sa_running a'))" "w' = w1\<lparr>w_watchers := w_watchers w1 @ [(sa_generation a + 1, backend)]\<rparr>"
      "a' = a\<lparr>sa_running := \<lparr>rc_profile_id = rq_profile_id request, rc_main = None, rc_pre = None,
            rc_native_tun = Some \<lparr>rn_backend = backend, rn_generation = sa_generation a + 1\<rparr>,
            rc_elevated = [], rc_job = None, rc_last_request = Some request,
            rc_core_type = Some (request_core_type request)\<rparr>, sa_generation := sa_generation a + 1\<rparr>"
      using assms Inr n x by (auto simp: start_native_tun_def Let_def)
    then show ?thesis using e wt by (simp add: handles_def core_ok_def)
  qed
qed

definition started :: "supervisor_start_request \<Rightarrow> running_core \<Rightarrow> bool" where
  "started request r \<longleftrightarrow> rc_last_request r = Some request \<and> (rc_main r \<noteq> None \<or> rc_native_tun r \<noteq> None)"

text \<open>What a start leaves behind: the new core, or the old one if it could not be stopped, or none.\<close>

definition start_outcome ::
    "supervisor_start_request \<Rightarrow> supervisor_error + supervisor_snapshot \<Rightarrow> supervisor_actor \<Rightarrow> supervisor_actor \<Rightarrow> bool"
  where
  "start_outcome request res a a' \<longleftrightarrow> actor_ok a' \<and> sa_os a' = sa_os a
     \<and> (case res of
          Inr snap \<Rightarrow> snap = snapshot (sa_running a') \<and> started request (sa_running a')
        | Inl e \<Rightarrow> sa_running a' \<in> {sa_running a, empty_core})"

lemma sup_start_spec:
  assumes "actor_ok a" and "sup_start request a w = (res, a', w')"
  shows "start_outcome request res a a' \<and> (sa_os a \<noteq> Os_Linux \<longrightarrow> clean a w \<longrightarrow> clean a' w')"
proof -
  obtain x a1 w1 where st: "sup_stop a w = (x, a1, w1)" using prod_cases3 by blast
  note os = sup_stop_os[OF st] and ok = sup_stop_ok[OF assms(1) st]
  have cl: "clean a w \<Longrightarrow> clean a1 w1" using sup_stop_clean st by blast
  show ?thesis
  proof (cases x)
    case (Inl e)
    then have "res = Inl e" "a' = a1" "w' = w1" using assms(2) st by (simp_all add: sup_start_def)
    then show ?thesis using sup_stop_cases[OF st] Inl ok os cl by (auto simp: start_outcome_def)
  next
    case (Inr u)
    then have a1: "a1 = a\<lparr>sa_running := empty_core\<rparr>" using sup_stop_cases[OF st] by auto
    let ?b = "supervisor_tun_backend (sa_os a) (rq_tun_enabled request)"
    show ?thesis
    proof (cases "is_native ?b")
      case True
      have n: "start_native_tun request ?b a1 w1 = (res, a', w')"
        using assms(2) st Inr True a1 by (simp add: sup_start_def)
      note e = native_effect[OF n]
      have "clean a' w'" if "clean a1 w1"
      proof -
        have "reliable w' = reliable w1" "reliable w1 \<Longrightarrow> accounted w1 \<Longrightarrow> accounted w'"
          using e by (auto simp: well_def reliable_def)
        then show ?thesis using e that a1 by (auto simp: clean_def pids_def)
      qed
      moreover have "start_outcome request res a a'"
        using e ok by (auto simp: start_outcome_def actor_ok_def started_def a1)
      ultimately show ?thesis using cl by blast
    next
      case False
      obtain y w2 where sp: "start_processes (sa_os a) request w1 = (y, w2)" by fastforce
      note e = start_processes_effect[OF sp]
      have rel: "well w1 w2 \<Longrightarrow> reliable w2 = reliable w1" by (simp add: well_def reliable_def)
      show ?thesis
      proof (cases y)
        case (Inl err)
        then have r: "res = Inl err" "a' = a1" "w' = w2"
          using assms(2) st Inr False a1 sp by (simp_all add: sup_start_def)
        then show ?thesis
          using e Inl ok os cl rel by (auto simp: start_outcome_def a1 clean_def well_def)
      next
        case y: (Inr r)
        then have r: "res = Inr (snapshot r)" "a' = a1\<lparr>sa_running := r\<rparr>" "w' = w2"
          using assms(2) st Inr False a1 sp by (simp_all add: sup_start_def)
        have "clean a' w'" if "sa_os a \<noteq> Os_Linux" "clean a1 w1"
          using that e y rel by (auto simp: r clean_def a1 well_def)
        moreover have "start_outcome request res a a'"
          using e y by (auto simp: start_outcome_def actor_ok_def started_def r a1)
        ultimately show ?thesis using cl by blast
      qed
    qed
  qed
qed

lemma native_tun_exited_spec:
  assumes "actor_ok a" and "native_tun_exited g m a w = (a', w')"
  shows "actor_ok a' \<and> sa_os a' = sa_os a \<and> sa_running a' \<in> {sa_running a, empty_core} \<and> (clean a w \<longrightarrow> clean a' w')"
proof (cases "\<exists>t. rc_native_tun (sa_running a) = Some t \<and> rn_generation t = g")
  case True
  then obtain t where t: "rc_native_tun (sa_running a) = Some t" "rn_generation t = g" by blast
  obtain x w1 where s: "stop_running (sa_os a) (sa_running a) w = (x, w1)" by fastforce
  have a': "a' = a\<lparr>sa_running := empty_core\<rparr>" and w': "\<exists>ev. w' = close_job (rc_job (sa_running a)) w1\<lparr>w_events := ev\<rparr>"
    using assms(2) t s by (auto simp: native_tun_exited_def)
  have "clean a' w'" if "clean a w"
  proof -
    have "accounted (close_job j w1)" if "accounted w1" for j using shrinks_accounted[OF _ _ that] by simp
    then show ?thesis
      using \<open>clean a w\<close> stop_running_shrinks[OF s] w'
      by (auto simp: clean_def a' reliable_def accounted_def shrinks_def close_job_def split: option.splits)
  qed
  then show ?thesis using a' by (simp add: actor_ok_def)
next
  case False
  then have "a' = a" "w' = w" using assms(2) by (auto simp: native_tun_exited_def split: option.splits if_splits)
  then show ?thesis using assms(1) by simp
qed

section \<open>Refinement of the connection state\<close>

text \<open>
  The contract of the supervisor: it is idle or up for a profile with a core. A start that
  succeeds makes it up for the request, a stop that succeeds makes it idle, a failed stop
  changes nothing, and an exit keeps it as it is, restarted or not, or makes it idle.
\<close>

datatype connection = Idle | Up "string option" core_type

definition connection_of :: "running_core \<Rightarrow> connection" where
  "connection_of r = (case rc_last_request r of
     None \<Rightarrow> Idle | Some request \<Rightarrow> Up (rq_profile_id request) (request_core_type request))"

definition up_for :: "supervisor_start_request \<Rightarrow> connection" where
  "up_for request = Up (rq_profile_id request) (request_core_type request)"

fun contract ::
    "supervisor_command \<Rightarrow> bool \<Rightarrow> connection \<Rightarrow> connection \<Rightarrow> bool" where
  "contract (Cmd_Start request c) ok x x' = (if ok then x' = up_for request else x' \<in> {x, Idle})"
| "contract (Cmd_Restart request c) ok x x' = (if ok then x' = up_for request else x' \<in> {x, Idle})"
| "contract (Cmd_Stop c) ok x x' = (x' = (if ok then Idle else x))"
| "contract (Cmd_Status c) ok x x' = (ok \<and> x' = x)"
| "contract (Cmd_ProcessExited p e c) ok x x' = (x' \<in> {x, Idle})"
| "contract (Cmd_NativeTunExited g m) ok x x' = (x' \<in> {x, Idle})"

lemma connection_of_empty [simp]: "connection_of empty_core = Idle"
  by (simp add: connection_of_def)

lemma connection_of_started [simp]: "started request r \<Longrightarrow> connection_of r = up_for request"
  by (simp add: connection_of_def started_def up_for_def)

lemma connected_iff:
  "core_ok r \<Longrightarrow> ss_state (snapshot r) = Connected \<longleftrightarrow> connection_of r \<noteq> Idle"
  by (auto simp: core_ok_def connection_of_def snapshot_def split: option.splits)

definition command_outcome ::
    "supervisor_command \<Rightarrow> supervisor_error + supervisor_snapshot \<Rightarrow> supervisor_actor \<Rightarrow> supervisor_actor \<Rightarrow> bool"
  where
  "command_outcome c res a a' \<longleftrightarrow> actor_ok a' \<and> sa_os a' = sa_os a
     \<and> contract c (\<not> isl res) (connection_of (sa_running a)) (connection_of (sa_running a'))
     \<and> (\<forall>snap. res = Inr snap \<longrightarrow> snap = snapshot (sa_running a'))"

lemma start_contract:
  assumes "start_outcome request res a a'"
  shows "(if \<not> isl res then connection_of (sa_running a') = up_for request
      else connection_of (sa_running a') \<in> {connection_of (sa_running a), Idle})
     \<and> actor_ok a' \<and> sa_os a' = sa_os a \<and> (\<forall>snap. res = Inr snap \<longrightarrow> snap = snapshot (sa_running a'))"
  using assms by (cases res) (auto simp: start_outcome_def)

text \<open>Stopping and then starting, as a restart and a crash do.\<close>

lemma stop_start_spec:
  assumes "actor_ok a" and "sup_stop a w = (Inr u, a1, w1)" and "sup_start request a1 w1 = (res, a', w')"
  shows "start_outcome request res a1 a' \<and> sa_running a1 = empty_core \<and> sa_os a1 = sa_os a
     \<and> (sa_os a \<noteq> Os_Linux \<longrightarrow> clean a w \<longrightarrow> clean a' w')"
  using sup_start_spec[OF sup_stop_ok[OF assms(1,2)] assms(3)] sup_stop_cases[OF assms(2)]
    sup_stop_clean[OF _ assms(2)] by auto

lemma run_command_spec:
  assumes "actor_ok a" and "run_command c a w = (res, a', w')"
  shows "command_outcome c res a a' \<and> (sa_os a \<noteq> Os_Linux \<longrightarrow> clean a w \<longrightarrow> clean a' w')"
proof (cases c)
  case (Cmd_Start request ch)
  then have s: "sup_start request a w = (res, a', w')" using assms(2) by simp
  show ?thesis
    using sup_start_spec[OF assms(1) s] start_contract[of request res a a'] by (auto simp: command_outcome_def Cmd_Start)
next
  case (Cmd_Stop ch)
  then have s: "sup_stop a w = (res, a', w')" using assms(2) by simp
  show ?thesis
    using sup_stop_cases[OF s] sup_stop_ok[OF assms(1) s] sup_stop_clean[OF _ s]
    by (auto simp: command_outcome_def Cmd_Stop)
next
  case (Cmd_Restart request ch)
  obtain x a1 w1 where st: "sup_stop a w = (x, a1, w1)" using prod_cases3 by blast
  show ?thesis
  proof (cases x)
    case (Inl e)
    then have r: "res = Inl e" "a' = a1" "w' = w1" using assms(2) st by (simp_all add: Cmd_Restart)
    then show ?thesis
      using sup_stop_cases[OF st] Inl assms(1) sup_stop_clean[OF _ st] by (auto simp: command_outcome_def Cmd_Restart)
  next
    case (Inr u)
    then have s: "sup_start request a1 w1 = (res, a', w')" using assms(2) st by (simp add: Cmd_Restart)
    show ?thesis
      using stop_start_spec[OF assms(1) st[unfolded Inr] s] start_contract[of request res a1 a']
      by (auto simp: command_outcome_def Cmd_Restart)
  qed
next
  case (Cmd_Status ch)
  then show ?thesis using assms by (auto simp: command_outcome_def)
next
  case (Cmd_ProcessExited pid code ch)
  then have p: "process_exited pid a w = (res, a', w')" using assms(2) by simp
  show ?thesis
  proof (cases "contains_pid (sa_running a) pid")
    case False
    then show ?thesis using p assms(1) by (auto simp: process_exited_def command_outcome_def Cmd_ProcessExited)
  next
    case True
    obtain x a1 w1 where st: "sup_stop a w = (x, a1, w1)" using prod_cases3 by blast
    note cl = sup_stop_clean[OF _ st] and cs = sup_stop_cases[OF st] and ok = sup_stop_ok[OF assms(1) st]
    let ?rq = "opt_filter rq_restart_on_crash (rc_last_request (sa_running a))"
    show ?thesis
    proof (cases x)
      case (Inl e)
      then have r: "res = Inl e" "a' = a1" "w' = w1" using p True st by (simp_all add: process_exited_def)
      then show ?thesis using cs Inl assms(1) cl by (auto simp: command_outcome_def Cmd_ProcessExited)
    next
      case (Inr u)
      show ?thesis
      proof (cases ?rq)
        case None
        then have r: "res = Inr disconnected" "a' = a1" "w' = w1"
          using p True st Inr by (simp_all add: process_exited_def)
        then show ?thesis using cs Inr ok cl by (auto simp: command_outcome_def Cmd_ProcessExited)
      next
        case (Some request)
        then have s: "sup_start request a1 w1 = (res, a', w')" using p True st Inr by (simp add: process_exited_def opt_filter_def)
        have "connection_of (sa_running a) = up_for request"
          using Some by (auto simp: opt_filter_def connection_of_def up_for_def split: option.splits if_splits)
        then show ?thesis
          using stop_start_spec[OF assms(1) st[unfolded Inr] s] start_contract[of request res a1 a']
          by (cases res) (auto simp: command_outcome_def Cmd_ProcessExited)
      qed
    qed
  qed
next
  case (Cmd_NativeTunExited g m)
  obtain a1 w1 where n: "native_tun_exited g m a w = (a1, w1)" by fastforce
  then have r: "res = Inr (snapshot (sa_running a1))" "a' = a1" "w' = w1"
    using assms(2) by (auto simp: Cmd_NativeTunExited)
  then show ?thesis
    using native_tun_exited_spec[OF assms(1) n] by (auto simp: command_outcome_def Cmd_NativeTunExited)
qed

text \<open>
  C11: every command keeps the contract of the connection state: a successful start or restart
  is up for its request, a successful stop is idle, a failed stop changes nothing, a failed
  start leaves the old connection or none, an exit event keeps the connection, restarted or
  not, or ends it. A reported snapshot is the actor's own state, connected exactly if up.
\<close>

theorem supervisor_refines_contract:
  assumes "actor_ok a" and "run_command c a w = (res, a', w')"
  shows "actor_ok a'
     \<and> contract c (\<not> isl res) (connection_of (sa_running a)) (connection_of (sa_running a'))
     \<and> (\<forall>snap. res = Inr snap \<longrightarrow> snap = snapshot (sa_running a')
          \<and> (ss_state snap = Connected \<longleftrightarrow> connection_of (sa_running a') \<noteq> Idle))"
  using run_command_spec[OF assms] connected_iff by (auto simp: command_outcome_def actor_ok_def)

section \<open>Reachable states\<close>

definition sys_ok :: "system \<Rightarrow> bool" where
  "sys_ok s \<longleftrightarrow> actor_ok (sy_actor s)
     \<and> (sa_os (sy_actor s) \<noteq> Os_Linux \<longrightarrow> clean (sy_actor s) (sy_world s))"

lemma clean_shrink:
  assumes "clean a w" and "w_oracle w' = w_oracle w" "w_started w' = w_started w"
    and "w_alive w' \<subseteq> w_alive w" "w_children w' \<subseteq> w_children w" "w_unwatched w \<subseteq> w_unwatched w'"
    and "w_children w - w_children w' \<subseteq> - w_alive w \<union> w_unwatched w'"
  shows "clean a w'"
proof -
  have "accounted w'" if "accounted w" using that assms by (auto simp: accounted_def) blast
  moreover have "reliable w' = reliable w" using assms by (simp add: reliable_def)
  ultimately show ?thesis using assms by (auto simp: clean_def)
qed

lemma handle_next_ok:
  assumes "sys_ok s"
  shows "sys_ok (handle_next s)"
proof (cases "sy_queue s")
  case (Cons c q)
  obtain res a' w' where r: "run_command c (sy_actor s) (sy_world s) = (res, a', w')" using prod_cases3 by blast
  have "actor_ok (sy_actor s)" using assms by (simp add: sys_ok_def)
  from run_command_spec[OF this r] show ?thesis
    using assms by (auto simp: sys_ok_def handle_next_def Cons r command_outcome_def)
qed (use assms in \<open>simp add: handle_next_def\<close>)

lemma sup_step_ok: "sup_step s s' \<Longrightarrow> sys_ok s \<Longrightarrow> sys_ok s'"
proof (induction rule: sup_step.induct)
  case (handle s)
  then show ?case by (simp add: handle_next_ok)
qed (auto simp: sys_ok_def enqueue_def intro: clean_shrink)

lemma reachable_ok: "reachable s \<Longrightarrow> sys_ok s"
proof (induction rule: reachable.induct)
  case (init os ora others)
  then show ?case
    by (auto simp: sys_ok_def start_system_def clean_def new_actor_def start_world_def accounted_def actor_ok_def)
next
  case (step s s')
  then show ?case by (simp add: sup_step_ok)
qed

text \<open>
  C13: in every reachable state the supervisor's record is consistent: a native tunnel and
  processes exclude each other, there is no second process without a main one, their
  identifiers differ, only tracked processes are marked as elevated, and the record is empty
  or belongs to the last request, whose profile and core it names; the running tunnel has the
  latest generation.
\<close>

theorem supervisor_state_consistent:
  assumes "reachable s"
  shows "let r = sa_running (sy_actor s) in
     (rc_native_tun r \<noteq> None \<longrightarrow> rc_main r = None \<and> rc_pre r = None)
     \<and> (rc_main r = None \<longrightarrow> rc_pre r = None)
     \<and> (\<forall>m p. rc_main r = Some m \<longrightarrow> rc_pre r = Some p \<longrightarrow> ph_id m \<noteq> ph_id p)
     \<and> set (rc_elevated r) \<subseteq> set_option (rc_main r) \<union> set_option (rc_pre r)
     \<and> (\<forall>t. rc_native_tun r = Some t \<longrightarrow> rn_generation t = sa_generation (sy_actor s))
     \<and> (r = empty_core \<or> (\<exists>request. rc_last_request r = Some request
          \<and> rc_profile_id r = rq_profile_id request \<and> rc_core_type r = Some (request_core_type request)
          \<and> (rc_main r \<noteq> None \<or> rc_native_tun r \<noteq> None)))"
  using reachable_ok[OF assms]
  by (auto simp: sys_ok_def actor_ok_def core_ok_def handles_def Let_def split: option.splits)

text \<open>
  C12: outside Linux, in every reachable state the process runner only controls processes of
  the running core, and if kills succeed when asked for, every process it ever started and
  that is still running is the main or the second process of the running core, or one whose
  reaper gave up because it could not be waited for: no failed start, crash, restart or stop
  leaves another one behind.
\<close>

theorem no_process_left_behind:
  assumes "reachable s" and "sa_os (sy_actor s) \<noteq> Os_Linux"
  shows "w_children (sy_world s) \<subseteq> pids (sa_running (sy_actor s))
     \<and> ((\<forall>t. an_kill_ok (w_oracle (sy_world s) t)) \<longrightarrow>
          w_alive (sy_world s) \<inter> w_started (sy_world s)
            \<subseteq> pids (sa_running (sy_actor s)) \<union> w_unwatched (sy_world s))"
  using reachable_ok[OF assms(1)] assms(2)
  by (auto simp: sys_ok_def clean_def reliable_def accounted_def)

section \<open>A sample run\<close>

definition sample_spec :: core_process_spec where
  "sample_spec = \<lparr>cs_core_type = Core_sing_box,
     cs_launch = \<lparr>cl_executable = ''/opt/voya/sing-box'', cl_arguments = ''run -c config.json'',
        cl_working_dir = ''/opt/voya'', cl_environment = []\<rparr>,
     cs_config_path = Some ''/opt/voya/config.json'', cs_display_log = True, cs_may_need_sudo = True\<rparr>"

definition sample_request :: supervisor_start_request where
  "sample_request = \<lparr>rq_profile_id = Some ''p'', rq_main = sample_spec, rq_pre = Some sample_spec,
     rq_tun_enabled = False, rq_sudo_script_dir = ''/tmp'', rq_restart_on_crash = True\<rparr>"

definition sample_answer :: "nat \<Rightarrow> os_answer" where
  "sample_answer t = \<lparr>an_dies = [], an_ok = True, an_kill_ok = True, an_pid = 100 + t,
     an_output = \<lparr>po_status_code = Some 0, po_stdout = [], po_stderr = []\<rparr>, an_kills = [], an_job = True\<rparr>"

definition sample_system :: system where
  "sample_system = handle_next (enqueue (Cmd_Start sample_request 7) (start_system Os_Windows sample_answer {1}))"

lemma sample_reachable: "reachable sample_system"
proof -
  let ?s = "start_system Os_Windows sample_answer {1}"
  have "sup_step ?s (enqueue (Cmd_Start sample_request 7) ?s)" by (rule sup_step.request[where ch = 7 and r = sample_request]) simp
  then have "reachable (enqueue (Cmd_Start sample_request 7) ?s)" by (rule reachable.step[OF reachable.init])
  moreover have "sup_step (enqueue (Cmd_Start sample_request 7) ?s) sample_system"
    unfolding sample_system_def by (rule sup_step.handle) (simp add: enqueue_def)
  ultimately show ?thesis by (rule reachable.step)
qed

lemma sample_values:
  "pids (sa_running (sy_actor sample_system)) = {101, 103}" "sa_os (sy_actor sample_system) = Os_Windows"
  "w_alive (sy_world sample_system) = {1, 101, 103}" "w_started (sy_world sample_system) = {101, 103}"
  "w_unwatched (sy_world sample_system) = {}"
  by code_simp+

lemma sample_kills: "an_kill_ok (w_oracle (sy_world sample_system) t)"
  by code_simp

lemma supervisor_state_consistent_witness:
  "reachable sample_system \<and> sa_running (sy_actor sample_system) \<noteq> empty_core
   \<and> (\<exists>request. rc_last_request (sa_running (sy_actor sample_system)) = Some request)"
proof -
  have n: "sa_running (sy_actor sample_system) \<noteq> empty_core"
    using sample_values(1) by (metis empty_core_simps(10) insert_not_empty)
  then show ?thesis
    using supervisor_state_consistent[OF sample_reachable] sample_reachable by (auto simp: Let_def)
qed

lemma no_process_left_behind_witness:
  "reachable sample_system \<and> {101, 103} \<subseteq> w_alive (sy_world sample_system)
   \<and> w_alive (sy_world sample_system) \<inter> w_started (sy_world sample_system) \<subseteq> {101, 103}"
proof -
  have "sa_os (sy_actor sample_system) \<noteq> Os_Linux" by (simp add: sample_values)
  from no_process_left_behind[OF sample_reachable this]
  have "w_alive (sy_world sample_system) \<inter> w_started (sy_world sample_system) \<subseteq> {101, 103}"
    using sample_kills by (simp add: sample_values(1,5))
  then show ?thesis using sample_reachable by (simp add: sample_values)
qed

lemma supervisor_refines_contract_witness:
  "connection_of (sa_running (sy_actor sample_system)) = Up (Some ''p'') Core_sing_box"
proof -
  let ?w = "start_world sample_answer {1}"
  obtain res a' w' where r: "run_command (Cmd_Start sample_request 7) (new_actor Os_Windows) ?w = (res, a', w')"
    using prod_cases3 by blast
  have "\<not> isl (fst (run_command (Cmd_Start sample_request 7) (new_actor Os_Windows) ?w))" by code_simp
  then have "connection_of (sa_running a') = up_for sample_request"
    using supervisor_refines_contract[OF new_actor_ok r] r by simp
  moreover have "sa_running (sy_actor sample_system) = sa_running a'"
    using r by (simp add: sample_system_def handle_next_def enqueue_def start_system_def)
  moreover have "up_for sample_request = Up (Some ''p'') Core_sing_box" by code_simp
  ultimately show ?thesis by simp
qed

text \<open>
  C27: the exit of a native tunnel ends the connection only if it is the running one's: a
  message of an earlier generation changes neither the actor nor the world. The running
  tunnel's exit empties the record, tries to stop it and tells the sink once, with its profile.
\<close>

theorem tunnel_exit_only_current:
  "case rc_native_tun (sa_running a) of
     None \<Rightarrow> native_tun_exited generation message a w = (a, w)
   | Some t \<Rightarrow>
       if rn_generation t \<noteq> generation then native_tun_exited generation message a w = (a, w)
       else sa_running (fst (native_tun_exited generation message a w)) = empty_core
         \<and> w_events (snd (native_tun_exited generation message a w)) = w_events w
             @ [\<lparr>ne_profile_id = rc_profile_id (sa_running a), ne_backend = rn_backend t, ne_message = message\<rparr>]"
proof -
  obtain x w1 where s: "stop_running (sa_os a) (sa_running a) w = (x, w1)" by fastforce
  have "w_events w1 = w_events w" using stop_running_shrinks[OF s] by (simp add: shrinks_def)
  then show ?thesis by (simp add: native_tun_exited_def s split: option.split)
qed

end
