(* ===== verification/SupervisorFindings.thy ===== *)
theory SupervisorFindings
  imports SupervisorProps
begin

text \<open>
  Command lines read back as they were quoted, and two runs in which the supervisor loses a
  process that is still running, as closed statements.
\<close>

section \<open>Command lines\<close>

lemma dropWhile_head: "b = [] \<or> \<not> P (hd b) \<Longrightarrow> dropWhile P (xs @ b) = dropWhile P xs @ b"
  by (induction xs) (cases b; auto)+

lemma takeWhile_head: "b = [] \<or> \<not> P (hd b) \<Longrightarrow> takeWhile P (xs @ b) = takeWhile P xs"
  by (induction xs) (cases b; auto)+

lemma chars_of_append:
  "b = [] \<or> \<not> continues_char (hd b) \<Longrightarrow> chars_of (a @ b) = chars_of a @ chars_of b"
  by (induction a rule: chars_of.induct) (simp_all add: dropWhile_head takeWhile_head)

lemma concat_chars_of [simp]: "concat (chars_of s) = s"
  by (induction s rule: chars_of.induct) simp_all

lemma chars_of_head: "c \<in> set (chars_of s) \<Longrightarrow> \<exists>x xs. c = x # xs \<and> x \<in> set s"
proof (induction s rule: chars_of.induct)
  case (2 x s)
  then show ?case using set_dropWhileD[of _ continues_char s] by auto
qed simp

definition plain_text :: "string \<Rightarrow> bool" where
  "plain_text s \<longleftrightarrow> s \<noteq> [] \<and> CHR 0x22 \<notin> set s \<and> CHR 0x5C \<notin> set s \<and> \<not> continues_char (hd s)"

lemma fold_quoted:
  assumes "\<forall>c \<in> set cs. c \<noteq> [CHR 0x22] \<and> c \<noteq> [CHR 0x5C]"
    and "sl_quote st = Some [CHR 0x22]" and "\<not> sl_escaped st" and "sl_saw_token st"
  shows "fold split_step cs st = st\<lparr>sl_current := sl_current st @ concat cs\<rparr>"
  using assms
proof (induction cs arbitrary: st)
  case (Cons c cs)
  have "split_step c st = st\<lparr>sl_current := sl_current st @ c\<rparr>"
    using Cons.prems by (cases st) (simp add: split_step_def split_push_def)
  then show ?case using Cons by simp
qed simp

lemma chars_of_quoted:
  assumes "plain_text a"
  shows "chars_of (quote_path a @ b) = [[CHR 0x22]] @ chars_of a @ chars_of (CHR 0x22 # b)"
proof -
  have q: "\<not> continues_char (CHR 0x22)" by code_simp
  obtain x xs where a: "a = x # xs" using assms by (cases a) (auto simp: plain_text_def)
  then have "\<not> continues_char x" using assms by (simp add: plain_text_def)
  then have "chars_of (CHR 0x22 # (a @ CHR 0x22 # b)) = [CHR 0x22] # chars_of (a @ CHR 0x22 # b)"
    by (simp add: a)
  moreover have "chars_of (a @ CHR 0x22 # b) = chars_of a @ chars_of (CHR 0x22 # b)"
    by (rule chars_of_append) (simp add: q)
  ultimately show ?thesis using a by (simp add: quote_path_def)
qed

lemma fold_quoted_argument:
  assumes "plain_text a" and "sl_quote st = None" "\<not> sl_escaped st" "sl_current st = []"
    and "b = [] \<or> \<not> continues_char (hd b)"
  shows "fold split_step (chars_of (quote_path a @ b)) st
     = fold split_step (chars_of b) (st\<lparr>sl_current := a, sl_saw_token := True\<rparr>)"
proof -
  have q: "chars_of (CHR 0x22 # b) = [CHR 0x22] # chars_of b" using assms(5) by (cases b) simp_all
  let ?s1 = "st\<lparr>sl_quote := Some [CHR 0x22], sl_saw_token := True\<rparr>"
  have "split_step [CHR 0x22] st = ?s1" using assms(2,3) by (simp add: split_step_def quote_char_def)
  moreover have "fold split_step (chars_of a) ?s1 = ?s1\<lparr>sl_current := a\<rparr>"
    using fold_quoted[of "chars_of a" ?s1] assms(1,3,4) chars_of_head[of _ a] by (force simp: plain_text_def)
  moreover have "split_step [CHR 0x22] (?s1\<lparr>sl_current := a\<rparr>) = st\<lparr>sl_current := a, sl_saw_token := True\<rparr>"
    using assms(2,3) by (cases st) (simp add: split_step_def)
  ultimately show ?thesis by (simp add: chars_of_quoted[OF assms(1)] q del: chars_of.simps)
qed

lemma fold_arguments:
  assumes "\<forall>a \<in> set args. plain_text a" and "args \<noteq> []"
    and "sl_quote st = None" "\<not> sl_escaped st" "sl_current st = []" "\<not> sl_saw_token st"
  shows "fold split_step (chars_of (join_with '' '' (map quote_path args))) st
     = st\<lparr>sl_args := sl_args st @ butlast args, sl_current := last args, sl_saw_token := True\<rparr>"
  using assms
proof (induction args arbitrary: st)
  case (Cons a args)
  show ?case
  proof (cases args)
    case Nil
    then show ?thesis using fold_quoted_argument[of a st "[]"] Cons.prems by simp
  next
    case (Cons a2 rest)
    let ?tail = "join_with '' '' (map quote_path args)"
    have j: "join_with '' '' (map quote_path (a # args)) = quote_path a @ '' '' @ ?tail" by (simp add: Cons)
    have t: "?tail \<noteq> []" "hd ?tail = CHR 0x22"
      using Cons.prems(1) Cons by (cases rest; auto simp: quote_path_def plain_text_def)+
    have q: "\<not> continues_char (CHR 0x22)" "\<not> continues_char (CHR '' '')" by code_simp+
    have c: "chars_of (CHR '' '' # ?tail) = '' '' # chars_of ?tail"
      using t q by (cases ?tail) simp_all
    let ?s1 = "st\<lparr>sl_current := a, sl_saw_token := True\<rparr>"
    have w: "'' '' \<in> set white_space" by code_simp
    have "split_step '' '' ?s1 = st\<lparr>sl_args := sl_args st @ [a]\<rparr>"
      using Cons.prems w by (cases st) (simp add: split_step_def quote_char_def)
    moreover have "fold split_step (chars_of (quote_path a @ '' '' @ ?tail)) st
        = fold split_step (chars_of ('' '' @ ?tail)) ?s1"
      by (rule fold_quoted_argument) (use Cons.prems q in auto)
    ultimately have "fold split_step (chars_of (join_with '' '' (map quote_path (a # args)))) st
        = fold split_step (chars_of ?tail) (st\<lparr>sl_args := sl_args st @ [a]\<rparr>)"
      unfolding j by (simp add: c del: chars_of.simps)
    then show ?thesis using Cons.IH[of "st\<lparr>sl_args := sl_args st @ [a]\<rparr>"] Cons.prems Cons by simp
  qed
qed simp

text \<open>
  C37: arguments that are quoted and joined with spaces are split again into the same
  arguments, if none is empty or contains a quote or a backslash.
\<close>

theorem command_line_roundtrip:
  assumes "\<forall>a \<in> set args. plain_text a"
  shows "split_command_line (join_with '' '' (map quote_path args)) = Inr args"
proof (cases "args = []")
  case False
  have s: "sl_quote split_start = None" "\<not> sl_escaped split_start" "sl_current split_start = []"
    "\<not> sl_saw_token split_start" "sl_args split_start = []" by (simp_all add: split_start_def)
  show ?thesis
    using fold_arguments[OF assms False s(1-4)] False s by (simp add: split_command_line_def)
qed (simp add: split_command_line_def split_start_def)

lemma command_line_roundtrip_witness:
  "split_command_line (join_with '' '' (map quote_path [''run'', ''/tmp/Voya VPN/config.json'']))
     = Inr [''run'', ''/tmp/Voya VPN/config.json'']"
proof -
  have "\<forall>a \<in> set [''run'', ''/tmp/Voya VPN/config.json'']. plain_text a" by code_simp
  then show ?thesis by (rule command_line_roundtrip)
qed

section \<open>Lost processes\<close>

text \<open>
  When a core of one process is stopped and the kill fails, the stop reports the failure and
  the core stays recorded, but the runner has dropped its control of the process: the next stop
  reports success and an idle supervisor without doing anything, and the process is still running.
\<close>

theorem retried_stop_forgets_process:
  assumes "rc_main (sa_running a) = Some h" and "rc_pre (sa_running a) = None" "rc_native_tun (sa_running a) = None"
    and "rc_elevated (sa_running a) = []" "rc_job (sa_running a) = None"
    and "ph_id h \<in> w_alive w \<inter> w_children w"
    and "\<not> an_kill_ok (w_oracle w (w_clock w))" "ph_id h \<notin> set (an_dies (w_oracle w (w_clock w)))"
  shows "\<exists>e v. sup_stop a w = (Inl e, a, v)
     \<and> sup_stop a v = (Inr disconnected, a\<lparr>sa_running := empty_core\<rparr>, v)
     \<and> ph_id h \<in> w_alive v"
  using assms
  by (simp add: sup_stop_def stop_running_def stop_native_def stop_handle_def runner_stop_def stop_child_def
      consult_def keep_first_def or_else_def close_job_def Let_def)

definition unkillable :: "nat \<Rightarrow> os_answer" where
  "unkillable t = (sample_answer t)\<lparr>an_kill_ok := False\<rparr>"

definition mac_system :: system where
  "mac_system = handle_next (enqueue (Cmd_Start (sample_request\<lparr>rq_pre := None\<rparr>) 1)
     (start_system Os_Macos unkillable {}))"

theorem retried_stop_forgets_process_witness:
  "\<exists>e v. sup_stop (sy_actor mac_system) (sy_world mac_system) = (Inl e, sy_actor mac_system, v)
     \<and> fst (sup_stop (sy_actor mac_system) v) = Inr disconnected \<and> 100 \<in> w_alive v"
proof -
  let ?h = "\<lparr>ph_id = 100, ph_role = Role_Main\<rparr>"
  have "rc_main (sa_running (sy_actor mac_system)) = Some ?h" "rc_pre (sa_running (sy_actor mac_system)) = None"
    "rc_native_tun (sa_running (sy_actor mac_system)) = None" "rc_elevated (sa_running (sy_actor mac_system)) = []"
    "rc_job (sa_running (sy_actor mac_system)) = None"
    "ph_id ?h \<in> w_alive (sy_world mac_system) \<inter> w_children (sy_world mac_system)"
    "\<not> an_kill_ok (w_oracle (sy_world mac_system) (w_clock (sy_world mac_system)))"
    "ph_id ?h \<notin> set (an_dies (w_oracle (sy_world mac_system) (w_clock (sy_world mac_system))))"
    by code_simp+
  from retried_stop_forgets_process[OF this] show ?thesis by auto
qed

text \<open>
  With TUN on Linux, when the second process cannot be started and the launcher fails to
  kill the elevated main process, the start fails and the main process is forgotten: the
  supervisor stays idle, a stop succeeds without touching anything, and the process keeps running.
\<close>

theorem failed_cleanup_forgets_process:
  assumes "sa_os a = Os_Linux" "sa_running a = empty_core"
    and "start_main Os_Linux request None w = (Inr partial, w1)"
    and "rc_main partial = Some h" "rc_elevated partial = [h]" "rc_native_tun partial = None" "rc_job partial = None"
    and "rq_pre request = Some spec"
    and "spawn_process Os_Linux Role_Pre spec (rq_tun_enabled request) w1 = (Inl e, w2)"
    and "sudo_kill Os_Linux h partial w2 = (Inl f, w3)" "ph_id h \<in> w_alive w3"
  shows "sup_start request a w = (Inl f, a, w3) \<and> sup_stop a w3 = (Inr disconnected, a, w3)
     \<and> ph_id h \<in> w_alive w3 \<and> ph_id h \<notin> pids (sa_running a)"
proof -
  have stop: "sup_stop a v = (Inr disconnected, a, v)" for v
    using assms(2) by (simp add: sup_stop_def stop_running_def stop_native_def stop_handle_def close_job_def Let_def)
  have "start_pre Os_Linux request partial w1 = (Inl f, w3)"
    using assms(4-10)
    by (simp add: start_pre_def cleanup_partial_start_def stop_running_def stop_native_def close_job_def)
  then have "start_processes Os_Linux request w = (Inl f, w3)"
    using assms(3) by (simp add: start_processes_def)
  then have "sup_start request a w = (Inl f, a, w3)"
    using assms(1) by (simp add: sup_start_def stop supervisor_tun_backend_def Let_def)
  then show ?thesis using stop assms(2,11) by simp
qed

definition failing_second :: "nat \<Rightarrow> os_answer" where
  "failing_second t = (sample_answer t)\<lparr>an_ok := (t \<noteq> 1),
     an_output := \<lparr>po_status_code = Some 1, po_stdout = [], po_stderr = ''still running''\<rparr>\<rparr>"

theorem failed_cleanup_forgets_process_witness:
  "\<exists>f w3. sup_start (sample_request\<lparr>rq_tun_enabled := True\<rparr>) (new_actor Os_Linux)
        ((start_world failing_second {})\<lparr>w_granted := True\<rparr>) = (Inl f, new_actor Os_Linux, w3)
     \<and> 100 \<in> w_alive w3"
proof -
  let ?request = "sample_request\<lparr>rq_tun_enabled := True\<rparr>"
  let ?w = "(start_world failing_second {})\<lparr>w_granted := True\<rparr>"
  let ?h = "\<lparr>ph_id = 100, ph_role = Role_Main\<rparr>"
  define s1 where "s1 = start_main Os_Linux ?request None ?w"
  define p where "p = (case fst s1 of Inr r \<Rightarrow> r | Inl _ \<Rightarrow> empty_core)"
  define s2 where "s2 = spawn_process Os_Linux Role_Pre sample_spec True (snd s1)"
  define s3 where "s3 = sudo_kill Os_Linux ?h p (snd s2)"
  have l: "\<not> isl (fst s1)" "isl (fst s2)" "isl (fst s3)"
    "rc_main p = Some ?h" "rc_elevated p = [?h]" "rc_native_tun p = None" "rc_job p = None"
    "100 \<in> w_alive (snd s3)"
    unfolding s3_def s2_def p_def s1_def by code_simp+
  obtain e f where "start_main Os_Linux ?request None ?w = (Inr p, snd s1)"
    and "spawn_process Os_Linux Role_Pre sample_spec (rq_tun_enabled ?request) (snd s1) = (Inl e, snd s2)"
    and "sudo_kill Os_Linux ?h p (snd s2) = (Inl f, snd s3)"
    using l(1-3) by (cases "fst s1"; cases "fst s2"; cases "fst s3") (auto simp: p_def s2_def s3_def s1_def prod_eq_iff)
  from failed_cleanup_forgets_process[OF _ _ this(1) l(4-7) _ this(2,3)] l(8)
  show ?thesis by (auto simp: sample_request_def new_actor_def)
qed

end
