(* ===== verification/ShareText.thy ===== *)
theory ShareText
  imports ProtocolCommon NetAddr Bytes
begin

text \<open>
  \<open>fmt/mod.rs\<close>, \<open>fmt/api.rs\<close> and \<open>fmt/common.rs\<close>: the errors of share links, the third-party
  crates they call, and the helpers every format uses: checks of a profile, percent and base64
  coding, lists in text, prefixes without regard to case.
\<close>

section \<open>Errors\<close>

text \<open>
  The reason of an error is \<open>None\<close> where it is the text of a third-party library's error.
\<close>

datatype share_error =
  EmptyInput
| UnsupportedProtocol
| InvalidUri string "string option"
| InvalidBase64 string
| InvalidJson string "string option"
| MissingField string string
| InvalidPort string string
| WrongConfigType string config_kind
| InvalidFullConfig
| InvalidVoyaBundle "string option"

type_synonym 'a share_result = "share_error + 'a"

datatype custom_config_kind = Cc_SingBox | Cc_Hysteria2

record custom_config_import =
  ci_kind :: custom_config_kind
  ci_extension :: string
  ci_contents :: string
  ci_profile :: profile_item

section \<open>The profile bundle\<close>

datatype voya_bundle_profile =
  Vb_Node string string
  \<comment> \<open>reference, share uri\<close>
| Vb_PolicyGroup string string "string list" bool "string option" "string option"
  \<comment> \<open>reference, name, child refs, include current subscription, strategy, filter\<close>
| Vb_ProxyChain string string "string list" bool
  \<comment> \<open>reference, name, child refs, include current subscription\<close>

record voya_profile_bundle_v1 =
  schema_version :: nat
  bundle_profiles :: "voya_bundle_profile list"

section \<open>Third-party crates\<close>

text \<open>
  \<open>percent_encoding\<close>, \<open>base64\<close> (the standard alphabet with padding), \<open>serde_json\<close> for values and
  for the bundle, and \<open>Url::query_pairs_mut().append_pair(..)\<close> on a link, which fails if the
  link is not a URL.
\<close>

record share_externals = externals +
  percent_decode :: "string \<Rightarrow> byte list"
  b64_encode :: "byte list \<Rightarrow> string"
  b64_decode :: "string \<Rightarrow> byte list option"
  json_to_string :: "json \<Rightarrow> string"
  json_to_string_pretty :: "json \<Rightarrow> string"
  bundle_to_string :: "voya_profile_bundle_v1 \<Rightarrow> string"
  bundle_from_str :: "string \<Rightarrow> voya_profile_bundle_v1 option"
  url_append_pairs :: "string \<Rightarrow> (string \<times> string) list \<Rightarrow> string option"

section \<open>Constants\<close>

definition RAW_NETWORK_ALIAS :: string where "RAW_NETWORK_ALIAS = ''tcp''"
definition RAW_HEADER_HTTP :: string where "RAW_HEADER_HTTP = ''http''"
definition NONE :: string where "NONE = ''none''"
definition STREAM_SECURITY_TLS :: string where "STREAM_SECURITY_TLS = ''tls''"
definition GRPC_GUN_MODE :: string where "GRPC_GUN_MODE = ''gun''"
definition GRPC_MULTI_MODE :: string where "GRPC_MULTI_MODE = ''multi''"
definition HYSTERIA2_DEFAULT_SCHEME :: string where "HYSTERIA2_DEFAULT_SCHEME = ''hysteria2://''"
definition HYSTERIA2_ALT_SCHEME :: string where "HYSTERIA2_ALT_SCHEME = ''hy2://''"
definition NAIVE_HTTPS_SCHEME :: string where "NAIVE_HTTPS_SCHEME = ''naive+https://''"
definition NAIVE_QUIC_SCHEME :: string where "NAIVE_QUIC_SCHEME = ''naive+quic://''"
definition VOYA_PROFILE_BUNDLE_PREFIX :: string where
  "VOYA_PROFILE_BUNDLE_PREFIX = ''voya://profiles/v1/''"
definition MAX_BASE64_DECODE_INPUT :: nat where "MAX_BASE64_DECODE_INPUT = 1024 * 1024"

definition NETWORKS :: "string list" where
  "NETWORKS = [''raw'', ''xhttp'', ''kcp'', ''grpc'', ''ws'', ''httpupgrade'']"

definition XHTTP_MODES :: "string list" where
  "XHTTP_MODES = [''auto'', ''packet-up'', ''stream-up'', ''stream-one'']"

section \<open>JSON objects\<close>

definition json_object :: "(string \<times> json) list \<Rightarrow> json" where
  "json_object items = JObject (bt_of_list items)"

definition value_string :: "json \<Rightarrow> string \<Rightarrow> string" where
  "value_string obj key =
     (case json_get key obj of
        Some (JString text) \<Rightarrow> text
      | Some (JNumber i text) \<Rightarrow> text
      | Some (JBool b) \<Rightarrow> (if b then ''true'' else ''false'')
      | _ \<Rightarrow> [])"

definition value_i32 :: "json \<Rightarrow> string \<Rightarrow> i32 option" where
  "value_i32 obj key =
     (case json_get key obj of
        Some (JNumber i text) \<Rightarrow> opt_filter (\<lambda>n. - 2147483648 \<le> n \<and> n \<le> 2147483647) i
      | Some (JString text) \<Rightarrow> parse_i32 text
      | _ \<Rightarrow> None)"

definition string_field :: "json \<Rightarrow> string \<Rightarrow> string" where
  "string_field obj key = unwrap_or (Option.bind (json_get key obj) json_as_str) []"

section \<open>Numbers and endpoints\<close>

definition parse_positive_i32 :: "string \<Rightarrow> i32 option" where
  "parse_positive_i32 v = opt_filter (\<lambda>n. 0 < n) (parse_i32 v)"

definition parse_wireguard_endpoint :: "string \<Rightarrow> (string \<times> i32) option" where
  "parse_wireguard_endpoint endpoint =
     (let endpoint = trim endpoint in
      if endpoint = [] then None
      else case strip_prefix ''['' endpoint of
             Some rest \<Rightarrow>
               (case split_once (CHR '']'') rest of
                  None \<Rightarrow> None
                | Some (adr, after) \<Rightarrow>
                    (if trim adr = [] then None
                     else Some (trim adr,
                       unwrap_or (opt_filter valid_port
                         (Option.bind (strip_prefix '':'' (trim after)) (\<lambda>text. parse_i32 (trim text)))) 2408)))
           | None \<Rightarrow>
               (case rsplit_once (CHR '':'') endpoint of
                  None \<Rightarrow> Some (endpoint, 2408)
                | Some (adr, port_text) \<Rightarrow>
                    (if trim adr = [] then None
                     else case opt_filter valid_port (parse_i32 (trim port_text)) of
                            Some p \<Rightarrow> Some (trim adr, p)
                          | None \<Rightarrow> Some (endpoint, 2408))))"

section \<open>Checks of a profile\<close>

definition default_tls_settings :: tls_settings where
  "default_tls_settings =
     \<lparr>tls_mode = Tls_Tls, tls_server_name = None, tls_alpn = [], reality_public_key = None,
      reality_short_id = None, reality_spider_x = None, mldsa65_verify = None,
      certificate_pem = None, certificate_sha256 = [], ech_config = [], final_mask = None\<rparr>"

definition ensure_type :: "string \<Rightarrow> profile_item \<Rightarrow> config_kind \<Rightarrow> unit share_result" where
  "ensure_type proto item expected =
     (if config_type item = expected then Inr () else Inl (WrongConfigType proto (config_type item)))"

definition ensure_nonempty :: "string \<Rightarrow> string \<Rightarrow> string \<Rightarrow> unit share_result" where
  "ensure_nonempty proto field v = (if v = [] then Inl (MissingField proto field) else Inr ())"

text \<open>\<open>char::is_control\<close>: below U+0020, U+007F, and U+0080 to U+009F.\<close>

fun has_control :: "string \<Rightarrow> bool" where
  "has_control [] = False"
| "has_control (c # cs) =
     (byte_of c < 32 \<or> byte_of c = 127
      \<or> (byte_of c = 194 \<and> (case cs of d # ds \<Rightarrow> 128 \<le> byte_of d \<and> byte_of d < 160 | [] \<Rightarrow> False))
      \<or> has_control cs)"

definition host_label_ok :: "string \<Rightarrow> bool" where
  "host_label_ok label \<longleftrightarrow>
     label \<noteq> [] \<and> length label \<le> 63 \<and> \<not> starts_with label ''-'' \<and> \<not> ends_with label ''-''
     \<and> list_all (\<lambda>c. is_ascii_alphanumeric c \<or> c = CHR ''-'') label"

definition valid_host :: "string \<Rightarrow> bool" where
  "valid_host host =
     (let host = trim host in
      if host = [] \<or> 253 < length host \<or> has_control host \<or> contains_whitespace host
         \<or> list_ex (\<lambda>c. c \<in> {CHR ''='', CHR ''/'', CHR ''?'', CHR ''#'', CHR ''@'', CHR 0x5C}) host
      then False
      else
        (let host_for_ip = unwrap_or (Option.bind (strip_prefix ''['' host) (strip_suffix '']'')) host in
         if parse_ip host_for_ip \<noteq> None then True
         else if CHR '':'' \<in> set host then False
         else
           (let domain = trim_end_matches (\<lambda>c. c = CHR ''.'') host
            in domain \<noteq> [] \<and> list_all host_label_ok (split_on (\<lambda>c. c = CHR ''.'') domain))))"

definition ensure_address_port :: "string \<Rightarrow> profile_item \<Rightarrow> unit share_result" where
  "ensure_address_port proto item =
     bind_ok (ensure_nonempty proto ''address'' (address item)) (\<lambda>_.
       if \<not> valid_host (address item)
       then Inl (InvalidUri proto (Some (''invalid host '' @ address item)))
       else if \<not> valid_port (port item) then Inl (InvalidPort proto (show_int (port item)))
       else Inr ())"

fun protocol_share :: "config_kind \<Rightarrow> string" where
  "protocol_share Ct_VMess = ''vmess://''"
| "protocol_share Ct_Shadowsocks = ''ss://''"
| "protocol_share Ct_SOCKS = ''socks://''"
| "protocol_share Ct_VLESS = ''vless://''"
| "protocol_share Ct_Trojan = ''trojan://''"
| "protocol_share Ct_Hysteria2 = HYSTERIA2_DEFAULT_SCHEME"
| "protocol_share Ct_TUIC = ''tuic://''"
| "protocol_share Ct_WireGuard = ''wireguard://''"
| "protocol_share Ct_Anytls = ''anytls://''"
| "protocol_share Ct_Naive = ''naive://''"
| "protocol_share Ct_Custom = []"
| "protocol_share Ct_HTTP = []"
| "protocol_share Ct_PolicyGroup = []"
| "protocol_share Ct_ProxyChain = []"

definition item_network :: "profile_item \<Rightarrow> string" where
  "item_network item =
     (if network item = [] \<or> network item \<notin> set NETWORKS then DEFAULT_NETWORK else trim (network item))"

section \<open>Optional strings\<close>

definition nonempty :: "string \<Rightarrow> string option" where
  "nonempty v = (if v = [] then None else Some v)"

definition nonempty_option :: "string option \<Rightarrow> string option" where
  "nonempty_option v = opt_filter (\<lambda>v. v \<noteq> []) v"

definition option_or :: "string option \<Rightarrow> string \<Rightarrow> string" where
  "option_or v default_value = unwrap_or (nonempty_option v) default_value"

section \<open>Percent coding\<close>

definition hex_upper :: "nat \<Rightarrow> char" where
  "hex_upper n = (if n < 10 then digit_chr n else char_of (n + 55))"

definition unreserved :: "char \<Rightarrow> bool" where
  "unreserved c \<longleftrightarrow> is_ascii_alphanumeric c \<or> c \<in> {CHR ''-'', CHR ''_'', CHR ''.'', CHR ''~''}"

definition encode_char :: "char \<Rightarrow> string" where
  "encode_char c =
     (if unreserved c then [c] else [CHR 0x25, hex_upper (byte_of c div 16), hex_upper (byte_of c mod 16)])"

definition url_encode :: "string \<Rightarrow> string" where
  "url_encode s = concat (map encode_char s)"

definition url_decode :: "share_externals \<Rightarrow> string \<Rightarrow> string" where
  "url_decode X s = from_utf8_lossy (percent_decode X s)"

section \<open>Queries\<close>

type_synonym query_pairs = "(string \<times> string) list"

definition push_encoded_str :: "string \<Rightarrow> string \<Rightarrow> query_pairs \<Rightarrow> query_pairs" where
  "push_encoded_str key v query = (if v \<noteq> [] then query @ [(key, url_encode v)] else query)"

definition push_encoded_opt :: "string \<Rightarrow> string option \<Rightarrow> query_pairs \<Rightarrow> query_pairs" where
  "push_encoded_opt key v query =
     (case nonempty_option v of Some v \<Rightarrow> query @ [(key, url_encode v)] | None \<Rightarrow> query)"

definition format_query :: "query_pairs \<Rightarrow> string" where
  "format_query query =
     (if query = [] then []
      else ''?'' @ join_with ''&'' (map (\<lambda>(key, v). key @ ''='' @ v) query))"

definition ipv6_host :: "string \<Rightarrow> string" where
  "ipv6_host adr =
     (if starts_with adr ''['' \<and> ends_with adr '']'' then adr
      else case parse_ip adr of
             Some ip \<Rightarrow> (if is_ipv6 ip then ''['' @ adr @ '']'' else adr)
           | None \<Rightarrow> adr)"

section \<open>Text coders\<close>

definition compact_json_or_self :: "share_externals \<Rightarrow> string \<Rightarrow> string" where
  "compact_json_or_self X input =
     (case json_from_str X input of Some v \<Rightarrow> json_to_string X v | None \<Rightarrow> input)"

definition pretty_json_or_self :: "share_externals \<Rightarrow> string \<Rightarrow> string" where
  "pretty_json_or_self X input =
     (case json_from_str X input of Some v \<Rightarrow> json_to_string_pretty X v | None \<Rightarrow> input)"

definition extract_first_pem_body :: "string \<Rightarrow> string option" where
  "extract_first_pem_body cert =
     (case find_str BEGIN_MARKER cert of
        None \<Rightarrow> None
      | Some start \<Rightarrow>
          (let rest = drop (start + length BEGIN_MARKER) cert in
           map_option (\<lambda>finish. replace_str [CHR 0x0D] [] (trim (take finish rest)))
             (find_str END_MARKER rest)))"

definition base64_encode :: "share_externals \<Rightarrow> string \<Rightarrow> bool \<Rightarrow> string" where
  "base64_encode X input remove_padding =
     (let encoded = b64_encode X (as_bytes input)
      in if remove_padding then trim_end_matches (\<lambda>c. c = CHR ''='') encoded else encoded)"

definition base64_normalized :: "string \<Rightarrow> string" where
  "base64_normalized input =
     (let t = map (\<lambda>c. if c = CHR ''-'' then CHR ''+'' else c)
                (map (\<lambda>c. if c = CHR ''_'' then CHR ''/'' else c) (remove_white (trim input)))
      in if length t mod 4 \<noteq> 0 then t @ replicate (4 - length t mod 4) (CHR ''='') else t)"

definition base64_decode :: "share_externals \<Rightarrow> string \<Rightarrow> string \<Rightarrow> string share_result" where
  "base64_decode X input proto =
     (if MAX_BASE64_DECODE_INPUT < length (trim input) then Inl (InvalidBase64 proto)
      else case Option.bind (b64_decode X (base64_normalized input)) from_utf8 of
             Some s \<Rightarrow> Inr s
           | None \<Rightarrow> Inl (InvalidBase64 proto))"

definition split_csv :: "string \<Rightarrow> string list" where
  "split_csv input =
     filter (\<lambda>item. item \<noteq> []) (split_on is_comma (filter (\<lambda>c. \<not> is_newline c) input))"

section \<open>Prefixes\<close>

text \<open>
  The prefixes are ASCII, so the cut \<open>value.get(..prefix.len())\<close> is a character boundary
  whenever the bytes before it are the prefix.
\<close>

definition starts_with_ci :: "string \<Rightarrow> string \<Rightarrow> bool" where
  "starts_with_ci v pre \<longleftrightarrow>
     length pre \<le> length v \<and> eq_ignore_ascii_case (take (length pre) v) pre"

definition strip_prefix_ci :: "string \<Rightarrow> string \<Rightarrow> string option" where
  "strip_prefix_ci v pre = (if starts_with_ci v pre then Some (drop (length pre) v) else None)"

definition contains_all_ci :: "string \<Rightarrow> string list \<Rightarrow> bool" where
  "contains_all_ci v needles \<longleftrightarrow>
     list_all (\<lambda>n. contains_str (to_ascii_lowercase v) (to_ascii_lowercase n)) needles"

definition is_html_page :: "string \<Rightarrow> bool" where
  "is_html_page v \<longleftrightarrow> contains_all_ci v [''<html'', ''<!doctype html'', ''<head'']"

end
