(* ===== verification/ShareUri.thy ===== *)
theory ShareUri
  imports ShareText
begin

text \<open>
  \<open>fmt/uri.rs\<close>: the common part of the URI formats. A link is parsed into its parts by
  \<open>Url::parse\<close>, a profile takes address, port and remarks from them, and TLS and transport
  travel in the query. The query is a list of pairs, searched without regard to case.
\<close>

section \<open>Queries\<close>

type_synonym query = "(string \<times> string) list"

definition contains_key :: "query \<Rightarrow> string \<Rightarrow> bool" where
  "contains_key q wanted \<longleftrightarrow> list_ex (\<lambda>(key, v). eq_ignore_ascii_case key wanted) q"

definition add_query_part :: "share_externals \<Rightarrow> string \<Rightarrow> query \<Rightarrow> query" where
  "add_query_part X part q =
     (case split_once (CHR ''='') part of
        None \<Rightarrow> q
      | Some (key, v) \<Rightarrow>
          (let key = url_decode X key in
           if contains_key q key then q else q @ [(key, url_decode X v)]))"

definition parse_query :: "share_externals \<Rightarrow> string option \<Rightarrow> query" where
  "parse_query X raw_query =
     (case raw_query of
        None \<Rightarrow> []
      | Some raw \<Rightarrow>
          fold (add_query_part X) (filter (\<lambda>part. part \<noteq> []) (split_on (\<lambda>c. c = CHR ''&'') raw)) [])"

definition query_value :: "query \<Rightarrow> string \<Rightarrow> string option" where
  "query_value q wanted = map_option snd (find (\<lambda>(key, v). eq_ignore_ascii_case key wanted) q)"

definition value_or :: "query \<Rightarrow> string \<Rightarrow> string \<Rightarrow> string" where
  "value_or q wanted default_value = unwrap_or (query_value q wanted) default_value"

definition decoded_or :: "share_externals \<Rightarrow> query \<Rightarrow> string \<Rightarrow> string \<Rightarrow> string" where
  "decoded_or X q wanted default_value = url_decode X (unwrap_or (query_value q wanted) default_value)"

section \<open>Parsing a link\<close>

record parsed_uri =
  pu_scheme :: string
  pu_address :: string
  pu_port :: i32
  pu_remarks :: string
  pu_user_info :: string
  pu_query :: query

definition is_bracket :: "char \<Rightarrow> bool" where
  "is_bracket c \<longleftrightarrow> c = CHR ''['' \<or> c = CHR '']''"

definition user_info_of :: "share_externals \<Rightarrow> parsed_url \<Rightarrow> string" where
  "user_info_of X url =
     (case u_password url of
        Some pw \<Rightarrow> url_decode X (u_username url) @ '':'' @ url_decode X pw
      | None \<Rightarrow> url_decode X (u_username url))"

definition parse_uri_with_schemes ::
    "share_externals \<Rightarrow> string \<Rightarrow> string \<Rightarrow> string list \<Rightarrow> parsed_uri share_result" where
  "parse_uri_with_schemes X input proto schemes =
     (case url_parse X input of
        None \<Rightarrow> Inl (InvalidUri proto None)
      | Some url \<Rightarrow>
          (if \<not> list_ex (\<lambda>scheme. eq_ignore_ascii_case (u_scheme url) scheme) schemes
           then Inl UnsupportedProtocol
           else
             (let adr = trim_matches is_bracket (unwrap_or (u_host url) []) in
              if adr = [] then Inl (MissingField proto ''host'')
              else case u_port url of
                     None \<Rightarrow> Inl (MissingField proto ''port'')
                   | Some p \<Rightarrow>
                       (if p = 0 then Inl (InvalidPort proto (show_nat p))
                        else Inr \<lparr>pu_scheme = u_scheme url, pu_address = adr, pu_port = int p,
                               pu_remarks = unwrap_or (map_option (url_decode X) (u_fragment url)) [],
                               pu_user_info = user_info_of X url, pu_query = parse_query X (u_query url)\<rparr>))))"

definition parse_uri :: "share_externals \<Rightarrow> string \<Rightarrow> string \<Rightarrow> parsed_uri share_result" where
  "parse_uri X input proto = parse_uri_with_schemes X input proto [proto]"

definition profile_from_uri :: "config_kind \<Rightarrow> parsed_uri \<Rightarrow> profile_item" where
  "profile_from_uri t parsed =
     default_profile\<lparr>remarks := pu_remarks parsed,
       protocol := empty_protocol t \<lparr>se_address = pu_address parsed, se_port = pu_port parsed\<rparr>\<rparr>"

section \<open>Printing a link\<close>

definition to_uri_without_scheme_preencoded_userinfo ::
    "string \<Rightarrow> i32 \<Rightarrow> string \<Rightarrow> query_pairs \<Rightarrow> string \<Rightarrow> string" where
  "to_uri_without_scheme_preencoded_userinfo adr p user_info query remark =
     user_info @ ''@'' @ ipv6_host adr @ '':'' @ show_int p @ format_query query
       @ (if remark = [] then [] else ''#'' @ url_encode remark)"

definition to_uri_without_scheme :: "string \<Rightarrow> i32 \<Rightarrow> string \<Rightarrow> query_pairs \<Rightarrow> string \<Rightarrow> string" where
  "to_uri_without_scheme adr p user_info query remark =
     to_uri_without_scheme_preencoded_userinfo adr p (url_encode user_info) query remark"

definition to_uri :: "config_kind \<Rightarrow> string \<Rightarrow> i32 \<Rightarrow> string \<Rightarrow> query_pairs \<Rightarrow> string \<Rightarrow> string" where
  "to_uri t adr p user_info query remark =
     protocol_share t @ to_uri_without_scheme adr p user_info query remark"

definition push_security :: "profile_item \<Rightarrow> string option \<Rightarrow> query_pairs \<Rightarrow> query_pairs" where
  "push_security item security_default query =
     (if stream_security item \<noteq> [] then query @ [(''security'', stream_security item)]
      else case security_default of
             Some d \<Rightarrow> query @ [(''security'', d)]
           | None \<Rightarrow> query)"

definition push_tls :: "share_externals \<Rightarrow> tls_settings \<Rightarrow> query_pairs \<Rightarrow> query_pairs" where
  "push_tls X t query =
     (let query = push_encoded_str ''sni'' (unwrap_or (tls_server_name t) []) query;
          query = push_encoded_str ''pbk'' (unwrap_or (reality_public_key t) []) query;
          query = push_encoded_str ''sid'' (unwrap_or (reality_short_id t) []) query;
          query = push_encoded_str ''spx'' (unwrap_or (reality_spider_x t) []) query;
          query = push_encoded_str ''pqv'' (unwrap_or (mldsa65_verify t) []) query;
          query = (if tls_mode t = Tls_Tls
                   then push_encoded_str ''alpn'' (join_with '','' (tls_alpn t)) query else query);
          query = push_encoded_str ''ech'' (join_with '','' (ech_config t)) query;
          query = push_encoded_str ''pcs'' (join_with '','' (certificate_sha256 t)) query
      in (case nonempty_option (final_mask t) of
            Some fm \<Rightarrow> query @ [(''fm'', url_encode (compact_json_or_self X fm))]
          | None \<Rightarrow> query))"

text \<open>
  The last part of \<open>to_uri_query\<close>, by the network's name; a transport of another kind adds
  nothing.
\<close>

definition push_transport :: "share_externals \<Rightarrow> string \<Rightarrow> profile_transport option \<Rightarrow> query_pairs \<Rightarrow> query_pairs" where
  "push_transport X name tr query =
     (if name = ''raw'' then
        (case tr of
           Some (Pt_Tcp header host path) \<Rightarrow>
             push_encoded_opt ''path'' path
               (push_encoded_opt ''host'' host (query @ [(''headerType'', option_or header NONE)]))
         | _ \<Rightarrow> query)
      else if name = ''kcp'' then
        (case tr of
           Some (Pt_Kcp header seed mtu) \<Rightarrow>
             (let query = push_encoded_opt ''seed'' seed (query @ [(''headerType'', option_or header NONE)])
              in (case opt_filter (\<lambda>v. 0 < v) mtu of
                    Some m \<Rightarrow> query @ [(''mtu'', show_int m)]
                  | None \<Rightarrow> query))
         | _ \<Rightarrow> query)
      else if name = ''ws'' \<or> name = ''httpupgrade'' then
        (case tr of
           Some (Pt_Websocket host path) \<Rightarrow> push_encoded_opt ''path'' path (push_encoded_opt ''host'' host query)
         | Some (Pt_HttpUpgrade host path) \<Rightarrow> push_encoded_opt ''path'' path (push_encoded_opt ''host'' host query)
         | _ \<Rightarrow> query)
      else if name = ''xhttp'' then
        (case tr of
           Some (Pt_Xhttp host path mode extra) \<Rightarrow>
             (let query = push_encoded_opt ''path'' path (push_encoded_opt ''host'' host query);
                  query = (case nonempty_option mode of
                             Some m \<Rightarrow> (if m \<in> set XHTTP_MODES then query @ [(''mode'', url_encode m)] else query)
                           | None \<Rightarrow> query)
              in (case nonempty_option extra of
                    Some e \<Rightarrow> query @ [(''extra'', url_encode (compact_json_or_self X e))]
                  | None \<Rightarrow> query))
         | _ \<Rightarrow> query)
      else if name = ''grpc'' then
        (case tr of
           Some (Pt_Grpc authority service_name mode) \<Rightarrow>
             (if nonempty_option service_name = None then query
              else
                (let query = query @ [(''authority'', url_encode (unwrap_or authority [])),
                                      (''serviceName'', url_encode (unwrap_or service_name []))]
                 in (case nonempty_option mode of
                       Some m \<Rightarrow>
                         (if m = GRPC_GUN_MODE \<or> m = GRPC_MULTI_MODE then query @ [(''mode'', url_encode m)]
                          else query)
                     | None \<Rightarrow> query)))
         | _ \<Rightarrow> query)
      else query)"

definition to_uri_query ::
    "share_externals \<Rightarrow> profile_item \<Rightarrow> string option \<Rightarrow> query_pairs \<Rightarrow> query_pairs" where
  "to_uri_query X item security_default query =
     (let query = push_security item security_default query;
          query = (case tls item of Some t \<Rightarrow> push_tls X t query | None \<Rightarrow> query);
          name = item_network item;
          query = query @ [(''type'', if name = DEFAULT_NETWORK then RAW_NETWORK_ALIAS else name)]
      in push_transport X name (transport item) query)"

definition to_uri_query_lite :: "profile_item \<Rightarrow> query_pairs \<Rightarrow> query_pairs" where
  "to_uri_query_lite item query =
     (case tls item of
        Some t \<Rightarrow> push_encoded_str ''alpn'' (join_with '','' (tls_alpn t))
                    (push_encoded_str ''sni'' (unwrap_or (tls_server_name t) []) query)
      | None \<Rightarrow> query)"

section \<open>Resolving a query\<close>

definition query_tls :: "share_externals \<Rightarrow> query \<Rightarrow> tls_mode \<Rightarrow> tls_settings" where
  "query_tls X q mode =
     (let finalmask = decoded_or X q ''fm'' [] in
      \<lparr>tls_mode = mode, tls_server_name = nonempty (value_or q ''sni'' []),
       tls_alpn = split_csv (decoded_or X q ''alpn'' []),
       reality_public_key = nonempty (decoded_or X q ''pbk'' []),
       reality_short_id = nonempty (decoded_or X q ''sid'' []),
       reality_spider_x = nonempty (decoded_or X q ''spx'' []),
       mldsa65_verify = nonempty (decoded_or X q ''pqv'' []),
       certificate_pem = None, certificate_sha256 = split_csv (decoded_or X q ''pcs'' []),
       ech_config = split_csv (decoded_or X q ''ech'' []),
       final_mask = (if finalmask \<noteq> [] then Some (pretty_json_or_self X finalmask) else None)\<rparr>)"

definition has_tls_fields :: "tls_settings \<Rightarrow> bool" where
  "has_tls_fields t \<longleftrightarrow>
     tls_server_name t \<noteq> None \<or> tls_alpn t \<noteq> [] \<or> reality_public_key t \<noteq> None
     \<or> reality_short_id t \<noteq> None \<or> reality_spider_x t \<noteq> None \<or> mldsa65_verify t \<noteq> None
     \<or> ech_config t \<noteq> [] \<or> certificate_sha256 t \<noteq> [] \<or> final_mask t \<noteq> None"

definition resolve_tls :: "share_externals \<Rightarrow> query \<Rightarrow> tls_settings option" where
  "resolve_tls X q =
     (let security = value_or q ''security'' [] in
      if security = STREAM_SECURITY_TLS \<or> security = ''reality''
      then Some (query_tls X q (if security = ''reality'' then Tls_Reality else Tls_Tls))
      else if has_tls_fields (query_tls X q Tls_Tls) then Some (query_tls X q Tls_Tls)
      else None)"

definition resolve_network :: "query \<Rightarrow> string" where
  "resolve_network q =
     (let name = value_or q ''type'' DEFAULT_NETWORK;
          name = (if name = RAW_NETWORK_ALIAS then DEFAULT_NETWORK else name)
      in if name \<notin> set NETWORKS then DEFAULT_NETWORK else name)"

definition resolve_transport :: "share_externals \<Rightarrow> query \<Rightarrow> profile_transport" where
  "resolve_transport X q =
     (let name = resolve_network q in
      if name = ''raw''
      then Pt_Tcp (nonempty (value_or q ''headerType'' NONE)) (nonempty (decoded_or X q ''host'' []))
             (nonempty (decoded_or X q ''path'' []))
      else if name = ''kcp''
      then Pt_Kcp (nonempty (value_or q ''headerType'' NONE)) (nonempty (decoded_or X q ''seed'' []))
             (parse_positive_i32 (value_or q ''mtu'' []))
      else if name = ''ws''
      then Pt_Websocket (nonempty (decoded_or X q ''host'' [])) (nonempty (decoded_or X q ''path'' ''/''))
      else if name = ''httpupgrade''
      then Pt_HttpUpgrade (nonempty (decoded_or X q ''host'' [])) (nonempty (decoded_or X q ''path'' ''/''))
      else if name = ''xhttp''
      then (let xhttp_extra = decoded_or X q ''extra'' [] in
            Pt_Xhttp (nonempty (decoded_or X q ''host'' [])) (nonempty (decoded_or X q ''path'' ''/''))
              (nonempty (decoded_or X q ''mode'' []))
              (if xhttp_extra \<noteq> [] then Some (pretty_json_or_self X xhttp_extra) else None))
      else if name = ''grpc''
      then Pt_Grpc (nonempty (decoded_or X q ''authority'' [])) (nonempty (decoded_or X q ''serviceName'' []))
             (nonempty (decoded_or X q ''mode'' GRPC_GUN_MODE))
      else Pt_Tcp None None None)"

definition resolve_uri_query :: "share_externals \<Rightarrow> query \<Rightarrow> profile_item \<Rightarrow> profile_item" where
  "resolve_uri_query X q item =
     item\<lparr>tls := resolve_tls X q, transport := Some (resolve_transport X q)\<rparr>"

end
