(* ===== verification/ShareFormats.thy ===== *)
theory ShareFormats
  imports ShareUri
begin

text \<open>
  One parser and one exporter per protocol: \<open>fmt/vless.rs\<close>, \<open>trojan.rs\<close>, \<open>anytls.rs\<close>,
  \<open>hysteria2.rs\<close>, \<open>tuic.rs\<close>, \<open>naive.rs\<close>, \<open>socks.rs\<close>, \<open>wireguard.rs\<close>, \<open>shadowsocks.rs\<close> and
  \<open>vmess.rs\<close>. The implementations of \<open>ShareFmt\<close> are pairs of functions. The second match on
  the protocol of an exporter repeats \<open>ensure_type\<close>, its other branch is the same error.
\<close>

text \<open>The last checks of a parser: \<open>ensure_address_port\<close>, then fields that must not be empty.\<close>

fun ensure_fields :: "string \<Rightarrow> (string \<times> string) list \<Rightarrow> profile_item \<Rightarrow> profile_item share_result" where
  "ensure_fields proto [] item = Inr item"
| "ensure_fields proto ((field, v) # rest) item =
     bind_ok (ensure_nonempty proto field v) (\<lambda>_. ensure_fields proto rest item)"

definition checked ::
    "string \<Rightarrow> (string \<times> string) list \<Rightarrow> profile_item \<Rightarrow> profile_item share_result" where
  "checked proto required item =
     bind_ok (ensure_address_port proto item) (\<lambda>_. ensure_fields proto required item)"

text \<open>The first checks of an exporter.\<close>

definition exportable ::
    "string \<Rightarrow> config_kind \<Rightarrow> (string \<times> string) list \<Rightarrow> profile_item \<Rightarrow> profile_item share_result" where
  "exportable proto t required item =
     bind_ok (ensure_type proto item t) (\<lambda>_. checked proto required item)"

section \<open>VLESS, Trojan, AnyTLS\<close>

definition parse_vless :: "share_externals \<Rightarrow> string \<Rightarrow> profile_item share_result" where
  "parse_vless X input =
     bind_ok (parse_uri X input ''vless'') (\<lambda>parsed.
       (let item = profile_from_uri Ct_VLESS parsed;
            item = (case protocol item of
                      Pp_Vless server uuid flow encryption \<Rightarrow>
                        item\<lparr>protocol := Pp_Vless server (pu_user_info parsed)
                               (nonempty (value_or (pu_query parsed) ''flow'' []))
                               (nonempty (value_or (pu_query parsed) ''encryption'' NONE))\<rparr>
                    | _ \<Rightarrow> item);
            item = resolve_uri_query X (pu_query parsed) item
        in checked ''vless'' [(''password'', password item)] item))"

definition export_vless :: "share_externals \<Rightarrow> profile_item \<Rightarrow> string share_result" where
  "export_vless X item =
     bind_ok (exportable ''vless'' Ct_VLESS [(''password'', password item)] item) (\<lambda>item.
       case protocol item of
         Pp_Vless server uuid flow encryption \<Rightarrow>
           (let query = [(''encryption'', option_or encryption NONE)];
                query = (case nonempty_option flow of Some f \<Rightarrow> query @ [(''flow'', f)] | None \<Rightarrow> query);
                query = to_uri_query X item (Some NONE) query
            in Inr (to_uri Ct_VLESS (address item) (port item) uuid query (remarks item)))
       | _ \<Rightarrow> Inl (WrongConfigType ''vless'' (config_type item)))"

definition parse_trojan :: "share_externals \<Rightarrow> string \<Rightarrow> profile_item share_result" where
  "parse_trojan X input =
     bind_ok (parse_uri X input ''trojan'') (\<lambda>parsed.
       (let item = profile_from_uri Ct_Trojan parsed;
            item = (case protocol item of
                      Pp_Trojan server pw \<Rightarrow> item\<lparr>protocol := Pp_Trojan server (pu_user_info parsed)\<rparr>
                    | _ \<Rightarrow> item);
            item = resolve_uri_query X (pu_query parsed) item
        in checked ''trojan'' [(''password'', password item)] item))"

definition export_trojan :: "share_externals \<Rightarrow> profile_item \<Rightarrow> string share_result" where
  "export_trojan X item =
     bind_ok (exportable ''trojan'' Ct_Trojan [(''password'', password item)] item) (\<lambda>item.
       Inr (to_uri Ct_Trojan (address item) (port item) (password item)
              (to_uri_query X item None []) (remarks item)))"

definition parse_anytls :: "share_externals \<Rightarrow> string \<Rightarrow> profile_item share_result" where
  "parse_anytls X input =
     bind_ok (parse_uri X input ''anytls'') (\<lambda>parsed.
       (let item = profile_from_uri Ct_Anytls parsed;
            item = (case protocol item of
                      Pp_Anytls server pw \<Rightarrow> item\<lparr>protocol := Pp_Anytls server (pu_user_info parsed)\<rparr>
                    | _ \<Rightarrow> item);
            item = resolve_uri_query X (pu_query parsed) item
        in checked ''anytls'' [(''password'', password item)] item))"

definition export_anytls :: "share_externals \<Rightarrow> profile_item \<Rightarrow> string share_result" where
  "export_anytls X item =
     bind_ok (exportable ''anytls'' Ct_Anytls [(''password'', password item)] item) (\<lambda>item.
       Inr (to_uri Ct_Anytls (address item) (port item) (password item)
              (to_uri_query X item (Some NONE) []) (remarks item)))"

section \<open>Hysteria 2\<close>

definition add_pin :: "string option \<Rightarrow> profile_item \<Rightarrow> profile_item" where
  "add_pin pin item =
     (case pin of
        None \<Rightarrow> item
      | Some p \<Rightarrow>
          (let t = unwrap_or (tls item) default_tls_settings
           in item\<lparr>tls := Some (t\<lparr>certificate_sha256 := certificate_sha256 t @ [p]\<rparr>)\<rparr>))"

definition parse_hysteria2 :: "share_externals \<Rightarrow> string \<Rightarrow> profile_item share_result" where
  "parse_hysteria2 X input =
     bind_ok (parse_uri_with_schemes X input ''hysteria2'' [''hysteria2'', ''hy2'']) (\<lambda>parsed.
       (let q = pu_query parsed;
            item = resolve_uri_query X q (profile_from_uri Ct_Hysteria2 parsed);
            item = add_pin (nonempty (decoded_or X q ''pinSHA256'' [])) item;
            item = (case protocol item of
                      Pp_Hysteria2 server pw hops obfs \<Rightarrow>
                        item\<lparr>protocol := Pp_Hysteria2 server (pu_user_info parsed)
                               (nonempty (decoded_or X q ''mport'' []))
                               (nonempty (decoded_or X q ''obfs-password'' []))\<rparr>
                    | _ \<Rightarrow> item)
        in checked ''hysteria2'' [(''password'', password item)] item))"

definition colon_to_dash :: "string \<Rightarrow> string" where
  "colon_to_dash s = map (\<lambda>c. if c = CHR '':'' then CHR ''-'' else c) s"

definition first_pin :: "profile_item \<Rightarrow> string option" where
  "first_pin item =
     (case tls item of
        Some t \<Rightarrow> (case certificate_sha256 t of sha # rest \<Rightarrow> Some sha | [] \<Rightarrow> None)
      | None \<Rightarrow> None)"

definition export_hysteria2 :: "share_externals \<Rightarrow> profile_item \<Rightarrow> string share_result" where
  "export_hysteria2 X item =
     bind_ok (exportable ''hysteria2'' Ct_Hysteria2 [(''password'', password item)] item) (\<lambda>item.
       case protocol item of
         Pp_Hysteria2 server pw hops obfs \<Rightarrow>
           (let query = to_uri_query_lite item [];
                query = (case nonempty_option obfs of
                           Some p \<Rightarrow> query @ [(''obfs'', ''salamander''), (''obfs-password'', url_encode p)]
                         | None \<Rightarrow> query);
                query = (case nonempty_option hops of
                           Some p \<Rightarrow> query @ [(''mport'', url_encode (colon_to_dash p))]
                         | None \<Rightarrow> query);
                query = (case first_pin item of
                           Some sha \<Rightarrow> query @ [(''pinSHA256'', url_encode sha)]
                         | None \<Rightarrow> query)
            in Inr (HYSTERIA2_DEFAULT_SCHEME
                 @ to_uri_without_scheme (address item) (port item) (password item) query (remarks item)))
       | _ \<Rightarrow> Inl (WrongConfigType ''hysteria2'' (config_type item)))"

section \<open>TUIC\<close>

definition parse_tuic :: "share_externals \<Rightarrow> string \<Rightarrow> profile_item share_result" where
  "parse_tuic X input =
     bind_ok (parse_uri X input ''tuic'') (\<lambda>parsed.
       (let item = resolve_uri_query X (pu_query parsed) (profile_from_uri Ct_TUIC parsed);
            item = (case split_once (CHR '':'') (pu_user_info parsed) of
                      None \<Rightarrow> item
                    | Some (name, pw) \<Rightarrow>
                        (case protocol item of
                           Pp_Tuic server uuid p cc \<Rightarrow>
                             item\<lparr>protocol := Pp_Tuic server name pw
                                    (nonempty (value_or (pu_query parsed) ''congestion_control'' []))\<rparr>
                         | _ \<Rightarrow> item))
        in checked ''tuic'' [(''username'', username item), (''password'', password item)] item))"

definition export_tuic :: "share_externals \<Rightarrow> profile_item \<Rightarrow> string share_result" where
  "export_tuic X item =
     bind_ok (exportable ''tuic'' Ct_TUIC [(''username'', username item), (''password'', password item)] item)
       (\<lambda>item. case protocol item of
          Pp_Tuic server uuid pw congestion_control \<Rightarrow>
            (let query = to_uri_query_lite item [];
                 query = (case nonempty_option congestion_control of
                            Some c \<Rightarrow> query @ [(''congestion_control'', c)]
                          | None \<Rightarrow> query)
             in Inr (to_uri Ct_TUIC (address item) (port item) (uuid @ '':'' @ pw) query (remarks item)))
        | _ \<Rightarrow> Inl (WrongConfigType ''tuic'' (config_type item)))"

section \<open>Naive\<close>

definition parse_naive :: "share_externals \<Rightarrow> string \<Rightarrow> profile_item share_result" where
  "parse_naive X input =
     bind_ok (parse_uri_with_schemes X input ''naive'' [''naive'', ''naive+https'', ''naive+quic'']) (\<lambda>parsed.
       (let item = resolve_uri_query X (pu_query parsed) (profile_from_uri Ct_Naive parsed);
            concurrency = parse_positive_i32 (value_or (pu_query parsed) ''insecure-concurrency'' []);
            quic = contains_str (pu_scheme parsed) ''quic'';
            item = (case protocol item of
                      Pp_Naive server name pw q cc ic uot \<Rightarrow>
                        (case split_once (CHR '':'') (pu_user_info parsed) of
                           Some (name, pw) \<Rightarrow>
                             item\<lparr>protocol := Pp_Naive server name pw quic cc concurrency uot\<rparr>
                         | None \<Rightarrow>
                             item\<lparr>protocol := Pp_Naive server name (pu_user_info parsed) quic cc concurrency uot\<rparr>)
                    | _ \<Rightarrow> item)
        in checked ''naive'' [(''password'', password item)] item))"

definition export_naive :: "share_externals \<Rightarrow> profile_item \<Rightarrow> string share_result" where
  "export_naive X item =
     bind_ok (exportable ''naive'' Ct_Naive [(''password'', password item)] item) (\<lambda>item.
       case protocol item of
         Pp_Naive server name pw quic cc insecure_concurrency uot \<Rightarrow>
           (let query = to_uri_query X item (Some NONE) [];
                query = (case opt_filter (\<lambda>v. 0 < v) insecure_concurrency of
                           Some c \<Rightarrow> query @ [(''insecure-concurrency'', show_int c)]
                         | None \<Rightarrow> query);
                user_info = (if name = [] then url_encode pw else url_encode name @ '':'' @ url_encode pw)
            in Inr ((if quic then NAIVE_QUIC_SCHEME else NAIVE_HTTPS_SCHEME)
                 @ to_uri_without_scheme_preencoded_userinfo (address item) (port item) user_info query
                     (remarks item)))
       | _ \<Rightarrow> Inl (WrongConfigType ''naive'' (config_type item)))"

section \<open>SOCKS\<close>

text \<open>\<open>user:password\<close>, as it stands or in base64; without a colon both stay empty.\<close>

definition socks_credentials :: "share_externals \<Rightarrow> string \<Rightarrow> (string \<times> string) share_result" where
  "socks_credentials X user_info =
     (if user_info = [] then Inr ([], [])
      else case split_once (CHR '':'') user_info of
             Some up \<Rightarrow> Inr up
           | None \<Rightarrow>
               bind_ok (base64_decode X user_info ''socks'')
                 (\<lambda>decoded. Inr (unwrap_or (split_once (CHR '':'') decoded) ([], []))))"

definition parse_socks_new :: "share_externals \<Rightarrow> string \<Rightarrow> profile_item share_result" where
  "parse_socks_new X input =
     bind_ok (parse_uri_with_schemes X input ''socks'' [''socks'', ''socks5'', ''socks4'']) (\<lambda>parsed.
       bind_ok (socks_credentials X (pu_user_info parsed)) (\<lambda>(name, pw).
         (let item = profile_from_uri Ct_SOCKS parsed
          in Inr (case protocol item of
                    Pp_Socks server u p \<Rightarrow> item\<lparr>protocol := Pp_Socks server name pw\<rparr>
                  | _ \<Rightarrow> item))))"

definition parse_socks :: "share_externals \<Rightarrow> string \<Rightarrow> profile_item share_result" where
  "parse_socks X input = bind_ok (parse_socks_new X input) (checked ''socks'' [])"

definition export_socks :: "share_externals \<Rightarrow> profile_item \<Rightarrow> string share_result" where
  "export_socks X item =
     bind_ok (exportable ''socks'' Ct_SOCKS [] item) (\<lambda>item.
       Inr (to_uri Ct_SOCKS (address item) (port item)
              (base64_encode X (username item @ '':'' @ password item) True) [] (remarks item)))"

section \<open>WireGuard\<close>

definition parse_wireguard :: "share_externals \<Rightarrow> string \<Rightarrow> profile_item share_result" where
  "parse_wireguard X input =
     bind_ok (parse_uri X input ''wireguard'') (\<lambda>parsed.
       (let q = pu_query parsed;
            item = profile_from_uri Ct_WireGuard parsed;
            allowed_ips = decoded_or X q ''allowedips'' [];
            item = (case protocol item of
                      Pp_WireGuard server key pk psk ia ai r mtu \<Rightarrow>
                        item\<lparr>protocol := Pp_WireGuard server (pu_user_info parsed)
                               (nonempty (decoded_or X q ''publickey'' []))
                               (nonempty (decoded_or X q ''presharedkey'' []))
                               (nonempty (decoded_or X q ''address'' []))
                               (nonempty (if allowed_ips = [] then decoded_or X q ''allowed_ips'' []
                                          else allowed_ips))
                               (nonempty (decoded_or X q ''reserved'' []))
                               (parse_positive_i32 (decoded_or X q ''mtu'' []))\<rparr>
                    | _ \<Rightarrow> item)
        in checked ''wireguard'' [(''private key'', password item)] item))"

definition export_wireguard :: "share_externals \<Rightarrow> profile_item \<Rightarrow> string share_result" where
  "export_wireguard X item =
     bind_ok (exportable ''wireguard'' Ct_WireGuard [(''private key'', password item)] item) (\<lambda>item.
       case protocol item of
         Pp_WireGuard server private_key peer_public_key preshared_key interface_address allowed_ips reserved mtu \<Rightarrow>
           (let query = push_encoded_opt ''allowedips'' allowed_ips
                  (push_encoded_opt ''address'' interface_address
                    (push_encoded_opt ''reserved'' reserved
                      (push_encoded_opt ''presharedkey'' preshared_key
                        (push_encoded_opt ''publickey'' peer_public_key []))));
                query = (case opt_filter (\<lambda>v. 0 < v) mtu of
                           Some m \<Rightarrow> query @ [(''mtu'', show_int m)]
                         | None \<Rightarrow> query)
            in Inr (to_uri Ct_WireGuard (address item) (port item) private_key query (remarks item)))
       | _ \<Rightarrow> Inl (WrongConfigType ''wireguard'' (config_type item)))"

end
