(* ===== verification/ShareVmess.thy ===== *)
theory ShareVmess
  imports ShareFormats
begin

text \<open>
  The formats that are not URIs with a query: \<open>fmt/shadowsocks.rs\<close> with its plugin text and
  its SIP008 documents, \<open>fmt/vmess.rs\<close> with its JSON in base64, and the WireGuard
  configuration files of \<open>fmt/wireguard.rs\<close>.
\<close>

section \<open>Shadowsocks plugins\<close>

text \<open>\<open>find_map(|part| part.strip_prefix(..))\<close>\<close>

definition find_strip :: "string \<Rightarrow> string list \<Rightarrow> string option" where
  "find_strip pre parts = (case List.map_filter (strip_prefix pre) parts of r # rest \<Rightarrow> Some r | [] \<Rightarrow> None)"

definition plugin_obfs :: "string list \<Rightarrow> profile_item \<Rightarrow> profile_item" where
  "plugin_obfs parts item =
     (let obfs_mode = find (\<lambda>part. starts_with part ''obfs='') parts;
          obfs_host = find_strip ''obfs-host='' parts
      in if (case obfs_mode of Some part \<Rightarrow> contains_str part ''obfs=http'' | None \<Rightarrow> False)
            \<and> nonempty_list obfs_host
         then item\<lparr>transport := Some (Pt_Tcp (Some RAW_HEADER_HTTP) obfs_host None)\<rparr>
         else item)"

definition unescape_path :: "string \<Rightarrow> string" where
  "unescape_path path =
     replace_str [CHR 0x5C, CHR 0x5C] [CHR 0x5C]
       (replace_str [CHR 0x5C, CHR '',''] [CHR '',''] (replace_str [CHR 0x5C, CHR ''=''] [CHR ''=''] path))"

definition escape_path :: "string \<Rightarrow> string" where
  "escape_path path =
     replace_str [CHR '',''] [CHR 0x5C, CHR '','']
       (replace_str [CHR ''=''] [CHR 0x5C, CHR ''='']
         (replace_str [CHR 0x5C] [CHR 0x5C, CHR 0x5C] path))"

definition plugin_websocket :: "string list \<Rightarrow> profile_item \<Rightarrow> profile_item" where
  "plugin_websocket parts item =
     (let host = find_strip ''host='' parts;
          path = map_option unescape_path (find_strip ''path='' parts);
          item = (case host of
                    Some h \<Rightarrow>
                      item\<lparr>tls := Some ((unwrap_or (tls item) default_tls_settings)\<lparr>tls_server_name := Some h\<rparr>)\<rparr>
                  | None \<Rightarrow> item)
      in item\<lparr>transport := Some (Pt_Websocket host path)\<rparr>)"

definition plugin_tls :: "string list \<Rightarrow> profile_item \<Rightarrow> profile_item" where
  "plugin_tls parts item =
     (let t = (unwrap_or (tls item) default_tls_settings)\<lparr>tls_mode := Tls_Tls\<rparr>;
          t = (case find_strip ''certRaw='' parts of
                 Some cert \<Rightarrow>
                   t\<lparr>certificate_pem := Some (BEGIN_MARKER @ [CHR 0x0A]
                       @ replace_str [CHR 0x5C, CHR ''=''] [CHR ''=''] cert @ [CHR 0x0A] @ END_MARKER)\<rparr>
               | None \<Rightarrow> t)
      in item\<lparr>tls := Some t\<rparr>)"

definition parse_v2ray_plugin :: "string list \<Rightarrow> profile_item \<Rightarrow> profile_item share_result" where
  "parse_v2ray_plugin parts item =
     (let item = (if unwrap_or (find_strip ''mode='' parts) ''websocket'' = ''websocket''
                  then plugin_websocket parts item else item);
          item = (if ''tls'' \<in> set parts then plugin_tls parts item else item)
      in case Option.bind (find_strip ''mux='' parts) parse_i32 of
           Some mux \<Rightarrow>
             (if 0 < mux then Inl (InvalidUri ''ss'' (Some ''v2ray-plugin mux must be 0'')) else Inr item)
         | None \<Rightarrow> Inr item)"

definition parse_shadowsocks_plugin :: "string \<Rightarrow> profile_item \<Rightarrow> profile_item share_result" where
  "parse_shadowsocks_plugin plugin item =
     (case filter (\<lambda>part. part \<noteq> []) (split_on (\<lambda>c. c = CHR '';'') plugin) of
        [] \<Rightarrow> Inl (InvalidUri ''ss'' (Some ''empty plugin''))
      | first # rest \<Rightarrow>
          (let parts = first # rest;
               plugin_name = (if first = ''simple-obfs'' then ''obfs-local'' else first)
           in if plugin_name = ''obfs-local'' then Inr (plugin_obfs parts item)
              else if plugin_name = ''v2ray-plugin'' then parse_v2ray_plugin parts item
              else Inr item))"

definition v2ray_plugin_args :: "profile_item \<Rightarrow> string" where
  "v2ray_plugin_args item =
     (case transport item of
        Some (Pt_Websocket host path) \<Rightarrow>
          ''mode=websocket;'' @ ''host='' @ unwrap_or host [] @ '';''
          @ ''path='' @ escape_path (unwrap_or path []) @ '';''
      | _ \<Rightarrow> [])
     @ (if stream_security item = STREAM_SECURITY_TLS
        then ''tls;''
          @ (case Option.bind (Option.bind (tls item) certificate_pem) extract_first_pem_body of
               Some cert_raw \<Rightarrow>
                 ''certRaw='' @ replace_str [CHR ''=''] [CHR 0x5C, CHR ''=''] cert_raw @ '';''
             | None \<Rightarrow> [])
        else [])"

definition pop_semicolon :: "string \<Rightarrow> string" where
  "pop_semicolon s = (if ends_with s '';'' then butlast s else s)"

definition shadowsocks_plugin :: "profile_item \<Rightarrow> string option" where
  "shadowsocks_plugin item =
     (case transport item of
        Some (Pt_Tcp (Some header) host path) \<Rightarrow>
          (if header = RAW_HEADER_HTTP
           then Some (pop_semicolon (''obfs-local;obfs=http;obfs-host='' @ unwrap_or host [] @ '';''))
           else if v2ray_plugin_args item = [] then None
           else Some (pop_semicolon (''v2ray-plugin;'' @ v2ray_plugin_args item @ ''mux=0;'')))
      | _ \<Rightarrow>
          (if v2ray_plugin_args item = [] then None
           else Some (pop_semicolon (''v2ray-plugin;'' @ v2ray_plugin_args item @ ''mux=0;''))))"

section \<open>Shadowsocks links\<close>

text \<open>\<open>method:password\<close>, as it stands (the password is decoded once more) or in base64.\<close>

definition shadowsocks_credentials :: "share_externals \<Rightarrow> string \<Rightarrow> (string \<times> string) share_result" where
  "shadowsocks_credentials X user_info =
     (case split_once (CHR '':'') user_info of
        Some (method, pw) \<Rightarrow> Inr (method, url_decode X pw)
      | None \<Rightarrow>
          bind_ok (base64_decode X user_info ''ss'') (\<lambda>decoded.
            case split_once (CHR '':'') decoded of
              Some mp \<Rightarrow> Inr mp
            | None \<Rightarrow> Inl (InvalidUri ''ss'' (Some ''invalid encoded user info''))))"

definition parse_shadowsocks_sip002 :: "share_externals \<Rightarrow> string \<Rightarrow> profile_item share_result" where
  "parse_shadowsocks_sip002 X input =
     bind_ok (parse_uri X input ''ss'') (\<lambda>parsed.
       bind_ok (shadowsocks_credentials X (pu_user_info parsed)) (\<lambda>(method, pw).
         (let item = profile_from_uri Ct_Shadowsocks parsed;
              item = (case protocol item of
                        Pp_Shadowsocks server p m uot \<Rightarrow> item\<lparr>protocol := Pp_Shadowsocks server pw method uot\<rparr>
                      | _ \<Rightarrow> item)
          in case query_value (pu_query parsed) ''plugin'' of
               Some plugin \<Rightarrow> parse_shadowsocks_plugin plugin item
             | None \<Rightarrow> Inr item)))"

definition parse_shadowsocks :: "share_externals \<Rightarrow> string \<Rightarrow> profile_item share_result" where
  "parse_shadowsocks X input =
     bind_ok (parse_shadowsocks_sip002 X input) (\<lambda>item.
     bind_ok (ensure_address_port ''ss'' item) (\<lambda>_.
       case protocol item of
         Pp_Shadowsocks server pw method uot \<Rightarrow>
           (if trim method = [] then Inl (MissingField ''ss'' ''method'')
            else bind_ok (ensure_nonempty ''ss'' ''password'' pw) (\<lambda>_. Inr item))
       | _ \<Rightarrow> Inl (WrongConfigType ''ss'' (config_type item))))"

definition export_shadowsocks :: "share_externals \<Rightarrow> profile_item \<Rightarrow> string share_result" where
  "export_shadowsocks X item =
     bind_ok (exportable ''ss'' Ct_Shadowsocks [] item) (\<lambda>item.
       case protocol item of
         Pp_Shadowsocks server pw method uot \<Rightarrow>
           bind_ok (ensure_nonempty ''ss'' ''method'' method) (\<lambda>_.
           bind_ok (ensure_nonempty ''ss'' ''password'' pw) (\<lambda>_.
             (let user_info = base64_encode X (method @ '':'' @ pw) True;
                  query = (case shadowsocks_plugin item of
                             Some plugin \<Rightarrow> [(''plugin'', url_encode plugin)]
                           | None \<Rightarrow> [])
              in Inr (to_uri Ct_Shadowsocks (address item) (port item) user_info query (remarks item)))))
       | _ \<Rightarrow> Inl (WrongConfigType ''ss'' (config_type item)))"

section \<open>SIP008 documents\<close>

definition sip008_server :: "json \<Rightarrow> profile_item share_result" where
  "sip008_server server =
     (if \<not> json_is_object server then Inl (InvalidJson ''ss-sip008'' (Some ''server entry must be an object''))
      else
        (let item = default_profile\<lparr>remarks := string_field server ''remarks'',
               protocol := Pp_Shadowsocks
                 \<lparr>se_address = string_field server ''server'',
                  se_port = unwrap_or (parse_i32 (string_field server ''server_port'')) 0\<rparr>
                 (string_field server ''password'') (string_field server ''method'') False\<rparr>
         in checked ''ss-sip008'' [] item))"

fun sip008_servers :: "json list \<Rightarrow> profile_item list share_result" where
  "sip008_servers [] = Inr []"
| "sip008_servers (s # ss) =
     bind_ok (sip008_server s) (\<lambda>item. bind_ok (sip008_servers ss) (\<lambda>items. Inr (item # items)))"

definition parse_ss_sip008 :: "share_externals \<Rightarrow> string \<Rightarrow> profile_item list share_result" where
  "parse_ss_sip008 X input =
     (case json_from_str X input of
        None \<Rightarrow> Inl (InvalidJson ''ss-sip008'' None)
      | Some v \<Rightarrow>
          (let servers = (case v of
                            JArray items \<Rightarrow> items
                          | JObject kvs \<Rightarrow> unwrap_or (Option.bind (json_get ''servers'' v) json_as_array) []
                          | _ \<Rightarrow> [])
           in if servers = [] then Inl (InvalidJson ''ss-sip008'' (Some ''missing servers''))
              else sip008_servers servers))"

section \<open>VMess\<close>

definition parse_vmess_standard :: "share_externals \<Rightarrow> string \<Rightarrow> profile_item share_result" where
  "parse_vmess_standard X input =
     bind_ok (parse_uri X input ''vmess'') (\<lambda>parsed.
       (let item = profile_from_uri Ct_VMess parsed;
            item = (case protocol item of
                      Pp_Vmess server uuid cipher \<Rightarrow>
                        item\<lparr>protocol := Pp_Vmess server (pu_user_info parsed) (Some DEFAULT_SECURITY)\<rparr>
                    | _ \<Rightarrow> item);
            item = resolve_uri_query X (pu_query parsed) item
        in checked ''vmess'' [(''password'', password item)] item))"

definition vmess_transport :: "json \<Rightarrow> profile_transport" where
  "vmess_transport obj =
     (let net = value_string obj ''net'';
          name = (if net = [] \<or> net = RAW_NETWORK_ALIAS then DEFAULT_NETWORK else net);
          vmess_type = value_string obj ''type'';
          host = value_string obj ''host'';
          path = value_string obj ''path''
      in if name = ''kcp'' then Pt_Kcp (nonempty vmess_type) (nonempty path) None
         else if name = ''ws'' then Pt_Websocket (nonempty host) (nonempty path)
         else if name = ''httpupgrade'' then Pt_HttpUpgrade (nonempty host) (nonempty path)
         else if name = ''xhttp'' then Pt_Xhttp (nonempty host) (nonempty path) (nonempty vmess_type) None
         else if name = ''grpc'' then Pt_Grpc (nonempty host) (nonempty path) (nonempty vmess_type)
         else Pt_Tcp (nonempty vmess_type) (nonempty host) (nonempty path))"

definition vmess_tls :: "json \<Rightarrow> tls_settings option" where
  "vmess_tls obj =
     (let mode = value_string obj ''tls'';
          sni = nonempty (value_string obj ''sni'');
          alpn = split_csv (value_string obj ''alpn'')
      in if mode = STREAM_SECURITY_TLS \<or> mode = ''reality'' \<or> sni \<noteq> None \<or> alpn \<noteq> []
         then Some (default_tls_settings\<lparr>tls_mode := (if mode = ''reality'' then Tls_Reality else Tls_Tls),
                      tls_server_name := sni, tls_alpn := alpn\<rparr>)
         else None)"

definition vmess_item :: "json \<Rightarrow> profile_item" where
  "vmess_item obj =
     (let security = value_string obj ''scy'' in
      default_profile\<lparr>remarks := value_string obj ''ps'',
        protocol := Pp_Vmess
          \<lparr>se_address = value_string obj ''add'', se_port = unwrap_or (value_i32 obj ''port'') 0\<rparr>
          (value_string obj ''id'') (Some (if security = [] then DEFAULT_SECURITY else security)),
        transport := Some (vmess_transport obj), tls := vmess_tls obj\<rparr>)"

definition parse_vmess_base64 :: "share_externals \<Rightarrow> string \<Rightarrow> profile_item share_result" where
  "parse_vmess_base64 X input =
     (case strip_prefix_ci (trim input) ''vmess://'' of
        None \<Rightarrow> Inl UnsupportedProtocol
      | Some payload \<Rightarrow>
          bind_ok (base64_decode X payload ''vmess'') (\<lambda>decoded.
            case json_from_str X decoded of
              None \<Rightarrow> Inl (InvalidJson ''vmess'' None)
            | Some v \<Rightarrow>
                (if \<not> json_is_object v then Inl (InvalidJson ''vmess'' (Some ''expected object''))
                 else (let item = vmess_item v in checked ''vmess'' [(''password'', password item)] item))))"

definition parse_vmess :: "share_externals \<Rightarrow> string \<Rightarrow> profile_item share_result" where
  "parse_vmess X input =
     (if CHR ''@'' \<in> set input
      then (case parse_vmess_standard X input of
              Inr item \<Rightarrow> Inr item
            | Inl e \<Rightarrow> parse_vmess_base64 X input)
      else parse_vmess_base64 X input)"

definition vmess_type_of :: "profile_transport option \<Rightarrow> string" where
  "vmess_type_of t =
     (case t of
        Some (Pt_Tcp header host path) \<Rightarrow> option_or header NONE
      | Some (Pt_Kcp header seed mtu) \<Rightarrow> option_or header NONE
      | Some (Pt_Xhttp host path mode extra) \<Rightarrow> option_or mode NONE
      | Some (Pt_Grpc auth service_name mode) \<Rightarrow> option_or mode NONE
      | _ \<Rightarrow> NONE)"

definition vmess_json :: "profile_item \<Rightarrow> string \<Rightarrow> string option \<Rightarrow> json" where
  "vmess_json item uuid cipher =
     (let name = item_network item in
      json_object
        [(''v'', JString ''2''), (''ps'', JString (trim (remarks item))), (''add'', JString (address item)),
         (''port'', JString (show_int (port item))), (''id'', JString uuid), (''aid'', JString ''0''),
         (''scy'', JString (option_or cipher DEFAULT_SECURITY)),
         (''net'', JString (if name = DEFAULT_NETWORK then RAW_NETWORK_ALIAS else name)),
         (''type'', JString (vmess_type_of (transport item))),
         (''host'', JString (unwrap_or (Option.bind (transport item) transport_host) [])),
         (''path'', JString (unwrap_or (Option.bind (transport item) transport_path) [])),
         (''tls'', JString (stream_security item)),
         (''sni'', JString (unwrap_or (Option.bind (tls item) tls_server_name) [])),
         (''alpn'', JString (unwrap_or (map_option (\<lambda>t. join_with '','' (tls_alpn t)) (tls item)) []))])"

definition export_vmess :: "share_externals \<Rightarrow> profile_item \<Rightarrow> string share_result" where
  "export_vmess X item =
     bind_ok (exportable ''vmess'' Ct_VMess [(''password'', password item)] item) (\<lambda>item.
       case protocol item of
         Pp_Vmess server uuid cipher \<Rightarrow>
           Inr (''vmess://'' @ base64_encode X (json_to_string X (vmess_json item uuid cipher)) False)
       | _ \<Rightarrow> Inl (WrongConfigType ''vmess'' (config_type item)))"

section \<open>WireGuard configuration files\<close>

record wg_state =
  wg_interface :: "(string, string) btree_map"
  wg_peers :: "(string, string) btree_map list"
  wg_in_peer :: bool

definition wg_comment :: "char \<Rightarrow> bool" where
  "wg_comment c \<longleftrightarrow> c = CHR ''#'' \<or> c = CHR '';''"

definition wg_value :: "string \<Rightarrow> string" where
  "wg_value raw =
     (let v = trim raw in
      if list_ex wg_comment v then trim_end (takeWhile (\<lambda>c. \<not> wg_comment c) v) else v)"

definition wg_line :: "string \<Rightarrow> wg_state \<Rightarrow> wg_state" where
  "wg_line line st =
     (let trimmed = trim line in
      if trimmed = [] then st
      else if eq_ignore_ascii_case trimmed ''[Interface]'' then st\<lparr>wg_in_peer := False\<rparr>
      else if eq_ignore_ascii_case trimmed ''[Peer]''
      then st\<lparr>wg_peers := wg_peers st @ [[]], wg_in_peer := True\<rparr>
      else if starts_with trimmed ''['' \<or> starts_with trimmed ''#'' \<or> starts_with trimmed '';'' then st
      else case split_once (CHR ''='') line of
             None \<Rightarrow> st
           | Some (key, raw_value) \<Rightarrow>
               (let key = to_ascii_lowercase (trim key); v = wg_value raw_value in
                if wg_in_peer st
                then (if wg_peers st = [] then st
                      else st\<lparr>wg_peers := butlast (wg_peers st) @ [bt_insert key v (last (wg_peers st))]\<rparr>)
                else st\<lparr>wg_interface := bt_insert key v (wg_interface st)\<rparr>))"

definition wg_start :: wg_state where
  "wg_start = \<lparr>wg_interface = [], wg_peers = [], wg_in_peer = False\<rparr>"

definition wg_peer :: "(string, string) btree_map \<Rightarrow> string \<Rightarrow> (string, string) btree_map \<Rightarrow> nat \<Rightarrow> profile_item option" where
  "wg_peer interface private_key peer n =
     (case Option.bind (nonempty_option (bt_get peer ''endpoint'')) parse_wireguard_endpoint of
        None \<Rightarrow> None
      | Some (adr, p) \<Rightarrow>
          Some (default_profile\<lparr>remarks := ''WireGuard Peer '' @ show_nat (n + 1),
            protocol := Pp_WireGuard \<lparr>se_address = adr, se_port = p\<rparr> private_key
              (nonempty_option (bt_get peer ''publickey'')) (nonempty_option (bt_get peer ''presharedkey''))
              (nonempty (unwrap_or (bt_get interface ''address'') []))
              (nonempty_option (bt_get peer ''allowedips'')) (nonempty_option (bt_get peer ''reserved''))
              (Option.bind (bt_get interface ''mtu'') parse_positive_i32)\<rparr>))"

fun wg_profiles ::
    "(string, string) btree_map \<Rightarrow> string \<Rightarrow> (string, string) btree_map list \<Rightarrow> profile_item list \<Rightarrow> profile_item list" where
  "wg_profiles interface private_key [] result = result"
| "wg_profiles interface private_key (peer # peers) result =
     (case wg_peer interface private_key peer (length result) of
        None \<Rightarrow> wg_profiles interface private_key peers result
      | Some item \<Rightarrow> wg_profiles interface private_key peers (result @ [item]))"

definition parse_wireguard_config :: "string \<Rightarrow> profile_item list share_result" where
  "parse_wireguard_config input =
     (let st = fold wg_line (lines_of input) wg_start in
      case nonempty_option (bt_get (wg_interface st) ''privatekey'') of
        None \<Rightarrow> Inl (MissingField ''wireguard-config'' ''PrivateKey'')
      | Some private_key \<Rightarrow>
          (let result = wg_profiles (wg_interface st) private_key (wg_peers st) []
           in if result = [] then Inl InvalidFullConfig else Inr result))"

end
