(* ===== verification/ShareEntry.thy ===== *)
theory ShareEntry
  imports ShareVmess
begin

text \<open>
  \<open>fmt/entry.rs\<close>: the choice of a format by the prefix of a link or the type of a profile,
  links with global options, lists of links, whole configurations, and the bundle of profiles
  with its groups, whose references are checked for cycles.
\<close>

section \<open>Links\<close>

definition parse_share_link :: "share_externals \<Rightarrow> string \<Rightarrow> profile_item share_result" where
  "parse_share_link X input =
     (let trimmed = trim input in
      if trimmed = [] then Inl EmptyInput
      else if starts_with_ci trimmed ''vmess://'' then parse_vmess X trimmed
      else if starts_with_ci trimmed ''ss://'' then parse_shadowsocks X trimmed
      else if starts_with_ci trimmed ''socks://'' \<or> starts_with_ci trimmed ''socks5://''
              \<or> starts_with_ci trimmed ''socks4://'' then parse_socks X trimmed
      else if starts_with_ci trimmed ''trojan://'' then parse_trojan X trimmed
      else if starts_with_ci trimmed ''vless://'' then parse_vless X trimmed
      else if starts_with_ci trimmed HYSTERIA2_DEFAULT_SCHEME
              \<or> starts_with_ci trimmed HYSTERIA2_ALT_SCHEME then parse_hysteria2 X trimmed
      else if starts_with_ci trimmed ''tuic://'' then parse_tuic X trimmed
      else if starts_with_ci trimmed ''wireguard://'' then parse_wireguard X trimmed
      else if starts_with_ci trimmed ''anytls://'' then parse_anytls X trimmed
      else if starts_with_ci trimmed ''naive://'' \<or> starts_with_ci trimmed NAIVE_HTTPS_SCHEME
              \<or> starts_with_ci trimmed NAIVE_QUIC_SCHEME then parse_naive X trimmed
      else Inl UnsupportedProtocol)"

definition export_share_link :: "share_externals \<Rightarrow> profile_item \<Rightarrow> string share_result" where
  "export_share_link X item =
     (case config_type item of
        Ct_VMess \<Rightarrow> export_vmess X item
      | Ct_Shadowsocks \<Rightarrow> export_shadowsocks X item
      | Ct_SOCKS \<Rightarrow> export_socks X item
      | Ct_Trojan \<Rightarrow> export_trojan X item
      | Ct_VLESS \<Rightarrow> export_vless X item
      | Ct_Hysteria2 \<Rightarrow> export_hysteria2 X item
      | Ct_TUIC \<Rightarrow> export_tuic X item
      | Ct_WireGuard \<Rightarrow> export_wireguard X item
      | Ct_Anytls \<Rightarrow> export_anytls X item
      | Ct_Naive \<Rightarrow> export_naive X item
      | actual \<Rightarrow> Inl (WrongConfigType ''share'' actual))"

section \<open>Links with options\<close>

record share_link_options =
  so_allow_insecure :: bool
  so_fingerprint :: string
  so_hysteria_up_mbps :: i32
  so_hysteria_down_mbps :: i32
  so_hysteria_hop_interval :: i32

definition share_link_has_tls_options :: "profile_item \<Rightarrow> bool" where
  "share_link_has_tls_options item \<longleftrightarrow>
     config_type item \<in> {Ct_Hysteria2, Ct_TUIC, Ct_Anytls, Ct_Naive}
     \<or> stream_security item \<in> {''tls'', ''reality''}"

definition json_insert :: "string \<Rightarrow> json \<Rightarrow> json \<Rightarrow> json" where
  "json_insert key v obj = (case obj of JObject kvs \<Rightarrow> JObject (bt_insert key v kvs) | _ \<Rightarrow> obj)"

definition insecure_flag :: "share_link_options \<Rightarrow> string" where
  "insecure_flag options = (if so_allow_insecure options then ''1'' else ''0'')"

definition inject_vmess_global_options ::
    "share_externals \<Rightarrow> string \<Rightarrow> profile_item \<Rightarrow> share_link_options \<Rightarrow> string share_result" where
  "inject_vmess_global_options X link item options =
     (if \<not> share_link_has_tls_options item then Inr link
      else case strip_prefix ''vmess://'' link of
             None \<Rightarrow> Inl UnsupportedProtocol
           | Some payload \<Rightarrow>
               bind_ok (base64_decode X payload ''vmess'') (\<lambda>decoded.
                 case json_from_str X decoded of
                   None \<Rightarrow> Inl (InvalidJson ''vmess'' None)
                 | Some v \<Rightarrow>
                     (if \<not> json_is_object v then Inl (InvalidJson ''vmess'' (Some ''expected object''))
                      else
                        (let v = json_insert ''allowInsecure'' (JString (insecure_flag options)) v;
                             v = (if trim (so_fingerprint options) \<noteq> []
                                  then json_insert ''fp'' (JString (trim (so_fingerprint options))) v else v)
                         in Inr (''vmess://'' @ base64_encode X (json_to_string X v) False)))))"

definition positive_pair :: "string \<Rightarrow> i32 \<Rightarrow> query_pairs" where
  "positive_pair key n = (if 0 < n then [(key, show_int n)] else [])"

definition option_pairs :: "profile_item \<Rightarrow> share_link_options \<Rightarrow> query_pairs" where
  "option_pairs item options =
     [(''insecure'', insecure_flag options), (''allowInsecure'', insecure_flag options)]
     @ (if trim (so_fingerprint options) \<noteq> [] then [(''fp'', trim (so_fingerprint options))] else [])
     @ (if config_type item = Ct_Hysteria2
        then positive_pair ''upmbps'' (so_hysteria_up_mbps options)
          @ positive_pair ''downmbps'' (so_hysteria_down_mbps options)
          @ positive_pair ''hopInterval'' (so_hysteria_hop_interval options)
        else [])"

definition export_share_link_with_options ::
    "share_externals \<Rightarrow> profile_item \<Rightarrow> share_link_options \<Rightarrow> string share_result" where
  "export_share_link_with_options X item options =
     bind_ok (export_share_link X item) (\<lambda>link.
       if config_type item = Ct_VMess then inject_vmess_global_options X link item options
       else if \<not> share_link_has_tls_options item \<and> config_type item \<noteq> Ct_Hysteria2 then Inr link
       else case url_append_pairs X link (option_pairs item options) of
              None \<Rightarrow> Inl (InvalidUri ''share'' None)
            | Some url \<Rightarrow> Inr url)"

definition parse_share_lines :: "share_externals \<Rightarrow> string \<Rightarrow> profile_item share_result list" where
  "parse_share_lines X input =
     map (parse_share_link X) (filter (\<lambda>line. line \<noteq> []) (map trim (lines_of input)))"

section \<open>Whole configurations\<close>

definition custom_import :: "custom_config_kind \<Rightarrow> string \<Rightarrow> string \<Rightarrow> string \<Rightarrow> custom_config_import" where
  "custom_import kind extension contents remark =
     \<lparr>ci_kind = kind, ci_extension = extension, ci_contents = contents,
      ci_profile = default_profile\<lparr>remarks := remark, protocol := Pp_Custom [] None\<rparr>\<rparr>"

definition parse_singbox_custom ::
    "share_externals \<Rightarrow> string \<Rightarrow> string option \<Rightarrow> custom_config_import option" where
  "parse_singbox_custom X input sub_name =
     (case json_from_str X input of
        None \<Rightarrow> None
      | Some v \<Rightarrow>
          (if json_is_object v
              \<and> list_all (\<lambda>key. json_get key v \<noteq> None) [''inbounds'', ''outbounds'', ''route'', ''dns'']
           then Some (custom_import Cc_SingBox ''json'' input (unwrap_or sub_name ''singbox_custom''))
           else None))"

text \<open>
  An array is printed item by item and every item is parsed again as a text; \<open>None\<close> is a
  nesting deeper than the fuel.
\<close>

fun parse_full_custom_config ::
    "nat \<Rightarrow> share_externals \<Rightarrow> string \<Rightarrow> string option \<Rightarrow> custom_config_import list share_result option" where
  "parse_full_custom_config 0 X input sub_name = None"
| "parse_full_custom_config (Suc fuel) X input sub_name =
     (let trimmed = trim input in
      if trimmed = [] \<or> is_html_page trimmed then Some (Inl InvalidFullConfig)
      else case json_from_str X trimmed of
             Some (JArray items) \<Rightarrow>
               (case those (map (\<lambda>v. parse_full_custom_config fuel X (json_to_string X v) sub_name) items) of
                  None \<Rightarrow> None
                | Some results \<Rightarrow>
                    (let imports = concat (map (\<lambda>r. case r of Inr nested \<Rightarrow> nested | Inl e \<Rightarrow> []) results)
                     in Some (if imports = [] then Inl InvalidFullConfig else Inr imports)))
           | _ \<Rightarrow>
               Some (case parse_singbox_custom X trimmed sub_name of
                       Some import \<Rightarrow> Inr [import]
                     | None \<Rightarrow>
                         (if contains_all_ci trimmed [''server'', ''auth'', ''up'', ''down'', ''listen'']
                          then Inr [custom_import Cc_Hysteria2 ''json'' trimmed
                                      (unwrap_or sub_name ''hysteria2_custom'')]
                          else Inl InvalidFullConfig)))"

section \<open>Bundles\<close>

fun bundle_reference :: "voya_bundle_profile \<Rightarrow> string" where
  "bundle_reference (Vb_Node r u) = r"
| "bundle_reference (Vb_PolicyGroup r n cs i s f) = r"
| "bundle_reference (Vb_ProxyChain r n cs i) = r"

fun bundle_child_refs :: "voya_bundle_profile \<Rightarrow> string list" where
  "bundle_child_refs (Vb_Node r u) = []"
| "bundle_child_refs (Vb_PolicyGroup r n cs i s f) = cs"
| "bundle_child_refs (Vb_ProxyChain r n cs i) = cs"

definition invalid_voya_bundle :: "string \<Rightarrow> share_error" where
  "invalid_voya_bundle reason = InvalidVoyaBundle (Some reason)"

fun multiple_load_name :: "multiple_load \<Rightarrow> string" where
  "multiple_load_name Ml_LeastPing = ''leastPing''"
| "multiple_load_name Ml_Fallback = ''fallback''"
| "multiple_load_name Ml_Random = ''random''"
| "multiple_load_name Ml_RoundRobin = ''roundRobin''"
| "multiple_load_name Ml_LeastLoad = ''leastLoad''"

definition parse_multiple_load :: "string \<Rightarrow> multiple_load share_result" where
  "parse_multiple_load v =
     (if v = ''leastPing'' then Inr Ml_LeastPing
      else if v = ''fallback'' then Inr Ml_Fallback
      else if v = ''random'' then Inr Ml_Random
      else if v = ''roundRobin'' then Inr Ml_RoundRobin
      else if v = ''leastLoad'' then Inr Ml_LeastLoad
      else Inl (invalid_voya_bundle (''unsupported policy group strategy '' @ v)))"

definition export_references :: "profile_item list \<Rightarrow> (string, string) btree_map" where
  "export_references items =
     bt_of_list (map (\<lambda>(i, item). (index_id item, CHR ''p'' # show_nat (i + 1))) (enumerate 0 items))"

definition export_bundle_profile ::
    "share_externals \<Rightarrow> (string, string) btree_map \<Rightarrow> profile_item \<Rightarrow> voya_bundle_profile share_result" where
  "export_bundle_profile X references item =
     (case bt_get references (index_id item) of
        None \<Rightarrow> Inl (invalid_voya_bundle ''profile id is required'')
      | Some reference \<Rightarrow>
          (let child_refs = List.map_filter (bt_get references) (child_profile_ids (protocol item)) in
           case protocol item of
             Pp_PolicyGroup children source_subscription_id filter_text strategy \<Rightarrow>
               Inr (Vb_PolicyGroup reference (remarks item) child_refs (source_subscription_id \<noteq> None)
                      (Some (multiple_load_name strategy)) filter_text)
           | Pp_ProxyChain children \<Rightarrow> Inr (Vb_ProxyChain reference (remarks item) child_refs False)
           | _ \<Rightarrow> bind_ok (export_share_link X item) (\<lambda>uri. Inr (Vb_Node reference uri))))"

fun collect_results :: "('e + 'a) list \<Rightarrow> 'e + 'a list" where
  "collect_results [] = Inr []"
| "collect_results (r # rs) = bind_ok r (\<lambda>x. bind_ok (collect_results rs) (\<lambda>xs. Inr (x # xs)))"

definition url_safe :: "string \<Rightarrow> string" where
  "url_safe s = map (\<lambda>c. if c = CHR ''/'' then CHR ''_'' else c)
     (map (\<lambda>c. if c = CHR ''+'' then CHR ''-'' else c) s)"

definition export_voya_profile_bundle :: "share_externals \<Rightarrow> profile_item list \<Rightarrow> string share_result" where
  "export_voya_profile_bundle X items =
     (let exported = filter (\<lambda>item. config_type item \<noteq> Ct_Custom) items in
      if exported = [] then Inl (invalid_voya_bundle ''no exportable profiles'')
      else
        bind_ok (collect_results (map (export_bundle_profile X (export_references exported)) exported)) (\<lambda>ps.
          Inr (VOYA_PROFILE_BUNDLE_PREFIX
            @ url_safe (base64_encode X (bundle_to_string X \<lparr>schema_version = 1, bundle_profiles = ps\<rparr>) True))))"

text \<open>
  \<open>visiting\<close> is put back by every call that succeeds, so it is an argument; \<open>visited\<close> is
  threaded through the calls, in a result.
\<close>

function validate_voya_bundle_branch ::
    "(string, voya_bundle_profile) btree_map \<Rightarrow> string set \<Rightarrow> string \<Rightarrow> string set share_result
       \<Rightarrow> string set share_result" where
  "validate_voya_bundle_branch m visiting reference res =
     (case res of
        Inl e \<Rightarrow> Inl e
      | Inr visited \<Rightarrow>
          (if reference \<in> visited then Inr visited
           else if reference \<in> visiting
           then Inl (invalid_voya_bundle (''profile reference cycle includes '' @ reference))
           else case bt_get m reference of
                  None \<Rightarrow> Inl (invalid_voya_bundle (''unresolved profile '' @ reference))
                | Some p \<Rightarrow>
                    (case fold (validate_voya_bundle_branch m (insert reference visiting))
                            (bundle_child_refs p) (Inr visited) of
                       Inl e \<Rightarrow> Inl e
                     | Inr visited \<Rightarrow> Inr (insert reference visited))))"
  by pat_completeness auto
termination
proof (relation "measure (\<lambda>(m, visiting, reference, res). card (set (bt_keys m) - visiting))")
  fix m :: "(string, voya_bundle_profile) btree_map" and visiting reference and res r :: "string set share_result"
    and visited p c
  assume "reference \<notin> visiting" and p: "bt_get m reference = Some p"
  then have "reference \<in> set (bt_keys m) - visiting" using bt_get_None_iff[of m reference] by auto
  then have "set (bt_keys m) - insert reference visiting \<subset> set (bt_keys m) - visiting" by blast
  then have "card (set (bt_keys m) - insert reference visiting) < card (set (bt_keys m) - visiting)"
    by (intro psubset_card_mono) simp_all
  then show "((m, insert reference visiting, c, r), (m, visiting, reference, res))
      \<in> measure (\<lambda>(m, visiting, reference, res). card (set (bt_keys m) - visiting))"
    by simp
qed simp

declare validate_voya_bundle_branch.simps [simp del]

fun check_references :: "voya_bundle_profile list \<Rightarrow> string set \<Rightarrow> string set share_result" where
  "check_references [] references = Inr references"
| "check_references (p # ps) references =
     (let reference = trim (bundle_reference p) in
      if reference = [] then Inl (invalid_voya_bundle ''profile reference is required'')
      else if reference \<in> references
      then Inl (invalid_voya_bundle (''duplicate profile reference '' @ reference))
      else check_references ps (insert reference references))"

definition check_children :: "voya_bundle_profile list \<Rightarrow> string set \<Rightarrow> unit share_result" where
  "check_children ps references =
     (case find (\<lambda>c. trim c \<notin> references) (concat (map bundle_child_refs ps)) of
        Some child \<Rightarrow> Inl (invalid_voya_bundle (''unresolved child reference '' @ child))
      | None \<Rightarrow> Inr ())"

definition by_reference :: "voya_bundle_profile list \<Rightarrow> (string, voya_bundle_profile) btree_map" where
  "by_reference ps = bt_of_list (map (\<lambda>p. (bundle_reference p, p)) ps)"

definition validate_voya_bundle :: "voya_bundle_profile list \<Rightarrow> unit share_result" where
  "validate_voya_bundle ps =
     (if ps = [] then Inl (invalid_voya_bundle ''bundle contains no profiles'')
      else
        bind_ok (check_references ps {}) (\<lambda>references.
        bind_ok (check_children ps references) (\<lambda>_.
        bind_ok (collect_results
          (map (\<lambda>p. validate_voya_bundle_branch (by_reference ps) {} (bundle_reference p) (Inr {})) ps))
          (\<lambda>_. Inr ()))))"

definition bundle_group_profile ::
    "config_kind \<Rightarrow> string \<Rightarrow> string list \<Rightarrow> bool \<Rightarrow> multiple_load option \<Rightarrow> string option \<Rightarrow> string
       \<Rightarrow> (string, string) btree_map \<Rightarrow> profile_item share_result" where
  "bundle_group_profile t name child_refs include_current_subscription strategy filter_text subscription id_map =
     (if include_current_subscription \<and> trim subscription = []
      then Inl (invalid_voya_bundle ''current subscription group requires a subscription import target'')
      else
        bind_ok (collect_results
          (map (\<lambda>r. case bt_get id_map r of
                      Some i \<Rightarrow> Inr i
                    | None \<Rightarrow> Inl (invalid_voya_bundle (''unresolved child reference '' @ r))) child_refs))
          (\<lambda>child_items.
             if child_items = [] \<and> \<not> include_current_subscription
             then Inl (invalid_voya_bundle ''group has no children'')
             else
               bind_ok
                 (case t of
                    Ct_PolicyGroup \<Rightarrow>
                      Inr (Pp_PolicyGroup child_items
                        (if include_current_subscription then Some (trim subscription) else None)
                        (Option.bind filter_text nonempty) (unwrap_or strategy Ml_LeastPing))
                  | Ct_ProxyChain \<Rightarrow>
                      (if include_current_subscription
                       then Inl (invalid_voya_bundle ''proxy chains cannot include an entire subscription'')
                       else Inr (Pp_ProxyChain child_items))
                  | _ \<Rightarrow> Inl (invalid_voya_bundle ''bundle group has an invalid kind''))
                 (\<lambda>proto. Inr (default_profile\<lparr>remarks := trim name, protocol := proto\<rparr>))))"

definition bundle_id_map :: "voya_bundle_profile list \<Rightarrow> (string, string) btree_map" where
  "bundle_id_map ps =
     bt_of_list (map (\<lambda>(i, p). (bundle_reference p, ''voya-import-'' @ show_nat (i + 1))) (enumerate 0 ps))"

definition import_bundle_profile ::
    "share_externals \<Rightarrow> string \<Rightarrow> (string, string) btree_map \<Rightarrow> voya_bundle_profile \<Rightarrow> profile_item share_result" where
  "import_bundle_profile X subscription id_map entry =
     (case bt_get id_map (bundle_reference entry) of
        None \<Rightarrow> Inl (invalid_voya_bundle ''profile reference was not resolved'')
      | Some idx \<Rightarrow>
          bind_ok
            (case entry of
               Vb_Node r share_uri \<Rightarrow> parse_share_link X share_uri
             | Vb_PolicyGroup r name child_refs include_current strategy filter_text \<Rightarrow>
                 bind_ok (case strategy of None \<Rightarrow> Inr None
                          | Some s \<Rightarrow> bind_ok (parse_multiple_load s) (\<lambda>l. Inr (Some l)))
                   (\<lambda>strategy. bundle_group_profile Ct_PolicyGroup name child_refs include_current strategy
                      filter_text subscription id_map)
             | Vb_ProxyChain r name child_refs include_current \<Rightarrow>
                 bundle_group_profile Ct_ProxyChain name child_refs include_current None None subscription id_map)
            (\<lambda>item. Inr (item\<lparr>index_id := idx\<rparr>)))"

definition import_bundle ::
    "share_externals \<Rightarrow> string \<Rightarrow> voya_profile_bundle_v1 \<Rightarrow> profile_item list share_result" where
  "import_bundle X subscription bundle =
     (if schema_version bundle \<noteq> 1
      then Inl (invalid_voya_bundle (''unsupported schema version '' @ show_nat (schema_version bundle)))
      else
        bind_ok (validate_voya_bundle (bundle_profiles bundle)) (\<lambda>_.
          collect_results (map (import_bundle_profile X subscription (bundle_id_map (bundle_profiles bundle)))
            (bundle_profiles bundle))))"

definition parse_voya_profile_bundle ::
    "share_externals \<Rightarrow> string \<Rightarrow> string \<Rightarrow> profile_item list share_result" where
  "parse_voya_profile_bundle X input subscription =
     (case strip_prefix VOYA_PROFILE_BUNDLE_PREFIX (trim input) of
        None \<Rightarrow> Inl (invalid_voya_bundle ''invalid URI'')
      | Some payload \<Rightarrow>
          (if payload = [] \<or> list_ex (\<lambda>c. c \<in> {CHR 0x0D, CHR 0x0A, CHR ''/''}) payload
           then Inl (invalid_voya_bundle ''invalid payload'')
           else case base64_decode X payload ''voya-profile-bundle'' of
                  Inl e \<Rightarrow> Inl (invalid_voya_bundle ''invalid base64 payload'')
                | Inr decoded \<Rightarrow>
                    (case bundle_from_str X decoded of
                       None \<Rightarrow> Inl (InvalidVoyaBundle None)
                     | Some bundle \<Rightarrow> import_bundle X subscription bundle)))"

end
