(* ===== verification/ShareProps.thy ===== *)
theory ShareProps
  imports ShareEntry Digraph
begin

text \<open>
  What holds of everything the share-link importers return, whatever the input and whatever
  the third-party parsers answer: profiles that the rest of the program may rely on, and
  bundles whose groups form a closed and acyclic set.
\<close>

section \<open>Imported profiles\<close>

lemma ensure_fields_Inr:
  "ensure_fields proto required item = Inr item' \<longleftrightarrow> item' = item \<and> [] \<notin> snd ` set required"
  by (induction proto required item rule: ensure_fields.induct) (auto simp: ensure_nonempty_def bind_ok_Inr)

lemma ensure_address_port_Inr:
  "ensure_address_port proto item = Inr u \<longleftrightarrow>
     address item \<noteq> [] \<and> valid_host (address item) \<and> valid_port (port item)"
  by (auto simp: ensure_address_port_def bind_ok_Inr ensure_nonempty_def)

lemma checked_Inr:
  "checked proto required item = Inr item' \<longleftrightarrow>
     item' = item \<and> address item \<noteq> [] \<and> valid_host (address item) \<and> valid_port (port item)
     \<and> [] \<notin> snd ` set required"
  by (auto simp: checked_def bind_ok_Inr ensure_address_port_Inr ensure_fields_Inr)

lemma exportable_Inr:
  "exportable proto t required item = Inr item' \<longleftrightarrow>
     item' = item \<and> config_type item = t \<and> address item \<noteq> [] \<and> valid_host (address item)
     \<and> valid_port (port item) \<and> [] \<notin> snd ` set required"
  by (auto simp: exportable_def bind_ok_Inr ensure_type_def checked_Inr)

text \<open>A node as an importer returns it: an address and credentials it can be dialled with, no identity yet.\<close>

definition importable :: "config_kind \<Rightarrow> profile_item \<Rightarrow> bool" where
  "importable t item \<longleftrightarrow>
     config_type item = t \<and> index_id item = [] \<and> subscription_id item = None
     \<and> address item \<noteq> [] \<and> valid_host (address item) \<and> valid_port (port item)
     \<and> (t \<noteq> Ct_SOCKS \<longrightarrow> password item \<noteq> [])
     \<and> (t = Ct_TUIC \<longrightarrow> username item \<noteq> [])"

definition fresh_profile :: "config_kind \<Rightarrow> profile_item \<Rightarrow> bool" where
  "fresh_profile t item \<longleftrightarrow>
     config_type item = t \<and> index_id item = [] \<and> subscription_id item = None"

lemma fresh_from_uri [simp]: "fresh_profile t (profile_from_uri t parsed)"
  by (cases t) (simp_all add: fresh_profile_def profile_from_uri_def default_profile_def config_type_def)

lemma fresh_default [simp]:
  "fresh_profile t (default_profile\<lparr>remarks := r, protocol := p\<rparr>) \<longleftrightarrow> protocol_config_type p = t"
  "fresh_profile t (default_profile\<lparr>remarks := r, protocol := p, transport := tr, tls := ts\<rparr>)
     \<longleftrightarrow> protocol_config_type p = t"
  by (auto simp: fresh_profile_def default_profile_def config_type_def)

lemma fresh_update [simp]:
  "fresh_profile t (item\<lparr>transport := tr\<rparr>) = fresh_profile t item"
  "fresh_profile t (item\<lparr>tls := ts\<rparr>) = fresh_profile t item"
  "fresh_profile t (resolve_uri_query X q item) = fresh_profile t item"
  "fresh_profile t (add_pin pin item) = fresh_profile t item"
  by (simp_all add: fresh_profile_def config_type_def resolve_uri_query_def add_pin_def Let_def split: option.split)

lemma fresh_protocol:
  "fresh_profile t item \<Longrightarrow> protocol_config_type p = t \<Longrightarrow> fresh_profile t (item\<lparr>protocol := p\<rparr>)"
  by (simp add: fresh_profile_def config_type_def)

lemmas parse_defs = parse_uri_def parse_vless_def parse_trojan_def parse_anytls_def parse_hysteria2_def
  parse_tuic_def parse_naive_def parse_socks_def parse_socks_new_def parse_wireguard_def

lemma importable_checked:
  assumes "checked proto required item = Inr item'" and "fresh_profile t item"
    and "t \<noteq> Ct_SOCKS \<Longrightarrow> password item \<in> snd ` set required"
    and "t = Ct_TUIC \<Longrightarrow> username item \<in> snd ` set required"
  shows "importable t item'"
  using assms by (auto simp: importable_def fresh_profile_def checked_Inr)

lemma parse_vless_importable: "parse_vless X s = Inr item \<Longrightarrow> importable Ct_VLESS item"
  unfolding parse_vless_def bind_ok_Inr Let_def
  by (elim exE conjE) (erule importable_checked; simp add: fresh_protocol split: profile_protocol.split)

lemma parse_trojan_importable: "parse_trojan X s = Inr item \<Longrightarrow> importable Ct_Trojan item"
  unfolding parse_trojan_def bind_ok_Inr Let_def
  by (elim exE conjE) (erule importable_checked; simp add: fresh_protocol split: profile_protocol.split)

lemma parse_anytls_importable: "parse_anytls X s = Inr item \<Longrightarrow> importable Ct_Anytls item"
  unfolding parse_anytls_def bind_ok_Inr Let_def
  by (elim exE conjE) (erule importable_checked; simp add: fresh_protocol split: profile_protocol.split)

lemma parse_hysteria2_importable: "parse_hysteria2 X s = Inr item \<Longrightarrow> importable Ct_Hysteria2 item"
  unfolding parse_hysteria2_def bind_ok_Inr Let_def
  by (elim exE conjE) (erule importable_checked; simp add: fresh_protocol split: profile_protocol.split)

lemma parse_tuic_importable: "parse_tuic X s = Inr item \<Longrightarrow> importable Ct_TUIC item"
  unfolding parse_tuic_def bind_ok_Inr Let_def
  by (elim exE conjE) (erule importable_checked; simp add: fresh_protocol split: profile_protocol.split option.split)

lemma parse_naive_importable: "parse_naive X s = Inr item \<Longrightarrow> importable Ct_Naive item"
  unfolding parse_naive_def bind_ok_Inr Let_def
  by (elim exE conjE) (erule importable_checked; simp add: fresh_protocol split: profile_protocol.split option.split)

lemma parse_wireguard_importable: "parse_wireguard X s = Inr item \<Longrightarrow> importable Ct_WireGuard item"
  unfolding parse_wireguard_def bind_ok_Inr Let_def
  by (elim exE conjE) (erule importable_checked; simp add: fresh_protocol split: profile_protocol.split)

lemma parse_socks_importable:
  assumes "parse_socks X s = Inr item" shows "importable Ct_SOCKS item"
proof -
  obtain parsed name pw x where c: "checked ''socks'' [] x = Inr item"
    and x: "x = (case protocol (profile_from_uri Ct_SOCKS parsed) of
        Pp_Socks server u p \<Rightarrow> profile_from_uri Ct_SOCKS parsed\<lparr>protocol := Pp_Socks server name pw\<rparr>
      | _ \<Rightarrow> profile_from_uri Ct_SOCKS parsed)"
    using assms unfolding parse_socks_def parse_socks_new_def bind_ok_Inr Let_def by (force simp: split_beta)
  show ?thesis using c by (rule importable_checked) (simp_all add: x fresh_protocol split: profile_protocol.split)
qed

definition retouched :: "profile_item \<Rightarrow> profile_item \<Rightarrow> bool" where
  "retouched item item' \<longleftrightarrow> (\<exists>tr ts. item' = item\<lparr>transport := tr, tls := ts\<rparr>)"

lemma retouched_simps [simp]:
  "retouched item item" "retouched item (item\<lparr>transport := tr\<rparr>)" "retouched item (item\<lparr>tls := ts\<rparr>)"
  "retouched item (item\<lparr>tls := ts, transport := tr\<rparr>)"
  unfolding retouched_def
  by (rule exI[of _ "transport item"], rule exI[of _ "tls item"], simp)
    (rule exI[of _ tr], rule exI[of _ "tls item"], simp,
     rule exI[of _ "transport item"], rule exI[of _ ts], simp,
     rule exI[of _ tr], rule exI[of _ ts], simp)

lemma retouched_trans: "retouched a b \<Longrightarrow> retouched b c \<Longrightarrow> retouched a c"
  unfolding retouched_def by (elim exE) (simp, intro exI, rule refl)

lemma retouched_fresh: "retouched item item' \<Longrightarrow> fresh_profile t item' = fresh_profile t item"
  by (auto simp: retouched_def)

lemma plugin_obfs_retouched: "retouched item (plugin_obfs ps item)"
  by (simp add: plugin_obfs_def Let_def)

lemma plugin_websocket_retouched: "retouched item (plugin_websocket ps item)"
  by (cases "find_strip ''host='' ps") (simp_all add: plugin_websocket_def Let_def)

lemma plugin_tls_retouched: "retouched item (plugin_tls ps item)"
  by (simp add: plugin_tls_def Let_def)

lemma parse_v2ray_plugin_retouched:
  assumes "parse_v2ray_plugin ps item = Inr item'" shows "retouched item item'"
proof -
  define item1 where "item1 = (if unwrap_or (find_strip ''mode='' ps) ''websocket'' = ''websocket''
    then plugin_websocket ps item else item)"
  have "item' = (if ''tls'' \<in> set ps then plugin_tls ps item1 else item1)"
    using assms unfolding parse_v2ray_plugin_def Let_def item1_def[symmetric]
    by (simp split: option.splits if_split_asm)
  moreover have "retouched item item1" by (simp add: item1_def plugin_websocket_retouched)
  ultimately show ?thesis using plugin_tls_retouched[of item1 ps] retouched_trans by metis
qed

lemma parse_shadowsocks_plugin_retouched:
  "parse_shadowsocks_plugin plugin item = Inr item' \<Longrightarrow> retouched item item'"
  unfolding parse_shadowsocks_plugin_def Let_def
  by (simp split: list.splits if_split_asm) (auto simp: plugin_obfs_retouched parse_v2ray_plugin_retouched)

lemma parse_shadowsocks_sip002_fresh:
  assumes "parse_shadowsocks_sip002 X s = Inr item" shows "fresh_profile Ct_Shadowsocks item"
proof -
  obtain parsed cipher pw x where
    x: "x = (case protocol (profile_from_uri Ct_Shadowsocks parsed) of
          Pp_Shadowsocks server p m uot \<Rightarrow>
            profile_from_uri Ct_Shadowsocks parsed\<lparr>protocol := Pp_Shadowsocks server pw cipher uot\<rparr>
        | _ \<Rightarrow> profile_from_uri Ct_Shadowsocks parsed)"
    and r: "(case query_value (pu_query parsed) ''plugin'' of
          Some plugin \<Rightarrow> parse_shadowsocks_plugin plugin x | None \<Rightarrow> Inr x) = Inr item"
    using assms unfolding parse_shadowsocks_sip002_def bind_ok_Inr Let_def split_beta by blast
  have "fresh_profile Ct_Shadowsocks x" by (simp add: x fresh_protocol split: profile_protocol.split)
  moreover have "retouched x item"
    using r by (simp add: parse_shadowsocks_plugin_retouched split: option.splits)
  ultimately show ?thesis by (simp add: retouched_fresh)
qed

lemma parse_shadowsocks_importable:
  assumes "parse_shadowsocks X s = Inr item" shows "importable Ct_Shadowsocks item"
proof -
  obtain x u where sip: "parse_shadowsocks_sip002 X s = Inr x" and a: "ensure_address_port ''ss'' x = Inr u"
    and r: "(case protocol x of
         Pp_Shadowsocks server pw cipher uot \<Rightarrow>
           (if trim cipher = [] then Inl (MissingField ''ss'' ''method'')
            else bind_ok (ensure_nonempty ''ss'' ''password'' pw) (\<lambda>_. Inr x))
       | _ \<Rightarrow> Inl (WrongConfigType ''ss'' (config_type x))) = Inr item"
    using assms unfolding parse_shadowsocks_def bind_ok_Inr by blast
  obtain server pw cipher uot where p: "protocol x = Pp_Shadowsocks server pw cipher uot"
    using r by (cases "protocol x") simp_all
  have "pw \<noteq> []" "x = item" using r by (simp_all add: p ensure_nonempty_def split: if_split_asm)
  then show ?thesis
    using parse_shadowsocks_sip002_fresh[OF sip] a p
    by (simp add: importable_def fresh_profile_def ensure_address_port_Inr password_def)
qed

lemma parse_vmess_importable: "parse_vmess X s = Inr item \<Longrightarrow> importable Ct_VMess item"
proof -
  have std: "importable Ct_VMess item" if "parse_vmess_standard X s = Inr item"
    using that unfolding parse_vmess_standard_def bind_ok_Inr Let_def
    by (elim exE conjE) (erule importable_checked; simp add: fresh_protocol split: profile_protocol.split)
  have b64: "importable Ct_VMess item" if p: "parse_vmess_base64 X s = Inr item"
  proof -
    obtain v where "checked ''vmess'' [(''password'', password (vmess_item v))] (vmess_item v) = Inr item"
      using p by (auto simp: parse_vmess_base64_def bind_ok_Inr Let_def split: option.splits if_splits)
    then show ?thesis by (rule importable_checked) (simp_all add: vmess_item_def Let_def)
  qed
  show "parse_vmess X s = Inr item \<Longrightarrow> importable Ct_VMess item"
    using std b64 by (auto simp: parse_vmess_def split: sum.splits if_splits)
qed

definition link_types :: "config_kind set" where
  "link_types = {Ct_VMess, Ct_Shadowsocks, Ct_SOCKS, Ct_VLESS, Ct_Trojan, Ct_Hysteria2, Ct_TUIC,
     Ct_WireGuard, Ct_Anytls, Ct_Naive}"

lemma parse_share_link_importable:
  assumes "parse_share_link X input = Inr item"
  shows "config_type item \<in> link_types \<and> importable (config_type item) item"
proof -
  have "\<exists>t \<in> link_types. importable t item"
    using assms parse_vmess_importable[of X _ item] parse_shadowsocks_importable[of X _ item]
      parse_socks_importable[of X _ item] parse_trojan_importable[of X _ item] parse_vless_importable[of X _ item]
      parse_hysteria2_importable[of X _ item] parse_tuic_importable[of X _ item]
      parse_wireguard_importable[of X _ item] parse_anytls_importable[of X _ item]
      parse_naive_importable[of X _ item]
    unfolding parse_share_link_def Let_def link_types_def by (auto split: if_splits)
  then show ?thesis by (auto simp: importable_def)
qed

end
