(* ===== verification/ShareCoding.thy ===== *)
theory ShareCoding
  imports ShareEntry
begin

text \<open>
  The text layer of share links: what is assumed of percent decoding and of the URL parser, as
  documented by the crates, and that texts, queries and whole links are read back as they were
  printed.
\<close>

section \<open>Documented behaviour of the crates\<close>

text \<open>
  \<open>percent_decode_str\<close>: \<open>%\<close> with two hexadecimal digits is a byte, every other byte stands for
  itself.
\<close>

definition percent_laws :: "share_externals \<Rightarrow> bool" where
  "percent_laws X \<longleftrightarrow>
     percent_decode X [] = []
     \<and> (\<forall>c s. c \<noteq> CHR 0x25 \<longrightarrow> percent_decode X (c # s) = word_of_nat (byte_of c) # percent_decode X s)
     \<and> (\<forall>m n s. m < 16 \<longrightarrow> n < 16 \<longrightarrow>
          percent_decode X (CHR 0x25 # hex_upper m # hex_upper n # s)
            = word_of_nat (16 * m + n) # percent_decode X s)"

text \<open>
  \<open>Url::parse\<close> on the schemes of share links, which are not special: user name, password,
  query and fragment without characters that need encoding are handed over as they are; so is
  a host of letters, digits, hyphens and dots; the port is a number without default.
\<close>

definition link_char :: "char \<Rightarrow> bool" where
  "link_char c \<longleftrightarrow> unreserved c \<or> c = CHR 0x25"

definition query_char :: "char \<Rightarrow> bool" where
  "query_char c \<longleftrightarrow> link_char c \<or> c = CHR ''='' \<or> c = CHR ''&''"

definition host_char :: "char \<Rightarrow> bool" where
  "host_char c \<longleftrightarrow> is_ascii_alphanumeric c \<or> c = CHR ''-'' \<or> c = CHR ''.''"

definition share_schemes :: "string set" where
  "share_schemes = {''ss'', ''socks'', ''trojan'', ''vless'', ''hysteria2'', ''tuic'', ''wireguard'', ''anytls'',
     ''naive+https'', ''naive+quic''}"

definition url_text :: "string \<Rightarrow> string \<Rightarrow> string option \<Rightarrow> string \<Rightarrow> nat \<Rightarrow> string option \<Rightarrow> string option \<Rightarrow> string" where
  "url_text scheme user pw host p query fragment =
     scheme @ ''://'' @ user @ (case pw of Some w \<Rightarrow> '':'' @ w | None \<Rightarrow> []) @ ''@'' @ host @ '':'' @ show_nat p
       @ (case query of Some q \<Rightarrow> ''?'' @ q | None \<Rightarrow> []) @ (case fragment of Some f \<Rightarrow> ''#'' @ f | None \<Rightarrow> [])"

definition url_parts_ok :: "string \<Rightarrow> string \<Rightarrow> string option \<Rightarrow> string \<Rightarrow> nat \<Rightarrow> string option \<Rightarrow> string option \<Rightarrow> bool" where
  "url_parts_ok scheme user pw host p query fragment \<longleftrightarrow>
     scheme \<in> share_schemes \<and> user \<noteq> [] \<and> list_all link_char user
     \<and> pred_option (\<lambda>w. w \<noteq> [] \<and> list_all link_char w) pw
     \<and> host \<noteq> [] \<and> list_all host_char host \<and> 1 \<le> p \<and> p \<le> 65535
     \<and> pred_option (\<lambda>q. q \<noteq> [] \<and> list_all query_char q) query
     \<and> pred_option (\<lambda>f. f \<noteq> [] \<and> list_all link_char f) fragment"

definition url_laws :: "share_externals \<Rightarrow> bool" where
  "url_laws X \<longleftrightarrow>
     (\<forall>scheme user pw host p query fragment. url_parts_ok scheme user pw host p query fragment \<longrightarrow>
        url_parse X (url_text scheme user pw host p query fragment)
          = Some \<lparr>u_scheme = scheme, u_username = user, u_password = pw, u_host = Some host,
                  u_port = Some p, u_path = [], u_query = query, u_fragment = fragment\<rparr>)"

section \<open>Percent coding\<close>

definition is_utf8 :: "string \<Rightarrow> bool" where
  "is_utf8 s \<longleftrightarrow> utf8_valid (as_bytes s)"

lemma is_utf8_Nil [simp]: "is_utf8 []"
  by (simp add: is_utf8_def as_bytes_def)

lemma lossy_utf8: "is_utf8 s \<Longrightarrow> from_utf8_lossy (as_bytes s) = s"
  by (simp add: is_utf8_def from_utf8_lossy_def utf8_lossy_valid)

lemma as_bytes_Cons: "as_bytes (c # s) = word_of_nat (byte_of c) # as_bytes s"
  by (simp add: as_bytes_def)

lemma unreserved_not_percent: "unreserved c \<Longrightarrow> c \<noteq> CHR 0x25"
  by (auto simp: unreserved_def is_ascii_alphanumeric_def is_ascii_alphabetic_def is_ascii_upper_def
      is_ascii_lower_def is_ascii_digit_def)

lemma percent_Nil: "percent_laws X \<Longrightarrow> percent_decode X [] = []"
  by (simp add: percent_laws_def)

lemma percent_char: "percent_laws X \<Longrightarrow> c \<noteq> CHR 0x25 \<Longrightarrow>
     percent_decode X (c # s) = word_of_nat (byte_of c) # percent_decode X s"
  by (simp add: percent_laws_def)

lemma percent_hex: "percent_laws X \<Longrightarrow> m < 16 \<Longrightarrow> n < 16 \<Longrightarrow>
     percent_decode X (CHR 0x25 # hex_upper m # hex_upper n # s) = word_of_nat (16 * m + n) # percent_decode X s"
  by (simp add: percent_laws_def)

lemma percent_encode_char:
  assumes "percent_laws X"
  shows "percent_decode X (encode_char c @ s) = word_of_nat (byte_of c) # percent_decode X s"
proof (cases "unreserved c")
  case True
  then show ?thesis using percent_char[OF assms unreserved_not_percent[OF True]] by (simp add: encode_char_def)
next
  case False
  have b: "byte_of c div 16 < 16" "byte_of c mod 16 < 16" by (simp_all add: less_mult_imp_div_less)
  have "percent_decode X (encode_char c @ s)
      = word_of_nat (16 * (byte_of c div 16) + byte_of c mod 16) # percent_decode X s"
    using percent_hex[OF assms b, of s] False by (simp add: encode_char_def del: of_nat_add of_nat_mult)
  then show ?thesis by (simp only: mult_div_mod_eq)
qed

lemma percent_decode_encode:
  assumes "percent_laws X"
  shows "percent_decode X (url_encode s @ r) = as_bytes s @ percent_decode X r"
  by (induction s) (simp_all add: url_encode_def as_bytes_def percent_encode_char[OF assms])

lemma percent_decode_plain:
  assumes "percent_laws X" and "CHR 0x25 \<notin> set s"
  shows "percent_decode X s = as_bytes s"
  using assms(2)
  by (induction s) (auto simp: as_bytes_def percent_Nil[OF assms(1)] percent_char[OF assms(1)])

lemma url_decode_encode [simp]:
  assumes "percent_laws X" and "is_utf8 s"
  shows "url_decode X (url_encode s) = s"
  using percent_decode_encode[OF assms(1), of s "[]"] percent_decode_plain[OF assms(1), of "[]"] lossy_utf8[OF assms(2)]
  by (simp add: url_decode_def as_bytes_def)

lemma url_decode_plain [simp]:
  assumes "percent_laws X" and "is_utf8 s" and "CHR 0x25 \<notin> set s"
  shows "url_decode X s = s"
  by (simp add: url_decode_def percent_decode_plain[OF assms(1,3)] lossy_utf8[OF assms(2)])

lemma hex_upper_link: "n < 16 \<Longrightarrow> unreserved (hex_upper n)"
  by (auto simp: unreserved_def hex_upper_def is_ascii_alphanumeric_def is_ascii_alphabetic_def is_ascii_upper_def)

lemma url_encode_link: "list_all link_char (url_encode s)"
proof (induction s)
  case (Cons c s)
  have b: "byte_of c div 16 < 16" "byte_of c mod 16 < 16" by (simp_all add: less_mult_imp_div_less)
  show ?case
    using Cons hex_upper_link[OF b(1)] hex_upper_link[OF b(2)]
    by (simp add: url_encode_def encode_char_def link_char_def)
qed (simp add: url_encode_def)

lemma url_encode_nonempty [simp]: "url_encode s = [] \<longleftrightarrow> s = []"
  by (cases s) (auto simp: url_encode_def encode_char_def)

lemma unreserved_utf8: "list_all unreserved s \<Longrightarrow> is_utf8 s \<and> CHR 0x25 \<notin> set s"
proof -
  assume s: "list_all unreserved s"
  have "byte_of c < 128" if "unreserved c" for c
    using that by (auto simp: unreserved_def is_ascii_alphanumeric_def is_ascii_alphabetic_def
        is_ascii_upper_def is_ascii_lower_def is_ascii_digit_def)
  then have "list_all (\<lambda>b. b < 0x80) (as_bytes s)"
    using s by (induction s) (auto simp: as_bytes_def word_less_nat_alt unat_of_nat)
  then show ?thesis
    using s unreserved_not_percent by (auto simp: is_utf8_def ascii_valid list_all_iff)
qed

section \<open>Queries\<close>

definition pair_text :: "string \<times> string \<Rightarrow> string" where
  "pair_text kv = fst kv @ ''='' @ snd kv"

definition query_text :: "query_pairs \<Rightarrow> string option" where
  "query_text kvs = (if kvs = [] then None else Some (join_with ''&'' (map pair_text kvs)))"

lemma format_query_text: "format_query kvs = (case query_text kvs of Some q \<Rightarrow> ''?'' @ q | None \<Rightarrow> [])"
proof -
  have "(\<lambda>(key, v). key @ ''='' @ v) = pair_text" by (simp add: fun_eq_iff pair_text_def)
  then show ?thesis by (simp add: format_query_def query_text_def)
qed

definition lower_key :: "string \<times> string \<Rightarrow> string" where
  "lower_key kv = to_ascii_lowercase (fst kv)"

text \<open>Pairs that can be printed: plain keys, different even without case, and encoded values.\<close>

definition printable_query :: "query_pairs \<Rightarrow> bool" where
  "printable_query kvs \<longleftrightarrow>
     (\<forall>kv \<in> set kvs. list_all unreserved (fst kv) \<and> list_all link_char (snd kv)) \<and> distinct (map lower_key kvs)"

lemma link_char_no_separator: "link_char c \<Longrightarrow> c \<noteq> CHR ''&'' \<and> c \<noteq> CHR ''=''"
  by (auto simp: link_char_def unreserved_def is_ascii_alphanumeric_def is_ascii_alphabetic_def
      is_ascii_upper_def is_ascii_lower_def is_ascii_digit_def)

lemma unreserved_link: "unreserved c \<Longrightarrow> link_char c"
  by (simp add: link_char_def)

lemma split_once_pair: "CHR ''='' \<notin> set k \<Longrightarrow> split_once (CHR ''='') (pair_text (k, v)) = Some (k, v)"
  by (simp add: pair_text_def split_once_Some)

lemma fold_query_parts:
  assumes "percent_laws X" and "printable_query (acc @ kvs)"
  shows "fold (add_query_part X) (map pair_text kvs) (map (apsnd (url_decode X)) acc)
     = map (apsnd (url_decode X)) (acc @ kvs)"
  using assms(2)
proof (induction kvs arbitrary: acc)
  case (Cons kv kvs)
  obtain k v where kv: "kv = (k, v)" by fastforce
  have u: "list_all unreserved k" using Cons.prems by (simp add: printable_query_def kv)
  then have k: "url_decode X k = k" using unreserved_utf8[OF u] assms(1) by simp
  have "CHR ''='' \<notin> set k"
    using u link_char_no_separator unreserved_link by (auto simp: list_all_iff)
  then have s: "split_once (CHR ''='') (pair_text kv) = Some (k, v)" by (simp add: kv split_once_pair)
  have "\<not> contains_key (map (apsnd (url_decode X)) acc) k"
    using Cons.prems by (auto simp: contains_key_def list_ex_iff printable_query_def kv lower_key_def
        eq_ignore_ascii_case_def image_iff)
  then have "add_query_part X (pair_text kv) (map (apsnd (url_decode X)) acc)
      = map (apsnd (url_decode X)) (acc @ [kv])"
    unfolding add_query_part_def s by (simp add: k Let_def kv)
  then show ?case using Cons.IH[of "acc @ [kv]"] Cons.prems by simp
qed simp

lemma parse_query_printed:
  assumes "percent_laws X" and "printable_query kvs"
  shows "parse_query X (query_text kvs) = map (apsnd (url_decode X)) kvs"
proof (cases "kvs = []")
  case False
  have amp: "\<forall>c \<in> set x. c \<noteq> CHR ''&''" if "x \<in> set (map pair_text kvs)" for x
  proof -
    have "x \<in> pair_text ` set kvs" using that by simp
    then obtain kv where "kv \<in> set kvs" "x = pair_text kv" by (rule imageE)
    then show ?thesis
      using assms(2) link_char_no_separator unreserved_link
      by (fastforce simp: printable_query_def pair_text_def list_all_iff)
  qed
  have "split_on (\<lambda>c. c = CHR ''&'') (join_with ''&'' (map pair_text kvs)) = map pair_text kvs"
    by (rule split_join) (use False amp in auto)
  moreover have "filter (\<lambda>part. part \<noteq> []) (map pair_text kvs) = map pair_text kvs"
    by (simp add: filter_id_conv pair_text_def)
  ultimately show ?thesis
    using False fold_query_parts[OF assms(1), of "[]" kvs] assms(2) by (simp add: parse_query_def query_text_def)
qed (simp add: parse_query_def query_text_def)

text \<open>One entry that may be missing; a query is a row of them.\<close>

definition query_entry :: "string \<Rightarrow> string option \<Rightarrow> query_pairs" where
  "query_entry k v = (case v of Some v \<Rightarrow> [(k, v)] | None \<Rightarrow> [])"

lemma query_value_append [simp]: "query_value (a @ b) k = or_else (query_value a k) (query_value b k)"
  by (induction a) (auto simp: query_value_def)

lemma query_value_Nil [simp]: "query_value [] k = None"
  by (simp add: query_value_def)

lemma query_value_entry [simp]:
  "query_value (query_entry k v) w = (if to_ascii_lowercase k = to_ascii_lowercase w then v else None)"
  by (simp add: query_value_def query_entry_def eq_ignore_ascii_case_def split: option.split)

lemma query_value_decoded [simp]:
  "query_value (map (apsnd f) kvs) w = map_option f (query_value kvs w)"
  by (induction kvs) (auto simp: query_value_def apsnd_def map_prod_def split: prod.splits)

lemma push_encoded_str_entry: "push_encoded_str k v query = query @ query_entry k (map_option url_encode (nonempty v))"
  by (simp add: push_encoded_str_def query_entry_def nonempty_def)

lemma push_encoded_opt_entry: "push_encoded_opt k v query = query @ query_entry k (map_option url_encode (nonempty_option v))"
  by (simp add: push_encoded_opt_def query_entry_def split: option.split)

section \<open>Links\<close>

definition link_host :: "string \<Rightarrow> bool" where
  "link_host adr \<longleftrightarrow> adr \<noteq> [] \<and> list_all host_char adr \<and> ipv6_host adr = adr"

lemma host_char_no_bracket: "host_char c \<Longrightarrow> \<not> is_bracket c"
  by (auto simp: host_char_def is_bracket_def is_ascii_alphanumeric_def is_ascii_alphabetic_def
      is_ascii_upper_def is_ascii_lower_def is_ascii_digit_def)

lemma trim_matches_id: "list_all (\<lambda>c. \<not> P c) s \<Longrightarrow> trim_matches P s = s"
proof -
  assume "list_all (\<lambda>c. \<not> P c) s"
  then have "dropWhile P s = s" "dropWhile P (rev s) = rev s"
    unfolding dropWhile_eq_self_iff by (auto simp: list_all_iff hd_rev dest: hd_in_set last_in_set)
  then show ?thesis by (simp add: trim_matches_def trim_start_matches_def trim_end_matches_def)
qed

lemma printed_uri:
  assumes "valid_port p" and "link_host adr"
  shows "scheme @ ''://'' @ to_uri_without_scheme_preencoded_userinfo adr p
       (user @ (case pw of Some w \<Rightarrow> '':'' @ w | None \<Rightarrow> [])) query remark
     = url_text scheme user pw adr (nat p) (query_text query) (map_option url_encode (nonempty remark))"
  using assms
  by (simp add: to_uri_without_scheme_preencoded_userinfo_def url_text_def format_query_text link_host_def
      show_int_def valid_port_def nonempty_def split: option.split)

lemma printable_query_chars:
  assumes "printable_query kvs" shows "pred_option (\<lambda>q. q \<noteq> [] \<and> list_all query_char q) (query_text kvs)"
proof -
  have "list_all query_char (join_with ''&'' xs)" if "\<forall>x \<in> set xs. list_all query_char x" for xs
    using that by (induction "''&''" xs rule: join_with.induct) (auto simp: query_char_def)
  moreover have "list_all query_char (pair_text kv)" if "kv \<in> set kvs" for kv
    using that assms by (fastforce simp: printable_query_def pair_text_def query_char_def list_all_iff unreserved_link)
  ultimately have "list_all query_char (join_with ''&'' (map pair_text kvs))" by simp
  moreover have "join_with ''&'' (map pair_text kvs) \<noteq> []" if "kvs \<noteq> []"
    using that by (cases "(''&'', map pair_text kvs)" rule: join_with.cases) (auto simp: pair_text_def)
  ultimately show ?thesis by (simp add: query_text_def)
qed

text \<open>A printed link is parsed into what was printed.\<close>

lemma parse_printed_uri:
  assumes laws: "percent_laws X" "url_laws X"
    and "scheme \<in> share_schemes" "scheme \<in> set schemes"
    and "valid_port p" "link_host adr" "printable_query query" "is_utf8 remark"
    and "user \<noteq> []" "list_all link_char user" "pred_option (\<lambda>w. w \<noteq> [] \<and> list_all link_char w) pw"
  shows "parse_uri_with_schemes X (scheme @ ''://'' @ to_uri_without_scheme_preencoded_userinfo adr p
       (user @ (case pw of Some w \<Rightarrow> '':'' @ w | None \<Rightarrow> [])) query remark) proto schemes
     = Inr \<lparr>pu_scheme = scheme, pu_address = adr, pu_port = p, pu_remarks = remark,
         pu_user_info = url_decode X user @ (case pw of Some w \<Rightarrow> '':'' @ url_decode X w | None \<Rightarrow> []),
         pu_query = map (apsnd (url_decode X)) query\<rparr>"
proof -
  let ?fr = "map_option url_encode (nonempty remark)"
  have "url_parts_ok scheme user pw adr (nat p) (query_text query) ?fr"
    using assms printable_query_chars[OF assms(7)] url_encode_link[of remark]
    by (simp add: url_parts_ok_def link_host_def valid_port_def nonempty_def) arith
  then have u: "url_parse X (url_text scheme user pw adr (nat p) (query_text query) ?fr)
      = Some \<lparr>u_scheme = scheme, u_username = user, u_password = pw, u_host = Some adr,
          u_port = Some (nat p), u_path = [], u_query = query_text query, u_fragment = ?fr\<rparr>"
    using laws(2) unfolding url_laws_def by blast
  have "trim_matches is_bracket adr = adr"
    using assms(6) host_char_no_bracket by (intro trim_matches_id) (auto simp: link_host_def list_all_iff)
  moreover have "list_ex (eq_ignore_ascii_case scheme) schemes"
    using assms(4) by (auto simp: list_ex_iff eq_ignore_ascii_case_def)
  moreover have "unwrap_or (map_option (url_decode X) ?fr) [] = remark"
    using laws(1) assms(8) by (simp add: nonempty_def)
  ultimately show ?thesis
    using assms(5,6) unfolding printed_uri[OF assms(5,6)]
    by (simp add: parse_uri_with_schemes_def u parse_query_printed[OF laws(1) assms(7)] link_host_def
        valid_port_def user_info_of_def split: option.split)
qed

section \<open>Text without white space\<close>

definition graphic :: "string \<Rightarrow> bool" where
  "graphic s \<longleftrightarrow> list_all (\<lambda>c. 33 \<le> byte_of c \<and> byte_of c \<le> 126) s"

lemma graphic_append [simp]: "graphic (a @ b) \<longleftrightarrow> graphic a \<and> graphic b"
  by (simp add: graphic_def)

lemma white_space_outside: "w \<in> set white_space \<Longrightarrow> c \<in> set w \<Longrightarrow> \<not> (33 \<le> byte_of c \<and> byte_of c \<le> 126)"
  by (auto simp: white_space_def)

lemma strip_any_graphic:
  assumes "graphic s" and "\<forall>w \<in> set ws. \<forall>c \<in> set w. \<not> (33 \<le> byte_of c \<and> byte_of c \<le> 126)"
  shows "strip_any ws s = None"
  unfolding strip_any_None
proof (intro ballI impI notI)
  fix w assume w: "w \<in> set ws" "w \<noteq> []" "prefix w s"
  then have "hd w \<in> set s" using hd_in_set set_mono_prefix by blast
  then show False using assms w(1,2) hd_in_set[of w] by (auto simp: graphic_def list_all_iff)
qed

lemma trim_graphic: "graphic s \<Longrightarrow> trim s = s"
  unfolding trim_eq_self
  by (intro conjI strip_any_graphic) (auto simp: graphic_def list_all_iff dest: white_space_outside)

lemma remove_white_graphic: "graphic s \<Longrightarrow> remove_white s = s"
proof (induction s)
  case (Cons c s)
  have "strip_any white_space (c # s) = None"
    using Cons.prems by (rule strip_any_graphic) (auto dest: white_space_outside)
  then show ?case using Cons by (subst remove_white.simps) (simp add: graphic_def)
qed (simp add: remove_white.simps)

end
