(* ===== verification/Base64Text.thy ===== *)
theory Base64Text
  imports ShareCoding
begin

text \<open>
  Base64 as the share links use it: what is assumed of the crate, and that an encoded text is
  decoded to itself, with its padding or without.
\<close>

section \<open>Documented behaviour of the crate\<close>

text \<open>
  The standard base64 alphabet: \<open>n\<close> bytes take four characters for three bytes, rounded up, and
  at most two padding characters, at the end, which complete a group of four; the text is
  decoded to these bytes.
\<close>

definition base64_char :: "char \<Rightarrow> bool" where
  "base64_char c \<longleftrightarrow> is_ascii_alphanumeric c \<or> c = CHR ''+'' \<or> c = CHR ''/''"

definition base64_laws :: "share_externals \<Rightarrow> bool" where
  "base64_laws X \<longleftrightarrow>
     (\<forall>bs. b64_decode X (b64_encode X bs) = Some bs
        \<and> (\<exists>t k. b64_encode X bs = t @ replicate k (CHR ''='') \<and> list_all base64_char t \<and> k \<le> 2
             \<and> (length t + k) mod 4 = 0 \<and> length t = (4 * length bs + 2) div 3))"

section \<open>Encoded text\<close>

lemma base64_char_plain:
  assumes "base64_char c"
  shows "c \<noteq> CHR ''=''" "c \<noteq> CHR ''-''" "c \<noteq> CHR ''_''" "33 \<le> byte_of c \<and> byte_of c \<le> 126"
  using assms by (auto simp: base64_char_def is_ascii_alphanumeric_def is_ascii_alphabetic_def is_ascii_upper_def
      is_ascii_lower_def is_ascii_digit_def)

definition base64_limit :: nat where
  "base64_limit = 500000"

lemma base64_text:
  assumes "base64_laws X"
  obtains t k where "b64_encode X bs = t @ replicate k (CHR ''='')" "list_all base64_char t" "k \<le> 2"
    "(length t + k) mod 4 = 0" "length t = (4 * length bs + 2) div 3"
  using assms unfolding base64_laws_def by (elim allE[of _ bs] conjE exE) (rule that)

lemma base64_graphic: "list_all base64_char t \<Longrightarrow> graphic (t @ replicate k (CHR ''=''))"
proof -
  have "graphic t" if "list_all base64_char t"
    using that unfolding graphic_def by (rule list.pred_mono_strong) (rule base64_char_plain(4))
  moreover have "graphic (replicate k (CHR ''=''))" by (simp add: graphic_def list_all_iff)
  ultimately show "list_all base64_char t \<Longrightarrow> graphic (t @ replicate k (CHR ''=''))" by simp
qed

lemma base64_map_id:
  assumes "list_all base64_char t"
  shows "map (\<lambda>c. if c = CHR ''-'' then CHR ''+'' else c)
     (map (\<lambda>c. if c = CHR ''_'' then CHR ''/'' else c) (t @ replicate k (CHR ''=''))) = t @ replicate k (CHR ''='')"
proof -
  have "map (\<lambda>c. if c = CHR ''-'' then CHR ''+'' else c) (map (\<lambda>c. if c = CHR ''_'' then CHR ''/'' else c) t) = t"
    using assms by (induction t) (simp_all add: base64_char_plain)
  then show ?thesis by simp
qed

lemma base64_normalized_text:
  assumes "list_all base64_char t" and "k \<le> 2" and "(length t + k) mod 4 = 0" and "j = 0 \<or> j = k"
  shows "base64_normalized (t @ replicate j (CHR ''='')) = t @ replicate k (CHR ''='')"
proof -
  let ?t = "t @ replicate j (CHR ''='')"
  have n: "map (\<lambda>c. if c = CHR ''-'' then CHR ''+'' else c)
      (map (\<lambda>c. if c = CHR ''_'' then CHR ''/'' else c) (remove_white (trim ?t))) = ?t"
    using base64_graphic[OF assms(1), of j] base64_map_id[OF assms(1), of j]
    by (simp add: trim_graphic remove_white_graphic)
  have pad: "(if length ?t mod 4 \<noteq> 0 then ?t @ replicate (4 - length ?t mod 4) (CHR ''='') else ?t)
      = t @ replicate k (CHR ''='')"
  proof (cases "j = k")
    case True
    then show ?thesis using assms(3) by simp
  next
    case False
    then have j: "j = 0" and k: "k = 1 \<or> k = 2" using assms(2,4) by linarith+
    have "length t mod 4 = 4 - k" using assms(3) k by presburger
    then show ?thesis using k by (elim disjE) (simp_all add: j)
  qed
  show ?thesis unfolding base64_normalized_def Let_def n by (rule pad)
qed

lemma base64_encode_shape:
  assumes "base64_laws X"
  obtains t k j where "b64_encode X (as_bytes s) = t @ replicate k (CHR ''='')"
    "base64_encode X s padding = t @ replicate j (CHR ''='')" "list_all base64_char t" "k \<le> 2"
    "(length t + k) mod 4 = 0" "length t = (4 * length s + 2) div 3" "j = 0 \<or> j = k"
proof -
  obtain t k where e: "b64_encode X (as_bytes s) = t @ replicate k (CHR ''='')" and t: "list_all base64_char t"
    and k: "k \<le> 2" "(length t + k) mod 4 = 0" and len: "length t = (4 * length (as_bytes s) + 2) div 3"
    by (rule base64_text[OF assms])
  define j where "j = (if padding then 0 else k)"
  have "dropWhile (\<lambda>c. c = CHR ''='') (rev t) = rev t"
  proof (cases "rev t")
    case (Cons c r)
    then have "c \<in> set t" by (metis list.set_intros(1) set_rev)
    then show ?thesis using t Cons base64_char_plain(1)[of c] by (simp add: list_all_iff)
  qed simp
  then have "dropWhile (\<lambda>c. c = CHR ''='') (replicate k (CHR ''='') @ rev t) = rev t"
    by (induction k) simp_all
  then have x: "base64_encode X s padding = t @ replicate j (CHR ''='')"
    by (simp add: base64_encode_def e j_def trim_end_matches_def)
  show ?thesis by (rule that[OF e x t k]) (use len in \<open>simp_all add: j_def\<close>)
qed

lemma base64_encode_graphic:
  assumes "base64_laws X" and "s \<noteq> []"
  shows "base64_encode X s padding \<noteq> []" "graphic (base64_encode X s padding)"
    "CHR '':'' \<notin> set (base64_encode X s padding)"
proof -
  obtain t k j where x: "base64_encode X s padding = t @ replicate j (CHR ''='')" and t: "list_all base64_char t"
    and len: "length t = (4 * length s + 2) div 3"
    by (rule base64_encode_shape[OF assms(1), where s = s and padding = padding]) (rule that; assumption)
  have "4 * length s + 2 \<ge> 6" using assms(2) by (cases s) simp_all
  then have "length t \<noteq> 0" using len by simp
  then show "base64_encode X s padding \<noteq> []" by (simp add: x)
  show "graphic (base64_encode X s padding)" unfolding x by (rule base64_graphic[OF t])
  have "\<not> base64_char (CHR '':'')"
    by (simp add: base64_char_def is_ascii_alphanumeric_def is_ascii_alphabetic_def is_ascii_upper_def
        is_ascii_lower_def is_ascii_digit_def)
  then show "CHR '':'' \<notin> set (base64_encode X s padding)" using t by (auto simp: x list_all_iff)
qed

lemma base64_roundtrip:
  assumes "base64_laws X" and "is_utf8 s" and "length s \<le> base64_limit"
  shows "base64_decode X (base64_encode X s padding) proto = Inr s"
proof -
  obtain t k j where e: "b64_encode X (as_bytes s) = t @ replicate k (CHR ''='')"
    and x: "base64_encode X s padding = t @ replicate j (CHR ''='')" and t: "list_all base64_char t"
    and k: "k \<le> 2" "(length t + k) mod 4 = 0" and len: "length t = (4 * length s + 2) div 3"
    and j: "j = 0 \<or> j = k"
    by (rule base64_encode_shape[OF assms(1), where s = s and padding = padding]) (rule that; assumption)
  have g: "trim (t @ replicate j (CHR ''='')) = t @ replicate j (CHR ''='')"
    using base64_graphic[OF t] by (rule trim_graphic)
  have "length (t @ replicate j (CHR ''='')) \<le> MAX_BASE64_DECODE_INPUT"
  proof -
    have "length t \<le> 2 * length s + 2" "j \<le> 2" using len j k(1) by auto
    then show ?thesis using assms(3) by (simp add: base64_limit_def MAX_BASE64_DECODE_INPUT_def)
  qed
  moreover have "base64_normalized (t @ replicate j (CHR ''='')) = b64_encode X (as_bytes s)"
    using base64_normalized_text[OF t k j] by (simp add: e)
  moreover have "b64_decode X (b64_encode X (as_bytes s)) = Some (as_bytes s)"
    using assms(1) by (simp add: base64_laws_def)
  moreover have "from_utf8 (as_bytes s) = Some s" using assms(2) by (simp add: from_utf8_def is_utf8_def)
  ultimately show ?thesis by (simp add: base64_decode_def x g)
qed

end
