(* ===== verification/ShareSample.thy ===== *)
theory ShareSample
  imports Base64Text
begin

text \<open>
  An instance of the parameters of the share links: a percent decoder, a parser for URLs with
  an authority and no path, and base64. It has the documented behaviour that the theorems on
  links assume; JSON texts are not understood, and every text is the same bundle.
\<close>

section \<open>Percent decoding\<close>

definition hex_digit :: "char \<Rightarrow> nat option" where
  "hex_digit c =
     (let n = byte_of c in
      if 48 \<le> n \<and> n \<le> 57 then Some (n - 48)
      else if 65 \<le> n \<and> n \<le> 70 then Some (n - 55)
      else if 97 \<le> n \<and> n \<le> 102 then Some (n - 87)
      else None)"

fun percent_bytes :: "string \<Rightarrow> byte list" where
  "percent_bytes [] = []"
| "percent_bytes [a] = [word_of_nat (byte_of a)]"
| "percent_bytes [a, b] = [word_of_nat (byte_of a), word_of_nat (byte_of b)]"
| "percent_bytes (a # b # c # s) =
     (if a = CHR 0x25 \<and> hex_digit b \<noteq> None \<and> hex_digit c \<noteq> None
      then word_of_nat (16 * the (hex_digit b) + the (hex_digit c)) # percent_bytes s
      else word_of_nat (byte_of a) # percent_bytes (b # c # s))"

lemma hex_digit_upper: "n < 16 \<Longrightarrow> hex_digit (hex_upper n) = Some n"
proof -
  assume n: "n < 16"
  have "list_all (\<lambda>n. hex_digit (hex_upper n) = Some n) [0..<16]" by code_simp
  then show ?thesis using n by (simp add: list_all_iff)
qed

lemma percent_bytes_char: "a \<noteq> CHR 0x25 \<Longrightarrow> percent_bytes (a # s) = word_of_nat (byte_of a) # percent_bytes s"
  by (cases "a # s" rule: percent_bytes.cases) simp_all

section \<open>URLs\<close>

definition cut_at :: "char \<Rightarrow> string \<Rightarrow> string \<times> string option" where
  "cut_at c s = (case split_once c s of Some (a, b) \<Rightarrow> (a, Some b) | None \<Rightarrow> (s, None))"

definition parse_simple_url :: "string \<Rightarrow> parsed_url option" where
  "parse_simple_url s =
     (case split_once (CHR '':'') s of
        None \<Rightarrow> None
      | Some (scheme, rest) \<Rightarrow>
          (case strip_prefix ''//'' rest of
             None \<Rightarrow> None
           | Some rest \<Rightarrow>
               (let (rest, fragment) = cut_at (CHR ''#'') rest;
                    (rest, query) = cut_at (CHR ''?'') rest;
                    (user_info, authority) = (case split_once (CHR ''@'') rest of
                      Some (u, a) \<Rightarrow> (u, a) | None \<Rightarrow> ([], rest));
                    (user, pw) = cut_at (CHR '':'') user_info;
                    (host, port_text) = cut_at (CHR '':'') authority
                in Some \<lparr>u_scheme = scheme, u_username = user, u_password = pw, u_host = Some host,
                         u_port = Option.bind port_text parse_u16, u_path = [], u_query = query,
                         u_fragment = fragment\<rparr>)))"

lemma cut_at_absent: "c \<notin> set s \<Longrightarrow> cut_at c s = (s, None)"
  by (simp add: cut_at_def split_once_None[THEN iffD2])

lemma cut_at_found: "c \<notin> set a \<Longrightarrow> cut_at c (a @ c # b) = (a, Some b)"
  by (simp add: cut_at_def split_once_Some[THEN iffD2])

section \<open>Base64\<close>

definition base64_alphabet :: string where
  "base64_alphabet = ''ABCDEFGHIJKLMNOPQRSTUVWXYZabcdefghijklmnopqrstuvwxyz0123456789+/''"

definition base64_digit :: "nat \<Rightarrow> char" where
  "base64_digit n = base64_alphabet ! n"

definition base64_value :: "char \<Rightarrow> nat" where
  "base64_value c = length (takeWhile (\<lambda>d. d \<noteq> c) base64_alphabet)"

fun base64_print :: "byte list \<Rightarrow> string" where
  "base64_print [] = []"
| "base64_print [a] =
     (let n = unat a * 16 in [base64_digit (n div 64), base64_digit (n mod 64), CHR ''='', CHR ''=''])"
| "base64_print [a, b] =
     (let n = (unat a * 256 + unat b) * 4
      in [base64_digit (n div 4096), base64_digit (n div 64 mod 64), base64_digit (n mod 64), CHR ''=''])"
| "base64_print (a # b # c # bs) =
     (let n = (unat a * 256 + unat b) * 256 + unat c
      in [base64_digit (n div 262144), base64_digit (n div 4096 mod 64), base64_digit (n div 64 mod 64),
          base64_digit (n mod 64)] @ base64_print bs)"

fun base64_read :: "string \<Rightarrow> byte list option" where
  "base64_read [] = Some []"
| "base64_read (p # q # r # s # cs) =
     (let n = (base64_value p * 64 + base64_value q) * 4096
      in if s = CHR ''='' then
           (if cs \<noteq> [] then None
            else if r = CHR ''='' then Some [word_of_nat (n div 65536)]
            else (let n = n + base64_value r * 64
                  in Some [word_of_nat (n div 65536), word_of_nat (n div 256 mod 256)]))
         else
           (let n = n + base64_value r * 64 + base64_value s
            in map_option (\<lambda>bs. word_of_nat (n div 65536) # word_of_nat (n div 256 mod 256)
                             # word_of_nat (n mod 256) # bs) (base64_read cs)))"
| "base64_read _ = None"

lemma base64_digit_facts:
  assumes "n < 64"
  shows "base64_value (base64_digit n) = n" "base64_char (base64_digit n)"
proof -
  have "list_all (\<lambda>n. base64_value (base64_digit n) = n \<and> base64_char (base64_digit n)) [0..<64]" by code_simp
  then show "base64_value (base64_digit n) = n" "base64_char (base64_digit n)"
    using assms by (auto simp: list_all_iff)
qed

lemma base64_digit_not_padding: "n < 64 \<Longrightarrow> base64_digit n \<noteq> CHR ''=''"
  using base64_digit_facts(2) base64_char_plain(1) by blast

lemma byte_unat: "unat (a :: byte) < 256" "(word_of_nat (unat (a :: byte)) :: byte) = a"
  using unsigned_less[of a] by simp_all

text \<open>Digits and bytes of a number.\<close>

lemma div_mod_step:
  fixes x y m :: nat
  assumes "y < m" shows "(x * m + y) div m = x" "(x * m + y) mod m = y"
  using assms by simp_all

lemma digits_join:
  fixes n :: nat
  shows "n div 4096 * 64 + n div 64 mod 64 = n div 64"
    "n div 262144 * 64 + n div 4096 mod 64 = n div 4096"
  using div_mult_mod_eq[of "n div 64" 64] div_mult_mod_eq[of "n div 4096" 64]
  by (simp_all add: div_mult2_eq[symmetric])

lemma one_byte:
  fixes x n :: nat
  assumes "x < 256" and "n = x * 16"
  shows "n div 64 < 64" "n mod 64 < 64" "(n div 64 * 64 + n mod 64) * 4096 div 65536 = x"
proof -
  show "n div 64 < 64" "n mod 64 < 64" using assms by (simp_all add: less_mult_imp_div_less)
  have "n div 64 * 64 + n mod 64 = n" by (rule div_mult_mod_eq)
  then show "(n div 64 * 64 + n mod 64) * 4096 div 65536 = x" using assms(2) by simp
qed

lemma two_bytes:
  fixes x y n :: nat
  assumes "x < 256" "y < 256" and "n = (x * 256 + y) * 4"
  shows "n div 4096 < 64" "n div 64 mod 64 < 64" "n mod 64 < 64"
    "((n div 4096 * 64 + n div 64 mod 64) * 4096 + n mod 64 * 64) div 65536 = x"
    "((n div 4096 * 64 + n div 64 mod 64) * 4096 + n mod 64 * 64) div 256 mod 256 = y"
proof -
  have "x \<le> 255" "y \<le> 255" using assms by simp_all
  then have "n < 262144" using assms(3) by simp
  then show "n div 4096 < 64" "n div 64 mod 64 < 64" "n mod 64 < 64" by (simp_all add: less_mult_imp_div_less)
  have "e * 4096 + m * 64 = k * 64" if "e * 64 + m = k" for e m k :: nat using that by auto
  from this[OF div_mult_mod_eq] have j: "(n div 4096 * 64 + n div 64 mod 64) * 4096 + n mod 64 * 64 = n * 64"
    by (simp only: digits_join)
  have k: "k * 4 * 64 div 256 = k" "k * 4 * 64 div 65536 = k div 256" for k :: nat
    using div_mult2_eq[of "k * 256" 256 256] by simp_all
  show "((n div 4096 * 64 + n div 64 mod 64) * 4096 + n mod 64 * 64) div 65536 = x"
    "((n div 4096 * 64 + n div 64 mod 64) * 4096 + n mod 64 * 64) div 256 mod 256 = y"
    unfolding j unfolding assms(3) k using assms(1,2) by (simp_all only: div_mod_step)
qed

lemma three_bytes:
  fixes x y z n :: nat
  assumes "x < 256" "y < 256" "z < 256" and "n = (x * 256 + y) * 256 + z"
  shows "n div 262144 < 64" "n div 4096 mod 64 < 64" "n div 64 mod 64 < 64" "n mod 64 < 64"
    "n div 65536 = x" "n div 256 mod 256 = y" "n mod 256 = z"
    "(n div 262144 * 64 + n div 4096 mod 64) * 4096 + n div 64 mod 64 * 64 + n mod 64 = n"
proof -
  have "x \<le> 255" "y \<le> 255" using assms by simp_all
  then have "n < 16777216" using assms(3,4) by simp
  then show "n div 262144 < 64" "n div 4096 mod 64 < 64" "n div 64 mod 64 < 64" "n mod 64 < 64"
    by (simp_all add: less_mult_imp_div_less)
  have d: "n div 256 = x * 256 + y" and m: "n mod 256 = z" unfolding assms(4) using assms(3) by (simp_all only: div_mod_step)
  have "n div 65536 = n div 256 div 256" by (simp add: div_mult2_eq[symmetric])
  then show "n div 65536 = x" "n div 256 mod 256 = y" "n mod 256 = z"
    unfolding d m using assms(2) by (simp_all only: div_mod_step)
  have "e * 4096 + q * 64 + r = k" if "e * 64 + q = f" "f * 64 + r = k" for e f q r k :: nat
    using that by auto
  from this[OF digits_join(1) div_mult_mod_eq]
  show "(n div 262144 * 64 + n div 4096 mod 64) * 4096 + n div 64 mod 64 * 64 + n mod 64 = n"
    by (simp only: digits_join)
qed

lemma base64_read_three:
  assumes "s \<noteq> CHR ''=''" and "(base64_value p * 64 + base64_value q) * 4096 + base64_value r * 64 + base64_value s = n"
  shows "base64_read (p # q # r # s # cs)
    = map_option (\<lambda>bs. word_of_nat (n div 65536) # word_of_nat (n div 256 mod 256) # word_of_nat (n mod 256) # bs)
        (base64_read cs)"
  using assms(1) by (simp only: base64_read.simps Let_def assms(2) if_False)

lemma base64_read_print: "base64_read (base64_print bs) = Some bs"
proof (induction bs rule: base64_print.induct)
  case (2 a)
  define n where "n = unat a * 16"
  note d = one_byte[OF byte_unat(1) n_def]
  have "base64_print [a] = [base64_digit (n div 64), base64_digit (n mod 64), CHR ''='', CHR ''='']"
    by (simp add: Let_def n_def)
  then show ?case
    using base64_digit_facts(1)[OF d(1)] base64_digit_facts(1)[OF d(2)] d(3) by (simp add: Let_def byte_unat)
next
  case (3 a b)
  define n where "n = (unat a * 256 + unat b) * 4"
  note d = two_bytes[OF byte_unat(1) byte_unat(1) n_def]
  have "base64_print [a, b]
      = [base64_digit (n div 4096), base64_digit (n div 64 mod 64), base64_digit (n mod 64), CHR ''='']"
    by (simp add: Let_def n_def)
  then show ?case
    using base64_digit_facts(1)[OF d(1)] base64_digit_facts(1)[OF d(2)] base64_digit_facts(1)[OF d(3)]
      base64_digit_not_padding[OF d(3)]
    by (simp only: base64_read.simps Let_def d(4,5) byte_unat(2)) simp
next
  case (4 a b c bs)
  define n where "n = (unat a * 256 + unat b) * 256 + unat c"
  note d = three_bytes[OF byte_unat(1) byte_unat(1) byte_unat(1) n_def]
  have p: "base64_print (a # b # c # bs) = base64_digit (n div 262144) # base64_digit (n div 4096 mod 64)
      # base64_digit (n div 64 mod 64) # base64_digit (n mod 64) # base64_print bs"
    by (simp only: base64_print.simps Let_def n_def append.simps)
  have "base64_read (base64_print (a # b # c # bs))
      = map_option (\<lambda>bs. word_of_nat (n div 65536) # word_of_nat (n div 256 mod 256) # word_of_nat (n mod 256) # bs)
          (base64_read (base64_print bs))"
    unfolding p
    by (rule base64_read_three[OF base64_digit_not_padding[OF d(4)]])
      (simp only: base64_digit_facts(1)[OF d(1)] base64_digit_facts(1)[OF d(2)] base64_digit_facts(1)[OF d(3)]
        base64_digit_facts(1)[OF d(4)] d(8))
  then show ?case using 4 by (simp only: d(5-7) byte_unat(2) option.map)
qed simp

lemma base64_print_shape:
  "\<exists>t k. base64_print bs = t @ replicate k (CHR ''='') \<and> list_all base64_char t \<and> k \<le> 2
     \<and> (length t + k) mod 4 = 0 \<and> length t = (4 * length bs + 2) div 3"
  (is "?shape bs")
proof (induction bs rule: base64_print.induct)
  case 1
  then show ?case by simp
next
  case (2 a)
  define n where "n = unat a * 16"
  note d = one_byte[OF byte_unat(1) n_def]
  have "base64_print [a] = [base64_digit (n div 64), base64_digit (n mod 64)] @ replicate 2 (CHR ''='')"
    by (simp add: Let_def n_def numeral_2_eq_2)
  then show ?case
    using base64_digit_facts(2)[OF d(1)] base64_digit_facts(2)[OF d(2)]
    by (intro exI[of _ "[base64_digit (n div 64), base64_digit (n mod 64)]"] exI[of _ 2]) simp
next
  case (3 a b)
  define n where "n = (unat a * 256 + unat b) * 4"
  note d = two_bytes[OF byte_unat(1) byte_unat(1) n_def]
  have "base64_print [a, b]
      = [base64_digit (n div 4096), base64_digit (n div 64 mod 64), base64_digit (n mod 64)] @ replicate 1 (CHR ''='')"
    by (simp add: Let_def n_def)
  then show ?case
    using base64_digit_facts(2)[OF d(1)] base64_digit_facts(2)[OF d(2)] base64_digit_facts(2)[OF d(3)]
    by (intro exI[of _ "[base64_digit (n div 4096), base64_digit (n div 64 mod 64), base64_digit (n mod 64)]"]
        exI[of _ 1]) simp
next
  case (4 a b c bs)
  define n where "n = (unat a * 256 + unat b) * 256 + unat c"
  note d = three_bytes[OF byte_unat(1) byte_unat(1) byte_unat(1) n_def]
  let ?cs = "[base64_digit (n div 262144), base64_digit (n div 4096 mod 64),
    base64_digit (n div 64 mod 64), base64_digit (n mod 64)]"
  have p: "base64_print (a # b # c # bs) = ?cs @ base64_print bs"
    by (simp only: base64_print.simps Let_def n_def append.simps)
  obtain t k where t: "base64_print bs = t @ replicate k (CHR ''='')" "list_all base64_char t" "k \<le> 2"
    "(length t + k) mod 4 = 0" "length t = (4 * length bs + 2) div 3"
    using 4[OF refl] by (elim exE conjE) (rule that)
  have cs: "list_all base64_char ?cs"
    by (simp add: base64_digit_facts(2)[OF d(1)] base64_digit_facts(2)[OF d(2)] base64_digit_facts(2)[OF d(3)]
        base64_digit_facts(2)[OF d(4)])
  have n4: "length (?cs @ t) = 4 + length t" by simp
  have len: "length (?cs @ t) = (4 * length (a # b # c # bs) + 2) div 3" unfolding n4 using t(5) by simp
  have m: "(length (?cs @ t) + k) mod 4 = 0" unfolding n4 using t(4) by (simp add: add.assoc)
  have "base64_print (a # b # c # bs) = (?cs @ t) @ replicate k (CHR ''='')"
    unfolding p t(1) by (rule append_assoc[symmetric])
  moreover have "list_all base64_char (?cs @ t)" using cs t(2) unfolding list_all_append by (rule conjI)
  ultimately show ?case using t(3) len m by (intro exI conjI)
qed

section \<open>The instance\<close>

definition sample_externals :: "voya_profile_bundle_v1 option \<Rightarrow> share_externals" where
  "sample_externals bundle =
     \<lparr>json_from_str = \<lambda>s. None, url_parse = parse_simple_url, regex_valid = \<lambda>p. False,
      regex_is_match = \<lambda>p s. False, regex_capture = \<lambda>p s. None, regex_replace = \<lambda>p s. s,
      percent_decode_utf8 = Some,
      percent_decode = percent_bytes, b64_encode = base64_print, b64_decode = base64_read,
      json_to_string = \<lambda>v. [], json_to_string_pretty = \<lambda>v. [],
      bundle_to_string = \<lambda>b. ''{}'', bundle_from_str = \<lambda>s. bundle, url_append_pairs = \<lambda>s q. None\<rparr>"

lemma sample_percent: "percent_laws (sample_externals b)"
  by (auto simp: percent_laws_def sample_externals_def percent_bytes_char hex_digit_upper)

lemma sample_base64: "base64_laws (sample_externals b)"
  using base64_print_shape by (simp add: base64_laws_def sample_externals_def base64_read_print)

lemma plain_separators:
  assumes "c \<in> {CHR '':'', CHR ''/'', CHR ''#'', CHR ''?'', CHR ''@''}"
  shows "\<not> query_char c" "\<not> link_char c" "\<not> host_char c"
  using assms by (auto simp: query_char_def link_char_def unreserved_def host_char_def is_ascii_alphanumeric_def
      is_ascii_alphabetic_def is_ascii_upper_def is_ascii_lower_def is_ascii_digit_def)

lemma sample_url: "url_laws (sample_externals b)"
  unfolding url_laws_def
proof (intro allI impI)
  fix scheme user pw host p query fragment
  assume ok: "url_parts_ok scheme user pw host p query fragment"
  have no: "c \<notin> set user" "c \<notin> set host" "pred_option (\<lambda>w. c \<notin> set w) pw" "pred_option (\<lambda>q. c \<notin> set q) query"
    "pred_option (\<lambda>f. c \<notin> set f) fragment"
    if "c \<in> {CHR '':'', CHR ''/'', CHR ''#'', CHR ''?'', CHR ''@''}" for c
    using ok plain_separators[OF that] by (auto simp: url_parts_ok_def list_all_iff option.pred_set)
  have digits: "c \<notin> set (show_nat p)" if "c \<in> {CHR '':'', CHR ''/'', CHR ''#'', CHR ''?'', CHR ''@''}" for c
    using that by (intro show_nat_no) (auto simp: is_ascii_digit_def)
  let ?ui = "user @ (case pw of Some w \<Rightarrow> '':'' @ w | None \<Rightarrow> [])"
  let ?hp = "host @ CHR '':'' # show_nat p"
  let ?q = "case query of Some q \<Rightarrow> ''?'' @ q | None \<Rightarrow> []"
  let ?f = "case fragment of Some f \<Rightarrow> ''#'' @ f | None \<Rightarrow> []"
  have printed: "url_text scheme user pw host p query fragment
      = scheme @ CHR '':'' # ''//'' @ (?ui @ CHR ''@'' # ?hp) @ ?q @ ?f"
    by (simp add: url_text_def)
  have scheme: "split_once (CHR '':'') (scheme @ CHR '':'' # r) = Some (scheme, r)" for r
    using ok by (auto simp: split_once_Some url_parts_ok_def share_schemes_def)
  have frag: "cut_at (CHR ''#'') ((?ui @ CHR ''@'' # ?hp) @ ?q @ ?f) = ((?ui @ CHR ''@'' # ?hp) @ ?q, fragment)"
  proof (cases fragment)
    case None
    then show ?thesis using no[of "CHR ''#''"] digits[of "CHR ''#''"]
      by (intro trans[OF cut_at_absent]) (auto split: option.splits)
  next
    case (Some f)
    have "CHR ''#'' \<notin> set ((?ui @ CHR ''@'' # ?hp) @ ?q)"
      using no[of "CHR ''#''"] digits[of "CHR ''#''"] by (auto split: option.splits)
    from cut_at_found[OF this, of f] show ?thesis by (simp add: Some)
  qed
  have quer: "cut_at (CHR ''?'') ((?ui @ CHR ''@'' # ?hp) @ ?q) = (?ui @ CHR ''@'' # ?hp, query)"
  proof -
    have "CHR ''?'' \<notin> set (?ui @ CHR ''@'' # ?hp)"
      using no[of "CHR ''?''"] digits[of "CHR ''?''"] by (auto split: option.splits)
    from cut_at_found[OF this] cut_at_absent[OF this] show ?thesis by (cases query) simp_all
  qed
  have split: "split_once (CHR ''@'') (?ui @ CHR ''@'' # ?hp) = Some (?ui, ?hp)"
    using no[of "CHR ''@''"] by (auto simp: split_once_Some split: option.splits)
  have userinfo: "cut_at (CHR '':'') ?ui = (user, pw)"
    using no[of "CHR '':''"] cut_at_found[of "CHR '':''" user] cut_at_absent[of "CHR '':''" user]
    by (cases pw) auto
  have hostport: "cut_at (CHR '':'') ?hp = (host, Some (show_nat p))"
    using no[of "CHR '':''"] by (intro cut_at_found) simp
  have "parse_u16 (show_nat p) = Some p" using ok by (simp add: parse_u16_def url_parts_ok_def)
  then show "url_parse (sample_externals b) (url_text scheme user pw host p query fragment)
      = Some \<lparr>u_scheme = scheme, u_username = user, u_password = pw, u_host = Some host,
          u_port = Some p, u_path = [], u_query = query, u_fragment = fragment\<rparr>"
    unfolding printed sample_externals_def
    by (simp add: parse_simple_url_def scheme frag[simplified] quer[simplified] split[simplified]
        userinfo[simplified] hostport)
qed

end
