(* ===== verification/BundleProps.thy ===== *)
theory BundleProps
  imports ShareProps ShareSample
begin

text \<open>
  The bundle of profiles: its validation accepts exactly the closed and acyclic bundles, and
  what an import returns is such a set of profiles again, under new identifiers.
\<close>

section \<open>The cycle search\<close>

definition branch_edges :: "(string, voya_bundle_profile) btree_map \<Rightarrow> (string \<times> string) set" where
  "branch_edges m =
     {(a, c). \<exists>p. bt_get m a = Some p \<and> c \<in> set (bundle_child_refs p)} \<union> {(a, a) | a. bt_get m a = None}"

lemma branch_edges_from: "bt_get m a = Some p \<Longrightarrow> (a, c) \<in> branch_edges m \<longleftrightarrow> c \<in> set (bundle_child_refs p)"
  by (auto simp: branch_edges_def)

text \<open>What the visited set holds: vertices that are clean, closed under the edges, none on the path.\<close>

definition settled :: "('a \<times> 'a) set \<Rightarrow> 'a set \<Rightarrow> 'a set \<Rightarrow> bool" where
  "settled E P V \<longleftrightarrow> (\<forall>a \<in> V. clean_from E {} a \<and> (\<forall>c. (a, c) \<in> E \<longrightarrow> c \<in> V)) \<and> V \<inter> P = {}"

lemma settled_clean:
  assumes "settled E P V" and "a \<in> V" shows "clean_from E P a"
proof -
  have "b \<in> V" if "(a, b) \<in> E\<^sup>*" for b
    using that assms closed_rtrancl[of a b E V] by (auto simp: settled_def)
  then have "b \<notin> P" if "(a, b) \<in> E\<^sup>*" for b using that assms(1) by (auto simp: settled_def)
  moreover have "clean_from E {} a" using assms by (simp add: settled_def)
  ultimately show ?thesis by (simp add: clean_from_def)
qed

lemma clean_from_mono: "clean_from E P a \<Longrightarrow> Q \<subseteq> P \<Longrightarrow> clean_from E Q a"
  by (auto simp: clean_from_def)

definition branch_outcome ::
    "(string \<times> string) set \<Rightarrow> string set \<Rightarrow> string set \<Rightarrow> string set \<Rightarrow> string set share_result \<Rightarrow> bool" where
  "branch_outcome E P V A res \<longleftrightarrow>
     (if \<forall>a \<in> A. clean_from E P a then \<exists>V'. res = Inr V' \<and> V \<union> A \<subseteq> V' \<and> settled E P V'
      else \<exists>e. res = Inl e)"

lemma branch_Inl [simp]: "validate_voya_bundle_branch m P a (Inl e) = Inl e"
  by (simp add: validate_voya_bundle_branch.simps)

lemma fold_Inl: "(\<And>c. c \<in> set cs \<Longrightarrow> f c (Inl e) = Inl e) \<Longrightarrow> fold f cs (Inl e) = Inl e"
  by (induction cs) auto

lemma fold_branches:
  assumes "\<And>c V. c \<in> set cs \<Longrightarrow> settled E P V \<Longrightarrow> branch_outcome E P V {c} (f c (Inr V))"
    and "\<And>c e. f c (Inl e) = Inl e" and "settled E P V"
  shows "branch_outcome E P V (set cs) (fold f cs (Inr V))"
  using assms
proof (induction cs arbitrary: V)
  case Nil
  then show ?case by (auto simp: branch_outcome_def)
next
  case (Cons c cs)
  have o: "branch_outcome E P V {c} (f c (Inr V))" using Cons.prems by simp
  show ?case
  proof (cases "clean_from E P c")
    case True
    then obtain V1 where v: "f c (Inr V) = Inr V1" "V \<union> {c} \<subseteq> V1" "settled E P V1"
      using o by (auto simp: branch_outcome_def)
    have "branch_outcome E P V1 (set cs) (fold f cs (Inr V1))"
      using Cons.IH[OF Cons.prems(1) Cons.prems(2) v(3)] by simp
    then show ?thesis using True v by (fastforce simp: branch_outcome_def)
  next
    case False
    then obtain e where "f c (Inr V) = Inl e" using o by (auto simp: branch_outcome_def)
    then have "fold f (c # cs) (Inr V) = Inl e" using Cons.prems(2) by (simp add: fold_Inl)
    then show ?thesis using False by (auto simp: branch_outcome_def)
  qed
qed

lemma branch_spec:
  "settled (branch_edges m) P V \<Longrightarrow>
     branch_outcome (branch_edges m) P V {a} (validate_voya_bundle_branch m P a (Inr V))"
proof (induction m P a "Inr V :: string set share_result" arbitrary: V rule: validate_voya_bundle_branch.induct)
  case (1 m P a V)
  let ?E = "branch_edges m"
  show ?case
  proof (cases "a \<in> V")
    case True
    have "validate_voya_bundle_branch m P a (Inr V) = Inr V"
      using True by (subst validate_voya_bundle_branch.simps) simp
    then show ?thesis using "1.prems" settled_clean[OF "1.prems" True] True
      unfolding branch_outcome_def by simp
  next
    case out: False
    show ?thesis
    proof (cases "a \<in> P \<or> bt_get m a = None")
      case True
      have "\<not> clean_from ?E P a"
      proof (cases "a \<in> P")
        case outside: False
        then have "(a, a) \<in> ?E" using True by (simp add: branch_edges_def)
        then show ?thesis by (auto simp: clean_from_def)
      qed (auto simp: clean_from_def)
      moreover have "\<exists>e. validate_voya_bundle_branch m P a (Inr V) = Inl e"
        using True out by (subst validate_voya_bundle_branch.simps) auto
      ultimately show ?thesis by (simp add: branch_outcome_def)
    next
      case False
      then obtain p where p: "bt_get m a = Some p" and aP: "a \<notin> P" by blast
      let ?f = "validate_voya_bundle_branch m (insert a P)"
      have s: "settled ?E (insert a P) V" using "1.prems" out by (simp add: settled_def)
      have IH: "branch_outcome ?E (insert a P) W {c} (?f c (Inr W))"
        if "c \<in> set (bundle_child_refs p)" "settled ?E (insert a P) W" for c W
        using "1.hyps"[OF refl out aP p that(1) that(2)] by simp
      have o: "branch_outcome ?E (insert a P) V (set (bundle_child_refs p)) (fold ?f (bundle_child_refs p) (Inr V))"
        by (rule fold_branches) (use IH s in auto)
      have clean: "clean_from ?E P a \<longleftrightarrow> (\<forall>c \<in> set (bundle_child_refs p). clean_from ?E (insert a P) c)"
        using aP clean_from_step[of ?E P a] branch_edges_from[OF p] by blast
      show ?thesis
      proof (cases "clean_from ?E P a")
        case True
        then obtain V' where v: "fold ?f (bundle_child_refs p) (Inr V) = Inr V'"
          "V \<union> set (bundle_child_refs p) \<subseteq> V'" "settled ?E (insert a P) V'"
          using o clean by (auto simp: branch_outcome_def)
        have "settled ?E P (insert a V')"
          using v(2,3) clean_from_mono[OF True, of "{}"] aP branch_edges_from[OF p]
          by (auto simp: settled_def)
        moreover have "validate_voya_bundle_branch m P a (Inr V) = Inr (insert a V')"
          using out aP p v(1) by (subst validate_voya_bundle_branch.simps) simp
        ultimately show ?thesis using True v(2) by (auto simp: branch_outcome_def)
      next
        case False
        then obtain e where "fold ?f (bundle_child_refs p) (Inr V) = Inl e"
          using o unfolding clean branch_outcome_def by (elim exE[rotated]) (simp only: if_False; blast)
        then have "validate_voya_bundle_branch m P a (Inr V) = Inl e"
          using out aP p by (subst validate_voya_bundle_branch.simps) simp
        then show ?thesis using False by (simp add: branch_outcome_def)
      qed
    qed
  qed
qed

lemma branch_ok_iff:
  "(\<exists>V. validate_voya_bundle_branch m {} a (Inr {}) = Inr V) \<longleftrightarrow> clean_from (branch_edges m) {} a"
  using branch_spec[of m "{}" "{}" a] by (auto simp: branch_outcome_def settled_def split: if_splits)

section \<open>Accepted bundles\<close>

definition bundle_edges :: "voya_bundle_profile list \<Rightarrow> (string \<times> string) set" where
  "bundle_edges ps = {(bundle_reference p, c) | p c. p \<in> set ps \<and> c \<in> set (bundle_child_refs p)}"

lemma check_references_Inr:
  "check_references ps R = Inr R' \<longleftrightarrow>
     R' = R \<union> set (map (trim \<circ> bundle_reference) ps)
     \<and> (\<forall>p \<in> set ps. trim (bundle_reference p) \<noteq> [])
     \<and> distinct (map (trim \<circ> bundle_reference) ps)
     \<and> R \<inter> set (map (trim \<circ> bundle_reference) ps) = {}"
  by (induction ps arbitrary: R) (auto simp: Let_def)

lemma check_children_Inr:
  "check_children ps R = Inr u \<longleftrightarrow> (\<forall>p \<in> set ps. \<forall>c \<in> set (bundle_child_refs p). trim c \<in> R)"
proof -
  let ?cs = "concat (map bundle_child_refs ps)"
  have "find (\<lambda>c. trim c \<notin> R) ?cs = None \<longleftrightarrow> (\<forall>c \<in> set ?cs. trim c \<in> R)" by (auto simp: find_None_iff)
  then show ?thesis by (auto simp: check_children_def split: option.split)
qed

lemma collect_results_Inr:
  "collect_results rs = Inr xs \<longleftrightarrow> rs = map Inr xs"
  by (induction rs arbitrary: xs) (auto simp: bind_ok_Inr)

lemma collect_results_ok: "(\<exists>xs. collect_results rs = Inr xs) \<longleftrightarrow> (\<forall>r \<in> set rs. \<exists>x. r = Inr x)"
  by (induction rs) (auto simp: bind_ok_Inr)

lemma by_reference_get:
  assumes "distinct (map bundle_reference ps)"
  shows "bt_get (by_reference ps) r = Some p \<longleftrightarrow> p \<in> set ps \<and> bundle_reference p = r"
proof -
  have "distinct (map fst (rev (map (\<lambda>p. (bundle_reference p, p)) ps)))"
    using assms by (simp add: rev_map[symmetric] comp_def)
  then have "map_of (rev (map (\<lambda>p. (bundle_reference p, p)) ps)) r = Some p
      \<longleftrightarrow> (r, p) \<in> set (rev (map (\<lambda>p. (bundle_reference p, p)) ps))"
    by (rule map_of_eq_Some_iff)
  then show ?thesis by (auto simp: by_reference_def bt_get_of_list)
qed

lemma references_distinct: "distinct (map (trim \<circ> bundle_reference) ps) \<Longrightarrow> distinct (map bundle_reference ps)"
  by (simp add: distinct_map) (meson comp_inj_on_iff inj_on_imageI2)

lemma branches_clean_iff:
  assumes d: "distinct (map bundle_reference ps)"
  defines "m \<equiv> by_reference ps" and "R \<equiv> bundle_reference ` set ps"
  shows "(\<forall>p \<in> set ps. clean_from (branch_edges m) {} (bundle_reference p))
     \<longleftrightarrow> (\<forall>p \<in> set ps. set (bundle_child_refs p) \<subseteq> R) \<and> acyclic (bundle_edges ps)"
proof -
  have edge: "(a, c) \<in> branch_edges m \<longleftrightarrow> (a, c) \<in> bundle_edges ps \<or> (a \<notin> R \<and> c = a)" for a c
  proof -
    have "bt_get m a = None \<longleftrightarrow> a \<notin> R"
      using by_reference_get[OF d, of a] by (cases "bt_get m a") (auto simp: m_def R_def)
    then show ?thesis
      using by_reference_get[OF d, of a] by (auto simp: branch_edges_def bundle_edges_def m_def)
  qed
  have source: "a \<in> R" if "(a, c) \<in> bundle_edges ps" for a c using that by (auto simp: bundle_edges_def R_def)
  show ?thesis
  proof (intro iffI conjI)
    assume clean: "\<forall>p \<in> set ps. clean_from (branch_edges m) {} (bundle_reference p)"
    show "\<forall>p \<in> set ps. set (bundle_child_refs p) \<subseteq> R"
    proof (intro ballI subsetI, rule ccontr)
      fix p c assume p: "p \<in> set ps" "c \<in> set (bundle_child_refs p)" and c: "c \<notin> R"
      then have "(bundle_reference p, c) \<in> bundle_edges ps" by (auto simp: bundle_edges_def)
      then have "(bundle_reference p, c) \<in> branch_edges m" and "(c, c) \<in> branch_edges m"
        using c by (auto simp: edge)
      then show False using clean p(1) by (meson clean_from_def r_into_rtrancl r_into_trancl)
    qed
    show "acyclic (bundle_edges ps)"
    proof (rule acyclicI, intro allI notI)
      fix b assume b: "(b, b) \<in> (bundle_edges ps)\<^sup>+"
      have "(b, b) \<in> (branch_edges m)\<^sup>+" by (rule trancl_mono[OF b]) (auto simp: edge)
      moreover have "b \<in> R" using b source by (meson tranclD)
      ultimately show False using clean by (auto simp: clean_from_def R_def)
    qed
  next
    assume h: "(\<forall>p \<in> set ps. set (bundle_child_refs p) \<subseteq> R) \<and> acyclic (bundle_edges ps)"
    have closed: "c \<in> R" if "a \<in> R" "(a, c) \<in> branch_edges m" for a c
      using that h by (auto simp: edge bundle_edges_def)
    have tr: "(a, c) \<in> (bundle_edges ps)\<^sup>+ \<and> c \<in> R" if "(a, c) \<in> (branch_edges m)\<^sup>+" "a \<in> R" for a c
      using that
    proof (induction rule: trancl_induct)
      case (base c)
      then show ?case using closed[of a c] edge[of a c] by blast
    next
      case (step b c)
      then have "(b, c) \<in> bundle_edges ps" using edge[of b c] by blast
      then show ?case using step closed[of b c] by (meson trancl_into_trancl)
    qed
    show "\<forall>p \<in> set ps. clean_from (branch_edges m) {} (bundle_reference p)"
    proof (intro ballI)
      fix p assume "p \<in> set ps"
      then have r: "bundle_reference p \<in> R" by (simp add: R_def)
      have "b \<in> R" if "(bundle_reference p, b) \<in> (branch_edges m)\<^sup>*" for b
        using that r by (rule closed_rtrancl) (rule closed)
      moreover have "(b, b) \<notin> (branch_edges m)\<^sup>+" if "b \<in> R" for b
        using tr[of b b] that h by (auto simp: acyclic_def)
      ultimately show "clean_from (branch_edges m) {} (bundle_reference p)" by (simp add: clean_from_def)
    qed
  qed
qed

lemma validate_bundle_iff:
  "validate_voya_bundle ps = Inr () \<longleftrightarrow>
     ps \<noteq> [] \<and> (\<forall>p \<in> set ps. trim (bundle_reference p) \<noteq> [])
     \<and> distinct (map (trim \<circ> bundle_reference) ps)
     \<and> (\<forall>p \<in> set ps. set (bundle_child_refs p) \<subseteq> bundle_reference ` set ps)
     \<and> acyclic (bundle_edges ps)"
proof -
  have branches: "(\<exists>xs. collect_results (map (\<lambda>p. validate_voya_bundle_branch (by_reference ps) {}
        (bundle_reference p) (Inr {})) ps) = Inr xs)
      \<longleftrightarrow> (\<forall>p \<in> set ps. clean_from (branch_edges (by_reference ps)) {} (bundle_reference p))"
    by (simp add: collect_results_ok branch_ok_iff)
  have "validate_voya_bundle ps = Inr () \<longleftrightarrow>
      ps \<noteq> [] \<and> (\<forall>p \<in> set ps. trim (bundle_reference p) \<noteq> [])
      \<and> distinct (map (trim \<circ> bundle_reference) ps)
      \<and> (\<forall>p \<in> set ps. \<forall>c \<in> set (bundle_child_refs p). trim c \<in> set (map (trim \<circ> bundle_reference) ps))
      \<and> (\<forall>p \<in> set ps. clean_from (branch_edges (by_reference ps)) {} (bundle_reference p))"
    by (simp add: validate_voya_bundle_def bind_ok_Inr check_references_Inr check_children_Inr branches)
  then show ?thesis
    using branches_clean_iff[OF references_distinct, of ps] by (auto simp: image_subset_iff) fastforce?
qed

text \<open>
  C14: A bundle is accepted exactly if it holds a profile, no reference is blank, references
  differ even after trimming, every child reference is one of them and no chain of child
  references returns to its start.
\<close>

theorem bundle_valid_iff:
  "validate_voya_bundle ps = Inr () \<longleftrightarrow>
     ps \<noteq> [] \<and> (\<forall>p \<in> set ps. trim (bundle_reference p) \<noteq> [])
     \<and> distinct (map (trim \<circ> bundle_reference) ps)
     \<and> (\<forall>p \<in> set ps. set (bundle_child_refs p) \<subseteq> bundle_reference ` set ps)
     \<and> acyclic (bundle_edges ps)"
  by (rule validate_bundle_iff)

text \<open>A bundle with a node, a group and a chain over both.\<close>

definition sample_bundle :: voya_profile_bundle_v1 where
  "sample_bundle =
     \<lparr>schema_version = 1,
      bundle_profiles =
        [Vb_Node ''n'' ''trojan://secret@a.example:443'',
         Vb_PolicyGroup ''g'' ''Group'' [''n''] False None None,
         Vb_ProxyChain ''c'' ''Chain'' [''g'', ''n''] False]\<rparr>"

lemma bundle_valid_iff_witness:
  "validate_voya_bundle (bundle_profiles sample_bundle) = Inr ()
     \<and> acyclic (bundle_edges (bundle_profiles sample_bundle))"
proof -
  have "validate_voya_bundle (bundle_profiles sample_bundle) = Inr ()" by code_simp
  then show ?thesis using bundle_valid_iff[of "bundle_profiles sample_bundle"] by blast
qed

section \<open>Imported bundles\<close>

definition import_id :: "nat \<Rightarrow> string" where
  "import_id i = ''voya-import-'' @ show_nat (i + 1)"

lemma import_id_inj [simp]: "import_id i = import_id j \<longleftrightarrow> i = j"
  using show_nat_inj[of "i + 1" "j + 1"] by (auto simp: import_id_def)

lemma bundle_id_map_get:
  assumes d: "distinct (map bundle_reference ps)" and i: "i < length ps"
  shows "bt_get (bundle_id_map ps) (bundle_reference (ps ! i)) = Some (import_id i)"
proof -
  let ?xs = "map (\<lambda>(i, p). (bundle_reference p, ''voya-import-'' @ show_nat (i + 1))) (enumerate 0 ps)"
  have "map fst ?xs = map bundle_reference ps" by (rule nth_equalityI) (auto simp: nth_enumerate_eq)
  then have "distinct (map fst (rev ?xs))" using d by (simp add: rev_map[symmetric])
  moreover have "(bundle_reference (ps ! i), import_id i) \<in> set (rev ?xs)"
  proof -
    have "(i, ps ! i) \<in> set (enumerate 0 ps)" using i by (simp add: in_set_enumerate_eq)
    then show ?thesis unfolding set_rev set_map import_id_def by (rule rev_image_eqI) simp
  qed
  ultimately show ?thesis by (simp add: bundle_id_map_def bt_get_of_list)
qed

lemma bundle_id_map_Some:
  assumes d: "distinct (map bundle_reference ps)"
  shows "bt_get (bundle_id_map ps) r = Some i \<longleftrightarrow>
     (\<exists>k < length ps. r = bundle_reference (ps ! k) \<and> i = import_id k)"
proof
  assume "bt_get (bundle_id_map ps) r = Some i"
  then have "r \<in> set (bt_keys (bundle_id_map ps))" using bt_get_None_iff[of "bundle_id_map ps" r] by auto
  then have "r \<in> bundle_reference ` set ps"
    by (auto simp: bundle_id_map_def keys_bt_of_list in_set_enumerate_eq)
  then obtain k where "k < length ps" "r = bundle_reference (ps ! k)" by (auto simp: in_set_conv_nth)
  with \<open>bt_get (bundle_id_map ps) r = Some i\<close> show "\<exists>k < length ps. r = bundle_reference (ps ! k) \<and> i = import_id k"
    using bundle_id_map_get[OF d, of k] by auto
qed (auto simp: bundle_id_map_get[OF d])

lemma acyclic_image:
  assumes "acyclic E" and inj: "inj_on f (Field E)"
  shows "acyclic (map_prod f f ` E)"
proof (rule acyclicI, intro allI notI)
  fix y assume y: "(y, y) \<in> (map_prod f f ` E)\<^sup>+"
  have step: "\<exists>c. z = f c \<and> (a, c) \<in> E\<^sup>+" if "(f a, z) \<in> (map_prod f f ` E)\<^sup>+" "a \<in> Field E" for a z
    using that
  proof (induction rule: trancl_induct)
    case (base z)
    then obtain a' c where "(a', c) \<in> E" "f a = f a'" "z = f c" by auto
    then have "a = a'" using inj base.prems by (meson FieldI1 inj_onD)
    then show ?case using \<open>(a', c) \<in> E\<close> \<open>z = f c\<close> by blast
  next
    case (step z w)
    then obtain c where c: "z = f c" "(a, c) \<in> E\<^sup>+" by blast
    obtain b d where bd: "(b, d) \<in> E" "z = f b" "w = f d" using step.hyps(2) by auto
    have "c \<in> Field E" using c(2) by (metis FieldI2 tranclD2)
    then have "c = b" using inj bd(1,2) c(1) by (metis FieldI1 inj_onD)
    then show ?case using c bd by (blast intro: trancl_into_trancl)
  qed
  obtain a where a: "y = f a" "a \<in> Field E" using y by (auto dest!: tranclD intro: FieldI1)
  then obtain c where c: "f a = f c" "(a, c) \<in> E\<^sup>+" using step[of a y] y by auto
  then have "a = c" using inj a(2) by (metis FieldI2 inj_onD tranclD2)
  then show False using c(2) assms(1) by (simp add: acyclic_def)
qed

text \<open>What an entry of the bundle becomes.\<close>

definition imported_as :: "string \<Rightarrow> (string, string) btree_map \<Rightarrow> voya_bundle_profile \<Rightarrow> profile_item \<Rightarrow> bool" where
  "imported_as subscription ids entry item \<longleftrightarrow>
     (case entry of
        Vb_Node r uri \<Rightarrow>
          child_profile_ids (protocol item) = [] \<and> config_type item \<in> link_types
          \<and> importable (config_type item) (item\<lparr>index_id := []\<rparr>)
      | _ \<Rightarrow>
          is_group_type (config_type item)
          \<and> map Some (child_profile_ids (protocol item)) = map (bt_get ids) (bundle_child_refs entry)
          \<and> (child_profile_ids (protocol item) \<noteq> []
             \<or> (\<exists>filter_text strategy. trim subscription \<noteq> [] \<and>
                  protocol item = Pp_PolicyGroup [] (Some (trim subscription)) filter_text strategy)))"

lemma collect_lookup:
  assumes "collect_results (map (\<lambda>r. case m r of Some i \<Rightarrow> Inr i | None \<Rightarrow> Inl (e r)) rs) = Inr is"
  shows "map Some is = map m rs"
proof (rule nth_equalityI)
  have eq: "map (\<lambda>r. case m r of Some i \<Rightarrow> Inr i | None \<Rightarrow> Inl (e r)) rs = map Inr is"
    using assms by (simp add: collect_results_Inr)
  then show len: "length (map Some is) = length (map m rs)" by (auto dest: map_eq_imp_length_eq)
  fix k assume "k < length (map Some is)"
  then show "map Some is ! k = map m rs ! k"
    using arg_cong[OF eq, of "\<lambda>xs. xs ! k"] len by (auto split: option.splits)
qed

lemma bundle_group_profile_spec:
  assumes "bundle_group_profile t name refs incl strategy filter_text subscription ids = Inr item"
  shows "is_group_type (config_type item)
     \<and> map Some (child_profile_ids (protocol item)) = map (bt_get ids) refs
     \<and> (child_profile_ids (protocol item) \<noteq> []
        \<or> (\<exists>f s. trim subscription \<noteq> [] \<and> protocol item = Pp_PolicyGroup [] (Some (trim subscription)) f s))"
proof -
  obtain cs proto where cs: "collect_results (map (\<lambda>r. case bt_get ids r of Some i \<Rightarrow> Inr i
        | None \<Rightarrow> Inl (invalid_voya_bundle (''unresolved child reference '' @ r))) refs) = Inr cs"
    and ne: "cs \<noteq> [] \<or> incl" "incl \<longrightarrow> trim subscription \<noteq> []"
    and proto: "(case t of
        Ct_PolicyGroup \<Rightarrow> Inr (Pp_PolicyGroup cs (if incl then Some (trim subscription) else None)
          (Option.bind filter_text nonempty) (unwrap_or strategy Ml_LeastPing))
      | Ct_ProxyChain \<Rightarrow>
          (if incl then Inl (invalid_voya_bundle ''proxy chains cannot include an entire subscription'')
           else Inr (Pp_ProxyChain cs))
      | _ \<Rightarrow> Inl (invalid_voya_bundle ''bundle group has an invalid kind'')) = Inr proto"
    and item: "item = default_profile\<lparr>remarks := trim name, protocol := proto\<rparr>"
    using assms unfolding bundle_group_profile_def bind_ok_Inr
    by (auto simp: bind_ok_Inr split: if_split_asm)
  have "(\<exists>sub f s. proto = Pp_PolicyGroup cs sub f s \<and> (incl \<longrightarrow> sub = Some (trim subscription)))
      \<or> (proto = Pp_ProxyChain cs \<and> \<not> incl)"
    using proto by (cases t) (auto split: if_split_asm)
  then show ?thesis
    using collect_lookup[OF cs] ne item by (auto simp: config_type_def is_group_type_def)
qed

lemma import_bundle_profile_spec:
  assumes r: "import_bundle_profile X subscription ids entry = Inr item"
    and i: "bt_get ids (bundle_reference entry) = Some i"
  shows "index_id item = i \<and> imported_as subscription ids entry item"
proof -
  obtain base where base: "(case entry of
         Vb_Node r share_uri \<Rightarrow> parse_share_link X share_uri
       | Vb_PolicyGroup r name child_refs include_current strategy filter_text \<Rightarrow>
           bind_ok (case strategy of None \<Rightarrow> Inr None
                    | Some s \<Rightarrow> bind_ok (parse_multiple_load s) (\<lambda>l. Inr (Some l)))
             (\<lambda>strategy. bundle_group_profile Ct_PolicyGroup name child_refs include_current strategy
                filter_text subscription ids)
       | Vb_ProxyChain r name child_refs include_current \<Rightarrow>
           bundle_group_profile Ct_ProxyChain name child_refs include_current None None subscription ids)
      = Inr base"
    and item: "item = base\<lparr>index_id := i\<rparr>"
    using r i by (auto simp: import_bundle_profile_def bind_ok_Inr)
  have same: "config_type item = config_type base" "protocol item = protocol base" "index_id item = i"
    by (simp_all add: item config_type_def)
  show ?thesis
  proof (cases entry)
    case (Vb_Node r uri)
    then have p: "parse_share_link X uri = Inr base" using base by simp
    from parse_share_link_importable[OF p]
    have t: "config_type base \<in> link_types" and imp: "importable (config_type base) base" by simp_all
    have "index_id base = []" using imp by (simp add: importable_def)
    then have "item\<lparr>index_id := []\<rparr> = base" by (simp add: item)
    moreover have "child_profile_ids (protocol base) = []"
      using t by (cases "protocol base") (simp_all add: config_type_def link_types_def)
    ultimately show ?thesis using t imp same by (simp add: imported_as_def Vb_Node)
  next
    case (Vb_PolicyGroup r name refs incl strategy filter_text)
    then obtain s where "bundle_group_profile Ct_PolicyGroup name refs incl s filter_text subscription ids = Inr base"
      using base by (auto simp: bind_ok_Inr)
    from bundle_group_profile_spec[OF this] show ?thesis using same by (simp add: imported_as_def Vb_PolicyGroup)
  next
    case (Vb_ProxyChain r name refs incl)
    then have "bundle_group_profile Ct_ProxyChain name refs incl None None subscription ids = Inr base"
      using base by simp
    from bundle_group_profile_spec[OF this] show ?thesis using same by (simp add: imported_as_def Vb_ProxyChain)
  qed
qed

definition profile_edges :: "profile_item list \<Rightarrow> (string \<times> string) set" where
  "profile_edges items = {(index_id a, c) | a c. a \<in> set items \<and> c \<in> set (child_profile_ids (protocol a))}"

lemma map_Some_lookup:
  assumes "map Some cs = map m rs" and "c \<in> set cs" shows "\<exists>r \<in> set rs. m r = Some c"
  using assms by (metis (no_types, lifting) imageE list.set_map imageI)

lemma import_bundle_spec:
  assumes "import_bundle X subscription bundle = Inr items"
  defines "ps \<equiv> bundle_profiles bundle"
  shows "items \<noteq> [] \<and> map index_id items = map import_id [0..<length items]
     \<and> list_all2 (imported_as subscription (bundle_id_map ps)) ps items
     \<and> (\<forall>item \<in> set items. set (child_profile_ids (protocol item)) \<subseteq> index_id ` set items)
     \<and> acyclic (profile_edges items)"
proof -
  have valid: "validate_voya_bundle ps = Inr ()"
    and rs: "map (import_bundle_profile X subscription (bundle_id_map ps)) ps = map Inr items"
    using assms(1) by (auto simp: import_bundle_def ps_def bind_ok_Inr collect_results_Inr split: if_split_asm)
  have v: "ps \<noteq> []" "\<forall>p \<in> set ps. set (bundle_child_refs p) \<subseteq> bundle_reference ` set ps"
    "acyclic (bundle_edges ps)" "distinct (map (trim \<circ> bundle_reference) ps)"
    using valid by (simp_all add: validate_bundle_iff)
  have d: "distinct (map bundle_reference ps)" using v(4) by (rule references_distinct)
  have len: "length items = length ps" using arg_cong[OF rs, of length] by simp
  have each: "index_id (items ! k) = import_id k
      \<and> imported_as subscription (bundle_id_map ps) (ps ! k) (items ! k)" if k: "k < length ps" for k
  proof (rule import_bundle_profile_spec)
    show "import_bundle_profile X subscription (bundle_id_map ps) (ps ! k) = Inr (items ! k)"
      using arg_cong[OF rs, of "\<lambda>xs. xs ! k"] k len by simp
  qed (rule bundle_id_map_get[OF d k])
  have ids: "map index_id items = map import_id [0..<length items]"
    by (rule nth_equalityI) (use each len in auto)
  have as: "list_all2 (imported_as subscription (bundle_id_map ps)) ps items"
    using each len by (simp add: list_all2_conv_all_nth)
  have idset: "index_id ` set items = import_id ` {..<length ps}"
    using arg_cong[OF ids, of set] len by (auto simp: atLeast0LessThan)
  define f where "f r = import_id (THE k. k < length ps \<and> bundle_reference (ps ! k) = r)" for r
  have f: "f (bundle_reference (ps ! k)) = import_id k" if "k < length ps" for k
  proof -
    have "(THE j. j < length ps \<and> bundle_reference (ps ! j) = bundle_reference (ps ! k)) = k"
      using that d by (intro the_equality) (auto simp: distinct_conv_nth)
    then show ?thesis by (simp add: f_def)
  qed
  have child: "\<exists>r \<in> set (bundle_child_refs (ps ! k)). \<exists>j < length ps. r = bundle_reference (ps ! j) \<and> c = import_id j"
    if k: "k < length ps" and c: "c \<in> set (child_profile_ids (protocol (items ! k)))" for k c
  proof -
    have "map Some (child_profile_ids (protocol (items ! k)))
        = map (bt_get (bundle_id_map ps)) (bundle_child_refs (ps ! k))"
      using each[OF k] c by (cases "ps ! k") (simp_all add: imported_as_def)
    from map_Some_lookup[OF this c] show ?thesis by (auto simp: bundle_id_map_Some[OF d])
  qed
  have closed: "set (child_profile_ids (protocol item)) \<subseteq> index_id ` set items" if it: "item \<in> set items" for item
  proof
    fix c assume c: "c \<in> set (child_profile_ids (protocol item))"
    obtain k where "k < length ps" "item = items ! k"
      using it unfolding in_set_conv_nth len by blast
    then show "c \<in> index_id ` set items" using child[of k c] c by (auto simp: idset)
  qed
  have "profile_edges items \<subseteq> map_prod f f ` bundle_edges ps"
  proof
    fix e assume "e \<in> profile_edges items"
    then obtain k c where k: "k < length ps" "e = (index_id (items ! k), c)"
      and c: "c \<in> set (child_profile_ids (protocol (items ! k)))"
      using len by (auto simp: profile_edges_def in_set_conv_nth)
    obtain r j where r: "r \<in> set (bundle_child_refs (ps ! k))" "j < length ps" "r = bundle_reference (ps ! j)"
      "c = import_id j" using child[OF k(1) c] by blast
    have "(bundle_reference (ps ! k), r) \<in> bundle_edges ps" using r(1) k(1) by (auto simp: bundle_edges_def)
    moreover have "e = map_prod f f (bundle_reference (ps ! k), r)"
      using k(2) each[OF k(1)] f[OF k(1)] f[OF r(2)] r(3,4) by simp
    ultimately show "e \<in> map_prod f f ` bundle_edges ps" by blast
  qed
  moreover have "inj_on f (Field (bundle_edges ps))"
  proof (rule inj_onI)
    fix a b assume ab: "a \<in> Field (bundle_edges ps)" "b \<in> Field (bundle_edges ps)" "f a = f b"
    have "x \<in> bundle_reference ` set ps" if "x \<in> Field (bundle_edges ps)" for x
      using that v(2) by (auto simp: Field_def bundle_edges_def)
    then obtain i j where "i < length ps" "a = bundle_reference (ps ! i)" "j < length ps" "b = bundle_reference (ps ! j)"
      using ab(1,2) by (metis imageE in_set_conv_nth)
    then show "a = b" using ab(3) f by simp
  qed
  ultimately have "acyclic (profile_edges items)"
    using acyclic_image[OF v(3)] acyclic_subset by blast
  moreover have "items \<noteq> []" using v(1) len by auto
  ultimately show ?thesis using ids as closed by blast
qed

lemma list_all2_snd: "list_all2 P xs ys \<Longrightarrow> y \<in> set ys \<Longrightarrow> \<exists>x. P x y"
  by (auto simp: list_all2_conv_all_nth in_set_conv_nth)

text \<open>
  C15: the profiles of an imported bundle carry the identifiers voya-import-1, voya-import-2 and so on in
  order, every child of a group is one of them, no group reaches itself, a group has children
  or takes over the subscription of the import, and every node has a valid address, a valid
  port and credentials.
\<close>

theorem imported_bundle_closed:
  assumes "parse_voya_profile_bundle X input subscription = Inr items"
  shows "items \<noteq> [] \<and> map index_id items = map import_id [0..<length items]
     \<and> (\<forall>item \<in> set items. set (child_profile_ids (protocol item)) \<subseteq> index_id ` set items)
     \<and> acyclic (profile_edges items)
     \<and> (\<forall>item \<in> set items.
          if is_group_type (config_type item)
          then child_profile_ids (protocol item) \<noteq> []
            \<or> (\<exists>f s. trim subscription \<noteq> [] \<and> protocol item = Pp_PolicyGroup [] (Some (trim subscription)) f s)
          else importable (config_type item) (item\<lparr>index_id := []\<rparr>))"
proof -
  obtain bdl where b: "import_bundle X subscription bdl = Inr items"
    using assms by (auto simp: parse_voya_profile_bundle_def split: option.splits sum.splits if_split_asm)
  note spec = import_bundle_spec[OF b]
  have "if is_group_type (config_type item)
          then child_profile_ids (protocol item) \<noteq> []
            \<or> (\<exists>f s. trim subscription \<noteq> [] \<and> protocol item = Pp_PolicyGroup [] (Some (trim subscription)) f s)
          else importable (config_type item) (item\<lparr>index_id := []\<rparr>)" if "item \<in> set items" for item
  proof -
    have "list_all2 (imported_as subscription (bundle_id_map (bundle_profiles bdl))) (bundle_profiles bdl) items"
      using spec by blast
    from list_all2_snd[OF this that] obtain entry
      where "imported_as subscription (bundle_id_map (bundle_profiles bdl)) entry item" by blast
    then show ?thesis
      by (auto simp: imported_as_def link_types_def is_group_type_def split: voya_bundle_profile.splits)
  qed
  then show ?thesis using spec by blast
qed

text \<open>What the sample becomes: the link is parsed with the sample parsers.\<close>

definition sample_node :: profile_item where
  "sample_node = default_profile
     \<lparr>remarks := [], protocol := Pp_Trojan \<lparr>se_address = ''a.example'', se_port = 443\<rparr> ''secret'',
      transport := Some (Pt_Tcp (Some ''none'') None None), tls := None\<rparr>"

lemma sample_link: "parse_share_link (sample_externals b) ''trojan://secret@a.example:443'' = Inr sample_node"
  by code_simp

text \<open>
  C16: What a share link of any format is imported as is a node of one of the ten protocols with
  a valid host, a port from 1 to 65535 and its credentials, without identity and subscription,
  whatever the input and whatever the parsers of the libraries answer.
\<close>

theorem imported_profile_valid:
  assumes "parse_share_link X input = Inr item"
  shows "config_type item \<in> link_types \<and> index_id item = [] \<and> subscription_id item = None
     \<and> valid_host (address item) \<and> 1 \<le> port item \<and> port item \<le> 65535
     \<and> (config_type item = Ct_SOCKS \<or> password item \<noteq> [])
     \<and> (config_type item \<noteq> Ct_TUIC \<or> username item \<noteq> [])"
  using parse_share_link_importable[OF assms] by (auto simp: importable_def valid_port_def)

lemma imported_profile_valid_witness:
  "parse_share_link (sample_externals None) ''trojan://secret@a.example:443'' = Inr sample_node
     \<and> valid_host (address sample_node) \<and> 1 \<le> port sample_node"
  using imported_profile_valid[OF sample_link] sample_link by blast

lemma imported_bundle_closed_witness:
  "\<exists>items. parse_voya_profile_bundle (sample_externals (Some sample_bundle)) ''voya://profiles/v1/e30'' [] = Inr items
     \<and> length items = 3 \<and> acyclic (profile_edges items)"
proof -
  have "(case parse_voya_profile_bundle (sample_externals (Some sample_bundle)) ''voya://profiles/v1/e30'' [] of
      Inr items \<Rightarrow> length items = 3 | Inl e \<Rightarrow> False)" by code_simp
  then obtain items where i: "parse_voya_profile_bundle (sample_externals (Some sample_bundle))
      ''voya://profiles/v1/e30'' [] = Inr items" and l: "length items = 3"
    by (auto split: sum.splits)
  from imported_bundle_closed[OF i] show ?thesis using i l by blast
qed

end
