(* ===== verification/LinkRows.thy ===== *)
theory LinkRows
  imports Base64Text ShareProps
begin

text \<open>
  The queries of the URI formats as rows of optional texts: what the exporters push, what the
  parsers look up, and what TLS and transport settings are after a link.
\<close>

section \<open>Rows\<close>

text \<open>A row names the entries of a query and their texts before encoding; absent ones are left out.\<close>

type_synonym row = "(string \<times> string option) list"

fun query_row :: "row \<Rightarrow> query_pairs" where
  "query_row [] = []"
| "query_row ((k, v) # r) = query_entry k (map_option url_encode v) @ query_row r"

fun plain_row :: "row \<Rightarrow> query_pairs" where
  "plain_row [] = []"
| "plain_row ((k, v) # r) = query_entry k v @ plain_row r"

definition row_ok :: "row \<Rightarrow> bool" where
  "row_ok r \<longleftrightarrow>
     list_all (\<lambda>kv. list_all unreserved (fst kv) \<and> pred_option is_utf8 (snd kv)) r
     \<and> distinct (map (to_ascii_lowercase \<circ> fst) r)"

lemma query_row_append: "query_row (a @ b) = query_row a @ query_row b"
  by (induction a rule: query_row.induct) simp_all

lemma entry_decode:
  "percent_laws X \<Longrightarrow> pred_option is_utf8 v \<Longrightarrow> map (apsnd (url_decode X)) (query_entry k (map_option url_encode v)) = query_entry k v"
  by (cases v) (simp_all add: query_entry_def)

lemma query_row_decode:
  "percent_laws X \<Longrightarrow> row_ok r \<Longrightarrow> map (apsnd (url_decode X)) (query_row r) = plain_row r"
  by (induction r rule: query_row.induct) (auto simp: row_ok_def entry_decode)

lemma query_row_keys: "set (map lower_key (query_row r)) \<subseteq> set (map (to_ascii_lowercase \<circ> fst) r)"
  by (induction r rule: query_row.induct) (auto simp: query_entry_def lower_key_def split: option.splits)

lemma query_row_printable: "row_ok r \<Longrightarrow> printable_query (query_row r)"
proof (induction r rule: query_row.induct)
  case (2 k v r)
  have IH: "printable_query (query_row r)" using 2 by (simp add: row_ok_def)
  have "to_ascii_lowercase k \<notin> set (map lower_key (query_row r))"
    using "2.prems" query_row_keys[of r] by (auto simp: row_ok_def)
  then show ?case
    using IH "2.prems" url_encode_link
    by (cases v) (auto simp: printable_query_def query_entry_def lower_key_def row_ok_def)
qed (simp add: printable_query_def)

section \<open>Pushing entries\<close>

lemma url_encode_unreserved: "list_all unreserved v \<Longrightarrow> url_encode v = v"
  by (induction v) (simp_all add: url_encode_def encode_char_def)

lemma push_raw: "list_all unreserved v \<Longrightarrow> query_row r @ [(k, v)] = query_row (r @ [(k, Some v)])"
  by (simp add: query_row_append query_entry_def url_encode_unreserved)

lemma push_encoded: "query_row r @ [(k, url_encode v)] = query_row (r @ [(k, Some v)])"
  by (simp add: query_row_append query_entry_def)

lemma push_absent: "query_row r = query_row (r @ [(k, None)])"
  by (simp add: query_row_append query_entry_def)

lemma push_encoded_str_row: "push_encoded_str k v (query_row r) = query_row (r @ [(k, nonempty v)])"
  by (simp add: push_encoded_str_def query_row_append query_entry_def nonempty_def)

lemma nonempty_option_cases: "nonempty_option v = None \<or> (\<exists>s. v = Some s \<and> s \<noteq> [] \<and> nonempty_option v = Some s)"
  by (cases v) (auto simp: nonempty_option_def opt_filter_def)

lemma push_encoded_opt_row: "push_encoded_opt k v (query_row r) = query_row (r @ [(k, nonempty_option v)])"
  by (simp add: push_encoded_opt_def query_row_append query_entry_def split: option.split)

lemma show_int_unreserved: "0 < n \<Longrightarrow> list_all unreserved (show_int n)"
proof -
  assume "0 < n"
  moreover have "list_all unreserved (show_nat m)" for m
    using show_nat_digits[of m] by (rule list.pred_mono_strong) (simp add: unreserved_def is_ascii_alphanumeric_def)
  ultimately show ?thesis by (simp add: show_int_def)
qed

lemmas push_rows = push_encoded_str_row push_encoded_opt_row push_encoded push_raw

lemma plain_row_append [simp]: "plain_row (a @ b) = plain_row a @ plain_row b"
  by (induction a rule: plain_row.induct) simp_all

lemma nonempty_option_alt: "nonempty_option v = nonempty (unwrap_or v [])"
  by (cases v) (auto simp: nonempty_option_def nonempty_def opt_filter_def)

lemma unwrap_nonempty [simp]: "unwrap_or (nonempty v) [] = v"
  by (simp add: nonempty_def)

lemma nonempty_unwrap_option [simp]: "nonempty (unwrap_or (nonempty_option v) []) = nonempty_option v"
  by (simp add: nonempty_option_alt)

section \<open>Texts that links carry\<close>

text \<open>
  The parsers decode most fields twice, so a field that has a percent sign is not read back;
  items of lists must not have the separators of the list.
\<close>

definition link_text :: "string \<Rightarrow> bool" where
  "link_text s \<longleftrightarrow> is_utf8 s \<and> CHR 0x25 \<notin> set s"

definition link_items :: "string list \<Rightarrow> bool" where
  "link_items xs \<longleftrightarrow>
     link_text (join_with '','' xs)
     \<and> list_all (\<lambda>x. x \<noteq> [] \<and> list_all (\<lambda>c. \<not> is_comma c \<and> \<not> is_newline c) x) xs"

lemma link_text_Nil [simp]: "link_text []"
  by (simp add: link_text_def)

lemma link_text_utf8: "link_text s \<Longrightarrow> is_utf8 s"
  by (simp add: link_text_def)

lemma url_decode_text [simp]: "percent_laws X \<Longrightarrow> link_text s \<Longrightarrow> url_decode X s = s"
  by (simp add: link_text_def)

lemma unreserved_text: "list_all unreserved s \<Longrightarrow> link_text s"
  using unreserved_utf8 by (simp add: link_text_def)

lemma pred_nonempty [simp]: "pred_option P (nonempty v) \<longleftrightarrow> v = [] \<or> P v"
  by (simp add: nonempty_def)

lemma pred_nonempty_option: "pred_option P v \<Longrightarrow> pred_option P (nonempty_option v)"
  by (cases v) (auto simp: nonempty_option_def opt_filter_def)

lemma unwrap_text: "pred_option link_text v \<Longrightarrow> link_text (unwrap_or v [])"
  by (cases v) auto

lemma split_csv_join:
  assumes "link_items xs" shows "split_csv (join_with '','' xs) = xs"
proof (cases "xs = []")
  case True
  then show ?thesis by (simp add: split_csv_def)
next
  case False
  have items: "\<forall>x \<in> set xs. x \<noteq> [] \<and> (\<forall>c \<in> set x. \<not> is_comma c \<and> \<not> is_newline c)"
    using assms by (auto simp: link_items_def list_all_iff)
  have chars: "c \<in> set (join_with '','' ys) \<Longrightarrow> c = CHR '','' \<or> (\<exists>x \<in> set ys. c \<in> set x)" for c ys
    by (induction "'',''" ys rule: join_with.induct) auto
  have "\<not> is_newline (CHR '','')" by (simp add: is_newline_def)
  then have "\<forall>c \<in> set (join_with '','' xs). \<not> is_newline c" using chars items by blast
  then have "filter (\<lambda>c. \<not> is_newline c) (join_with '','' xs) = join_with '','' xs"
    by (simp only: filter_id_conv)
  moreover have "split_on is_comma (join_with '','' xs) = xs"
    unfolding is_comma_def[abs_def] by (rule split_join[OF False]) (use items in \<open>auto simp: is_comma_def\<close>)
  moreover have "filter (\<lambda>item. item \<noteq> []) xs = xs" unfolding filter_id_conv using items by blast
  ultimately show ?thesis by (simp only: split_csv_def)
qed

section \<open>What a link makes of TLS and transport\<close>

text \<open>JSON texts are printed compactly and read back pretty; empty ones are lost.\<close>

definition link_json :: "share_externals \<Rightarrow> string option \<Rightarrow> string option" where
  "link_json X v =
     map_option (pretty_json_or_self X)
       (nonempty (unwrap_or (map_option (compact_json_or_self X) (nonempty_option v)) []))"

definition link_json_ready :: "share_externals \<Rightarrow> string option \<Rightarrow> bool" where
  "link_json_ready X v \<longleftrightarrow> pred_option (\<lambda>s. link_text (compact_json_or_self X s)) v"

text \<open>The certificate does not travel, ALPN only with plain TLS; empty texts become absent.\<close>

definition link_tls :: "share_externals \<Rightarrow> tls_settings \<Rightarrow> tls_settings" where
  "link_tls X t =
     \<lparr>tls_mode = tls_mode t, tls_server_name = nonempty_option (tls_server_name t),
      tls_alpn = (if tls_mode t = Tls_Tls then tls_alpn t else []),
      reality_public_key = nonempty_option (reality_public_key t),
      reality_short_id = nonempty_option (reality_short_id t),
      reality_spider_x = nonempty_option (reality_spider_x t),
      mldsa65_verify = nonempty_option (mldsa65_verify t), certificate_pem = None,
      certificate_sha256 = certificate_sha256 t, ech_config = ech_config t,
      final_mask = link_json X (final_mask t)\<rparr>"

definition tls_ready :: "share_externals \<Rightarrow> tls_settings \<Rightarrow> bool" where
  "tls_ready X t \<longleftrightarrow>
     pred_option link_text (tls_server_name t) \<and> pred_option link_text (reality_public_key t)
     \<and> pred_option link_text (reality_short_id t) \<and> pred_option link_text (reality_spider_x t)
     \<and> pred_option link_text (mldsa65_verify t)
     \<and> link_items (tls_alpn t) \<and> link_items (ech_config t) \<and> link_items (certificate_sha256 t)
     \<and> link_json_ready X (final_mask t)"

text \<open>Missing headers, paths and modes are filled in; HTTP/2 and QUIC do not travel.\<close>

definition default_mode :: "string option \<Rightarrow> string" where
  "default_mode mode = unwrap_or (opt_filter (\<lambda>m. m = GRPC_GUN_MODE \<or> m = GRPC_MULTI_MODE) mode) GRPC_GUN_MODE"

fun link_transport :: "share_externals \<Rightarrow> profile_transport option \<Rightarrow> profile_transport" where
  "link_transport X (Some (Pt_Tcp header host path)) =
     Pt_Tcp (Some (option_or header NONE)) (nonempty_option host) (nonempty_option path)"
| "link_transport X (Some (Pt_Kcp header seed mtu)) =
     Pt_Kcp (Some (option_or header NONE)) (nonempty_option seed) (opt_filter (\<lambda>v. 0 < v) mtu)"
| "link_transport X (Some (Pt_Websocket host path)) =
     Pt_Websocket (nonempty_option host) (Some (option_or path ''/''))"
| "link_transport X (Some (Pt_HttpUpgrade host path)) =
     Pt_HttpUpgrade (nonempty_option host) (Some (option_or path ''/''))"
| "link_transport X (Some (Pt_Xhttp host path mode extra)) =
     Pt_Xhttp (nonempty_option host) (Some (option_or path ''/'')) (opt_filter (\<lambda>m. m \<in> set XHTTP_MODES) mode)
       (link_json X extra)"
| "link_transport X (Some (Pt_Grpc authority service_name mode)) =
     (if nonempty_option service_name = None then Pt_Grpc None None (Some GRPC_GUN_MODE)
      else Pt_Grpc (nonempty_option authority) (nonempty_option service_name) (Some (default_mode mode)))"
| "link_transport X _ = Pt_Tcp (Some NONE) None None"

fun transport_ready :: "share_externals \<Rightarrow> profile_transport option \<Rightarrow> bool" where
  "transport_ready X (Some (Pt_Tcp header host path)) \<longleftrightarrow>
     list_all unreserved (option_or header NONE) \<and> pred_option link_text host \<and> pred_option link_text path"
| "transport_ready X (Some (Pt_Kcp header seed mtu)) \<longleftrightarrow>
     list_all unreserved (option_or header NONE) \<and> pred_option link_text seed
     \<and> pred_option (\<lambda>m. m \<le> 2147483647) mtu"
| "transport_ready X (Some (Pt_Websocket host path)) \<longleftrightarrow> pred_option link_text host \<and> pred_option link_text path"
| "transport_ready X (Some (Pt_HttpUpgrade host path)) \<longleftrightarrow> pred_option link_text host \<and> pred_option link_text path"
| "transport_ready X (Some (Pt_Xhttp host path mode extra)) \<longleftrightarrow>
     pred_option link_text host \<and> pred_option link_text path \<and> link_json_ready X extra"
| "transport_ready X (Some (Pt_Grpc authority service_name mode)) \<longleftrightarrow>
     pred_option link_text authority \<and> pred_option link_text service_name"
| "transport_ready X _ \<longleftrightarrow> True"

section \<open>The row of an exporter\<close>

definition tls_row :: "share_externals \<Rightarrow> tls_settings \<Rightarrow> row" where
  "tls_row X t =
     [(''sni'', nonempty_option (tls_server_name t)), (''pbk'', nonempty_option (reality_public_key t)),
      (''sid'', nonempty_option (reality_short_id t)), (''spx'', nonempty_option (reality_spider_x t)),
      (''pqv'', nonempty_option (mldsa65_verify t)),
      (''alpn'', if tls_mode t = Tls_Tls then nonempty (join_with '','' (tls_alpn t)) else None),
      (''ech'', nonempty (join_with '','' (ech_config t))),
      (''pcs'', nonempty (join_with '','' (certificate_sha256 t))),
      (''fm'', map_option (compact_json_or_self X) (nonempty_option (final_mask t)))]"

fun transport_row :: "share_externals \<Rightarrow> profile_transport option \<Rightarrow> row" where
  "transport_row X (Some (Pt_Tcp header host path)) =
     [(''headerType'', Some (option_or header NONE)), (''host'', nonempty_option host),
      (''path'', nonempty_option path)]"
| "transport_row X (Some (Pt_Kcp header seed mtu)) =
     [(''headerType'', Some (option_or header NONE)), (''seed'', nonempty_option seed),
      (''mtu'', map_option show_int (opt_filter (\<lambda>v. 0 < v) mtu))]"
| "transport_row X (Some (Pt_Websocket host path)) = [(''host'', nonempty_option host), (''path'', nonempty_option path)]"
| "transport_row X (Some (Pt_HttpUpgrade host path)) = [(''host'', nonempty_option host), (''path'', nonempty_option path)]"
| "transport_row X (Some (Pt_Xhttp host path mode extra)) =
     [(''host'', nonempty_option host), (''path'', nonempty_option path),
      (''mode'', opt_filter (\<lambda>m. m \<in> set XHTTP_MODES) mode),
      (''extra'', map_option (compact_json_or_self X) (nonempty_option extra))]"
| "transport_row X (Some (Pt_Grpc authority service_name mode)) =
     (if nonempty_option service_name = None then []
      else [(''authority'', Some (unwrap_or authority [])), (''serviceName'', Some (unwrap_or service_name [])),
            (''mode'', opt_filter (\<lambda>m. m = GRPC_GUN_MODE \<or> m = GRPC_MULTI_MODE) mode)])"
| "transport_row X _ = []"

fun link_network :: "profile_transport option \<Rightarrow> string" where
  "link_network (Some (Pt_Kcp header seed mtu)) = ''kcp''"
| "link_network (Some (Pt_Websocket host path)) = ''ws''"
| "link_network (Some (Pt_HttpUpgrade host path)) = ''httpupgrade''"
| "link_network (Some (Pt_Xhttp host path mode extra)) = ''xhttp''"
| "link_network (Some (Pt_Grpc authority service_name mode)) = ''grpc''"
| "link_network _ = ''raw''"

definition security_text :: "profile_item \<Rightarrow> string option \<Rightarrow> string option" where
  "security_text item d = or_else (nonempty (stream_security item)) d"

definition uri_row :: "share_externals \<Rightarrow> profile_item \<Rightarrow> string option \<Rightarrow> row" where
  "uri_row X item d =
     (''security'', security_text item d) # (case tls item of Some t \<Rightarrow> tls_row X t | None \<Rightarrow> [])
     @ (''type'', Some (if link_network (transport item) = ''raw'' then RAW_NETWORK_ALIAS
                        else link_network (transport item)))
     # transport_row X (transport item)"

lemma item_network_link: "item_network item = link_network (transport item)"
proof -
  have t: "trim ''kcp'' = ''kcp''" "trim ''ws'' = ''ws''" "trim ''httpupgrade'' = ''httpupgrade''"
    "trim ''xhttp'' = ''xhttp''" "trim ''grpc'' = ''grpc''" "trim ''raw'' = ''raw''"
    by (code_simp)+
  show ?thesis
  proof (cases "transport item")
    case (Some tr)
    then show ?thesis by (cases tr) (simp_all add: item_network_def network_def NETWORKS_def DEFAULT_NETWORK_def t)
  qed (simp add: item_network_def network_def DEFAULT_NETWORK_def)
qed

lemma query_entry_simps [simp]: "query_entry k (Some v) = [(k, v)]" "query_entry k None = []"
  by (simp_all add: query_entry_def)

lemma push_option: "(case v of Some s \<Rightarrow> q @ [(k, url_encode (f s))] | None \<Rightarrow> q)
    = q @ query_entry k (map_option url_encode (map_option f v))"
  by (cases v) simp_all

lemma push_number: "(case opt_filter (\<lambda>v. 0 < v) m of Some m \<Rightarrow> q @ [(k, show_int m)] | None \<Rightarrow> q)
    = q @ query_entry k (map_option url_encode (map_option show_int (opt_filter (\<lambda>v. 0 < v) m)))"
  by (cases m) (simp_all add: opt_filter_def url_encode_unreserved show_int_unreserved)

lemma push_filtered:
  "(case nonempty_option mode of
      Some m \<Rightarrow> (if P m then q @ [(k, url_encode m)] else q) | None \<Rightarrow> q)
   = q @ query_entry k (map_option url_encode (opt_filter P mode))" if "\<not> P []"
  using that by (cases mode) (auto simp: nonempty_option_def opt_filter_def)

lemmas query_row_of = query_row_append query_row.simps append_assoc append_Nil2 append_Nil

lemma push_tls_row: "push_tls X t (query_row r) = query_row (r @ tls_row X t)"
  unfolding push_tls_def Let_def push_encoded_str_entry push_option tls_row_def query_row_of
    nonempty_option_alt by simp

lemma push_security_row: "push_security item d q = q @ query_entry ''security'' (security_text item d)"
  by (simp add: push_security_def security_text_def nonempty_def split: option.split)

lemma push_transport_row:
  assumes "transport_ready X tr"
  shows "push_transport X (link_network tr) tr (query_row r) = query_row (r @ transport_row X tr)"
proof -
  have modes: "[] \<notin> set XHTTP_MODES" "\<not> ([] = GRPC_GUN_MODE \<or> [] = GRPC_MULTI_MODE)"
    by (simp_all add: XHTTP_MODES_def GRPC_GUN_MODE_def GRPC_MULTI_MODE_def)
  note rules = push_encoded_opt_entry push_option push_number push_filtered[of "\<lambda>m. m \<in> set XHTTP_MODES", OF modes(1)]
    push_filtered[of "\<lambda>m. m = GRPC_GUN_MODE \<or> m = GRPC_MULTI_MODE", OF modes(2)] query_row_of
  show ?thesis
    using assms
    by (cases "(X, tr)" rule: transport_row.cases)
      (simp_all add: push_transport_def rules url_encode_unreserved Let_def del: map_option_eq_Some)
qed

lemma to_uri_query_row:
  assumes "transport_ready X (transport item)" and "pred_option (list_all unreserved) d"
  shows "to_uri_query X item d (query_row r) = query_row (r @ uri_row X item d)"
proof -
  have "pred_option (list_all unreserved) (security_text item d)"
    using assms(2) by (auto simp: security_text_def stream_security_def nonempty_def unreserved_def
        is_ascii_alphanumeric_def is_ascii_alphabetic_def is_ascii_lower_def split: option.splits tls_mode.splits)
  then have s: "push_security item d (query_row r) = query_row (r @ [(''security'', security_text item d)])"
    by (cases "security_text item d")
      (simp_all add: push_security_row query_row_append url_encode_unreserved)
  have t: "(case tls item of Some t \<Rightarrow> push_tls X t (query_row q) | None \<Rightarrow> query_row q)
      = query_row (q @ (case tls item of Some t \<Rightarrow> tls_row X t | None \<Rightarrow> []))" for q
    by (simp add: push_tls_row split: option.split)
  have n: "list_all unreserved (if link_network tr = ''raw'' then RAW_NETWORK_ALIAS else link_network tr)" for tr
    by (cases "(X, tr)" rule: transport_row.cases)
      (simp_all add: RAW_NETWORK_ALIAS_def unreserved_def is_ascii_alphanumeric_def is_ascii_alphabetic_def
        is_ascii_lower_def)
  show ?thesis
    using push_transport_row[OF assms(1)] push_raw[OF n]
    by (simp add: to_uri_query_def s t item_network_link DEFAULT_NETWORK_def uri_row_def Let_def)
qed

section \<open>Keys\<close>

lemma lower_keys [simp]:
  "to_ascii_lowercase ''security'' = ''security''" "to_ascii_lowercase ''sni'' = ''sni''"
  "to_ascii_lowercase ''pbk'' = ''pbk''" "to_ascii_lowercase ''sid'' = ''sid''" "to_ascii_lowercase ''spx'' = ''spx''"
  "to_ascii_lowercase ''pqv'' = ''pqv''" "to_ascii_lowercase ''alpn'' = ''alpn''" "to_ascii_lowercase ''ech'' = ''ech''"
  "to_ascii_lowercase ''pcs'' = ''pcs''" "to_ascii_lowercase ''fm'' = ''fm''" "to_ascii_lowercase ''type'' = ''type''"
  "to_ascii_lowercase ''headerType'' = ''headertype''" "to_ascii_lowercase ''host'' = ''host''"
  "to_ascii_lowercase ''path'' = ''path''" "to_ascii_lowercase ''seed'' = ''seed''" "to_ascii_lowercase ''mtu'' = ''mtu''"
  "to_ascii_lowercase ''mode'' = ''mode''" "to_ascii_lowercase ''extra'' = ''extra''"
  "to_ascii_lowercase ''authority'' = ''authority''" "to_ascii_lowercase ''serviceName'' = ''servicename''"
  "to_ascii_lowercase ''encryption'' = ''encryption''" "to_ascii_lowercase ''flow'' = ''flow''"
  "to_ascii_lowercase ''obfs'' = ''obfs''" "to_ascii_lowercase ''obfs-password'' = ''obfs-password''"
  "to_ascii_lowercase ''mport'' = ''mport''" "to_ascii_lowercase ''pinSHA256'' = ''pinsha256''"
  "to_ascii_lowercase ''congestion_control'' = ''congestion_control''"
  "to_ascii_lowercase ''insecure-concurrency'' = ''insecure-concurrency''"
  "to_ascii_lowercase ''publickey'' = ''publickey''" "to_ascii_lowercase ''presharedkey'' = ''presharedkey''"
  "to_ascii_lowercase ''reserved'' = ''reserved''" "to_ascii_lowercase ''address'' = ''address''"
  "to_ascii_lowercase ''allowedips'' = ''allowedips''" "to_ascii_lowercase ''allowed_ips'' = ''allowed_ips''"
  by code_simp+

definition uri_keys :: "string list" where
  "uri_keys = [''security'', ''sni'', ''pbk'', ''sid'', ''spx'', ''pqv'', ''alpn'', ''ech'', ''pcs'', ''fm'', ''type'',
     ''headertype'', ''host'', ''path'', ''seed'', ''mtu'', ''mode'', ''extra'', ''authority'', ''servicename'']"

lemma plain_keys_ok: "list_all (list_all unreserved)
    [''security'', ''sni'', ''pbk'', ''sid'', ''spx'', ''pqv'', ''alpn'', ''ech'', ''pcs'', ''fm'', ''type'',
     ''headerType'', ''host'', ''path'', ''seed'', ''mtu'', ''mode'', ''extra'', ''authority'', ''serviceName'',
     ''encryption'', ''flow'', ''obfs'', ''obfs-password'', ''mport'', ''pinSHA256'', ''congestion_control'',
     ''insecure-concurrency'', ''publickey'', ''presharedkey'', ''reserved'', ''address'', ''allowedips'']"
  by code_simp

lemma uri_row_ok:
  assumes "pred_option (tls_ready X) (tls item)" and "transport_ready X (transport item)"
    and "pred_option is_utf8 d"
  shows "row_ok (uri_row X item d)" and "set (map (to_ascii_lowercase \<circ> fst) (uri_row X item d)) \<subseteq> set uri_keys"
proof -
  have sec: "pred_option is_utf8 (security_text item d)"
    using assms(3) unreserved_utf8[of "''tls''"] unreserved_utf8[of "''reality''"]
    by (auto simp: security_text_def stream_security_def nonempty_def unreserved_def is_ascii_alphanumeric_def
        is_ascii_alphabetic_def is_ascii_lower_def split: option.splits tls_mode.splits)
  have names: "is_utf8 (if link_network tr = ''raw'' then RAW_NETWORK_ALIAS else link_network tr)" for tr
    by (rule conjunct1[OF unreserved_utf8], cases "(X, tr)" rule: transport_row.cases)
      (simp_all add: RAW_NETWORK_ALIAS_def unreserved_def is_ascii_alphanumeric_def is_ascii_alphabetic_def
        is_ascii_lower_def)
  have opts: "pred_option is_utf8 (nonempty_option v)" if "pred_option link_text v" for v
    using that by (cases v) (auto simp: nonempty_option_def opt_filter_def link_text_def)
  have lists: "is_utf8 (join_with '','' xs)" if "link_items xs" for xs
    using that by (simp add: link_items_def link_text_def)
  have jsons: "pred_option is_utf8 (map_option (compact_json_or_self X) (nonempty_option v))" if "link_json_ready X v" for v
    using that by (cases v) (auto simp: nonempty_option_def opt_filter_def link_json_ready_def link_text_def)
  have t: "list_all (\<lambda>kv. list_all unreserved (fst kv) \<and> pred_option is_utf8 (snd kv)) (tls_row X s)" if "tls_ready X s" for s
    using that plain_keys_ok by (simp add: tls_row_def tls_ready_def opts lists jsons)
  have tk: "map (to_ascii_lowercase \<circ> fst) (tls_row X s)
      = [''sni'', ''pbk'', ''sid'', ''spx'', ''pqv'', ''alpn'', ''ech'', ''pcs'', ''fm'']" for s
    by (simp add: tls_row_def)
  have header: "is_utf8 (option_or h NONE)" if "list_all unreserved (option_or h NONE)" for h
    using that unreserved_utf8 by blast
  have mtu: "pred_option is_utf8 (map_option show_int (opt_filter (\<lambda>v. 0 < v) m))" for m
    using unreserved_utf8[OF show_int_unreserved] by (cases m) (auto simp: opt_filter_def)
  have filtered: "pred_option is_utf8 (opt_filter P m)" if "\<And>v. P v \<Longrightarrow> list_all unreserved v" for P m
    using that unreserved_utf8 by (cases m) (auto simp: opt_filter_def)
  have modes: "list_all unreserved v" if "v \<in> set XHTTP_MODES \<or> v = GRPC_GUN_MODE \<or> v = GRPC_MULTI_MODE" for v
    using that by (auto simp: XHTTP_MODES_def GRPC_GUN_MODE_def GRPC_MULTI_MODE_def unreserved_def
        is_ascii_alphanumeric_def is_ascii_alphabetic_def is_ascii_lower_def)
  have utf: "is_utf8 (unwrap_or v [])" if "pred_option link_text v" for v
    using that by (cases v) (auto simp: link_text_def)
  have r: "list_all (\<lambda>kv. list_all unreserved (fst kv) \<and> pred_option is_utf8 (snd kv)) (transport_row X (transport item))"
    using assms(2) plain_keys_ok
    by (cases "(X, transport item)" rule: transport_row.cases)
      (simp_all add: header mtu opts jsons utf filtered modes)
  have rk: "map (to_ascii_lowercase \<circ> fst) (transport_row X (transport item)) \<in>
      {[''headertype'', ''host'', ''path''], [''headertype'', ''seed'', ''mtu''], [''host'', ''path''],
       [''host'', ''path'', ''mode'', ''extra''], [], [''authority'', ''servicename'', ''mode'']}"
    by (cases "(X, transport item)" rule: transport_row.cases) simp_all
  show "row_ok (uri_row X item d)"
    unfolding row_ok_def
  proof
    show "list_all (\<lambda>kv. list_all unreserved (fst kv) \<and> pred_option is_utf8 (snd kv)) (uri_row X item d)"
      using sec names[of "transport item"] r t assms(1) plain_keys_ok by (cases "tls item") (simp_all add: uri_row_def)
    show "distinct (map (to_ascii_lowercase \<circ> fst) (uri_row X item d))"
      using rk tk unfolding uri_row_def by (cases "tls item") auto
  qed
  show "set (map (to_ascii_lowercase \<circ> fst) (uri_row X item d)) \<subseteq> set uri_keys"
    using rk tk unfolding uri_row_def uri_keys_def by (cases "tls item") auto
qed

section \<open>The settings a link is read as\<close>

lemma query_value_Cons [simp]:
  "query_value ((k, v) # q) w = (if to_ascii_lowercase k = to_ascii_lowercase w then Some v else query_value q w)"
  by (simp add: query_value_def eq_ignore_ascii_case_def)

lemma query_absent: "to_ascii_lowercase w \<notin> set (map (to_ascii_lowercase \<circ> fst) r) \<Longrightarrow> query_value (plain_row r) w = None"
  by (induction r rule: plain_row.induct) auto

text \<open>Rows of a format's own entries, which share no key with the common part.\<close>

definition own_row :: "row \<Rightarrow> bool" where
  "own_row r \<longleftrightarrow> set (map (to_ascii_lowercase \<circ> fst) r) \<inter> set uri_keys = {}"

lemma own_row_absent: "own_row r \<Longrightarrow> to_ascii_lowercase w \<in> set uri_keys \<Longrightarrow> query_value (plain_row r) w = None"
  by (rule query_absent) (auto simp: own_row_def)

lemma row_ok_append:
  assumes "row_ok a" "row_ok b" "set (map (to_ascii_lowercase \<circ> fst) a) \<inter> set (map (to_ascii_lowercase \<circ> fst) b) = {}"
  shows "row_ok (a @ b)"
  using assms by (simp add: row_ok_def)

lemma transport_row_keys:
  "set (map (to_ascii_lowercase \<circ> fst) (transport_row X tr))
     \<subseteq> {''headertype'', ''host'', ''path'', ''seed'', ''mtu'', ''mode'', ''extra'', ''authority'', ''servicename''}"
  by (cases "(X, tr)" rule: transport_row.cases) simp_all

lemma uri_row_tls_values:
  fixes X :: share_externals and item :: profile_item and d :: "string option"
  assumes "own_row pre" "own_row post"
  defines "q \<equiv> plain_row (pre @ uri_row X item d @ post)"
  shows "query_value q ''security'' = security_text item d"
    "query_value q ''type'' = Some (if link_network (transport item) = ''raw'' then RAW_NETWORK_ALIAS
       else link_network (transport item))"
    "k \<in> set [''sni'', ''pbk'', ''sid'', ''spx'', ''pqv'', ''alpn'', ''ech'', ''pcs'', ''fm''] \<Longrightarrow>
       query_value q k = (case tls item of Some t \<Rightarrow> query_value (plain_row (tls_row X t)) k | None \<Rightarrow> None)"
proof -
  have none: "query_value (plain_row (transport_row X tr)) k = None"
    if "k \<in> set [''security'', ''type'', ''sni'', ''pbk'', ''sid'', ''spx'', ''pqv'', ''alpn'', ''ech'', ''pcs'', ''fm'']" for tr k
    by (rule query_absent, rule contra_subsetD[OF transport_row_keys]) (use that in auto)
  have t: "query_value (plain_row (tls_row X t)) ''security'' = None" "query_value (plain_row (tls_row X t)) ''type'' = None" for t
    by (rule query_absent, simp add: tls_row_def)+
  have own: "query_value (plain_row pre) k = None" "query_value (plain_row post) k = None"
    if "k \<in> set [''security'', ''type'', ''sni'', ''pbk'', ''sid'', ''spx'', ''pqv'', ''alpn'', ''ech'', ''pcs'', ''fm'']" for k
    by (rule own_row_absent[OF assms(1)] own_row_absent[OF assms(2)]; use that in \<open>auto simp: uri_keys_def\<close>)+
  have or_None: "or_else v None = v" for v :: "'a option" by (cases v) simp_all
  show "query_value q ''security'' = security_text item d"
    by (cases "tls item") (simp_all add: q_def uri_row_def own none t or_None)
  show "query_value q ''type'' = Some (if link_network (transport item) = ''raw'' then RAW_NETWORK_ALIAS
       else link_network (transport item))"
    by (cases "tls item") (simp_all add: q_def uri_row_def own none t)
  show "query_value q k = (case tls item of Some t \<Rightarrow> query_value (plain_row (tls_row X t)) k | None \<Rightarrow> None)"
    if k: "k \<in> set [''sni'', ''pbk'', ''sid'', ''spx'', ''pqv'', ''alpn'', ''ech'', ''pcs'', ''fm'']"
  proof -
    have "to_ascii_lowercase ''security'' \<noteq> to_ascii_lowercase k" "to_ascii_lowercase ''type'' \<noteq> to_ascii_lowercase k"
      using k by auto
    moreover have "k \<in> set [''security'', ''type'', ''sni'', ''pbk'', ''sid'', ''spx'', ''pqv'', ''alpn'', ''ech'', ''pcs'', ''fm'']"
      using k by auto
    ultimately show ?thesis
      by (cases "tls item") (simp_all add: q_def uri_row_def own none or_None)
  qed
qed

lemma pretty_link_json:
  assumes "percent_laws X" "link_json_ready X v"
  shows "(let m = url_decode X (unwrap_or (map_option (compact_json_or_self X) (nonempty_option v)) [])
          in if m \<noteq> [] then Some (pretty_json_or_self X m) else None) = link_json X v"
  using assms
  by (cases v) (auto simp: link_json_def link_json_ready_def nonempty_option_def opt_filter_def nonempty_def Let_def)

lemma resolve_tls_row:
  assumes X: "percent_laws X" and own: "own_row pre" "own_row post"
    and ready: "pred_option (tls_ready X) (tls item)" and d: "d = None \<or> d = Some NONE"
  shows "resolve_tls X (plain_row (pre @ uri_row X item d @ post)) = map_option (link_tls X) (tls item)"
proof -
  define q where "q = plain_row (pre @ uri_row X item d @ post)"
  note v = uri_row_tls_values[OF own, where X = X and item = item and d = d, folded q_def]
  have "resolve_tls X q = map_option (link_tls X) (tls item)"
  proof (cases "tls item")
    case None
    then have n: "query_value q k = None"
      if "k \<in> set [''sni'', ''pbk'', ''sid'', ''spx'', ''pqv'', ''alpn'', ''ech'', ''pcs'', ''fm'']" for k
      using v(3)[OF that] by simp
    have "security_text item d = None \<or> security_text item d = Some NONE"
      using None d by (auto simp: security_text_def stream_security_def nonempty_def)
    then have "value_or q ''security'' [] \<noteq> STREAM_SECURITY_TLS" "value_or q ''security'' [] \<noteq> ''reality''"
      by (auto simp: value_or_def v(1) STREAM_SECURITY_TLS_def NONE_def)
    moreover have "\<not> has_tls_fields (query_tls X q Tls_Tls)"
      using X by (simp add: has_tls_fields_def query_tls_def value_or_def decoded_or_def n split_csv_def nonempty_def)
    ultimately show ?thesis by (simp add: resolve_tls_def Let_def None)
  next
    case (Some t)
    have r: "tls_ready X t" using ready Some by simp
    have k: "query_value q ''sni'' = nonempty_option (tls_server_name t)"
      "query_value q ''pbk'' = nonempty_option (reality_public_key t)"
      "query_value q ''sid'' = nonempty_option (reality_short_id t)"
      "query_value q ''spx'' = nonempty_option (reality_spider_x t)"
      "query_value q ''pqv'' = nonempty_option (mldsa65_verify t)"
      "query_value q ''alpn'' = (if tls_mode t = Tls_Tls then nonempty (join_with '','' (tls_alpn t)) else None)"
      "query_value q ''ech'' = nonempty (join_with '','' (ech_config t))"
      "query_value q ''pcs'' = nonempty (join_with '','' (certificate_sha256 t))"
      "query_value q ''fm'' = map_option (compact_json_or_self X) (nonempty_option (final_mask t))"
      by (simp_all add: v(3) Some tls_row_def or_else_def split: option.split)
    have s: "value_or q ''security'' [] = (case tls_mode t of Tls_Tls \<Rightarrow> ''tls'' | Tls_Reality \<Rightarrow> ''reality'')"
      by (simp add: value_or_def v(1) security_text_def stream_security_def Some nonempty_def split: tls_mode.split)
    have csv: "split_csv [] = []" by (simp add: split_csv_def)
    have readable: "link_text (unwrap_or (nonempty_option u) [])" if "pred_option link_text u" for u
      using unwrap_text[OF that] by (simp add: nonempty_option_alt)
    have "query_tls X q (tls_mode t) = link_tls X t"
      using r X unfolding query_tls_def link_tls_def tls_ready_def
      by (cases "tls_mode t")
        (simp_all add: value_or_def decoded_or_def k readable split_csv_join csv link_items_def
          pretty_link_json[unfolded Let_def])
    then show ?thesis
      by (cases "tls_mode t") (simp_all add: resolve_tls_def s Some STREAM_SECURITY_TLS_def)
  qed
  then show ?thesis by (simp only: q_def)
qed

lemma parse_i32_show: "0 \<le> n \<Longrightarrow> n \<le> 2147483647 \<Longrightarrow> parse_i32 (show_int n) = Some n"
proof -
  assume n: "0 \<le> n" "n \<le> 2147483647"
  obtain c cs where c: "show_nat (nat n) = c # cs" by (cases "show_nat (nat n)") auto
  have "c \<noteq> CHR ''-''" using show_nat_digits[of "nat n"] by (auto simp: c is_ascii_digit_def)
  moreover have "parse_unsigned 2147483647 (c # cs) = Some (nat n)"
    unfolding c[symmetric] by (rule parse_unsigned_show) (use n in simp)
  ultimately show ?thesis using n by (simp add: parse_i32_def show_int_def c)
qed

lemma resolve_transport_row:
  assumes X: "percent_laws X" and own: "own_row pre" "own_row post"
    and ready: "transport_ready X (transport item)"
  shows "resolve_transport X (plain_row (pre @ uri_row X item d @ post)) = link_transport X (transport item)"
proof -
  define q where "q = plain_row (pre @ uri_row X item d @ post)"
  note v = uri_row_tls_values[OF own, where X = X and item = item and d = d, folded q_def]
  let ?T = "plain_row (transport_row X (transport item))"
  have w: "query_value q k = query_value ?T k"
    if k: "k \<in> set [''headerType'', ''host'', ''path'', ''seed'', ''mtu'', ''mode'', ''extra'', ''authority'', ''serviceName'']" for k
  proof -
    have "query_value (plain_row pre) k = None" "query_value (plain_row post) k = None"
      by (rule own_row_absent[OF own(1)] own_row_absent[OF own(2)]; use k in \<open>auto simp: uri_keys_def\<close>)+
    moreover have "query_value (plain_row (tls_row X t)) k = None" for t
      by (rule query_absent) (use k in \<open>auto simp: tls_row_def\<close>)
    moreover have "to_ascii_lowercase k \<noteq> ''security''" "to_ascii_lowercase k \<noteq> ''type''"
      using k by auto
    moreover have "or_else v None = v" for v :: "'a option" by (cases v) simp_all
    ultimately show ?thesis by (cases "tls item") (simp_all add: q_def uri_row_def)
  qed
  have net: "resolve_network q = link_network (transport item)"
    by (cases "(X, transport item)" rule: transport_row.cases)
      (simp_all add: resolve_network_def value_or_def v(2) RAW_NETWORK_ALIAS_def DEFAULT_NETWORK_def NETWORKS_def)
  have readable: "link_text (unwrap_or (nonempty_option u) [])" if "pred_option link_text u" for u
    using unwrap_text[OF that] by (simp add: nonempty_option_alt)
  have header: "nonempty (option_or h NONE) = Some (option_or h NONE)" for h
    by (cases h) (auto simp: option_or_def nonempty_option_def opt_filter_def nonempty_def NONE_def)
  have path: "nonempty (url_decode X (unwrap_or (nonempty_option p) ''/'')) = Some (option_or p ''/'')"
    if "pred_option link_text p" for p
  proof -
    have "link_text ''/''" by (simp add: link_text_def is_utf8_def) code_simp
    then have "link_text (option_or p ''/'')"
      using that by (cases p) (auto simp: option_or_def nonempty_option_def opt_filter_def)
    moreover have "option_or p ''/'' \<noteq> []" by (cases p) (auto simp: option_or_def nonempty_option_def opt_filter_def)
    ultimately show ?thesis using X by (simp add: option_or_def nonempty_def)
  qed
  have mtu: "parse_positive_i32 (unwrap_or (map_option show_int (opt_filter (\<lambda>v. 0 < v) m)) []) = opt_filter (\<lambda>v. 0 < v) m"
    if "pred_option (\<lambda>m. m \<le> 2147483647) m" for m
  proof (cases m)
    case (Some n)
    have "parse_i32 (show_int n) = Some n" if "0 < n"
      using that Some \<open>pred_option _ m\<close> parse_i32_show by simp
    moreover have "parse_i32 [] = None" by (simp add: parse_i32_def)
    ultimately show ?thesis by (simp add: Some opt_filter_def parse_positive_i32_def)
  qed (simp add: opt_filter_def parse_positive_i32_def parse_i32_def)
  have filtered: "nonempty (url_decode X (unwrap_or (opt_filter P m) [])) = opt_filter P m"
    if "\<And>v. P v \<Longrightarrow> v \<noteq> [] \<and> list_all unreserved v" for P m
    using that unreserved_text X by (cases m) (auto simp: opt_filter_def nonempty_def)
  have modes: "v \<noteq> [] \<and> list_all unreserved v" if "v \<in> set XHTTP_MODES \<or> v = GRPC_GUN_MODE \<or> v = GRPC_MULTI_MODE" for v
    using that by (auto simp: XHTTP_MODES_def GRPC_GUN_MODE_def GRPC_MULTI_MODE_def unreserved_def
        is_ascii_alphanumeric_def is_ascii_alphabetic_def is_ascii_lower_def)
  have gun: "nonempty (url_decode X (unwrap_or (opt_filter (\<lambda>m. m = GRPC_GUN_MODE \<or> m = GRPC_MULTI_MODE) m) GRPC_GUN_MODE))
      = Some (default_mode m)" for m
  proof -
    have "default_mode m = GRPC_GUN_MODE \<or> default_mode m = GRPC_MULTI_MODE"
      by (cases m) (auto simp: default_mode_def opt_filter_def)
    then have "default_mode m \<noteq> []" "link_text (default_mode m)" using modes unreserved_text by auto
    then show ?thesis using X by (simp add: default_mode_def nonempty_def)
  qed
  have gun0: "nonempty (url_decode X GRPC_GUN_MODE) = Some GRPC_GUN_MODE"
    using modes[of GRPC_GUN_MODE] unreserved_text X by (simp add: nonempty_def)
  have named: "nonempty (url_decode X (unwrap_or u [])) = nonempty_option u" if "pred_option link_text u" for u
    using that X unwrap_text[OF that] by (simp add: nonempty_option_alt)
  have ends: "nonempty [] = None" "nonempty NONE = Some NONE" by (simp_all add: nonempty_def NONE_def)
  have or_None: "or_else u None = u" for u :: "string option" by (cases u) simp_all
  have "resolve_transport X q = link_transport X (transport item)"
    using ready X
    by (cases "(X, transport item)" rule: transport_row.cases)
      (simp_all add: resolve_transport_def net value_or_def decoded_or_def w readable header path mtu filtered modes gun gun0
        pretty_link_json[unfolded Let_def] Let_def or_None named ends)
  then show ?thesis by (simp only: q_def)
qed

end
