(* ===== verification/ShareLinks.thy ===== *)
theory ShareLinks
  imports LinkRows ShareSample
begin

text \<open>
  Links of the URI formats are read back as they were exported, up to what the formats do not
  carry: one lemma per format, and the statement for all of them.
\<close>

section \<open>What a profile becomes\<close>

fun link_protocol :: "profile_protocol \<Rightarrow> profile_protocol" where
  "link_protocol (Pp_Vless server uuid flow encryption) =
     Pp_Vless server uuid (nonempty_option flow) (Some (option_or encryption NONE))"
| "link_protocol (Pp_Hysteria2 server pw hops obfs) =
     Pp_Hysteria2 server pw (map_option colon_to_dash (nonempty_option hops)) (nonempty_option obfs)"
| "link_protocol (Pp_Tuic server uuid pw congestion) = Pp_Tuic server uuid pw (nonempty_option congestion)"
| "link_protocol (Pp_Naive server name pw quic congestion concurrency uot) =
     Pp_Naive server name pw quic None (opt_filter (\<lambda>v. 0 < v) concurrency) False"
| "link_protocol (Pp_WireGuard server key peer_key shared_key adr ips reserved mtu) =
     Pp_WireGuard server key (nonempty_option peer_key) (nonempty_option shared_key) (nonempty_option adr)
       (nonempty_option ips) (nonempty_option reserved) (opt_filter (\<lambda>v. 0 < v) mtu)"
| "link_protocol p = p"

text \<open>Hysteria 2 and TUIC carry the server name and ALPN only; without both, TLS is lost.\<close>

definition lite_tls :: "tls_settings \<Rightarrow> tls_settings option" where
  "lite_tls t =
     (if nonempty_option (tls_server_name t) = None \<and> tls_alpn t = [] then None
      else Some (default_tls_settings\<lparr>tls_server_name := nonempty_option (tls_server_name t), tls_alpn := tls_alpn t\<rparr>))"

definition link_image :: "share_externals \<Rightarrow> profile_item \<Rightarrow> profile_item" where
  "link_image X item =
     (let base = default_profile\<lparr>remarks := remarks item, protocol := link_protocol (protocol item)\<rparr>;
          bare = base\<lparr>tls := Option.bind (tls item) lite_tls, transport := Some (Pt_Tcp (Some NONE) None None)\<rparr>
      in case config_type item of
           Ct_Hysteria2 \<Rightarrow> add_pin (Option.bind (first_pin item) nonempty) bare
         | Ct_TUIC \<Rightarrow> bare
         | Ct_SOCKS \<Rightarrow> base
         | Ct_WireGuard \<Rightarrow> base
         | _ \<Rightarrow> base\<lparr>tls := map_option (link_tls X) (tls item),
                    transport := Some (link_transport X (transport item))\<rparr>)"

section \<open>Profiles that can travel\<close>

definition uri_ready :: "share_externals \<Rightarrow> profile_item \<Rightarrow> bool" where
  "uri_ready X item \<longleftrightarrow> pred_option (tls_ready X) (tls item) \<and> transport_ready X (transport item)"

definition lite_ready :: "profile_item \<Rightarrow> bool" where
  "lite_ready item \<longleftrightarrow>
     pred_option (\<lambda>t. pred_option link_text (tls_server_name t) \<and> link_items (tls_alpn t)) (tls item)"

definition i32_ready :: "i32 option \<Rightarrow> bool" where
  "i32_ready n \<longleftrightarrow> pred_option (\<lambda>n. n \<le> 2147483647) n"

fun protocol_ready :: "share_externals \<Rightarrow> profile_item \<Rightarrow> profile_protocol \<Rightarrow> bool" where
  "protocol_ready X item (Pp_Vless server uuid flow encryption) \<longleftrightarrow>
     is_utf8 uuid \<and> list_all unreserved (option_or flow []) \<and> list_all unreserved (option_or encryption NONE)
     \<and> uri_ready X item"
| "protocol_ready X item (Pp_Trojan server pw) \<longleftrightarrow> is_utf8 pw \<and> uri_ready X item"
| "protocol_ready X item (Pp_Anytls server pw) \<longleftrightarrow> is_utf8 pw \<and> uri_ready X item"
| "protocol_ready X item (Pp_Naive server name pw quic congestion concurrency uot) \<longleftrightarrow>
     is_utf8 name \<and> is_utf8 pw \<and> CHR '':'' \<notin> set name \<and> \<not> (name = [] \<and> CHR '':'' \<in> set pw)
     \<and> i32_ready concurrency \<and> uri_ready X item"
| "protocol_ready X item (Pp_Hysteria2 server pw hops obfs) \<longleftrightarrow>
     is_utf8 pw \<and> pred_option (\<lambda>h. link_text (colon_to_dash h)) hops \<and> pred_option link_text obfs
     \<and> pred_option link_text (first_pin item) \<and> lite_ready item"
| "protocol_ready X item (Pp_Tuic server uuid pw congestion) \<longleftrightarrow>
     is_utf8 (uuid @ '':'' @ pw) \<and> CHR '':'' \<notin> set uuid \<and> list_all unreserved (option_or congestion [])
     \<and> lite_ready item"
| "protocol_ready X item (Pp_Socks server name pw) \<longleftrightarrow>
     is_utf8 (name @ '':'' @ pw) \<and> CHR '':'' \<notin> set name \<and> length (name @ '':'' @ pw) \<le> base64_limit"
| "protocol_ready X item (Pp_WireGuard server key peer_key shared_key adr ips reserved mtu) \<longleftrightarrow>
     is_utf8 key \<and> pred_option link_text peer_key \<and> pred_option link_text shared_key
     \<and> pred_option link_text adr \<and> pred_option link_text ips \<and> pred_option link_text reserved \<and> i32_ready mtu"
| "protocol_ready X item p \<longleftrightarrow> False"

definition link_ready :: "share_externals \<Rightarrow> profile_item \<Rightarrow> bool" where
  "link_ready X item \<longleftrightarrow>
     link_host (address item) \<and> is_utf8 (remarks item) \<and> protocol_ready X item (protocol item)"

section \<open>The common part\<close>

definition share_laws :: "share_externals \<Rightarrow> bool" where
  "share_laws X \<longleftrightarrow> percent_laws X \<and> url_laws X \<and> base64_laws X"

lemma parse_exported:
  assumes "share_laws X" and "scheme \<in> share_schemes" "scheme \<in> set schemes"
    and "valid_port p" "link_host adr" "row_ok r" "is_utf8 remark" "is_utf8 user" "user \<noteq> []"
  shows "parse_uri_with_schemes X (scheme @ ''://'' @ to_uri_without_scheme adr p user (query_row r) remark) proto schemes
     = Inr \<lparr>pu_scheme = scheme, pu_address = adr, pu_port = p, pu_remarks = remark,
         pu_user_info = user, pu_query = plain_row r\<rparr>"
proof -
  have X: "percent_laws X" "url_laws X" using assms(1) by (simp_all add: share_laws_def)
  show ?thesis
    using parse_printed_uri[OF X assms(2,3,4,5) query_row_printable[OF assms(6)] assms(7), of "url_encode user" None proto]
      assms(8,9) X url_encode_link[of user] query_row_decode[OF X(1) assms(6)]
    by (simp add: to_uri_without_scheme_def)
qed

lemma exported_graphic:
  assumes "list_all link_char user" "pred_option (list_all link_char) pw" "valid_port p" "link_host adr" "row_ok r"
  shows "graphic (to_uri_without_scheme_preencoded_userinfo adr p
     (user @ (case pw of Some w \<Rightarrow> '':'' @ w | None \<Rightarrow> [])) (query_row r) remark)"
proof -
  have ch: "33 \<le> byte_of c \<and> byte_of c \<le> 126" if "query_char c \<or> host_char c \<or> is_ascii_digit c" for c
    using that by (auto simp: query_char_def link_char_def host_char_def unreserved_def is_ascii_alphanumeric_def
        is_ascii_alphabetic_def is_ascii_upper_def is_ascii_lower_def is_ascii_digit_def)
  have g: "graphic s" if "list_all (\<lambda>c. query_char c \<or> host_char c \<or> is_ascii_digit c) s" for s
    unfolding graphic_def using that by (rule list.pred_mono_strong) (rule ch)
  have link: "graphic s" if "list_all link_char s" for s
    by (rule g, rule list.pred_mono_strong[OF that]) (simp add: query_char_def)
  have query: "graphic (format_query (query_row r))"
  proof (cases "query_text (query_row r)")
    case (Some q)
    then have "list_all query_char q" using printable_query_chars[OF query_row_printable[OF assms(5)]] by simp
    then have "graphic q" by (intro g) (auto elim: list.pred_mono_strong)
    then show ?thesis by (simp add: format_query_text Some graphic_def)
  qed (simp add: format_query_text graphic_def)
  have "graphic adr" using assms(4) by (intro g) (auto simp: link_host_def elim: list.pred_mono_strong)
  moreover have "graphic (show_int p)"
    using assms(3) show_nat_digits[of "nat p"]
    by (intro g) (auto simp: show_int_def valid_port_def elim: list.pred_mono_strong)
  moreover have "graphic user" "graphic (case pw of Some w \<Rightarrow> '':'' @ w | None \<Rightarrow> [])"
    using assms(1,2) link by (auto simp: graphic_def split: option.splits)
  moreover have "graphic (url_encode remark)" by (rule link[OF url_encode_link])
  ultimately show ?thesis
    using query assms(4)
    by (simp add: to_uri_without_scheme_preencoded_userinfo_def link_host_def) (simp add: graphic_def)
qed

lemma exported_link:
  assumes "valid_port p" "link_host adr" "row_ok r"
  shows "graphic (to_uri_without_scheme adr p user (query_row r) remark)"
  using exported_graphic[OF url_encode_link[of user], of None p adr r remark] assms
  by (simp add: to_uri_without_scheme_def)

text \<open>The choice of the format.\<close>

lemma starts_ci_Cons: "starts_with_ci (c # s) (d # ps) \<longleftrightarrow> to_ascii_lower c = to_ascii_lower d \<and> starts_with_ci s ps"
  by (auto simp: starts_with_ci_def eq_ignore_ascii_case_def to_ascii_lowercase_def)

lemma starts_ci_Nil [simp]: "starts_with_ci s []"
  by (simp add: starts_with_ci_def eq_ignore_ascii_case_def)

lemma choose_format:
  assumes "graphic s"
  shows "parse_share_link X (''vless://'' @ s) = parse_vless X (''vless://'' @ s)"
    "parse_share_link X (''trojan://'' @ s) = parse_trojan X (''trojan://'' @ s)"
    "parse_share_link X (''anytls://'' @ s) = parse_anytls X (''anytls://'' @ s)"
    "parse_share_link X (''hysteria2://'' @ s) = parse_hysteria2 X (''hysteria2://'' @ s)"
    "parse_share_link X (''tuic://'' @ s) = parse_tuic X (''tuic://'' @ s)"
    "parse_share_link X (''naive+https://'' @ s) = parse_naive X (''naive+https://'' @ s)"
    "parse_share_link X (''naive+quic://'' @ s) = parse_naive X (''naive+quic://'' @ s)"
    "parse_share_link X (''socks://'' @ s) = parse_socks X (''socks://'' @ s)"
    "parse_share_link X (''wireguard://'' @ s) = parse_wireguard X (''wireguard://'' @ s)"
proof -
  have t: "trim (p @ s) = p @ s" if "graphic p" for p
    using that assms by (intro trim_graphic) simp
  note rules = parse_share_link_def t[unfolded graphic_def, simplified] starts_ci_Cons to_ascii_lower_def is_ascii_upper_def
    HYSTERIA2_DEFAULT_SCHEME_def HYSTERIA2_ALT_SCHEME_def NAIVE_HTTPS_SCHEME_def NAIVE_QUIC_SCHEME_def Let_def
  show "parse_share_link X (''vless://'' @ s) = parse_vless X (''vless://'' @ s)"
    using t[of "''vless://''"] by (simp add: rules graphic_def)
  show "parse_share_link X (''trojan://'' @ s) = parse_trojan X (''trojan://'' @ s)"
    using t[of "''trojan://''"] by (simp add: rules graphic_def)
  show "parse_share_link X (''anytls://'' @ s) = parse_anytls X (''anytls://'' @ s)"
    using t[of "''anytls://''"] by (simp add: rules graphic_def)
  show "parse_share_link X (''hysteria2://'' @ s) = parse_hysteria2 X (''hysteria2://'' @ s)"
    using t[of "''hysteria2://''"] by (simp add: rules graphic_def)
  show "parse_share_link X (''tuic://'' @ s) = parse_tuic X (''tuic://'' @ s)"
    using t[of "''tuic://''"] by (simp add: rules graphic_def)
  show "parse_share_link X (''naive+https://'' @ s) = parse_naive X (''naive+https://'' @ s)"
    using t[of "''naive+https://''"] by (simp add: rules graphic_def)
  show "parse_share_link X (''naive+quic://'' @ s) = parse_naive X (''naive+quic://'' @ s)"
    using t[of "''naive+quic://''"] by (simp add: rules graphic_def)
  show "parse_share_link X (''socks://'' @ s) = parse_socks X (''socks://'' @ s)"
    using t[of "''socks://''"] by (simp add: rules graphic_def)
  show "parse_share_link X (''wireguard://'' @ s) = parse_wireguard X (''wireguard://'' @ s)"
    using t[of "''wireguard://''"] by (simp add: rules graphic_def)
qed

section \<open>Formats with TLS and transport\<close>

lemma row_append_Nil: "query_row [] = []" "row_ok []" "own_row []"
  by (simp_all add: row_ok_def own_row_def)

lemma uri_row_full:
  assumes "uri_ready X item" "own_row r" "row_ok r" "d = None \<or> d = Some NONE"
  shows "row_ok (r @ uri_row X item d)"
proof (rule row_ok_append[OF assms(3)])
  have n: "is_utf8 NONE" by (simp add: NONE_def is_utf8_def) code_simp
  note u = uri_row_ok[of X item d]
  show "row_ok (uri_row X item d)" using assms(1,4) n by (intro u) (auto simp: uri_ready_def)
  have "set (map (to_ascii_lowercase \<circ> fst) (uri_row X item d)) \<subseteq> set uri_keys"
    using assms(1,4) n by (intro u) (auto simp: uri_ready_def)
  then show "set (map (to_ascii_lowercase \<circ> fst) r) \<inter> set (map (to_ascii_lowercase \<circ> fst) (uri_row X item d)) = {}"
    using assms(2) unfolding own_row_def by blast
qed

lemma resolve_uri_row:
  assumes "share_laws X" "uri_ready X item" "own_row pre" "own_row post" "d = None \<or> d = Some NONE"
  shows "resolve_uri_query X (plain_row (pre @ uri_row X item d @ post)) base
     = base\<lparr>tls := map_option (link_tls X) (tls item), transport := Some (link_transport X (transport item))\<rparr>"
  using assms resolve_tls_row[of X pre post item d] resolve_transport_row[of X pre post item d]
  by (simp add: resolve_uri_query_def share_laws_def uri_ready_def del: plain_row_append)

lemma to_uri_row:
  assumes "uri_ready X item" "d = None \<or> d = Some NONE"
  shows "to_uri_query X item d (query_row r) = query_row (r @ uri_row X item d)"
proof -
  have "list_all unreserved NONE" by (simp add: NONE_def unreserved_def is_ascii_alphanumeric_def
      is_ascii_alphabetic_def is_ascii_lower_def)
  then show ?thesis using assms by (intro to_uri_query_row) (auto simp: uri_ready_def)
qed

lemma uri_row_absent:
  assumes "uri_ready X item" "d = None \<or> d = Some NONE" "to_ascii_lowercase w \<notin> set uri_keys"
  shows "query_value (plain_row (uri_row X item d)) w = None"
proof (rule query_absent)
  have n: "is_utf8 NONE" by (simp add: NONE_def is_utf8_def) code_simp
  have "set (map (to_ascii_lowercase \<circ> fst) (uri_row X item d)) \<subseteq> set uri_keys"
    using assms(1,2) n by (intro uri_row_ok) (auto simp: uri_ready_def)
  then show "to_ascii_lowercase w \<notin> set (map (to_ascii_lowercase \<circ> fst) (uri_row X item d))"
    using assms(3) by blast
qed

lemma checked_ok:
  assumes "exportable proto t required item = Inr item0" "address item' = address item" "port item' = port item"
    "[] \<notin> snd ` set required'" "item' = result"
  shows "checked proto required' item' = Inr result"
  using assms by (simp add: checked_Inr exportable_Inr)

lemmas accessors = searchable_address_def address_def port_def password_def username_def config_type_def

lemma server_of:
  assumes "protocol_server (protocol item) = Some server"
  shows "\<lparr>se_address = address item, se_port = port item\<rparr> = server"
  using assms by (cases "protocol item") (simp_all add: accessors)

text \<open>The parts of a link of a profile.\<close>

definition parsed_link :: "string \<Rightarrow> profile_item \<Rightarrow> string \<Rightarrow> row \<Rightarrow> parsed_uri" where
  "parsed_link scheme item user r =
     \<lparr>pu_scheme = scheme, pu_address = address item, pu_port = port item, pu_remarks = remarks item,
      pu_user_info = user, pu_query = plain_row r\<rparr>"

lemma parsed_link_sel [simp]:
  "pu_scheme (parsed_link scheme item user r) = scheme" "pu_user_info (parsed_link scheme item user r) = user"
  "pu_query (parsed_link scheme item user r) = plain_row r"
  by (simp_all add: parsed_link_def)

lemma link_parsed:
  assumes "share_laws X" "link_ready X item" "exportable proto t required item = Inr item0"
    and "scheme \<in> share_schemes" "scheme \<in> set schemes" "row_ok r" "is_utf8 user" "user \<noteq> []"
    and link: "link = scheme @ ''://'' @ to_uri_without_scheme (address item) (port item) user (query_row r) (remarks item)"
  shows "parse_uri_with_schemes X link proto' schemes = Inr (parsed_link scheme item user r)"
  unfolding parsed_link_def link
  by (rule parse_exported) (use assms(1-8) in \<open>simp_all add: link_ready_def exportable_Inr\<close>)

lemma profile_of_link:
  assumes "protocol_server (protocol item) = Some server"
  shows "profile_from_uri t (parsed_link scheme item user r)
     = default_profile\<lparr>remarks := remarks item, protocol := empty_protocol t server\<rparr>"
  using server_of[OF assms] by (simp add: profile_from_uri_def parsed_link_def)

lemma trojan_roundtrip:
  assumes X: "share_laws X" and ready: "link_ready X item" and t: "config_type item = Ct_Trojan"
    and e: "export_share_link X item = Inr link"
  shows "parse_share_link X link = Inr (link_image X item)"
proof -
  obtain server pw where p: "protocol item = Pp_Trojan server pw"
    using t by (cases "protocol item") (simp_all add: config_type_def)
  have u: "uri_ready X item" "is_utf8 pw" "link_host (address item)" using ready by (simp_all add: link_ready_def p)
  define r where "r = uri_row X item None"
  have row: "row_ok r" using uri_row_full[OF u(1) row_append_Nil(3,2), of None] by (simp add: r_def)
  have x: "exportable ''trojan'' Ct_Trojan [(''password'', password item)] item = Inr item"
    and l: "link = ''trojan://'' @ to_uri_without_scheme (address item) (port item) pw (query_row r) (remarks item)"
    using e t to_uri_row[OF u(1), of None "[]"]
    by (auto simp: export_share_link_def export_trojan_def bind_ok_Inr exportable_Inr p password_def to_uri_def r_def)
  have pw: "pw \<noteq> []" and port: "valid_port (port item)" using x by (auto simp: exportable_Inr password_def p)
  have parsed: "parse_uri X link ''trojan'' = Inr (parsed_link ''trojan'' item pw r)"
    unfolding parse_uri_def by (rule link_parsed[OF X ready x]) (simp_all add: share_schemes_def row u(2) pw l)
  have base: "profile_from_uri Ct_Trojan (parsed_link ''trojan'' item pw r)
      = default_profile\<lparr>remarks := remarks item, protocol := Pp_Trojan server []\<rparr>"
    by (subst profile_of_link) (simp_all add: p)
  have res: "resolve_uri_query X (plain_row r) b = b\<lparr>tls := map_option (link_tls X) (tls item),
      transport := Some (link_transport X (transport item))\<rparr>" for b
    using resolve_uri_row[OF X u(1) row_append_Nil(3,3), of None b] by (simp add: r_def)
  have "parse_trojan X link = Inr (link_image X item)"
    unfolding parse_trojan_def parsed link_image_def
    by (simp add: base res t p Let_def) (rule checked_ok[OF x]; use pw in \<open>auto simp: accessors p\<close>)
  then show ?thesis unfolding l using choose_format(2)[OF exported_link[OF port u(3) row]] by simp
qed

lemma anytls_roundtrip:
  assumes X: "share_laws X" and ready: "link_ready X item" and t: "config_type item = Ct_Anytls"
    and e: "export_share_link X item = Inr link"
  shows "parse_share_link X link = Inr (link_image X item)"
proof -
  obtain server pw where p: "protocol item = Pp_Anytls server pw"
    using t by (cases "protocol item") (simp_all add: config_type_def)
  have u: "uri_ready X item" "is_utf8 pw" "link_host (address item)" using ready by (simp_all add: link_ready_def p)
  define r where "r = uri_row X item (Some NONE)"
  have row: "row_ok r" using uri_row_full[OF u(1) row_append_Nil(3,2), of "Some NONE"] by (simp add: r_def)
  have x: "exportable ''anytls'' Ct_Anytls [(''password'', password item)] item = Inr item"
    and l: "link = ''anytls://'' @ to_uri_without_scheme (address item) (port item) pw (query_row r) (remarks item)"
    using e t to_uri_row[OF u(1), of "Some NONE" "[]"]
    by (auto simp: export_share_link_def export_anytls_def bind_ok_Inr exportable_Inr p password_def to_uri_def r_def)
  have pw: "pw \<noteq> []" and port: "valid_port (port item)" using x by (auto simp: exportable_Inr password_def p)
  have parsed: "parse_uri X link ''anytls'' = Inr (parsed_link ''anytls'' item pw r)"
    unfolding parse_uri_def by (rule link_parsed[OF X ready x]) (simp_all add: share_schemes_def row u(2) pw l)
  have base: "profile_from_uri Ct_Anytls (parsed_link ''anytls'' item pw r)
      = default_profile\<lparr>remarks := remarks item, protocol := Pp_Anytls server []\<rparr>"
    by (subst profile_of_link) (simp_all add: p)
  have res: "resolve_uri_query X (plain_row r) b = b\<lparr>tls := map_option (link_tls X) (tls item),
      transport := Some (link_transport X (transport item))\<rparr>" for b
    using resolve_uri_row[OF X u(1) row_append_Nil(3,3), of "Some NONE" b] by (simp add: r_def)
  have "parse_anytls X link = Inr (link_image X item)"
    unfolding parse_anytls_def parsed link_image_def
    by (simp add: base res t p Let_def) (rule checked_ok[OF x]; use pw in \<open>auto simp: accessors p\<close>)
  then show ?thesis unfolding l using choose_format(3)[OF exported_link[OF port u(3) row]] by simp
qed

lemma vless_roundtrip:
  assumes X: "share_laws X" and ready: "link_ready X item" and t: "config_type item = Ct_VLESS"
    and e: "export_share_link X item = Inr link"
  shows "parse_share_link X link = Inr (link_image X item)"
proof -
  obtain server uuid flow enc where p: "protocol item = Pp_Vless server uuid flow enc"
    using t by (cases "protocol item") (simp_all add: config_type_def)
  have u: "uri_ready X item" "is_utf8 uuid" "list_all unreserved (option_or flow [])"
    "list_all unreserved (option_or enc NONE)" "link_host (address item)"
    using ready by (simp_all add: link_ready_def p)
  define pre where "pre = [(''encryption'', Some (option_or enc NONE)), (''flow'', nonempty_option flow)]"
  define r where "r = pre @ uri_row X item (Some NONE)"
  have flow: "url_encode f = f" "is_utf8 f" if "nonempty_option flow = Some f" for f
    using u(3) that url_encode_unreserved unreserved_utf8 by (auto simp: option_or_def)
  have own: "own_row pre" by (simp add: pre_def own_row_def uri_keys_def)
  have "row_ok pre"
    using flow(2) unreserved_utf8[OF u(4)] plain_keys_ok
    by (cases "nonempty_option flow") (simp_all add: pre_def row_ok_def)
  then have row: "row_ok r" using u(1) own unfolding r_def by (intro uri_row_full) simp_all
  have "(case nonempty_option flow of Some f \<Rightarrow> [(''encryption'', option_or enc NONE)] @ [(''flow'', f)]
      | None \<Rightarrow> [(''encryption'', option_or enc NONE)]) = query_row pre"
    using flow(1) url_encode_unreserved[OF u(4)] by (cases "nonempty_option flow") (simp_all add: pre_def)
  then have x: "exportable ''vless'' Ct_VLESS [(''password'', password item)] item = Inr item"
    and l: "link = ''vless://'' @ to_uri_without_scheme (address item) (port item) uuid (query_row r) (remarks item)"
    using e t to_uri_row[OF u(1), of "Some NONE" pre]
    by (auto simp: export_share_link_def export_vless_def bind_ok_Inr exportable_Inr p Let_def to_uri_def r_def)
  have uuid: "uuid \<noteq> []" and port: "valid_port (port item)" using x by (auto simp: exportable_Inr password_def p)
  have parsed: "parse_uri X link ''vless'' = Inr (parsed_link ''vless'' item uuid r)"
    unfolding parse_uri_def by (rule link_parsed[OF X ready x]) (simp_all add: share_schemes_def row u(2) uuid l)
  have base: "profile_from_uri Ct_VLESS (parsed_link ''vless'' item uuid r)
      = default_profile\<lparr>remarks := remarks item, protocol := Pp_Vless server [] None None\<rparr>"
    by (subst profile_of_link) (simp_all add: p)
  have res: "resolve_uri_query X (plain_row r) b = b\<lparr>tls := map_option (link_tls X) (tls item),
      transport := Some (link_transport X (transport item))\<rparr>" for b
    using resolve_uri_row[OF X u(1) own row_append_Nil(3), of "Some NONE" b] by (simp add: r_def)
  note absent = uri_row_absent[OF u(1), of "Some NONE"]
  have flow_value: "nonempty (value_or (plain_row r) ''flow'' []) = nonempty_option flow"
    by (cases "nonempty_option flow")
      (simp_all add: value_or_def r_def pre_def absent uri_keys_def nonempty_option_alt nonempty_def split: if_splits)
  have "option_or enc NONE \<noteq> []" by (cases enc) (auto simp: option_or_def nonempty_option_def opt_filter_def NONE_def)
  then have enc_value: "nonempty (value_or (plain_row r) ''encryption'' NONE) = Some (option_or enc NONE)"
    by (simp add: value_or_def r_def pre_def nonempty_def)
  have "parse_vless X link = Inr (link_image X item)"
    unfolding parse_vless_def parsed link_image_def
    by (simp add: base res flow_value enc_value t p Let_def) (rule checked_ok[OF x]; use uuid in \<open>auto simp: accessors p\<close>)
  then show ?thesis unfolding l using choose_format(1)[OF exported_link[OF port u(5) row]] by simp
qed

text \<open>The user information of a Naive link is printed in two parts.\<close>

lemma naive_link_parsed:
  assumes X: "share_laws X" and ready: "link_ready X item" and x: "exportable proto t required item = Inr item0"
    and s: "scheme \<in> share_schemes" "scheme \<in> set schemes" and r: "row_ok r"
    and parts: "is_utf8 name" "is_utf8 pw" "pw \<noteq> []"
    and link: "link = scheme @ ''://'' @ to_uri_without_scheme_preencoded_userinfo (address item) (port item)
      (if name = [] then url_encode pw else url_encode name @ '':'' @ url_encode pw) (query_row r) (remarks item)"
  shows "parse_uri_with_schemes X link proto' schemes
     = Inr (parsed_link scheme item (if name = [] then pw else name @ '':'' @ pw) r)"
proof (cases "name = []")
  case True
  then show ?thesis
    using link_parsed[OF X ready x s r parts(2,3)] link by (simp add: to_uri_without_scheme_def)
next
  case False
  have laws: "percent_laws X" "url_laws X" using X by (simp_all add: share_laws_def)
  have y: "valid_port (port item)" "link_host (address item)" "is_utf8 (remarks item)"
    using x ready by (simp_all add: exportable_Inr link_ready_def)
  show ?thesis
    using parse_printed_uri[OF laws s y(1,2) query_row_printable[OF r] y(3), of "url_encode name" "Some (url_encode pw)" proto']
      link False parts laws url_encode_link[of name] url_encode_link[of pw] query_row_decode[OF laws(1) r]
    by (simp add: parsed_link_def)
qed

lemma naive_roundtrip:
  assumes X: "share_laws X" and ready: "link_ready X item" and t: "config_type item = Ct_Naive"
    and e: "export_share_link X item = Inr link"
  shows "parse_share_link X link = Inr (link_image X item)"
proof -
  obtain server name pw quic cc ic uot where p: "protocol item = Pp_Naive server name pw quic cc ic uot"
    using t by (cases "protocol item") (simp_all add: config_type_def)
  have u: "uri_ready X item" "is_utf8 name" "is_utf8 pw" "CHR '':'' \<notin> set name"
    "\<not> (name = [] \<and> CHR '':'' \<in> set pw)" "i32_ready ic" "link_host (address item)"
    using ready by (simp_all add: link_ready_def p)
  define post where "post = [(''insecure-concurrency'', map_option show_int (opt_filter (\<lambda>v. 0 < v) ic))]"
  define r where "r = uri_row X item (Some NONE) @ post"
  define scheme where "scheme = (if quic then ''naive+quic'' else ''naive+https'')"
  have own: "own_row post" by (simp add: post_def own_row_def uri_keys_def)
  have "row_ok post"
    using unreserved_utf8[OF show_int_unreserved] plain_keys_ok
    by (cases ic) (auto simp: post_def row_ok_def opt_filter_def)
  then have "row_ok (post @ uri_row X item (Some NONE))" using u(1) own by (intro uri_row_full) simp_all
  then have row: "row_ok r" by (auto simp: r_def row_ok_def)
  have "to_uri_query X item (Some NONE) [] = query_row (uri_row X item (Some NONE))"
    using to_uri_row[OF u(1), of "Some NONE" "[]"] by simp
  then have q: "(case opt_filter (\<lambda>v. 0 < v) ic of
      Some c \<Rightarrow> to_uri_query X item (Some NONE) [] @ [(''insecure-concurrency'', show_int c)]
      | None \<Rightarrow> to_uri_query X item (Some NONE) []) = query_row r"
    by (simp add: push_number r_def post_def query_row_append)
  have x: "exportable ''naive'' Ct_Naive [(''password'', password item)] item = Inr item"
    and l: "link = scheme @ ''://'' @ to_uri_without_scheme_preencoded_userinfo (address item) (port item)
      (if name = [] then url_encode pw else url_encode name @ '':'' @ url_encode pw) (query_row r) (remarks item)"
    using e t
    by (auto simp: export_share_link_def export_naive_def bind_ok_Inr exportable_Inr p Let_def scheme_def q
        NAIVE_QUIC_SCHEME_def NAIVE_HTTPS_SCHEME_def)
  have pw: "pw \<noteq> []" and port: "valid_port (port item)" using x by (auto simp: exportable_Inr password_def p)
  define user where "user = (if name = [] then pw else name @ '':'' @ pw)"
  have parsed: "parse_uri_with_schemes X link ''naive'' [''naive'', ''naive+https'', ''naive+quic'']
      = Inr (parsed_link scheme item user r)"
    unfolding user_def by (rule naive_link_parsed[OF X ready x _ _ row u(2,3) pw l]) (simp_all add: scheme_def share_schemes_def)
  have base: "profile_from_uri Ct_Naive (parsed_link scheme item user r)
      = default_profile\<lparr>remarks := remarks item, protocol := Pp_Naive server [] [] False None None False\<rparr>"
    by (subst profile_of_link) (simp_all add: p)
  have res: "resolve_uri_query X (plain_row r) b = b\<lparr>tls := map_option (link_tls X) (tls item),
      transport := Some (link_transport X (transport item))\<rparr>" for b
    using resolve_uri_row[OF X u(1) row_append_Nil(3) own, of "Some NONE" b] by (simp add: r_def)
  have "parse_i32 [] = None" by (simp add: parse_i32_def)
  then have concurrency: "parse_positive_i32 (value_or (plain_row r) ''insecure-concurrency'' []) = opt_filter (\<lambda>v. 0 < v) ic"
    using u(6) uri_row_absent[OF u(1), of "Some NONE" "''insecure-concurrency''"]
    by (cases ic) (auto simp: value_or_def r_def post_def uri_keys_def opt_filter_def parse_positive_i32_def i32_ready_def
        parse_i32_show)
  have quic: "contains_str scheme ''quic'' = quic"
  proof -
    have "contains_str ''naive+quic'' ''quic''" "\<not> contains_str ''naive+https'' ''quic''" by code_simp+
    then show ?thesis by (simp add: scheme_def)
  qed
  have split: "split_once (CHR '':'') user = (if name = [] then None else Some (name, pw))"
    using u(4,5) by (auto simp: user_def split_once_None split_once_Some)
  have "parse_naive X link = Inr (link_image X item)"
  proof (cases "name = []")
    case True
    then have "pw = user" by (simp add: user_def)
    then show ?thesis
      unfolding parse_naive_def parsed link_image_def
      by (simp add: base res concurrency quic split t p Let_def True)
        (rule checked_ok[OF x]; use pw in \<open>auto simp: accessors p\<close>)
  next
    case False
    then show ?thesis
      unfolding parse_naive_def parsed link_image_def
      by (simp add: base res concurrency quic split t p Let_def)
        (rule checked_ok[OF x]; use pw in \<open>auto simp: accessors p\<close>)
  qed
  moreover have "graphic (to_uri_without_scheme_preencoded_userinfo (address item) (port item)
      (if name = [] then url_encode pw else url_encode name @ '':'' @ url_encode pw) (query_row r) (remarks item))"
    using exported_graphic[OF url_encode_link[of name], of "Some (url_encode pw)" "port item" "address item" r "remarks item"]
      exported_graphic[OF url_encode_link[of pw], of None "port item" "address item" r "remarks item"]
      url_encode_link[of pw] port u(7) row by simp
  from choose_format(6)[OF this] choose_format(7)[OF this]
  have "parse_share_link X link = parse_naive X link" unfolding l scheme_def by (cases quic) simp_all
  ultimately show ?thesis by simp
qed

section \<open>Formats with fewer settings\<close>

definition lite_row :: "profile_item \<Rightarrow> row" where
  "lite_row item =
     (case tls item of
        Some t \<Rightarrow> [(''sni'', nonempty_option (tls_server_name t)), (''alpn'', nonempty (join_with '','' (tls_alpn t)))]
      | None \<Rightarrow> [])"

lemma to_uri_lite: "to_uri_query_lite item (query_row r) = query_row (r @ lite_row item)"
  by (simp add: to_uri_query_lite_def lite_row_def push_encoded_str_entry nonempty_option_alt query_row_append
      split: option.split)

lemma lite_row_keys: "set (map (to_ascii_lowercase \<circ> fst) (lite_row item)) \<subseteq> {''sni'', ''alpn''}"
  by (cases "tls item") (simp_all add: lite_row_def)

lemma option_utf8: "pred_option link_text v \<Longrightarrow> pred_option is_utf8 (nonempty_option v)"
  by (cases v) (auto simp: nonempty_option_def opt_filter_def link_text_def)

lemma lite_row_full:
  assumes "lite_ready item" "own_row r" "row_ok r"
  shows "row_ok (lite_row item @ r)"
proof (rule row_ok_append[OF _ assms(3)])
  show "row_ok (lite_row item)"
    using assms(1) plain_keys_ok
    by (cases "tls item")
      (simp_all add: lite_row_def lite_ready_def row_ok_def link_items_def link_text_utf8 option_utf8)
  have "set (map (to_ascii_lowercase \<circ> fst) (lite_row item)) \<subseteq> set uri_keys"
    using lite_row_keys[of item] by (auto simp: uri_keys_def)
  then show "set (map (to_ascii_lowercase \<circ> fst) (lite_row item)) \<inter> set (map (to_ascii_lowercase \<circ> fst) r) = {}"
    using assms(2) unfolding own_row_def by blast
qed

lemma resolve_lite_row:
  assumes X: "share_laws X" and ready: "lite_ready item" and own: "own_row post"
  shows "resolve_uri_query X (plain_row (lite_row item @ post)) base
     = base\<lparr>tls := Option.bind (tls item) lite_tls, transport := Some (Pt_Tcp (Some NONE) None None)\<rparr>"
proof -
  define q where "q = plain_row (lite_row item @ post)"
  have P: "percent_laws X" using X by (simp add: share_laws_def)
  have none: "query_value q k = None"
    if "to_ascii_lowercase k \<in> set uri_keys" "to_ascii_lowercase k \<notin> {''sni'', ''alpn''}" for k
  proof -
    have "query_value (plain_row (lite_row item)) k = None"
      by (rule query_absent) (use lite_row_keys[of item] that(2) in blast)
    then show ?thesis using own_row_absent[OF own that(1)] by (simp add: q_def)
  qed
  have csv: "split_csv [] = []" by (simp add: split_csv_def)
  have ends: "nonempty [] = None" "nonempty NONE = Some NONE" by (simp_all add: nonempty_def NONE_def)
  have net: "resolve_transport X q = Pt_Tcp (Some NONE) None None"
    using P by (simp add: resolve_transport_def resolve_network_def value_or_def decoded_or_def none uri_keys_def ends
        DEFAULT_NETWORK_def NETWORKS_def RAW_NETWORK_ALIAS_def)
  have own_tls: "query_value (plain_row post) ''sni'' = None" "query_value (plain_row post) ''alpn'' = None"
    by (rule own_row_absent[OF own]; simp add: uri_keys_def)+
  have or_None: "or_else v None = v" for v :: "string option" by (cases v) simp_all
  have sni: "query_value q ''sni'' = Option.bind (tls item) (\<lambda>t. nonempty_option (tls_server_name t))"
    and alpn: "query_value q ''alpn'' = Option.bind (tls item) (\<lambda>t. nonempty (join_with '','' (tls_alpn t)))"
    by (cases "tls item"; simp add: q_def lite_row_def own_tls or_None)+
  have "resolve_tls X q = Option.bind (tls item) lite_tls"
  proof (cases "tls item")
    case None
    then show ?thesis
      using P by (simp add: resolve_tls_def query_tls_def has_tls_fields_def value_or_def decoded_or_def none uri_keys_def
          sni alpn csv ends STREAM_SECURITY_TLS_def)
  next
    case (Some t)
    have r: "pred_option link_text (tls_server_name t)" "link_items (tls_alpn t)" "link_text (join_with '','' (tls_alpn t))"
      using ready Some by (simp_all add: lite_ready_def link_items_def)
    show ?thesis
      using P r split_csv_join[OF r(2)]
      by (simp add: resolve_tls_def query_tls_def has_tls_fields_def value_or_def decoded_or_def none uri_keys_def
          sni alpn csv ends STREAM_SECURITY_TLS_def Some lite_tls_def default_tls_settings_def)
  qed
  then show ?thesis using net by (simp add: resolve_uri_query_def q_def)
qed

lemma colon_to_dash_Nil [simp]: "colon_to_dash h = [] \<longleftrightarrow> h = []"
  by (simp add: colon_to_dash_def)

lemma decoded_option:
  "percent_laws X \<Longrightarrow> pred_option link_text v \<Longrightarrow> query_value q k = nonempty_option v \<Longrightarrow>
     nonempty (decoded_or X q k []) = nonempty_option v"
  using unwrap_text[of v] by (simp add: decoded_or_def nonempty_option_alt)

lemma hysteria2_roundtrip:
  assumes X: "share_laws X" and ready: "link_ready X item" and t: "config_type item = Ct_Hysteria2"
    and e: "export_share_link X item = Inr link"
  shows "parse_share_link X link = Inr (link_image X item)"
proof -
  obtain server pw hops obfs where p: "protocol item = Pp_Hysteria2 server pw hops obfs"
    using t by (cases "protocol item") (simp_all add: config_type_def)
  have u: "is_utf8 pw" "pred_option (\<lambda>h. link_text (colon_to_dash h)) hops" "pred_option link_text obfs"
    "pred_option link_text (first_pin item)" "lite_ready item" "link_host (address item)"
    using ready by (simp_all add: link_ready_def p)
  define own where "own =
    [(''obfs'', map_option (\<lambda>_. ''salamander'') (nonempty_option obfs)), (''obfs-password'', nonempty_option obfs),
     (''mport'', map_option colon_to_dash (nonempty_option hops)), (''pinSHA256'', first_pin item)]"
  define r where "r = lite_row item @ own"
  have P: "percent_laws X" using X by (simp add: share_laws_def)
  have salamander: "list_all unreserved ''salamander''" by code_simp
  have hops_text: "pred_option link_text (map_option colon_to_dash (nonempty_option hops))"
    using u(2) by (cases hops) (auto simp: nonempty_option_def opt_filter_def)
  have o: "own_row own" by (simp add: own_def own_row_def uri_keys_def)
  have own_ok: "row_ok own"
    using salamander unreserved_utf8[OF salamander] plain_keys_ok option_utf8[OF u(3)] hops_text u(4)
    by (auto simp: own_def row_ok_def link_text_utf8 option.pred_map elim!: option.pred_mono_strong
        intro: option.pred_mono_strong[of "\<lambda>_. True"])
  have row: "row_ok r" using lite_row_full[OF u(5) o own_ok] by (simp add: r_def)
  have "to_uri_query_lite item [] = query_row (lite_row item)" using to_uri_lite[of item "[]"] by simp
  then have q: "(case first_pin item of
        Some sha \<Rightarrow> (case nonempty_option hops of
            Some p \<Rightarrow> (case nonempty_option obfs of
                Some p \<Rightarrow> to_uri_query_lite item [] @ [(''obfs'', ''salamander''), (''obfs-password'', url_encode p)]
              | None \<Rightarrow> to_uri_query_lite item []) @ [(''mport'', url_encode (colon_to_dash p))]
          | None \<Rightarrow> (case nonempty_option obfs of
                Some p \<Rightarrow> to_uri_query_lite item [] @ [(''obfs'', ''salamander''), (''obfs-password'', url_encode p)]
              | None \<Rightarrow> to_uri_query_lite item [])) @ [(''pinSHA256'', url_encode sha)]
      | None \<Rightarrow> (case nonempty_option hops of
            Some p \<Rightarrow> (case nonempty_option obfs of
                Some p \<Rightarrow> to_uri_query_lite item [] @ [(''obfs'', ''salamander''), (''obfs-password'', url_encode p)]
              | None \<Rightarrow> to_uri_query_lite item []) @ [(''mport'', url_encode (colon_to_dash p))]
          | None \<Rightarrow> (case nonempty_option obfs of
                Some p \<Rightarrow> to_uri_query_lite item [] @ [(''obfs'', ''salamander''), (''obfs-password'', url_encode p)]
              | None \<Rightarrow> to_uri_query_lite item []))) = query_row r"
    by (cases "first_pin item"; cases "nonempty_option hops"; cases "nonempty_option obfs")
      (simp_all add: r_def own_def query_row_append url_encode_unreserved[OF salamander])
  have x: "exportable ''hysteria2'' Ct_Hysteria2 [(''password'', password item)] item = Inr item"
    and l: "link = ''hysteria2://'' @ to_uri_without_scheme (address item) (port item) pw (query_row r) (remarks item)"
    using e t
    by (auto simp: export_share_link_def export_hysteria2_def bind_ok_Inr exportable_Inr p Let_def password_def q
        HYSTERIA2_DEFAULT_SCHEME_def)
  have pw: "pw \<noteq> []" and port: "valid_port (port item)" using x by (auto simp: exportable_Inr password_def p)
  have parsed: "parse_uri_with_schemes X link ''hysteria2'' [''hysteria2'', ''hy2''] = Inr (parsed_link ''hysteria2'' item pw r)"
    by (rule link_parsed[OF X ready x]) (simp_all add: share_schemes_def row u(1) pw l)
  have base: "profile_from_uri Ct_Hysteria2 (parsed_link ''hysteria2'' item pw r)
      = default_profile\<lparr>remarks := remarks item, protocol := Pp_Hysteria2 server [] None None\<rparr>"
    by (subst profile_of_link) (simp_all add: p)
  have res: "resolve_uri_query X (plain_row r) b = b\<lparr>tls := Option.bind (tls item) lite_tls,
      transport := Some (Pt_Tcp (Some NONE) None None)\<rparr>" for b
    unfolding r_def by (rule resolve_lite_row[OF X u(5) o])
  have lite_absent: "query_value (plain_row (lite_row item)) k = None" if "to_ascii_lowercase k \<notin> {''sni'', ''alpn''}" for k
    by (rule query_absent) (use lite_row_keys[of item] that in blast)
  have or_None: "or_else v None = v" for v :: "string option" by (cases v) simp_all
  have looked: "query_value (plain_row r) ''obfs-password'' = nonempty_option obfs"
    "query_value (plain_row r) ''mport'' = nonempty_option (map_option colon_to_dash hops)"
    "query_value (plain_row r) ''pinSHA256'' = first_pin item"
    by (simp_all add: r_def own_def lite_absent or_None) (cases hops; simp add: nonempty_option_def opt_filter_def)
  have read: "nonempty (decoded_or X (plain_row r) ''obfs-password'' []) = nonempty_option obfs"
    "nonempty (decoded_or X (plain_row r) ''mport'' []) = map_option colon_to_dash (nonempty_option hops)"
    using decoded_option[OF P u(3) looked(1)] decoded_option[OF P _ looked(2)] u(2)
    by (cases hops; simp add: nonempty_option_def opt_filter_def)+
  have pin: "nonempty (decoded_or X (plain_row r) ''pinSHA256'' []) = Option.bind (first_pin item) nonempty"
    using P u(4) by (cases "first_pin item") (simp_all add: decoded_or_def looked nonempty_def)
  have added: "protocol (add_pin v b) = protocol b" "remarks (add_pin v b) = remarks b"
    "add_pin v b\<lparr>protocol := pr\<rparr> = add_pin v (b\<lparr>protocol := pr\<rparr>)" for v b pr
    by (simp_all add: add_pin_def Let_def split: option.split)
  have "parse_hysteria2 X link = Inr (link_image X item)"
    unfolding parse_hysteria2_def parsed link_image_def
    by (simp add: base res read pin added t p Let_def, rule checked_ok[OF x], simp_all add: accessors added p pw[symmetric])
      (rule arg_cong[of _ _ "add_pin (Option.bind (first_pin item) nonempty)"], simp)
  then show ?thesis unfolding l using choose_format(4)[OF exported_link[OF port u(6) row]] by simp
qed

lemma tuic_roundtrip:
  assumes X: "share_laws X" and ready: "link_ready X item" and t: "config_type item = Ct_TUIC"
    and e: "export_share_link X item = Inr link"
  shows "parse_share_link X link = Inr (link_image X item)"
proof -
  obtain server uuid pw cc where p: "protocol item = Pp_Tuic server uuid pw cc"
    using t by (cases "protocol item") (simp_all add: config_type_def)
  have u: "is_utf8 (uuid @ '':'' @ pw)" "CHR '':'' \<notin> set uuid" "list_all unreserved (option_or cc [])"
    "lite_ready item" "link_host (address item)"
    using ready by (simp_all add: link_ready_def p)
  define own where "own = [(''congestion_control'', nonempty_option cc)]"
  define r where "r = lite_row item @ own"
  have cc: "url_encode c = c" "is_utf8 c" if "nonempty_option cc = Some c" for c
    using u(3) that url_encode_unreserved unreserved_utf8 by (auto simp: option_or_def)
  have o: "own_row own" by (simp add: own_def own_row_def uri_keys_def)
  have "row_ok own" using cc(2) plain_keys_ok by (cases "nonempty_option cc") (simp_all add: own_def row_ok_def)
  then have row: "row_ok r" using lite_row_full[OF u(4) o] by (simp add: r_def)
  have "to_uri_query_lite item [] = query_row (lite_row item)" using to_uri_lite[of item "[]"] by simp
  then have q: "(case nonempty_option cc of Some c \<Rightarrow> to_uri_query_lite item [] @ [(''congestion_control'', c)]
      | None \<Rightarrow> to_uri_query_lite item []) = query_row r"
    using cc(1) by (cases "nonempty_option cc") (simp_all add: r_def own_def query_row_append)
  have x: "exportable ''tuic'' Ct_TUIC [(''username'', username item), (''password'', password item)] item = Inr item"
    and l: "link = ''tuic://'' @ to_uri_without_scheme (address item) (port item) (uuid @ '':'' @ pw) (query_row r) (remarks item)"
    using e t by (auto simp: export_share_link_def export_tuic_def bind_ok_Inr exportable_Inr p Let_def to_uri_def q)
  have user: "uuid \<noteq> []" "pw \<noteq> []" and port: "valid_port (port item)"
    using x by (auto simp: exportable_Inr password_def username_def p)
  have parsed: "parse_uri X link ''tuic'' = Inr (parsed_link ''tuic'' item (uuid @ '':'' @ pw) r)"
    unfolding parse_uri_def by (rule link_parsed[OF X ready x _ _ row u(1)]) (simp_all add: share_schemes_def l)
  have base: "profile_from_uri Ct_TUIC (parsed_link ''tuic'' item (uuid @ '':'' @ pw) r)
      = default_profile\<lparr>remarks := remarks item, protocol := Pp_Tuic server [] [] None\<rparr>"
    by (subst profile_of_link) (simp_all add: p)
  have res: "resolve_uri_query X (plain_row r) b = b\<lparr>tls := Option.bind (tls item) lite_tls,
      transport := Some (Pt_Tcp (Some NONE) None None)\<rparr>" for b
    unfolding r_def by (rule resolve_lite_row[OF X u(4) o])
  have "query_value (plain_row (lite_row item)) ''congestion_control'' = None"
    by (rule query_absent) (use lite_row_keys[of item] in auto)
  moreover have "or_else v None = v" for v :: "string option" by (cases v) simp_all
  ultimately have congestion: "nonempty (value_or (plain_row r) ''congestion_control'' []) = nonempty_option cc"
    by (simp add: value_or_def r_def own_def)
  have split: "split_once (CHR '':'') (uuid @ CHR '':'' # pw) = Some (uuid, pw)"
    using u(2) by (simp add: split_once_Some)
  have "parse_tuic X link = Inr (link_image X item)"
    unfolding parse_tuic_def parsed link_image_def
    by (simp add: base[simplified] res congestion split t p Let_def)
      (rule checked_ok[OF x]; use user in \<open>auto simp: accessors p\<close>)
  then show ?thesis unfolding l using choose_format(5)[OF exported_link[OF port u(5) row]] by simp
qed

section \<open>SOCKS and WireGuard\<close>

lemma graphic_utf8: "graphic s \<Longrightarrow> is_utf8 s"
proof -
  assume g: "graphic s"
  have "list_all (\<lambda>b. b < 0x80) (as_bytes s)"
    using g by (induction s) (auto simp: as_bytes_def graphic_def word_less_nat_alt unat_of_nat)
  then show ?thesis by (simp add: is_utf8_def ascii_valid)
qed

lemma socks_roundtrip:
  assumes X: "share_laws X" and ready: "link_ready X item" and t: "config_type item = Ct_SOCKS"
    and e: "export_share_link X item = Inr link"
  shows "parse_share_link X link = Inr (link_image X item)"
proof -
  obtain server name pw where p: "protocol item = Pp_Socks server name pw"
    using t by (cases "protocol item") (simp_all add: config_type_def)
  have u: "is_utf8 (name @ '':'' @ pw)" "CHR '':'' \<notin> set name" "length (name @ '':'' @ pw) \<le> base64_limit"
    "link_host (address item)"
    using ready by (simp_all add: link_ready_def p)
  have B: "base64_laws X" using X by (simp add: share_laws_def)
  define user where "user = base64_encode X (name @ '':'' @ pw) True"
  have user: "user \<noteq> []" "is_utf8 user" "split_once (CHR '':'') user = None"
    using base64_encode_graphic[OF B, of "name @ '':'' @ pw" True] graphic_utf8 by (simp_all add: user_def split_once_None)
  have x: "exportable ''socks'' Ct_SOCKS [] item = Inr item"
    and l: "link = ''socks://'' @ to_uri_without_scheme (address item) (port item) user (query_row []) (remarks item)"
    using e t
    by (auto simp: export_share_link_def export_socks_def bind_ok_Inr exportable_Inr p to_uri_def user_def
        username_def password_def)
  have port: "valid_port (port item)" using x by (auto simp: exportable_Inr)
  have parsed: "parse_uri_with_schemes X link ''socks'' [''socks'', ''socks5'', ''socks4''] = Inr (parsed_link ''socks'' item user [])"
    by (rule link_parsed[OF X ready x _ _ row_append_Nil(2) user(2,1)]) (simp_all add: share_schemes_def l)
  have base: "profile_from_uri Ct_SOCKS (parsed_link ''socks'' item user [])
      = default_profile\<lparr>remarks := remarks item, protocol := Pp_Socks server [] []\<rparr>"
    by (subst profile_of_link) (simp_all add: p)
  have "split_once (CHR '':'') (name @ CHR '':'' # pw) = Some (name, pw)" using u(2) by (simp add: split_once_Some)
  then have credentials: "socks_credentials X user = Inr (name, pw)"
    using user base64_roundtrip[OF B u(1,3)] by (simp add: socks_credentials_def user_def)
  have "parse_socks X link = Inr (link_image X item)"
    unfolding parse_socks_def parse_socks_new_def parsed link_image_def
    by (simp add: base credentials t p Let_def) (rule checked_ok[OF x], simp_all add: accessors p)
  then show ?thesis unfolding l using choose_format(8)[OF exported_link[OF port u(4) row_append_Nil(2)]] by simp
qed

lemma wireguard_roundtrip:
  assumes X: "share_laws X" and ready: "link_ready X item" and t: "config_type item = Ct_WireGuard"
    and e: "export_share_link X item = Inr link"
  shows "parse_share_link X link = Inr (link_image X item)"
proof -
  obtain server key pk psk adr ips res mtu where p: "protocol item = Pp_WireGuard server key pk psk adr ips res mtu"
    using t by (cases "protocol item") (simp_all add: config_type_def)
  have u: "is_utf8 key" "pred_option link_text pk" "pred_option link_text psk" "pred_option link_text adr"
    "pred_option link_text ips" "pred_option link_text res" "i32_ready mtu" "link_host (address item)"
    using ready by (simp_all add: link_ready_def p)
  have P: "percent_laws X" using X by (simp add: share_laws_def)
  define r where "r = [(''publickey'', nonempty_option pk), (''presharedkey'', nonempty_option psk),
    (''reserved'', nonempty_option res), (''address'', nonempty_option adr), (''allowedips'', nonempty_option ips),
    (''mtu'', map_option show_int (opt_filter (\<lambda>v. 0 < v) mtu))]"
  have "pred_option is_utf8 (map_option show_int (opt_filter (\<lambda>v. 0 < v) mtu))"
    using unreserved_utf8[OF show_int_unreserved] by (cases mtu) (auto simp: opt_filter_def)
  then have row: "row_ok r" using u(2-6) plain_keys_ok by (simp add: r_def row_ok_def option_utf8)
  have q: "(case opt_filter (\<lambda>v. 0 < v) mtu of
        Some m \<Rightarrow> push_encoded_opt ''allowedips'' ips (push_encoded_opt ''address'' adr
          (push_encoded_opt ''reserved'' res (push_encoded_opt ''presharedkey'' psk
            (push_encoded_opt ''publickey'' pk [])))) @ [(''mtu'', show_int m)]
      | None \<Rightarrow> push_encoded_opt ''allowedips'' ips (push_encoded_opt ''address'' adr
          (push_encoded_opt ''reserved'' res (push_encoded_opt ''presharedkey'' psk
            (push_encoded_opt ''publickey'' pk []))))) = query_row r"
    by (simp add: push_number push_encoded_opt_entry r_def)
  have x: "exportable ''wireguard'' Ct_WireGuard [(''private key'', password item)] item = Inr item"
    and l: "link = ''wireguard://'' @ to_uri_without_scheme (address item) (port item) key (query_row r) (remarks item)"
    using e t by (auto simp: export_share_link_def export_wireguard_def bind_ok_Inr exportable_Inr p Let_def to_uri_def q)
  have key: "key \<noteq> []" and port: "valid_port (port item)" using x by (auto simp: exportable_Inr password_def p)
  have parsed: "parse_uri X link ''wireguard'' = Inr (parsed_link ''wireguard'' item key r)"
    unfolding parse_uri_def by (rule link_parsed[OF X ready x _ _ row u(1) key]) (simp_all add: share_schemes_def l)
  have base: "profile_from_uri Ct_WireGuard (parsed_link ''wireguard'' item key r)
      = default_profile\<lparr>remarks := remarks item, protocol := Pp_WireGuard server [] None None None None None None\<rparr>"
    by (subst profile_of_link) (simp_all add: p)
  have or_None: "or_else v None = v" for v :: "string option" by (cases v) simp_all
  have looked: "query_value (plain_row r) ''publickey'' = nonempty_option pk"
    "query_value (plain_row r) ''presharedkey'' = nonempty_option psk"
    "query_value (plain_row r) ''reserved'' = nonempty_option res"
    "query_value (plain_row r) ''address'' = nonempty_option adr"
    "query_value (plain_row r) ''allowedips'' = nonempty_option ips"
    "query_value (plain_row r) ''allowed_ips'' = None"
    "query_value (plain_row r) ''mtu'' = map_option show_int (opt_filter (\<lambda>v. 0 < v) mtu)"
    by (simp_all add: r_def or_None)
  note read = decoded_option[OF P u(2) looked(1)] decoded_option[OF P u(3) looked(2)]
    decoded_option[OF P u(6) looked(3)] decoded_option[OF P u(4) looked(4)]
  have ips: "decoded_or X (plain_row r) ''allowedips'' [] = unwrap_or ips []" "decoded_or X (plain_row r) ''allowed_ips'' [] = []"
    using P unwrap_text[OF u(5)] by (simp_all add: decoded_or_def looked nonempty_option_alt)
  have "parse_i32 [] = None" by (simp add: parse_i32_def)
  then have mtu: "parse_positive_i32 (decoded_or X (plain_row r) ''mtu'' []) = opt_filter (\<lambda>v. 0 < v) mtu"
    using u(7) P unreserved_text[OF show_int_unreserved]
    by (cases mtu) (auto simp: decoded_or_def looked opt_filter_def parse_positive_i32_def i32_ready_def parse_i32_show)
  have "parse_wireguard X link = Inr (link_image X item)"
    unfolding parse_wireguard_def parsed link_image_def
    by (cases "unwrap_or ips [] = []";
        simp add: base read ips mtu t p Let_def nonempty_option_alt[symmetric] split del: if_split;
        (rule checked_ok[OF x], simp_all add: accessors p key[symmetric] nonempty_option_alt)?)
  then show ?thesis unfolding l using choose_format(9)[OF exported_link[OF port u(8) row]] by simp
qed

section \<open>All of them\<close>

lemma link_types_ready:
  assumes "link_ready X item"
  shows "config_type item \<in> {Ct_VLESS, Ct_Trojan, Ct_Anytls, Ct_Naive, Ct_Hysteria2, Ct_TUIC, Ct_SOCKS, Ct_WireGuard}"
  using assms by (cases "protocol item") (simp_all add: link_ready_def config_type_def)

text \<open>
  C17: a profile of a URI format is exported and read back as its canonical form: the same
  server, credentials and remarks, and the TLS and transport settings of the profile up to what
  the format does not carry, provided its texts can travel and the libraries behave as documented.
  They can travel if all are UTF-8; the host is plain, not a bracketed IPv6 address; the values of
  the query, which are decoded twice, hold no percent sign and the items of lists no separator;
  the flow, the encryption, the congestion control and the header need no escape; the names and identifiers
  in front of a password hold no colon; encoded credentials and numbers stay within their bounds.
\<close>

theorem share_link_roundtrip:
  assumes "share_laws X" and "link_ready X item" and "export_share_link X item = Inr link"
  shows "parse_share_link X link = Inr (link_image X item)"
  using link_types_ready[OF assms(2)] vless_roundtrip[OF assms(1,2) _ assms(3)]
    trojan_roundtrip[OF assms(1,2) _ assms(3)] anytls_roundtrip[OF assms(1,2) _ assms(3)]
    naive_roundtrip[OF assms(1,2) _ assms(3)] hysteria2_roundtrip[OF assms(1,2) _ assms(3)]
    tuic_roundtrip[OF assms(1,2) _ assms(3)] socks_roundtrip[OF assms(1,2) _ assms(3)]
    wireguard_roundtrip[OF assms(1,2) _ assms(3)]
  by blast

definition sample_vless :: profile_item where
  "sample_vless = default_profile
     \<lparr>remarks := ''a b'',
      protocol := Pp_Vless \<lparr>se_address = ''a.example'', se_port = 443\<rparr> ''id'' None (Some []),
      tls := Some (default_tls_settings\<lparr>tls_server_name := Some ''a.example'', tls_alpn := [''h2'', ''http/1.1'']\<rparr>),
      transport := Some (Pt_Websocket (Some ''h.example'') None)\<rparr>"

lemma share_link_roundtrip_witness:
  "\<exists>link. export_share_link (sample_externals None) sample_vless = Inr link
     \<and> parse_share_link (sample_externals None) link = Inr (link_image (sample_externals None) sample_vless)
     \<and> transport (link_image (sample_externals None) sample_vless)
         = Some (Pt_Websocket (Some ''h.example'') (Some ''/''))"
proof -
  have laws: "share_laws (sample_externals None)"
    by (simp add: share_laws_def sample_percent sample_url sample_base64)
  have e: "export_share_link (sample_externals None) sample_vless
      = Inr ''vless://id@a.example:443?encryption=none&security=tls&sni=a.example&alpn=h2%2Chttp%2F1.1&type=ws&host=h.example#a%20b''"
    by code_simp
  have "is_utf8 ''id''" "is_utf8 ''a b''" "link_text ''a.example''" "link_text ''h.example''" "link_text ''h2,http/1.1''"
    "link_host ''a.example''" "list_all unreserved NONE"
    by code_simp+
  then have r: "link_ready (sample_externals None) sample_vless"
    by (simp add: link_ready_def sample_vless_def default_profile_def default_tls_settings_def uri_ready_def tls_ready_def
        link_items_def link_json_ready_def accessors option_or_def nonempty_option_def opt_filter_def is_comma_def
        is_newline_def)
  have "transport (link_image (sample_externals None) sample_vless)
      = Some (Pt_Websocket (Some ''h.example'') (Some ''/''))"
    by code_simp
  with share_link_roundtrip[OF laws r e] e show ?thesis by blast
qed

end
