(* ===== verification/AppSettings.thy ===== *)
theory AppSettings
  imports Entities Externals
begin

text \<open>
  The stored settings: the contract records of \<open>voya-contracts/src/settings.rs\<close>, and from
  \<open>voya-app/src/settings_save.rs\<close> the two conversions between them and the configuration of the
  running program, the validation of settings sent by the user interface, and the decision what
  a saved change makes necessary. The active profile and the active routing are stored beside
  the settings, in a row of their own (\<open>app_state\<close>). Serialization is serde's.
\<close>

section \<open>Records (settings.rs)\<close>

datatype theme_mode = Theme_System | Theme_Light | Theme_Dark

record appearance_settings =
  as_language :: string
  as_theme :: theme_mode

record behavior_settings =
  bs_autostart :: bool
  bs_statistics :: bool
  bs_realtime_speed :: bool

record core_settings =
  cs_log_enabled :: bool
  cs_log_level :: string
  cs_mux_enabled :: bool
  cs_default_allow_insecure :: bool
  cs_default_fingerprint :: string
  cs_default_user_agent :: string
  cs_send_through :: "string option"
  cs_bind_interface :: "string option"
  cs_fragment_enabled :: bool
  cs_cache_file_enabled :: bool

record tun_settings =
  ts_enabled :: bool
  ts_auto_route :: bool
  ts_strict_route :: bool
  ts_stack :: string
  ts_mtu :: i32
  ts_ipv6_enabled :: bool
  ts_icmp_routing :: string

record inbound_settings =
  ib_local_port :: i32
  ib_protocol :: string
  ib_sniffing_enabled :: bool
  ib_lan_connections_allowed :: bool
  ib_separate_lan_port :: bool
  ib_username :: string
  ib_password :: string
  ib_secondary_port_enabled :: bool

record system_proxy_settings =
  sp_mode :: string
  sp_exceptions :: string
  sp_bypass_local :: bool
  sp_advanced_protocol :: string
  sp_custom_pac_path :: "string option"
  sp_custom_script_path :: "string option"

record network_settings =
  ns_tun :: tun_settings
  ns_system_proxy :: system_proxy_settings
  ns_inbounds :: "inbound_settings list"

record routing_settings =
  rs_domain_strategy :: string
  rs_singbox_domain_strategy :: string

record app_dns_settings =
  ds_use_system_hosts :: "bool option"
  ds_add_common_hosts :: "bool option"
  ds_fake_ip :: "bool option"
  ds_global_fake_ip :: "bool option"
  ds_block_binding_query :: "bool option"
  ds_direct :: "string option"
  ds_remote :: "string option"
  ds_bootstrap :: "string option"
  ds_direct_strategy :: "string option"
  ds_proxy_strategy :: "string option"
  ds_serve_stale :: "bool option"
  ds_parallel_query :: "bool option"
  ds_hosts :: "string option"
  ds_direct_expected_ips :: "string option"

record source_settings =
  ss_subscription_converter :: "string option"
  ss_geo :: "string option"
  ss_singbox_ruleset :: "string option"
  ss_routing_template :: "string option"

record speed_test_settings =
  st_timeout_seconds :: i32
  st_download_url :: string
  st_latency_url :: string
  st_mixed_concurrency :: i32
  st_ip_lookup_url :: string
  st_udp_target :: string
  st_page_size :: "i32 option"
  st_delay_interval_ms :: "i32 option"

record multiplexing_settings =
  ms_protocol :: string
  ms_max_connections :: i32
  ms_padding :: "bool option"

record grpc_settings =
  gs_idle_timeout_seconds :: "i32 option"
  gs_health_check_timeout_seconds :: "i32 option"
  gs_permit_without_stream :: "bool option"

record hysteria_settings =
  hs_upload_mbps :: i32
  hs_download_mbps :: i32
  hs_hop_interval_seconds :: i32

record proxy_settings =
  ps_traffic_mode :: string
  ps_node_sorting :: i32

record shortcut_chord =
  sc_alt :: bool
  sc_control :: bool
  sc_shift :: bool
  sc_key_code :: i32

record app_settings =
  settings_version :: nat
  appearance :: appearance_settings
  behavior :: behavior_settings
  core_part :: core_settings
  network_part :: network_settings
  routing_part :: routing_settings
  dns_part :: app_dns_settings
  sources_part :: source_settings
  speed_test_part :: speed_test_settings
  multiplexing :: multiplexing_settings
  grpc_part :: grpc_settings
  hysteria_part :: hysteria_settings
  proxy_part :: proxy_settings
  shortcuts :: "shortcut_chord option"

definition CURRENT_SCHEMA_VERSION :: nat where
  "CURRENT_SCHEMA_VERSION = 1"

definition default_inbound_settings :: inbound_settings where
  "default_inbound_settings =
     \<lparr>ib_local_port = 10808, ib_protocol = ''socks'', ib_sniffing_enabled = True,
      ib_lan_connections_allowed = False, ib_separate_lan_port = False, ib_username = [],
      ib_password = [], ib_secondary_port_enabled = False\<rparr>"

definition default_network_settings :: network_settings where
  "default_network_settings =
     \<lparr>ns_tun = \<lparr>ts_enabled = False, ts_auto_route = True, ts_strict_route = False, ts_stack = [],
        ts_mtu = 1500, ts_ipv6_enabled = False, ts_icmp_routing = ''rule''\<rparr>,
      ns_system_proxy = \<lparr>sp_mode = ''forcedClear'', sp_exceptions = [], sp_bypass_local = False,
        sp_advanced_protocol = [], sp_custom_pac_path = None, sp_custom_script_path = None\<rparr>,
      ns_inbounds = [default_inbound_settings]\<rparr>"

definition default_app_settings :: app_settings where
  "default_app_settings =
     \<lparr>settings_version = CURRENT_SCHEMA_VERSION,
      appearance = \<lparr>as_language = ''en'', as_theme = Theme_System\<rparr>,
      behavior = \<lparr>bs_autostart = False, bs_statistics = False, bs_realtime_speed = False\<rparr>,
      core_part = \<lparr>cs_log_enabled = False, cs_log_level = ''warning'', cs_mux_enabled = False,
        cs_default_allow_insecure = False, cs_default_fingerprint = [], cs_default_user_agent = [],
        cs_send_through = None, cs_bind_interface = None, cs_fragment_enabled = False,
        cs_cache_file_enabled = True\<rparr>,
      network_part = default_network_settings,
      routing_part = \<lparr>rs_domain_strategy = ''AsIs'', rs_singbox_domain_strategy = []\<rparr>,
      dns_part = \<lparr>ds_use_system_hosts = None, ds_add_common_hosts = None, ds_fake_ip = None,
        ds_global_fake_ip = None, ds_block_binding_query = None, ds_direct = None, ds_remote = None,
        ds_bootstrap = None, ds_direct_strategy = None, ds_proxy_strategy = None,
        ds_serve_stale = None, ds_parallel_query = None, ds_hosts = None,
        ds_direct_expected_ips = None\<rparr>,
      sources_part = \<lparr>ss_subscription_converter = None, ss_geo = None, ss_singbox_ruleset = None,
        ss_routing_template = None\<rparr>,
      speed_test_part = \<lparr>st_timeout_seconds = 10,
        st_download_url = ''https://cachefly.cachefly.net/50mb.test'',
        st_latency_url = ''https://www.google.com/generate_204'', st_mixed_concurrency = 5,
        st_ip_lookup_url = [], st_udp_target = ''ntp:pool.ntp.org'', st_page_size = None,
        st_delay_interval_ms = None\<rparr>,
      multiplexing = \<lparr>ms_protocol = ''h2mux'', ms_max_connections = 8, ms_padding = None\<rparr>,
      grpc_part = \<lparr>gs_idle_timeout_seconds = Some 60, gs_health_check_timeout_seconds = Some 20,
        gs_permit_without_stream = Some False\<rparr>,
      hysteria_part = \<lparr>hs_upload_mbps = 100, hs_download_mbps = 100, hs_hop_interval_seconds = 30\<rparr>,
      proxy_part = \<lparr>ps_traffic_mode = ''rule'', ps_node_sorting = 0\<rparr>,
      shortcuts = None\<rparr>"

section \<open>Enums as text (settings_save.rs)\<close>

fun theme_to_config :: "theme_mode \<Rightarrow> string" where
  "theme_to_config Theme_System = ''FollowSystem''"
| "theme_to_config Theme_Light = ''Light''"
| "theme_to_config Theme_Dark = ''Dark''"

definition theme_from_config :: "string option \<Rightarrow> theme_mode" where
  "theme_from_config value =
     (if map_option to_ascii_lowercase value = Some ''light'' then Theme_Light
      else if map_option to_ascii_lowercase value = Some ''dark'' then Theme_Dark
      else Theme_System)"

fun system_proxy_mode_to_str :: "sys_proxy_type \<Rightarrow> string" where
  "system_proxy_mode_to_str Sp_ForcedClear = ''forcedClear''"
| "system_proxy_mode_to_str Sp_ForcedChange = ''forcedChange''"
| "system_proxy_mode_to_str Sp_Unchanged = ''unchanged''"
| "system_proxy_mode_to_str Sp_Pac = ''pac''"

datatype settings_contract_error = InvalidValue string string

definition system_proxy_mode_from_str :: "string \<Rightarrow> settings_contract_error + sys_proxy_type" where
  "system_proxy_mode_from_str v =
     (if v = ''forcedClear'' then Inr Sp_ForcedClear
      else if v = ''forcedChange'' then Inr Sp_ForcedChange
      else if v = ''unchanged'' then Inr Sp_Unchanged
      else if v = ''pac'' then Inr Sp_Pac
      else Inl (InvalidValue ''network.systemProxy.mode'' v))"

fun traffic_mode_to_str :: "traffic_mode \<Rightarrow> string" where
  "traffic_mode_to_str Tm_Rule = ''rule''"
| "traffic_mode_to_str Tm_Global = ''global''"
| "traffic_mode_to_str Tm_Direct = ''direct''"
| "traffic_mode_to_str Tm_Unchanged = ''unchanged''"

definition traffic_mode_from_str :: "string \<Rightarrow> settings_contract_error + traffic_mode" where
  "traffic_mode_from_str v =
     (if v = ''rule'' then Inr Tm_Rule
      else if v = ''global'' then Inr Tm_Global
      else if v = ''direct'' then Inr Tm_Direct
      else if v = ''unchanged'' then Inr Tm_Unchanged
      else Inl (InvalidValue ''proxy.trafficMode'' v))"

lemma system_proxy_mode_back [simp]: "system_proxy_mode_from_str (system_proxy_mode_to_str m) = Inr m"
  by (cases m) (simp_all add: system_proxy_mode_from_str_def)

lemma traffic_mode_back [simp]: "traffic_mode_from_str (traffic_mode_to_str m) = Inr m"
  by (cases m) (simp_all add: traffic_mode_from_str_def)

lemma theme_back [simp]: "theme_from_config (Some (theme_to_config m)) = m"
proof -
  have "theme_from_config (Some ''FollowSystem'') = Theme_System" "theme_from_config (Some ''Light'') = Theme_Light"
    "theme_from_config (Some ''Dark'') = Theme_Dark"
    by code_simp+
  then show ?thesis by (cases m) simp_all
qed

section \<open>From the configuration to the settings\<close>

definition chord_of_key_event :: "key_event_item \<Rightarrow> shortcut_chord option" where
  "chord_of_key_event item =
     map_option (\<lambda>code. \<lparr>sc_alt = key_alt item, sc_control = key_control item, sc_shift = key_shift item,
                          sc_key_code = code\<rparr>) (key_code item)"

definition inbound_settings_of :: "in_item \<Rightarrow> inbound_settings" where
  "inbound_settings_of item =
     \<lparr>ib_local_port = local_port item, ib_protocol = in_protocol item,
      ib_sniffing_enabled = sniffing_enabled item, ib_lan_connections_allowed = allow_lan_conn item,
      ib_separate_lan_port = new_port4_lan item, ib_username = in_user item,
      ib_password = in_pass item, ib_secondary_port_enabled = second_local_port_enabled item\<rparr>"

definition core_settings_of :: "core_basic_item \<Rightarrow> core_settings" where
  "core_settings_of c =
     \<lparr>cs_log_enabled = log_enabled c, cs_log_level = loglevel c, cs_mux_enabled = mux_enabled c,
      cs_default_allow_insecure = def_allow_insecure c, cs_default_fingerprint = def_fingerprint c,
      cs_default_user_agent = def_user_agent c, cs_send_through = send_through c,
      cs_bind_interface = bind_interface c, cs_fragment_enabled = enable_fragment c,
      cs_cache_file_enabled = enable_cache_file4_sbox c\<rparr>"

definition network_settings_of :: "app_config \<Rightarrow> network_settings" where
  "network_settings_of config =
     (let t = tun_mode config; p = system_proxy config in
      \<lparr>ns_tun = \<lparr>ts_enabled = enable_tun t, ts_auto_route = tun_auto_route t,
         ts_strict_route = tun_strict_route_enabled t, ts_stack = tun_stack t, ts_mtu = tun_mode_mtu t,
         ts_ipv6_enabled = enable_ipv6_address t, ts_icmp_routing = icmp_routing t\<rparr>,
       ns_system_proxy = \<lparr>sp_mode = system_proxy_mode_to_str (system_proxy_type p),
         sp_exceptions = system_proxy_exceptions p, sp_bypass_local = not_proxy_local_address p,
         sp_advanced_protocol = system_proxy_advanced_protocol p,
         sp_custom_pac_path = custom_system_proxy_pac_path p,
         sp_custom_script_path = custom_system_proxy_script_path p\<rparr>,
       ns_inbounds = map inbound_settings_of (inbound config)\<rparr>)"

definition dns_settings_of :: "simple_dns_item \<Rightarrow> app_dns_settings" where
  "dns_settings_of d =
     \<lparr>ds_use_system_hosts = use_system_hosts d, ds_add_common_hosts = add_common_hosts d,
      ds_fake_ip = fake_ip d, ds_global_fake_ip = global_fake_ip d,
      ds_block_binding_query = block_binding_query d, ds_direct = direct_dns d,
      ds_remote = remote_dns d, ds_bootstrap = bootstrap_dns d,
      ds_direct_strategy = strategy4_freedom d, ds_proxy_strategy = strategy4_proxy d,
      ds_serve_stale = serve_stale d, ds_parallel_query = parallel_query d, ds_hosts = dns_hosts d,
      ds_direct_expected_ips = direct_expected_ips d\<rparr>"

definition speed_test_settings_of :: "speed_test_item \<Rightarrow> speed_test_settings" where
  "speed_test_settings_of s =
     \<lparr>st_timeout_seconds = speed_test_timeout s, st_download_url = speed_test_url s,
      st_latency_url = speed_ping_test_url s, st_mixed_concurrency = mixed_concurrency_count s,
      st_ip_lookup_url = ipapi_url s, st_udp_target = udp_test_target s,
      st_page_size = speed_test_page_size s, st_delay_interval_ms = speed_test_delay_interval s\<rparr>"

definition settings_from_app_config :: "app_config \<Rightarrow> app_settings" where
  "settings_from_app_config config =
     \<lparr>settings_version = CURRENT_SCHEMA_VERSION,
      appearance = \<lparr>as_language = current_language (ui config),
        as_theme = theme_from_config (current_theme (ui config))\<rparr>,
      behavior = \<lparr>bs_autostart = auto_run (gui config), bs_statistics = enable_statistics (gui config),
        bs_realtime_speed = display_real_time_speed (gui config)\<rparr>,
      core_part = core_settings_of (core_basic config),
      network_part = network_settings_of config,
      routing_part = \<lparr>rs_domain_strategy = rb_domain_strategy (routing_basic config),
        rs_singbox_domain_strategy = rb_domain_strategy4_singbox (routing_basic config)\<rparr>,
      dns_part = dns_settings_of (simple_dns config),
      sources_part = \<lparr>ss_subscription_converter = sub_convert_url (const_urls config),
        ss_geo = geo_source_url (const_urls config),
        ss_singbox_ruleset = srs_source_url (const_urls config),
        ss_routing_template = route_rules_template_source_url (const_urls config)\<rparr>,
      speed_test_part = speed_test_settings_of (speed_test config),
      multiplexing = \<lparr>ms_protocol = mux_protocol (mux4_sbox config),
        ms_max_connections = mux_max_connections (mux4_sbox config),
        ms_padding = mux_padding (mux4_sbox config)\<rparr>,
      grpc_part = \<lparr>gs_idle_timeout_seconds = grpc_idle_timeout (grpc config),
        gs_health_check_timeout_seconds = grpc_health_check_timeout (grpc config),
        gs_permit_without_stream = grpc_permit_without_stream (grpc config)\<rparr>,
      hysteria_part = \<lparr>hs_upload_mbps = hy_up_mbps (hysteria config),
        hs_download_mbps = hy_down_mbps (hysteria config),
        hs_hop_interval_seconds = hy_hop_interval (hysteria config)\<rparr>,
      proxy_part = \<lparr>ps_traffic_mode = traffic_mode_to_str (proxy_traffic_mode (proxy_ui config)),
        ps_node_sorting = node_sorting (proxy_ui config)\<rparr>,
      shortcuts = Option.bind (show_window_shortcut config) chord_of_key_event\<rparr>"

section \<open>From the settings to the configuration\<close>

text \<open>The row \<open>app_state\<close> (\<open>AppStateRecord\<close> of \<open>voya-db/src/repos/state.rs\<close>).\<close>

record app_state_record =
  active_profile_id :: "string option"
  active_routing_id :: "string option"

definition key_event_of_chord :: "shortcut_chord \<Rightarrow> key_event_item" where
  "key_event_of_chord c =
     \<lparr>key_alt = sc_alt c, key_control = sc_control c, key_shift = sc_shift c,
      key_code = Some (sc_key_code c)\<rparr>"

definition in_item_of_settings :: "inbound_settings \<Rightarrow> in_item" where
  "in_item_of_settings i =
     \<lparr>local_port = ib_local_port i, in_protocol = ib_protocol i,
      sniffing_enabled = ib_sniffing_enabled i, allow_lan_conn = ib_lan_connections_allowed i,
      new_port4_lan = ib_separate_lan_port i, in_user = ib_username i, in_pass = ib_password i,
      second_local_port_enabled = ib_secondary_port_enabled i\<rparr>"

definition core_basic_of_settings :: "core_settings \<Rightarrow> core_basic_item" where
  "core_basic_of_settings c =
     \<lparr>log_enabled = cs_log_enabled c, loglevel = cs_log_level c, mux_enabled = cs_mux_enabled c,
      def_allow_insecure = cs_default_allow_insecure c, def_fingerprint = cs_default_fingerprint c,
      def_user_agent = cs_default_user_agent c, send_through = cs_send_through c,
      bind_interface = cs_bind_interface c, enable_fragment = cs_fragment_enabled c,
      enable_cache_file4_sbox = cs_cache_file_enabled c\<rparr>"

definition simple_dns_of_settings :: "app_dns_settings \<Rightarrow> simple_dns_item" where
  "simple_dns_of_settings d =
     \<lparr>use_system_hosts = ds_use_system_hosts d, add_common_hosts = ds_add_common_hosts d,
      fake_ip = ds_fake_ip d, global_fake_ip = ds_global_fake_ip d,
      block_binding_query = ds_block_binding_query d, direct_dns = ds_direct d,
      remote_dns = ds_remote d, bootstrap_dns = ds_bootstrap d,
      strategy4_freedom = ds_direct_strategy d, strategy4_proxy = ds_proxy_strategy d,
      serve_stale = ds_serve_stale d, parallel_query = ds_parallel_query d, dns_hosts = ds_hosts d,
      direct_expected_ips = ds_direct_expected_ips d\<rparr>"

definition speed_test_of_settings :: "speed_test_settings \<Rightarrow> speed_test_item" where
  "speed_test_of_settings s =
     \<lparr>speed_test_timeout = st_timeout_seconds s, speed_test_url = st_download_url s,
      speed_ping_test_url = st_latency_url s, mixed_concurrency_count = st_mixed_concurrency s,
      ipapi_url = st_ip_lookup_url s, udp_test_target = st_udp_target s,
      speed_test_page_size = st_page_size s, speed_test_delay_interval = st_delay_interval_ms s\<rparr>"

definition app_config_from_settings ::
    "app_settings \<Rightarrow> app_state_record \<Rightarrow> settings_contract_error + app_config" where
  "app_config_from_settings s state =
     (case system_proxy_mode_from_str (sp_mode (ns_system_proxy (network_part s))) of
        Inl e \<Rightarrow> Inl e
      | Inr proxy_mode \<Rightarrow>
     (case traffic_mode_from_str (ps_traffic_mode (proxy_part s)) of
        Inl e \<Rightarrow> Inl e
      | Inr traffic \<Rightarrow>
     (let t = ns_tun (network_part s); p = ns_system_proxy (network_part s) in
      Inr \<lparr>ac_index_id = unwrap_or (active_profile_id state) [], ac_sub_index_id = [],
       core_basic = core_basic_of_settings (core_part s),
       tun_mode = \<lparr>enable_tun = ts_enabled t, tun_auto_route = ts_auto_route t,
         tun_strict_route_enabled = ts_strict_route t, tun_stack = ts_stack t,
         tun_mode_mtu = ts_mtu t, enable_ipv6_address = ts_ipv6_enabled t,
         icmp_routing = ts_icmp_routing t\<rparr>,
       grpc = \<lparr>grpc_idle_timeout = gs_idle_timeout_seconds (grpc_part s),
         grpc_health_check_timeout = gs_health_check_timeout_seconds (grpc_part s),
         grpc_permit_without_stream = gs_permit_without_stream (grpc_part s)\<rparr>,
       routing_basic = \<lparr>rb_domain_strategy = rs_domain_strategy (routing_part s),
         rb_domain_strategy4_singbox = rs_singbox_domain_strategy (routing_part s),
         routing_index_id = unwrap_or (active_routing_id state) []\<rparr>,
       gui = \<lparr>auto_run = bs_autostart (behavior s), enable_statistics = bs_statistics (behavior s),
         display_real_time_speed = bs_realtime_speed (behavior s)\<rparr>,
       ui = \<lparr>current_theme = Some (theme_to_config (as_theme (appearance s))),
         current_language = as_language (appearance s)\<rparr>,
       const_urls = \<lparr>sub_convert_url = ss_subscription_converter (sources_part s),
         geo_source_url = ss_geo (sources_part s),
         srs_source_url = ss_singbox_ruleset (sources_part s),
         route_rules_template_source_url = ss_routing_template (sources_part s)\<rparr>,
       speed_test = speed_test_of_settings (speed_test_part s),
       mux4_sbox = \<lparr>mux_protocol = ms_protocol (multiplexing s),
         mux_max_connections = ms_max_connections (multiplexing s),
         mux_padding = ms_padding (multiplexing s)\<rparr>,
       hysteria = \<lparr>hy_up_mbps = hs_upload_mbps (hysteria_part s),
         hy_down_mbps = hs_download_mbps (hysteria_part s),
         hy_hop_interval = hs_hop_interval_seconds (hysteria_part s)\<rparr>,
       proxy_ui = \<lparr>proxy_traffic_mode = traffic, node_sorting = ps_node_sorting (proxy_part s)\<rparr>,
       system_proxy = \<lparr>system_proxy_type = proxy_mode, system_proxy_exceptions = sp_exceptions p,
         not_proxy_local_address = sp_bypass_local p,
         system_proxy_advanced_protocol = sp_advanced_protocol p,
         custom_system_proxy_pac_path = sp_custom_pac_path p,
         custom_system_proxy_script_path = sp_custom_script_path p\<rparr>,
       inbound = map in_item_of_settings (ns_inbounds (network_part s)),
       show_window_shortcut = map_option key_event_of_chord (shortcuts s),
       simple_dns = simple_dns_of_settings (dns_part s)\<rparr>)))"

section \<open>What a saved change makes necessary\<close>

definition saved_config_requires_runtime_restart :: "app_config \<Rightarrow> app_config \<Rightarrow> bool" where
  "saved_config_requires_runtime_restart original updated \<longleftrightarrow>
     ac_index_id original \<noteq> ac_index_id updated
     \<or> ac_sub_index_id original \<noteq> ac_sub_index_id updated
     \<or> core_basic original \<noteq> core_basic updated \<or> tun_mode original \<noteq> tun_mode updated
     \<or> grpc original \<noteq> grpc updated \<or> routing_basic original \<noteq> routing_basic updated
     \<or> mux4_sbox original \<noteq> mux4_sbox updated \<or> hysteria original \<noteq> hysteria updated
     \<or> proxy_ui original \<noteq> proxy_ui updated \<or> inbound original \<noteq> inbound updated
     \<or> simple_dns original \<noteq> simple_dns updated"

datatype settings_runtime_action = Sra_None | Sra_ReapplySystemProxy | Sra_Restart

definition settings_runtime_action_for :: "bool \<Rightarrow> bool \<Rightarrow> settings_runtime_action" where
  "settings_runtime_action_for restart_required reapply_required =
     (if restart_required then Sra_Restart
      else if reapply_required then Sra_ReapplySystemProxy else Sra_None)"

section \<open>Texts from outside (input\_safety.rs)\<close>

datatype input_safety_error = EmptyValue | TooLong | ControlCharacters | TooManyItems

text \<open>\<open>char::is_control\<close> on UTF-8 bytes: U+0000 to U+001F, U+007F, and U+0080 to U+009F.\<close>

fun text_has_control :: "string \<Rightarrow> bool" where
  "text_has_control [] = False"
| "text_has_control (c # s) \<longleftrightarrow>
     byte_of c < 32 \<or> byte_of c = 127
     \<or> (case s of [] \<Rightarrow> False | d # r \<Rightarrow> byte_of c = 194 \<and> 128 \<le> byte_of d \<and> byte_of d < 160)
     \<or> text_has_control s"

definition validate_text :: "string \<Rightarrow> nat \<Rightarrow> input_safety_error + unit" where
  "validate_text value max_chars =
     (if max_chars < char_count value then Inl TooLong
      else if text_has_control value then Inl ControlCharacters
      else Inr ())"

definition validate_required_text :: "string \<Rightarrow> nat \<Rightarrow> input_safety_error + unit" where
  "validate_required_text value max_chars =
     (if trim value = [] then Inl EmptyValue else validate_text value max_chars)"

definition validate_optional_text :: "string option \<Rightarrow> nat \<Rightarrow> input_safety_error + unit" where
  "validate_optional_text value max_chars =
     (case value of None \<Rightarrow> Inr () | Some v \<Rightarrow> validate_text v max_chars)"

definition validate_present_text :: "string option \<Rightarrow> nat \<Rightarrow> input_safety_error + unit" where
  "validate_present_text value max_chars =
     (case value of None \<Rightarrow> Inr () | Some v \<Rightarrow> validate_required_text v max_chars)"

primrec validate_each_text :: "string list \<Rightarrow> nat \<Rightarrow> input_safety_error + unit" where
  "validate_each_text [] max_chars = Inr ()"
| "validate_each_text (v # vs) max_chars =
     (case validate_required_text v max_chars of Inl e \<Rightarrow> Inl e | Inr _ \<Rightarrow> validate_each_text vs max_chars)"

definition validate_text_list :: "string list \<Rightarrow> nat \<Rightarrow> nat \<Rightarrow> input_safety_error + unit" where
  "validate_text_list vs max_chars max_items =
     (if max_items < length vs then Inl TooManyItems else validate_each_text vs max_chars)"

section \<open>Source addresses (updates.rs, voya-net/src/url.rs)\<close>

datatype url_validation_error = InvalidHttpUrl | InvalidHttpsUrl | EmbeddedCredentials

definition validate_credentials :: "parsed_url \<Rightarrow> url_validation_error + unit" where
  "validate_credentials u =
     (if u_username u \<noteq> [] \<or> u_password u \<noteq> None then Inl EmbeddedCredentials else Inr ())"

definition validate_absolute_https_url :: "'a externals_scheme \<Rightarrow> string \<Rightarrow> url_validation_error + unit" where
  "validate_absolute_https_url X value =
     (case url_parse X value of
        None \<Rightarrow> Inl InvalidHttpsUrl
      | Some u \<Rightarrow>
          (if u_scheme u \<noteq> ''https'' \<or> u_host u = None then Inl InvalidHttpsUrl
           else validate_credentials u))"

definition validate_absolute_http_url :: "'a externals_scheme \<Rightarrow> string \<Rightarrow> url_validation_error + unit" where
  "validate_absolute_http_url X value =
     (case url_parse X value of
        None \<Rightarrow> Inl InvalidHttpUrl
      | Some u \<Rightarrow>
          (if u_scheme u \<notin> {''http'', ''https''} \<or> u_host u = None then Inl InvalidHttpUrl
           else validate_credentials u))"

definition trimmed_option :: "string option \<Rightarrow> string option" where
  "trimmed_option value = opt_filter (\<lambda>v. v \<noteq> []) (map_option trim value)"

datatype app_settings_validation_error =
    UnsupportedSchema nat nat
  | InvalidText string input_safety_error
  | InvalidSource string url_validation_error
  | InvalidTunMtu
  | NegativeHysteriaBandwidth
  | InvalidHysteriaHopInterval

definition validate_optional_source_url ::
    "'a externals_scheme \<Rightarrow> string \<Rightarrow> string option \<Rightarrow> app_settings_validation_error + unit" where
  "validate_optional_source_url X label value =
     (case trimmed_option value of
        None \<Rightarrow> Inr ()
      | Some v \<Rightarrow> (case validate_absolute_http_url X v of
                     Inl e \<Rightarrow> Inl (InvalidSource label e) | Inr u \<Rightarrow> Inr u))"

definition validate_optional_https_source_url ::
    "'a externals_scheme \<Rightarrow> string \<Rightarrow> string option \<Rightarrow> app_settings_validation_error + unit" where
  "validate_optional_https_source_url X label value =
     (case trimmed_option value of
        None \<Rightarrow> Inr ()
      | Some v \<Rightarrow> (case validate_absolute_https_url X v of
                     Inl e \<Rightarrow> Inl (InvalidSource label e) | Inr u \<Rightarrow> Inr u))"

definition validate_source_text :: "string \<Rightarrow> string option \<Rightarrow> app_settings_validation_error + unit" where
  "validate_source_text label value =
     (case validate_optional_text value 2048 of Inl e \<Rightarrow> Inl (InvalidText label e) | Inr u \<Rightarrow> Inr u)"

text \<open>The first error of a list of checks.\<close>

primrec all_checks :: "('e + unit) list \<Rightarrow> 'e + unit" where
  "all_checks [] = Inr ()"
| "all_checks (c # cs) = (case c of Inl e \<Rightarrow> Inl e | Inr _ \<Rightarrow> all_checks cs)"

lemma all_checks_Inr [simp]: "all_checks cs = Inr u \<longleftrightarrow> list_all (\<lambda>c. c = Inr ()) cs"
  by (induction cs) (auto split: sum.splits)

definition validate_app_settings ::
    "'a externals_scheme \<Rightarrow> app_settings \<Rightarrow> app_settings_validation_error + unit" where
  "validate_app_settings X s =
     (let sources = sources_part s; hy = hysteria_part s; mtu = ts_mtu (ns_tun (network_part s)) in
      all_checks
       [if settings_version s \<noteq> CURRENT_SCHEMA_VERSION
        then Inl (UnsupportedSchema (settings_version s) CURRENT_SCHEMA_VERSION) else Inr (),
        (case validate_required_text (trim (as_language (appearance s))) 256 of
           Inl e \<Rightarrow> Inl (InvalidText ''UI language'' e) | Inr u \<Rightarrow> Inr u),
        validate_source_text ''Geo source URL'' (ss_geo sources),
        validate_source_text ''SRS source URL'' (ss_singbox_ruleset sources),
        validate_source_text ''routing template source URL'' (ss_routing_template sources),
        validate_source_text ''subscription converter URL'' (ss_subscription_converter sources),
        validate_optional_source_url X ''Geo source URL'' (ss_geo sources),
        validate_optional_source_url X ''SRS source URL'' (ss_singbox_ruleset sources),
        validate_optional_source_url X ''subscription converter URL'' (ss_subscription_converter sources),
        validate_optional_https_source_url X ''routing template source URL'' (ss_routing_template sources),
        if 576 \<le> mtu \<and> mtu \<le> 65535 then Inr () else Inl InvalidTunMtu,
        if hs_upload_mbps hy < 0 \<or> hs_download_mbps hy < 0 then Inl NegativeHysteriaBandwidth else Inr (),
        if hs_hop_interval_seconds hy < 5 then Inl InvalidHysteriaHopInterval else Inr ()])"

section \<open>Effects of saved settings on the system\<close>

text \<open>
  \<open>SettingsSideEffectAdapter\<close>: the calls made so far are the state, and \<open>answer\<close> is the error of
  the last of them, if any; it may depend on all of them.
\<close>

datatype adapter_call = Apply_autostart app_config | Apply_hotkeys app_config

type_synonym 'e adapter = "adapter_call list \<Rightarrow> 'e option"

record applied_settings_side_effects =
  autostart_touched :: bool
  hotkeys_touched :: bool

datatype side_effect_stage = Stage_Autostart | Stage_Hotkeys

record 'e side_effect_failure =
  sf_stage :: side_effect_stage
  sf_source :: 'e
  sf_compensation_errors :: "'e list"

text \<open>One call of the compensation, whose error is collected.\<close>

definition compensate_call ::
    "'e adapter \<Rightarrow> bool \<Rightarrow> adapter_call \<Rightarrow> 'e list \<times> adapter_call list \<Rightarrow> 'e list \<times> adapter_call list" where
  "compensate_call answer touched call = (\<lambda>(errors, calls).
     if touched then
       (errors @ (case answer (calls @ [call]) of Some e \<Rightarrow> [e] | None \<Rightarrow> []), calls @ [call])
     else (errors, calls))"

definition compensate_settings_side_effects ::
    "'e adapter \<Rightarrow> app_config \<Rightarrow> applied_settings_side_effects \<Rightarrow> adapter_call list
       \<Rightarrow> 'e list \<times> adapter_call list" where
  "compensate_settings_side_effects answer original applied calls =
     compensate_call answer (autostart_touched applied) (Apply_autostart original)
       (compensate_call answer (hotkeys_touched applied) (Apply_hotkeys original) ([], calls))"

definition side_effect_failed ::
    "'e adapter \<Rightarrow> app_config \<Rightarrow> applied_settings_side_effects \<Rightarrow> side_effect_stage \<Rightarrow> 'e
       \<Rightarrow> adapter_call list \<Rightarrow> ('e side_effect_failure + applied_settings_side_effects) \<times> adapter_call list" where
  "side_effect_failed answer original applied stage e calls =
     (case compensate_settings_side_effects answer original applied calls of
        (errors, calls) \<Rightarrow>
          (Inl \<lparr>sf_stage = stage, sf_source = e, sf_compensation_errors = errors\<rparr>, calls))"

definition apply_hotkeys_change ::
    "'e adapter \<Rightarrow> app_config \<Rightarrow> app_config \<Rightarrow> applied_settings_side_effects \<Rightarrow> adapter_call list
       \<Rightarrow> ('e side_effect_failure + applied_settings_side_effects) \<times> adapter_call list" where
  "apply_hotkeys_change answer original target applied calls =
     (if show_window_shortcut original \<noteq> show_window_shortcut target then
        (let applied = applied\<lparr>hotkeys_touched := True\<rparr>; calls = calls @ [Apply_hotkeys target] in
         (case answer calls of
            Some e \<Rightarrow> side_effect_failed answer original applied Stage_Hotkeys e calls
          | None \<Rightarrow> (Inr applied, calls)))
      else (Inr applied, calls))"

definition apply_settings_side_effects ::
    "'e adapter \<Rightarrow> app_config \<Rightarrow> app_config \<Rightarrow> adapter_call list
       \<Rightarrow> ('e side_effect_failure + applied_settings_side_effects) \<times> adapter_call list" where
  "apply_settings_side_effects answer original target calls =
     (let applied = \<lparr>autostart_touched = False, hotkeys_touched = False\<rparr> in
      if auto_run (gui original) \<noteq> auto_run (gui target) then
        (let applied = applied\<lparr>autostart_touched := True\<rparr>; calls = calls @ [Apply_autostart target] in
         (case answer calls of
            Some e \<Rightarrow> side_effect_failed answer original applied Stage_Autostart e calls
          | None \<Rightarrow> apply_hotkeys_change answer original target applied calls))
      else apply_hotkeys_change answer original target applied calls)"

section \<open>Lemmas\<close>

lemma inbound_settings_back [simp]: "in_item_of_settings (inbound_settings_of i) = i"
  by (simp add: in_item_of_settings_def inbound_settings_of_def)

lemma inbounds_back [simp]: "map (in_item_of_settings \<circ> inbound_settings_of) is = is"
  by (induction "is") simp_all

lemma core_settings_back [simp]: "core_basic_of_settings (core_settings_of c) = c"
  by (simp add: core_basic_of_settings_def core_settings_of_def)

lemma dns_settings_back [simp]: "simple_dns_of_settings (dns_settings_of d) = d"
  by (simp add: simple_dns_of_settings_def dns_settings_of_def)

lemma speed_test_settings_back [simp]: "speed_test_of_settings (speed_test_settings_of s) = s"
  by (simp add: speed_test_of_settings_def speed_test_settings_of_def)

text \<open>What is left of a configuration when it is stored and read: the canonical name of the theme,
no shortcut without a key, the identifiers of the row beside it, and no selected subscription.\<close>

definition stored_form :: "app_state_record \<Rightarrow> app_config \<Rightarrow> app_config" where
  "stored_form state c =
     c\<lparr>ac_index_id := unwrap_or (active_profile_id state) [], ac_sub_index_id := [],
       routing_basic := (routing_basic c)\<lparr>routing_index_id := unwrap_or (active_routing_id state) []\<rparr>,
       ui := (ui c)\<lparr>current_theme := Some (theme_to_config (theme_from_config (current_theme (ui c))))\<rparr>,
       show_window_shortcut := opt_filter (\<lambda>k. key_code k \<noteq> None) (show_window_shortcut c)\<rparr>"

lemma shortcut_back:
  "map_option key_event_of_chord (Option.bind k chord_of_key_event) = opt_filter (\<lambda>k. key_code k \<noteq> None) k"
  by (cases k)
    (auto simp: chord_of_key_event_def key_event_of_chord_def opt_filter_def split: option.splits)

lemma settings_stored_form:
  "app_config_from_settings (settings_from_app_config c) state = Inr (stored_form state c)"
  by (simp add: app_config_from_settings_def settings_from_app_config_def network_settings_of_def Let_def
      stored_form_def shortcut_back)

lemma stored_form_idem [simp]: "stored_form s (stored_form s c) = stored_form s c"
  by (cases "show_window_shortcut c") (auto simp: stored_form_def opt_filter_def)

text \<open>When an effect fails, every adapter that was called is called again with the old settings.\<close>

lemma failed_side_effects_compensated:
  assumes "apply_settings_side_effects answer original target calls = (Inl f, calls')"
  shows "\<exists>done. calls' = calls @ done
    \<and> (\<forall>c. Apply_autostart c \<in> set done \<longrightarrow> last (filter (\<lambda>x. \<exists>c. x = Apply_autostart c) done) = Apply_autostart original)
    \<and> (\<forall>c. Apply_hotkeys c \<in> set done \<longrightarrow> last (filter (\<lambda>x. \<exists>c. x = Apply_hotkeys c) done) = Apply_hotkeys original)"
  using assms
  by (auto simp: apply_settings_side_effects_def apply_hotkeys_change_def side_effect_failed_def
      compensate_settings_side_effects_def compensate_call_def Let_def split: if_splits option.splits)

end
