(* ===== verification/Tasks.thy ===== *)
theory Tasks
  imports Main
begin

text \<open>
  Computations over a state that may fail: what an \<open>async fn\<close> returning a \<open>Result\<close> does with the
  state it has access to. An error ends the computation and keeps the state it left.
\<close>

type_synonym ('s, 'e, 'a) stateful = "'s \<Rightarrow> ('e + 'a) \<times> 's"

definition give :: "'a \<Rightarrow> ('s, 'e, 'a) stateful" where
  "give x = (\<lambda>s. (Inr x, s))"

definition give_up :: "'e \<Rightarrow> ('s, 'e, 'a) stateful" where
  "give_up e = (\<lambda>s. (Inl e, s))"

text \<open>The operator \<open>?\<close>, and \<open>?\<close> with a conversion of the error.\<close>

definition and_then :: "('s, 'e, 'a) stateful \<Rightarrow> ('a \<Rightarrow> ('s, 'e, 'b) stateful) \<Rightarrow> ('s, 'e, 'b) stateful" where
  "and_then m k = (\<lambda>s. case m s of (Inl e, t) \<Rightarrow> (Inl e, t) | (Inr x, t) \<Rightarrow> k x t)"

definition map_err :: "('d \<Rightarrow> 'e) \<Rightarrow> ('s, 'd, 'a) stateful \<Rightarrow> ('s, 'e, 'a) stateful" where
  "map_err f m = (\<lambda>s. case m s of (Inl e, t) \<Rightarrow> (Inl (f e), t) | (Inr x, t) \<Rightarrow> (Inr x, t))"

primrec for_each :: "('a \<Rightarrow> ('s, 'e, unit) stateful) \<Rightarrow> 'a list \<Rightarrow> ('s, 'e, unit) stateful" where
  "for_each f [] = give ()"
| "for_each f (x # xs) = and_then (f x) (\<lambda>_. for_each f xs)"

primrec fold_task :: "('a \<Rightarrow> 'b \<Rightarrow> ('s, 'e, 'b) stateful) \<Rightarrow> 'a list \<Rightarrow> 'b \<Rightarrow> ('s, 'e, 'b) stateful" where
  "fold_task f [] b = give b"
| "fold_task f (x # xs) b = and_then (f x b) (\<lambda>b. fold_task f xs b)"

lemma and_then_Inr:
  "and_then m k s = (Inr y, t) \<longleftrightarrow> (\<exists>x u. m s = (Inr x, u) \<and> k x u = (Inr y, t))"
  by (auto simp: and_then_def split: prod.split sum.split)

lemma give_Inr [simp]: "give x s = (Inr y, t) \<longleftrightarrow> y = x \<and> t = s"
  by (auto simp: give_def)

lemma give_up_Inr [simp]: "give_up e s \<noteq> (Inr y, t)"
  by (simp add: give_up_def)

lemma map_err_Inr: "map_err f m s = (Inr x, t) \<longleftrightarrow> m s = (Inr x, t)"
  by (auto simp: map_err_def split: prod.split sum.split)

lemma and_then_Inl:
  "and_then m k s = (Inl e, t) \<longleftrightarrow> m s = (Inl e, t) \<or> (\<exists>x u. m s = (Inr x, u) \<and> k x u = (Inl e, t))"
  by (auto simp: and_then_def split: prod.split sum.split)

lemma map_err_Inl: "map_err f m s = (Inl e, t) \<longleftrightarrow> (\<exists>d. m s = (Inl d, t) \<and> e = f d)"
  by (auto simp: map_err_def split: prod.split sum.split)

lemma for_each_Cons_Inr:
  "for_each f (x # xs) s = (Inr (), t) \<longleftrightarrow> (\<exists>u. f x s = (Inr (), u) \<and> for_each f xs u = (Inr (), t))"
  by (simp add: and_then_Inr)

section \<open>Triples\<close>

text \<open>
  From a state with \<open>P\<close> a success leaves a state with \<open>Q\<close>, an error one with \<open>E\<close>. The rules
  for the combinators are collected in \<open>triples\<close>.
\<close>

definition triple ::
    "('s \<Rightarrow> bool) \<Rightarrow> ('s, 'e, 'a) stateful \<Rightarrow> ('a \<Rightarrow> 's \<Rightarrow> bool) \<Rightarrow> ('s \<Rightarrow> bool) \<Rightarrow> bool" where
  "triple P m Q E \<longleftrightarrow> (\<forall>s. P s \<longrightarrow> (case m s of (Inr x, t) \<Rightarrow> Q x t | (Inl e, t) \<Rightarrow> E t))"

named_theorems triples "rules for what computations leave"

lemma tripleI: "(\<And>s. P s \<Longrightarrow> case m s of (Inr x, t) \<Rightarrow> Q x t | (Inl e, t) \<Rightarrow> E t) \<Longrightarrow> triple P m Q E"
  by (simp add: triple_def)

lemma triple_Inr: "triple P m Q E \<Longrightarrow> P s \<Longrightarrow> m s = (Inr x, t) \<Longrightarrow> Q x t"
  by (fastforce simp: triple_def)

lemma triple_Inl: "triple P m Q E \<Longrightarrow> P s \<Longrightarrow> m s = (Inl e, t) \<Longrightarrow> E t"
  by (fastforce simp: triple_def)

lemma triple_after: "triple P m (\<lambda>_. I) I \<Longrightarrow> P s \<Longrightarrow> I (snd (m s))"
  unfolding triple_def by (cases "m s"; cases "fst (m s)") fastforce+

lemma triple_weaken:
  "triple P m Q E \<Longrightarrow> (\<And>s. P' s \<Longrightarrow> P s) \<Longrightarrow> (\<And>x s. Q x s \<Longrightarrow> Q' x s) \<Longrightarrow> (\<And>s. E s \<Longrightarrow> E' s)
    \<Longrightarrow> triple P' m Q' E'"
  unfolding triple_def by (fastforce split: prod.splits sum.splits)

lemma triple_give [triples]: "(\<And>s. P s \<Longrightarrow> Q x s) \<Longrightarrow> triple P (give x) Q E"
  by (simp add: triple_def give_def)

lemma triple_give_up [triples]: "(\<And>s. P s \<Longrightarrow> E s) \<Longrightarrow> triple P (give_up e) Q E"
  by (simp add: triple_def give_up_def)

lemma triple_and_then [triples]:
  "triple P m R E \<Longrightarrow> (\<And>x. triple (R x) (k x) Q E) \<Longrightarrow> triple P (and_then m k) Q E"
  unfolding triple_def and_then_def by (fastforce split: prod.splits sum.splits)

lemma triple_map_err [triples]: "triple P m Q E \<Longrightarrow> triple P (map_err f m) Q E"
  unfolding triple_def map_err_def by (fastforce split: prod.splits sum.splits)

lemma triple_for_each [triples]: "(\<And>x. triple I (f x) (\<lambda>_. I) I) \<Longrightarrow> triple I (for_each f xs) (\<lambda>_. I) I"
  by (induction xs) (auto intro: triple_give triple_and_then)

lemma triple_if [triples]:
  "(b \<Longrightarrow> triple P m Q E) \<Longrightarrow> (\<not> b \<Longrightarrow> triple P n Q E) \<Longrightarrow> triple P (if b then m else n) Q E"
  by simp

end
