(* ===== verification/Database.thy ===== *)
theory Database
  imports Complex_Main AppSettings Tasks "HOL-Library.AList" "HOL-Library.Product_Lexorder" "HOL-Library.Word"
begin

text \<open>
  The database of \<open>voya-db\<close> as a managers' session sees it: one association list per table of
  \<open>migrations/0001\<close> in the order of the rows, and one definition per repository operation
  (\<open>repos/*.rs\<close>), translated from its SQL statement with the foreign keys of the schema: a
  reference to a missing row is refused, deleting a row deletes or clears what refers to it.

  A session is a unit of work with the configuration that is changed along with it. Any
  statement may fail: \<open>faults\<close> says, statement by statement, which ones do (when the list is
  used up none does). The columns that hold JSON are the values they encode. An \<open>f64\<close> is the
  rational number it denotes: SQLite refuses NaN in a column that is not null.
\<close>

section \<open>Rows\<close>

type_synonym i64 = int
type_synonym f64 = rat

definition i64_saturating_add :: "i64 \<Rightarrow> i64 \<Rightarrow> i64" where
  "i64_saturating_add a b = max (- 9223372036854775808) (min 9223372036854775807 (a + b))"

record profile_ex_item =
  px_index_id :: string
  px_delay :: i32
  px_speed :: f64
  px_sort :: i32
  px_message :: "string option"
  px_ip_info :: "string option"

definition default_profile_ex_item :: profile_ex_item where
  "default_profile_ex_item =
     \<lparr>px_index_id = [], px_delay = 0, px_speed = 0, px_sort = 0, px_message = None, px_ip_info = None\<rparr>"

record server_stat_item =
  ss_index_id :: string
  total_up :: i64
  total_down :: i64
  today_up :: i64
  today_down :: i64
  date_now :: i64

definition default_server_stat_item :: server_stat_item where
  "default_server_stat_item =
     \<lparr>ss_index_id = [], total_up = 0, total_down = 0, today_up = 0, today_down = 0, date_now = 0\<rparr>"

type_synonym 'r table_rows = "(string \<times> 'r) list"

definition keys :: "'r table_rows \<Rightarrow> string list" where
  "keys rows = map fst rows"

definition rows_of :: "'r table_rows \<Rightarrow> 'r list" where
  "rows_of rows = map snd rows"

record tables =
  profile_rows :: "profile_item table_rows"
  profile_ex_rows :: "profile_ex_item table_rows"
  subscription_rows :: "sub_item table_rows"
  routing_rows :: "routing_item table_rows"
  server_stat_rows :: "server_stat_item table_rows"
  app_state :: app_state_record
  settings_row :: "(nat \<times> app_settings) option"

definition empty_tables :: tables where
  "empty_tables =
     \<lparr>profile_rows = [], profile_ex_rows = [], subscription_rows = [], routing_rows = [],
      server_stat_rows = [], app_state = \<lparr>active_profile_id = None, active_routing_id = None\<rparr>,
      settings_row = None\<rparr>"

section \<open>Sessions and their tasks\<close>

datatype db_error =
    ForeignKeyFailed
  | StatementFailed
  | UnsupportedDatabaseSchema nat nat

record session =
  db :: tables
  config :: app_config
  faults :: "bool list"
  clock :: "nat list"
  profile_counter :: "64 word"
  subscription_counter :: "64 word"
  routing_counter :: "64 word"
  rule_counter :: "64 word"
  process_id :: "32 word"

type_synonym ('e, 'a) task = "(session, 'e, 'a) stateful"

definition get_config :: "('e, app_config) task" where
  "get_config = (\<lambda>s. (Inr (config s), s))"

definition set_config :: "app_config \<Rightarrow> ('e, unit) task" where
  "set_config c = (\<lambda>s. (Inr (), s\<lparr>config := c\<rparr>))"

text \<open>One SQL statement: it may fail, and is undone then.\<close>

definition statement :: "(tables \<Rightarrow> db_error + 'a \<times> tables) \<Rightarrow> (db_error, 'a) task" where
  "statement f = (\<lambda>s.
     (case faults s of
        True # rest \<Rightarrow> (Inl StatementFailed, s\<lparr>faults := rest\<rparr>)
      | fs \<Rightarrow>
          (let s = s\<lparr>faults := tl fs\<rparr> in
           (case f (db s) of
              Inl e \<Rightarrow> (Inl e, s)
            | Inr (x, t) \<Rightarrow> (Inr x, s\<lparr>db := t\<rparr>)))))"

abbreviation query :: "(tables \<Rightarrow> 'a) \<Rightarrow> (db_error, 'a) task" where
  "query f \<equiv> statement (\<lambda>t. Inr (f t, t))"

section \<open>Profiles (repos/profile.rs, repos/profile\_ex.rs)\<close>

definition subscription_known :: "tables \<Rightarrow> string option \<Rightarrow> bool" where
  "subscription_known t i \<longleftrightarrow> (case i of None \<Rightarrow> True | Some k \<Rightarrow> k \<in> set (keys (subscription_rows t)))"

definition profiles_upsert :: "profile_item \<Rightarrow> (db_error, unit) task" where
  "profiles_upsert item = statement (\<lambda>t.
     if subscription_known t (subscription_id item)
     then Inr ((), t\<lparr>profile_rows := AList.update (index_id item) item (profile_rows t)\<rparr>)
     else Inl ForeignKeyFailed)"

definition profile_exs_upsert :: "profile_ex_item \<Rightarrow> (db_error, unit) task" where
  "profile_exs_upsert item = statement (\<lambda>t.
     if px_index_id item \<in> set (keys (profile_rows t))
     then Inr ((), t\<lparr>profile_ex_rows := AList.update (px_index_id item) item (profile_ex_rows t)\<rparr>)
     else Inl ForeignKeyFailed)"

definition profiles_upsert_with_profile_ex ::
    "profile_item \<Rightarrow> profile_ex_item \<Rightarrow> (db_error, unit) task" where
  "profiles_upsert_with_profile_ex item ex =
     and_then (profiles_upsert item) (\<lambda>_. profile_exs_upsert ex)"

definition profiles_get :: "string \<Rightarrow> (db_error, profile_item option) task" where
  "profiles_get i = query (\<lambda>t. map_of (profile_rows t) i)"

definition profiles_exists :: "string \<Rightarrow> (db_error, bool) task" where
  "profiles_exists i = query (\<lambda>t. i \<in> set (keys (profile_rows t)))"

text \<open>\<open>LEFT JOIN profile_ex_items\<close> with the \<open>COALESCE\<close>d columns.\<close>

definition joined_ex :: "tables \<Rightarrow> string \<Rightarrow> profile_ex_item" where
  "joined_ex t i =
     (case map_of (profile_ex_rows t) i of
        Some e \<Rightarrow> e\<lparr>px_index_id := i\<rparr>
      | None \<Rightarrow> default_profile_ex_item\<lparr>px_index_id := i\<rparr>)"

text \<open>\<open>ORDER BY COALESCE(e.sort, 0), p.index_id\<close>; text is compared byte by byte.\<close>

definition ordered_profiles :: "tables \<Rightarrow> profile_item list \<Rightarrow> profile_item list" where
  "ordered_profiles t = sort_key (\<lambda>p. (px_sort (joined_ex t (index_id p)), index_id p))"

definition of_subscription :: "string option \<Rightarrow> profile_item list \<Rightarrow> profile_item list" where
  "of_subscription i ps =
     (case opt_filter (\<lambda>v. v \<noteq> []) i of
        Some k \<Rightarrow> filter (\<lambda>p. subscription_id p = Some k) ps
      | None \<Rightarrow> ps)"

definition profiles_list :: "(db_error, profile_item list) task" where
  "profiles_list = query (\<lambda>t. ordered_profiles t (rows_of (profile_rows t)))"

definition profiles_list_by_subscription_id :: "string option \<Rightarrow> (db_error, profile_item list) task" where
  "profiles_list_by_subscription_id i =
     query (\<lambda>t. ordered_profiles t (of_subscription i (rows_of (profile_rows t))))"

definition profiles_with_ex :: "tables \<Rightarrow> string option \<Rightarrow> (profile_item \<times> profile_ex_item) list" where
  "profiles_with_ex t i =
     map (\<lambda>p. (p, joined_ex t (index_id p)))
       (ordered_profiles t (of_subscription i (rows_of (profile_rows t))))"

definition profiles_list_with_profile_ex ::
    "string option \<Rightarrow> (db_error, (profile_item \<times> profile_ex_item) list) task" where
  "profiles_list_with_profile_ex i = query (\<lambda>t. profiles_with_ex t i)"

text \<open>\<open>DELETE FROM profile_items\<close> for the rows of a set, with everything that refers to them.\<close>

definition clear_if :: "('a \<Rightarrow> bool) \<Rightarrow> 'a option \<Rightarrow> 'a option" where
  "clear_if P = opt_filter (\<lambda>x. \<not> P x)"

definition without_keys :: "(string \<Rightarrow> bool) \<Rightarrow> 'r table_rows \<Rightarrow> 'r table_rows" where
  "without_keys P rows = filter (\<lambda>(k, _). \<not> P k) rows"

definition drop_profiles :: "(string \<Rightarrow> bool) \<Rightarrow> tables \<Rightarrow> tables" where
  "drop_profiles P t =
     t\<lparr>profile_rows := without_keys P (profile_rows t),
       profile_ex_rows := without_keys P (profile_ex_rows t),
       server_stat_rows := without_keys P (server_stat_rows t),
       app_state := (app_state t)\<lparr>active_profile_id := clear_if P (active_profile_id (app_state t))\<rparr>\<rparr>"

definition profiles_delete :: "string \<Rightarrow> (db_error, bool) task" where
  "profiles_delete i = statement (\<lambda>t.
     Inr (i \<in> set (keys (profile_rows t)), drop_profiles (\<lambda>k. k = i) t))"

definition profiles_delete_many :: "string list \<Rightarrow> (db_error, nat) task" where
  "profiles_delete_many ids =
     fold_task (\<lambda>i deleted. and_then (profiles_delete i)
       (\<lambda>found. give (if found then deleted + 1 else deleted))) ids 0"

definition belongs_to :: "tables \<Rightarrow> string \<Rightarrow> string \<Rightarrow> bool" where
  "belongs_to t sub i \<longleftrightarrow>
     (case map_of (profile_rows t) i of Some p \<Rightarrow> subscription_id p = Some sub | None \<Rightarrow> False)"

definition profiles_delete_by_subscription_id :: "string \<Rightarrow> (db_error, nat) task" where
  "profiles_delete_by_subscription_id i = statement (\<lambda>t.
     Inr (length (filter (belongs_to t i) (keys (profile_rows t))), drop_profiles (belongs_to t i) t))"

definition profile_exs_get :: "string \<Rightarrow> (db_error, profile_ex_item option) task" where
  "profile_exs_get i = query (\<lambda>t. map_of (profile_ex_rows t) i)"

definition profile_exs_ensure :: "string \<Rightarrow> (db_error, profile_ex_item) task" where
  "profile_exs_ensure i =
     and_then (profile_exs_get i) (\<lambda>found.
       case found of
         Some item \<Rightarrow> give item
       | None \<Rightarrow>
           (let item = default_profile_ex_item\<lparr>px_index_id := i\<rparr> in
            and_then (profile_exs_upsert item) (\<lambda>_. give item)))"

definition profile_exs_list :: "(db_error, profile_ex_item list) task" where
  "profile_exs_list = query (\<lambda>t. sort_key (\<lambda>e. (px_sort e, px_index_id e)) (rows_of (profile_ex_rows t)))"

text \<open>\<open>SELECT MAX(sort)\<close>, \<open>NULL\<close> on an empty table.\<close>

definition max_or_zero :: "i32 list \<Rightarrow> i32" where
  "max_or_zero xs = (case xs of [] \<Rightarrow> 0 | x # r \<Rightarrow> fold max r x)"

definition profile_exs_max_sort :: "(db_error, i32) task" where
  "profile_exs_max_sort = query (\<lambda>t. max_or_zero (map px_sort (rows_of (profile_ex_rows t))))"

definition profile_exs_set_sort :: "string \<Rightarrow> i32 \<Rightarrow> (db_error, unit) task" where
  "profile_exs_set_sort i position =
     and_then (profile_exs_ensure i) (\<lambda>item. profile_exs_upsert (item\<lparr>px_sort := position\<rparr>))"

definition profile_exs_delete_orphans :: "(db_error, nat) task" where
  "profile_exs_delete_orphans = statement (\<lambda>t.
     let orphan = (\<lambda>k. k \<notin> set (keys (profile_rows t))) in
     Inr (length (filter orphan (keys (profile_ex_rows t))),
          t\<lparr>profile_ex_rows := without_keys orphan (profile_ex_rows t)\<rparr>))"

section \<open>Subscriptions (repos/subscription.rs)\<close>

definition subscriptions_upsert :: "sub_item \<Rightarrow> (db_error, unit) task" where
  "subscriptions_upsert item = statement (\<lambda>t.
     Inr ((), t\<lparr>subscription_rows := AList.update (sub_id item) item (subscription_rows t)\<rparr>))"

definition subscriptions_get :: "string \<Rightarrow> (db_error, sub_item option) task" where
  "subscriptions_get i = query (\<lambda>t. map_of (subscription_rows t) i)"

text \<open>Without an order the rows come in the order they were inserted.\<close>

definition subscriptions_get_by_url :: "string \<Rightarrow> (db_error, sub_item option) task" where
  "subscriptions_get_by_url url = query (\<lambda>t. find (\<lambda>s. sub_url s = url) (rows_of (subscription_rows t)))"

definition subscriptions_list :: "(db_error, sub_item list) task" where
  "subscriptions_list = query (\<lambda>t. sort_key (\<lambda>s. (sub_sort s, sub_id s)) (rows_of (subscription_rows t)))"

definition subscriptions_max_sort :: "(db_error, i32) task" where
  "subscriptions_max_sort = query (\<lambda>t. max_or_zero (map sub_sort (rows_of (subscription_rows t))))"

definition subscriptions_delete :: "string \<Rightarrow> (db_error, bool) task" where
  "subscriptions_delete i = statement (\<lambda>t.
     Inr (i \<in> set (keys (subscription_rows t)),
          (drop_profiles (belongs_to t i) t)
            \<lparr>subscription_rows := without_keys (\<lambda>k. k = i) (subscription_rows t)\<rparr>))"

section \<open>Routings (repos/routing.rs)\<close>

text \<open>
  The column \<open>is_active\<close> is computed by each query; a comparison with no active routing is
  \<open>NULL\<close>, which is read as false.
\<close>

definition read_routing :: "tables \<Rightarrow> routing_item \<Rightarrow> routing_item" where
  "read_routing t r = r\<lparr>rt_is_active := (active_routing_id (app_state t) = Some (rt_id r))\<rparr>"

definition ordered_routings :: "tables \<Rightarrow> routing_item list" where
  "ordered_routings t =
     map (read_routing t) (sort_key (\<lambda>r. (rt_sort r, rt_id r)) (rows_of (routing_rows t)))"

definition routings_upsert :: "routing_item \<Rightarrow> (db_error, unit) task" where
  "routings_upsert item = statement (\<lambda>t.
     Inr ((), t\<lparr>routing_rows := AList.update (rt_id item) (item\<lparr>rt_is_active := False\<rparr>) (routing_rows t)\<rparr>))"

definition routings_get :: "string \<Rightarrow> (db_error, routing_item option) task" where
  "routings_get i = query (\<lambda>t. map_option (read_routing t) (map_of (routing_rows t) i))"

definition routings_list :: "(db_error, routing_item list) task" where
  "routings_list = query ordered_routings"

definition first_of :: "'a list \<Rightarrow> 'a option" where
  "first_of xs = (case xs of [] \<Rightarrow> None | x # _ \<Rightarrow> Some x)"

definition routings_active :: "(db_error, routing_item option) task" where
  "routings_active = query (\<lambda>t. first_of (filter rt_is_active (ordered_routings t)))"

definition routings_first :: "(db_error, routing_item option) task" where
  "routings_first = query (\<lambda>t. first_of (ordered_routings t))"

definition routings_exists :: "string \<Rightarrow> (db_error, bool) task" where
  "routings_exists i = query (\<lambda>t. i \<in> set (keys (routing_rows t)))"

definition routings_max_sort :: "(db_error, i32) task" where
  "routings_max_sort = query (\<lambda>t. max_or_zero (map rt_sort (rows_of (routing_rows t))))"

definition known_or_null :: "'r table_rows \<Rightarrow> string option \<Rightarrow> bool" where
  "known_or_null rows i \<longleftrightarrow> (case i of None \<Rightarrow> True | Some k \<Rightarrow> k \<in> set (keys rows))"

definition app_state_set_active_routing :: "string option \<Rightarrow> (db_error, unit) task" where
  "app_state_set_active_routing i = statement (\<lambda>t.
     if known_or_null (routing_rows t) i
     then Inr ((), t\<lparr>app_state := (app_state t)\<lparr>active_routing_id := i\<rparr>\<rparr>)
     else Inl ForeignKeyFailed)"

definition routings_set_active :: "string \<Rightarrow> (db_error, bool) task" where
  "routings_set_active i =
     and_then (routings_exists i) (\<lambda>found.
       if found then and_then (app_state_set_active_routing (Some i)) (\<lambda>_. give True)
       else give False)"

definition drop_routing :: "string \<Rightarrow> tables \<Rightarrow> tables" where
  "drop_routing i t =
     t\<lparr>routing_rows := without_keys (\<lambda>k. k = i) (routing_rows t),
       app_state := (app_state t)\<lparr>active_routing_id := clear_if (\<lambda>k. k = i) (active_routing_id (app_state t))\<rparr>\<rparr>"

definition routings_delete :: "string \<Rightarrow> (db_error, bool) task" where
  "routings_delete i = statement (\<lambda>t. Inr (i \<in> set (keys (routing_rows t)), drop_routing i t))"

definition routings_delete_many :: "string list \<Rightarrow> (db_error, nat) task" where
  "routings_delete_many ids =
     fold_task (\<lambda>i deleted. and_then (routings_delete i)
       (\<lambda>found. give (if found then deleted + 1 else deleted))) ids 0"

section \<open>Traffic (repos/server\_stat.rs)\<close>

definition server_stats_upsert :: "server_stat_item \<Rightarrow> (db_error, unit) task" where
  "server_stats_upsert item = statement (\<lambda>t.
     if ss_index_id item \<in> set (keys (profile_rows t))
     then Inr ((), t\<lparr>server_stat_rows := AList.update (ss_index_id item) item (server_stat_rows t)\<rparr>)
     else Inl ForeignKeyFailed)"

definition server_stats_get :: "string \<Rightarrow> (db_error, server_stat_item option) task" where
  "server_stats_get i = query (\<lambda>t. map_of (server_stat_rows t) i)"

definition server_stats_ensure :: "string \<Rightarrow> i64 \<Rightarrow> (db_error, server_stat_item) task" where
  "server_stats_ensure i today =
     and_then (server_stats_get i) (\<lambda>found.
       case found of
         Some item \<Rightarrow>
           (if date_now item \<noteq> today then
              (let item = item\<lparr>today_up := 0, today_down := 0, date_now := today\<rparr> in
               and_then (server_stats_upsert item) (\<lambda>_. give item))
            else give item)
       | None \<Rightarrow>
           (let item = default_server_stat_item\<lparr>ss_index_id := i, date_now := today\<rparr> in
            and_then (server_stats_upsert item) (\<lambda>_. give item)))"

definition server_stats_list :: "(db_error, server_stat_item list) task" where
  "server_stats_list = query (\<lambda>t. sort_key ss_index_id (rows_of (server_stat_rows t)))"

definition server_stats_delete_orphans :: "(db_error, nat) task" where
  "server_stats_delete_orphans = statement (\<lambda>t.
     let orphan = (\<lambda>k. k \<notin> set (keys (profile_rows t))) in
     Inr (length (filter orphan (keys (server_stat_rows t))),
          t\<lparr>server_stat_rows := without_keys orphan (server_stat_rows t)\<rparr>))"

definition server_stats_reset_rollover :: "i64 \<Rightarrow> (db_error, nat) task" where
  "server_stats_reset_rollover today = statement (\<lambda>t.
     Inr (length (filter (\<lambda>r. date_now r \<noteq> today) (rows_of (server_stat_rows t))),
          t\<lparr>server_stat_rows :=
              map (\<lambda>(k, r). (k, if date_now r \<noteq> today
                                then r\<lparr>today_up := 0, today_down := 0, date_now := today\<rparr> else r))
                (server_stat_rows t)\<rparr>))"

definition server_stats_add_traffic ::
    "string \<Rightarrow> i64 \<Rightarrow> i64 \<Rightarrow> i64 \<Rightarrow> (db_error, server_stat_item) task" where
  "server_stats_add_traffic i today proxy_up proxy_down =
     and_then (server_stats_ensure i today) (\<lambda>item.
       (let item = item\<lparr>total_up := i64_saturating_add (total_up item) (max proxy_up 0),
                        total_down := i64_saturating_add (total_down item) (max proxy_down 0),
                        today_up := i64_saturating_add (today_up item) (max proxy_up 0),
                        today_down := i64_saturating_add (today_down item) (max proxy_down 0),
                        date_now := today\<rparr> in
        and_then (server_stats_upsert item) (\<lambda>_. give item)))"

definition server_stats_clone_stat :: "string \<Rightarrow> string \<Rightarrow> (db_error, server_stat_item option) task" where
  "server_stats_clone_stat i to =
     (if i = to then server_stats_get i
      else and_then (server_stats_get i) (\<lambda>found.
        case found of
          None \<Rightarrow> give None
        | Some item \<Rightarrow>
            (let item = item\<lparr>ss_index_id := to\<rparr> in
             and_then (server_stats_upsert item) (\<lambda>_. give (Some item)))))"

section \<open>Settings and state (repos/settings.rs, repos/state.rs)\<close>

definition app_state_load :: "(db_error, app_state_record) task" where
  "app_state_load = query app_state"

definition app_state_set_active_profile :: "string option \<Rightarrow> (db_error, unit) task" where
  "app_state_set_active_profile i = statement (\<lambda>t.
     if known_or_null (profile_rows t) i
     then Inr ((), t\<lparr>app_state := (app_state t)\<lparr>active_profile_id := i\<rparr>\<rparr>)
     else Inl ForeignKeyFailed)"

definition settings_load :: "(db_error, app_settings) task" where
  "settings_load =
     and_then (query settings_row) (\<lambda>row.
       case row of
         None \<Rightarrow> give default_app_settings
       | Some (version, settings) \<Rightarrow>
           (if version \<noteq> CURRENT_SCHEMA_VERSION
            then give_up (UnsupportedDatabaseSchema version CURRENT_SCHEMA_VERSION)
            else if settings_version settings \<noteq> CURRENT_SCHEMA_VERSION
            then give_up (UnsupportedDatabaseSchema (settings_version settings) CURRENT_SCHEMA_VERSION)
            else give settings))"

definition validated_payload :: "app_settings \<Rightarrow> (db_error, app_settings) task" where
  "validated_payload settings =
     (if settings_version settings \<noteq> CURRENT_SCHEMA_VERSION
      then give_up (UnsupportedDatabaseSchema (settings_version settings) CURRENT_SCHEMA_VERSION)
      else give settings)"

definition save_settings_on :: "app_settings \<Rightarrow> (db_error, unit) task" where
  "save_settings_on payload = statement (\<lambda>t.
     Inr ((), t\<lparr>settings_row := Some (CURRENT_SCHEMA_VERSION, payload)\<rparr>))"

definition save_state_on :: "app_state_record \<Rightarrow> (db_error, unit) task" where
  "save_state_on state = statement (\<lambda>t.
     if known_or_null (profile_rows t) (active_profile_id state)
        \<and> known_or_null (routing_rows t) (active_routing_id state)
     then Inr ((), t\<lparr>app_state := state\<rparr>)
     else Inl ForeignKeyFailed)"

definition settings_save :: "app_settings \<Rightarrow> (db_error, unit) task" where
  "settings_save settings = and_then (validated_payload settings) save_settings_on"

definition settings_save_with_state :: "app_settings \<Rightarrow> app_state_record \<Rightarrow> (db_error, unit) task" where
  "settings_save_with_state settings state =
     and_then (validated_payload settings) (\<lambda>payload.
       and_then (save_settings_on payload) (\<lambda>_. save_state_on state))"

section \<open>What a task keeps\<close>

text \<open>
  \<open>keeps I m\<close>: the task keeps a property of the tables however it ends. \<open>yields P m Q\<close>: from a
  session with \<open>P\<close>, a task that succeeds ends in one with \<open>Q\<close>.
\<close>

definition keeps :: "(tables \<Rightarrow> bool) \<Rightarrow> ('e, 'a) task \<Rightarrow> bool" where
  "keeps I m \<longleftrightarrow> (\<forall>s. I (db s) \<longrightarrow> I (db (snd (m s))))"

definition yields :: "(session \<Rightarrow> bool) \<Rightarrow> ('e, 'a) task \<Rightarrow> ('a \<Rightarrow> session \<Rightarrow> bool) \<Rightarrow> bool" where
  "yields P m Q \<longleftrightarrow> (\<forall>s x t. P s \<longrightarrow> m s = (Inr x, t) \<longrightarrow> Q x t)"

named_theorems kept "tasks that keep a property of the tables"

lemma keepsI: "(\<And>s. I (db s) \<Longrightarrow> I (db (snd (m s)))) \<Longrightarrow> keeps I m"
  by (simp add: keeps_def)

lemma keepsD: "keeps I m \<Longrightarrow> I (db s) \<Longrightarrow> m s = (r, t) \<Longrightarrow> I (db t)"
  unfolding keeps_def by (metis snd_conv)

lemma keeps_give [kept]: "keeps I (give x)"
  by (simp add: keeps_def give_def)

lemma keeps_give_up [kept]: "keeps I (give_up e)"
  by (simp add: keeps_def give_up_def)

lemma keeps_get_config [kept]: "keeps I get_config"
  by (simp add: keeps_def get_config_def)

lemma keeps_set_config [kept]: "keeps I (set_config c)"
  by (simp add: keeps_def set_config_def)

lemma keeps_after:
  "keeps I m \<Longrightarrow> (\<And>s x t. m s = (Inr x, t) \<Longrightarrow> keeps I (k x)) \<Longrightarrow> keeps I (and_then m k)"
  unfolding keeps_def and_then_def by (fastforce split: prod.split sum.split)

lemma keeps_and_then [kept]: "keeps I m \<Longrightarrow> (\<And>x. keeps I (k x)) \<Longrightarrow> keeps I (and_then m k)"
  unfolding keeps_def and_then_def by (auto split: prod.split sum.split)

lemma keeps_map_err [kept]: "keeps I m \<Longrightarrow> keeps I (map_err f m)"
  unfolding keeps_def map_err_def by (auto split: prod.split sum.split)

lemma keeps_if [kept]: "keeps I a \<Longrightarrow> keeps I b \<Longrightarrow> keeps I (if c then a else b)"
  by simp

lemma keeps_option [kept]:
  "keeps I a \<Longrightarrow> (\<And>x. keeps I (b x)) \<Longrightarrow> keeps I (case v of None \<Rightarrow> a | Some x \<Rightarrow> b x)"
  by (cases v) simp_all

lemma keeps_sum [kept]:
  "(\<And>e. keeps I (a e)) \<Longrightarrow> (\<And>x. keeps I (b x)) \<Longrightarrow> keeps I (case r of Inl e \<Rightarrow> a e | Inr x \<Rightarrow> b x)"
  by (cases r) simp_all

lemma keeps_for_each [kept]: "(\<And>x. keeps I (f x)) \<Longrightarrow> keeps I (for_each f xs)"
  by (induction xs) (simp_all add: kept)

lemma keeps_fold_task [kept]: "(\<And>x b. keeps I (f x b)) \<Longrightarrow> keeps I (fold_task f xs b)"
  by (induction xs arbitrary: b) (simp_all add: kept)

lemma keeps_statement:
  assumes "\<And>t x t'. I t \<Longrightarrow> f t = Inr (x, t') \<Longrightarrow> I t'"
  shows "keeps I (statement f)"
  unfolding keeps_def statement_def using assms
  by (auto simp: Let_def split: list.split bool.split sum.split)

lemma keeps_query [kept]: "keeps I (query f)"
  by (rule keeps_statement) auto

lemma yieldsD: "yields P m Q \<Longrightarrow> P s \<Longrightarrow> m s = (Inr x, t) \<Longrightarrow> Q x t"
  by (simp add: yields_def)

lemma yields_give: "(\<And>s. P s \<Longrightarrow> Q x s) \<Longrightarrow> yields P (give x) Q"
  by (simp add: yields_def give_def)

lemma yields_give_up [simp]: "yields P (give_up e) Q"
  by (simp add: yields_def give_up_def)

lemma yields_and_then: "yields P m R \<Longrightarrow> (\<And>x. yields (R x) (k x) Q) \<Longrightarrow> yields P (and_then m k) Q"
  unfolding yields_def and_then_def by (fastforce split: prod.splits sum.splits)

lemma yields_map_err: "yields P m Q \<Longrightarrow> yields P (map_err f m) Q"
  unfolding yields_def map_err_def by (auto split: prod.splits sum.splits)

lemma statement_Inr:
  "statement f s = (Inr x, t) \<longleftrightarrow>
     (\<exists>u. f (db s) = Inr (x, u) \<and> t = s\<lparr>faults := tl (faults s), db := u\<rparr> \<and> (faults s \<noteq> [] \<longrightarrow> \<not> hd (faults s)))"
  by (auto simp: statement_def Let_def split: list.split bool.split sum.split)

lemma yields_statement:
  assumes "\<And>s x t. P s \<Longrightarrow> f (db s) = Inr (x, t) \<Longrightarrow> Q x (s\<lparr>faults := tl (faults s), db := t\<rparr>)"
  shows "yields P (statement f) Q"
  unfolding yields_def statement_Inr using assms by blast

lemma yields_pre: "yields P m Q \<Longrightarrow> (\<And>s. P' s \<Longrightarrow> P s) \<Longrightarrow> yields P' m Q"
  unfolding yields_def by blast

lemma yields_post: "yields P m Q \<Longrightarrow> (\<And>x s. Q x s \<Longrightarrow> Q' x s) \<Longrightarrow> yields P m Q'"
  unfolding yields_def by blast

lemma yields_conj: "yields P m Q \<Longrightarrow> yields P m Q' \<Longrightarrow> yields P m (\<lambda>x s. Q x s \<and> Q' x s)"
  unfolding yields_def by blast

lemma keeps_yields: "keeps I m \<Longrightarrow> yields (\<lambda>s. I (db s)) m (\<lambda>_ s. I (db s))"
  unfolding keeps_def yields_def by (metis snd_conv)

section \<open>The contract of the tables\<close>

text \<open>
  What every repository operation keeps, provided the profiles written are \<open>storable\<close>. The laws
  are those of the single statements; every operation above keeps such a property.
\<close>

locale table_invariant =
  fixes inv :: "tables \<Rightarrow> bool" and storable :: "profile_item \<Rightarrow> bool"
  assumes profile_stored: "\<And>t p. inv t \<Longrightarrow> storable p \<Longrightarrow> subscription_known t (subscription_id p)
        \<Longrightarrow> inv (t\<lparr>profile_rows := AList.update (index_id p) p (profile_rows t)\<rparr>)"
    and profile_ex_stored: "\<And>t e. inv t \<Longrightarrow> px_index_id e \<in> set (keys (profile_rows t))
        \<Longrightarrow> inv (t\<lparr>profile_ex_rows := AList.update (px_index_id e) e (profile_ex_rows t)\<rparr>)"
    and profiles_dropped: "\<And>t P. inv t \<Longrightarrow> inv (drop_profiles P t)"
    and ex_dropped: "\<And>t P. inv t \<Longrightarrow> inv (t\<lparr>profile_ex_rows := without_keys P (profile_ex_rows t)\<rparr>)"
    and subscription_stored: "\<And>t s. inv t
        \<Longrightarrow> inv (t\<lparr>subscription_rows := AList.update (sub_id s) s (subscription_rows t)\<rparr>)"
    and subscription_dropped: "\<And>t i. inv t
        \<Longrightarrow> inv ((drop_profiles (belongs_to t i) t)\<lparr>subscription_rows := without_keys (\<lambda>k. k = i) (subscription_rows t)\<rparr>)"
    and routing_stored: "\<And>t r. inv t
        \<Longrightarrow> inv (t\<lparr>routing_rows := AList.update (rt_id r) (r\<lparr>rt_is_active := False\<rparr>) (routing_rows t)\<rparr>)"
    and routing_dropped: "\<And>t i. inv t \<Longrightarrow> inv (drop_routing i t)"
    and stat_stored: "\<And>t e. inv t \<Longrightarrow> ss_index_id e \<in> set (keys (profile_rows t))
        \<Longrightarrow> inv (t\<lparr>server_stat_rows := AList.update (ss_index_id e) e (server_stat_rows t)\<rparr>)"
    and stats_dropped: "\<And>t P. inv t \<Longrightarrow> inv (t\<lparr>server_stat_rows := without_keys P (server_stat_rows t)\<rparr>)"
    and stats_rolled: "\<And>t f. inv t \<Longrightarrow> (\<And>r. ss_index_id (f r) = ss_index_id r)
        \<Longrightarrow> inv (t\<lparr>server_stat_rows := map (\<lambda>(k, r). (k, f r)) (server_stat_rows t)\<rparr>)"
    and state_stored: "\<And>t a. inv t \<Longrightarrow> known_or_null (profile_rows t) (active_profile_id a)
        \<Longrightarrow> known_or_null (routing_rows t) (active_routing_id a) \<Longrightarrow> inv (t\<lparr>app_state := a\<rparr>)"
    and profile_activated: "\<And>t i. inv t \<Longrightarrow> known_or_null (profile_rows t) i
        \<Longrightarrow> inv (t\<lparr>app_state := (app_state t)\<lparr>active_profile_id := i\<rparr>\<rparr>)"
    and routing_activated: "\<And>t i. inv t \<Longrightarrow> known_or_null (routing_rows t) i
        \<Longrightarrow> inv (t\<lparr>app_state := (app_state t)\<lparr>active_routing_id := i\<rparr>\<rparr>)"
    and settings_stored: "\<And>t s. inv t \<Longrightarrow> settings_version s = CURRENT_SCHEMA_VERSION
        \<Longrightarrow> inv (t\<lparr>settings_row := Some (CURRENT_SCHEMA_VERSION, s)\<rparr>)"
begin

lemma profiles_upsert_keeps: "storable p \<Longrightarrow> keeps inv (profiles_upsert p)"
  unfolding profiles_upsert_def by (rule keeps_statement) (auto simp: profile_stored split: if_splits)

lemma profile_exs_upsert_keeps: "keeps inv (profile_exs_upsert e)"
  unfolding profile_exs_upsert_def by (rule keeps_statement) (auto simp: profile_ex_stored split: if_splits)

lemma profiles_delete_keeps: "keeps inv (profiles_delete i)"
  unfolding profiles_delete_def by (rule keeps_statement) (auto simp: profiles_dropped)

lemma profiles_delete_by_subscription_id_keeps: "keeps inv (profiles_delete_by_subscription_id i)"
  unfolding profiles_delete_by_subscription_id_def by (rule keeps_statement) (auto simp: profiles_dropped)

lemma profile_exs_delete_orphans_keeps: "keeps inv profile_exs_delete_orphans"
  unfolding profile_exs_delete_orphans_def by (rule keeps_statement) (auto simp: ex_dropped Let_def)

lemma subscriptions_upsert_keeps: "keeps inv (subscriptions_upsert s)"
  unfolding subscriptions_upsert_def by (rule keeps_statement) (auto simp: subscription_stored)

lemma subscriptions_delete_keeps: "keeps inv (subscriptions_delete i)"
  unfolding subscriptions_delete_def by (rule keeps_statement) (auto simp: subscription_dropped)

lemma routings_upsert_keeps: "keeps inv (routings_upsert r)"
  unfolding routings_upsert_def by (rule keeps_statement) (auto simp: routing_stored)

lemma routings_delete_keeps: "keeps inv (routings_delete i)"
  unfolding routings_delete_def by (rule keeps_statement) (auto simp: routing_dropped)

lemma app_state_set_active_routing_keeps: "keeps inv (app_state_set_active_routing i)"
  unfolding app_state_set_active_routing_def
  by (rule keeps_statement) (auto simp: routing_activated split: if_splits)

lemma app_state_set_active_profile_keeps: "keeps inv (app_state_set_active_profile i)"
  unfolding app_state_set_active_profile_def
  by (rule keeps_statement) (auto simp: profile_activated split: if_splits)

lemma server_stats_upsert_keeps: "keeps inv (server_stats_upsert e)"
  unfolding server_stats_upsert_def by (rule keeps_statement) (auto simp: stat_stored split: if_splits)

lemma server_stats_delete_orphans_keeps: "keeps inv server_stats_delete_orphans"
  unfolding server_stats_delete_orphans_def by (rule keeps_statement) (auto simp: stats_dropped Let_def)

lemma server_stats_reset_rollover_keeps: "keeps inv (server_stats_reset_rollover today)"
  unfolding server_stats_reset_rollover_def by (rule keeps_statement) (auto intro!: stats_rolled)

lemma save_state_on_keeps: "keeps inv (save_state_on a)"
  unfolding save_state_on_def by (rule keeps_statement) (auto simp: state_stored split: if_splits)

lemmas statements_keep = profile_exs_upsert_keeps profiles_delete_keeps
  profiles_delete_by_subscription_id_keeps profile_exs_delete_orphans_keeps subscriptions_upsert_keeps
  subscriptions_delete_keeps routings_upsert_keeps routings_delete_keeps
  app_state_set_active_routing_keeps app_state_set_active_profile_keeps server_stats_upsert_keeps
  server_stats_delete_orphans_keeps server_stats_reset_rollover_keeps save_state_on_keeps

lemma settings_save_with_state_keeps: "keeps inv (settings_save_with_state settings state)"
proof (cases "settings_version settings = CURRENT_SCHEMA_VERSION")
  case True
  then have "keeps inv (save_settings_on settings)"
    unfolding save_settings_on_def by (intro keeps_statement) (auto simp: settings_stored)
  then have "keeps inv (and_then (save_settings_on settings) (\<lambda>_. save_state_on state))"
    by (rule keeps_and_then) (rule save_state_on_keeps)
  with True show ?thesis
    by (simp add: settings_save_with_state_def validated_payload_def and_then_def give_def)
qed (simp add: settings_save_with_state_def validated_payload_def and_then_def give_up_def keeps_def)

lemma profiles_upsert_with_profile_ex_keeps:
  "storable p \<Longrightarrow> keeps inv (profiles_upsert_with_profile_ex p e)"
  unfolding profiles_upsert_with_profile_ex_def by (intro keeps_and_then statements_keep profiles_upsert_keeps)

lemma profiles_delete_many_keeps: "keeps inv (profiles_delete_many ids)"
  unfolding profiles_delete_many_def by (intro kept statements_keep)

lemma routings_delete_many_keeps: "keeps inv (routings_delete_many ids)"
  unfolding routings_delete_many_def by (intro kept statements_keep)

lemma profile_exs_ensure_keeps: "keeps inv (profile_exs_ensure i)"
  unfolding profile_exs_ensure_def profile_exs_get_def Let_def by (intro kept statements_keep)

lemma profile_exs_set_sort_keeps: "keeps inv (profile_exs_set_sort i p)"
  unfolding profile_exs_set_sort_def by (intro kept statements_keep profile_exs_ensure_keeps)

lemma routings_set_active_keeps: "keeps inv (routings_set_active i)"
  unfolding routings_set_active_def routings_exists_def by (intro kept statements_keep)

lemma server_stats_ensure_keeps: "keeps inv (server_stats_ensure i d)"
  unfolding server_stats_ensure_def server_stats_get_def Let_def by (intro kept statements_keep)

lemma server_stats_add_traffic_keeps: "keeps inv (server_stats_add_traffic i d u v)"
  unfolding server_stats_add_traffic_def Let_def by (intro kept statements_keep server_stats_ensure_keeps)

lemma server_stats_clone_stat_keeps: "keeps inv (server_stats_clone_stat i j)"
  unfolding server_stats_clone_stat_def server_stats_get_def Let_def by (intro kept statements_keep)

lemmas repositories_keep = statements_keep settings_save_with_state_keeps profiles_delete_many_keeps routings_delete_many_keeps
  profile_exs_ensure_keeps profile_exs_set_sort_keeps routings_set_active_keeps
  server_stats_ensure_keeps server_stats_add_traffic_keeps server_stats_clone_stat_keeps

end

section \<open>Integrity\<close>

definition rows_ok :: "('r \<Rightarrow> string) \<Rightarrow> 'r table_rows \<Rightarrow> bool" where
  "rows_ok key rows \<longleftrightarrow> distinct (keys rows) \<and> (\<forall>(k, r) \<in> set rows. key r = k)"

text \<open>Primary keys, and every reference names a row.\<close>

definition db_ok :: "tables \<Rightarrow> bool" where
  "db_ok t \<longleftrightarrow>
     rows_ok index_id (profile_rows t) \<and> rows_ok px_index_id (profile_ex_rows t)
     \<and> rows_ok sub_id (subscription_rows t) \<and> rows_ok rt_id (routing_rows t)
     \<and> rows_ok ss_index_id (server_stat_rows t)
     \<and> set (keys (profile_ex_rows t)) \<subseteq> set (keys (profile_rows t))
     \<and> set (keys (server_stat_rows t)) \<subseteq> set (keys (profile_rows t))
     \<and> (\<forall>p \<in> set (rows_of (profile_rows t)). subscription_known t (subscription_id p))
     \<and> known_or_null (profile_rows t) (active_profile_id (app_state t))
     \<and> known_or_null (routing_rows t) (active_routing_id (app_state t))"

lemma keys_Nil [simp]: "keys [] = []"
  by (simp add: keys_def)

lemma rows_of_Nil [simp]: "rows_of [] = []"
  by (simp add: rows_of_def)

lemma keys_update [simp]: "set (keys (AList.update k r rows)) = insert k (set (keys rows))"
  by (simp add: keys_def dom_map_of_conv_image_fst[symmetric] update_conv' flip: set_map)
     (auto simp: dom_map_of_conv_image_fst[symmetric] update_conv')

lemma keys_without [simp]: "keys (without_keys P rows) = filter (\<lambda>k. \<not> P k) (keys rows)"
  by (induction rows) (auto simp: keys_def without_keys_def)

lemma set_without [simp]: "set (without_keys P rows) = {(k, r) \<in> set rows. \<not> P k}"
  by (auto simp: without_keys_def)

lemma set_update: "set (AList.update k r rows) \<subseteq> insert (k, r) (set rows)"
  by (induction rows) auto

lemma map_of_without [simp]: "map_of (without_keys P rows) k = (if P k then None else map_of rows k)"
  by (induction rows) (auto simp: without_keys_def)

lemma rows_ok_update: "rows_ok key rows \<Longrightarrow> key r = k \<Longrightarrow> rows_ok key (AList.update k r rows)"
  unfolding rows_ok_def keys_def using set_update[of k r rows] distinct_update[of rows k r] by auto

lemma rows_ok_without: "rows_ok key rows \<Longrightarrow> rows_ok key (without_keys P rows)"
  by (auto simp: rows_ok_def)

lemma rows_ok_map:
  "rows_ok key rows \<Longrightarrow> (\<And>r. key (f r) = key r) \<Longrightarrow> rows_ok key (map (\<lambda>(k, r). (k, f r)) rows)"
  by (auto simp: rows_ok_def keys_def case_prod_beta comp_def)

lemma keys_map [simp]: "keys (map (\<lambda>(k, r). (k, f r)) rows) = keys rows"
  by (simp add: keys_def case_prod_beta comp_def)

lemma known_update [simp]: "known_or_null rows i \<Longrightarrow> known_or_null (AList.update k r rows) i"
  by (auto simp: known_or_null_def split: option.split)

lemma known_clear: "known_or_null rows i \<Longrightarrow> known_or_null (without_keys P rows) (clear_if P i)"
  by (auto simp: known_or_null_def clear_if_def opt_filter_def split: option.splits)

lemma rows_of_without: "p \<in> set (rows_of (without_keys P rows)) \<Longrightarrow> p \<in> set (rows_of rows)"
  by (auto simp: rows_of_def)

lemma rows_of_update: "p \<in> set (rows_of (AList.update k r rows)) \<Longrightarrow> p = r \<or> p \<in> set (rows_of rows)"
  using set_update[of k r rows] by (auto simp: rows_of_def)

lemma empty_db_ok: "db_ok empty_tables"
  by (simp add: db_ok_def empty_tables_def rows_ok_def known_or_null_def)

interpretation integrity: table_invariant db_ok "\<lambda>_. True"
proof (unfold_locales, goal_cases)
  case (6 t i)
  have gone: "subscription_id p \<noteq> Some i" if "(k, p) \<in> set (profile_rows t)" "\<not> belongs_to t i k" for k p
  proof -
    have "map_of (profile_rows t) k = Some p" using 6 that(1) by (auto simp: db_ok_def rows_ok_def keys_def)
    with that(2) show ?thesis by (simp add: belongs_to_def)
  qed
  show ?case
    using 6 gone known_clear[of "profile_rows t" "active_profile_id (app_state t)" "belongs_to t i"]
    by (auto simp: db_ok_def drop_profiles_def rows_ok_without rows_of_def subscription_known_def split: option.splits)
qed (auto simp: db_ok_def drop_profiles_def drop_routing_def rows_ok_update rows_ok_without rows_ok_map known_clear
    subscription_known_def split: option.splits dest!: rows_of_without rows_of_update)

definition settings_current :: "tables \<Rightarrow> bool" where
  "settings_current t \<longleftrightarrow>
     (case settings_row t of
        None \<Rightarrow> True
      | Some (v, s) \<Rightarrow> v = CURRENT_SCHEMA_VERSION \<and> settings_version s = CURRENT_SCHEMA_VERSION)"

interpretation versions: table_invariant settings_current "\<lambda>_. True"
  by unfold_locales (simp_all add: settings_current_def drop_profiles_def drop_routing_def)

text \<open>Identifiers of profiles are not empty and have no white space around them.\<close>

definition plain_profile_id :: "string \<Rightarrow> bool" where
  "plain_profile_id i \<longleftrightarrow> i \<noteq> [] \<and> trim i = i"

definition ids_plain :: "tables \<Rightarrow> bool" where
  "ids_plain t \<longleftrightarrow> list_all plain_profile_id (keys (profile_rows t))"

lemma ids_plain_alt: "ids_plain t \<longleftrightarrow> (\<forall>k \<in> set (keys (profile_rows t)). plain_profile_id k)"
  by (simp add: ids_plain_def list_all_iff)

interpretation identifiers: table_invariant ids_plain "\<lambda>p. plain_profile_id (index_id p)"
  by unfold_locales (auto simp: ids_plain_alt drop_profiles_def drop_routing_def)

end
