(* ===== verification/Runtime.thy ===== *)
theory Runtime
  imports Database Supervisor SingboxEntry
begin

text \<open>
  \<open>voya-app/src/runtime.rs\<close>: connecting reads the active profile and everything a configuration needs
  from the database, builds the contexts, writes one configuration file per process and has the
  supervisor start them; with what it calls of \<open>voya-platform/src/coreinfo.rs\<close>.

  The machine is the database session, the written configurations, the answers of the file
  system and the supervisor with its world. The search for the executable and the rule set files
  found on disk are arguments.
\<close>

section \<open>Launching a core (coreinfo.rs)\<close>

definition MAIN_CONFIG_FILE_NAME :: string where "MAIN_CONFIG_FILE_NAME = ''config.json''"
definition PRE_CONFIG_FILE_NAME :: string where "PRE_CONFIG_FILE_NAME = ''configPre.json''"
definition SUDO_SCRIPT_DIR_NAME :: string where "SUDO_SCRIPT_DIR_NAME = ''sudo''"

record runtime_paths =
  rp_bin_config_dir :: string
  rp_temp_dir :: string

definition bin_config_file :: "runtime_paths \<Rightarrow> string \<Rightarrow> string" where
  "bin_config_file paths name = rp_bin_config_dir paths @ ''/'' @ name"

record core_info =
  co_core_type :: core_type
  co_arguments :: string
  co_absolute_path :: bool
  co_environment :: "(string \<times> string) list"

definition CORE_INFOS :: "core_info list" where
  "CORE_INFOS =
     [\<lparr>co_core_type = Core_sing_box, co_arguments = ''run -c {0} --disable-color'', co_absolute_path = False,
       co_environment = []\<rparr>]"

definition get_core_info :: "core_type \<Rightarrow> core_info option" where
  "get_core_info c = find (\<lambda>i. co_core_type i = c) CORE_INFOS"

definition config_argument :: "core_info \<Rightarrow> runtime_paths \<Rightarrow> string \<Rightarrow> string" where
  "config_argument i paths name =
     (if co_absolute_path i then quote_path (bin_config_file paths name) else name)"

definition resolve_arguments :: "core_info \<Rightarrow> runtime_paths \<Rightarrow> string \<Rightarrow> string" where
  "resolve_arguments i paths name = replace_str ''{0}'' (config_argument i paths name) (co_arguments i)"

definition resolve_launch :: "core_info \<Rightarrow> string \<Rightarrow> runtime_paths \<Rightarrow> string \<Rightarrow> core_launch" where
  "resolve_launch i executable paths name =
     \<lparr>cl_executable = executable, cl_arguments = resolve_arguments i paths name,
      cl_working_dir = rp_bin_config_dir paths, cl_environment = co_environment i\<rparr>"

section \<open>The manager\<close>

record runtime_manager =
  rt_externals :: externals
  rt_rulesets_from_str :: "string \<Rightarrow> singbox_ruleset list option"
  rt_target_os :: target_os
  rt_paths :: runtime_paths
  rt_core_executable :: "core_type \<Rightarrow> string option"
  rt_ruleset_paths :: "(string, string) btree_map"

datatype runtime_error =
    Rt_MissingActiveProfileId
  | Rt_ActiveProfileNotFound string
  | Rt_Validation "string list" "string list"
  | Rt_MissingCoreInfo core_type
  | Rt_ExecutableNotFound core_type
  | Rt_WriteConfig string
  | Rt_RemoveConfig string
  | Rt_SingboxConfig singbox_config_error
  | Rt_Database db_error
  | Rt_Path
  | Rt_Supervisor supervisor_error
  | Rt_NoReturn

record runtime_machine =
  rm_session :: session
  rm_configs :: "string \<rightharpoonup> singbox_config"
  rm_io_faults :: "bool list"
  rm_actor :: supervisor_actor
  rm_world :: sup_world

type_synonym ('e, 'a) on_runtime = "(runtime_machine, 'e, 'a) stateful"

definition on_database :: "('e, 'a) task \<Rightarrow> ('e, 'a) on_runtime" where
  "on_database m = (\<lambda>w. case m (rm_session w) of (r, s) \<Rightarrow> (r, w\<lparr>rm_session := s\<rparr>))"

text \<open>A call of the file system: it fails, without effect, if the next fault says so.\<close>

definition file_call ::
    "runtime_error \<Rightarrow> ((string \<rightharpoonup> singbox_config) \<Rightarrow> (string \<rightharpoonup> singbox_config)) \<Rightarrow> (runtime_error, unit) on_runtime" where
  "file_call e f = (\<lambda>w.
     (case rm_io_faults w of
        True # rest \<Rightarrow> (Inl e, w\<lparr>rm_io_faults := rest\<rparr>)
      | fs \<Rightarrow> (Inr (), w\<lparr>rm_io_faults := tl fs, rm_configs := f (rm_configs w)\<rparr>)))"

definition run_supervisor :: "supervisor_command \<Rightarrow> (runtime_error, supervisor_snapshot) on_runtime" where
  "run_supervisor c = (\<lambda>w.
     (case run_command c (rm_actor w) (rm_world w) of
        (Inl e, a, v) \<Rightarrow> (Inl (Rt_Supervisor e), w\<lparr>rm_actor := a, rm_world := v\<rparr>)
      | (Inr s, a, v) \<Rightarrow> (Inr s, w\<lparr>rm_actor := a, rm_world := v\<rparr>)))"

fun core_gen_platform_of :: "target_os \<Rightarrow> core_gen_platform" where
  "core_gen_platform_of Os_Windows = Windows"
| "core_gen_platform_of Os_Macos = MacOS"
| "core_gen_platform_of Os_Linux = Linux"
| "core_gen_platform_of Os_Other = Linux"

definition load_runtime_core_gen_env ::
    "runtime_manager \<Rightarrow> app_config \<Rightarrow> (db_error, snapshot_env) task" where
  "load_runtime_core_gen_env m conf =
     and_then profiles_list (\<lambda>profiles.
     and_then routings_list (\<lambda>routings.
     and_then subscriptions_list (\<lambda>subs.
       give (with_singbox_ruleset_paths (rt_ruleset_paths m)
               (new_snapshot_env conf (core_gen_platform_of (rt_target_os m)) profiles routings subs)))))"

definition should_use_single_native_tun_config :: "app_config \<Rightarrow> target_os \<Rightarrow> bool" where
  "should_use_single_native_tun_config conf os \<longleftrightarrow>
     enable_tun (tun_mode conf) \<and> tun_backend_of os \<in> {Tb_MacosPacketTunnel, Tb_WindowsService}"

definition runtime_config_contexts ::
    "externals \<Rightarrow> snapshot_env \<Rightarrow> app_config \<Rightarrow> profile_item \<Rightarrow> target_os \<Rightarrow> builder_all_result" where
  "runtime_config_contexts X env conf node os =
     (if should_use_single_native_tun_config conf os
      then \<lparr>main_result = build X env conf node, pre_socks_result = None\<rparr>
      else build_all X env conf node)"

definition write_runtime_config ::
    "runtime_manager \<Rightarrow> string \<Rightarrow> core_config_context \<Rightarrow> (runtime_error, unit) on_runtime" where
  "write_runtime_config m name ctx =
     (case generate_singbox_config (rt_externals m) (rt_rulesets_from_str m) ctx of
        None \<Rightarrow> give_up Rt_NoReturn
      | Some (Inl e) \<Rightarrow> give_up (Rt_SingboxConfig e)
      | Some (Inr cfg) \<Rightarrow>
          (let path = bin_config_file (rt_paths m) name
           in file_call (Rt_WriteConfig path) (\<lambda>fs. fs(path \<mapsto> cfg))))"

definition cleanup_config_file :: "runtime_manager \<Rightarrow> string \<Rightarrow> (runtime_error, unit) on_runtime" where
  "cleanup_config_file m name =
     (let path = bin_config_file (rt_paths m) name
      in file_call (Rt_RemoveConfig path) (\<lambda>fs. fs(path := None)))"

definition cleanup_runtime_state :: "runtime_manager \<Rightarrow> (runtime_error, unit) on_runtime" where
  "cleanup_runtime_state m =
     and_then (cleanup_config_file m MAIN_CONFIG_FILE_NAME) (\<lambda>_. cleanup_config_file m PRE_CONFIG_FILE_NAME)"

definition process_spec ::
    "runtime_manager \<Rightarrow> core_config_context \<Rightarrow> string \<Rightarrow> (runtime_error, core_process_spec) on_runtime" where
  "process_spec m ctx name =
     (case get_core_info (run_core_type ctx) of
        None \<Rightarrow> give_up (Rt_MissingCoreInfo (run_core_type ctx))
      | Some i \<Rightarrow>
          (case rt_core_executable m (run_core_type ctx) of
             None \<Rightarrow> give_up (Rt_ExecutableNotFound (run_core_type ctx))
           | Some executable \<Rightarrow>
               give \<lparr>cs_core_type = run_core_type ctx,
                     cs_launch = resolve_launch i executable (rt_paths m) name,
                     cs_config_path = Some (bin_config_file (rt_paths m) name),
                     cs_display_log = display_log (cx_node ctx), cs_may_need_sudo = True\<rparr>))"

definition prepare_pre ::
    "runtime_manager \<Rightarrow> builder_result option \<Rightarrow> (runtime_error, core_process_spec option) on_runtime" where
  "prepare_pre m pre_result =
     (case pre_result of
        Some pre \<Rightarrow>
          and_then (write_runtime_config m PRE_CONFIG_FILE_NAME (br_context pre)) (\<lambda>_.
          and_then (process_spec m (br_context pre) PRE_CONFIG_FILE_NAME) (\<lambda>spec. give (Some spec)))
      | None \<Rightarrow> and_then (cleanup_config_file m PRE_CONFIG_FILE_NAME) (\<lambda>_. give None))"

text \<open>The start, with the cleanup of a failed one, whose own errors are ignored.\<close>

definition ignoring :: "('s, 'e, unit) stateful \<Rightarrow> 's \<Rightarrow> 's" where
  "ignoring m s = snd (m s)"

definition start_supervisor ::
    "runtime_manager \<Rightarrow> supervisor_start_request \<Rightarrow> (runtime_error, supervisor_snapshot) on_runtime" where
  "start_supervisor m request = (\<lambda>w.
     (case run_supervisor (Cmd_Start request 0) w of
        (Inr s, w) \<Rightarrow> (Inr s, w)
      | (Inl e, w) \<Rightarrow>
          (Inl e, ignoring (cleanup_config_file m PRE_CONFIG_FILE_NAME)
                    (ignoring (cleanup_config_file m MAIN_CONFIG_FILE_NAME) w))))"

definition connect_with ::
    "runtime_manager \<Rightarrow> app_config \<Rightarrow> profile_item \<Rightarrow> snapshot_env \<Rightarrow> (runtime_error, supervisor_snapshot) on_runtime" where
  "connect_with m conf node env =
     (let contexts = runtime_config_contexts (rt_externals m) env conf node (rt_target_os m);
          validation = combined_validator_result contexts;
          main = br_context (main_result contexts)
      in if \<not> all_success contexts
         then give_up (Rt_Validation (nv_errors validation) (nv_warnings validation))
         else
           and_then (write_runtime_config m MAIN_CONFIG_FILE_NAME main) (\<lambda>_.
           and_then (process_spec m main MAIN_CONFIG_FILE_NAME) (\<lambda>main_spec.
           and_then (prepare_pre m (pre_socks_result contexts)) (\<lambda>pre.
             start_supervisor m
               \<lparr>rq_profile_id = Some (index_id node), rq_main = main_spec, rq_pre = pre,
                rq_tun_enabled = enable_tun (tun_mode conf),
                rq_sudo_script_dir = rp_temp_dir (rt_paths m) @ ''/'' @ SUDO_SCRIPT_DIR_NAME,
                rq_restart_on_crash = True\<rparr>))))"

definition connect :: "runtime_manager \<Rightarrow> app_config \<Rightarrow> (runtime_error, supervisor_snapshot) on_runtime" where
  "connect m conf =
     and_then (file_call Rt_Path (\<lambda>fs. fs)) (\<lambda>_.
       (let active = trim (ac_index_id conf)
        in if active = [] then give_up Rt_MissingActiveProfileId
           else
             and_then (map_err Rt_Database (on_database (profiles_get active))) (\<lambda>found.
               case found of
                 None \<Rightarrow> give_up (Rt_ActiveProfileNotFound active)
               | Some node \<Rightarrow>
                   and_then (map_err Rt_Database (on_database (load_runtime_core_gen_env m conf)))
                     (\<lambda>env. connect_with m conf node env))))"

definition reconnect :: "runtime_manager \<Rightarrow> app_config \<Rightarrow> (runtime_error, supervisor_snapshot) on_runtime" where
  "reconnect m conf = connect m conf"

definition disconnect :: "runtime_manager \<Rightarrow> (runtime_error, supervisor_snapshot) on_runtime" where
  "disconnect m =
     and_then (run_supervisor (Cmd_Stop 0)) (\<lambda>s. and_then (cleanup_runtime_state m) (\<lambda>_. give s))"

definition runtime_status :: "(runtime_error, supervisor_snapshot) on_runtime" where
  "runtime_status = run_supervisor (Cmd_Status 0)"

end
