(* ===== verification/ProfileManager.thy ===== *)
theory ProfileManager
  imports Database NetAddr
begin

text \<open>
  The managers of \<open>voya-app/src/profiles\<close>: saving, deleting, copying, ordering and
  deduplicating profiles, and the choice of the active one. Every operation is a task on the
  session, whose configuration is the \<open>&mut AppConfig\<close> argument. \<open>str::to_lowercase\<close> needs the
  tables of Unicode; it is the argument \<open>lower\<close> of the operations that compare texts.
\<close>

section \<open>Arithmetic of the ordering\<close>

definition DEFAULT_PROFILE_SORT_STEP :: i32 where
  "DEFAULT_PROFILE_SORT_STEP = 10"

definition i32_mul :: "i32 \<Rightarrow> i32 \<Rightarrow> i32" where
  "i32_mul a b = (a * b + 2147483648) mod 4294967296 - 2147483648"

text \<open>\<open>i32::try_from(n).unwrap_or(d)\<close> and \<open>u32::try_from(n).unwrap_or(u32::MAX)\<close>.\<close>

definition i32_try_from :: "nat \<Rightarrow> i32 \<Rightarrow> i32" where
  "i32_try_from n d = (if n \<le> 2147483647 then int n else d)"

definition u32_saturated :: "nat \<Rightarrow> nat" where
  "u32_saturated n = min n 4294967295"

section \<open>Identifiers\<close>

definition hex32 :: "128 word \<Rightarrow> string" where
  "hex32 v = map (\<lambda>i. hex_digit_chr (unat v div 16 ^ i mod 16)) (rev [0..<32])"

text \<open>\<open>SystemTime::now()\<close> in nanoseconds; a clock before 1970 reads as 0.\<close>

definition id_bits :: "nat \<Rightarrow> 64 word \<Rightarrow> 32 word \<Rightarrow> 128 word" where
  "id_bits nanos counter pid =
     xor (xor (word_of_nat nanos) (push_bit 64 (ucast counter))) (ucast pid)"

definition read_clock :: "session \<Rightarrow> nat" where
  "read_clock s = (case clock s of [] \<Rightarrow> 0 | n # _ \<Rightarrow> n)"

definition generate_profile_id :: "('e, string) task" where
  "generate_profile_id = (\<lambda>s.
     (Inr (hex32 (id_bits (read_clock s) (profile_counter s) (process_id s))),
      s\<lparr>clock := tl (clock s), profile_counter := profile_counter s + 1\<rparr>))"

section \<open>Normal form of a profile\<close>

definition normalize_values :: "string list \<Rightarrow> string list" where
  "normalize_values vs = filter (\<lambda>v. v \<noteq> []) (map trim vs)"

definition normalize_server :: "server_endpoint \<Rightarrow> server_endpoint" where
  "normalize_server s = s\<lparr>se_address := trim (se_address s)\<rparr>"

fun normalize_protocol :: "profile_protocol \<Rightarrow> profile_protocol" where
  "normalize_protocol (Pp_Vmess s uuid cipher) =
     Pp_Vmess (normalize_server s) (trim uuid) (trimmed_option cipher)"
| "normalize_protocol (Pp_Custom source f) = Pp_Custom (trim source) (trimmed_option f)"
| "normalize_protocol (Pp_Shadowsocks s pw m udp) =
     Pp_Shadowsocks (normalize_server s) (trim pw) (trim m) udp"
| "normalize_protocol (Pp_Socks s u pw) = Pp_Socks (normalize_server s) (trim u) (trim pw)"
| "normalize_protocol (Pp_Http s u pw) = Pp_Http (normalize_server s) (trim u) (trim pw)"
| "normalize_protocol (Pp_Vless s uuid flow enc) =
     Pp_Vless (normalize_server s) (trim uuid) (trimmed_option flow) (trimmed_option enc)"
| "normalize_protocol (Pp_Trojan s pw) = Pp_Trojan (normalize_server s) (trim pw)"
| "normalize_protocol (Pp_Anytls s pw) = Pp_Anytls (normalize_server s) (trim pw)"
| "normalize_protocol (Pp_Hysteria2 s pw hops obfs) =
     Pp_Hysteria2 (normalize_server s) (trim pw) (trimmed_option hops) (trimmed_option obfs)"
| "normalize_protocol (Pp_Tuic s uuid pw cc) =
     Pp_Tuic (normalize_server s) (trim uuid) (trim pw) (trimmed_option cc)"
| "normalize_protocol (Pp_WireGuard s key pk psk ia ips res mtu) =
     Pp_WireGuard (normalize_server s) (trim key) (trimmed_option pk) (trimmed_option psk)
       (trimmed_option ia) (trimmed_option ips) (trimmed_option res) mtu"
| "normalize_protocol (Pp_Naive s u pw quic cc ic udp) =
     Pp_Naive (normalize_server s) (trim u) (trim pw) quic (trimmed_option cc) ic udp"
| "normalize_protocol (Pp_PolicyGroup ids sub f strategy) =
     Pp_PolicyGroup (normalize_values ids) (trimmed_option sub) (trimmed_option f) strategy"
| "normalize_protocol (Pp_ProxyChain ids) = Pp_ProxyChain (normalize_values ids)"

fun normalize_transport :: "profile_transport \<Rightarrow> profile_transport" where
  "normalize_transport (Pt_Tcp h ho p) = Pt_Tcp (trimmed_option h) (trimmed_option ho) (trimmed_option p)"
| "normalize_transport (Pt_Kcp h s m) = Pt_Kcp (trimmed_option h) (trimmed_option s) m"
| "normalize_transport (Pt_Websocket h p) = Pt_Websocket (trimmed_option h) (trimmed_option p)"
| "normalize_transport (Pt_HttpUpgrade h p) = Pt_HttpUpgrade (trimmed_option h) (trimmed_option p)"
| "normalize_transport (Pt_Http2 h p) = Pt_Http2 (trimmed_option h) (trimmed_option p)"
| "normalize_transport (Pt_Quic h p) = Pt_Quic (trimmed_option h) (trimmed_option p)"
| "normalize_transport (Pt_Xhttp h p m e) =
     Pt_Xhttp (trimmed_option h) (trimmed_option p) (trimmed_option m) (trimmed_option e)"
| "normalize_transport (Pt_Grpc a s m) = Pt_Grpc (trimmed_option a) (trimmed_option s) (trimmed_option m)"

definition normalize_tls :: "tls_settings \<Rightarrow> tls_settings" where
  "normalize_tls t =
     \<lparr>tls_mode = tls_mode t, tls_server_name = trimmed_option (tls_server_name t),
      tls_alpn = normalize_values (tls_alpn t),
      reality_public_key = trimmed_option (reality_public_key t),
      reality_short_id = trimmed_option (reality_short_id t),
      reality_spider_x = trimmed_option (reality_spider_x t),
      mldsa65_verify = trimmed_option (mldsa65_verify t),
      certificate_pem = trimmed_option (certificate_pem t),
      certificate_sha256 = normalize_values (certificate_sha256 t),
      ech_config = normalize_values (ech_config t), final_mask = trimmed_option (final_mask t)\<rparr>"

definition normalize_profile :: "profile_item \<Rightarrow> profile_item" where
  "normalize_profile p =
     p\<lparr>index_id := trim (index_id p), remarks := trim (remarks p),
       protocol := normalize_protocol (protocol p),
       transport := map_option normalize_transport (transport p),
       tls := map_option normalize_tls (tls p)\<rparr>"

section \<open>List entries\<close>

record profile_list_item =
  li_profile :: profile_item
  li_profile_ex :: profile_ex_item
  li_server_stat :: server_stat_item
  li_is_active :: bool

definition to_list_item ::
    "profile_item \<Rightarrow> profile_ex_item \<Rightarrow> server_stat_item \<Rightarrow> string \<Rightarrow> profile_list_item" where
  "to_list_item p ex stat active =
     \<lparr>li_profile = p, li_profile_ex = ex, li_server_stat = stat,
      li_is_active = (active \<noteq> [] \<and> index_id p = active)\<rparr>"

definition empty_server_stat :: "string \<Rightarrow> server_stat_item" where
  "empty_server_stat i = default_server_stat_item\<lparr>ss_index_id := i\<rparr>"

definition contains_case_insensitive :: "(string \<Rightarrow> string) \<Rightarrow> string \<Rightarrow> string \<Rightarrow> bool" where
  "contains_case_insensitive lower v needle \<longleftrightarrow> contains_str (lower v) (lower needle)"

datatype profile_manager_error =
    Pm_Database db_error
  | ProfileNotFound string
  | MissingProfileId

abbreviation profile_db :: "(db_error, 'a) task \<Rightarrow> (profile_manager_error, 'a) task" where
  "profile_db \<equiv> map_err Pm_Database"

section \<open>The ordering data (profiles/profile\_ex.rs)\<close>

definition profile_ex_init :: "(profile_manager_error, nat) task" where
  "profile_ex_init = profile_db profile_exs_delete_orphans"

definition profile_ex_update ::
    "string \<Rightarrow> (profile_ex_item \<Rightarrow> profile_ex_item) \<Rightarrow> (profile_manager_error, profile_ex_item) task" where
  "profile_ex_update i f =
     and_then (profile_db (profile_exs_ensure i)) (\<lambda>item.
     and_then (profile_db (profile_exs_upsert (f item))) (\<lambda>_. give (f item)))"

definition profile_ex_set_sort :: "string \<Rightarrow> i32 \<Rightarrow> (profile_manager_error, profile_ex_item) task" where
  "profile_ex_set_sort i position = profile_ex_update i (\<lambda>item. item\<lparr>px_sort := position\<rparr>)"

definition profile_ex_set_test_delay :: "string \<Rightarrow> i32 \<Rightarrow> (profile_manager_error, profile_ex_item) task" where
  "profile_ex_set_test_delay i delay = profile_ex_update i (\<lambda>item. item\<lparr>px_delay := delay\<rparr>)"

definition profile_ex_set_test_speed :: "string \<Rightarrow> f64 \<Rightarrow> (profile_manager_error, profile_ex_item) task" where
  "profile_ex_set_test_speed i speed = profile_ex_update i (\<lambda>item. item\<lparr>px_speed := speed\<rparr>)"

definition profile_ex_set_test_message :: "string \<Rightarrow> string \<Rightarrow> (profile_manager_error, profile_ex_item) task" where
  "profile_ex_set_test_message i message = profile_ex_update i (\<lambda>item. item\<lparr>px_message := Some message\<rparr>)"

definition profile_ex_set_test_ip_info :: "string \<Rightarrow> string \<Rightarrow> (profile_manager_error, profile_ex_item) task" where
  "profile_ex_set_test_ip_info i info = profile_ex_update i (\<lambda>item. item\<lparr>px_ip_info := Some info\<rparr>)"

section \<open>The active profile\<close>

definition set_active_id :: "string \<Rightarrow> ('e, unit) task" where
  "set_active_id i = and_then get_config (\<lambda>c. set_config (c\<lparr>ac_index_id := i\<rparr>))"

text \<open>The first profile with a port, or else the first one.\<close>

definition next_active :: "profile_item list \<Rightarrow> string" where
  "next_active ps =
     (case or_else (find (\<lambda>p. 0 < port p) ps) (first_of ps) of Some p \<Rightarrow> index_id p | None \<Rightarrow> [])"

definition active_is_stored :: "string \<Rightarrow> (profile_manager_error, bool) task" where
  "active_is_stored i = (if i = [] then give False else profile_db (profiles_exists i))"

definition ensure_active_profile :: "(profile_manager_error, bool) task" where
  "ensure_active_profile =
     and_then get_config (\<lambda>c.
     and_then (active_is_stored (ac_index_id c)) (\<lambda>stored.
       if stored then give False
       else and_then (profile_db profiles_list) (\<lambda>ps.
         and_then (set_active_id (next_active ps)) (\<lambda>_. give (ac_index_id c \<noteq> next_active ps)))))"

section \<open>Operations (profiles/manager.rs)\<close>

definition list_profiles ::
    "(string \<Rightarrow> string) \<Rightarrow> string option \<Rightarrow> string option \<Rightarrow> (profile_manager_error, profile_list_item list) task" where
  "list_profiles lower sub needle =
     and_then get_config (\<lambda>c.
     and_then (profile_db (profiles_list_with_profile_ex sub)) (\<lambda>items.
     and_then (profile_db server_stats_list) (\<lambda>stats.
       (let stat_of = map_of (rev (map (\<lambda>r. (ss_index_id r, r)) stats));
            shown = (case trimmed_option needle of
                       None \<Rightarrow> items
                     | Some n \<Rightarrow> filter (\<lambda>(p, _). contains_case_insensitive lower (remarks p) n
                                                   \<or> contains_case_insensitive lower (address p) n) items)
        in give (map (\<lambda>(p, ex). to_list_item p ex
                       (unwrap_or (stat_of (index_id p)) (empty_server_stat (index_id p)))
                       (ac_index_id c)) shown)))))"

text \<open>The profile with its identifier, and whether it is new.\<close>

definition assign_id :: "profile_item \<Rightarrow> (profile_manager_error, profile_item \<times> bool) task" where
  "assign_id p =
     (if trim (index_id p) = []
      then and_then generate_profile_id (\<lambda>i. give (p\<lparr>index_id := i\<rparr>, True))
      else and_then (profile_db (profiles_exists (index_id p))) (\<lambda>found. give (p, \<not> found)))"

definition ex_for_save :: "profile_item \<Rightarrow> bool \<Rightarrow> (profile_manager_error, profile_ex_item) task" where
  "ex_for_save p is_new =
     (if is_new
      then and_then (profile_db profile_exs_max_sort) (\<lambda>m.
        give (default_profile_ex_item
                \<lparr>px_index_id := index_id p, px_sort := i32_add m DEFAULT_PROFILE_SORT_STEP\<rparr>))
      else and_then (profile_db (profile_exs_ensure (index_id p))) (\<lambda>ex.
        give (ex\<lparr>px_index_id := index_id p\<rparr>)))"

definition stat_or_empty :: "string \<Rightarrow> (profile_manager_error, server_stat_item) task" where
  "stat_or_empty i =
     and_then (profile_db (server_stats_get i)) (\<lambda>found. give (unwrap_or found (empty_server_stat i)))"

definition save_profile :: "profile_item \<Rightarrow> (profile_manager_error, profile_list_item) task" where
  "save_profile p =
     and_then (assign_id p) (\<lambda>(p, is_new).
       (let p = normalize_profile p in
        and_then (ex_for_save p is_new) (\<lambda>ex.
        and_then (profile_db (profiles_upsert_with_profile_ex p ex)) (\<lambda>_.
        and_then ensure_active_profile (\<lambda>_.
        and_then (stat_or_empty (index_id p)) (\<lambda>stat.
        and_then get_config (\<lambda>c. give (to_list_item p ex stat (ac_index_id c)))))))))"

definition delete_profiles :: "string list \<Rightarrow> (profile_manager_error, nat) task" where
  "delete_profiles ids =
     and_then (profile_db (profiles_delete_many ids)) (\<lambda>deleted.
     and_then ensure_active_profile (\<lambda>_. give deleted))"

definition copy_profile ::
    "string \<Rightarrow> profile_list_item list \<times> i32 \<Rightarrow> (profile_manager_error, profile_list_item list \<times> i32) task" where
  "copy_profile i = (\<lambda>(copied, next_sort).
     and_then (profile_db (profiles_get i)) (\<lambda>found.
       case found of
         None \<Rightarrow> give (copied, next_sort)
       | Some source \<Rightarrow>
           and_then generate_profile_id (\<lambda>fresh.
             (let p = normalize_profile (source\<lparr>index_id := fresh, remarks := remarks source @ ''-clone''\<rparr>);
                  ex = default_profile_ex_item\<lparr>px_index_id := index_id p, px_sort := next_sort\<rparr> in
              and_then (profile_db (profiles_upsert_with_profile_ex p ex)) (\<lambda>_.
              and_then (profile_db (server_stats_clone_stat (index_id source) (index_id p))) (\<lambda>stat.
              and_then get_config (\<lambda>c.
                give (copied @ [to_list_item p ex (unwrap_or stat (empty_server_stat (index_id p)))
                                  (ac_index_id c)],
                      i32_add next_sort DEFAULT_PROFILE_SORT_STEP))))))))"

definition copy_profiles :: "string list \<Rightarrow> (profile_manager_error, profile_list_item list) task" where
  "copy_profiles ids =
     and_then (profile_db profile_exs_max_sort) (\<lambda>m.
     and_then (fold_task copy_profile ids ([], i32_add m DEFAULT_PROFILE_SORT_STEP)) (\<lambda>(copied, _).
     and_then ensure_active_profile (\<lambda>_. give copied)))"

definition set_active_profile :: "string \<Rightarrow> (profile_manager_error, profile_list_item) task" where
  "set_active_profile i =
     (if trim i = [] then give_up MissingProfileId
      else and_then (profile_db (profiles_get i)) (\<lambda>found.
        case found of
          None \<Rightarrow> give_up (ProfileNotFound i)
        | Some p \<Rightarrow>
            and_then (profile_db (profile_exs_ensure i)) (\<lambda>ex.
            and_then (stat_or_empty i) (\<lambda>stat.
            and_then (set_active_id i) (\<lambda>_. give (to_list_item p ex stat i))))))"

datatype move_action = Move_Top | Move_Up | Move_Down | Move_Bottom | Move_Position

text \<open>The number a profile at an offset gets when a list is renumbered.\<close>

definition sort_at :: "nat \<Rightarrow> i32" where
  "sort_at offset = i32_mul (i32_add (i32_try_from offset 2147483646) 1) DEFAULT_PROFILE_SORT_STEP"

definition renumber :: "profile_item list \<Rightarrow> (profile_manager_error, unit) task" where
  "renumber ps =
     for_each (\<lambda>(offset, p). and_then (profile_ex_set_sort (index_id p) (sort_at offset)) (\<lambda>_. give ()))
       (zip [0..<length ps] ps)"

text \<open>\<open>i32::MAX / DEFAULT_PROFILE_SORT_STEP\<close> stands for a position that does not fit.\<close>

definition position_step :: "nat \<Rightarrow> i32" where
  "position_step n = i32_try_from n 214748364"

definition moved_sort :: "move_action \<Rightarrow> i32 option \<Rightarrow> nat \<Rightarrow> nat \<Rightarrow> i32 option" where
  "moved_sort action position index count =
     (case action of
        Move_Top \<Rightarrow> (if index = 0 then None else Some (DEFAULT_PROFILE_SORT_STEP - 1))
      | Move_Up \<Rightarrow>
          (if index = 0 then None
           else Some (i32_add (i32_mul (position_step index) DEFAULT_PROFILE_SORT_STEP) (- 1)))
      | Move_Down \<Rightarrow>
          (if count \<le> index + 1 then None
           else Some (i32_add (i32_mul (i32_add (position_step index) 2) DEFAULT_PROFILE_SORT_STEP) 1))
      | Move_Bottom \<Rightarrow>
          (if count \<le> index + 1 then None
           else Some (i32_add (i32_mul (position_step count) DEFAULT_PROFILE_SORT_STEP) 1))
      | Move_Position \<Rightarrow>
          Some (i32_add (i32_mul (unwrap_or position 0) DEFAULT_PROFILE_SORT_STEP) 1))"

definition position_of :: "('a \<Rightarrow> bool) \<Rightarrow> 'a list \<Rightarrow> nat option" where
  "position_of P xs = (if list_ex P xs then Some (length (takeWhile (\<lambda>x. \<not> P x) xs)) else None)"

definition move_profile ::
    "(string \<Rightarrow> string) \<Rightarrow> string option \<Rightarrow> string \<Rightarrow> move_action \<Rightarrow> i32 option
       \<Rightarrow> (profile_manager_error, profile_list_item list) task" where
  "move_profile lower sub i action position =
     and_then (profile_db (profiles_list_with_profile_ex sub)) (\<lambda>items.
       case position_of (\<lambda>(p, _). index_id p = i) items of
         None \<Rightarrow> give_up (ProfileNotFound i)
       | Some index \<Rightarrow>
           and_then (renumber (map fst items)) (\<lambda>_.
           and_then
             (case moved_sort action position index (length items) of
                None \<Rightarrow> give ()
              | Some new_sort \<Rightarrow> and_then (profile_ex_set_sort i new_sort) (\<lambda>_. give ()))
             (\<lambda>_. list_profiles lower sub None)))"

datatype profile_sort_key =
    By_Sort | By_ConfigType | By_Remarks | By_Address | By_Port | By_Network | By_StreamSecurity
  | By_Delay | By_Speed | By_IpInfo | By_SubscriptionId

definition valid_first :: "('a \<Rightarrow> bool) \<Rightarrow> 'a list \<Rightarrow> 'a list" where
  "valid_first valid items = filter valid items @ filter (\<lambda>x. \<not> valid x) items"

definition valid_delay :: "profile_item \<times> profile_ex_item \<Rightarrow> bool" where
  "valid_delay = (\<lambda>(_, ex). 0 < px_delay ex)"

definition valid_speed :: "profile_item \<times> profile_ex_item \<Rightarrow> bool" where
  "valid_speed = (\<lambda>(_, ex). 0 < px_speed ex)"

definition sort_ascending ::
    "(string \<Rightarrow> string) \<Rightarrow> profile_sort_key \<Rightarrow> (profile_item \<times> profile_ex_item) list
       \<Rightarrow> (profile_item \<times> profile_ex_item) list" where
  "sort_ascending lower k items =
     (case k of
        By_Sort \<Rightarrow> sort_key (\<lambda>(_, ex). px_sort ex) items
      | By_ConfigType \<Rightarrow> sort_key (\<lambda>(p, _). sort_rank (config_type p)) items
      | By_Remarks \<Rightarrow> sort_key (\<lambda>(p, _). lower (remarks p)) items
      | By_Address \<Rightarrow> sort_key (\<lambda>(p, _). lower (address p)) items
      | By_Port \<Rightarrow> sort_key (\<lambda>(p, _). port p) items
      | By_Network \<Rightarrow> sort_key (\<lambda>(p, _). lower (network p)) items
      | By_StreamSecurity \<Rightarrow> sort_key (\<lambda>(p, _). lower (stream_security p)) items
      | By_Delay \<Rightarrow> valid_first valid_delay (sort_key (\<lambda>(_, ex). px_delay ex) items)
      | By_Speed \<Rightarrow> valid_first valid_speed (sort_key (\<lambda>(_, ex). px_speed ex) items)
      | By_IpInfo \<Rightarrow> sort_key (\<lambda>(_, ex). lower (unwrap_or (px_ip_info ex) [])) items
      | By_SubscriptionId \<Rightarrow> sort_key (\<lambda>(p, _). lower (unwrap_or (subscription_id p) [])) items)"

definition sort_profile_pairs ::
    "(string \<Rightarrow> string) \<Rightarrow> profile_sort_key \<Rightarrow> bool \<Rightarrow> (profile_item \<times> profile_ex_item) list
       \<Rightarrow> (profile_item \<times> profile_ex_item) list" where
  "sort_profile_pairs lower k ascending items =
     (let sorted_items = sort_ascending lower k items in
      if ascending then sorted_items
      else if k = By_Delay then valid_first valid_delay (rev sorted_items)
      else if k = By_Speed then valid_first valid_speed (rev sorted_items)
      else rev sorted_items)"

definition sort_profiles ::
    "(string \<Rightarrow> string) \<Rightarrow> string option \<Rightarrow> profile_sort_key \<Rightarrow> bool
       \<Rightarrow> (profile_manager_error, profile_list_item list) task" where
  "sort_profiles lower sub k ascending =
     and_then (profile_db (profiles_list_with_profile_ex sub)) (\<lambda>items.
     and_then (renumber (map fst (sort_profile_pairs lower k ascending items))) (\<lambda>_.
       list_profiles lower sub None))"

text \<open>The profiles kept and the identifiers removed, in the order of the list.\<close>

primrec dedupe_loop :: "profile_item list \<Rightarrow> profile_item list \<Rightarrow> string list \<Rightarrow> profile_item list \<times> string list" where
  "dedupe_loop [] kept removed = (kept, removed)"
| "dedupe_loop (p # ps) kept removed =
     (if is_complex p then dedupe_loop ps (kept @ [p]) removed
      else if \<exists>existing \<in> set kept. profile_items_match existing p False
      then dedupe_loop ps kept (removed @ [index_id p])
      else dedupe_loop ps (kept @ [p]) removed)"

record profile_dedupe_result =
  dd_total :: nat
  dd_kept :: nat
  dd_removed_index_ids :: "string list"

definition dedupe_profiles ::
    "string option \<Rightarrow> bool \<Rightarrow> (profile_manager_error, profile_dedupe_result) task" where
  "dedupe_profiles sub keep_older =
     and_then (profile_db (profiles_list_by_subscription_id sub)) (\<lambda>ps.
       (let total = length ps;
            removed = snd (dedupe_loop (if keep_older then ps else rev ps) [] []) in
        and_then (profile_db (profiles_delete_many removed)) (\<lambda>_.
        and_then ensure_active_profile (\<lambda>_.
          give \<lparr>dd_total = u32_saturated total, dd_kept = u32_saturated (total - length removed),
                dd_removed_index_ids = removed\<rparr>))))"

end
