(* ===== verification/SubscriptionManager.thy ===== *)
theory SubscriptionManager
  imports ProfileManager ShareEntry
begin

text \<open>
  \<open>voya-app/src/subscriptions/manager.rs\<close>: subscriptions, the import of profiles from text, and
  the update of subscriptions from downloaded content, with the payload decoding of
  \<open>voya-net/src/subscription.rs\<close>. What the user is told is a list of \<open>import_message\<close>s, one
  constructor per format string. A download is an argument: the content or the error that the
  client gave for a subscription.
\<close>

section \<open>Errors and messages\<close>

datatype subscription_manager_error =
    Sm_Database db_error
  | Sm_Profile profile_manager_error
  | SubscriptionNotFound string
  | MissingRemarks
  | MissingUrl
  | InvalidSubscriptionUrl
  | InvalidFilter "string option" \<comment> \<open>the reason is the library's\<close>
  | NoImportableProfiles
  | Sm_NoReturn \<comment> \<open>the parser of a nested configuration does not return\<close>

datatype import_message =
    Line_added nat
  | Line_skipped nat share_error

datatype update_message =
    Update_skipped string
  | Update_empty string
  | Update_failed string string
  | Update_discarded string
  | Update_imported string nat
  | Update_nothing string
  | Update_not_importable string

abbreviation sub_db :: "(db_error, 'a) task \<Rightarrow> (subscription_manager_error, 'a) task" where
  "sub_db \<equiv> map_err Sm_Database"

abbreviation sub_profile :: "(profile_manager_error, 'a) task \<Rightarrow> (subscription_manager_error, 'a) task" where
  "sub_profile \<equiv> map_err Sm_Profile"

text \<open>The libraries, and \<open>Regex::new(p).map(|p| p.find_iter(s).count())\<close>.\<close>

record import_env =
  ie_externals :: share_externals
  ie_find_count :: "string \<Rightarrow> string \<Rightarrow> nat option"
  ie_fuel :: nat

section \<open>Subscriptions\<close>

definition normalize_subscription :: "sub_item \<Rightarrow> sub_item" where
  "normalize_subscription item =
     item\<lparr>sub_id := trim (sub_id item), sub_remarks := trim (sub_remarks item),
          sub_url := trim (sub_url item), sub_more_url := trim (sub_more_url item),
          sub_user_agent := trim (sub_user_agent item), sub_filter := trimmed_option (sub_filter item),
          sub_convert_target := trimmed_option (sub_convert_target item)\<rparr>"

definition is_http_url :: "string \<Rightarrow> bool" where
  "is_http_url v \<longleftrightarrow> starts_with (trim v) ''https://'' \<or> starts_with (trim v) ''http://''"

definition generate_subscription_id :: "('e, string) task" where
  "generate_subscription_id = (\<lambda>s.
     (Inr (''sub-'' @ hex32 (id_bits (read_clock s) (subscription_counter s) (process_id s))),
      s\<lparr>clock := tl (clock s), subscription_counter := subscription_counter s + 1\<rparr>))"

definition remarks_part :: "string \<Rightarrow> string option" where
  "remarks_part part =
     (case split_once (CHR ''='') part of
        Some (key, v) \<Rightarrow> (if eq_ignore_ascii_case key ''remarks'' \<and> v \<noteq> [] then Some v else None)
      | None \<Rightarrow> None)"

definition extract_remarks_from_url :: "string \<Rightarrow> string option" where
  "extract_remarks_from_url url =
     (case split_once (CHR ''?'') url of
        None \<Rightarrow> None
      | Some (_, q) \<Rightarrow> first_of (List.map_filter remarks_part (split_on (\<lambda>c. c = CHR ''&'') q)))"

definition save_subscription :: "sub_item \<Rightarrow> (subscription_manager_error, sub_item) task" where
  "save_subscription item =
     (let item = normalize_subscription item in
      if sub_remarks item = [] then give_up MissingRemarks
      else if sub_url item \<noteq> [] \<and> \<not> is_http_url (sub_url item) then give_up InvalidSubscriptionUrl
      else
        and_then (if sub_id item = [] then and_then generate_subscription_id (\<lambda>i. give (item\<lparr>sub_id := i\<rparr>))
                  else give item) (\<lambda>item.
        and_then (if sub_sort item \<le> 0
                  then and_then (sub_db subscriptions_max_sort) (\<lambda>m. give (item\<lparr>sub_sort := i32_add m 1\<rparr>))
                  else give item) (\<lambda>item.
        and_then (sub_db (subscriptions_upsert item)) (\<lambda>_.
        and_then get_config (\<lambda>c.
        and_then (if ac_sub_index_id c = [] then set_config (c\<lparr>ac_sub_index_id := sub_id item\<rparr>) else give ()) (\<lambda>_.
          give item))))))"

definition add_subscription_from_url :: "string \<Rightarrow> (subscription_manager_error, sub_item) task" where
  "add_subscription_from_url url =
     (let url = trim url in
      if url = [] then give_up MissingUrl
      else if \<not> is_http_url url then give_up InvalidSubscriptionUrl
      else and_then (sub_db (subscriptions_get_by_url url)) (\<lambda>found.
        case found of
          Some existing \<Rightarrow> give existing
        | None \<Rightarrow>
            save_subscription (default_sub_item
              \<lparr>sub_remarks := unwrap_or (extract_remarks_from_url url) ''import_sub'', sub_url := url\<rparr>)))"

definition delete_subscription :: "string \<Rightarrow> nat \<Rightarrow> (subscription_manager_error, nat) task" where
  "delete_subscription i deleted =
     and_then (sub_db (subscriptions_delete i)) (\<lambda>found.
       if found
       then and_then (sub_db (profiles_delete_by_subscription_id i)) (\<lambda>_. give (u32_saturated (deleted + 1)))
       else give deleted)"

definition delete_subscriptions :: "string list \<Rightarrow> (subscription_manager_error, nat) task" where
  "delete_subscriptions ids =
     and_then (fold_task delete_subscription ids 0) (\<lambda>deleted.
     and_then (sub_db subscriptions_list) (\<lambda>subs.
     and_then get_config (\<lambda>c.
     and_then (if ac_sub_index_id c \<noteq> [] \<and> \<not> list_ex (\<lambda>i. sub_id i = ac_sub_index_id c) subs
               then set_config (c\<lparr>ac_sub_index_id := (if subs = [] then [] else sub_id (last subs))\<rparr>)
               else give ()) (\<lambda>_.
     and_then (sub_profile ensure_active_profile) (\<lambda>_. give deleted)))))"

section \<open>Reading texts\<close>

text \<open>\<open>decode_base64_payload\<close> of voya-net.\<close>

definition base64_payload_char :: "char \<Rightarrow> bool" where
  "base64_payload_char c \<longleftrightarrow> is_ascii_alphanumeric c \<or> c \<in> {CHR ''+'', CHR ''/'', CHR ''_'', CHR ''-'', CHR ''=''}"

definition pad_base64 :: "string \<Rightarrow> string" where
  "pad_base64 s = (if length s mod 4 \<noteq> 0 then s @ replicate (4 - length s mod 4) (CHR ''='') else s)"

definition decode_base64_payload :: "share_externals \<Rightarrow> string \<Rightarrow> string option" where
  "decode_base64_payload X input =
     (let normalized = concat (split_whitespace (trim input)) in
      if normalized = [] \<or> \<not> list_all base64_payload_char normalized then None
      else
        (let normalized = map (\<lambda>c. if c = CHR ''_'' then CHR ''/'' else if c = CHR ''-'' then CHR ''+'' else c) normalized in
         (case Option.bind (b64_decode X (pad_base64 normalized)) from_utf8 of
            None \<Rightarrow> None
          | Some decoded \<Rightarrow> nonempty (trim decoded))))"

definition DISCARDED_QUERY_KEYS :: string where
  "DISCARDED_QUERY_KEYS =
     ''(?i)(?:'' @ [CHR 0x5C] @ ''?|&)(?:allowinsecure|allow_insecure|insecure|fp|muxenabled|mux_enabled|upmbps|downmbps|hopinterval)=''"

definition DISCARDED_JSON_KEYS :: string where
  "DISCARDED_JSON_KEYS =
     ''(?i)'' @ [CHR 0x22] @ ''(?:fingerprint|fp|allowinsecure|allow_insecure|muxenabled|mux_enabled|upmbps|downmbps|hopinterval)''
       @ [CHR 0x22, CHR 0x5C] @ ''s*:''"

definition count_discarded_node_overrides :: "import_env \<Rightarrow> string \<Rightarrow> nat" where
  "count_discarded_node_overrides E content =
     unwrap_or (ie_find_count E DISCARDED_QUERY_KEYS content) 0
       + unwrap_or (ie_find_count E DISCARDED_JSON_KEYS content) 0"

definition REPORTABLE_SHARE_LINK_SCHEMES :: "string list" where
  "REPORTABLE_SHARE_LINK_SCHEMES =
     [''vmess://'', ''ss://'', ''socks://'', ''socks4://'', ''socks5://'', ''trojan://'', ''vless://'',
      ''hysteria2://'', ''hy2://'', ''tuic://'', ''wireguard://'', ''anytls://'', ''naive://'',
      ''naive+https://'', ''naive+quic://'']"

definition line_has_prefix_ci :: "string \<Rightarrow> string \<Rightarrow> bool" where
  "line_has_prefix_ci line p \<longleftrightarrow> length p \<le> length line \<and> eq_ignore_ascii_case (take (length p) line) p"

definition should_report_line_parse_error :: "string \<Rightarrow> bool" where
  "should_report_line_parse_error line \<longleftrightarrow>
     list_ex (line_has_prefix_ci (trim line)) REPORTABLE_SHARE_LINK_SCHEMES"

record import_state =
  im_profiles :: "profile_item list"
  im_added_subscription :: bool
  im_failed_lines :: nat
  im_discarded :: nat
  im_messages :: "import_message list"
  im_lines_seen :: "string list"

definition start_import :: import_state where
  "start_import =
     \<lparr>im_profiles = [], im_added_subscription = False, im_failed_lines = 0, im_discarded = 0,
      im_messages = [], im_lines_seen = []\<rparr>"

definition parse_line :: "import_env \<Rightarrow> nat \<Rightarrow> string \<Rightarrow> import_state \<Rightarrow> import_state" where
  "parse_line E line_index line st =
     (case parse_share_link (ie_externals E) line of
        Inr p \<Rightarrow> st\<lparr>im_profiles := im_profiles st @ [p]\<rparr>
      | Inl e \<Rightarrow>
          (if should_report_line_parse_error line
           then st\<lparr>im_failed_lines := im_failed_lines st + 1,
                   im_messages := im_messages st @ [Line_skipped (line_index + 1) e]\<rparr>
           else st))"

text \<open>
  One line. Lines seen before in the same text are skipped when a subscription is imported; a
  bare address is a new subscription when none is.
\<close>

definition import_line ::
    "import_env \<Rightarrow> string \<Rightarrow> nat \<times> string \<Rightarrow> import_state \<Rightarrow> (subscription_manager_error, import_state) task" where
  "import_line E sub = (\<lambda>(line_index, line) st.
     if sub \<noteq> [] \<and> line \<in> set (im_lines_seen st) then give st
     else
       (let st = (if sub \<noteq> [] then st\<lparr>im_lines_seen := line # im_lines_seen st\<rparr> else st) in
        if trim sub = [] \<and> is_http_url line
        then and_then (add_subscription_from_url line) (\<lambda>_.
          give (st\<lparr>im_added_subscription := True,
                   im_messages := im_messages st @ [Line_added (line_index + 1)]\<rparr>))
        else give (parse_line E line_index line st)))"

definition content_lines :: "string \<Rightarrow> (nat \<times> string) list" where
  "content_lines content = enumerate 0 (filter (\<lambda>l. l \<noteq> []) (map trim (lines_of content)))"

definition or_empty :: "('e + 'a list) \<Rightarrow> 'a list" where
  "or_empty r = (case r of Inl e \<Rightarrow> [] | Inr xs \<Rightarrow> xs)"

definition custom_profile :: "custom_config_import \<Rightarrow> profile_item" where
  "custom_profile c =
     (let p = ci_profile c in
      case protocol p of
        Pp_Custom source f \<Rightarrow> p\<lparr>protocol := Pp_Custom (ci_contents c) f\<rparr>
      | _ \<Rightarrow> p)"

text \<open>What a text is besides links: a bundle, a list of Shadowsocks servers, a WireGuard file, a configuration.\<close>

definition whole_text_profiles :: "import_env \<Rightarrow> string \<Rightarrow> string \<Rightarrow> profile_item list option" where
  "whole_text_profiles E sub content =
     map_option (\<lambda>custom.
         or_empty (parse_voya_profile_bundle (ie_externals E) content sub)
         @ or_empty (parse_ss_sip008 (ie_externals E) content)
         @ or_empty (parse_wireguard_config content)
         @ map custom_profile (or_empty custom))
       (parse_full_custom_config (ie_fuel E) (ie_externals E) content None)"

definition import_content ::
    "import_env \<Rightarrow> string \<Rightarrow> string \<Rightarrow> import_state \<Rightarrow> (subscription_manager_error, import_state) task" where
  "import_content E sub content st =
     (let st = st\<lparr>im_discarded := im_discarded st + count_discarded_node_overrides E content,
                  im_lines_seen := []\<rparr> in
      and_then (fold_task (import_line E sub) (content_lines content) st) (\<lambda>st.
        case whole_text_profiles E sub content of
          None \<Rightarrow> give_up Sm_NoReturn
        | Some ps \<Rightarrow> give (st\<lparr>im_profiles := im_profiles st @ ps\<rparr>)))"

definition import_contents :: "import_env \<Rightarrow> string \<Rightarrow> string list" where
  "import_contents E input =
     (case decode_base64_payload (ie_externals E) input of Some d \<Rightarrow> [d] | None \<Rightarrow> []) @ [input]"

definition parse_import_text ::
    "import_env \<Rightarrow> string \<Rightarrow> string \<Rightarrow> (subscription_manager_error, import_state) task" where
  "parse_import_text E input sub =
     and_then (fold_task (import_content E sub) (import_contents E input) start_import) (\<lambda>st.
       if im_profiles st = [] \<and> \<not> im_added_subscription st \<and> im_failed_lines st = 0
       then give_up NoImportableProfiles else give st)"

section \<open>Importing profiles\<close>

definition compile_filter :: "import_env \<Rightarrow> string option \<Rightarrow> subscription_manager_error + string option" where
  "compile_filter E f =
     (case trimmed_option f of
        None \<Rightarrow> Inr None
      | Some p \<Rightarrow> (if regex_valid (ie_externals E) p then Inr (Some p) else Inl (InvalidFilter None)))"

definition filter_matches :: "import_env \<Rightarrow> string option \<Rightarrow> profile_item \<Rightarrow> bool" where
  "filter_matches E regex p =
     (case regex of None \<Rightarrow> True | Some r \<Rightarrow> regex_is_match (ie_externals E) r (remarks p))"

definition kept_or_new :: "profile_item list \<Rightarrow> profile_item \<Rightarrow> profile_item list" where
  "kept_or_new kept p =
     (if config_type p \<noteq> Ct_Custom \<and> \<not> is_complex p
         \<and> (\<exists>existing \<in> set kept. profile_items_match existing p False)
      then kept else kept @ [p])"

definition dedupe_imported :: "profile_item list \<Rightarrow> profile_item list" where
  "dedupe_imported ps = foldl kept_or_new [] ps"

type_synonym profile_cache = "(profile_item \<times> profile_ex_item) list"

definition match_indices :: "profile_cache \<Rightarrow> profile_item \<Rightarrow> nat list" where
  "match_indices existing p =
     filter (\<lambda>i. profile_items_match (fst (existing ! i)) p False) [0..<length existing]"

definition canonical_key ::
    "profile_cache \<Rightarrow> string \<Rightarrow> string option \<Rightarrow> nat \<Rightarrow> nat \<times> nat \<times> i32 \<times> nat" where
  "canonical_key existing active target i =
     (case existing ! i of
        (p, ex) \<Rightarrow>
          (if active \<noteq> [] \<and> index_id p = active then 0 else 1,
           if target \<noteq> None \<and> subscription_id p = target then 0 else 1,
           px_sort ex, i))"

definition choose_canonical_match_index ::
    "nat list \<Rightarrow> profile_cache \<Rightarrow> string \<Rightarrow> string option \<Rightarrow> nat option" where
  "choose_canonical_match_index matches existing active target =
     (if matches = [] then None else Some (arg_min_list (canonical_key existing active target) matches))"

primrec replace_cached :: "profile_item \<times> profile_ex_item \<Rightarrow> profile_cache \<Rightarrow> profile_cache" where
  "replace_cached saved [] = [saved]"
| "replace_cached saved (e # es) =
     (if index_id (fst e) = index_id (fst saved) then saved # es else e # replace_cached saved es)"

definition update_existing_profile_cache ::
    "profile_cache \<Rightarrow> profile_item \<times> profile_ex_item \<Rightarrow> string list \<Rightarrow> profile_cache" where
  "update_existing_profile_cache existing saved removed =
     replace_cached saved
       (filter (\<lambda>(p, _). index_id p = index_id (fst saved) \<or> index_id p \<notin> set removed) existing)"

record import_progress =
  pr_existing :: profile_cache
  pr_imported :: "string list"
  pr_updated :: "string list"
  pr_duplicates :: "string list"

definition import_profile ::
    "string option \<Rightarrow> profile_item \<Rightarrow> import_progress \<Rightarrow> (subscription_manager_error, import_progress) task" where
  "import_profile target p pr =
     and_then get_config (\<lambda>c.
       (let existing = pr_existing pr; matches = match_indices existing p in
        case choose_canonical_match_index matches existing (ac_index_id c) target of
          Some canonical \<Rightarrow>
            (let canonical_id = index_id (fst (existing ! canonical));
                 duplicates = filter (\<lambda>i. i \<noteq> canonical_id) (map (\<lambda>i. index_id (fst (existing ! i))) matches) in
             and_then (sub_profile (save_profile (p\<lparr>index_id := canonical_id\<rparr>))) (\<lambda>saved.
               give \<lparr>pr_existing = update_existing_profile_cache existing
                                      (li_profile saved, li_profile_ex saved) duplicates,
                     pr_imported = pr_imported pr @ [index_id (li_profile saved)],
                     pr_updated = pr_updated pr @ [index_id (li_profile saved)],
                     pr_duplicates = pr_duplicates pr @ duplicates\<rparr>))
        | None \<Rightarrow>
            and_then (sub_profile (save_profile p)) (\<lambda>saved.
              give (pr\<lparr>pr_existing := existing @ [(li_profile saved, li_profile_ex saved)],
                       pr_imported := pr_imported pr @ [index_id (li_profile saved)]\<rparr>))))"

record import_profiles_result =
  ir_imported :: nat
  ir_updated :: nat
  ir_skipped :: nat
  ir_parsed :: nat
  ir_filtered :: nat
  ir_deduped :: nat
  ir_failed :: nat
  ir_removed_existing :: nat
  ir_removed_duplicates :: nat
  ir_discarded_node_overrides :: nat
  ir_subscription_id :: "string option"
  ir_imported_index_ids :: "string list"
  ir_updated_index_ids :: "string list"
  ir_messages :: "import_message list"

text \<open>The profiles of a text after filter, normal form and removal of duplicates.\<close>

definition prepare_profiles ::
    "import_env \<Rightarrow> string option \<Rightarrow> string option \<Rightarrow> profile_item list \<Rightarrow> profile_item list" where
  "prepare_profiles E regex target ps =
     dedupe_imported
       (map (\<lambda>p. normalize_profile (p\<lparr>subscription_id := target\<rparr>)) (filter (filter_matches E regex) ps))"

definition import_result ::
    "import_env \<Rightarrow> string option \<Rightarrow> string option \<Rightarrow> import_state \<Rightarrow> nat \<Rightarrow> nat
       \<Rightarrow> string list \<Rightarrow> string list \<Rightarrow> import_profiles_result" where
  "import_result E regex target st removed_existing removed_duplicates imported updated =
     (let parsed = length (im_profiles st);
          filtered = parsed - length (filter (filter_matches E regex) (im_profiles st));
          deduped = length (filter (filter_matches E regex) (im_profiles st))
                      - length (prepare_profiles E regex target (im_profiles st)) in
      \<lparr>ir_imported = u32_saturated (length imported), ir_updated = u32_saturated (length updated),
       ir_skipped = u32_saturated (filtered + deduped + im_failed_lines st),
       ir_parsed = u32_saturated parsed, ir_filtered = u32_saturated filtered,
       ir_deduped = u32_saturated deduped, ir_failed = u32_saturated (im_failed_lines st),
       ir_removed_existing = u32_saturated removed_existing,
       ir_removed_duplicates = u32_saturated removed_duplicates,
       ir_discarded_node_overrides = u32_saturated (im_discarded st),
       ir_subscription_id = target, ir_imported_index_ids = imported, ir_updated_index_ids = updated,
       ir_messages = im_messages st\<rparr>)"

definition delete_if_any :: "string list \<Rightarrow> (subscription_manager_error, nat) task" where
  "delete_if_any ids = (if ids = [] then give 0 else sub_db (profiles_delete_many ids))"

text \<open>The old profiles of the subscription that the text no longer holds.\<close>

definition remove_stale ::
    "string option \<Rightarrow> profile_item list \<Rightarrow> string list \<Rightarrow> (subscription_manager_error, nat) task" where
  "remove_stale target old imported =
     (case target of
        None \<Rightarrow> give 0
      | Some i \<Rightarrow>
          sub_db (profiles_delete_many
            (map index_id (filter (\<lambda>p. subscription_id p = Some i \<and> index_id p \<notin> set imported) old))))"

definition store_imported ::
    "import_env \<Rightarrow> string option \<Rightarrow> string option \<Rightarrow> profile_item list \<Rightarrow> import_state
       \<Rightarrow> (subscription_manager_error, import_profiles_result) task" where
  "store_imported E regex target old st =
     (let ps = prepare_profiles E regex target (im_profiles st) in
      if ps = [] then
        and_then (sub_profile ensure_active_profile) (\<lambda>_. give (import_result E regex target st 0 0 [] []))
      else
        and_then (sub_db (profiles_list_with_profile_ex None)) (\<lambda>existing.
        and_then (fold_task (import_profile target) ps
                    \<lparr>pr_existing = existing, pr_imported = [], pr_updated = [], pr_duplicates = []\<rparr>) (\<lambda>pr.
        and_then (delete_if_any (pr_duplicates pr)) (\<lambda>removed_duplicates.
        and_then (remove_stale target old (pr_imported pr)) (\<lambda>removed_existing.
        and_then (sub_profile ensure_active_profile) (\<lambda>_.
          give (import_result E regex target st removed_existing removed_duplicates
                  (pr_imported pr) (pr_updated pr))))))))"

definition import_profiles_from_text ::
    "import_env \<Rightarrow> string \<Rightarrow> string option \<Rightarrow> (subscription_manager_error, import_profiles_result) task" where
  "import_profiles_from_text E input sub =
     (let target = trimmed_option sub in
      and_then (case target of Some i \<Rightarrow> sub_db (subscriptions_get i) | None \<Rightarrow> give None) (\<lambda>sub_item.
        case compile_filter E (Option.bind sub_item sub_filter) of
          Inl e \<Rightarrow> give_up e
        | Inr regex \<Rightarrow>
            and_then (if target = None then give [] else sub_db (profiles_list_by_subscription_id target)) (\<lambda>old.
            and_then (parse_import_text E input (unwrap_or target [])) (\<lambda>st.
              store_imported E regex target old st))))"

section \<open>Updating subscriptions\<close>

text \<open>The failure of a download: the attempts with their bytes and errors, or something else.\<close>

datatype download_error =
    AttemptsFailed "(nat \<times> string option) list" string
  | OtherDownloadError string

fun download_message :: "download_error \<Rightarrow> string" where
  "download_message (AttemptsFailed attempts m) = m"
| "download_message (OtherDownloadError m) = m"

fun is_empty_download_error :: "download_error \<Rightarrow> bool" where
  "is_empty_download_error (AttemptsFailed attempts m) \<longleftrightarrow>
     attempts \<noteq> [] \<and> list_all (\<lambda>(bytes, e). bytes = 0 \<and> e = Some ''empty response'') attempts"
| "is_empty_download_error (OtherDownloadError m) \<longleftrightarrow> False"

record subscription_fetch_source =
  fs_url :: string
  fs_more_url :: string
  fs_user_agent :: string
  fs_convert_target :: "string option"
  fs_sub_convert_url :: "string option"

record subscription_fetch_options =
  fo_prefer_proxy :: bool
  fo_proxy_url :: "string option"

text \<open>What the client answers to the \<open>n\<close>-th fetch.\<close>

type_synonym fetcher = "nat \<Rightarrow> subscription_fetch_source \<Rightarrow> subscription_fetch_options \<Rightarrow> download_error + string"

record subscription_update_result =
  ur_updated :: nat
  ur_skipped :: nat
  ur_imported :: nat
  ur_removed_existing :: nat
  ur_messages :: "update_message list"

definition empty_update_result :: subscription_update_result where
  "empty_update_result =
     \<lparr>ur_updated = 0, ur_skipped = 0, ur_imported = 0, ur_removed_existing = 0, ur_messages = []\<rparr>"

record prepared_import =
  pi_item :: sub_item
  pi_content :: string

record prepared_subscription_update =
  pu_imports :: "prepared_import list"
  pu_result :: subscription_update_result

definition skip_with :: "update_message list \<Rightarrow> subscription_update_result \<Rightarrow> subscription_update_result" where
  "skip_with ms r = r\<lparr>ur_skipped := u32_saturated (ur_skipped r + 1), ur_messages := ur_messages r @ ms\<rparr>"

definition prepare_item ::
    "fetcher \<Rightarrow> app_config \<Rightarrow> subscription_fetch_options \<Rightarrow> sub_item \<Rightarrow> nat \<times> prepared_subscription_update
       \<Rightarrow> nat \<times> prepared_subscription_update" where
  "prepare_item fetch c options item = (\<lambda>(n, up).
     if trim (sub_id item) = [] \<or> trim (sub_url item) = [] \<or> \<not> is_http_url (sub_url item)
     then (n, up\<lparr>pu_result := skip_with [] (pu_result up)\<rparr>)
     else if \<not> sub_enabled item
     then (n, up\<lparr>pu_result := skip_with [Update_skipped (sub_remarks item)] (pu_result up)\<rparr>)
     else
       (case fetch n \<lparr>fs_url = sub_url item, fs_more_url = sub_more_url item, fs_user_agent = sub_user_agent item,
                      fs_convert_target = sub_convert_target item,
                      fs_sub_convert_url = sub_convert_url (const_urls c)\<rparr> options of
          Inr content \<Rightarrow>
            (if trim content \<noteq> []
             then (n + 1, up\<lparr>pu_imports := pu_imports up @ [\<lparr>pi_item = item, pi_content = content\<rparr>]\<rparr>)
             else (n + 1, up\<lparr>pu_result := skip_with [Update_empty (sub_remarks item)] (pu_result up)\<rparr>))
        | Inl e \<Rightarrow>
            (n + 1, up\<lparr>pu_result := skip_with
              [if is_empty_download_error e then Update_empty (sub_remarks item)
               else Update_failed (sub_remarks item) (download_message e)] (pu_result up)\<rparr>)))"

definition prepare_subscription_snapshot ::
    "fetcher \<Rightarrow> app_config \<Rightarrow> sub_item list \<Rightarrow> string option \<Rightarrow> subscription_fetch_options
       \<Rightarrow> prepared_subscription_update" where
  "prepare_subscription_snapshot fetch c subs wanted options =
     (let wanted = trimmed_option wanted;
          chosen = filter (\<lambda>item. wanted = None \<or> wanted = Some (sub_id item)) subs in
      snd (fold (prepare_item fetch c options) chosen
             (0, \<lparr>pu_imports = [], pu_result = empty_update_result\<rparr>)))"

definition prepare_subscription_update ::
    "fetcher \<Rightarrow> string option \<Rightarrow> subscription_fetch_options
       \<Rightarrow> (subscription_manager_error, prepared_subscription_update) task" where
  "prepare_subscription_update fetch wanted options =
     and_then (sub_db subscriptions_list) (\<lambda>subs.
     and_then get_config (\<lambda>c. give (prepare_subscription_snapshot fetch c subs wanted options)))"

text \<open>The result of one import, an import without anything importable counting as skipped.\<close>

definition import_prepared ::
    "import_env \<Rightarrow> prepared_import \<Rightarrow> subscription_update_result
       \<Rightarrow> (subscription_manager_error, subscription_update_result) task" where
  "import_prepared E up r = (\<lambda>s.
     (case import_profiles_from_text E (pi_content up) (Some (sub_id (pi_item up))) s of
        (Inr import, t) \<Rightarrow>
          (if 0 < ir_imported import
           then (Inr (r\<lparr>ur_updated := u32_saturated (ur_updated r + 1),
                        ur_imported := u32_saturated (ur_imported r + ir_imported import),
                        ur_removed_existing := u32_saturated (ur_removed_existing r + ir_removed_existing import),
                        ur_messages := ur_messages r @ [Update_imported (sub_remarks (pi_item up)) (ir_imported import)]\<rparr>), t)
           else (Inr (skip_with [Update_nothing (sub_remarks (pi_item up))] r), t))
      | (Inl NoImportableProfiles, t) \<Rightarrow> (Inr (skip_with [Update_not_importable (sub_remarks (pi_item up))] r), t)
      | (Inl e, t) \<Rightarrow> (Inl e, t)))"

definition apply_prepared_import ::
    "import_env \<Rightarrow> prepared_import \<Rightarrow> subscription_update_result
       \<Rightarrow> (subscription_manager_error, subscription_update_result) task" where
  "apply_prepared_import E up r =
     and_then (sub_db (subscriptions_get (sub_id (pi_item up)))) (\<lambda>current.
       if current \<noteq> Some (pi_item up) then give (skip_with [Update_discarded (sub_remarks (pi_item up))] r)
       else import_prepared E up r)"

definition apply_prepared_subscription_update ::
    "import_env \<Rightarrow> prepared_subscription_update \<Rightarrow> (subscription_manager_error, subscription_update_result) task" where
  "apply_prepared_subscription_update E prepared =
     fold_task (apply_prepared_import E) (pu_imports prepared) (pu_result prepared)"

definition update_subscriptions ::
    "import_env \<Rightarrow> fetcher \<Rightarrow> string option \<Rightarrow> subscription_fetch_options
       \<Rightarrow> (subscription_manager_error, subscription_update_result) task" where
  "update_subscriptions E fetch wanted options =
     and_then (prepare_subscription_update fetch wanted options) (apply_prepared_subscription_update E)"

end
