(* ===== verification/RoutingManager.thy ===== *)
theory RoutingManager
  imports ProfileManager GroupProfiles
begin

text \<open>
  \<open>voya-app/src/routing/manager.rs\<close>: routing profiles and their rules, the choice of the active
  one, the templates that bring routings along; and \<open>voya-app/src/presets.rs\<close>, which imports a
  template together with its source addresses and DNS settings. A downloaded template is an
  argument, and so is what serde reads from it.
\<close>

definition DEFAULT_ROUTING_SORT_STEP :: i32 where
  "DEFAULT_ROUTING_SORT_STEP = 10"

definition BUILTIN_ROUTING_VERSION :: string where
  "BUILTIN_ROUTING_VERSION = ''V4-''"

definition DEFAULT_DOMAIN_STRATEGY :: string where
  "DEFAULT_DOMAIN_STRATEGY = ''AsIs''"

datatype routing_manager_error =
    Rm_Database db_error
  | Rm_Download string
  | RoutingNotFound string
  | MissingRoutingId
  | RuleNotFound string string
  | InvalidTemplate "string option" \<comment> \<open>None: the reason is a library's\<close>
  | InvalidRules nat
  | InvalidRuleMove string

abbreviation routing_db :: "(db_error, 'a) task \<Rightarrow> (routing_manager_error, 'a) task" where
  "routing_db \<equiv> map_err Rm_Database"

section \<open>Identifiers and normal form\<close>

text \<open>\<open>u64::try_from(as_millis()).unwrap_or(u64::MAX)\<close>.\<close>

definition read_millis :: "session \<Rightarrow> nat" where
  "read_millis s = min (read_clock s div 1000000) 18446744073709551615"

definition generate_id :: "string \<Rightarrow> nat \<Rightarrow> 64 word \<Rightarrow> string" where
  "generate_id p millis n = p @ ''-'' @ show_nat millis @ ''-'' @ show_nat (unat n)"

definition generate_routing_id :: "('e, string) task" where
  "generate_routing_id = (\<lambda>s.
     (Inr (generate_id ''routing'' (read_millis s) (routing_counter s)),
      s\<lparr>clock := tl (clock s), routing_counter := routing_counter s + 1\<rparr>))"

definition generate_rule_id :: "('e, string) task" where
  "generate_rule_id = (\<lambda>s.
     (Inr (generate_id ''rule'' (read_millis s) (rule_counter s)),
      s\<lparr>clock := tl (clock s), rule_counter := rule_counter s + 1\<rparr>))"

definition normalize_rule :: "rules_item \<Rightarrow> ('e, rules_item) task" where
  "normalize_rule r =
     (if trim (ri_id r) = [] then and_then generate_rule_id (\<lambda>i. give (r\<lparr>ri_id := i\<rparr>)) else give r)"

definition push_normalized :: "rules_item \<Rightarrow> rules_item list \<Rightarrow> ('e, rules_item list) task" where
  "push_normalized r done = and_then (normalize_rule r) (\<lambda>r. give (done @ [r]))"

definition normalize_routing_item :: "routing_item \<Rightarrow> ('e, routing_item) task" where
  "normalize_routing_item item =
     and_then (if trim (rt_id item) = [] then and_then generate_routing_id (\<lambda>i. give (item\<lparr>rt_id := i\<rparr>))
               else give item) (\<lambda>item.
       (let item = (if trim (rt_remarks item) = [] then item\<lparr>rt_remarks := ''Routing''\<rparr> else item);
            item = (if trim (rt_domain_strategy item) = []
                    then item\<lparr>rt_domain_strategy := DEFAULT_DOMAIN_STRATEGY\<rparr> else item) in
        and_then (fold_task push_normalized (rule_set item) []) (\<lambda>rules. give (item\<lparr>rule_set := rules\<rparr>))))"

section \<open>The active routing\<close>

definition set_routing_index :: "string \<Rightarrow> ('e, unit) task" where
  "set_routing_index i =
     and_then get_config (\<lambda>c.
       set_config (c\<lparr>routing_basic := (routing_basic c)\<lparr>routing_index_id := i\<rparr>\<rparr>))"

text \<open>Makes a stored routing the active one.\<close>

definition activate_routing :: "routing_item \<Rightarrow> (routing_manager_error, routing_item option) task" where
  "activate_routing item =
     and_then (routing_db (routings_set_active (rt_id item))) (\<lambda>_.
     and_then (set_routing_index (rt_id item)) (\<lambda>_. give (Some item)))"

definition activate_first_routing :: "(routing_manager_error, routing_item option) task" where
  "activate_first_routing =
     and_then (routing_db routings_first) (\<lambda>found.
       case found of
         Some item \<Rightarrow> activate_routing item
       | None \<Rightarrow> and_then (set_routing_index []) (\<lambda>_. give None))"

definition configured_routing :: "string \<Rightarrow> (routing_manager_error, routing_item option) task" where
  "configured_routing configured = (if configured = [] then give None else routing_db (routings_get configured))"

definition ensure_active_routing :: "(routing_manager_error, routing_item option) task" where
  "ensure_active_routing =
     and_then (routing_db routings_active) (\<lambda>active.
       case active of
         Some item \<Rightarrow> and_then (set_routing_index (rt_id item)) (\<lambda>_. give (Some item))
       | None \<Rightarrow>
           and_then get_config (\<lambda>c.
           and_then (configured_routing (trim (routing_index_id (routing_basic c)))) (\<lambda>found.
             case found of
               Some item \<Rightarrow> activate_routing item
             | None \<Rightarrow> activate_first_routing)))"

section \<open>Operations\<close>

definition list_routings :: "(routing_manager_error, routing_item list) task" where
  "list_routings = routing_db routings_list"

definition load_routing :: "string \<Rightarrow> (routing_manager_error, routing_item) task" where
  "load_routing i =
     (if trim i = [] then give_up MissingRoutingId
      else and_then (routing_db (routings_get i)) (\<lambda>found.
        case found of Some item \<Rightarrow> give item | None \<Rightarrow> give_up (RoutingNotFound i)))"

definition reload_routing :: "string \<Rightarrow> (routing_manager_error, routing_item) task" where
  "reload_routing i =
     and_then (routing_db (routings_get i)) (\<lambda>found.
       case found of Some item \<Rightarrow> give item | None \<Rightarrow> give_up (RoutingNotFound i))"

definition assign_routing_id :: "routing_item \<Rightarrow> (routing_manager_error, routing_item \<times> bool) task" where
  "assign_routing_id item =
     (if trim (rt_id item) = []
      then and_then generate_routing_id (\<lambda>i. give (item\<lparr>rt_id := i\<rparr>, True))
      else and_then (routing_db (routings_exists (rt_id item))) (\<lambda>found. give (item, \<not> found)))"

definition save_routing :: "routing_item \<Rightarrow> (routing_manager_error, routing_item) task" where
  "save_routing item =
     and_then (routing_db routings_active) (\<lambda>active.
     and_then (assign_routing_id item) (\<lambda>(item, is_new).
       (let should_activate = (active = None \<or> map_option rt_id active = Some (rt_id item)) in
        and_then (normalize_routing_item item) (\<lambda>item.
        and_then (if is_new \<and> rt_sort item \<le> 0
                  then and_then (routing_db routings_max_sort) (\<lambda>m.
                    give (item\<lparr>rt_sort := i32_add m DEFAULT_ROUTING_SORT_STEP\<rparr>))
                  else give item) (\<lambda>item.
        and_then (routing_db (routings_upsert item)) (\<lambda>_.
        and_then (if should_activate
                  then and_then (activate_routing item) (\<lambda>_. give ()) else give ()) (\<lambda>_.
        and_then ensure_active_routing (\<lambda>_. reload_routing (rt_id item)))))))))"

definition delete_routings :: "string list \<Rightarrow> (routing_manager_error, nat) task" where
  "delete_routings ids =
     and_then (routing_db (routings_delete_many ids)) (\<lambda>deleted.
     and_then ensure_active_routing (\<lambda>_. give (u32_saturated deleted)))"

definition set_active_routing :: "string \<Rightarrow> (routing_manager_error, routing_item) task" where
  "set_active_routing i =
     (if trim i = [] then give_up MissingRoutingId
      else and_then (routing_db (routings_set_active i)) (\<lambda>found.
        if \<not> found then give_up (RoutingNotFound i)
        else and_then (set_routing_index i) (\<lambda>_. reload_routing i)))"

definition store_routing :: "routing_item \<Rightarrow> (routing_manager_error, routing_item) task" where
  "store_routing routing =
     and_then (normalize_routing_item routing) (\<lambda>routing.
     and_then (routing_db (routings_upsert routing)) (\<lambda>_. give routing))"

text \<open>The first rule with the identifier is replaced; without one the rule is appended.\<close>

primrec put_rule :: "rules_item \<Rightarrow> rules_item list \<Rightarrow> rules_item list" where
  "put_rule r [] = [r]"
| "put_rule r (x # xs) = (if ri_id x = ri_id r then r # xs else x # put_rule r xs)"

definition save_rule :: "string \<Rightarrow> rules_item \<Rightarrow> (routing_manager_error, routing_item) task" where
  "save_rule i rule =
     and_then (load_routing i) (\<lambda>routing.
     and_then (normalize_rule rule) (\<lambda>rule.
       store_routing (routing\<lparr>rule_set := put_rule rule (rule_set routing)\<rparr>)))"

definition delete_rules :: "string \<Rightarrow> string list \<Rightarrow> (routing_manager_error, routing_item) task" where
  "delete_rules i rule_ids =
     and_then (load_routing i) (\<lambda>routing.
       (let kept = filter (\<lambda>r. ri_id r \<notin> set rule_ids) (rule_set routing) in
        if length kept = length (rule_set routing) \<and> rule_ids \<noteq> []
        then give_up (RuleNotFound i (rule_ids ! 0))
        else store_routing (routing\<lparr>rule_set := kept\<rparr>)))"

definition moved_index :: "nat \<Rightarrow> nat \<Rightarrow> move_action \<Rightarrow> i32 option \<Rightarrow> nat option" where
  "moved_index index count action position =
     (case action of
        Move_Top \<Rightarrow> Some 0
      | Move_Up \<Rightarrow> Some (index - 1)
      | Move_Down \<Rightarrow> Some (min (index + 2) count)
      | Move_Bottom \<Rightarrow> Some count
      | Move_Position \<Rightarrow>
          (if unwrap_or position 0 < 0 then None else Some (min (nat (unwrap_or position 0)) count)))"

definition remove_at :: "nat \<Rightarrow> 'a list \<Rightarrow> 'a list" where
  "remove_at i xs = take i xs @ drop (Suc i) xs"

definition insert_at :: "nat \<Rightarrow> 'a \<Rightarrow> 'a list \<Rightarrow> 'a list" where
  "insert_at i x xs = take i xs @ x # drop i xs"

definition move_in_list :: "nat \<Rightarrow> nat \<Rightarrow> 'a list \<Rightarrow> 'a list" where
  "move_in_list index next_index xs =
     (if next_index = index then xs
      else insert_at (if index < next_index then next_index - 1 else next_index) (xs ! index)
             (remove_at index xs))"

definition move_rule ::
    "string \<Rightarrow> string \<Rightarrow> move_action \<Rightarrow> i32 option \<Rightarrow> (routing_manager_error, routing_item) task" where
  "move_rule i rule_id action position =
     and_then (load_routing i) (\<lambda>routing.
       case position_of (\<lambda>r. ri_id r = rule_id) (rule_set routing) of
         None \<Rightarrow> give_up (RuleNotFound i rule_id)
       | Some index \<Rightarrow>
           (case moved_index index (length (rule_set routing)) action position of
              None \<Rightarrow> give_up (InvalidRuleMove rule_id)
            | Some next_index \<Rightarrow>
                store_routing (routing\<lparr>rule_set := move_in_list index next_index (rule_set routing)\<rparr>)))"

section \<open>Templates\<close>

record prepared_routing_template =
  version_prefix :: "string option"
  template_items :: "routing_item list"

record routing_template_result =
  tr_routing_ids :: "string list"
  tr_active_routing_id :: "string option"
  tr_reused_existing_routing :: bool

text \<open>What serde reads from a template: its version and its routings, in the program's own records.\<close>

type_synonym template_reader = "string \<Rightarrow> (nat \<times> routing_item list) option"

definition has_derived_state :: "json \<Rightarrow> bool" where
  "has_derived_state raw \<longleftrightarrow>
     (case Option.bind (json_get ''routings'' raw) json_as_array of
        Some routings \<Rightarrow>
          list_ex (\<lambda>r. json_get ''isActive'' r \<noteq> None \<or> json_get ''ruleNum'' r \<noteq> None) routings
      | None \<Rightarrow> False)"

primrec check_template_items :: "nat \<Rightarrow> routing_item list \<Rightarrow> routing_manager_error + unit" where
  "check_template_items index [] = Inr ()"
| "check_template_items index (r # rs) =
     (if trim (rt_url r) \<noteq> [] then Inl (InvalidTemplate (Some ''must be self-contained''))
      else if rule_set r = [] then Inl (InvalidRules index)
      else check_template_items (index + 1) rs)"

definition parse_routing_template ::
    "'a externals_scheme \<Rightarrow> template_reader \<Rightarrow> string \<Rightarrow> routing_manager_error + routing_item list" where
  "parse_routing_template X read input =
     (case json_from_str X input of
        None \<Rightarrow> Inl (InvalidTemplate None)
      | Some raw \<Rightarrow>
          (if has_derived_state raw
           then Inl (InvalidTemplate (Some ''routing bundle contains persisted or derived state''))
           else
             (case read input of
                None \<Rightarrow> Inl (InvalidTemplate None)
              | Some (version, routings) \<Rightarrow>
                  (if version \<noteq> 1 then Inl (InvalidTemplate (Some ''unsupported schemaVersion''))
                   else if routings = [] then Inl (InvalidTemplate (Some ''template contains no routing items''))
                   else (case check_template_items 0 routings of
                           Inl e \<Rightarrow> Inl e | Inr _ \<Rightarrow> Inr routings)))))"

definition prepare_template_item :: "routing_item \<Rightarrow> routing_item list \<Rightarrow> ('e, routing_item list) task" where
  "prepare_template_item item done =
     and_then (normalize_routing_item (item\<lparr>rt_id := [], rt_url := [], rt_enabled := True\<rparr>))
       (\<lambda>item. give (done @ [item]))"

text \<open>\<open>body\<close> is the answer of the download.\<close>

definition prepare_external_config_template ::
    "'a externals_scheme \<Rightarrow> template_reader \<Rightarrow> string \<Rightarrow> (string + string)
       \<Rightarrow> (routing_manager_error, prepared_routing_template) task" where
  "prepare_external_config_template X read source_url body =
     (let source_url = trim source_url in
      if source_url = [] then give_up (InvalidTemplate (Some ''routing template source URL is required''))
      else case validate_absolute_https_url X source_url of
        Inl e \<Rightarrow> give_up (InvalidTemplate None)
      | Inr _ \<Rightarrow>
          (case body of
             Inl e \<Rightarrow> give_up (Rm_Download e)
           | Inr input \<Rightarrow>
               (case parse_routing_template X read input of
                  Inl e \<Rightarrow> give_up e
                | Inr routings \<Rightarrow>
                    and_then (fold_task prepare_template_item routings [])
                      (\<lambda>items. give \<lparr>version_prefix = None, template_items = items\<rparr>))))"

definition builtin_rule ::
    "string \<Rightarrow> string \<Rightarrow> string list option \<Rightarrow> string list option \<Rightarrow> string option \<Rightarrow> string option \<Rightarrow> rules_item" where
  "builtin_rule name tag domains ips ports net =
     default_rules_item
       \<lparr>ri_port := ports, ri_network := net, ri_outbound_tag := Some tag, ri_ip := ips,
        ri_domain := domains, ri_remarks := Some name, ri_rule_type := Some Rt_Routing\<rparr>"

definition builtin_routing_items :: "routing_item list" where
  "builtin_routing_items =
     [default_routing_item
        \<lparr>rt_remarks := BUILTIN_ROUTING_VERSION @ ''Bypass mainland (Whitelist)'',
         rule_set :=
           [builtin_rule ''Block udp/443'' BLOCK_TAG None None (Some ''443'') (Some ''udp''),
            builtin_rule ''Proxy Google'' PROXY_TAG (Some [''geosite:google'']) None None None,
            builtin_rule ''Bypass private domains'' DIRECT_TAG (Some [''geosite:private'']) None None None,
            builtin_rule ''Bypass private IPs'' DIRECT_TAG None (Some [''geoip:private'']) None None,
            builtin_rule ''Bypass CN domains'' DIRECT_TAG (Some [''geosite:cn'']) None None None,
            builtin_rule ''Bypass CN IPs'' DIRECT_TAG None (Some [''geoip:cn'']) None None]\<rparr>,
      default_routing_item
        \<lparr>rt_remarks := BUILTIN_ROUTING_VERSION @ ''Blacklist'',
         rule_set :=
           [(builtin_rule ''Bypass bittorrent'' DIRECT_TAG None None None None)\<lparr>ri_protocol := Some [''bittorrent'']\<rparr>,
            builtin_rule ''Block udp/443'' BLOCK_TAG None None (Some ''443'') (Some ''udp''),
            builtin_rule ''Proxy GFW'' PROXY_TAG (Some [''geosite:gfw'', ''geosite:greatfire'']) None None None,
            builtin_rule ''Final direct'' DIRECT_TAG None None (Some ''0-65535'') None]\<rparr>,
      default_routing_item
        \<lparr>rt_remarks := BUILTIN_ROUTING_VERSION @ ''Global'',
         rule_set :=
           [builtin_rule ''Block udp/443'' BLOCK_TAG None None (Some ''443'') (Some ''udp''),
            builtin_rule ''Bypass private IPs'' DIRECT_TAG None (Some [''geoip:private'']) None None,
            builtin_rule ''Final proxy'' PROXY_TAG None None (Some ''0-65535'') None]\<rparr>]"

definition prepare_builtin_config_template :: prepared_routing_template where
  "prepare_builtin_config_template =
     \<lparr>version_prefix = Some BUILTIN_ROUTING_VERSION, template_items = builtin_routing_items\<rparr>"

definition reuse_routing :: "routing_item \<Rightarrow> (routing_manager_error, routing_template_result) task" where
  "reuse_routing item =
     and_then (if rt_enabled item then give item
               else and_then (routing_db (routings_upsert (item\<lparr>rt_enabled := True\<rparr>)))
                 (\<lambda>_. give (item\<lparr>rt_enabled := True\<rparr>))) (\<lambda>item.
     and_then (activate_routing item) (\<lambda>_.
       give \<lparr>tr_routing_ids = [rt_id item], tr_active_routing_id = Some (rt_id item),
             tr_reused_existing_routing = True\<rparr>))"

definition store_template_item ::
    "routing_item \<Rightarrow> string list \<times> i32 \<Rightarrow> (routing_manager_error, string list \<times> i32) task" where
  "store_template_item item = (\<lambda>(ids, max_sort).
     (let max_sort = i32_add max_sort DEFAULT_ROUTING_SORT_STEP in
      and_then (normalize_routing_item (item\<lparr>rt_sort := max_sort\<rparr>)) (\<lambda>item.
      and_then (routing_db (routings_upsert item)) (\<lambda>_. give (ids @ [rt_id item], max_sort)))))"

definition store_template :: "routing_item list \<Rightarrow> (routing_manager_error, routing_template_result) task" where
  "store_template items =
     (if items = [] then give_up (InvalidTemplate (Some ''template contains no importable routing items''))
      else
        and_then (routing_db routings_max_sort) (\<lambda>m.
        and_then (fold_task store_template_item items ([], m)) (\<lambda>(ids, _).
        and_then (routing_db (routings_set_active (ids ! 0))) (\<lambda>_.
        and_then (set_routing_index (ids ! 0)) (\<lambda>_.
          give \<lparr>tr_routing_ids = ids, tr_active_routing_id = Some (ids ! 0),
                tr_reused_existing_routing = False\<rparr>)))))"

definition apply_prepared_config_template ::
    "prepared_routing_template \<Rightarrow> (routing_manager_error, routing_template_result) task" where
  "apply_prepared_config_template prepared =
     and_then (routing_db routings_list) (\<lambda>existing.
       case Option.bind (version_prefix prepared)
              (\<lambda>p. find (\<lambda>item. starts_with (rt_remarks item) p) existing) of
         Some item \<Rightarrow> reuse_routing item
       | None \<Rightarrow> store_template (template_items prepared))"

section \<open>Configuration templates (presets.rs, updates.rs)\<close>

record config_source_settings =
  cf_geo_source_url :: "string option"
  cf_srs_source_url :: "string option"
  cf_route_rules_template_source_url :: "string option"

definition source_settings_from :: "app_config \<Rightarrow> config_source_settings" where
  "source_settings_from c =
     \<lparr>cf_geo_source_url = geo_source_url (const_urls c), cf_srs_source_url = srs_source_url (const_urls c),
      cf_route_rules_template_source_url = route_rules_template_source_url (const_urls c)\<rparr>"

definition apply_source_settings :: "config_source_settings \<Rightarrow> app_config \<Rightarrow> app_config" where
  "apply_source_settings s c =
     c\<lparr>const_urls := (const_urls c)
         \<lparr>geo_source_url := trimmed_option (cf_geo_source_url s),
          srs_source_url := trimmed_option (cf_srs_source_url s),
          route_rules_template_source_url := trimmed_option (cf_route_rules_template_source_url s)\<rparr>\<rparr>"

record prepared_config_template_import =
  pc_sources :: config_source_settings
  pc_routing :: prepared_routing_template
  pc_simple_dns :: "simple_dns_item option"

text \<open>The configuration is changed only if everything succeeded.\<close>

definition apply_prepared_config_template_import ::
    "prepared_config_template_import
       \<Rightarrow> (routing_manager_error, config_source_settings \<times> routing_template_result) task" where
  "apply_prepared_config_template_import prepared = (\<lambda>s.
     (let next_config = apply_source_settings (pc_sources prepared) (config s);
          sources = source_settings_from next_config;
          next_config = (case pc_simple_dns prepared of
                           Some d \<Rightarrow> next_config\<lparr>simple_dns := d\<rparr> | None \<Rightarrow> next_config)
      in case apply_prepared_config_template (pc_routing prepared) (s\<lparr>config := next_config\<rparr>) of
           (Inl e, t) \<Rightarrow> (Inl e, t\<lparr>config := config s\<rparr>)
         | (Inr result, t) \<Rightarrow> (Inr (sources, result), t)))"

end
