(* ===== verification/GroupManager.thy ===== *)
theory GroupManager
  imports ProfileManager GroupProfiles SingboxEntry
begin

text \<open>
  \<open>voya-app/src/groups.rs\<close>: saving a group only after it was validated against the stored
  profiles, and the preview of the configuration a group would produce, which runs the context
  builder and the generator on a draft. The JSON form of a configuration is serde's: \<open>as_json\<close>.
  \<open>None\<close> as a preview means that the generator does not return.
\<close>

datatype group_manager_error =
    Gm_Database db_error
  | Gm_Profile profile_manager_error
  | NotGroupProfile
  | Gm_Validation "string list"
  | Gm_Singbox singbox_config_error
  | Gm_NoReturn

abbreviation group_db :: "(db_error, 'a) task \<Rightarrow> (group_manager_error, 'a) task" where
  "group_db \<equiv> map_err Gm_Database"

definition ensure_group_profile :: "profile_item \<Rightarrow> (group_manager_error, unit) task" where
  "ensure_group_profile p = (if is_group_type (config_type p) then give () else give_up NotGroupProfile)"

definition list_child_candidates ::
    "string option \<Rightarrow> string option \<Rightarrow> (group_manager_error, group_child_candidate list) task" where
  "list_child_candidates current flt =
     and_then (group_db profiles_list) (\<lambda>ps. give (list_group_child_candidates ps current flt))"

text \<open>The stored profiles with the draft in place of the profile it changes, or behind them.\<close>

primrec replace_or_push :: "profile_item \<Rightarrow> profile_item list \<Rightarrow> profile_item list" where
  "replace_or_push p [] = [p]"
| "replace_or_push p (q # qs) = (if index_id q = index_id p then p # qs else q # replace_or_push p qs)"

definition with_draft :: "profile_item \<Rightarrow> profile_item list \<Rightarrow> profile_item list" where
  "with_draft p ps = (if trim (index_id p) = [] then ps @ [p] else replace_or_push p ps)"

definition profiles_with_draft :: "profile_item \<Rightarrow> (group_manager_error, profile_item list) task" where
  "profiles_with_draft p = and_then (group_db profiles_list) (\<lambda>ps. give (with_draft p ps))"

definition save_group_profile :: "externals \<Rightarrow> profile_item \<Rightarrow> (group_manager_error, profile_list_item) task" where
  "save_group_profile X p =
     and_then (ensure_group_profile p) (\<lambda>_.
     and_then (profiles_with_draft p) (\<lambda>ps.
       (let validation = validate_group_profile X p ps in
        if \<not> gv_valid validation then give_up (Gm_Validation (gv_errors validation))
        else map_err Gm_Profile (save_profile p))))"

definition preview_value ::
    "externals \<Rightarrow> (string \<Rightarrow> singbox_ruleset list option) \<Rightarrow> (singbox_config \<Rightarrow> json) \<Rightarrow> app_config
       \<Rightarrow> profile_item \<Rightarrow> profile_item list \<Rightarrow> routing_item list \<Rightarrow> sub_item list
       \<Rightarrow> (singbox_config_error + json \<times> string list) option" where
  "preview_value X rulesets_from_str as_json c node ps routings subs =
     (let env = new_snapshot_env c Linux
                  (map (\<lambda>q. if index_id q = index_id node then node else q) ps) routings subs;
          preview_config = c\<lparr>ac_index_id := index_id node, tun_mode := (tun_mode c)\<lparr>enable_tun := False\<rparr>\<rparr>;
          result = build X env preview_config node
      in map_option (\<lambda>r. case r of
             Inl e \<Rightarrow> Inl e
           | Inr cfg \<Rightarrow> Inr (as_json cfg, nv_warnings (validator_result result)))
           (generate_singbox_config X rulesets_from_str (br_context result)))"

definition preview_group_profile ::
    "externals \<Rightarrow> (string \<Rightarrow> singbox_ruleset list option) \<Rightarrow> (singbox_config \<Rightarrow> json)
       \<Rightarrow> profile_item \<Rightarrow> (group_manager_error, group_preview) task" where
  "preview_group_profile X rulesets_from_str as_json p =
     and_then get_config (\<lambda>c.
     and_then (ensure_group_profile p) (\<lambda>_.
     and_then (profiles_with_draft p) (\<lambda>ps.
       (let validation = validate_group_profile X p ps in
        if \<not> gv_valid validation then give (group_preview_from_values validation None)
        else
          and_then (group_db routings_list) (\<lambda>routings.
          and_then (group_db subscriptions_list) (\<lambda>subs.
            case preview_value X rulesets_from_str as_json c p ps routings subs of
              None \<Rightarrow> give_up Gm_NoReturn
            | Some (Inl e) \<Rightarrow> give_up (Gm_Singbox e)
            | Some (Inr (v, warnings)) \<Rightarrow>
                give (group_preview_from_values
                  (validation\<lparr>gv_warnings := gv_warnings validation @ map (\<lambda>w. ''sing-box: '' @ w) warnings\<rparr>)
                  (Some v))))))))"

end
