(* ===== verification/ConfigMutation.thy ===== *)
theory ConfigMutation
  imports SubscriptionManager RoutingManager GroupManager
begin

text \<open>
  \<open>voya-app/src/config_mutation.rs\<close>, the loading of the configuration in \<open>services.rs\<close> and the
  DNS settings of \<open>dns.rs\<close>. A mutation runs one operation of a manager in a transaction on a copy
  of the shared configuration, stores the changed configuration in the same transaction, commits
  and publishes. The shared state is a \<open>session\<close> between two mutations: the committed tables and
  the published configuration (with what is left of clock, counters and faults). The lock makes
  mutations follow each other; \<open>mutation\<close> lists the operations the user interface asks for, and
  \<open>run_mutation\<close> is one of its commands.
\<close>

section \<open>DNS settings (dns.rs)\<close>

definition normalize_simple_dns :: "simple_dns_item \<Rightarrow> simple_dns_item" where
  "normalize_simple_dns item =
     (let d = default_simple_dns_item in
      \<lparr>use_system_hosts = or_else (use_system_hosts item) (use_system_hosts d),
       add_common_hosts = or_else (add_common_hosts item) (add_common_hosts d),
       fake_ip = or_else (fake_ip item) (fake_ip d),
       global_fake_ip = or_else (global_fake_ip item) (global_fake_ip d),
       block_binding_query = or_else (block_binding_query item) (block_binding_query d),
       direct_dns = or_else (trimmed_option (direct_dns item)) (Some DEFAULT_DIRECT_DNS),
       remote_dns = or_else (trimmed_option (remote_dns item)) (Some DEFAULT_REMOTE_DNS),
       bootstrap_dns = or_else (trimmed_option (bootstrap_dns item)) (Some DEFAULT_BOOTSTRAP_DNS),
       strategy4_freedom = trimmed_option (strategy4_freedom item),
       strategy4_proxy = trimmed_option (strategy4_proxy item),
       serve_stale = or_else (serve_stale item) (serve_stale d),
       parallel_query = or_else (parallel_query item) (parallel_query d),
       dns_hosts = trimmed_option (dns_hosts item),
       direct_expected_ips = trimmed_option (direct_expected_ips item)\<rparr>)"

datatype dns_issue = Host_line nat | Expected_ips

definition host_line_bad :: "string \<Rightarrow> bool" where
  "host_line_bad line \<longleftrightarrow>
     (let line = trim line in
      line \<noteq> [] \<and> \<not> starts_with line ''#'' \<and> length (split_whitespace line) < 2)"

definition validate_hosts :: "string option \<Rightarrow> dns_issue list" where
  "validate_hosts v =
     (case v of
        None \<Rightarrow> []
      | Some hosts \<Rightarrow>
          List.map_filter (\<lambda>(index, line). if host_line_bad line then Some (Host_line (index + 1)) else None)
            (enumerate 0 (lines_of hosts)))"

definition validate_expected_ips :: "string option \<Rightarrow> dns_issue list" where
  "validate_expected_ips v =
     (case v of
        None \<Rightarrow> []
      | Some ips \<Rightarrow>
          (if list_ex (\<lambda>p. p \<noteq> [] \<and> contains_whitespace p) (map trim (split_on (\<lambda>c. c = CHR '','') ips))
           then [Expected_ips] else []))"

definition dns_save_settings :: "simple_dns_item \<Rightarrow> dns_issue list + simple_dns_item" where
  "dns_save_settings item =
     (let item = normalize_simple_dns item;
          issues = validate_hosts (dns_hosts item) @ validate_expected_ips (direct_expected_ips item)
      in if issues = [] then Inr item else Inl issues)"

section \<open>Loading (services.rs)\<close>

datatype app_services_error = As_Database db_error | As_Settings settings_contract_error

definition load_config :: "(app_services_error, app_config) task" where
  "load_config =
     and_then (map_err As_Database settings_load) (\<lambda>settings.
     and_then (map_err As_Database app_state_load) (\<lambda>state.
     and_then (map_err As_Database (settings_save_with_state settings state)) (\<lambda>_.
       case app_config_from_settings settings state of
         Inl e \<Rightarrow> give_up (As_Settings e)
       | Inr c \<Rightarrow> give c)))"

text \<open>The row beside the settings: an empty identifier is no identifier.\<close>

definition some_if_nonempty :: "string \<Rightarrow> string option" where
  "some_if_nonempty i = (if i = [] then None else Some i)"

definition state_of_config :: "app_config \<Rightarrow> app_state_record" where
  "state_of_config c =
     \<lparr>active_profile_id = some_if_nonempty (ac_index_id c),
      active_routing_id = some_if_nonempty (routing_index_id (routing_basic c))\<rparr>"

definition config_from_settings :: "app_settings \<Rightarrow> app_config \<Rightarrow> settings_contract_error + app_config" where
  "config_from_settings settings current = app_config_from_settings settings (state_of_config current)"

section \<open>Mutations\<close>

datatype 'e mutation_error = Config_mutation db_error | Refused 'e

text \<open>\<open>pool.begin()\<close> and \<open>transaction.commit()\<close>: calls of the database that change no row.\<close>

definition transaction_call :: "(db_error, unit) task" where
  "transaction_call = query (\<lambda>_. ())"

definition store_config :: "(db_error, unit) task" where
  "store_config =
     and_then get_config (\<lambda>c.
     and_then (settings_save_with_state (settings_from_app_config c) (state_of_config c)) (\<lambda>_.
       transaction_call))"

definition guarded :: "('e, 'a) task \<Rightarrow> ('e mutation_error, 'a) task" where
  "guarded op =
     and_then (map_err Config_mutation transaction_call) (\<lambda>_.
     and_then (map_err Refused op) (\<lambda>x.
     and_then (map_err Config_mutation store_config) (\<lambda>_. give x)))"

text \<open>Without a commit the transaction is rolled back and nothing is published.\<close>

definition mutate :: "('e, 'a) task \<Rightarrow> ('e mutation_error, 'a) task" where
  "mutate op = (\<lambda>s.
     (case guarded op s of
        (Inl e, t) \<Rightarrow> (Inl e, t\<lparr>db := db s, config := config s\<rparr>)
      | (Inr x, t) \<Rightarrow> (Inr x, t)))"

definition change_config :: "(app_config \<Rightarrow> app_config) \<Rightarrow> ('e, unit) task" where
  "change_config f = and_then get_config (\<lambda>c. set_config (f c))"

definition save_settings_op :: "app_settings \<Rightarrow> (settings_contract_error, unit) task" where
  "save_settings_op settings =
     and_then get_config (\<lambda>c.
       case config_from_settings settings c of
         Inl e \<Rightarrow> give_up e
       | Inr target \<Rightarrow> set_config target)"

definition save_dns_op :: "simple_dns_item \<Rightarrow> (dns_issue list, unit) task" where
  "save_dns_op item =
     (case dns_save_settings item of
        Inl issues \<Rightarrow> give_up issues
      | Inr item \<Rightarrow> change_config (\<lambda>c. c\<lparr>simple_dns := item\<rparr>))"

datatype mutation =
    Save_profile profile_item
  | Delete_profiles "string list"
  | Copy_profiles "string list"
  | Set_active_profile string
  | Move_profile "string option" string move_action "i32 option"
  | Sort_profiles "string option" profile_sort_key bool
  | Dedupe_profiles "string option" bool
  | Save_group profile_item
  | Save_subscription sub_item
  | Delete_subscriptions "string list"
  | Import_text string "string option"
  | Apply_update prepared_subscription_update
  | Save_routing routing_item
  | Delete_routings "string list"
  | Set_active_routing string
  | Save_rule string rules_item
  | Delete_rules string "string list"
  | Move_rule string string move_action "i32 option"
  | Import_template prepared_config_template_import
  | Save_settings app_settings
  | Save_dns simple_dns_item
  | Set_traffic_mode traffic_mode
  | Set_system_proxy sys_proxy_type
  | Set_tun bool

text \<open>The operation of a mutation, without its answer.\<close>

definition quiet :: "('e, 'a) task \<Rightarrow> (unit, unit) task" where
  "quiet m = and_then (map_err (\<lambda>_. ()) m) (\<lambda>_. give ())"

fun mutation_op :: "(string \<Rightarrow> string) \<Rightarrow> import_env \<Rightarrow> externals \<Rightarrow> mutation \<Rightarrow> (unit, unit) task" where
  "mutation_op lower E X (Save_profile p) = quiet (save_profile p)"
| "mutation_op lower E X (Delete_profiles ids) = quiet (delete_profiles ids)"
| "mutation_op lower E X (Copy_profiles ids) = quiet (copy_profiles ids)"
| "mutation_op lower E X (Set_active_profile i) = quiet (set_active_profile i)"
| "mutation_op lower E X (Move_profile sub i a p) = quiet (move_profile lower sub i a p)"
| "mutation_op lower E X (Sort_profiles sub k asc) = quiet (sort_profiles lower sub k asc)"
| "mutation_op lower E X (Dedupe_profiles sub older) = quiet (dedupe_profiles sub older)"
| "mutation_op lower E X (Save_group p) = quiet (save_group_profile X p)"
| "mutation_op lower E X (Save_subscription item) = quiet (save_subscription item)"
| "mutation_op lower E X (Delete_subscriptions ids) = quiet (delete_subscriptions ids)"
| "mutation_op lower E X (Import_text input sub) = quiet (import_profiles_from_text E input sub)"
| "mutation_op lower E X (Apply_update up) = quiet (apply_prepared_subscription_update E up)"
| "mutation_op lower E X (Save_routing r) = quiet (save_routing r)"
| "mutation_op lower E X (Delete_routings ids) = quiet (delete_routings ids)"
| "mutation_op lower E X (Set_active_routing i) = quiet (set_active_routing i)"
| "mutation_op lower E X (Save_rule i r) = quiet (save_rule i r)"
| "mutation_op lower E X (Delete_rules i ids) = quiet (delete_rules i ids)"
| "mutation_op lower E X (Move_rule i r a p) = quiet (move_rule i r a p)"
| "mutation_op lower E X (Import_template t) = quiet (apply_prepared_config_template_import t)"
| "mutation_op lower E X (Save_settings s) = quiet (save_settings_op s)"
| "mutation_op lower E X (Save_dns d) = quiet (save_dns_op d)"
| "mutation_op lower E X (Set_traffic_mode m) =
     change_config (\<lambda>c. c\<lparr>proxy_ui := (proxy_ui c)\<lparr>proxy_traffic_mode := m\<rparr>\<rparr>)"
| "mutation_op lower E X (Set_system_proxy m) =
     change_config (\<lambda>c. c\<lparr>system_proxy := (system_proxy c)\<lparr>system_proxy_type := m\<rparr>\<rparr>)"
| "mutation_op lower E X (Set_tun on) =
     change_config (\<lambda>c. c\<lparr>tun_mode := (tun_mode c)\<lparr>enable_tun := on\<rparr>\<rparr>)"

definition run_mutation :: "(string \<Rightarrow> string) \<Rightarrow> import_env \<Rightarrow> externals \<Rightarrow> mutation \<Rightarrow> session \<Rightarrow> session" where
  "run_mutation lower E X m s = snd (mutate (mutation_op lower E X m) s)"

text \<open>
  The states of the program: it starts on a database without rows, loads its configuration, and
  runs mutations; between them the environment may set the clock and let statements fail.
\<close>

inductive config_reachable :: "session \<Rightarrow> bool" where
  config_start: "db s = empty_tables \<Longrightarrow> load_config s = (Inr c, t) \<Longrightarrow> config_reachable (t\<lparr>config := c\<rparr>)"
| config_restart: "config_reachable s \<Longrightarrow> load_config (s\<lparr>faults := fs, clock := ts\<rparr>) = (Inr c, t)
    \<Longrightarrow> config_reachable (t\<lparr>config := c, profile_counter := 1, subscription_counter := 1,
           routing_counter := 1, rule_counter := 1, process_id := pid\<rparr>)"
| config_mutation: "config_reachable s
    \<Longrightarrow> config_reachable (run_mutation lower E X m (s\<lparr>faults := fs, clock := ts\<rparr>))"

end
