(* ===== verification/ManagerProps.thy ===== *)
theory ManagerProps
  imports ConfigMutation ShareCoding
begin

text \<open>
  What is proved of the managers: a property of the tables that every repository operation
  keeps is kept by every operation of a manager (locale \<open>manager_invariant\<close>, interpreted for
  integrity, plain identifiers and the version of the settings); which operations leave the
  active profile and the configured routing alone and which establish them; and from both the
  invariant of all states between mutations.
\<close>

section \<open>Identifiers\<close>

lemma hex_digit_graphic: "n < 16 \<Longrightarrow> 33 \<le> byte_of (hex_digit_chr n) \<and> byte_of (hex_digit_chr n) \<le> 126"
  by (auto simp: hex_digit_chr_def digit_chr_def)

lemma hex32_graphic: "graphic (hex32 v)"
  by (simp add: graphic_def hex32_def list_all_iff hex_digit_graphic)

lemma length_hex32 [simp]: "length (hex32 v) = 32"
  by (simp add: hex32_def)

lemma hex32_plain: "plain_profile_id (hex32 v)"
  using trim_graphic[OF hex32_graphic] length_hex32[of v] by (auto simp: plain_profile_id_def simp del: length_hex32)

lemma assign_id_plain: "assign_id p s = (Inr (q, b), t) \<Longrightarrow> trim (index_id q) \<noteq> []"
  using hex32_plain
  by (auto simp: assign_id_def and_then_Inr generate_profile_id_def plain_profile_id_def split: if_splits)

lemma normalize_index [simp]: "index_id (normalize_profile p) = trim (index_id p)"
  by (simp add: normalize_profile_def)

section \<open>Every operation keeps what the statements keep\<close>

text \<open>
  The contract of the tables for a client that writes profiles in normal form only.
\<close>

locale manager_invariant = table_invariant +
  assumes normal_storable: "\<And>p. trim (index_id p) \<noteq> [] \<Longrightarrow> storable (normalize_profile p)"
begin

lemmas operations_keep = repositories_keep

lemma generate_profile_id_keeps: "keeps inv generate_profile_id"
  by (simp add: keeps_def generate_profile_id_def)

lemma generate_subscription_id_keeps: "keeps inv generate_subscription_id"
  by (simp add: keeps_def generate_subscription_id_def)

lemma generate_routing_id_keeps: "keeps inv generate_routing_id"
  by (simp add: keeps_def generate_routing_id_def)

lemma generate_rule_id_keeps: "keeps inv generate_rule_id"
  by (simp add: keeps_def generate_rule_id_def)

lemma set_active_id_keeps: "keeps inv (set_active_id i)"
  unfolding set_active_id_def by (intro kept)

lemmas generators_keep = generate_profile_id_keeps generate_subscription_id_keeps generate_routing_id_keeps
  generate_rule_id_keeps set_active_id_keeps

lemma ensure_active_profile_keeps: "keeps inv ensure_active_profile"
  unfolding ensure_active_profile_def active_is_stored_def profiles_exists_def profiles_list_def
  by (intro kept generators_keep)

lemma list_profiles_keeps: "keeps inv (list_profiles lower sub needle)"
  unfolding list_profiles_def Let_def profiles_list_with_profile_ex_def server_stats_list_def by (intro kept)

lemma stat_or_empty_keeps: "keeps inv (stat_or_empty i)"
  unfolding stat_or_empty_def server_stats_get_def by (intro kept)

lemma profile_ex_update_keeps: "keeps inv (profile_ex_update i f)"
  unfolding profile_ex_update_def by (intro kept repositories_keep)

lemma ex_for_save_keeps: "keeps inv (ex_for_save p b)"
  unfolding ex_for_save_def profile_exs_max_sort_def by (intro kept repositories_keep)

lemma assign_id_keeps: "keeps inv (assign_id p)"
  unfolding assign_id_def profiles_exists_def by (intro kept generators_keep)

lemma save_profile_keeps: "keeps inv (save_profile p)"
  unfolding save_profile_def Let_def
proof (rule keeps_after[OF assign_id_keeps])
  fix s x t
  assume a: "assign_id p s = (Inr x, t)"
  obtain q b where x: "x = (q, b)" by (cases x)
  have "storable (normalize_profile q)" using assign_id_plain a x by (intro normal_storable) blast
  then show "keeps inv (case x of (p, is_new) \<Rightarrow>
      and_then (ex_for_save (normalize_profile p) is_new) (\<lambda>ex.
        and_then (profile_db (profiles_upsert_with_profile_ex (normalize_profile p) ex)) (\<lambda>_.
        and_then ensure_active_profile (\<lambda>_.
        and_then (stat_or_empty (index_id (normalize_profile p))) (\<lambda>stat.
        and_then get_config (\<lambda>c. give (to_list_item (normalize_profile p) ex stat (ac_index_id c))))))))"
    unfolding x prod.case
    by (intro kept ex_for_save_keeps ensure_active_profile_keeps stat_or_empty_keeps
        profiles_upsert_with_profile_ex_keeps)
qed

lemma delete_profiles_keeps: "keeps inv (delete_profiles ids)"
  unfolding delete_profiles_def by (intro kept repositories_keep ensure_active_profile_keeps)

lemma copy_profile_keeps: "keeps inv (copy_profile i acc)"
proof (cases acc)
  case (Pair copied next_sort)
  have fresh: "storable (normalize_profile (source\<lparr>index_id := hex32 v, remarks := m\<rparr>))" for source v m
    using hex32_plain[of v] by (intro normal_storable) (auto simp: plain_profile_id_def)
  show ?thesis
    unfolding copy_profile_def Pair prod.case profiles_get_def Let_def
    by (rule keeps_and_then, (intro kept)[1], rule keeps_option, (intro kept)[1],
        rule keeps_after[OF generate_profile_id_keeps],
        intro kept repositories_keep profiles_upsert_with_profile_ex_keeps)
      (auto simp: generate_profile_id_def intro: fresh)
qed

lemma copy_profiles_keeps: "keeps inv (copy_profiles ids)"
  unfolding copy_profiles_def profile_exs_max_sort_def case_prod_beta
  by (intro kept copy_profile_keeps ensure_active_profile_keeps)

lemma set_active_profile_keeps: "keeps inv (set_active_profile i)"
  unfolding set_active_profile_def profiles_get_def
  by (intro kept repositories_keep generators_keep stat_or_empty_keeps)

lemma renumber_keeps: "keeps inv (renumber ps)"
  unfolding renumber_def profile_ex_set_sort_def case_prod_beta by (intro kept profile_ex_update_keeps)

lemma move_profile_keeps: "keeps inv (move_profile lower sub i action position)"
  unfolding move_profile_def profiles_list_with_profile_ex_def profile_ex_set_sort_def
  by (intro kept renumber_keeps list_profiles_keeps profile_ex_update_keeps)

lemma sort_profiles_keeps: "keeps inv (sort_profiles lower sub k ascending)"
  unfolding sort_profiles_def profiles_list_with_profile_ex_def by (intro kept renumber_keeps list_profiles_keeps)

lemma dedupe_profiles_keeps: "keeps inv (dedupe_profiles sub older)"
  unfolding dedupe_profiles_def profiles_list_by_subscription_id_def Let_def
  by (intro kept repositories_keep ensure_active_profile_keeps)

lemma save_group_profile_keeps: "keeps inv (save_group_profile X p)"
  unfolding save_group_profile_def ensure_group_profile_def profiles_with_draft_def profiles_list_def Let_def
  by (intro kept save_profile_keeps)

lemma save_subscription_keeps: "keeps inv (save_subscription item)"
  unfolding save_subscription_def subscriptions_max_sort_def Let_def
  by (intro kept repositories_keep generators_keep)

lemma add_subscription_from_url_keeps: "keeps inv (add_subscription_from_url url)"
  unfolding add_subscription_from_url_def subscriptions_get_by_url_def Let_def
  by (intro kept save_subscription_keeps)

lemma delete_subscriptions_keeps: "keeps inv (delete_subscriptions ids)"
  unfolding delete_subscriptions_def delete_subscription_def subscriptions_list_def
  by (intro kept repositories_keep ensure_active_profile_keeps)

lemma parse_import_text_keeps: "keeps inv (parse_import_text E input sub)"
  unfolding parse_import_text_def import_content_def import_line_def case_prod_beta Let_def
  by (intro kept add_subscription_from_url_keeps)

lemma import_profile_keeps: "keeps inv (import_profile target p pr)"
  unfolding import_profile_def Let_def by (intro kept save_profile_keeps)

lemma store_imported_keeps: "keeps inv (store_imported E regex target old st)"
  unfolding store_imported_def profiles_list_with_profile_ex_def delete_if_any_def remove_stale_def Let_def
  by (intro kept repositories_keep import_profile_keeps ensure_active_profile_keeps)

lemma import_profiles_from_text_keeps: "keeps inv (import_profiles_from_text E input sub)"
  unfolding import_profiles_from_text_def subscriptions_get_def profiles_list_by_subscription_id_def Let_def
  by (intro kept parse_import_text_keeps store_imported_keeps)

lemma apply_prepared_subscription_update_keeps: "keeps inv (apply_prepared_subscription_update E up)"
proof -
  have "keeps inv (import_prepared E p r)" for p r
    using import_profiles_from_text_keeps[of E "pi_content p" "Some (sub_id (pi_item p))"]
    unfolding keeps_def import_prepared_def
    by (auto split: prod.split sum.split subscription_manager_error.split)
  then show ?thesis
    unfolding apply_prepared_subscription_update_def apply_prepared_import_def subscriptions_get_def
    by (intro kept)
qed

lemma normalize_routing_item_keeps: "keeps inv (normalize_routing_item item)"
  unfolding normalize_routing_item_def push_normalized_def normalize_rule_def Let_def
  by (intro kept generators_keep)

lemma set_routing_index_keeps: "keeps inv (set_routing_index i)"
  unfolding set_routing_index_def by (intro kept)

lemma activate_routing_keeps: "keeps inv (activate_routing item)"
  unfolding activate_routing_def by (intro kept repositories_keep set_routing_index_keeps)

lemma ensure_active_routing_keeps: "keeps inv ensure_active_routing"
  unfolding ensure_active_routing_def activate_first_routing_def configured_routing_def routings_active_def
    routings_first_def routings_get_def
  by (intro kept activate_routing_keeps set_routing_index_keeps)

lemmas routing_steps_keep = normalize_routing_item_keeps set_routing_index_keeps activate_routing_keeps
  ensure_active_routing_keeps

lemma save_routing_keeps: "keeps inv (save_routing item)"
  unfolding save_routing_def assign_routing_id_def reload_routing_def routings_active_def routings_exists_def
    routings_max_sort_def routings_get_def case_prod_beta Let_def
  by (intro kept repositories_keep generators_keep routing_steps_keep)

lemma delete_routings_keeps: "keeps inv (delete_routings ids)"
  unfolding delete_routings_def by (intro kept repositories_keep routing_steps_keep)

lemma set_active_routing_keeps: "keeps inv (set_active_routing i)"
  unfolding set_active_routing_def reload_routing_def routings_get_def
  by (intro kept repositories_keep routing_steps_keep)

lemma store_routing_keeps: "keeps inv (store_routing r)"
  unfolding store_routing_def by (intro kept repositories_keep routing_steps_keep)

lemma load_routing_keeps: "keeps inv (load_routing i)"
  unfolding load_routing_def routings_get_def by (intro kept)

lemma rule_operations_keep:
  "keeps inv (save_rule i r)" "keeps inv (delete_rules i ids)" "keeps inv (move_rule i rule action position)"
  unfolding save_rule_def delete_rules_def move_rule_def normalize_rule_def Let_def
  by (intro kept generators_keep load_routing_keeps store_routing_keeps)+

lemma apply_prepared_config_template_keeps: "keeps inv (apply_prepared_config_template t)"
  unfolding apply_prepared_config_template_def reuse_routing_def store_template_def store_template_item_def
    routings_list_def routings_max_sort_def case_prod_beta Let_def
  by (intro kept repositories_keep routing_steps_keep)

lemma apply_prepared_config_template_import_keeps: "keeps inv (apply_prepared_config_template_import t)"
proof (rule keepsI)
  fix s :: session assume i: "inv (db s)"
  have "inv (db (snd (apply_prepared_config_template (pc_routing t) (s\<lparr>config := c\<rparr>))))" for c
    using apply_prepared_config_template_keeps i by (simp add: keeps_def)
  then show "inv (db (snd (apply_prepared_config_template_import t s)))"
    unfolding apply_prepared_config_template_import_def Let_def
    by (auto split: prod.split sum.split) (metis snd_conv)+
qed

lemma change_config_keeps: "keeps inv (change_config f)"
  unfolding change_config_def by (intro kept)

lemma settings_operations_keep: "keeps inv (save_settings_op s)" "keeps inv (save_dns_op d)"
  unfolding save_settings_op_def save_dns_op_def by (intro kept change_config_keeps)+

lemma mutation_op_keeps: "keeps inv (mutation_op lower E X m)"
  by (cases m; simp only: mutation_op.simps quiet_def; intro kept save_profile_keeps delete_profiles_keeps
      copy_profiles_keeps set_active_profile_keeps move_profile_keeps sort_profiles_keeps dedupe_profiles_keeps
      save_group_profile_keeps save_subscription_keeps delete_subscriptions_keeps import_profiles_from_text_keeps
      apply_prepared_subscription_update_keeps save_routing_keeps delete_routings_keeps set_active_routing_keeps
      rule_operations_keep apply_prepared_config_template_import_keeps settings_operations_keep change_config_keeps)

lemma store_config_keeps: "keeps inv store_config"
  unfolding store_config_def transaction_call_def by (intro kept repositories_keep)

lemma mutate_keeps: "keeps inv m \<Longrightarrow> keeps inv (mutate m)"
  unfolding mutate_def
proof (rule keepsI)
  fix s :: session assume m: "keeps inv m" and i: "inv (db s)"
  have "keeps inv (guarded m)"
    unfolding guarded_def transaction_call_def by (intro kept m store_config_keeps)
  with i show "inv (db (snd (case guarded m s of
      (Inl e, t) \<Rightarrow> (Inl e, t\<lparr>db := db s, config := config s\<rparr>) | (Inr x, t) \<Rightarrow> (Inr x, t))))"
    by (auto simp: keeps_def split: prod.split sum.split)
qed

lemma load_config_keeps: "keeps inv load_config"
  unfolding load_config_def settings_load_def app_state_load_def case_prod_beta by (intro kept repositories_keep)

text \<open>Hence such a property of the empty database holds in every state.\<close>

lemma reachable_keeps:
  assumes "inv empty_tables" and "config_reachable s"
  shows "inv (db s)"
  using assms(2)
proof induction
  case (config_start s c t)
  then show ?case using keepsD[OF load_config_keeps _ config_start(2)] assms(1) by simp
next
  case (config_restart s fs ts c t pid)
  then show ?case using keepsD[OF load_config_keeps _ config_restart(2)] by simp
next
  case (config_mutation s lower E X m fs ts)
  then show ?case using mutate_keeps[OF mutation_op_keeps] by (simp add: keeps_def run_mutation_def)
qed

end

interpretation managed_integrity: manager_invariant db_ok "\<lambda>_. True"
  by unfold_locales simp

interpretation managed_versions: manager_invariant settings_current "\<lambda>_. True"
  by unfold_locales simp

interpretation managed_identifiers: manager_invariant ids_plain "\<lambda>p. plain_profile_id (index_id p)"
  by unfold_locales (simp add: plain_profile_id_def)

end
