(* ===== verification/ActiveProps.thy ===== *)
theory ActiveProps
  imports ManagerProps
begin

text \<open>
  The active profile and the configured routing: which operations leave them alone
  (\<open>frames\<close>), which establish that they are stored rows, and the invariant of all states
  between mutations. From it: a commit fails only if the storage fails, a restart finds the
  configuration it left, and the context builder finds the active profile.
\<close>

section \<open>Operations that leave a part of the state alone\<close>

definition frames :: "(tables \<Rightarrow> 'b) \<Rightarrow> (app_config \<Rightarrow> 'c) \<Rightarrow> ('e, 'a) task \<Rightarrow> bool" where
  "frames G H m \<longleftrightarrow>
     (\<forall>s. G (db (snd (m s))) = G (db s) \<and> H (config (snd (m s))) = H (config s))"

named_theorems framed "tasks that leave a part of the state alone"

lemma frames_give [framed]: "frames G H (give x)"
  by (simp add: frames_def give_def)

lemma frames_give_up [framed]: "frames G H (give_up e)"
  by (simp add: frames_def give_up_def)

lemma frames_get_config [framed]: "frames G H get_config"
  by (simp add: frames_def get_config_def)

lemma frames_and_then [framed]: "frames G H m \<Longrightarrow> (\<And>x. frames G H (k x)) \<Longrightarrow> frames G H (and_then m k)"
  unfolding frames_def and_then_def by (auto split: prod.split sum.split) (metis snd_conv)+

lemma frames_map_err [framed]: "frames G H m \<Longrightarrow> frames G H (map_err f m)"
  unfolding frames_def map_err_def by (auto split: prod.split sum.split) (metis snd_conv)+

lemma frames_if [framed]: "frames G H a \<Longrightarrow> frames G H b \<Longrightarrow> frames G H (if c then a else b)"
  by simp

lemma frames_option [framed]:
  "frames G H a \<Longrightarrow> (\<And>x. frames G H (b x)) \<Longrightarrow> frames G H (case v of None \<Rightarrow> a | Some x \<Rightarrow> b x)"
  by (cases v) simp_all

lemma frames_sum [framed]:
  "(\<And>e. frames G H (a e)) \<Longrightarrow> (\<And>x. frames G H (b x)) \<Longrightarrow> frames G H (case r of Inl e \<Rightarrow> a e | Inr x \<Rightarrow> b x)"
  by (cases r) simp_all

lemma frames_for_each [framed]: "(\<And>x. frames G H (f x)) \<Longrightarrow> frames G H (for_each f xs)"
  by (induction xs) (simp_all add: framed)

lemma frames_fold_task [framed]: "(\<And>x b. frames G H (f x b)) \<Longrightarrow> frames G H (fold_task f xs b)"
  by (induction xs arbitrary: b) (simp_all add: framed)

lemma frames_statement:
  assumes "\<And>t x t'. f t = Inr (x, t') \<Longrightarrow> G t' = G t"
  shows "frames G H (statement f)"
  unfolding frames_def statement_def using assms by (auto simp: Let_def split: list.split bool.split sum.split)

lemma frames_query [framed]: "frames G H (query f)"
  by (rule frames_statement) simp

lemma frames_change_config: "(\<And>c. H (f c) = H c) \<Longrightarrow> frames G H (change_config f)"
  by (simp add: frames_def change_config_def and_then_def get_config_def set_config_def)

lemma frames_yields:
  "frames G H m \<Longrightarrow> yields (\<lambda>s. Q (G (db s)) (H (config s))) m (\<lambda>_ s. Q (G (db s)) (H (config s)))"
  unfolding frames_def yields_def by (metis snd_conv)

lemma frames_generators [framed]:
  "frames G H generate_profile_id" "frames G H generate_subscription_id" "frames G H generate_routing_id"
  "frames G H generate_rule_id"
  by (simp_all add: frames_def generate_profile_id_def generate_subscription_id_def generate_routing_id_def
      generate_rule_id_def)

section \<open>The profiles and the active one\<close>

definition profile_keys :: "tables \<Rightarrow> string set" where
  "profile_keys t = set (keys (profile_rows t))"

definition routing_keys :: "tables \<Rightarrow> string set" where
  "routing_keys t = set (keys (routing_rows t))"

definition configured :: "app_config \<Rightarrow> string" where
  "configured c = routing_index_id (routing_basic c)"

definition active_ok :: "string set \<Rightarrow> string \<Rightarrow> bool" where
  "active_ok ks i \<longleftrightarrow> i \<in> ks \<or> (ks = {} \<and> i = [])"

definition routing_ok :: "string set \<Rightarrow> string \<Rightarrow> bool" where
  "routing_ok ks i \<longleftrightarrow> i = [] \<or> i \<in> ks"

abbreviation has_active :: "session \<Rightarrow> bool" where
  "has_active s \<equiv> active_ok (profile_keys (db s)) (ac_index_id (config s))"

abbreviation has_routing :: "session \<Rightarrow> bool" where
  "has_routing s \<equiv> routing_ok (routing_keys (db s)) (configured (config s))"

abbreviation leaves_profiles :: "('e, 'a) task \<Rightarrow> bool" where
  "leaves_profiles m \<equiv> frames profile_keys ac_index_id m"

abbreviation leaves_routings :: "('e, 'a) task \<Rightarrow> bool" where
  "leaves_routings m \<equiv> frames routing_keys configured m"

lemma profile_keys_simps [simp]:
  "profile_keys (t\<lparr>profile_ex_rows := a\<rparr>) = profile_keys t"
  "profile_keys (t\<lparr>subscription_rows := b\<rparr>) = profile_keys t"
  "profile_keys (t\<lparr>routing_rows := c\<rparr>) = profile_keys t"
  "profile_keys (t\<lparr>server_stat_rows := d\<rparr>) = profile_keys t"
  "profile_keys (t\<lparr>app_state := e\<rparr>) = profile_keys t"
  "profile_keys (t\<lparr>settings_row := f\<rparr>) = profile_keys t"
  by (simp_all add: profile_keys_def)

lemma routing_keys_simps [simp]:
  "routing_keys (t\<lparr>profile_ex_rows := a\<rparr>) = routing_keys t"
  "routing_keys (t\<lparr>subscription_rows := b\<rparr>) = routing_keys t"
  "routing_keys (t\<lparr>profile_rows := c\<rparr>) = routing_keys t"
  "routing_keys (t\<lparr>server_stat_rows := d\<rparr>) = routing_keys t"
  "routing_keys (t\<lparr>app_state := e\<rparr>) = routing_keys t"
  "routing_keys (t\<lparr>settings_row := f\<rparr>) = routing_keys t"
  "routing_keys (drop_profiles P t) = routing_keys t"
  by (simp_all add: routing_keys_def drop_profiles_def)

lemma drop_routing_profile_keys [simp]: "profile_keys (drop_routing i t) = profile_keys t"
  by (simp add: drop_routing_def)

text \<open>Repository operations that concern neither.\<close>

lemma plain_statements_frame [framed]:
  "frames profile_keys H (profile_exs_upsert e)" "frames routing_keys H (profile_exs_upsert e)"
  "frames profile_keys H (server_stats_upsert st)" "frames routing_keys H (server_stats_upsert st)"
  "frames profile_keys H (subscriptions_upsert sub)" "frames routing_keys H (subscriptions_upsert sub)"
  "frames profile_keys H (app_state_set_active_routing i)" "frames routing_keys H (app_state_set_active_routing i)"
  "frames profile_keys H (save_state_on a)" "frames routing_keys H (save_state_on a)"
  "frames profile_keys H (save_settings_on p)" "frames routing_keys H (save_settings_on p)"
  unfolding profile_exs_upsert_def server_stats_upsert_def subscriptions_upsert_def
    app_state_set_active_routing_def save_state_on_def save_settings_on_def
  by (rule frames_statement, auto split: if_splits)+

lemma profile_statements_frame [framed]:
  "frames routing_keys H (profiles_upsert p)" "frames routing_keys H (profiles_delete i)"
  "frames routing_keys H (profiles_delete_by_subscription_id i)" "frames routing_keys H (subscriptions_delete i)"
  unfolding profiles_upsert_def profiles_delete_def profiles_delete_by_subscription_id_def subscriptions_delete_def
  by (rule frames_statement, auto split: if_splits)+

lemma routing_statements_frame [framed]:
  "frames profile_keys H (routings_upsert r)" "frames profile_keys H (routings_delete i)"
  unfolding routings_upsert_def routings_delete_def by (rule frames_statement, auto split: if_splits)+

lemma queries_frame [framed]:
  "frames G H (profiles_get i)" "frames G H (profiles_exists i)" "frames G H profiles_list"
  "frames G H (profiles_list_by_subscription_id sub)" "frames G H (profiles_list_with_profile_ex sub)"
  "frames G H (profile_exs_get i)" "frames G H profile_exs_max_sort" "frames G H (subscriptions_get i)"
  "frames G H (subscriptions_get_by_url url)" "frames G H subscriptions_list" "frames G H subscriptions_max_sort"
  "frames G H (routings_get i)" "frames G H routings_list" "frames G H routings_active" "frames G H routings_first"
  "frames G H (routings_exists i)" "frames G H routings_max_sort" "frames G H (server_stats_get i)"
  "frames G H server_stats_list" "frames G H app_state_load" "frames G H transaction_call"
  unfolding profiles_get_def profiles_exists_def profiles_list_def profiles_list_by_subscription_id_def
    profiles_list_with_profile_ex_def profile_exs_get_def profile_exs_max_sort_def subscriptions_get_def
    subscriptions_get_by_url_def subscriptions_list_def subscriptions_max_sort_def routings_get_def routings_list_def
    routings_active_def routings_first_def routings_exists_def routings_max_sort_def server_stats_get_def
    server_stats_list_def app_state_load_def transaction_call_def
  by (rule frames_query)+

lemma repositories_frame [framed]:
  "frames profile_keys H (profile_exs_ensure i)" "frames routing_keys H (profile_exs_ensure i)"
  "frames profile_keys H (server_stats_clone_stat i j)" "frames routing_keys H (server_stats_clone_stat i j)"
  "frames profile_keys H (routings_set_active i)" "frames routing_keys H (routings_set_active i)"
  "frames routing_keys H (profiles_upsert_with_profile_ex p e)" "frames routing_keys H (profiles_delete_many ids)"
  "frames profile_keys H (routings_delete_many ids)"
  unfolding profile_exs_ensure_def server_stats_clone_stat_def routings_set_active_def
    profiles_upsert_with_profile_ex_def profiles_delete_many_def routings_delete_many_def Let_def
  by (intro framed)+

lemma store_frames [framed]:
  "frames profile_keys H (settings_save_with_state p a)" "frames routing_keys H (settings_save_with_state p a)"
  "frames profile_keys H store_config" "frames routing_keys H store_config"
  unfolding store_config_def settings_save_with_state_def validated_payload_def by (intro framed)+

section \<open>Operations that leave the routings alone\<close>

lemma frames_set_config_index:
  "leaves_routings (set_active_id i)"
  by (simp add: frames_def set_active_id_def and_then_def get_config_def set_config_def configured_def)

lemma frames_guarded_config:
  "(\<And>c. H (f c) = H c) \<Longrightarrow> (\<And>c. frames G H (k c))
     \<Longrightarrow> frames G H (and_then get_config (\<lambda>c. and_then (if P c then set_config (f c) else give ()) (\<lambda>_. k c)))"
  unfolding frames_def and_then_def get_config_def set_config_def give_def by simp

lemma ensure_active_profile_frame [framed]: "leaves_routings ensure_active_profile"
  unfolding ensure_active_profile_def active_is_stored_def by (intro framed frames_set_config_index)

lemma profile_helpers_frame [framed]:
  "frames G H (list_profiles lower sub needle)" "frames G H (stat_or_empty i)" "frames G H (assign_id p)"
  "leaves_routings (profile_ex_update i f)" "leaves_profiles (profile_ex_update i f)"
  "leaves_routings (ex_for_save p b)" "leaves_profiles (ex_for_save p b)"
  unfolding list_profiles_def stat_or_empty_def assign_id_def profile_ex_update_def ex_for_save_def Let_def
  by (intro framed)+

lemma renumber_frame [framed]: "leaves_routings (renumber ps)" "leaves_profiles (renumber ps)"
  unfolding renumber_def profile_ex_set_sort_def case_prod_beta by (intro framed)+

lemma profile_operations_leave_routings [framed]:
  "leaves_routings (save_profile p)" "leaves_routings (delete_profiles ids)"
  "leaves_routings (copy_profile i acc)" "leaves_routings (copy_profiles ids)"
  "leaves_routings (set_active_profile i)" "leaves_routings (dedupe_profiles sub older)"
  unfolding save_profile_def delete_profiles_def copy_profile_def copy_profiles_def set_active_profile_def
    dedupe_profiles_def case_prod_beta Let_def
  by (intro framed frames_set_config_index)+

lemma ordering_frames [framed]:
  "leaves_routings (move_profile lower sub i a p)" "leaves_profiles (move_profile lower sub i a p)"
  "leaves_routings (sort_profiles lower sub k asc)" "leaves_profiles (sort_profiles lower sub k asc)"
  unfolding move_profile_def sort_profiles_def profile_ex_set_sort_def case_prod_beta by (intro framed)+

lemma save_group_frame [framed]: "leaves_routings (save_group_profile X p)"
  unfolding save_group_profile_def ensure_group_profile_def profiles_with_draft_def Let_def by (intro framed)

lemma save_subscription_frame [framed]:
  "leaves_routings (save_subscription item)" "leaves_profiles (save_subscription item)"
  unfolding save_subscription_def Let_def
  by (intro framed frames_guarded_config; simp add: configured_def)+

lemma add_subscription_frame [framed]:
  "leaves_routings (add_subscription_from_url url)" "leaves_profiles (add_subscription_from_url url)"
  unfolding add_subscription_from_url_def Let_def by (intro framed)+

lemma delete_subscriptions_frame [framed]: "leaves_routings (delete_subscriptions ids)"
  unfolding delete_subscriptions_def delete_subscription_def
  by (intro framed frames_guarded_config; simp add: configured_def)

lemma parse_import_text_frame [framed]:
  "leaves_routings (parse_import_text E input sub)" "leaves_profiles (parse_import_text E input sub)"
  unfolding parse_import_text_def import_content_def import_line_def case_prod_beta Let_def by (intro framed)+

lemma import_frame [framed]:
  "leaves_routings (import_profile target p pr)" "leaves_routings (store_imported E regex target old st)"
  "leaves_routings (import_profiles_from_text E input sub)"
  unfolding import_profiles_from_text_def store_imported_def import_profile_def delete_if_any_def remove_stale_def Let_def
  by (intro framed)+

lemma frames_prepared [framed]:
  "frames G H (import_profiles_from_text E (pi_content up) (Some (sub_id (pi_item up))))
     \<Longrightarrow> frames G H (import_prepared E up r)"
  unfolding frames_def import_prepared_def
  by (auto split: prod.split sum.split subscription_manager_error.split) (metis snd_conv)+

lemma apply_update_frame [framed]: "leaves_routings (apply_prepared_subscription_update E up)"
  unfolding apply_prepared_subscription_update_def apply_prepared_import_def by (intro framed)

section \<open>Operations that leave the profiles alone\<close>

lemma set_routing_index_frame [framed]: "leaves_profiles (set_routing_index i)"
  by (simp add: frames_def set_routing_index_def and_then_def get_config_def set_config_def)

lemma normalize_routing_frame [framed]: "frames G H (normalize_rule r)" "frames G H (normalize_routing_item item)"
  unfolding normalize_routing_item_def push_normalized_def normalize_rule_def Let_def by (intro framed)+

lemma activate_routing_frame [framed]: "leaves_profiles (activate_routing item)"
  unfolding activate_routing_def by (intro framed)

lemma ensure_active_routing_frame [framed]: "leaves_profiles ensure_active_routing"
  unfolding ensure_active_routing_def activate_first_routing_def configured_routing_def by (intro framed)

lemma routing_helpers_frame [framed]:
  "frames G H (load_routing i)" "frames G H (reload_routing i)" "frames G H (assign_routing_id item)"
  "leaves_profiles (store_routing r)"
  unfolding load_routing_def reload_routing_def assign_routing_id_def store_routing_def by (intro framed)+

lemma routing_operations_leave_profiles [framed]:
  "leaves_profiles (save_routing item)" "leaves_profiles (delete_routings ids)"
  "leaves_profiles (set_active_routing i)" "leaves_profiles (save_rule i r)" "leaves_profiles (delete_rules i ids)"
  "leaves_profiles (move_rule i rule a p)" "leaves_profiles (apply_prepared_config_template pt)"
  unfolding save_routing_def delete_routings_def set_active_routing_def save_rule_def delete_rules_def move_rule_def
    apply_prepared_config_template_def reuse_routing_def store_template_def store_template_item_def case_prod_beta Let_def
  by (intro framed)+

lemma apply_source_settings_simps [simp]:
  "ac_index_id (apply_source_settings s c) = ac_index_id c"
  "routing_basic (apply_source_settings s c) = routing_basic c"
  by (simp_all add: apply_source_settings_def)

lemma template_import_frame [framed]: "leaves_profiles (apply_prepared_config_template_import t)"
proof -
  have "profile_keys (db u) = profile_keys (db s) \<and> ac_index_id (config u) = ac_index_id c"
    if "apply_prepared_config_template (pc_routing t) (s\<lparr>config := c\<rparr>) = (r, u)" for s :: session and c r u
    using routing_operations_leave_profiles(7)[of "pc_routing t", unfolded frames_def, rule_format, of "s\<lparr>config := c\<rparr>"]
      that by simp
  then show ?thesis
    unfolding frames_def apply_prepared_config_template_import_def Let_def
    by (auto split: prod.split sum.split option.split)
qed

lemma config_from_settings_ids:
  assumes "config_from_settings st c = Inr c'"
  shows "ac_index_id c' = ac_index_id c" and "configured c' = configured c"
  using assms
  by (auto simp: config_from_settings_def app_config_from_settings_def state_of_config_def some_if_nonempty_def
      configured_def Let_def split: sum.splits if_splits)

lemma settings_frames [framed]:
  "leaves_profiles (save_settings_op st)" "leaves_routings (save_settings_op st)"
  "leaves_profiles (save_dns_op d)" "leaves_routings (save_dns_op d)"
proof -
  show "leaves_profiles (save_settings_op st)" "leaves_routings (save_settings_op st)"
    by (auto simp: frames_def save_settings_op_def and_then_def get_config_def set_config_def give_up_def
        config_from_settings_ids split: sum.split)
  show "leaves_profiles (save_dns_op d)" "leaves_routings (save_dns_op d)"
    unfolding save_dns_op_def by (intro framed frames_change_config; simp add: configured_def)+
qed

section \<open>Operations that establish the active profile\<close>

text \<open>
  \<open>settles Q m\<close>: on any consistent tables a successful \<open>m\<close> ends with \<open>Q\<close>.
  \<open>secures Q m\<close>: it ends with \<open>Q\<close> if it starts with it.
\<close>

definition settles :: "(session \<Rightarrow> bool) \<Rightarrow> ('e, 'a) task \<Rightarrow> bool" where
  "settles Q m \<longleftrightarrow> yields (\<lambda>s. db_ok (db s)) m (\<lambda>_ s. db_ok (db s) \<and> Q s)"

definition secures :: "(session \<Rightarrow> bool) \<Rightarrow> ('e, 'a) task \<Rightarrow> bool" where
  "secures Q m \<longleftrightarrow> yields (\<lambda>s. db_ok (db s) \<and> Q s) m (\<lambda>_ s. db_ok (db s) \<and> Q s)"

lemma secures_settles: "settles Q m \<Longrightarrow> secures Q m"
  unfolding settles_def secures_def yields_def by blast

lemma settles_give_up [simp]: "settles Q (give_up e)"
  by (simp add: settles_def)

lemma settles_prefix: "keeps db_ok m \<Longrightarrow> (\<And>x. settles Q (k x)) \<Longrightarrow> settles Q (and_then m k)"
  unfolding settles_def by (rule yields_and_then[OF keeps_yields])

lemma settles_suffix: "settles Q m \<Longrightarrow> (\<And>x. secures Q (k x)) \<Longrightarrow> settles Q (and_then m k)"
  unfolding settles_def secures_def by (rule yields_and_then)

lemma settles_map_err: "settles Q m \<Longrightarrow> settles Q (map_err f m)"
  unfolding settles_def by (rule yields_map_err)

lemma secures_frames:
  "frames G H m \<Longrightarrow> keeps db_ok m \<Longrightarrow> secures (\<lambda>s. Q (G (db s)) (H (config s))) m"
  unfolding secures_def frames_def keeps_def yields_def by (metis snd_conv)

lemma secures_map_err: "secures Q m \<Longrightarrow> secures Q (map_err f m)"
  unfolding secures_def by (rule yields_map_err)

lemma secures_and_then: "secures Q m \<Longrightarrow> (\<And>x. secures Q (k x)) \<Longrightarrow> secures Q (and_then m k)"
  unfolding secures_def by (rule yields_and_then)

lemma secures_give [simp]: "secures Q (give x)"
  unfolding secures_def by (rule yields_give)

lemma secures_fold_task: "(\<And>x b. secures Q (f x b)) \<Longrightarrow> secures Q (fold_task f xs b)"
  by (induction xs arbitrary: b) (simp_all add: secures_and_then)

lemma secures_active: "leaves_profiles m \<Longrightarrow> keeps db_ok m \<Longrightarrow> secures has_active m"
  by (rule secures_frames)

lemma secures_routing: "leaves_routings m \<Longrightarrow> keeps db_ok m \<Longrightarrow> secures has_routing m"
  by (rule secures_frames)

lemma stored_keys: "rows_ok key rows \<Longrightarrow> set (map key (rows_of rows)) = set (keys rows)"
  by (force simp: rows_ok_def rows_of_def keys_def)

lemma find_member: "find P xs = Some x \<Longrightarrow> x \<in> set xs"
  by (auto simp: find_Some_iff)

lemma next_active_member: "ps \<noteq> [] \<Longrightarrow> next_active ps \<in> index_id ` set ps"
  unfolding next_active_def or_else_def first_of_def
  by (cases ps) (auto split: option.split dest: find_member)

lemma next_active_ok:
  assumes "db_ok t"
  shows "active_ok (profile_keys t) (next_active (ordered_profiles t (rows_of (profile_rows t))))"
proof (cases "profile_rows t = []")
  case True
  then show ?thesis
    by (simp add: active_ok_def profile_keys_def ordered_profiles_def next_active_def or_else_def first_of_def)
next
  case False
  have s: "set (ordered_profiles t (rows_of (profile_rows t))) = set (rows_of (profile_rows t))"
    by (simp add: ordered_profiles_def)
  with False have "ordered_profiles t (rows_of (profile_rows t)) \<noteq> []" by (auto simp: rows_of_def)
  from next_active_member[OF this] show ?thesis
    using stored_keys[of index_id "profile_rows t"] assms
    by (auto simp: active_ok_def profile_keys_def db_ok_def s)
qed

lemma stored_active_ok: "i \<in> set (keys (profile_rows t)) \<Longrightarrow> active_ok (profile_keys t) i"
  by (simp add: active_ok_def profile_keys_def)

lemma ensure_active_profile_settles: "settles has_active ensure_active_profile"
proof -
  have "has_active t" if "db_ok (db s)" "ensure_active_profile s = (Inr x, t)" for s :: session and x t
    using that next_active_ok[OF that(1)]
    by (auto simp: ensure_active_profile_def and_then_Inr get_config_def active_is_stored_def map_err_Inr
        profiles_exists_def profiles_list_def statement_Inr set_active_id_def set_config_def stored_active_ok
        split: if_splits)
  with managed_integrity.ensure_active_profile_keeps show ?thesis
    unfolding settles_def yields_def keeps_def by (metis snd_conv)
qed

lemmas settling = settles_map_err ensure_active_profile_settles

lemma save_profile_settles: "settles has_active (save_profile p)"
proof -
  have tail: "secures has_active (and_then (stat_or_empty i) (\<lambda>stat. and_then get_config (\<lambda>c. give (f stat c))))"
    for i and f :: "server_stat_item \<Rightarrow> app_config \<Rightarrow> profile_list_item"
    by (intro secures_active framed kept managed_integrity.stat_or_empty_keeps)
  show ?thesis
    unfolding save_profile_def Let_def case_prod_beta
    by (intro settles_prefix settles_suffix[OF ensure_active_profile_settles] tail kept
        managed_integrity.assign_id_keeps managed_integrity.ex_for_save_keeps
        integrity.profiles_upsert_with_profile_ex_keeps) simp_all
qed

lemma settles_then_give: "settles Q m \<Longrightarrow> settles Q (and_then m (\<lambda>_. give x))"
  by (rule settles_suffix) simp_all

lemma delete_profiles_settles: "settles has_active (delete_profiles ids)"
  unfolding delete_profiles_def
  by (intro settles_prefix settles_then_give settling kept integrity.repositories_keep)

lemma copy_profiles_settles: "settles has_active (copy_profiles ids)"
  unfolding copy_profiles_def profile_exs_max_sort_def case_prod_beta
  by (intro settles_prefix settles_then_give settling kept managed_integrity.copy_profile_keeps)

lemma dedupe_profiles_settles: "settles has_active (dedupe_profiles sub older)"
  unfolding dedupe_profiles_def profiles_list_by_subscription_id_def Let_def
  by (intro settles_prefix settles_then_give settling kept integrity.repositories_keep)

lemma found_profile: "map_of (profile_rows t) i = Some p \<Longrightarrow> i \<in> profile_keys t"
  using map_of_SomeD by (force simp: profile_keys_def keys_def)

lemma frames_db: "frames G H m \<Longrightarrow> m s = (r, t) \<Longrightarrow> G (db t) = G (db s)"
  unfolding frames_def by (metis snd_conv)

lemma set_active_profile_settles: "settles has_active (set_active_profile i)"
proof -
  have "has_active t" if s: "set_active_profile i s = (Inr x, t)" for s :: session and x t
  proof -
    obtain p u where p: "profiles_get i s = (Inr (Some p), u)"
      and r: "and_then (profile_db (profile_exs_ensure i)) (\<lambda>ex.
                and_then (stat_or_empty i) (\<lambda>stat.
                and_then (set_active_id i) (\<lambda>_. give (to_list_item p ex stat i)))) u = (Inr x, t)"
      using s by (auto simp: set_active_profile_def and_then_Inr map_err_Inr split: if_splits option.splits)
    have u: "i \<in> profile_keys (db u)"
      using p by (auto simp: profiles_get_def statement_Inr intro: found_profile)
    obtain v ex stat w where
      v: "profile_db (profile_exs_ensure i) u = (Inr ex, v)" and w: "stat_or_empty i v = (Inr stat, w)"
      and t: "t = w\<lparr>config := (config w)\<lparr>ac_index_id := i\<rparr>\<rparr>"
      using r by (auto simp: and_then_Inr set_active_id_def get_config_def set_config_def)
    have "profile_keys (db v) = profile_keys (db u)" "profile_keys (db w) = profile_keys (db v)"
      using frames_db[OF frames_map_err[OF repositories_frame(1)] v] frames_db[OF profile_helpers_frame(2) w, of profile_keys] by simp_all
    with u t show ?thesis by (simp add: active_ok_def)
  qed
  with managed_integrity.set_active_profile_keeps show ?thesis
    unfolding settles_def yields_def keeps_def by (metis snd_conv)
qed

lemma save_group_profile_settles: "settles has_active (save_group_profile X p)"
  unfolding save_group_profile_def ensure_group_profile_def profiles_with_draft_def profiles_list_def Let_def
  by (intro settles_prefix kept) (auto intro: settles_map_err save_profile_settles)

lemma delete_subscriptions_settles: "settles has_active (delete_subscriptions ids)"
  unfolding delete_subscriptions_def delete_subscription_def subscriptions_list_def
  by (intro settles_prefix settles_then_give settling kept integrity.repositories_keep)

lemma store_imported_settles: "settles has_active (store_imported E regex target old st)"
proof -
  have cond: "settles Q a \<Longrightarrow> settles Q b \<Longrightarrow> settles Q (if c then a else b)" for Q c
    and a b :: "(subscription_manager_error, import_profiles_result) task" by simp
  show ?thesis
    unfolding store_imported_def profiles_list_with_profile_ex_def delete_if_any_def remove_stale_def Let_def
    by (intro cond settles_prefix settles_then_give settling kept integrity.repositories_keep
        managed_integrity.import_profile_keeps)
qed

lemma import_profiles_settles: "settles has_active (import_profiles_from_text E input sub)"
proof -
  have cond: "(\<And>e. settles Q (a e)) \<Longrightarrow> (\<And>x. settles Q (b x)) \<Longrightarrow> settles Q (case r of Inl e \<Rightarrow> a e | Inr x \<Rightarrow> b x)"
    for Q and r :: "'d + 'c" and a b :: "_ \<Rightarrow> (subscription_manager_error, import_profiles_result) task"
    by (cases r) simp_all
  show ?thesis
    unfolding import_profiles_from_text_def subscriptions_get_def profiles_list_by_subscription_id_def Let_def
    by (intro settles_prefix cond settles_give_up store_imported_settles kept managed_integrity.parse_import_text_keeps)
qed

text \<open>
  An update catches the error that a text holds no profile. It comes from the parser only, which
  leaves the profiles alone; storing profiles does not raise it.
\<close>

definition never_nothing :: "(subscription_manager_error, 'a) task \<Rightarrow> bool" where
  "never_nothing m \<longleftrightarrow> (\<forall>s t. m s \<noteq> (Inl NoImportableProfiles, t))"

definition harmless :: "(subscription_manager_error, 'a) task \<Rightarrow> bool" where
  "harmless m \<longleftrightarrow>
     (\<forall>s t. m s = (Inl NoImportableProfiles, t)
        \<longrightarrow> profile_keys (db t) = profile_keys (db s) \<and> ac_index_id (config t) = ac_index_id (config s))"

named_theorems refusing "what is caught when a text holds no profile"

lemma never_give [refusing]: "never_nothing (give x)"
  by (simp add: never_nothing_def give_def)

lemma never_and_then [refusing]:
  "never_nothing m \<Longrightarrow> (\<And>x. never_nothing (k x)) \<Longrightarrow> never_nothing (and_then m k)"
  unfolding never_nothing_def and_then_def by (fastforce split: prod.splits sum.splits)

lemma never_get_config [refusing]: "never_nothing get_config"
  by (simp add: never_nothing_def get_config_def)

lemma never_database [refusing]: "never_nothing (sub_db m)" "never_nothing (sub_profile n)"
  by (auto simp: never_nothing_def map_err_def split: prod.splits sum.splits)

lemma never_if [refusing]: "never_nothing a \<Longrightarrow> never_nothing b \<Longrightarrow> never_nothing (if c then a else b)"
  by simp

lemma never_option [refusing]:
  "never_nothing a \<Longrightarrow> (\<And>x. never_nothing (b x)) \<Longrightarrow> never_nothing (case v of None \<Rightarrow> a | Some x \<Rightarrow> b x)"
  by (cases v) simp_all

lemma never_fold_task [refusing]: "(\<And>x b. never_nothing (f x b)) \<Longrightarrow> never_nothing (fold_task f xs b)"
  by (induction xs arbitrary: b) (simp_all add: refusing)

lemma never_store_imported: "never_nothing (store_imported E regex target old st)"
  unfolding store_imported_def import_profile_def delete_if_any_def remove_stale_def Let_def by (intro refusing)

lemma harmless_never: "never_nothing m \<Longrightarrow> harmless m"
  by (simp add: never_nothing_def harmless_def)

lemma harmless_frames: "leaves_profiles m \<Longrightarrow> harmless m"
  unfolding frames_def harmless_def by (metis snd_conv)

lemma harmless_and_then:
  assumes m: "leaves_profiles m" and k: "\<And>x. harmless (k x)"
  shows "harmless (and_then m k)"
proof -
  have "profile_keys (db t) = profile_keys (db s) \<and> ac_index_id (config t) = ac_index_id (config s)"
    if "and_then m k s = (Inl NoImportableProfiles, t)" for s :: session and t
  proof (cases "m s")
    case (Pair r u)
    have u: "profile_keys (db u) = profile_keys (db s)" "ac_index_id (config u) = ac_index_id (config s)"
      using m[unfolded frames_def, rule_format, of s] Pair by simp_all
    show ?thesis
    proof (cases r)
      case (Inl e) with that Pair u show ?thesis by (simp add: and_then_def)
    next
      case (Inr x)
      with that Pair have "k x u = (Inl NoImportableProfiles, t)" by (simp add: and_then_def)
      with k[of x] u show ?thesis by (auto simp: harmless_def)
    qed
  qed
  then show ?thesis by (simp add: harmless_def)
qed

lemma import_profiles_harmless: "harmless (import_profiles_from_text E input sub)"
proof -
  have cond: "harmless (case r of Inl e \<Rightarrow> give_up e | Inr x \<Rightarrow> b x)"
    if "\<And>x. harmless (b x)" for r and b :: "'d \<Rightarrow> (subscription_manager_error, import_profiles_result) task"
    using that by (cases r) (simp_all add: harmless_def give_up_def)
  show ?thesis
    unfolding import_profiles_from_text_def Let_def
    by (intro harmless_and_then cond harmless_never never_store_imported framed)
qed

lemma import_prepared_secures: "secures has_active (import_prepared E up r)"
proof -
  let ?m = "import_profiles_from_text E (pi_content up) (Some (sub_id (pi_item up)))"
  have "db_ok (db t) \<and> has_active t"
    if s: "db_ok (db s)" "has_active s" and r: "import_prepared E up r s = (Inr x, t)" for s :: session and x t
  proof (cases "?m s")
    case (Pair v u)
    have ok: "db_ok (db u)"
      using keepsD[OF managed_integrity.import_profiles_from_text_keeps s(1) Pair] .
    show ?thesis
    proof (cases v)
      case (Inr i)
      have "has_active u"
        using import_profiles_settles s(1) Pair Inr unfolding settles_def yields_def by blast
      with ok r Pair Inr show ?thesis by (auto simp: import_prepared_def split: if_splits)
    next
      case (Inl e)
      then have "e = NoImportableProfiles" "t = u"
        using r Pair by (auto simp: import_prepared_def split: subscription_manager_error.splits)
      with import_profiles_harmless Pair Inl s ok show ?thesis unfolding harmless_def by metis
    qed
  qed
  then show ?thesis unfolding secures_def yields_def by blast
qed

lemma apply_update_secures: "secures has_active (apply_prepared_subscription_update E up)"
proof -
  have cond: "secures Q a \<Longrightarrow> secures Q b \<Longrightarrow> secures Q (if c then a else b)" for Q c
    and a b :: "(subscription_manager_error, subscription_update_result) task" by simp
  show ?thesis
    unfolding apply_prepared_subscription_update_def apply_prepared_import_def
    by (intro secures_fold_task secures_and_then cond import_prepared_secures secures_give
        secures_active[of "sub_db (subscriptions_get i)" for i] framed kept)
      (simp add: subscriptions_get_def keeps_query)
qed

lemma secures_quiet: "secures Q m \<Longrightarrow> secures Q (quiet m)"
  unfolding quiet_def by (intro secures_and_then secures_map_err secures_give)

lemmas active_established = save_profile_settles delete_profiles_settles copy_profiles_settles
  set_active_profile_settles dedupe_profiles_settles save_group_profile_settles
  delete_subscriptions_settles import_profiles_settles

lemma change_config_secures_active:
  "(\<And>c. ac_index_id (f c) = ac_index_id c) \<Longrightarrow> secures has_active (change_config f)"
  by (intro secures_active frames_change_config managed_integrity.change_config_keeps)

lemma mutation_secures_active: "secures has_active (mutation_op lower E X m)"
proof -
  have q: "secures has_active (quiet n)" if "settles has_active n" for n :: "('x, 'y) task"
    using that by (intro secures_quiet secures_settles)
  have f: "secures has_active (quiet n)" if "leaves_profiles n" "keeps db_ok n" for n :: "('x, 'y) task"
    using that by (intro secures_quiet secures_active)
  show ?thesis
    by (cases m; simp only: mutation_op.simps;
        (rule q, rule active_established
        | rule f, (rule framed)+, rule managed_integrity.move_profile_keeps managed_integrity.sort_profiles_keeps
            managed_integrity.save_subscription_keeps managed_integrity.save_routing_keeps
            managed_integrity.delete_routings_keeps managed_integrity.set_active_routing_keeps
            managed_integrity.rule_operations_keep managed_integrity.apply_prepared_config_template_import_keeps
            managed_integrity.settings_operations_keep
        | rule secures_quiet, rule apply_update_secures
        | rule change_config_secures_active, simp))
qed

section \<open>Operations that establish the configured routing\<close>

lemma stored_routing_ok: "i \<in> routing_keys t \<Longrightarrow> routing_ok (routing_keys t) i"
  by (simp add: routing_ok_def)

lemma ordered_routing_key: "db_ok t \<Longrightarrow> r \<in> set (ordered_routings t) \<Longrightarrow> rt_id r \<in> routing_keys t"
  using stored_keys[of rt_id "routing_rows t"]
  by (auto simp: ordered_routings_def read_routing_def routing_keys_def db_ok_def)

lemma first_of_member: "first_of xs = Some x \<Longrightarrow> x \<in> set xs"
  by (cases xs) (auto simp: first_of_def)

lemma routings_get_key:
  "db_ok (db s) \<Longrightarrow> routings_get i s = (Inr (Some r), t) \<Longrightarrow> rt_id r = i \<and> i \<in> routing_keys (db t)"
proof -
  assume ok: "db_ok (db s)" and g: "routings_get i s = (Inr (Some r), t)"
  then obtain q where q: "map_of (routing_rows (db s)) i = Some q" and r: "r = read_routing (db s) q" and t: "db t = db s"
    by (auto simp: routings_get_def statement_Inr)
  from map_of_SomeD[OF q] have "(i, q) \<in> set (routing_rows (db s))" .
  moreover have "rows_ok rt_id (routing_rows (db s))" using ok by (simp add: db_ok_def)
  ultimately have "rt_id q = i" "i \<in> routing_keys (db s)"
    by (force simp: rows_ok_def routing_keys_def keys_def)+
  with r t show ?thesis by (simp add: read_routing_def)
qed

lemma activate_routing_ok:
  "rt_id item \<in> routing_keys (db s) \<Longrightarrow> activate_routing item s = (Inr x, t) \<Longrightarrow> has_routing t"
  by (auto simp: activate_routing_def and_then_Inr map_err_Inr routings_set_active_def routings_exists_def
      app_state_set_active_routing_def statement_Inr set_routing_index_def get_config_def set_config_def
      configured_def stored_routing_ok split: if_splits)

lemma set_routing_index_ok:
  "i = [] \<or> i \<in> routing_keys (db s) \<Longrightarrow> set_routing_index i s = (Inr x, t) \<Longrightarrow> has_routing t"
  by (auto simp: and_then_Inr set_routing_index_def get_config_def set_config_def configured_def routing_ok_def)

lemma ensure_active_routing_settles: "settles has_routing ensure_active_routing"
proof -
  have first: "has_routing t" if s: "db_ok (db s)" "activate_first_routing s = (Inr x, t)" for s :: session and x t
  proof -
    obtain found u where f: "routings_first s = (Inr found, u)"
      and r: "(case found of Some item \<Rightarrow> activate_routing item
                | None \<Rightarrow> and_then (set_routing_index []) (\<lambda>_. give None)) u = (Inr x, t)"
      using s(2) by (auto simp: activate_first_routing_def and_then_Inr map_err_Inr)
    have u: "db u = db s" "found = first_of (ordered_routings (db s))"
      using f by (auto simp: routings_first_def statement_Inr)
    show ?thesis
    proof (cases found)
      case None with r show ?thesis by (auto simp: and_then_Inr intro: set_routing_index_ok)
    next
      case (Some item)
      then have "rt_id item \<in> routing_keys (db u)"
        using u s(1) by (auto intro: ordered_routing_key first_of_member)
      with Some r show ?thesis by (auto intro: activate_routing_ok)
    qed
  qed
  have "has_routing t" if s: "db_ok (db s)" "ensure_active_routing s = (Inr x, t)" for s :: session and x t
  proof -
    obtain active u where a: "routings_active s = (Inr active, u)"
      using s(2) by (auto simp: ensure_active_routing_def and_then_Inr map_err_Inr)
    have u: "db u = db s" "active = first_of (filter rt_is_active (ordered_routings (db s)))"
      using a by (auto simp: routings_active_def statement_Inr)
    show ?thesis
    proof (cases active)
      case (Some item)
      then have "rt_id item \<in> routing_keys (db u)"
        using u s(1) first_of_member[of "filter rt_is_active (ordered_routings (db s))" item]
        by (auto intro: ordered_routing_key)
      with Some s(2) a show ?thesis
        by (auto simp: ensure_active_routing_def and_then_Inr map_err_Inr intro: set_routing_index_ok)
    next
      case None
      let ?i = "trim (routing_index_id (routing_basic (config u)))"
      obtain found v where v: "configured_routing ?i u = (Inr found, v)"
        and r: "(case found of Some item \<Rightarrow> activate_routing item | None \<Rightarrow> activate_first_routing) v = (Inr x, t)"
        using s(2) a None by (auto simp: ensure_active_routing_def and_then_Inr map_err_Inr get_config_def)
      have "db_ok (db v)"
        using v u s(1) by (auto simp: configured_routing_def map_err_Inr routings_get_def statement_Inr split: if_splits)
      moreover have "rt_id item \<in> routing_keys (db v)" if "found = Some item" for item
        using v u s(1) that routings_get_key[of u ?i item v]
        by (auto simp: configured_routing_def map_err_Inr split: if_splits)
      ultimately show ?thesis using r first by (auto split: option.splits intro: activate_routing_ok)
    qed
  qed
  with managed_integrity.ensure_active_routing_keeps show ?thesis
    unfolding settles_def yields_def keeps_def by (metis snd_conv)
qed

lemma save_routing_settles: "settles has_routing (save_routing item)"
proof -
  have tail: "secures has_routing (reload_routing i)" for i
    by (intro secures_routing framed) (simp add: reload_routing_def routings_get_def kept)
  show ?thesis
    unfolding save_routing_def assign_routing_id_def routings_active_def routings_exists_def routings_max_sort_def
      case_prod_beta Let_def
    by (intro settles_prefix settles_suffix[OF ensure_active_routing_settles] tail kept integrity.repositories_keep
        managed_integrity.generators_keep managed_integrity.routing_steps_keep)
qed

lemma delete_routings_settles: "settles has_routing (delete_routings ids)"
  unfolding delete_routings_def
  by (intro settles_prefix settles_then_give ensure_active_routing_settles kept integrity.repositories_keep)

lemma routings_set_active_db: "routings_set_active i s = (Inr b, t) \<Longrightarrow> routing_keys (db t) = routing_keys (db s) \<and> (b \<longleftrightarrow> i \<in> routing_keys (db s))"
  by (auto simp: routings_set_active_def routings_exists_def app_state_set_active_routing_def and_then_Inr
      statement_Inr routing_keys_def split: if_splits)

lemma set_active_routing_settles: "settles has_routing (set_active_routing i)"
proof -
  have "has_routing t" if s: "set_active_routing i s = (Inr x, t)" for s :: session and x t
  proof -
    obtain u v where u: "routings_set_active i s = (Inr True, u)" and v: "(set_routing_index i :: (routing_manager_error, unit) task) u = (Inr (), v)"
      and r: "reload_routing i v = (Inr x, t)"
      using s by (simp add: set_active_routing_def and_then_Inr map_err_Inr split: if_splits)
        (elim exE conjE, rule that, assumption+)
    have "has_routing v" using set_routing_index_ok v routings_set_active_db[OF u] by blast
    moreover have "db t = db v" "config t = config v"
      using r by (auto simp: reload_routing_def and_then_Inr map_err_Inr routings_get_def statement_Inr split: option.splits)
    ultimately show ?thesis by simp
  qed
  with managed_integrity.set_active_routing_keeps show ?thesis
    unfolding settles_def yields_def keeps_def by (metis snd_conv)
qed

lemma routings_upsert_grows:
  "routings_upsert item s = (Inr x, t)
     \<Longrightarrow> routing_keys (db t) = insert (rt_id item) (routing_keys (db s)) \<and> config t = config s"
  by (auto simp: routings_upsert_def statement_Inr routing_keys_def)

lemma routings_upsert_secures: "secures has_routing (routings_upsert item)"
proof -
  have "has_routing t" if "has_routing s" "routings_upsert item s = (Inr x, t)" for s :: session and x t
    using that routings_upsert_grows[OF that(2)] by (auto simp: routing_ok_def)
  with integrity.routings_upsert_keeps show ?thesis
    unfolding secures_def yields_def keeps_def by (metis snd_conv)
qed

lemma normalize_routing_secures: "secures has_routing (normalize_routing_item item)" "secures has_routing (normalize_rule r)"
  by (intro secures_routing framed managed_integrity.normalize_routing_item_keeps)
     (intro secures_routing framed, simp add: normalize_rule_def kept managed_integrity.generators_keep)

lemma store_routing_secures: "secures has_routing (store_routing r)"
  unfolding store_routing_def
  by (intro secures_and_then secures_map_err normalize_routing_secures routings_upsert_secures secures_give)

lemma load_routing_secures: "secures has_routing (load_routing i)"
  by (intro secures_routing framed managed_integrity.load_routing_keeps)

lemma rule_operations_secure:
  "secures has_routing (save_rule i r)" "secures has_routing (delete_rules i ids)"
  "secures has_routing (move_rule i rule a p)"
proof -
  have up: "secures Q (give_up e)" for Q and e :: routing_manager_error
    by (simp add: secures_def)
  show "secures has_routing (save_rule i r)"
    unfolding save_rule_def
    by (intro secures_and_then load_routing_secures normalize_routing_secures store_routing_secures)
  show "secures has_routing (delete_rules i ids)"
    unfolding delete_rules_def Let_def
    by (intro secures_and_then load_routing_secures) (simp add: up store_routing_secures)
  show "secures has_routing (move_rule i rule a p)"
    unfolding move_rule_def
    by (intro secures_and_then load_routing_secures) (simp add: up store_routing_secures split: option.split)
qed

lemma reuse_routing_ok:
  assumes "rt_id item \<in> routing_keys (db s)" and "reuse_routing item s = (Inr x, t)"
  shows "has_routing t"
proof -
  obtain item' u where u: "rt_id item' \<in> routing_keys (db u)" and a: "\<exists>v y. activate_routing item' u = (Inr y, v) \<and> t = v"
    using assms
    by (cases "rt_enabled item") (auto simp: reuse_routing_def and_then_Inr map_err_Inr dest!: routings_upsert_grows)
  then show ?thesis by (auto intro: activate_routing_ok)
qed

lemma store_template_item_ok:
  "yields (\<lambda>s. set ids \<subseteq> routing_keys (db s)) (store_template_item item (ids, m))
     (\<lambda>(ids', _) s. set ids' \<subseteq> routing_keys (db s) \<and> ids' \<noteq> [])"
proof -
  have "set ids' \<subseteq> routing_keys (db t) \<and> ids' \<noteq> []"
    if s: "set ids \<subseteq> routing_keys (db s)" "store_template_item item (ids, m) s = (Inr (ids', m'), t)" for s :: session and ids' m' t
  proof -
    obtain r u where n: "(normalize_routing_item (item\<lparr>rt_sort := i32_add m DEFAULT_ROUTING_SORT_STEP\<rparr>)
          :: (routing_manager_error, routing_item) task) s = (Inr r, u)"
      and w: "routings_upsert r u = (Inr (), t)" and ids': "ids' = ids @ [rt_id r]"
      using s(2) by (simp add: store_template_item_def Let_def and_then_Inr map_err_Inr) (elim exE conjE, rule that, assumption+)
    have "routing_keys (db u) = routing_keys (db s)"
      using frames_db[OF normalize_routing_frame(2) n, of routing_keys] .
    with s(1) routings_upsert_grows[OF w] ids' show ?thesis by auto
  qed
  then show ?thesis by (auto simp: yields_def)
qed

lemma store_template_items_ok:
  "yields (\<lambda>s. set ids \<subseteq> routing_keys (db s) \<and> (items = [] \<longrightarrow> ids \<noteq> []))
     (fold_task store_template_item items (ids, m))
     (\<lambda>(ids', _) s. set ids' \<subseteq> routing_keys (db s) \<and> ids' \<noteq> [])"
proof (induction items arbitrary: ids m)
  case Nil then show ?case by (simp add: yields_def)
next
  case (Cons item items)
  have ne: "((item # items = []) \<longrightarrow> ids \<noteq> []) \<longleftrightarrow> True" by simp
  have "yields (\<lambda>s. set ids \<subseteq> routing_keys (db s))
     (and_then (store_template_item item (ids, m)) (\<lambda>b. fold_task store_template_item items b))
     (\<lambda>(ids', _) s. set ids' \<subseteq> routing_keys (db s) \<and> ids' \<noteq> [])"
  proof (rule yields_and_then[OF store_template_item_ok], goal_cases)
    case (1 b)
    show ?case using Cons.IH[of "fst b" "snd b"] by (cases b) (auto elim: yields_pre)
  qed
  then show ?case unfolding ne by simp
qed

lemma store_template_ok: "store_template items s = (Inr x, t) \<Longrightarrow> has_routing t"
proof -
  assume s: "store_template items s = (Inr x, t)"
  obtain m u where m: "routings_max_sort s = (Inr m, u)" and ne: "items \<noteq> []"
    and r: "and_then (fold_task store_template_item items ([], m)) (\<lambda>(ids, _).
        and_then (routing_db (routings_set_active (ids ! 0))) (\<lambda>_.
        and_then (set_routing_index (ids ! 0)) (\<lambda>_.
          give \<lparr>tr_routing_ids = ids, tr_active_routing_id = Some (ids ! 0),
                tr_reused_existing_routing = False\<rparr>))) u = (Inr x, t)"
    using s by (auto simp: store_template_def and_then_Inr map_err_Inr split: if_splits)
  obtain ids m' v w b where f: "fold_task store_template_item items ([], m) u = (Inr (ids, m'), v)"
    and a: "routings_set_active (ids ! 0) v = (Inr b, w)" and i: "(set_routing_index (ids ! 0) :: (routing_manager_error, unit) task) w = (Inr (), t)"
    using r by (simp add: and_then_Inr map_err_Inr case_prod_beta split_paired_Ex)
      (elim exE conjE, rule that, simp_all)
  have "set ids \<subseteq> routing_keys (db v)" "ids \<noteq> []"
    using yieldsD[OF store_template_items_ok _ f] ne by auto
  then have "ids ! 0 \<in> routing_keys (db w)"
    using routings_set_active_db[OF a] nth_mem[of 0 ids] by auto
  with set_routing_index_ok i show ?thesis by blast
qed

lemma apply_template_settles: "settles has_routing (apply_prepared_config_template pt)"
proof -
  have "has_routing t" if s: "db_ok (db s)" "apply_prepared_config_template pt s = (Inr x, t)" for s :: session and x t
  proof -
    obtain u where l: "db u = db s"
      and r: "(case Option.bind (version_prefix pt)
                (\<lambda>p. find (\<lambda>item. starts_with (rt_remarks item) p) (ordered_routings (db s))) of
              Some item \<Rightarrow> reuse_routing item | None \<Rightarrow> store_template (template_items pt)) u = (Inr x, t)"
      using s(2)
      by (simp add: apply_prepared_config_template_def and_then_Inr map_err_Inr routings_list_def statement_Inr)
        (elim exE conjE, rule that[rotated], assumption, simp)
    show ?thesis
    proof (cases "Option.bind (version_prefix pt) (\<lambda>p. find (\<lambda>item. starts_with (rt_remarks item) p) (ordered_routings (db s)))")
      case None with r show ?thesis by (auto intro: store_template_ok)
    next
      case (Some item)
      then have "rt_id item \<in> routing_keys (db u)"
        using l s(1) by (auto simp: bind_eq_Some_conv dest!: find_member intro: ordered_routing_key)
      with Some r show ?thesis by (auto intro: reuse_routing_ok)
    qed
  qed
  with managed_integrity.apply_prepared_config_template_keeps show ?thesis
    unfolding settles_def yields_def keeps_def by (metis snd_conv)
qed

lemma template_import_settles: "settles has_routing (apply_prepared_config_template_import t)"
  using apply_template_settles[of "pc_routing t"]
  unfolding settles_def yields_def apply_prepared_config_template_import_def Let_def
  by (auto split: prod.splits sum.splits) (metis session.select_convs(1) session.surjective session.update_convs(2))+

lemma mutation_secures_routing: "secures has_routing (mutation_op lower E X m)"
proof -
  have q: "secures has_routing (quiet n)" if "settles has_routing n" for n :: "('x, 'y) task"
    using that by (intro secures_quiet secures_settles)
  have f: "secures has_routing (mutation_op lower E X m)" if "leaves_routings (mutation_op lower E X m)"
    using that by (intro secures_routing managed_integrity.mutation_op_keeps)
  have l: "leaves_routings (quiet n)" if "leaves_routings n" for n :: "('x, 'y) task"
    using that unfolding quiet_def by (intro framed)
  have c: "leaves_routings (change_config g)" if "\<And>c. configured (g c) = configured c" for g
    using that by (rule frames_change_config)
  show ?thesis
  proof (cases m)
    case (Save_routing r) then show ?thesis by (simp add: q save_routing_settles)
  next
    case (Delete_routings ids) then show ?thesis by (simp add: q delete_routings_settles)
  next
    case (Set_active_routing i) then show ?thesis by (simp add: q set_active_routing_settles)
  next
    case (Import_template t) then show ?thesis by (simp add: q template_import_settles)
  next
    case (Save_rule i r) then show ?thesis by (simp add: secures_quiet rule_operations_secure)
  next
    case (Delete_rules i ids) then show ?thesis by (simp add: secures_quiet rule_operations_secure)
  next
    case (Move_rule i r a p) then show ?thesis by (simp add: secures_quiet rule_operations_secure)
  qed (rule f, simp only: mutation_op.simps, (rule l, intro framed | rule c, simp add: configured_def))+
qed

section \<open>The states between mutations\<close>

definition settings_stored :: "session \<Rightarrow> bool" where
  "settings_stored s \<longleftrightarrow>
     settings_row (db s) = Some (CURRENT_SCHEMA_VERSION, settings_from_app_config (config s))"

definition state_stored :: "session \<Rightarrow> bool" where
  "state_stored s \<longleftrightarrow> app_state (db s) = state_of_config (config s)"

lemma settings_version_from_config [simp]: "settings_version (settings_from_app_config c) = CURRENT_SCHEMA_VERSION"
  by (simp add: settings_from_app_config_def)

lemma transaction_call_Inr: "transaction_call s = (Inr (), t) \<Longrightarrow> db t = db s \<and> config t = config s"
  by (auto simp: transaction_call_def statement_Inr)

lemma save_with_state_Inr:
  "settings_save_with_state p a s = (Inr x, t)
     \<Longrightarrow> db t = (db s)\<lparr>app_state := a, settings_row := Some (CURRENT_SCHEMA_VERSION, p)\<rparr> \<and> config t = config s"
  by (auto simp: settings_save_with_state_def validated_payload_def save_settings_on_def save_state_on_def
      and_then_Inr statement_Inr split: if_splits)

lemma store_config_Inr:
  assumes "store_config s = (Inr x, t)"
  shows "db t = (db s)\<lparr>app_state := state_of_config (config s),
           settings_row := Some (CURRENT_SCHEMA_VERSION, settings_from_app_config (config s))\<rparr>
         \<and> config t = config s"
  using assms by (auto simp: store_config_def and_then_Inr get_config_def dest!: save_with_state_Inr transaction_call_Inr)

text \<open>A mutation ends as it began or with the operation done and its configuration stored.\<close>

lemma mutate_cases:
  assumes "mutate m s = (r, t)"
  obtains (failed) e where "r = Inl e" "db t = db s" "config t = config s"
  | (committed) x u where "r = Inr x" "\<exists>s'. db s' = db s \<and> config s' = config s \<and> m s' = (Inr x, u)"
      "db t = (db u)\<lparr>app_state := state_of_config (config u),
         settings_row := Some (CURRENT_SCHEMA_VERSION, settings_from_app_config (config u))\<rparr>" "config t = config u"
proof (cases "guarded m s")
  case (Pair v w)
  show thesis
  proof (cases v)
    case (Inl e)
    with assms Pair failed show thesis by (auto simp: mutate_def)
  next
    case (Inr x)
    with Pair obtain s' u where s': "transaction_call s = (Inr (), s')" and u: "m s' = (Inr x, u)"
      and w: "store_config u = (Inr (), w)"
      by (auto simp: guarded_def and_then_Inr map_err_Inr)
    show thesis
      using committed[of x u] assms Pair Inr transaction_call_Inr[OF s'] u store_config_Inr[OF w]
      by (auto simp: mutate_def)
  qed
qed

lemma settings_of_stored_form: "settings_from_app_config (stored_form st c) = settings_from_app_config c"
proof -
  have "Option.bind (opt_filter (\<lambda>k. key_code k \<noteq> None) v) chord_of_key_event = Option.bind v chord_of_key_event" for v
    by (cases v) (auto simp: opt_filter_def chord_of_key_event_def)
  then show ?thesis by (simp add: settings_from_app_config_def stored_form_def network_settings_of_def)
qed

lemma state_of_stored_form:
  "active_profile_id st \<noteq> Some [] \<Longrightarrow> active_routing_id st \<noteq> Some [] \<Longrightarrow> state_of_config (stored_form st c) = st"
  by (cases "active_profile_id st"; cases "active_routing_id st")
    (auto simp: state_of_config_def stored_form_def some_if_nonempty_def)

lemma give_checked:
  "(case r of Inl e \<Rightarrow> give_up (f e) | Inr c \<Rightarrow> give c) s = (Inr x, t) \<longleftrightarrow> r = Inr x \<and> t = s"
  by (auto split: sum.split)

lemma load_config_Inr:
  assumes "load_config s = (Inr c, t)"
  obtains settings where
    "settings = (case settings_row (db s) of None \<Rightarrow> default_app_settings | Some (v, p) \<Rightarrow> p)"
    "app_config_from_settings settings (app_state (db s)) = Inr c"
    "db t = (db s)\<lparr>settings_row := Some (CURRENT_SCHEMA_VERSION, settings)\<rparr>"
proof -
  obtain settings u st v where u: "settings_load s = (Inr settings, u)" and v: "app_state_load u = (Inr st, v)"
    and r: "\<exists>w. settings_save_with_state settings st v = (Inr (), w) \<and> t = w \<and> app_config_from_settings settings st = Inr c"
    using assms by (simp add: load_config_def and_then_Inr map_err_Inr give_checked) (elim exE conjE, rule that, auto)
  have "db u = db s" "settings = (case settings_row (db s) of None \<Rightarrow> default_app_settings | Some (v, p) \<Rightarrow> p)"
    using u by (auto simp: settings_load_def and_then_Inr statement_Inr split: option.splits prod.splits if_splits)
  moreover have "db v = db u" "st = app_state (db u)"
    using v by (auto simp: app_state_load_def statement_Inr)
  ultimately show thesis
    using r that[of settings] save_with_state_Inr by (auto dest!: save_with_state_Inr)
qed

lemma default_settings_kept:
  assumes "app_config_from_settings default_app_settings st = Inr c"
  shows "settings_from_app_config c = default_app_settings"
proof -
  have m: "system_proxy_mode_from_str ''forcedClear'' = Inr Sp_ForcedClear" "traffic_mode_from_str ''rule'' = Inr Tm_Rule"
    by code_simp+
  have "inbound_settings_of (in_item_of_settings i) = i" "dns_settings_of (simple_dns_of_settings d) = d"
    "core_settings_of (core_basic_of_settings k) = k" "speed_test_settings_of (speed_test_of_settings v) = v" for i d k v
    by (simp_all add: inbound_settings_of_def in_item_of_settings_def dns_settings_of_def simple_dns_of_settings_def
        core_settings_of_def core_basic_of_settings_def speed_test_settings_of_def speed_test_of_settings_def)
  moreover have "settings_version default_app_settings = CURRENT_SCHEMA_VERSION" "shortcuts default_app_settings = None"
    "map (inbound_settings_of \<circ> in_item_of_settings) (ns_inbounds (network_part default_app_settings)) = ns_inbounds (network_part default_app_settings)"
    "sp_mode (ns_system_proxy (network_part default_app_settings)) = ''forcedClear''"
    "ps_traffic_mode (proxy_part default_app_settings) = ''rule''"
    using calculation by (simp_all add: default_app_settings_def default_network_settings_def)
  ultimately show ?thesis
    using assms m
    by (auto simp: app_config_from_settings_def settings_from_app_config_def network_settings_of_def Let_def
        intro!: app_settings.equality network_settings.equality)
qed

lemma load_config_stores:
  assumes l: "load_config s = (Inr c, t)"
    and row: "settings_row (db s) = None \<or> (\<exists>v c0. settings_row (db s) = Some (v, settings_from_app_config c0))"
    and ids: "active_profile_id (app_state (db s)) \<noteq> Some []" "active_routing_id (app_state (db s)) \<noteq> Some []"
  shows "settings_stored (t\<lparr>config := c\<rparr>)" and "state_stored (t\<lparr>config := c\<rparr>)"
proof -
  obtain settings where settings:
    "settings = (case settings_row (db s) of None \<Rightarrow> default_app_settings | Some (v, p) \<Rightarrow> p)"
    and c: "app_config_from_settings settings (app_state (db s)) = Inr c"
    and t: "db t = (db s)\<lparr>settings_row := Some (CURRENT_SCHEMA_VERSION, settings)\<rparr>"
    using load_config_Inr[OF l] .
  have "settings_from_app_config c = settings"
    using row settings c default_settings_kept
    by (auto simp: settings_stored_form settings_of_stored_form)
  then show "settings_stored (t\<lparr>config := c\<rparr>)" using t by (simp add: settings_stored_def)
  have "state_of_config c = app_state (db s)"
    using c ids
    by (cases "active_profile_id (app_state (db s))"; cases "active_routing_id (app_state (db s))")
      (auto simp: app_config_from_settings_def state_of_config_def some_if_nonempty_def Let_def split: sum.splits)
  then show "state_stored (t\<lparr>config := c\<rparr>)" using t by (simp add: state_stored_def)
qed

definition consistent :: "session \<Rightarrow> bool" where
  "consistent s \<longleftrightarrow>
     db_ok (db s) \<and> ids_plain (db s) \<and> settings_current (db s) \<and> settings_stored s \<and> state_stored s
     \<and> has_active s"

lemma state_ids_nonempty:
  "state_stored s \<Longrightarrow> active_profile_id (app_state (db s)) \<noteq> Some []"
  "state_stored s \<Longrightarrow> active_routing_id (app_state (db s)) \<noteq> Some []"
  by (auto simp: state_stored_def state_of_config_def some_if_nonempty_def)

lemma consistent_cong:
  "db t = db s \<Longrightarrow> config t = config s \<Longrightarrow> consistent t \<longleftrightarrow> consistent s"
  by (simp add: consistent_def settings_stored_def state_stored_def)

lemma state_stored_routing: "db_ok (db s) \<Longrightarrow> state_stored s \<Longrightarrow> has_routing s"
  unfolding db_ok_def state_stored_def state_of_config_def some_if_nonempty_def known_or_null_def routing_ok_def
    configured_def routing_keys_def
  by (cases "routing_index_id (routing_basic (config s)) = []") simp_all

lemma consistent_routing: "consistent s \<Longrightarrow> has_routing s"
  by (auto simp: consistent_def intro: state_stored_routing)

lemma loaded_ids:
  assumes "load_config s = (Inr c, t)"
  shows "ac_index_id c = unwrap_or (active_profile_id (app_state (db s))) []"
    and "profile_keys (db t) = profile_keys (db s)" and "app_state (db t) = app_state (db s)"
proof -
  obtain settings where c: "app_config_from_settings settings (app_state (db s)) = Inr c"
    and t: "db t = (db s)\<lparr>settings_row := Some (CURRENT_SCHEMA_VERSION, settings)\<rparr>"
    using load_config_Inr[OF assms] .
  show "ac_index_id c = unwrap_or (active_profile_id (app_state (db s))) []"
    using c by (auto simp: app_config_from_settings_def Let_def split: sum.splits)
  show "profile_keys (db t) = profile_keys (db s)" "app_state (db t) = app_state (db s)" using t by simp_all
qed

lemma reachable_settings_row:
  "consistent s \<Longrightarrow> settings_row (db s) = None \<or> (\<exists>v c0. settings_row (db s) = Some (v, settings_from_app_config c0))"
  by (auto simp: consistent_def settings_stored_def)

lemma mutation_consistent: 
  assumes s: "consistent s"
  shows "consistent (run_mutation lower E X m s)"
proof (cases "mutate (mutation_op lower E X m) s")
  case (Pair r t)
  have tables: "db_ok (db t)" "ids_plain (db t)" "settings_current (db t)"
    using s keepsD[OF managed_integrity.mutate_keeps[OF managed_integrity.mutation_op_keeps] _ Pair]
      keepsD[OF managed_identifiers.mutate_keeps[OF managed_identifiers.mutation_op_keeps] _ Pair]
      keepsD[OF managed_versions.mutate_keeps[OF managed_versions.mutation_op_keeps] _ Pair]
    by (simp_all add: consistent_def)
  from Pair show ?thesis
  proof (cases rule: mutate_cases)
    case (failed e)
    with s Pair consistent_cong[of t s] show ?thesis by (simp add: run_mutation_def)
  next
    case (committed x u)
    then obtain s' where s': "db s' = db s" "config s' = config s" "mutation_op lower E X m s' = (Inr x, u)" by blast
    then have "has_active u"
      using mutation_secures_active[of lower E X m] s unfolding secures_def yields_def consistent_def by metis
    with committed(3,4) tables Pair show ?thesis
      by (simp add: consistent_def run_mutation_def settings_stored_def state_stored_def)
  qed
qed

lemma reachable_consistent: "config_reachable s \<Longrightarrow> consistent s"
proof (induction rule: config_reachable.induct)
  case (config_start s c t)
  have tables: "db_ok (db t)" "ids_plain (db t)" "settings_current (db t)"
    using config_start keepsD[OF managed_integrity.load_config_keeps _ config_start(2)]
      keepsD[OF managed_identifiers.load_config_keeps _ config_start(2)]
      keepsD[OF managed_versions.load_config_keeps _ config_start(2)] empty_db_ok
    by (auto simp: ids_plain_def settings_current_def empty_tables_def)
  have "settings_stored (t\<lparr>config := c\<rparr>)" "state_stored (t\<lparr>config := c\<rparr>)"
    using load_config_stores[OF config_start(2)] config_start(1) by (simp_all add: empty_tables_def)
  with tables loaded_ids[OF config_start(2)] config_start(1) show ?case
    by (simp add: consistent_def active_ok_def empty_tables_def profile_keys_def)
next
  case (config_restart s ts fs c t pid)
  let ?s = "s\<lparr>faults := fs, clock := ts\<rparr>"
  let ?t = "t\<lparr>config := c\<rparr>"
  have s: "consistent ?s" using config_restart by (subst consistent_cong[of _ s]) simp_all
  have tables: "db_ok (db t)" "ids_plain (db t)" "settings_current (db t)"
    using s keepsD[OF managed_integrity.load_config_keeps _ config_restart(2)]
      keepsD[OF managed_identifiers.load_config_keeps _ config_restart(2)]
      keepsD[OF managed_versions.load_config_keeps _ config_restart(2)]
    by (simp_all add: consistent_def)
  have st: "state_stored ?s" using s by (simp add: consistent_def)
  have stored: "settings_stored ?t" "state_stored ?t"
    using load_config_stores[OF config_restart(2) reachable_settings_row[OF s] state_ids_nonempty[OF st]] .
  have "ac_index_id c = ac_index_id (config s)"
    using loaded_ids(1)[OF config_restart(2)] st
    by (auto simp: state_stored_def state_of_config_def some_if_nonempty_def)
  then have "consistent ?t"
    using s tables stored loaded_ids(2)[OF config_restart(2)] by (simp add: consistent_def)
  then show ?case by (subst consistent_cong[of _ ?t]) simp_all
next
  case (config_mutation s lower E X m ts fs)
  then show ?case by (intro mutation_consistent) (subst consistent_cong[of _ s], simp_all)
qed

end
