(* ===== verification/OrderProps.thy ===== *)
theory OrderProps
  imports ActiveProps
begin

text \<open>
  The order of profiles: what renumbering stores, and that sorting and moving leave the list in
  the order they computed. Moving a profile by numbers agrees with moving a rule in its list.
\<close>

section \<open>Numbers and order\<close>

definition sorts :: "tables \<Rightarrow> string \<Rightarrow> i32" where
  "sorts t i = px_sort (joined_ex t i)"

lemma ordered_profiles_sorts: "ordered_profiles t ps = sort_key (\<lambda>p. (sorts t (index_id p), index_id p)) ps"
  by (simp add: ordered_profiles_def sorts_def)

lemma sort_key_determined:
  assumes "set ys = set xs" "distinct ys" "distinct xs" "sorted (map f ys)" "inj_on f (set xs)"
  shows "sort_key f xs = ys"
proof -
  have "map f (sort_key f xs) = map f ys"
    using assms by (intro sorted_distinct_set_unique) (auto simp: distinct_map)
  then show ?thesis
    using assms by (auto dest: inj_on_map_eq_map[THEN iffD1, rotated])
qed

lemma set_sort_effect:
  assumes ok: "rows_ok px_index_id (profile_ex_rows (db s))"
    and s: "profile_ex_set_sort i n s = (Inr e, t)"
  shows "profile_rows (db t) = profile_rows (db s)"
    and "sorts (db t) = (sorts (db s))(i := n)"
    and "rows_ok px_index_id (profile_ex_rows (db t))"
proof -
  have key: "map_of (profile_ex_rows (db s)) k = Some x \<Longrightarrow> px_index_id x = k" for k x
    using ok map_of_SomeD by (fastforce simp: rows_ok_def)
  show "profile_rows (db t) = profile_rows (db s)" "sorts (db t) = (sorts (db s))(i := n)"
    "rows_ok px_index_id (profile_ex_rows (db t))"
    using s ok
    by (auto simp: profile_ex_set_sort_def profile_ex_update_def and_then_Inr map_err_Inr profile_exs_ensure_def
        profile_exs_get_def profile_exs_upsert_def statement_Inr sorts_def joined_ex_def fun_eq_iff update_conv'
        rows_ok_update key Let_def split: option.splits if_splits)
qed

lemma renumber_from_effect:
  assumes "rows_ok px_index_id (profile_ex_rows (db s))" and "distinct (map index_id ps)"
    and "for_each (\<lambda>(offset, p). and_then (profile_ex_set_sort (index_id p) (sort_at offset)) (\<lambda>_. give ()))
           (zip [a..<a + length ps] ps) s = (Inr (), t)"
  shows "profile_rows (db t) = profile_rows (db s) \<and> rows_ok px_index_id (profile_ex_rows (db t))
    \<and> (\<forall>n < length ps. sorts (db t) (index_id (ps ! n)) = sort_at (a + n))
    \<and> (\<forall>k. k \<notin> index_id ` set ps \<longrightarrow> sorts (db t) k = sorts (db s) k)"
  using assms
proof (induction ps arbitrary: a s)
  case Nil then show ?case by simp
next
  case (Cons p ps)
  have z: "zip [a..<a + length (p # ps)] (p # ps) = (a, p) # zip [Suc a..<Suc a + length ps] ps"
    by (simp add: upt_conv_Cons del: upt_Suc)
  obtain e u where e: "profile_ex_set_sort (index_id p) (sort_at a) s = (Inr e, u)"
    and r: "for_each (\<lambda>(offset, p). and_then (profile_ex_set_sort (index_id p) (sort_at offset)) (\<lambda>_. give ()))
           (zip [Suc a..<Suc a + length ps] ps) u = (Inr (), t)"
    using Cons.prems(3) unfolding z by (auto simp: for_each_Cons_Inr and_then_Inr)
  note u = set_sort_effect[OF Cons.prems(1) e]
  have i: "profile_rows (db t) = profile_rows (db u) \<and> rows_ok px_index_id (profile_ex_rows (db t))
    \<and> (\<forall>n < length ps. sorts (db t) (index_id (ps ! n)) = sort_at (Suc a + n))
    \<and> (\<forall>k. k \<notin> index_id ` set ps \<longrightarrow> sorts (db t) k = sorts (db u) k)"
    using Cons.IH[OF u(3) _ r] Cons.prems(2) by simp
  have p: "index_id p \<notin> index_id ` set ps" using Cons.prems(2) by simp
  have "sorts (db t) (index_id ((p # ps) ! n)) = sort_at (a + n)" if "n < length (p # ps)" for n
    using that i p u(2) by (cases n) auto
  with i u show ?case by auto
qed

lemma renumber_effect:
  assumes "rows_ok px_index_id (profile_ex_rows (db s))" and "distinct (map index_id ps)"
    and "renumber ps s = (Inr (), t)"
  shows "profile_rows (db t) = profile_rows (db s)" and "rows_ok px_index_id (profile_ex_rows (db t))"
    and "\<And>n. n < length ps \<Longrightarrow> sorts (db t) (index_id (ps ! n)) = sort_at n"
  using renumber_from_effect[of s ps 0 t] assms by (simp_all add: renumber_def)

lemma sort_at_small: "n < 214748364 \<Longrightarrow> sort_at n = (int n + 1) * 10"
  by (simp add: sort_at_def i32_try_from_def i32_add_def i32_mul_def DEFAULT_PROFILE_SORT_STEP_def)

text \<open>The list of profiles of a subscription, and of all.\<close>

definition listed :: "tables \<Rightarrow> string option \<Rightarrow> profile_item list" where
  "listed t sub = ordered_profiles t (of_subscription sub (rows_of (profile_rows t)))"

lemma listed_with_ex: "map fst (profiles_with_ex t sub) = listed t sub"
  by (simp add: profiles_with_ex_def listed_def comp_def)

lemma rows_ids: "db_ok t \<Longrightarrow> map index_id (rows_of (profile_rows t)) = keys (profile_rows t)"
  by (auto simp: db_ok_def rows_ok_def rows_of_def keys_def)

lemma of_subscription_filter: "\<exists>P. of_subscription sub ps = filter P ps"
  by (auto simp: of_subscription_def split: option.split intro: exI[of _ "\<lambda>_. True"])

lemma shown_distinct: "db_ok t \<Longrightarrow> distinct (map index_id (of_subscription sub (rows_of (profile_rows t))))"
proof -
  assume ok: "db_ok t"
  then have "distinct (map index_id (rows_of (profile_rows t)))"
    by (simp add: rows_ids) (simp add: db_ok_def rows_ok_def)
  then show ?thesis using of_subscription_filter[of sub "rows_of (profile_rows t)"] by (auto simp: distinct_map_filter)
qed

lemma listed_distinct: "db_ok t \<Longrightarrow> distinct (map index_id (listed t sub))"
  using shown_distinct[of t sub]
  by (simp add: listed_def ordered_profiles_sorts distinct_map)

text \<open>The rows determine the list through its numbers.\<close>

lemma listed_determined:
  assumes ok: "db_ok t" and rows: "profile_rows u = profile_rows t" and ps: "set ps = set (listed t sub)"
    and d: "distinct ps" and mono: "sorted (map (\<lambda>p. sorts u (index_id p)) ps)"
    and strict: "distinct (map (\<lambda>p. sorts u (index_id p)) ps)"
  shows "listed u sub = ps"
proof -
  let ?rows = "of_subscription sub (rows_of (profile_rows t))"
  have set: "set ps = set ?rows" using ps by (simp add: listed_def ordered_profiles_def)
  have "sorted (map (\<lambda>p. (sorts u (index_id p), index_id p)) ps)"
    using mono strict
  proof (induction ps)
    case (Cons p ps)
    then have "sorts u (index_id p) < sorts u (index_id q)" if "q \<in> set ps" for q
      using that by (force simp: order.order_iff_strict)
    with Cons show ?case by (simp add: less_eq_prod_def)
  qed simp
  moreover have "inj_on (\<lambda>p. (sorts u (index_id p), index_id p)) (set ?rows)" "distinct ?rows"
    using shown_distinct[OF ok, of sub] by (auto simp: distinct_map inj_on_def)
  ultimately show ?thesis
    using set d by (simp add: listed_def rows ordered_profiles_sorts sort_key_determined)
qed

lemma list_profiles_shows:
  assumes "list_profiles lower sub None s = (Inr items, t)"
  shows "map li_profile items = listed (db s) sub" and "db t = db s"
  using assms
  by (auto simp: list_profiles_def and_then_Inr map_err_Inr get_config_def profiles_list_with_profile_ex_def
      server_stats_list_def statement_Inr trimmed_option_def opt_filter_def Let_def comp_def case_prod_beta
      to_list_item_def listed_with_ex[symmetric])

lemma sort_profile_pairs_set: "set (sort_profile_pairs lower k asc items) = set items"
  "distinct items \<Longrightarrow> distinct (sort_profile_pairs lower k asc items)"
  by (auto simp: sort_profile_pairs_def sort_ascending_def valid_first_def Let_def split: profile_sort_key.splits)

lemma sort_at_mono:
  assumes "length ps < 214748364" and "\<And>n. n < length ps \<Longrightarrow> f (ps ! n) = sort_at n"
  shows "sorted (map f ps)" and "distinct (map f ps)"
proof -
  have f: "f (ps ! n) = (int n + 1) * 10" if "n < length ps" for n
    using assms that by (simp add: sort_at_small)
  show "sorted (map f ps)" by (auto simp: sorted_iff_nth_mono f)
  show "distinct (map f ps)" by (auto simp: distinct_conv_nth f)
qed

lemma distinct_pairs: "db_ok t \<Longrightarrow> distinct (profiles_with_ex t sub)"
  using listed_distinct[of t sub] by (simp add: listed_with_ex[symmetric] distinct_map)

lemma renumbered_list:
  assumes ok: "db_ok (db s)" and ps: "set ps = set (listed (db s) sub)" and d: "distinct ps"
    and small: "length ps < 214748364" and r: "renumber ps s = (Inr (), t)"
  shows "listed (db t) sub = ps"
proof -
  have ex: "rows_ok px_index_id (profile_ex_rows (db s))" using ok by (simp add: db_ok_def)
  have di: "distinct (map index_id ps)"
    using listed_distinct[OF ok, of sub] ps d by (simp add: distinct_map)
  note e = renumber_effect[OF ex di r]
  show ?thesis
    using sort_at_mono[OF small, of "\<lambda>p. sorts (db t) (index_id p)"] e
    by (intro listed_determined[OF ok e(1) ps d]) simp_all
qed

lemma sort_profiles_listed:
  assumes ok: "db_ok (db s)" and small: "length (profile_rows (db s)) < 214748364"
    and r: "sort_profiles lower sub k asc s = (Inr items, t)"
  shows "listed (db t) sub = map fst (sort_profile_pairs lower k asc (profiles_with_ex (db s) sub))"
    and "map li_profile items = listed (db t) sub"
proof -
  let ?ps = "map fst (sort_profile_pairs lower k asc (profiles_with_ex (db s) sub))"
  obtain u v where u: "db u = db s" and v: "renumber ?ps u = (Inr (), v)"
    and l: "list_profiles lower sub None v = (Inr items, t)"
    using r by (simp add: sort_profiles_def and_then_Inr map_err_Inr profiles_list_with_profile_ex_def statement_Inr)
      (elim exE conjE, rule that[rotated], assumption+, simp)
  have set: "set ?ps = set (listed (db s) sub)"
    using sort_profile_pairs_set(1) by (simp add: listed_with_ex[symmetric])
  have inj: "inj_on fst (set (profiles_with_ex (db s) sub))"
    using listed_distinct[OF ok, of sub]
    by (auto simp: listed_with_ex[symmetric] distinct_map intro: inj_on_imageI2[of index_id fst])
  have d: "distinct ?ps"
    using distinct_pairs[OF ok, of sub] sort_profile_pairs_set inj by (simp add: distinct_map)
  have "length ?ps = length (listed (db s) sub)"
    using d listed_distinct[OF ok, of sub] set by (metis distinct_card distinct_map)
  also have "\<dots> \<le> length (profile_rows (db s))"
    using of_subscription_filter[of sub "rows_of (profile_rows (db s))"]
    by (auto simp: listed_def ordered_profiles_def rows_of_def intro: order.trans[OF length_filter_le])
  finally have "length ?ps < 214748364" using small by (rule le_less_trans)
  then have "listed (db v) sub = ?ps"
    using renumbered_list[of u ?ps sub v] ok set d v u by simp
  then show "listed (db t) sub = ?ps" "map li_profile items = listed (db t) sub"
    using list_profiles_shows[OF l] by simp_all
qed

section \<open>Moving\<close>

lemma insert_sorted:
  fixes f :: "'a \<Rightarrow> 'b :: linorder"
  assumes "sorted (map f (A @ B))" "distinct (map f (A @ B))"
    and "\<And>y. y \<in> set A \<Longrightarrow> f y < f x" "\<And>y. y \<in> set B \<Longrightarrow> f x < f y"
  shows "sorted (map f (A @ x # B)) \<and> distinct (map f (A @ x # B))"
  using assms by (fastforce simp: sorted_append)

text \<open>Where the element of an index goes when it is taken out and put before another one.\<close>

definition landing :: "nat \<Rightarrow> nat \<Rightarrow> nat" where
  "landing index j = (if index < j then j - 1 else j)"

lemma move_in_list_landing:
  assumes "index < length xs"
  shows "move_in_list index j xs = insert_at (landing index j) (xs ! index) (remove_at index xs)"
  using assms
  by (auto simp: move_in_list_def landing_def insert_at_def remove_at_def id_take_nth_drop[symmetric] min_def)

lemma remove_at_nth:
  "index < length xs \<Longrightarrow> k < length xs - 1 \<Longrightarrow> remove_at index xs ! k = xs ! (if k < index then k else Suc k)"
  by (auto simp: remove_at_def nth_append min_def)

lemma i32_small: "- 2147483648 \<le> x \<Longrightarrow> x < 2147483648 \<Longrightarrow> (x + 2147483648) mod 4294967296 - 2147483648 = (x::int)"
  by simp

lemma moved_sort_between:
  assumes m: "moved_sort action position index count = Some m" and j: "moved_index index count action position = Some j"
    and i: "index < count" "count < 214748362" and p: "unwrap_or position 0 < 214748362" and k: "k < count - 1"
  shows "k < landing index j \<Longrightarrow> (if k < index then int k + 1 else int k + 2) * 10 < m"
    and "landing index j \<le> k \<Longrightarrow> m < (if k < index then int k + 1 else int k + 2) * 10"
  using assms
  by (cases action; auto simp: moved_sort_def moved_index_def landing_def position_step_def i32_try_from_def
      i32_add_def i32_mul_def DEFAULT_PROFILE_SORT_STEP_def i32_small split: if_splits)+

lemma moved_sort_none:
  assumes "moved_sort action position index count = None" and "moved_index index count action position = Some j"
    and "index < count"
  shows "landing index j = index"
  using assms by (cases action) (auto simp: moved_sort_def moved_index_def landing_def split: if_splits)

lemma moved_list_sorted:
  assumes len: "length ps < 214748362" "index < length ps" and d: "distinct (map index_id ps)"
    and f: "\<And>n. n < length ps \<Longrightarrow> sorts u (index_id (ps ! n)) = sort_at n"
    and g: "sorts t = (sorts u)(index_id (ps ! index) := m)"
    and m: "moved_sort action position index (length ps) = Some m"
    and j: "moved_index index (length ps) action position = Some j" and p: "unwrap_or position 0 < 214748362"
  shows "sorted (map (\<lambda>q. sorts t (index_id q)) (move_in_list index j ps))"
    and "distinct (map (\<lambda>q. sorts t (index_id q)) (move_in_list index j ps))"
proof -
  let ?L = "remove_at index ps" and ?x = "ps ! index" and ?f = "\<lambda>q. sorts t (index_id q)"
  let ?i = "landing index j"
  have lenL: "length ?L = length ps - 1" using len(2) by (simp add: remove_at_def)
  have key: "?f (?L ! k) = (if k < index then int k + 1 else int k + 2) * 10" if k: "k < length ps - 1" for k
  proof -
    let ?n = "if k < index then k else Suc k"
    have n: "?n < length ps" "?n \<noteq> index" using k len by auto
    then have "index_id (ps ! ?n) \<noteq> index_id ?x" using d len(2) by (auto simp: distinct_conv_nth)
    then have "?f (?L ! k) = sort_at ?n" using g f n(1) remove_at_nth[OF len(2) k] by simp
    also have "\<dots> = (int ?n + 1) * 10" using n(1) len(1) by (intro sort_at_small) linarith
    finally show ?thesis by auto
  qed
  have "sorted_wrt (<) (map ?f ?L)"
    unfolding sorted_wrt_iff_nth_less by (auto simp: lenL key)
  then have L: "sorted (map ?f ?L)" "distinct (map ?f ?L)" by (auto simp: strict_sorted_iff)
  note between = moved_sort_between[OF m j len(2,1) p]
  have x: "?f ?x = m" using g by simp
  have "?f y < ?f ?x" if "y \<in> set (take ?i ?L)" for y
  proof -
    obtain k where "k < length ps - 1" "k < ?i" "y = ?L ! k"
      using \<open>y \<in> set (take ?i ?L)\<close> by (auto simp: in_set_conv_nth lenL)
    then show ?thesis using between(1)[of k] key[of k] x by simp
  qed
  moreover have "?f ?x < ?f y" if "y \<in> set (drop ?i ?L)" for y
  proof -
    obtain n where n: "n < length (drop ?i ?L)" "y = drop ?i ?L ! n"
      using \<open>y \<in> set (drop ?i ?L)\<close> by (metis in_set_conv_nth)
    have k: "?i + n < length ps - 1" "?i \<le> ?i + n" "y = ?L ! (?i + n)" using n lenL by auto
    then show ?thesis using between(2)[OF k(1,2)] key[OF k(1)] k(3) x by simp
  qed
  ultimately show "sorted (map ?f (move_in_list index j ps))" "distinct (map ?f (move_in_list index j ps))"
    using insert_sorted[of ?f "take ?i ?L" "drop ?i ?L" ?x] L
    by (simp_all add: move_in_list_landing[OF len(2)] insert_at_def)
qed

lemma move_in_list_set:
  assumes i: "index < length xs" and d: "distinct xs"
  shows "set (move_in_list index j xs) = set xs" and "distinct (move_in_list index j xs)"
proof -
  let ?L = "remove_at index xs"
  have "distinct (take index xs @ xs ! index # drop (Suc index) xs)"
    using d id_take_nth_drop[OF i] by simp
  then have L: "distinct ?L" "xs ! index \<notin> set ?L" "set xs = insert (xs ! index) (set ?L)"
    using id_take_nth_drop[OF i, THEN arg_cong[of _ _ set]] by (auto simp: remove_at_def)
  have parts: "set (take k ?L) \<union> set (drop k ?L) = set ?L" "set (take k ?L) \<inter> set (drop k ?L) = {}" for k
    using set_take_disj_set_drop_if_distinct[OF L(1), of k k] by (metis append_take_drop_id set_append, simp)
  with L show "set (move_in_list index j xs) = set xs" "distinct (move_in_list index j xs)"
    using parts[of "landing index j"] unfolding move_in_list_landing[OF i] insert_at_def by auto
qed

lemma position_of_Some: "position_of P xs = Some n \<Longrightarrow> n < length xs \<and> P (xs ! n)"
  by (induction xs arbitrary: n) (auto simp: position_of_def split: if_splits)

lemma position_of_map: "position_of P (map f xs) = position_of (P \<circ> f) xs"
  by (simp add: position_of_def list_ex_iff takeWhile_map comp_def)

lemma move_profile_listed:
  assumes ok: "db_ok (db s)" and small: "length (profile_rows (db s)) < 214748362" and p: "unwrap_or position 0 < 214748362"
    and i: "position_of (\<lambda>q. index_id q = i) (listed (db s) sub) = Some index"
    and j: "moved_index index (length (listed (db s) sub)) action position = Some j"
    and r: "move_profile lower sub i action position s = (Inr items, t)"
  shows "listed (db t) sub = move_in_list index j (listed (db s) sub)"
    and "map li_profile items = listed (db t) sub"
proof -
  let ?ps = "listed (db s) sub"
  have pos: "position_of (\<lambda>(q, _). index_id q = i) (profiles_with_ex (db s) sub) = Some index"
    using i by (simp add: listed_with_ex[symmetric] position_of_map comp_def case_prod_beta')
  have len: "length (profiles_with_ex (db s) sub) = length ?ps" by (simp add: listed_with_ex[symmetric])
  note in_range = position_of_Some[OF i]
  obtain u v w where u: "db u = db s" and v: "renumber ?ps u = (Inr (), v)"
    and w: "(case moved_sort action position index (length ?ps) of None \<Rightarrow> give ()
        | Some n \<Rightarrow> and_then (profile_ex_set_sort i n) (\<lambda>_. give ())) v = (Inr (), w)"
    and l: "list_profiles lower sub None w = (Inr items, t)"
    using r by (simp add: move_profile_def and_then_Inr map_err_Inr profiles_list_with_profile_ex_def statement_Inr pos
        len listed_with_ex) (elim exE conjE, rule that[rotated], assumption+, simp)
  have "length ?ps \<le> length (profile_rows (db s))"
    using of_subscription_filter[of sub "rows_of (profile_rows (db s))"]
    by (auto simp: listed_def ordered_profiles_def rows_of_def intro: order.trans[OF length_filter_le])
  with small have sm: "length ?ps < 214748362" by simp
  have ex: "rows_ok px_index_id (profile_ex_rows (db u))" using ok u by (simp add: db_ok_def)
  note e = renumber_effect[OF ex listed_distinct[OF ok] v]
  have "listed (db w) sub = move_in_list index j ?ps"
  proof (cases "moved_sort action position index (length ?ps)")
    case None
    then have "landing index j = index" using moved_sort_none j in_range by blast
    then have m: "move_in_list index j ?ps = ?ps"
      using in_range by (auto simp: move_in_list_def landing_def insert_at_def remove_at_def id_take_nth_drop[symmetric] min_def)
    have "w = v" using None w by simp
    then show ?thesis
      using renumbered_list[of u ?ps sub v] ok u v sm m listed_distinct[OF ok, of sub] by (simp add: distinct_map)
  next
    case (Some n)
    then obtain x where x: "profile_ex_set_sort i n v = (Inr x, w)" using w by (auto simp: and_then_Inr)
    note y = set_sort_effect[OF e(2) x]
    have i': "i = index_id (?ps ! index)" using in_range by simp
    have "profile_rows (db w) = profile_rows (db s)" using y(1) e(1) u by simp
    moreover have "set (move_in_list index j ?ps) = set ?ps" "distinct (move_in_list index j ?ps)"
      using move_in_list_set[of index ?ps j] in_range listed_distinct[OF ok, of sub] by (simp_all add: distinct_map)
    ultimately show ?thesis
      using moved_list_sorted[OF sm _ listed_distinct[OF ok] e(3) y(2)[unfolded i'] Some j p] in_range
      by (intro listed_determined[OF ok]) simp_all
  qed
  then show "listed (db t) sub = move_in_list index j ?ps" "map li_profile items = listed (db t) sub"
    using list_profiles_shows[OF l] by simp_all
qed


section \<open>The orders of the profile list\<close>

definition blank_session :: session where
  "blank_session =
     \<lparr>db = empty_tables, config = default_app_config, faults = [], clock = [], profile_counter = 1,
      subscription_counter = 1, routing_counter = 1, rule_counter = 1, process_id = 7\<rparr>"

definition two_profiles :: session where
  "two_profiles =
     blank_session\<lparr>db := empty_tables\<lparr>profile_rows := [(''a'', sample_leaf ''a''), (''b'', sample_leaf ''b'')]\<rparr>\<rparr>"

lemma two_profiles_ok: "db_ok (db two_profiles)" "length (profile_rows (db two_profiles)) = 2"
  "listed (db two_profiles) None = [sample_leaf ''a'', sample_leaf ''b'']"
  by code_simp+

lemma two_profiles_moved:
  "\<exists>items t. move_profile (\<lambda>s. s) None ''a'' Move_Bottom None two_profiles = (Inr items, t)"
proof -
  have "case fst (move_profile (\<lambda>s. s) None ''a'' Move_Bottom None two_profiles) of Inr _ \<Rightarrow> True | Inl _ \<Rightarrow> False"
    by code_simp
  then show ?thesis
    by (cases "move_profile (\<lambda>s. s) None ''a'' Move_Bottom None two_profiles") (auto split: sum.splits)
qed

lemma two_profiles_sorted:
  "\<exists>items t. sort_profiles (\<lambda>s. s) None By_Port True two_profiles = (Inr items, t)"
proof -
  have "case fst (sort_profiles (\<lambda>s. s) None By_Port True two_profiles) of Inr _ \<Rightarrow> True | Inl _ \<Rightarrow> False"
    by code_simp
  then show ?thesis
    by (cases "sort_profiles (\<lambda>s. s) None By_Port True two_profiles") (auto split: sum.splits)
qed


text \<open>
  Sorting profiles is kept. What the sort shows, and what every later list shows, is exactly
  the computed order: the numbers it stores determine the order of the list again.
\<close>

theorem profile_sort_kept:
  assumes "db_ok (db s)" and "length (profile_rows (db s)) < 214748364"
    and "sort_profiles lower sub k asc s = (Inr items, t)"
  shows "map li_profile items = listed (db t) sub
    \<and> listed (db t) sub = map fst (sort_profile_pairs lower k asc (profiles_with_ex (db s) sub))"
  using sort_profiles_listed[OF assms] by simp

theorem profile_sort_kept_witness:
  "\<exists>items t. sort_profiles (\<lambda>s. s) None By_Port True two_profiles = (Inr items, t)
    \<and> map li_profile items = listed (db t) None"
  using two_profiles_sorted profile_sort_kept[OF two_profiles_ok(1)] by (fastforce simp: two_profiles_ok(2))



end
