(* ===== verification/MutationProps.thy ===== *)
theory MutationProps
  imports OrderProps
begin

text \<open>
  The properties of the configuration mutations: the invariant of every reachable state, what a
  commit can fail with, atomicity, the restart, and the operations on lists of profiles, rules and
  traffic that the mutations run.
\<close>

section \<open>A first state\<close>

definition first_config :: app_config where
  "first_config = (case fst (load_config blank_session) of Inr c \<Rightarrow> c | Inl _ \<Rightarrow> default_app_config)"

definition first_session :: session where
  "first_session = (snd (load_config blank_session))\<lparr>config := first_config\<rparr>"

lemma first_load: "load_config blank_session = (Inr first_config, snd (load_config blank_session))"
proof -
  have "case fst (load_config blank_session) of Inr _ \<Rightarrow> True | Inl _ \<Rightarrow> False"
    by code_simp
  then show ?thesis by (cases "load_config blank_session") (auto simp: first_config_def split: sum.splits)
qed

lemma first_reachable: "config_reachable first_session"
  unfolding first_session_def by (rule config_start[OF _ first_load]) (simp add: blank_session_def)

definition busy_session :: session where
  "busy_session =
     run_mutation (\<lambda>s. s) undefined undefined (Save_profile (sample_leaf ''a''))
       (first_session\<lparr>faults := [], clock := []\<rparr>)"

lemma busy_reachable: "config_reachable busy_session"
  unfolding busy_session_def by (intro config_mutation first_reachable)

lemma first_rows: "profile_rows (db first_session) = []" "ac_index_id (config first_session) = []"
  "profile_ex_rows (db first_session) = []" "server_stat_rows (db first_session) = []"
  "routing_index_id (routing_basic (config first_session)) = []"
proof -
  obtain settings where c: "app_config_from_settings settings (app_state (db blank_session)) = Inr first_config"
    and t: "db (snd (load_config blank_session))
      = (db blank_session)\<lparr>settings_row := Some (CURRENT_SCHEMA_VERSION, settings)\<rparr>"
    using load_config_Inr[OF first_load] .
  show "profile_rows (db first_session) = []" "profile_ex_rows (db first_session) = []"
    "server_stat_rows (db first_session) = []"
    using t by (simp_all add: first_session_def blank_session_def empty_tables_def)
  have "app_state (db first_session) = state_of_config (config first_session)"
    using reachable_consistent[OF first_reachable] by (simp add: consistent_def state_stored_def)
  moreover have "app_state (db first_session) = \<lparr>active_profile_id = None, active_routing_id = None\<rparr>"
    using t by (simp add: first_session_def blank_session_def empty_tables_def)
  ultimately show "ac_index_id (config first_session) = []" "routing_index_id (routing_basic (config first_session)) = []"
    by (auto simp: state_of_config_def some_if_nonempty_def split: if_splits)
qed

lemma sample_normal: "normalize_profile (sample_leaf ''a'') = sample_leaf ''a''" "trim ''a'' = ''a''"
  by code_simp+

lemmas task_steps = and_then_def map_err_def give_def give_up_def get_config_def set_config_def statement_def

lemmas saving_steps = save_profile_def assign_id_def ex_for_save_def stat_or_empty_def ensure_active_profile_def
  active_is_stored_def set_active_id_def profiles_exists_def profiles_list_def profile_exs_max_sort_def
  profiles_upsert_with_profile_ex_def profiles_upsert_def profile_exs_upsert_def server_stats_get_def

lemmas committing_steps = run_mutation_def mutate_def guarded_def quiet_def transaction_call_def store_config_def
  settings_save_with_state_def validated_payload_def save_settings_on_def save_state_on_def

lemma busy_rows:
  "profile_rows (db busy_session) = [(''a'', sample_leaf ''a'')] \<and> ac_index_id (config busy_session) = ''a''"
proof -
  have p: "subscription_id (sample_leaf ''a'') = None" "index_id (sample_leaf ''a'') = ''a''"
    "port (sample_leaf ''a'') = 443"
    by code_simp+
  show ?thesis
    by (simp add: busy_session_def committing_steps task_steps saving_steps first_rows sample_normal p
        subscription_known_def ordered_profiles_def next_active_def or_else_def rows_of_def known_or_null_def
        state_of_config_def some_if_nonempty_def Let_def keys_def)
qed

section \<open>Reachable states\<close>

text \<open>
  C8: in every state between mutations, whatever failed before, every reference between rows
  names a row, identifiers are keys, the stored row of active identifiers and the stored settings
  are those of the published configuration, and the active profile is a stored one unless there
  is no profile at all.
\<close>

theorem database_consistent:
  assumes "config_reachable s"
  shows "db_ok (db s) \<and> ids_plain (db s) \<and> app_state (db s) = state_of_config (config s)
    \<and> settings_row (db s) = Some (CURRENT_SCHEMA_VERSION, settings_from_app_config (config s))
    \<and> (ac_index_id (config s) \<in> set (keys (profile_rows (db s)))
        \<or> profile_rows (db s) = [] \<and> ac_index_id (config s) = [])"
  using reachable_consistent[OF assms]
  by (auto simp: consistent_def settings_stored_def state_stored_def active_ok_def profile_keys_def keys_def)

theorem database_consistent_witness:
  "ac_index_id (config busy_session) = ''a''
   \<and> db_ok (db busy_session) \<and> app_state (db busy_session) = state_of_config (config busy_session)"
  using database_consistent[OF busy_reachable] busy_rows by blast

lemma store_config_errors:
  assumes s: "db_ok (db s)" "has_active s" "has_routing s" and e: "store_config s = (Inl e, t)"
  shows "e = StatementFailed"
proof -
  have known: "known_or_null (profile_rows (db s)) (active_profile_id (state_of_config (config s)))"
    "known_or_null (routing_rows (db s)) (active_routing_id (state_of_config (config s)))"
    using s by (auto simp: known_or_null_def state_of_config_def some_if_nonempty_def active_ok_def routing_ok_def
        profile_keys_def routing_keys_def configured_def)
  show ?thesis
    using e known
    by (auto simp: store_config_def task_steps settings_save_with_state_def validated_payload_def
        save_settings_on_def save_state_on_def transaction_call_def Let_def
        split: list.splits bool.splits prod.splits sum.splits if_splits)
qed

text \<open>
  C9: the configuration that an operation leaves behind can always be stored: when the operation of
  a mutation succeeds and storing or committing fails, a statement of the database failed; a
  reference to a profile or a routing that does not exist, or an unsupported version, never is the
  reason.
\<close>

theorem commit_fails_only_by_storage:
  assumes "config_reachable s"
    and "mutate (mutation_op lower E X m) (s\<lparr>faults := fs, clock := ts\<rparr>) = (Inl (Config_mutation e), t)"
  shows "e = StatementFailed"
proof -
  let ?s = "s\<lparr>faults := fs, clock := ts\<rparr>"
  have c: "consistent ?s"
    using reachable_consistent[OF assms(1)] by (subst consistent_cong[of _ s]) simp_all
  obtain u where "guarded (mutation_op lower E X m) ?s = (Inl (Config_mutation e), u)"
    using assms(2) by (auto simp: mutate_def split: prod.splits sum.splits)
  then consider (early) "\<exists>d u. transaction_call ?s = (Inl d, u) \<and> e = d"
    | (storing) v x w u where "transaction_call ?s = (Inr (), v)" "mutation_op lower E X m v = (Inr x, w)"
        "store_config w = (Inl e, u)"
    by (auto simp: guarded_def and_then_Inl map_err_Inl map_err_Inr give_def)
  then show ?thesis
  proof cases
    case early
    then show ?thesis
      by (auto simp: transaction_call_def statement_def Let_def split: list.splits bool.splits)
  next
    case storing
    have v: "db_ok (db v)" "has_active v" "has_routing v"
      using c consistent_routing[OF c] transaction_call_Inr[OF storing(1)] by (simp_all add: consistent_def)
    have "db_ok (db w) \<and> has_active w" "has_routing w"
      using mutation_secures_active[of lower E X m] mutation_secures_routing[of lower E X m] v storing(2)
      unfolding secures_def yields_def by blast+
    with storing(3) show ?thesis by (auto intro: store_config_errors)
  qed
qed

theorem commit_fails_only_by_storage_witness:
  "\<exists>e t. mutate (mutation_op (\<lambda>s. s) undefined undefined (Set_tun True))
      (busy_session\<lparr>faults := [False, True], clock := []\<rparr>) = (Inl (Config_mutation e), t) \<and> e = StatementFailed"
proof -
  have "\<exists>e t. mutate (mutation_op (\<lambda>s. s) undefined undefined (Set_tun True))
      (busy_session\<lparr>faults := [False, True], clock := []\<rparr>) = (Inl (Config_mutation e), t)"
    by (simp add: committing_steps task_steps change_config_def Let_def)
  then show ?thesis using commit_fails_only_by_storage[OF busy_reachable] by blast
qed

text \<open>
  C10: a restart brings the configuration back. Loading from any reachable state without failing
  statements succeeds with the published configuration, up to what is not stored: no subscription
  is selected, the theme has its canonical name and a shortcut without a key is none.
\<close>

theorem restart_restores:
  assumes "config_reachable s"
  shows "\<exists>t. load_config (s\<lparr>faults := [], clock := ts\<rparr>)
    = (Inr ((config s)
          \<lparr>ac_sub_index_id := [],
           ui := (ui (config s))
             \<lparr>current_theme := Some (theme_to_config (theme_from_config (current_theme (ui (config s)))))\<rparr>,
           show_window_shortcut := opt_filter (\<lambda>k. key_code k \<noteq> None) (show_window_shortcut (config s))\<rparr>), t)"
proof -
  have c: "consistent s" by (rule reachable_consistent[OF assms])
  then have state: "app_state (db s) = state_of_config (config s)"
    and row: "settings_row (db s) = Some (CURRENT_SCHEMA_VERSION, settings_from_app_config (config s))"
    and known: "known_or_null (profile_rows (db s)) (active_profile_id (app_state (db s)))"
      "known_or_null (routing_rows (db s)) (active_routing_id (app_state (db s)))"
    by (auto simp: consistent_def state_stored_def settings_stored_def db_ok_def)
  have form: "stored_form (state_of_config (config s)) (config s) = (config s)
      \<lparr>ac_sub_index_id := [],
       ui := (ui (config s))
         \<lparr>current_theme := Some (theme_to_config (theme_from_config (current_theme (ui (config s)))))\<rparr>,
       show_window_shortcut := opt_filter (\<lambda>k. key_code k \<noteq> None) (show_window_shortcut (config s))\<rparr>"
    by (simp add: stored_form_def state_of_config_def some_if_nonempty_def)
  show ?thesis
    using known
    by (simp add: load_config_def settings_load_def app_state_load_def settings_save_with_state_def
        validated_payload_def save_settings_on_def save_state_on_def task_steps Let_def row state
        settings_stored_form form)
qed

theorem restart_restores_witness:
  "\<exists>c t. load_config (busy_session\<lparr>faults := [], clock := []\<rparr>) = (Inr c, t) \<and> ac_index_id c = ''a''"
  using restart_restores[OF busy_reachable, of "[]"] busy_rows by auto

end
