(* ===== verification/RuntimeProps.thy ===== *)
theory RuntimeProps
  imports Runtime MutationProps SupervisorProps
begin

text \<open>
  Connecting: the active profile of every reachable state is found, and a connection that was made
  runs on the configurations generated from what the database holds.
\<close>

section \<open>What connecting can fail with\<close>

lemmas runtime_steps = connect_with_def start_supervisor_def run_supervisor_def process_spec_def prepare_pre_def
  write_runtime_config_def cleanup_config_file_def file_call_def and_then_Inl and_then_Inr map_err_Inl map_err_Inr
  Let_def

lemma give_Inl [simp]: "give x s \<noteq> (Inl e, t)"
  by (simp add: give_def)

lemma give_up_Inl [simp]: "give_up d s = (Inl e, t) \<longleftrightarrow> e = d \<and> t = s"
  by (auto simp: give_up_def)

definition names_profile :: "runtime_error \<Rightarrow> bool" where
  "names_profile e \<longleftrightarrow> (case e of
     Rt_MissingActiveProfileId \<Rightarrow> True | Rt_ActiveProfileNotFound i \<Rightarrow> True | _ \<Rightarrow> False)"

lemma file_call_error: "file_call d f w = (Inl e, v) \<Longrightarrow> e = d"
  by (auto simp: file_call_def split: list.splits bool.splits)

lemma write_config_error: "write_runtime_config m name ctx w = (Inl e, v) \<Longrightarrow> \<not> names_profile e"
  by (auto simp: write_runtime_config_def names_profile_def Let_def
      split: option.splits sum.splits dest!: file_call_error)

lemma process_spec_error: "process_spec m ctx name w = (Inl e, v) \<Longrightarrow> \<not> names_profile e"
  by (auto simp: process_spec_def names_profile_def split: option.splits)

lemma prepare_pre_error: "prepare_pre m pre w = (Inl e, v) \<Longrightarrow> \<not> names_profile e"
  by (auto simp: prepare_pre_def and_then_Inl cleanup_config_file_def names_profile_def Let_def
      split: option.splits dest!: file_call_error)
    (auto dest!: write_config_error process_spec_error simp: names_profile_def)

lemma start_supervisor_error: "start_supervisor m request w = (Inl e, v) \<Longrightarrow> \<not> names_profile e"
  by (auto simp: start_supervisor_def run_supervisor_def names_profile_def split: prod.splits sum.splits)

lemma connect_with_error: "connect_with m conf node env w = (Inl e, v) \<Longrightarrow> \<not> names_profile e"
  by (auto simp: connect_with_def Let_def and_then_Inl names_profile_def split: if_splits)
    (auto dest!: write_config_error process_spec_error prepare_pre_error start_supervisor_error
      simp: names_profile_def)

lemma on_database_Inr: "on_database d w = (Inr x, v) \<longleftrightarrow> (\<exists>s. d (rm_session w) = (Inr x, s) \<and> v = w\<lparr>rm_session := s\<rparr>)"
  by (auto simp: on_database_def split: prod.splits)

lemma query_Inr: "query f s = (Inr x, t) \<Longrightarrow> x = f (db s) \<and> db t = db s"
  by (auto simp: statement_def Let_def split: list.splits bool.splits)

lemma profiles_get_Inr:
  "profiles_get i s = (Inr x, t) \<Longrightarrow> x = map_of (profile_rows (db s)) i \<and> db t = db s"
  unfolding profiles_get_def by (rule query_Inr)

text \<open>
  C31: in every state between mutations a connection with the published configuration finds its
  active profile, whatever statements, files or processes fail: it never reports a profile that
  does not exist, and it reports a missing active profile exactly if no profile is stored (and the
  directories could be created).
\<close>

theorem connect_finds_active:
  assumes "config_reachable s" and "db (rm_session w) = db s"
  shows "(\<forall>i. fst (connect m (config s) w) \<noteq> Inl (Rt_ActiveProfileNotFound i))
     \<and> (fst (connect m (config s) w) = Inl Rt_MissingActiveProfileId
          \<longleftrightarrow> profile_rows (db s) = [] \<and> (rm_io_faults w = [] \<or> \<not> hd (rm_io_faults w)))"
proof (cases "rm_io_faults w = [] \<or> \<not> hd (rm_io_faults w)")
  case False
  then have "file_call Rt_Path (\<lambda>fs. fs) w = (Inl Rt_Path, w\<lparr>rm_io_faults := tl (rm_io_faults w)\<rparr>)"
    by (cases "rm_io_faults w") (simp_all add: file_call_def)
  then show ?thesis using False by (simp add: connect_def and_then_def)
next
  case True
  define v where "v = w\<lparr>rm_io_faults := tl (rm_io_faults w)\<rparr>"
  have dirs: "file_call Rt_Path (\<lambda>fs. fs) w = (Inr (), v)"
    using True by (cases "rm_io_faults w") (auto simp: file_call_def v_def)
  have c: "consistent s" by (rule reachable_consistent[OF assms(1)])
  let ?i = "ac_index_id (config s)"
  show ?thesis
  proof (cases "profile_rows (db s) = []")
    case none: True
    then have "trim ?i = []" using c by (auto simp: consistent_def active_ok_def profile_keys_def)
    then show ?thesis using True none by (simp add: connect_def and_then_def dirs give_up_def)
  next
    case some: False
    then have i: "?i \<in> set (keys (profile_rows (db s)))"
      using c by (auto simp: consistent_def active_ok_def profile_keys_def keys_def)
    then have "plain_profile_id ?i" using c by (auto simp: consistent_def ids_plain_alt)
    then have plain: "trim ?i = ?i" "?i \<noteq> []" by (simp_all add: plain_profile_id_def)
    have "map_of (profile_rows (db s)) ?i \<noteq> None"
      using i by (simp add: keys_def map_of_eq_None_iff)
    moreover have "db (rm_session v) = db s" using assms(2) by (simp add: v_def)
    ultimately have "\<not> names_profile e" if "connect m (config s) w = (Inl e, u)" for e u
      using that dirs plain
      by (auto simp: connect_def and_then_Inl map_err_Inl map_err_Inr on_database_Inr names_profile_def Let_def
          split: option.splits dest!: profiles_get_Inr)
        (auto dest!: connect_with_error simp: names_profile_def)
    then show ?thesis
      using some by (cases "connect m (config s) w"; cases "fst (connect m (config s) w)") (force simp: names_profile_def)+
  qed
qed

definition linux_runtime :: runtime_manager where
  "linux_runtime =
     \<lparr>rt_externals = no_externals, rt_rulesets_from_str = (\<lambda>s. None), rt_target_os = Os_Linux,
      rt_paths = \<lparr>rp_bin_config_dir = ''/tmp/c'', rp_temp_dir = ''/tmp''\<rparr>,
      rt_core_executable = (\<lambda>c. Some ''/opt/sing-box''), rt_ruleset_paths = []\<rparr>"

definition idle_machine :: "session \<Rightarrow> runtime_machine" where
  "idle_machine s =
     \<lparr>rm_session = s, rm_configs = Map.empty, rm_io_faults = [], rm_actor = new_actor Os_Linux,
      rm_world = start_world sample_answer {}\<rparr>"

theorem connect_finds_active_witness:
  "\<forall>i. fst (connect linux_runtime (config busy_session) (idle_machine busy_session))
     \<notin> {Inl Rt_MissingActiveProfileId, Inl (Rt_ActiveProfileNotFound i)}"
proof -
  have "db (rm_session (idle_machine busy_session)) = db busy_session" by (simp add: idle_machine_def)
  from connect_finds_active[OF busy_reachable this, of linux_runtime] show ?thesis using busy_rows by auto
qed

text \<open>The environment of the builder, as the tables give it.\<close>

definition runtime_env :: "runtime_manager \<Rightarrow> app_config \<Rightarrow> tables \<Rightarrow> snapshot_env" where
  "runtime_env m conf t =
     with_singbox_ruleset_paths (rt_ruleset_paths m)
       (new_snapshot_env conf (core_gen_platform_of (rt_target_os m))
          (ordered_profiles t (rows_of (profile_rows t))) (ordered_routings t)
          (sort_key (\<lambda>s. (sub_sort s, sub_id s)) (rows_of (subscription_rows t))))"

lemma load_env_Inr:
  assumes "load_runtime_core_gen_env m conf s = (Inr env, t)"
  shows "env = runtime_env m conf (db s)"
proof -
  obtain ps rs ss u v where "profiles_list s = (Inr ps, u)" "routings_list u = (Inr rs, v)"
    "subscriptions_list v = (Inr ss, t)"
    and env: "env = with_singbox_ruleset_paths (rt_ruleset_paths m)
      (new_snapshot_env conf (core_gen_platform_of (rt_target_os m)) ps rs ss)"
    using assms by (auto simp: load_runtime_core_gen_env_def and_then_Inr)
  then show ?thesis
    unfolding profiles_list_def routings_list_def subscriptions_list_def runtime_env_def
    by (auto dest!: query_Inr)
qed

section \<open>What a connection runs on\<close>

definition runtime_contexts :: "runtime_manager \<Rightarrow> app_config \<Rightarrow> tables \<Rightarrow> profile_item \<Rightarrow> builder_all_result" where
  "runtime_contexts m conf t node =
     runtime_config_contexts (rt_externals m) (runtime_env m conf t) conf node (rt_target_os m)"

definition generated :: "runtime_manager \<Rightarrow> core_config_context \<Rightarrow> singbox_config option" where
  "generated m ctx = (case generate_singbox_config (rt_externals m) (rt_rulesets_from_str m) ctx of
     Some (Inr cfg) \<Rightarrow> Some cfg | _ \<Rightarrow> None)"

lemma file_call_Inr:
  "file_call e f w = (Inr x, v) \<Longrightarrow> v = w\<lparr>rm_io_faults := tl (rm_io_faults w), rm_configs := f (rm_configs w)\<rparr>"
  by (auto simp: file_call_def split: list.splits bool.splits)

lemma write_config_Inr:
  assumes "write_runtime_config m name ctx w = (Inr x, v)"
  shows "\<exists>cfg. generated m ctx = Some cfg
     \<and> v = w\<lparr>rm_io_faults := tl (rm_io_faults w),
             rm_configs := (rm_configs w)(bin_config_file (rt_paths m) name \<mapsto> cfg)\<rparr>"
  using assms
  by (auto simp: write_runtime_config_def generated_def Let_def split: option.splits sum.splits dest!: file_call_Inr)

lemma process_spec_Inr:
  "process_spec m ctx name w = (Inr spec, v) \<Longrightarrow>
     v = w \<and> cs_config_path spec = Some (bin_config_file (rt_paths m) name)
     \<and> cs_core_type spec = run_core_type ctx"
  by (auto simp: process_spec_def split: option.splits)

lemma config_files_differ: "bin_config_file p PRE_CONFIG_FILE_NAME \<noteq> bin_config_file p MAIN_CONFIG_FILE_NAME"
  by (simp add: bin_config_file_def PRE_CONFIG_FILE_NAME_def MAIN_CONFIG_FILE_NAME_def)

lemma prepare_pre_Inr:
  assumes "prepare_pre m pre w = (Inr spec, v)"
  shows "rm_configs v = (rm_configs w)(bin_config_file (rt_paths m) PRE_CONFIG_FILE_NAME :=
       Option.bind pre (\<lambda>r. generated m (br_context r)))
     \<and> rm_actor v = rm_actor w \<and> rm_world v = rm_world w
     \<and> (\<forall>r. pre = Some r \<longrightarrow> generated m (br_context r) \<noteq> None)
     \<and> map_option cs_config_path spec
         = map_option (\<lambda>r. Some (bin_config_file (rt_paths m) PRE_CONFIG_FILE_NAME)) pre"
proof (cases pre)
  case None
  then show ?thesis
    using assms by (auto simp: prepare_pre_def cleanup_config_file_def and_then_Inr Let_def dest!: file_call_Inr)
next
  case (Some r)
  then obtain x u s where u: "write_runtime_config m PRE_CONFIG_FILE_NAME (br_context r) w = (Inr x, u)"
    "process_spec m (br_context r) PRE_CONFIG_FILE_NAME u = (Inr s, v)" "spec = Some s"
    using assms by (auto simp: prepare_pre_def and_then_Inr)
  show ?thesis using write_config_Inr[OF u(1)] process_spec_Inr[OF u(2)] by (auto simp: Some u(3))
qed

lemma connect_with_Inr:
  assumes "connect_with m conf node env w = (Inr snap, w')"
    and r: "r = runtime_config_contexts (rt_externals m) env conf node (rt_target_os m)"
  obtains cfg request where "all_success r" "generated m (br_context (main_result r)) = Some cfg"
    and "\<forall>p. pre_socks_result r = Some p \<longrightarrow> generated m (br_context p) \<noteq> None"
    and "rm_configs w' = (rm_configs w)(bin_config_file (rt_paths m) MAIN_CONFIG_FILE_NAME \<mapsto> cfg,
        bin_config_file (rt_paths m) PRE_CONFIG_FILE_NAME :=
          Option.bind (pre_socks_result r) (\<lambda>p. generated m (br_context p)))"
    and "run_command (Cmd_Start request 0) (rm_actor w) (rm_world w) = (Inr snap, rm_actor w', rm_world w')"
    and "rq_profile_id request = Some (index_id node)" "rq_tun_enabled request = enable_tun (tun_mode conf)"
    and "cs_config_path (rq_main request) = Some (bin_config_file (rt_paths m) MAIN_CONFIG_FILE_NAME)"
    and "map_option cs_config_path (rq_pre request)
      = map_option (\<lambda>p. Some (bin_config_file (rt_paths m) PRE_CONFIG_FILE_NAME)) (pre_socks_result r)"
proof -
  have ok: "all_success r" using assms by (auto simp: connect_with_def Let_def split: if_splits)
  then obtain x u main u' pre v where w: "write_runtime_config m MAIN_CONFIG_FILE_NAME (br_context (main_result r)) w = (Inr x, u)"
    and main: "process_spec m (br_context (main_result r)) MAIN_CONFIG_FILE_NAME u = (Inr main, u')"
    and pre': "prepare_pre m (pre_socks_result r) u' = (Inr pre, v)"
    and start: "start_supervisor m
         \<lparr>rq_profile_id = Some (index_id node), rq_main = main, rq_pre = pre,
          rq_tun_enabled = enable_tun (tun_mode conf),
          rq_sudo_script_dir = rp_temp_dir (rt_paths m) @ ''/'' @ SUDO_SCRIPT_DIR_NAME,
          rq_restart_on_crash = True\<rparr> v = (Inr snap, w')"
    using assms by (auto simp: connect_with_def Let_def and_then_Inr)
  have pre: "prepare_pre m (pre_socks_result r) u = (Inr pre, v)" using process_spec_Inr[OF main] pre' by simp
  obtain cfg where cfg: "generated m (br_context (main_result r)) = Some cfg"
    and u: "u = w\<lparr>rm_io_faults := tl (rm_io_faults w),
             rm_configs := (rm_configs w)(bin_config_file (rt_paths m) MAIN_CONFIG_FILE_NAME \<mapsto> cfg)\<rparr>"
    using write_config_Inr[OF w] by blast
  note p = prepare_pre_Inr[OF pre]
  show thesis
  proof (rule that[OF ok cfg])
    show "run_command (Cmd_Start
         \<lparr>rq_profile_id = Some (index_id node), rq_main = main, rq_pre = pre,
          rq_tun_enabled = enable_tun (tun_mode conf),
          rq_sudo_script_dir = rp_temp_dir (rt_paths m) @ ''/'' @ SUDO_SCRIPT_DIR_NAME,
          rq_restart_on_crash = True\<rparr> 0) (rm_actor w) (rm_world w) = (Inr snap, rm_actor w', rm_world w')"
      using start p by (auto simp: start_supervisor_def run_supervisor_def u split: prod.splits sum.splits)
    have "rm_configs w' = rm_configs v"
      using start by (auto simp: start_supervisor_def run_supervisor_def split: prod.splits sum.splits)
    then show "rm_configs w' = (rm_configs w)(bin_config_file (rt_paths m) MAIN_CONFIG_FILE_NAME \<mapsto> cfg,
        bin_config_file (rt_paths m) PRE_CONFIG_FILE_NAME :=
          Option.bind (pre_socks_result r) (\<lambda>p. generated m (br_context p)))"
      using p by (simp add: u)
  qed (use p process_spec_Inr[OF main] in auto)
qed

text \<open>
  C30: a connection that was made runs on what the database holds: the active profile is stored, its
  contexts were built from the stored profiles, routings and subscriptions without an error, the
  two configuration files are exactly the configurations generated for them (the second one is
  gone when there is no second process), and the supervisor, if its record was consistent, is
  connected for that profile and says so.
\<close>

theorem connect_delivers:
  assumes "connect m conf w = (Inr snap, w')" and "actor_ok (rm_actor w)"
  shows "\<exists>node. map_of (profile_rows (db (rm_session w))) (trim (ac_index_id conf)) = Some node
     \<and> (let r = runtime_contexts m conf (db (rm_session w)) node in
          all_success r
          \<and> rm_configs w' (bin_config_file (rt_paths m) MAIN_CONFIG_FILE_NAME) = generated m (br_context (main_result r))
          \<and> generated m (br_context (main_result r)) \<noteq> None
          \<and> rm_configs w' (bin_config_file (rt_paths m) PRE_CONFIG_FILE_NAME)
              = Option.bind (pre_socks_result r) (\<lambda>p. generated m (br_context p))
          \<and> (rm_configs w' (bin_config_file (rt_paths m) PRE_CONFIG_FILE_NAME) = None
              \<longleftrightarrow> pre_socks_result r = None))
     \<and> actor_ok (rm_actor w') \<and> ss_state snap = Connected \<and> ss_profile_id snap = Some (index_id node)
     \<and> snap = snapshot (sa_running (rm_actor w'))"
proof -
  obtain v1 node v2 env v3 where
    dirs: "file_call Rt_Path (\<lambda>fs. fs) w = (Inr (), v1)"
    and node: "profiles_get (trim (ac_index_id conf)) (rm_session v1) = (Inr (Some node), v2)"
    and env: "load_runtime_core_gen_env m conf v2 = (Inr env, v3)"
    and c: "connect_with m conf node env (v1\<lparr>rm_session := v3\<rparr>) = (Inr snap, w')"
    using assms(1)
    by (auto simp: connect_def and_then_Inr map_err_Inr on_database_Inr Let_def split: if_splits option.splits)
  have v1: "rm_session v1 = rm_session w" "rm_actor v1 = rm_actor w" "rm_world v1 = rm_world w"
    using file_call_Inr[OF dirs] by simp_all
  have n: "map_of (profile_rows (db (rm_session w))) (trim (ac_index_id conf)) = Some node"
    and e: "env = runtime_env m conf (db (rm_session w))"
    using profiles_get_Inr[OF node] load_env_Inr[OF env] by (simp_all add: v1)
  let ?r = "runtime_contexts m conf (db (rm_session w)) node"
  have r: "?r = runtime_config_contexts (rt_externals m) env conf node (rt_target_os m)"
    by (simp add: runtime_contexts_def e)
  obtain cfg request where ok: "all_success ?r" "generated m (br_context (main_result ?r)) = Some cfg"
    and pre: "\<forall>p. pre_socks_result ?r = Some p \<longrightarrow> generated m (br_context p) \<noteq> None"
    and files: "rm_configs w' = (rm_configs (v1\<lparr>rm_session := v3\<rparr>))(bin_config_file (rt_paths m) MAIN_CONFIG_FILE_NAME \<mapsto> cfg,
        bin_config_file (rt_paths m) PRE_CONFIG_FILE_NAME :=
          Option.bind (pre_socks_result ?r) (\<lambda>p. generated m (br_context p)))"
    and run: "run_command (Cmd_Start request 0) (rm_actor (v1\<lparr>rm_session := v3\<rparr>)) (rm_world (v1\<lparr>rm_session := v3\<rparr>))
        = (Inr snap, rm_actor w', rm_world w')"
    and id: "rq_profile_id request = Some (index_id node)"
    by (rule connect_with_Inr[OF c r]) blast
  have out: "command_outcome (Cmd_Start request 0) (Inr snap) (rm_actor w) (rm_actor w')"
    using run_command_spec[OF assms(2)] run unfolding v1[symmetric] by (metis (no_types, lifting) runtime_machine.select_convs(4,5) runtime_machine.surjective runtime_machine.update_convs(1))
  then have up: "connection_of (sa_running (rm_actor w')) = up_for request" "actor_ok (rm_actor w')"
    "snap = snapshot (sa_running (rm_actor w'))"
    by (simp_all add: command_outcome_def)
  then have "ss_state snap = Connected" "ss_profile_id snap = rq_profile_id request"
    using connected_iff[of "sa_running (rm_actor w')"]
    by (auto simp: actor_ok_def up_for_def connection_of_def snapshot_def core_ok_def split: option.splits)
  then show ?thesis
    using n ok pre up id files config_files_differ[of "rt_paths m"]
    by (cases "pre_socks_result ?r") (auto simp: Let_def)
qed

definition stored_session :: session where
  "stored_session = blank_session\<lparr>db := empty_tables\<lparr>profile_rows := [(''a'', sample_leaf ''a'')]\<rparr>\<rparr>"

theorem connect_delivers_witness:
  "\<exists>snap w'. connect linux_runtime (default_app_config\<lparr>ac_index_id := ''a''\<rparr>) (idle_machine stored_session) = (Inr snap, w')
     \<and> ss_state snap = Connected \<and> ss_profile_id snap = Some ''a''
     \<and> rm_configs w' ''/tmp/c/config.json'' \<noteq> None"
proof -
  let ?r = "connect linux_runtime (default_app_config\<lparr>ac_index_id := ''a''\<rparr>) (idle_machine stored_session)"
  have "\<not> isl (fst ?r)" by code_simp
  then obtain snap w' where r: "?r = (Inr snap, w')" by (cases ?r; cases "fst ?r") auto
  have a: "actor_ok (rm_actor (idle_machine stored_session))" by (simp add: idle_machine_def)
  have "trim ''a'' = ''a''" by code_simp
  then have "map_of (profile_rows (db (rm_session (idle_machine stored_session)))) (trim ''a'') = Some (sample_leaf ''a'')"
    by (simp add: idle_machine_def stored_session_def)
  moreover have "index_id (sample_leaf ''a'') = ''a''"
    "bin_config_file (rt_paths linux_runtime) MAIN_CONFIG_FILE_NAME = ''/tmp/c/config.json''"
    by code_simp+
  ultimately show ?thesis using connect_delivers[OF r a] r by (auto simp: Let_def)
qed

end
