(* ===== verification/SystemProxy.thy ===== *)
theory SystemProxy
  imports Tasks Supervisor NetAddr Entities
begin

text \<open>
  The system proxy: \<open>voya-platform/src/sysproxy.rs\<close> with \<open>sysproxy/backend.rs\<close>, which plans and
  applies a mode, and \<open>voya-app/src/sysproxy.rs\<close>, which keeps a marker file while the proxy of the
  system may point at the program, so that the next start can take it back.

  The machine is what these files touch: the values written to the Windows registry, the
  arguments of the last proxy script, the files, the PAC server. Each call of the operating system
  takes the next answer of \<open>answers\<close>: it succeeds, or it fails and may have had its effect all the
  same. Nothing swallows an error, so the states that failing calls leave are also those of a
  crash in between. The scripts themselves (shell text) are not modelled, only their arguments.
\<close>

section \<open>Requests and plans\<close>

definition PROXY_LOOPBACK :: string where "PROXY_LOOPBACK = ''127.0.0.1''"
definition PAC_FILE_NAME :: string where "PAC_FILE_NAME = ''pac.txt''"

definition newline :: string where "newline = [CHR 0x0A]"

definition DEFAULT_PAC_TEMPLATE :: string where
  "DEFAULT_PAC_TEMPLATE = concat (map (\<lambda>l. l @ newline)
     [''var proxy = '' @ [CHR 0x27] @ ''__PROXY__'' @ [CHR 0x27] @ '';'',
      ''function FindProxyForURL(url, host) {'',
      ''  if (isPlainHostName(host) || shExpMatch(host, '' @ [CHR 0x22] @ ''localhost'' @ [CHR 0x22] @ '')) {'',
      ''    return '' @ [CHR 0x22] @ ''DIRECT'' @ [CHR 0x22] @ '';'',
      ''  }'',
      ''  return proxy;'',
      ''}''])"

definition LOCAL_EXCEPTIONS :: string where "LOCAL_EXCEPTIONS = ''<local>''"

definition WINDOWS_INTERNET_SETTINGS_REG_PATH :: string where
  "WINDOWS_INTERNET_SETTINGS_REG_PATH =
     ''HKCU'' @ [CHR 0x5C] @ ''Software'' @ [CHR 0x5C] @ ''Microsoft'' @ [CHR 0x5C] @ ''Windows'' @ [CHR 0x5C]
     @ ''CurrentVersion'' @ [CHR 0x5C] @ ''Internet Settings''"

definition LINUX_PROXY_SCRIPT_NAME :: string where "LINUX_PROXY_SCRIPT_NAME = ''proxy_set_linux.sh''"
definition MACOS_PROXY_SCRIPT_NAME :: string where "MACOS_PROXY_SCRIPT_NAME = ''proxy_set_osx.sh''"

record system_proxy_request =
  rq_target_os :: target_os
  rq_item :: system_proxy_item
  rq_force_disable :: bool
  rq_socks_port :: i32
  rq_pac_port :: i32
  rq_config_dir :: string
  rq_script_dir :: string
  rq_pac_url_nonce :: string

record system_proxy_status =
  st_requested_type :: sys_proxy_type
  st_effective_type :: sys_proxy_type
  st_target_os :: target_os
  st_pac_available :: bool
  st_proxy :: "string option"
  st_exceptions :: string
  st_pac_url :: "string option"

datatype windows_proxy_option = Wo_Direct | Wo_NamedProxy | Wo_PacUrl

record windows_proxy_settings =
  wp_proxy :: string
  wp_exceptions :: string
  wp_option_type :: windows_proxy_option

record generated_script =
  gs_directory :: string
  gs_path :: string
  gs_executable :: bool

record script_invocation =
  sc_executable :: string
  sc_arguments :: "string list"
  sc_generated_script :: "generated_script option"

datatype system_proxy_action =
    Noop
  | WindowsSetProxy windows_proxy_settings
  | WindowsClear
  | WindowsSetPac string
  | LinuxSet script_invocation string i32 string
  | LinuxClear script_invocation
  | MacosSet script_invocation string i32 string
  | MacosClear script_invocation
  | MacosSetPac script_invocation
  | UnsupportedPac

record system_proxy_plan =
  pl_action :: system_proxy_action
  pl_status :: system_proxy_status

datatype system_proxy_error =
    Xe_InvalidPort i32
  | Xe_UnsupportedPlatform target_os
  | Xe_InvalidProxyException string string
  | Xe_PacUnsupported target_os
  | Xe_Process
  | Xe_CommandFailed string "int option" string
  | Xe_PacListen i32
  | Xe_PacSetNonblocking
  | Xe_PacRead string
  | Xe_PacWrite string

definition pac_available :: "target_os \<Rightarrow> bool" where
  "pac_available os \<longleftrightarrow> os = Os_Windows \<or> os = Os_Macos"

definition from_request_with_exceptions ::
    "system_proxy_request \<Rightarrow> sys_proxy_type \<Rightarrow> string \<Rightarrow> system_proxy_status" where
  "from_request_with_exceptions request effective exceptions =
     \<lparr>st_requested_type = system_proxy_type (rq_item request), st_effective_type = effective,
      st_target_os = rq_target_os request, st_pac_available = pac_available (rq_target_os request),
      st_proxy = None, st_exceptions = exceptions, st_pac_url = None\<rparr>"

section \<open>Exceptions\<close>

definition contains_forbidden_proxy_exception_char :: "string \<Rightarrow> bool" where
  "contains_forbidden_proxy_exception_char v \<longleftrightarrow>
     list_ex (\<lambda>c. c \<in> set ([CHR 0x27, CHR 0x22, CHR 0x60, CHR 0x5C] @ ''$;|&()[]{}<>!*?~'')
        \<or> c \<in> {CHR 0x20, CHR 0x09, CHR 0x0A, CHR 0x0C, CHR 0x0D} \<or> \<not> byte_of c < 128) v"

definition is_valid_hostname_label :: "string \<Rightarrow> bool" where
  "is_valid_hostname_label label \<longleftrightarrow>
     label \<noteq> [] \<and> length label \<le> 63 \<and> is_ascii_alphanumeric (hd label)
     \<and> list_all (\<lambda>c. is_ascii_alphanumeric c \<or> c = CHR ''-'') (tl label)
     \<and> is_ascii_alphanumeric (last label)"

definition is_valid_hostname :: "string \<Rightarrow> bool" where
  "is_valid_hostname v =
     (let hostname = unwrap_or (strip_suffix ''.'' v) v
      in hostname \<noteq> [] \<and> length hostname \<le> 253
         \<and> list_all is_valid_hostname_label (split_on (\<lambda>c. c = CHR ''.'') hostname))"

definition max_prefix :: "ip_addr \<Rightarrow> nat" where
  "max_prefix ip = (case ip of V4 _ \<Rightarrow> 32 | V6 _ \<Rightarrow> 128)"

definition validate_cidr_exception :: "string \<Rightarrow> system_proxy_error + unit" where
  "validate_cidr_exception v =
     (case split_once (CHR ''/'') v of
        None \<Rightarrow> Inl (Xe_InvalidProxyException v ''expected a CIDR range'')
      | Some (ip, pre) \<Rightarrow>
          if pre = [] \<or> \<not> list_all is_ascii_digit pre
          then Inl (Xe_InvalidProxyException v ''expected a numeric CIDR prefix length'')
          else
            (case parse_ip ip of
               None \<Rightarrow> Inl (Xe_InvalidProxyException v ''expected a CIDR IP address'')
             | Some a \<Rightarrow>
                 (case parse_u8 pre of
                    None \<Rightarrow> Inl (Xe_InvalidProxyException v ''CIDR prefix length is out of range'')
                  | Some n \<Rightarrow>
                      if max_prefix a < n
                      then Inl (Xe_InvalidProxyException v ''CIDR prefix length is out of range'')
                      else Inr ())))"

definition validate_proxy_exception :: "string \<Rightarrow> system_proxy_error + unit" where
  "validate_proxy_exception v =
     (if v = [] then Inl (Xe_InvalidProxyException v ''empty exception entry'')
      else if contains_forbidden_proxy_exception_char v
      then Inl (Xe_InvalidProxyException v ''contains forbidden shell or gsettings metacharacters'')
      else if CHR ''/'' \<in> set v then validate_cidr_exception v
      else if parse_ip v \<noteq> None \<or> is_valid_hostname v then Inr ()
      else Inl (Xe_InvalidProxyException v ''expected a hostname, IP address, or CIDR range''))"

definition is_list_comma :: "char \<Rightarrow> bool" where
  "is_list_comma c \<longleftrightarrow> c = CHR '',''"

text \<open>\<open>collect\<close> into a \<open>Result\<close>: the first error, or all values.\<close>

fun validated_entries :: "string list \<Rightarrow> system_proxy_error + string list" where
  "validated_entries [] = Inr []"
| "validated_entries (raw # rest) =
     (case validate_proxy_exception (trim raw) of
        Inl e \<Rightarrow> Inl e
      | Inr _ \<Rightarrow>
          (case validated_entries rest of
             Inl e \<Rightarrow> Inl e
           | Inr vs \<Rightarrow> Inr (trim raw # vs)))"

definition validated_proxy_exceptions :: "string \<Rightarrow> system_proxy_error + string list" where
  "validated_proxy_exceptions input =
     (if trim input = [] then Inr [] else validated_entries (split_on is_list_comma (trim input)))"

definition exceptions_to_csv :: "string list \<Rightarrow> string" where
  "exceptions_to_csv entries = join_with '','' entries"

definition windows_exceptions :: "system_proxy_item \<Rightarrow> string list \<Rightarrow> string" where
  "windows_exceptions item entries =
     (let exceptions = join_with '';'' entries
      in if not_proxy_local_address item \<and> exceptions = [] then LOCAL_EXCEPTIONS
         else if not_proxy_local_address item then LOCAL_EXCEPTIONS @ '';'' @ exceptions
         else exceptions)"

section \<open>Planning\<close>

definition effective_type_of :: "sys_proxy_type \<Rightarrow> bool \<Rightarrow> sys_proxy_type" where
  "effective_type_of t force_disable =
     (if force_disable \<and> t \<noteq> Sp_Unchanged then Sp_ForcedClear else t)"

definition build_windows_proxy_settings_with_exceptions ::
    "system_proxy_item \<Rightarrow> i32 \<Rightarrow> string list \<Rightarrow> windows_proxy_settings" where
  "build_windows_proxy_settings_with_exceptions item p entries =
     (let protocol = system_proxy_advanced_protocol item;
          proxy =
            (if trim protocol = [] then PROXY_LOOPBACK @ '':'' @ show_int p
             else replace_str ''{socks_port}'' (show_int p)
                    (replace_str ''{http_port}'' (show_int p) (replace_str ''{ip}'' PROXY_LOOPBACK protocol)))
      in \<lparr>wp_proxy = proxy, wp_exceptions = windows_exceptions item entries, wp_option_type = Wo_NamedProxy\<rparr>)"

definition build_windows_proxy_settings ::
    "system_proxy_item \<Rightarrow> i32 \<Rightarrow> system_proxy_error + windows_proxy_settings" where
  "build_windows_proxy_settings item p =
     (case validated_proxy_exceptions (system_proxy_exceptions item) of
        Inl e \<Rightarrow> Inl e
      | Inr entries \<Rightarrow> Inr (build_windows_proxy_settings_with_exceptions item p entries))"

definition pac_url :: "system_proxy_request \<Rightarrow> string" where
  "pac_url request =
     ''http://'' @ PROXY_LOOPBACK @ '':'' @ show_int (rq_pac_port request) @ ''/pac?t='' @ rq_pac_url_nonce request"

definition path_join :: "string \<Rightarrow> string \<Rightarrow> string" where
  "path_join dir name = dir @ ''/'' @ name"

text \<open>What there is to plan with: which paths exist.\<close>

definition custom_script_path :: "(string \<Rightarrow> bool) \<Rightarrow> system_proxy_item \<Rightarrow> string option" where
  "custom_script_path exists item =
     opt_filter exists (opt_filter (\<lambda>p. trim p \<noteq> []) (custom_system_proxy_script_path item))"

definition script_target ::
    "(string \<Rightarrow> bool) \<Rightarrow> system_proxy_request \<Rightarrow> string \<Rightarrow> string \<times> generated_script option" where
  "script_target exists request name =
     (case custom_script_path exists (rq_item request) of
        Some custom \<Rightarrow> (custom, None)
      | None \<Rightarrow>
          (let executable = path_join (rq_script_dir request) name
           in (executable,
               Some \<lparr>gs_directory = rq_script_dir request, gs_path = executable, gs_executable = True\<rparr>)))"

definition linux_script_invocation ::
    "(string \<Rightarrow> bool) \<Rightarrow> system_proxy_request \<Rightarrow> string \<Rightarrow> (string \<times> i32 \<times> string) option \<Rightarrow> script_invocation" where
  "linux_script_invocation exists request mode manual =
     (let (executable, script) = script_target exists request LINUX_PROXY_SCRIPT_NAME
      in \<lparr>sc_executable = executable,
          sc_arguments =
            mode # (case manual of
                      None \<Rightarrow> []
                    | Some (host, p, exceptions) \<Rightarrow> [host, show_int p, exceptions]),
          sc_generated_script = script\<rparr>)"

definition macos_script_invocation ::
    "(string \<Rightarrow> bool) \<Rightarrow> system_proxy_request \<Rightarrow> string \<Rightarrow> (string \<times> i32 \<times> string) option \<Rightarrow> script_invocation" where
  "macos_script_invocation exists request mode manual =
     (let (executable, script) = script_target exists request MACOS_PROXY_SCRIPT_NAME
      in \<lparr>sc_executable = executable,
          sc_arguments =
            mode # (case manual of
                      None \<Rightarrow> []
                    | Some (host, p, exceptions) \<Rightarrow>
                        [host, show_int p]
                        @ filter (\<lambda>v. v \<noteq> []) (map trim (split_on is_list_comma exceptions))),
          sc_generated_script = script\<rparr>)"

definition macos_pac_script_invocation ::
    "(string \<Rightarrow> bool) \<Rightarrow> system_proxy_request \<Rightarrow> string \<Rightarrow> script_invocation" where
  "macos_pac_script_invocation exists request url =
     (let (executable, script) = script_target exists request MACOS_PROXY_SCRIPT_NAME
      in \<lparr>sc_executable = executable, sc_arguments = [''pac'', url], sc_generated_script = script\<rparr>)"

definition plan_action ::
    "(string \<Rightarrow> bool) \<Rightarrow> system_proxy_request \<Rightarrow> string list \<Rightarrow> system_proxy_status
       \<Rightarrow> system_proxy_error + system_proxy_action \<times> system_proxy_status" where
  "plan_action exists request entries status =
     (let csv = exceptions_to_csv entries; p = rq_socks_port request; url = pac_url request;
          pac_status = status\<lparr>st_proxy := Some url, st_pac_url := Some url, st_exceptions := []\<rparr>
      in case (st_effective_type status, rq_target_os request) of
           (Sp_ForcedChange, Os_Windows) \<Rightarrow>
             (let settings = build_windows_proxy_settings_with_exceptions (rq_item request) p entries
              in Inr (WindowsSetProxy settings,
                   status\<lparr>st_proxy := Some (wp_proxy settings), st_exceptions := wp_exceptions settings\<rparr>))
         | (Sp_ForcedChange, Os_Linux) \<Rightarrow>
             Inr (LinuxSet (linux_script_invocation exists request ''manual'' (Some (PROXY_LOOPBACK, p, csv)))
                    PROXY_LOOPBACK p csv, status)
         | (Sp_ForcedChange, Os_Macos) \<Rightarrow>
             Inr (MacosSet (macos_script_invocation exists request ''set'' (Some (PROXY_LOOPBACK, p, csv)))
                    PROXY_LOOPBACK p csv, status)
         | (Sp_ForcedClear, Os_Windows) \<Rightarrow> Inr (WindowsClear, status)
         | (Sp_ForcedClear, Os_Linux) \<Rightarrow>
             Inr (LinuxClear (linux_script_invocation exists request ''none'' None), status)
         | (Sp_ForcedClear, Os_Macos) \<Rightarrow>
             Inr (MacosClear (macos_script_invocation exists request ''clear'' None), status)
         | (Sp_Unchanged, _) \<Rightarrow> Inr (Noop, status)
         | (Sp_Pac, Os_Windows) \<Rightarrow> Inr (WindowsSetPac url, pac_status)
         | (Sp_Pac, Os_Macos) \<Rightarrow> Inr (MacosSetPac (macos_pac_script_invocation exists request url), pac_status)
         | (_, Os_Other) \<Rightarrow> Inl (Xe_UnsupportedPlatform Os_Other)
         | (Sp_Pac, _) \<Rightarrow> Inr (UnsupportedPac, status\<lparr>st_effective_type := Sp_Unchanged\<rparr>))"

definition plan_system_proxy ::
    "(string \<Rightarrow> bool) \<Rightarrow> system_proxy_request \<Rightarrow> system_proxy_error + system_proxy_plan" where
  "plan_system_proxy exists request =
     (if rq_socks_port request \<le> 0 then Inl (Xe_InvalidPort (rq_socks_port request))
      else if rq_pac_port request \<le> 0 then Inl (Xe_InvalidPort (rq_pac_port request))
      else case validated_proxy_exceptions (system_proxy_exceptions (rq_item request)) of
             Inl e \<Rightarrow> Inl e
           | Inr entries \<Rightarrow>
               (let effective =
                      effective_type_of (system_proxy_type (rq_item request)) (rq_force_disable request)
                in case plan_action exists request entries
                          (from_request_with_exceptions request effective (exceptions_to_csv entries)) of
                     Inl e \<Rightarrow> Inl e
                   | Inr (action, status) \<Rightarrow> Inr \<lparr>pl_action = action, pl_status = status\<rparr>))"

section \<open>The machine\<close>

record pac_server =
  pv_http_port :: i32
  pv_pac_port :: i32
  pv_content :: string

datatype os_reply = Succeeds | Fails bool | Exits bool int string

record machine =
  registry :: "string \<rightharpoonup> string"
  desktop :: "string list"
  files :: "string \<rightharpoonup> string"
  pac_running :: "pac_server option"
  answers :: "os_reply list"

type_synonym ('e, 'a) on_machine = "(machine, 'e, 'a) stateful"

definition next_answer :: "machine \<Rightarrow> os_reply \<times> machine" where
  "next_answer w = (case answers w of [] \<Rightarrow> (Succeeds, w) | a # rest \<Rightarrow> (a, w\<lparr>answers := rest\<rparr>))"

text \<open>A system call with an effect, answered with success or an error.\<close>

definition sys_call :: "'e \<Rightarrow> (machine \<Rightarrow> machine) \<Rightarrow> ('e, unit) on_machine" where
  "sys_call e effect w =
     (case next_answer w of
        (Succeeds, w) \<Rightarrow> (Inr (), effect w)
      | (Fails done, w) \<Rightarrow> (Inl e, if done then effect w else w)
      | (Exits done _ _, w) \<Rightarrow> (Inl e, if done then effect w else w))"

definition sys_get :: "'e \<Rightarrow> (machine \<Rightarrow> 'a) \<Rightarrow> ('e, 'a) on_machine" where
  "sys_get e f w =
     (case next_answer w of
        (Succeeds, w) \<Rightarrow> (Inr (f w), w)
      | (_, w) \<Rightarrow> (Inl e, w))"

text \<open>
  A spawn of \<open>ProcessRunner::run_oneshot\<close> with its scripts, and what a command that takes effect
  leaves: \<open>reg add\<close> its value, a proxy script its arguments.
\<close>

record proxy_spawn = process_spawn +
  ps_generated_scripts :: "generated_script list"

definition spawn_effect :: "proxy_spawn \<Rightarrow> machine \<Rightarrow> machine" where
  "spawn_effect s w =
     (if ps_executable s = ''reg'' \<and> take 1 (ps_arguments s) = [''add'']
      then w\<lparr>registry := (registry w)(ps_arguments s ! 3 \<mapsto> ps_arguments s ! 7)\<rparr>
      else w\<lparr>desktop := ps_arguments s\<rparr>)"

definition run_oneshot :: "proxy_spawn \<Rightarrow> (system_proxy_error, process_output) on_machine" where
  "run_oneshot s w =
     (case next_answer w of
        (Succeeds, w) \<Rightarrow> (Inr \<lparr>po_status_code = Some 0, po_stdout = [], po_stderr = []\<rparr>, spawn_effect s w)
      | (Fails done, w) \<Rightarrow> (Inl Xe_Process, if done then spawn_effect s w else w)
      | (Exits done code err, w) \<Rightarrow>
          (Inr \<lparr>po_status_code = Some code, po_stdout = [], po_stderr = err\<rparr>,
           if done \<or> code = 0 then spawn_effect s w else w))"

section \<open>Applying (sysproxy/backend.rs)\<close>

definition ensure_success :: "process_output \<Rightarrow> string \<Rightarrow> (system_proxy_error, unit) on_machine" where
  "ensure_success output what =
     (if po_status_code output = Some 0 then give ()
      else give_up (Xe_CommandFailed what (po_status_code output) (po_stderr output)))"

definition sysproxy_spawn :: "string \<Rightarrow> string list \<Rightarrow> generated_script list \<Rightarrow> proxy_spawn" where
  "sysproxy_spawn executable args scripts =
     \<lparr>ps_role = Role_SysProxy, ps_executable = executable, ps_arguments = args, ps_working_dir = [],
      ps_environment = [], ps_display_log = True, ps_generated_scripts = scripts\<rparr>"

definition run_script :: "script_invocation \<Rightarrow> (system_proxy_error, unit) on_machine" where
  "run_script s =
     and_then (run_oneshot (sysproxy_spawn (sc_executable s) (sc_arguments s)
        (case sc_generated_script s of None \<Rightarrow> [] | Some g \<Rightarrow> [g])))
       (\<lambda>output. ensure_success output ''system proxy script'')"

definition registry_set :: "string \<Rightarrow> string \<Rightarrow> string \<Rightarrow> proxy_spawn" where
  "registry_set name value_type v =
     sysproxy_spawn ''reg''
       [''add'', WINDOWS_INTERNET_SETTINGS_REG_PATH, ''/v'', name, ''/t'', value_type, ''/d'', v, ''/f''] []"

definition registry_set_dword :: "string \<Rightarrow> nat \<Rightarrow> proxy_spawn" where
  "registry_set_dword name v = registry_set name ''REG_DWORD'' (show_nat v)"

definition registry_set_string :: "string \<Rightarrow> string \<Rightarrow> proxy_spawn" where
  "registry_set_string name v = registry_set name ''REG_SZ'' v"

definition windows_registry_commands :: "windows_proxy_settings \<Rightarrow> proxy_spawn list" where
  "windows_registry_commands settings =
     (case wp_option_type settings of
        Wo_Direct \<Rightarrow>
          [registry_set_dword ''ProxyEnable'' 0, registry_set_string ''ProxyServer'' [],
           registry_set_string ''ProxyOverride'' [], registry_set_string ''AutoConfigURL'' []]
      | Wo_NamedProxy \<Rightarrow>
          [registry_set_dword ''ProxyEnable'' 1, registry_set_string ''ProxyServer'' (wp_proxy settings),
           registry_set_string ''ProxyOverride'' (wp_exceptions settings),
           registry_set_string ''AutoConfigURL'' []]
      | Wo_PacUrl \<Rightarrow>
          [registry_set_dword ''ProxyEnable'' 0, registry_set_string ''ProxyServer'' [],
           registry_set_string ''ProxyOverride'' [],
           registry_set_string ''AutoConfigURL'' (wp_proxy settings)])"

definition apply_windows_proxy :: "windows_proxy_settings \<Rightarrow> (system_proxy_error, unit) on_machine" where
  "apply_windows_proxy settings =
     for_each (\<lambda>c. and_then (run_oneshot c) (\<lambda>output. ensure_success output ''windows registry proxy command''))
       (windows_registry_commands settings)"

definition apply_windows_clear :: "(system_proxy_error, unit) on_machine" where
  "apply_windows_clear = apply_windows_proxy \<lparr>wp_proxy = [], wp_exceptions = [], wp_option_type = Wo_Direct\<rparr>"

section \<open>The PAC server\<close>

record pac_start_config =
  pc_http_port :: i32
  pc_pac_port :: i32
  pc_config_dir :: string
  pc_custom_pac_path :: "string option"

definition read_pac :: "string \<Rightarrow> (system_proxy_error, string) on_machine" where
  "read_pac path =
     and_then (sys_get (Xe_PacRead path) (\<lambda>w. files w path))
       (\<lambda>found. case found of None \<Rightarrow> give_up (Xe_PacRead path) | Some s \<Rightarrow> give s)"

definition on_files :: "((string \<rightharpoonup> string) \<Rightarrow> (string \<rightharpoonup> string)) \<Rightarrow> machine \<Rightarrow> machine" where
  "on_files f w = w\<lparr>files := f (files w)\<rparr>"

definition load_pac_text :: "pac_start_config \<Rightarrow> (system_proxy_error, string) on_machine" where
  "load_pac_text config w =
     (case opt_filter (\<lambda>p. files w p \<noteq> None) (opt_filter (\<lambda>p. trim p \<noteq> []) (pc_custom_pac_path config)) of
        Some custom \<Rightarrow> read_pac custom w
      | None \<Rightarrow>
          and_then (sys_call (Xe_PacWrite (pc_config_dir config)) (\<lambda>w. w)) (\<lambda>_ w.
            (let path = path_join (pc_config_dir config) PAC_FILE_NAME
             in and_then
                  (if files w path = None
                   then sys_call (Xe_PacWrite path) (on_files (\<lambda>fs. fs(path \<mapsto> DEFAULT_PAC_TEMPLATE)))
                   else give ())
                  (\<lambda>_. read_pac path) w)) w)"

definition crlf :: string where "crlf = [CHR 0x0D, CHR 0x0A]"

definition pac_http_response :: "pac_start_config \<Rightarrow> (system_proxy_error, string) on_machine" where
  "pac_http_response config =
     and_then (load_pac_text config) (\<lambda>source.
       (let pac = replace_str ''__PROXY__''
                (''PROXY '' @ PROXY_LOOPBACK @ '':'' @ show_int (pc_http_port config) @ '';DIRECT;'') source
        in give (''HTTP/1.0 200 OK'' @ crlf
             @ ''Content-type:application/x-ns-proxy-autoconfig'' @ crlf
             @ ''Connection:close'' @ crlf
             @ ''Content-Length:'' @ show_nat (length pac) @ crlf
             @ crlf @ pac)))"

definition to_u16_port :: "i32 \<Rightarrow> system_proxy_error + u16" where
  "to_u16_port p = (if 0 \<le> p \<and> p \<le> 65535 then Inr (nat p) else Inl (Xe_InvalidPort p))"

definition needs_restart :: "pac_start_config \<Rightarrow> machine \<Rightarrow> bool" where
  "needs_restart config w =
     (case pac_running w of
        None \<Rightarrow> True
      | Some r \<Rightarrow> pv_http_port r \<noteq> pc_http_port config \<or> pv_pac_port r \<noteq> pc_pac_port config)"

definition local_pac_start :: "pac_start_config \<Rightarrow> (system_proxy_error, unit) on_machine" where
  "local_pac_start config w =
     (if \<not> needs_restart config w then (Inr (), w)
      else
        and_then (pac_http_response config) (\<lambda>content.
          case to_u16_port (pc_pac_port config) of
            Inl e \<Rightarrow> give_up e
          | Inr _ \<Rightarrow>
              and_then (sys_call (Xe_PacListen (pc_pac_port config)) (\<lambda>w. w)) (\<lambda>_.
              and_then (sys_call Xe_PacSetNonblocking (\<lambda>w. w)) (\<lambda>_ w.
                (Inr (), w\<lparr>pac_running := Some \<lparr>pv_http_port = pc_http_port config,
                   pv_pac_port = pc_pac_port config, pv_content = content\<rparr>\<rparr>))))
          (w\<lparr>pac_running := None\<rparr>))"

definition local_pac_stop :: "machine \<Rightarrow> machine" where
  "local_pac_stop w = w\<lparr>pac_running := None\<rparr>"

text \<open>\<open>platform_pac_manager\<close>: the local server on Windows and macOS, none elsewhere.\<close>

definition pac_start :: "target_os \<Rightarrow> pac_start_config \<Rightarrow> (system_proxy_error, unit) on_machine" where
  "pac_start os config = (if pac_available os then local_pac_start config else give_up (Xe_PacUnsupported os))"

definition pac_stop :: "target_os \<Rightarrow> machine \<Rightarrow> machine" where
  "pac_stop os w = (if pac_available os then local_pac_stop w else w)"

definition pac_config :: "system_proxy_request \<Rightarrow> pac_start_config" where
  "pac_config request =
     \<lparr>pc_http_port = rq_socks_port request, pc_pac_port = rq_pac_port request,
      pc_config_dir = rq_config_dir request, pc_custom_pac_path = custom_system_proxy_pac_path (rq_item request)\<rparr>"

section \<open>The service\<close>

definition run_action ::
    "system_proxy_request \<Rightarrow> system_proxy_action \<Rightarrow> (system_proxy_error, unit) on_machine" where
  "run_action request action =
     (case action of
        Noop \<Rightarrow> give ()
      | UnsupportedPac \<Rightarrow> give ()
      | WindowsSetProxy settings \<Rightarrow> apply_windows_proxy settings
      | WindowsClear \<Rightarrow> apply_windows_clear
      | WindowsSetPac url \<Rightarrow>
          and_then (pac_start (rq_target_os request) (pac_config request)) (\<lambda>_.
            apply_windows_proxy \<lparr>wp_proxy = url, wp_exceptions = [], wp_option_type = Wo_PacUrl\<rparr>)
      | MacosSetPac script \<Rightarrow>
          and_then (pac_start (rq_target_os request) (pac_config request)) (\<lambda>_. run_script script)
      | LinuxSet script _ _ _ \<Rightarrow> run_script script
      | LinuxClear script \<Rightarrow> run_script script
      | MacosSet script _ _ _ \<Rightarrow> run_script script
      | MacosClear script \<Rightarrow> run_script script)"

definition service_apply :: "system_proxy_request \<Rightarrow> (system_proxy_error, system_proxy_status) on_machine" where
  "service_apply request w =
     (case plan_system_proxy (\<lambda>p. files w p \<noteq> None) request of
        Inl e \<Rightarrow> (Inl e, w)
      | Inr plan \<Rightarrow>
          and_then (run_action request (pl_action plan)) (\<lambda>_. give (pl_status plan))
            (if st_effective_type (pl_status plan) \<noteq> Sp_Pac then pac_stop (rq_target_os request) w else w))"

section \<open>The manager (voya-app/src/sysproxy.rs)\<close>

record app_paths =
  ap_config_dir :: string
  ap_temp_dir :: string

record proxy_manager =
  pm_paths :: app_paths
  pm_target_os :: target_os

datatype proxy_manager_error =
    Ye_PacUnavailable target_os
  | Ye_Path
  | Ye_SystemProxy system_proxy_error
  | Ye_DirtyMarkerInspect
  | Ye_DirtyMarkerWrite
  | Ye_DirtyMarkerRemove

definition SYSPROXY_SCRIPT_DIR_NAME :: string where "SYSPROXY_SCRIPT_DIR_NAME = ''sysproxy''"
definition SYSPROXY_DIRTY_MARKER_FILE_NAME :: string where "SYSPROXY_DIRTY_MARKER_FILE_NAME = ''proxy-dirty''"
definition SYSPROXY_DIRTY_MARKER_CONTENTS :: string where "SYSPROXY_DIRTY_MARKER_CONTENTS = ''dirty'' @ newline"

definition dirty_marker_path :: "proxy_manager \<Rightarrow> string" where
  "dirty_marker_path m = path_join (ap_config_dir (pm_paths m)) SYSPROXY_DIRTY_MARKER_FILE_NAME"

text \<open>\<open>AppPaths::ensure_dirs\<close>: six directories, which the model has no use for.\<close>

definition ensure_dirs :: "(proxy_manager_error, unit) on_machine" where
  "ensure_dirs = for_each (\<lambda>_. sys_call Ye_Path (\<lambda>w. w)) [(), (), (), (), (), ()]"

definition dirty_marker_exists :: "proxy_manager \<Rightarrow> (proxy_manager_error, bool) on_machine" where
  "dirty_marker_exists m = sys_get Ye_DirtyMarkerInspect (\<lambda>w. files w (dirty_marker_path m) \<noteq> None)"

text \<open>\<open>write\_file\_with\_parent\<close> creates the directory first; a failing write may leave the file.\<close>

definition write_dirty_marker :: "proxy_manager \<Rightarrow> (proxy_manager_error, unit) on_machine" where
  "write_dirty_marker m =
     and_then ensure_dirs (\<lambda>_.
     and_then (sys_call Ye_DirtyMarkerWrite (\<lambda>w. w)) (\<lambda>_.
       sys_call Ye_DirtyMarkerWrite
         (on_files (\<lambda>fs. fs(dirty_marker_path m \<mapsto> SYSPROXY_DIRTY_MARKER_CONTENTS)))))"

definition clear_dirty_marker :: "proxy_manager \<Rightarrow> (proxy_manager_error, unit) on_machine" where
  "clear_dirty_marker m =
     sys_call Ye_DirtyMarkerRemove (on_files (\<lambda>fs. fs(dirty_marker_path m := None)))"

definition first_port :: "app_config \<Rightarrow> i32" where
  "first_port config = (case inbound config of item # _ \<Rightarrow> local_port item | [] \<Rightarrow> DEFAULT_LOCAL_PORT)"

text \<open>The request; \<open>tick\<close> is the text of the clock.\<close>

definition proxy_request ::
    "proxy_manager \<Rightarrow> string \<Rightarrow> app_config \<Rightarrow> bool \<Rightarrow> (proxy_manager_error, system_proxy_request) on_machine" where
  "proxy_request m tick config force_disable =
     and_then ensure_dirs (\<lambda>_.
       give \<lparr>rq_target_os = pm_target_os m, rq_item = system_proxy config, rq_force_disable = force_disable,
         rq_socks_port = first_port config, rq_pac_port = i32_add (first_port config) (port_offset Ip_pac),
         rq_config_dir = ap_config_dir (pm_paths m),
         rq_script_dir = path_join (ap_temp_dir (pm_paths m)) SYSPROXY_SCRIPT_DIR_NAME,
         rq_pac_url_nonce = tick\<rparr>)"

definition request_sets_local_proxy :: "system_proxy_request \<Rightarrow> bool" where
  "request_sets_local_proxy request \<longleftrightarrow>
     \<not> rq_force_disable request
     \<and> (system_proxy_type (rq_item request) = Sp_ForcedChange
          \<and> rq_target_os request \<in> {Os_Windows, Os_Linux, Os_Macos}
        \<or> system_proxy_type (rq_item request) = Sp_Pac \<and> rq_target_os request \<in> {Os_Windows, Os_Macos})"

definition apply_and_clear ::
    "proxy_manager \<Rightarrow> system_proxy_request \<Rightarrow> (proxy_manager_error, system_proxy_status) on_machine" where
  "apply_and_clear m request =
     and_then (map_err Ye_SystemProxy (service_apply request)) (\<lambda>status.
     and_then (if st_effective_type status = Sp_ForcedClear then clear_dirty_marker m else give ()) (\<lambda>_.
       give status))"

definition apply_config ::
    "proxy_manager \<Rightarrow> string \<Rightarrow> app_config \<Rightarrow> bool \<Rightarrow> (proxy_manager_error, system_proxy_status) on_machine" where
  "apply_config m tick config force_disable =
     and_then (proxy_request m tick config force_disable) (\<lambda>request.
     and_then (if request_sets_local_proxy request then write_dirty_marker m else give ()) (\<lambda>_.
       apply_and_clear m request))"

definition proxy_status ::
    "proxy_manager \<Rightarrow> string \<Rightarrow> app_config \<Rightarrow> bool \<Rightarrow> (proxy_manager_error, system_proxy_status) on_machine" where
  "proxy_status m tick config force_disable =
     and_then (proxy_request m tick config force_disable) (\<lambda>request w.
       (case plan_system_proxy (\<lambda>p. files w p \<noteq> None) request of
          Inl e \<Rightarrow> (Inl (Ye_SystemProxy e), w)
        | Inr plan \<Rightarrow> (Inr (pl_status plan), w)))"

definition set_mode ::
    "proxy_manager \<Rightarrow> string \<Rightarrow> app_config \<Rightarrow> sys_proxy_type
       \<Rightarrow> machine \<Rightarrow> (proxy_manager_error + system_proxy_status) \<times> app_config \<times> machine" where
  "set_mode m tick config mode w =
     (if mode = Sp_Pac \<and> \<not> pac_available (pm_target_os m)
      then (Inl (Ye_PacUnavailable (pm_target_os m)), config, w)
      else
        (let config = config\<lparr>system_proxy := (system_proxy config)\<lparr>system_proxy_type := mode\<rparr>\<rparr>
         in case apply_config m tick config False w of (r, w) \<Rightarrow> (r, config, w)))"

definition restore ::
    "proxy_manager \<Rightarrow> string \<Rightarrow> app_config \<Rightarrow> (proxy_manager_error, system_proxy_status) on_machine" where
  "restore m tick config = apply_config m tick config True"

definition restore_dirty_proxy_if_needed ::
    "proxy_manager \<Rightarrow> string \<Rightarrow> app_config \<Rightarrow> (proxy_manager_error, bool) on_machine" where
  "restore_dirty_proxy_if_needed m tick config =
     and_then (dirty_marker_exists m) (\<lambda>found.
       if \<not> found then give False
       else
         and_then (proxy_request m tick config False) (\<lambda>request.
         and_then
           (apply_and_clear m (request\<lparr>rq_item := (rq_item request)\<lparr>system_proxy_type := Sp_ForcedClear\<rparr>\<rparr>))
           (\<lambda>_. give True)))"

section \<open>The runtime's policy\<close>

definition should_disable_native_tun_system_proxy :: "app_config \<Rightarrow> target_os \<Rightarrow> bool" where
  "should_disable_native_tun_system_proxy config os \<longleftrightarrow>
     enable_tun (tun_mode config) \<and> is_native (tun_backend_of os)"

definition should_apply_tun_system_proxy_fallback :: "app_config \<Rightarrow> target_os \<Rightarrow> bool" where
  "should_apply_tun_system_proxy_fallback config os \<longleftrightarrow>
     enable_tun (tun_mode config) \<and> system_proxy_type (system_proxy config) = Sp_ForcedClear
     \<and> tun_backend_of os = Tb_Process"

text \<open>The configuration to apply and whether to disable the proxy.\<close>

definition runtime_system_proxy_config :: "app_config \<Rightarrow> bool \<Rightarrow> target_os \<Rightarrow> app_config \<times> bool" where
  "runtime_system_proxy_config config force_disable os =
     (if force_disable then (config, force_disable)
      else if should_disable_native_tun_system_proxy config os then (config, True)
      else if should_apply_tun_system_proxy_fallback config os
      then (config\<lparr>system_proxy := (system_proxy config)\<lparr>system_proxy_type := Sp_ForcedChange\<rparr>\<rparr>, force_disable)
      else (config, force_disable))"

definition runtime_default_proxy_url :: "app_config \<Rightarrow> target_os \<Rightarrow> string option" where
  "runtime_default_proxy_url config os =
     (if enable_tun (tun_mode config) \<and> is_native (tun_backend_of os) then None
      else if 1 \<le> first_port config \<and> first_port config \<le> 65535
      then Some (''http://127.0.0.1:'' @ show_int (first_port config))
      else None)"

definition runtime_proxy_url :: "bool \<Rightarrow> string option \<Rightarrow> app_config \<Rightarrow> target_os \<Rightarrow> string option" where
  "runtime_proxy_url prefer_proxy url config os =
     (let explicit = opt_filter (\<lambda>u. u \<noteq> []) (map_option trim url)
      in if \<not> prefer_proxy then explicit
         else or_else explicit (runtime_default_proxy_url config os))"

end
