(* ===== verification/SystemProxyProps.thy ===== *)
theory SystemProxyProps
  imports SystemProxy AppSettings
begin

text \<open>
  The properties of the system proxy: whatever fails, the marker is there while the system may
  point at the program; the next start takes the proxy back; the exceptions that reach a script.
\<close>

section \<open>Pointing at the program\<close>

definition points_here :: "machine \<Rightarrow> bool" where
  "points_here w \<longleftrightarrow> registry w ''ProxyEnable'' = Some ''1''
     \<or> (\<exists>u. registry w ''AutoConfigURL'' = Some u \<and> u \<noteq> [])
     \<or> take 1 (desktop w) \<in> {[''manual''], [''set''], [''pac'']}"

text \<open>Windows is set through the registry, the other systems through a script.\<close>

definition os_fits :: "target_os \<Rightarrow> machine \<Rightarrow> bool" where
  "os_fits os w \<longleftrightarrow> (if os = Os_Windows then desktop w = [] else registry w = Map.empty)"

definition marked :: "proxy_manager \<Rightarrow> machine \<Rightarrow> bool" where
  "marked m w \<longleftrightarrow> files w (dirty_marker_path m) \<noteq> None"

definition safely :: "proxy_manager \<Rightarrow> machine \<Rightarrow> bool" where
  "safely m w \<longleftrightarrow> os_fits (pm_target_os m) w \<and> (points_here w \<longrightarrow> marked m w)"

lemma triple_for_each_in:
  "(\<And>x. x \<in> set xs \<Longrightarrow> triple I (f x) (\<lambda>_. I) I) \<Longrightarrow> triple I (for_each f xs) (\<lambda>_. I) I"
  by (induction xs) (auto intro: triple_give triple_and_then)

lemma sys_call_triple [triples]:
  "(\<And>w as. P w \<Longrightarrow> Q () (effect (w\<lparr>answers := as\<rparr>)) \<and> E (w\<lparr>answers := as\<rparr>) \<and> E (effect (w\<lparr>answers := as\<rparr>)))
    \<Longrightarrow> triple P (sys_call e effect) Q E"
proof (rule tripleI)
  fix w assume s: "\<And>w as. P w \<Longrightarrow> Q () (effect (w\<lparr>answers := as\<rparr>)) \<and> E (w\<lparr>answers := as\<rparr>)
      \<and> E (effect (w\<lparr>answers := as\<rparr>))" and "P w"
  from s[OF \<open>P w\<close>, of "answers w"] s[OF \<open>P w\<close>]
  show "case sys_call e effect w of (Inr x, t) \<Rightarrow> Q x t | (Inl d, t) \<Rightarrow> E t"
    by (auto simp: sys_call_def next_answer_def split: list.split os_reply.split)
qed

lemma sys_get_triple [triples]:
  "(\<And>w as. P w \<Longrightarrow> Q (f (w\<lparr>answers := as\<rparr>)) (w\<lparr>answers := as\<rparr>) \<and> E (w\<lparr>answers := as\<rparr>))
    \<Longrightarrow> triple P (sys_get e f) Q E"
proof (rule tripleI)
  fix w assume s: "\<And>w as. P w \<Longrightarrow> Q (f (w\<lparr>answers := as\<rparr>)) (w\<lparr>answers := as\<rparr>) \<and> E (w\<lparr>answers := as\<rparr>)" and "P w"
  from s[OF \<open>P w\<close>, of "answers w"] s[OF \<open>P w\<close>]
  show "case sys_get e f w of (Inr x, t) \<Rightarrow> Q x t | (Inl d, t) \<Rightarrow> E t"
    by (auto simp: sys_get_def next_answer_def split: list.split os_reply.split)
qed

lemma command_triple:
  assumes "\<And>w as. P w \<Longrightarrow> Q () (spawn_effect s (w\<lparr>answers := as\<rparr>))
      \<and> E (w\<lparr>answers := as\<rparr>) \<and> E (spawn_effect s (w\<lparr>answers := as\<rparr>))"
  shows "triple P (and_then (run_oneshot s) (\<lambda>output. ensure_success output what)) Q E"
proof (rule tripleI)
  fix w assume "P w"
  from assms[OF this, of "answers w"] assms[OF this]
  show "case and_then (run_oneshot s) (\<lambda>output. ensure_success output what) w of
      (Inr x, t) \<Rightarrow> Q x t | (Inl e, t) \<Rightarrow> E t"
    by (auto simp: and_then_def run_oneshot_def next_answer_def ensure_success_def give_def give_up_def
        split: list.split os_reply.split)
qed

lemma script_effect:
  "take 1 args \<noteq> [''add''] \<Longrightarrow> spawn_effect (sysproxy_spawn e args g) w = w\<lparr>desktop := args\<rparr>"
  by (simp add: spawn_effect_def sysproxy_spawn_def)

lemma registry_effect [simp]:
  "spawn_effect (registry_set name t v) w = w\<lparr>registry := (registry w)(name \<mapsto> v)\<rparr>"
  by (simp add: spawn_effect_def registry_set_def sysproxy_spawn_def)

section \<open>What a plan does\<close>

lemma plan_cases:
  assumes "plan_system_proxy ex rq = Inr plan"
  obtains (nothing) "pl_action plan = Noop \<or> pl_action plan = UnsupportedPac"
      "st_effective_type (pl_status plan) = Sp_Unchanged"
  | (windows_clear) "pl_action plan = WindowsClear" "st_effective_type (pl_status plan) = Sp_ForcedClear"
      "rq_target_os rq = Os_Windows"
  | (script_clear) script where "pl_action plan = LinuxClear script \<or> pl_action plan = MacosClear script"
      "sc_arguments script = [''none''] \<or> sc_arguments script = [''clear'']"
      "st_effective_type (pl_status plan) = Sp_ForcedClear" "rq_target_os rq \<noteq> Os_Windows"
  | (windows_set) "\<exists>settings. pl_action plan = WindowsSetProxy settings"
      "st_effective_type (pl_status plan) = Sp_ForcedChange"
      "rq_target_os rq = Os_Windows" "request_sets_local_proxy rq"
  | (windows_pac) "\<exists>url. pl_action plan = WindowsSetPac url"
      "st_effective_type (pl_status plan) = Sp_Pac"
      "rq_target_os rq = Os_Windows" "request_sets_local_proxy rq"
  | (script_set) script where
      "(\<exists>h p x. pl_action plan = LinuxSet script h p x) \<or> (\<exists>h p x. pl_action plan = MacosSet script h p x)
        \<or> pl_action plan = MacosSetPac script"
      "\<exists>mode rest. sc_arguments script = mode # rest \<and> mode \<in> {''manual'', ''set'', ''pac''}"
      "st_effective_type (pl_status plan) = Sp_ForcedChange \<or> st_effective_type (pl_status plan) = Sp_Pac"
      "rq_target_os rq \<noteq> Os_Windows" "request_sets_local_proxy rq"
  using assms
  by (auto simp: plan_system_proxy_def plan_action_def from_request_with_exceptions_def Let_def effective_type_of_def
      linux_script_invocation_def macos_script_invocation_def macos_pac_script_invocation_def
      request_sets_local_proxy_def case_prod_beta
      split: if_splits sum.splits sys_proxy_type.splits target_os.splits)

section \<open>What applying leaves\<close>

text \<open>A state predicate that only reads the files, the registry and the script arguments.\<close>

lemma points_answers [simp]:
  "points_here (w\<lparr>answers := as\<rparr>) = points_here w" "points_here (w\<lparr>pac_running := p\<rparr>) = points_here w"
  "points_here (on_files f w) = points_here w"
  "os_fits os (w\<lparr>answers := as\<rparr>) = os_fits os w" "os_fits os (w\<lparr>pac_running := p\<rparr>) = os_fits os w"
  "os_fits os (on_files f w) = os_fits os w"
  "marked m (w\<lparr>answers := as\<rparr>) = marked m w" "marked m (w\<lparr>pac_running := p\<rparr>) = marked m w"
  "marked m (w\<lparr>registry := r\<rparr>) = marked m w" "marked m (w\<lparr>desktop := d\<rparr>) = marked m w"
  by (simp_all add: points_here_def os_fits_def on_files_def marked_def)

lemma fits_registry [simp]: "os_fits Os_Windows (w\<lparr>registry := r\<rparr>) = os_fits Os_Windows w"
  by (simp add: os_fits_def)

lemma fits_desktop [simp]: "os \<noteq> Os_Windows \<Longrightarrow> os_fits os (w\<lparr>desktop := d\<rparr>) = os_fits os w"
  by (simp add: os_fits_def)

text \<open>The states the steps of applying keep, seen from a manager and its request.\<close>

definition quiet_at :: "proxy_manager \<Rightarrow> machine \<Rightarrow> bool" where
  "quiet_at m w \<longleftrightarrow> os_fits (pm_target_os m) w \<and> \<not> points_here w"

definition marked_at :: "proxy_manager \<Rightarrow> machine \<Rightarrow> bool" where
  "marked_at m w \<longleftrightarrow> os_fits (pm_target_os m) w \<and> marked m w"

lemma safely_alt: "safely m w \<longleftrightarrow> quiet_at m w \<or> marked_at m w"
  by (auto simp: safely_def quiet_at_def marked_at_def)

lemma marked_growing: "(\<And>p. fs p \<noteq> None \<Longrightarrow> g fs p \<noteq> None) \<Longrightarrow> files w = fs \<Longrightarrow> marked m w \<Longrightarrow> marked m (on_files g w)"
  by (simp add: marked_def on_files_def)

lemma load_pac_keeps: "triple (marked_at m) (load_pac_text c) (\<lambda>_. marked_at m) (marked_at m)"
proof -
  have read: "triple (marked_at m) (read_pac p) (\<lambda>_. marked_at m) (marked_at m)" for p
    unfolding read_pac_def
  proof (rule triple_and_then[where R = "\<lambda>_. marked_at m"])
    show "triple (marked_at m) (sys_get (Xe_PacRead p) (\<lambda>w. files w p)) (\<lambda>_. marked_at m) (marked_at m)"
      by (rule sys_get_triple) (simp add: marked_at_def)
    show "triple (marked_at m) (case found of None \<Rightarrow> give_up (Xe_PacRead p) | Some s \<Rightarrow> give s)
        (\<lambda>_. marked_at m) (marked_at m)" for found
      by (cases found) (auto intro: triples)
  qed
  have rest: "triple (marked_at m)
      (and_then (sys_call e (\<lambda>w. w)) (\<lambda>_ w.
            (let path = path_join (pc_config_dir c) PAC_FILE_NAME
             in and_then
                  (if files w path = None
                   then sys_call (Xe_PacWrite path) (on_files (\<lambda>fs. fs(path \<mapsto> DEFAULT_PAC_TEMPLATE)))
                   else give ())
                  (\<lambda>_. read_pac path) w))) (\<lambda>_. marked_at m) (marked_at m)" for e
  proof (rule triple_and_then[where R = "\<lambda>_. marked_at m"])
    show "triple (marked_at m) (sys_call e (\<lambda>w. w)) (\<lambda>_. marked_at m) (marked_at m)"
      by (rule triples) (simp add: marked_at_def)
    fix u
    have each: "triple (marked_at m)
        (and_then (if b then sys_call (Xe_PacWrite path) (on_files (\<lambda>fs. fs(path \<mapsto> DEFAULT_PAC_TEMPLATE))) else give ())
          (\<lambda>_. read_pac path)) (\<lambda>_. marked_at m) (marked_at m)" for b path
      by (rule triple_and_then[where R = "\<lambda>_. marked_at m"], intro triples)
        (auto simp: read marked_at_def marked_def on_files_def os_fits_def)
    show "triple (marked_at m) (\<lambda>w. let path = path_join (pc_config_dir c) PAC_FILE_NAME
             in and_then
                  (if files w path = None
                   then sys_call (Xe_PacWrite path) (on_files (\<lambda>fs. fs(path \<mapsto> DEFAULT_PAC_TEMPLATE)))
                   else give ())
                  (\<lambda>_. read_pac path) w) (\<lambda>_. marked_at m) (marked_at m)"
      unfolding triple_def Let_def by (intro allI impI) (rule each[unfolded triple_def, rule_format])
  qed
  show ?thesis
    using read rest unfolding triple_def load_pac_text_def by (simp split: option.split)
qed

lemma pac_start_keeps: "triple (marked_at m) (pac_start os c) (\<lambda>_. marked_at m) (marked_at m)"
proof -
  have "triple (marked_at m) (and_then (pac_http_response c) (\<lambda>content.
          case to_u16_port (pc_pac_port c) of
            Inl e \<Rightarrow> give_up e
          | Inr _ \<Rightarrow>
              and_then (sys_call (Xe_PacListen (pc_pac_port c)) (\<lambda>w. w)) (\<lambda>_.
              and_then (sys_call Xe_PacSetNonblocking (\<lambda>w. w)) (\<lambda>_ w.
                (Inr (), w\<lparr>pac_running := Some \<lparr>pv_http_port = pc_http_port c,
                   pv_pac_port = pc_pac_port c, pv_content = content\<rparr>\<rparr>)))))
        (\<lambda>_. marked_at m) (marked_at m)"
    unfolding pac_http_response_def Let_def
    by (cases "to_u16_port (pc_pac_port c)"; simp;
        intro triple_and_then[where R = "\<lambda>_. marked_at m"] load_pac_keeps triple_give triple_give_up sys_call_triple)
      (auto simp: marked_at_def triple_def)
  then show ?thesis
    unfolding pac_start_def local_pac_start_def triple_def
    by (auto simp: give_up_def marked_at_def split: if_splits prod.splits sum.splits)
qed

lemma run_script_keeps:
  assumes "take 1 (sc_arguments s) \<noteq> [''add'']" "pm_target_os m \<noteq> Os_Windows"
  shows "triple (marked_at m) (run_script s) (\<lambda>_. marked_at m) (marked_at m)"
  using assms unfolding run_script_def
  by (intro command_triple) (auto simp: script_effect marked_at_def)

lemma apply_windows_keeps:
  assumes "pm_target_os m = Os_Windows"
  shows "triple (marked_at m) (apply_windows_proxy settings) (\<lambda>_. marked_at m) (marked_at m)"
proof -
  have step: "triple (marked_at m)
      (and_then (run_oneshot (registry_set n t v)) (\<lambda>output. ensure_success output what)) (\<lambda>_. marked_at m) (marked_at m)"
    for n t v what using assms by (intro command_triple) (simp add: marked_at_def)
  show ?thesis
    unfolding apply_windows_proxy_def
    by (rule triple_for_each_in)
      (auto simp: windows_registry_commands_def registry_set_dword_def registry_set_string_def
        intro: step split: windows_proxy_option.splits)
qed

lemma script_clear_quiets:
  assumes "sc_arguments s = [''none''] \<or> sc_arguments s = [''clear'']" "pm_target_os m \<noteq> Os_Windows"
  shows "triple (\<lambda>w. os_fits (pm_target_os m) w) (run_script s) (\<lambda>_. quiet_at m) (\<lambda>w. True)"
    and "triple (quiet_at m) (run_script s) (\<lambda>_. quiet_at m) (quiet_at m)"
  using assms unfolding run_script_def
  by (auto intro!: command_triple simp: script_effect quiet_at_def points_here_def os_fits_def)

lemma windows_clear_quiets:
  assumes "pm_target_os m = Os_Windows"
  shows "triple (\<lambda>w. os_fits (pm_target_os m) w) apply_windows_clear (\<lambda>_. quiet_at m) (\<lambda>w. True)"
    and "triple (quiet_at m) apply_windows_clear (\<lambda>_. quiet_at m) (quiet_at m)"
proof -
  have zero: "show_nat 0 = ''0''" by code_simp
  have step: "triple P (and_then (run_oneshot (registry_set n t v)) (\<lambda>output. ensure_success output what)) Q E"
    if "\<And>w as. P w \<Longrightarrow> Q () (w\<lparr>answers := as, registry := (registry w)(n \<mapsto> v)\<rparr>)
      \<and> E (w\<lparr>answers := as\<rparr>) \<and> E (w\<lparr>answers := as, registry := (registry w)(n \<mapsto> v)\<rparr>)" for P Q E n t v what
    using that by (intro command_triple) simp
  show "triple (\<lambda>w. os_fits (pm_target_os m) w) apply_windows_clear (\<lambda>_. quiet_at m) (\<lambda>w. True)"
    unfolding apply_windows_clear_def apply_windows_proxy_def windows_registry_commands_def
      registry_set_dword_def registry_set_string_def
    apply simp
    apply (rule triple_and_then[where R = "\<lambda>_ w. desktop w = [] \<and> registry w ''ProxyEnable'' = Some ''0''"])
     apply (rule step) using assms apply (simp add: os_fits_def zero)
    apply (rule triple_and_then[where R = "\<lambda>_ w. desktop w = [] \<and> registry w ''ProxyEnable'' = Some ''0''"])
     apply (rule step) apply simp
    apply (rule triple_and_then[where R = "\<lambda>_ w. desktop w = [] \<and> registry w ''ProxyEnable'' = Some ''0''"])
     apply (rule step) apply simp
    apply (rule triple_and_then[where R = "\<lambda>_. quiet_at m"])
     apply (rule step) using assms apply (simp add: quiet_at_def points_here_def os_fits_def)
    apply (rule triple_give) apply simp
    done
  show "triple (quiet_at m) apply_windows_clear (\<lambda>_. quiet_at m) (quiet_at m)"
    unfolding apply_windows_clear_def apply_windows_proxy_def
    using assms
    by (intro triple_for_each_in)
      (auto simp: windows_registry_commands_def registry_set_dword_def registry_set_string_def zero
        quiet_at_def points_here_def os_fits_def intro!: step)
qed

section \<open>The manager\<close>

lemma triple_answered:
  "triple I m (\<lambda>_. I) I \<Longrightarrow> I w \<Longrightarrow>
    case and_then m (\<lambda>_. give x) w of (Inr _, t) \<Rightarrow> I t | (Inl _, t) \<Rightarrow> I t"
  by (auto simp: triple_def and_then_def give_def split: prod.splits sum.splits)

text \<open>With the marker in place applying keeps it; without one, and no proxy to set, it stays quiet.\<close>

lemma service_apply_marked:
  assumes "rq_target_os rq = pm_target_os m"
  shows "triple (marked_at m) (service_apply rq) (\<lambda>_. marked_at m) (marked_at m)"
proof (rule tripleI)
  fix w assume w: "marked_at m w"
  show "case service_apply rq w of (Inr x, t) \<Rightarrow> marked_at m t | (Inl e, t) \<Rightarrow> marked_at m t"
  proof (cases "plan_system_proxy (\<lambda>p. files w p \<noteq> None) rq")
    case (Inl e) then show ?thesis using w by (simp add: service_apply_def)
  next
    case (Inr plan)
    let ?w = "if st_effective_type (pl_status plan) \<noteq> Sp_Pac then pac_stop (rq_target_os rq) w else w"
    have "marked_at m ?w"
      using w by (auto simp: marked_at_def pac_stop_def local_pac_stop_def)
    moreover have "triple (marked_at m) (run_action rq (pl_action plan)) (\<lambda>_. marked_at m) (marked_at m)"
      using Inr
    proof (cases rule: plan_cases)
      case nothing
      then show ?thesis by (auto simp: run_action_def intro: triples)
    next
      case windows_clear
      then show ?thesis using assms by (simp add: run_action_def apply_windows_clear_def apply_windows_keeps)
    next
      case (script_clear script)
      then have "triple (marked_at m) (run_script script) (\<lambda>_. marked_at m) (marked_at m)"
        using assms by (intro run_script_keeps) auto
      with script_clear show ?thesis by (auto simp: run_action_def)
    next
      case windows_set
      then show ?thesis using assms by (auto simp: run_action_def apply_windows_keeps)
    next
      case windows_pac
      then show ?thesis
        using assms by (auto simp: run_action_def intro!: triple_and_then pac_start_keeps apply_windows_keeps)
    next
      case (script_set script)
      then have "triple (marked_at m) (run_script script) (\<lambda>_. marked_at m) (marked_at m)"
        using assms by (intro run_script_keeps) auto
      with script_set show ?thesis by (auto simp: run_action_def intro!: triple_and_then pac_start_keeps)
    qed
    ultimately show ?thesis
      using Inr triple_answered[of _ "run_action rq (pl_action plan)" ?w "pl_status plan"]
      by (simp add: service_apply_def split: if_splits)
  qed
qed

lemma service_apply_quiet:
  assumes "rq_target_os rq = pm_target_os m" "\<not> request_sets_local_proxy rq"
  shows "triple (quiet_at m) (service_apply rq) (\<lambda>_. quiet_at m) (quiet_at m)"
proof (rule tripleI)
  fix w assume w: "quiet_at m w"
  show "case service_apply rq w of (Inr x, t) \<Rightarrow> quiet_at m t | (Inl e, t) \<Rightarrow> quiet_at m t"
  proof (cases "plan_system_proxy (\<lambda>p. files w p \<noteq> None) rq")
    case (Inl e) then show ?thesis using w by (simp add: service_apply_def)
  next
    case (Inr plan)
    let ?w = "if st_effective_type (pl_status plan) \<noteq> Sp_Pac then pac_stop (rq_target_os rq) w else w"
    have "quiet_at m ?w"
      using w by (auto simp: quiet_at_def pac_stop_def local_pac_stop_def)
    moreover have "triple (quiet_at m) (run_action rq (pl_action plan)) (\<lambda>_. quiet_at m) (quiet_at m)"
      using Inr
    proof (cases rule: plan_cases)
      case nothing
      then show ?thesis by (auto simp: run_action_def intro: triples)
    next
      case windows_clear
      then show ?thesis using assms windows_clear_quiets(2) by (simp add: run_action_def)
    next
      case (script_clear script)
      then have "triple (quiet_at m) (run_script script) (\<lambda>_. quiet_at m) (quiet_at m)"
        using assms by (intro script_clear_quiets) auto
      with script_clear show ?thesis by (auto simp: run_action_def)
    qed (use assms in simp_all)
    ultimately show ?thesis
      using Inr triple_answered[of _ "run_action rq (pl_action plan)" ?w "pl_status plan"]
      by (simp add: service_apply_def split: if_splits)
  qed
qed

lemma service_apply_clears:
  assumes "rq_target_os rq = pm_target_os m" "os_fits (pm_target_os m) w"
    and s: "service_apply rq w = (Inr status, t)" and f: "st_effective_type status = Sp_ForcedClear"
  shows "quiet_at m t"
proof -
  obtain plan where p: "plan_system_proxy (\<lambda>p. files w p \<noteq> None) rq = Inr plan"
    and r: "run_action rq (pl_action plan) (pac_stop (rq_target_os rq) w) = (Inr (), t)"
    and st: "status = pl_status plan"
    using s f by (auto simp: service_apply_def and_then_Inr split: sum.splits if_splits)
  have w: "os_fits (pm_target_os m) (pac_stop (rq_target_os rq) w)"
    using assms(2) by (simp add: pac_stop_def local_pac_stop_def)
  from p show ?thesis
  proof (cases rule: plan_cases)
    case windows_clear
    then show ?thesis
      using r w assms(1) triple_Inr[OF windows_clear_quiets(1)] by (simp add: run_action_def)
  next
    case (script_clear script)
    then have "run_script script (pac_stop (rq_target_os rq) w) = (Inr (), t)" using r by (auto simp: run_action_def)
    then show ?thesis
      using script_clear assms(1) w triple_Inr[OF script_clear_quiets(1)] by simp
  qed (use f st in auto)
qed

lemma ensure_dirs_keeps:
  assumes "\<And>w as. I w \<Longrightarrow> I (w\<lparr>answers := as\<rparr>)"
  shows "triple I ensure_dirs (\<lambda>_. I) I"
  unfolding ensure_dirs_def using assms by (intro triple_for_each_in sys_call_triple) auto

lemma proxy_request_keeps:
  assumes "\<And>w as. I w \<Longrightarrow> I (w\<lparr>answers := as\<rparr>)"
  shows "triple I (proxy_request m tick config fd) (\<lambda>rq w. I w \<and> rq_target_os rq = pm_target_os m) I"
  unfolding proxy_request_def using ensure_dirs_keeps[of I] assms
  by (intro triple_and_then[where R = "\<lambda>_. I"] triple_give) auto

lemma answers_kept:
  "safely m w \<Longrightarrow> safely m (w\<lparr>answers := as\<rparr>)" "quiet_at m w \<Longrightarrow> quiet_at m (w\<lparr>answers := as\<rparr>)"
  "marked_at m w \<Longrightarrow> marked_at m (w\<lparr>answers := as\<rparr>)"
  by (simp_all add: safely_def quiet_at_def marked_at_def)

lemma write_marker_keeps: "triple (safely m) (write_dirty_marker m) (\<lambda>_. marked_at m) (safely m)"
proof -
  have "triple (safely m) ensure_dirs (\<lambda>_. safely m) (safely m)"
    by (rule ensure_dirs_keeps) (rule answers_kept)
  moreover have "triple (safely m) (sys_call e (\<lambda>w. w)) (\<lambda>_. safely m) (safely m)" for e
    by (rule sys_call_triple) (simp add: answers_kept)
  moreover have "triple (safely m)
      (sys_call e (on_files (\<lambda>fs. fs(dirty_marker_path m \<mapsto> SYSPROXY_DIRTY_MARKER_CONTENTS))))
      (\<lambda>_. marked_at m) (safely m)" for e
    by (rule sys_call_triple) (auto simp: safely_def marked_at_def marked_def on_files_def os_fits_def)
  ultimately show ?thesis
    unfolding write_dirty_marker_def by (intro triple_and_then) blast+
qed

lemma clear_marker_keeps: "triple (quiet_at m) (clear_dirty_marker m) (\<lambda>_ w. quiet_at m w \<and> \<not> marked m w) (quiet_at m)"
  unfolding clear_dirty_marker_def
  by (rule sys_call_triple) (simp add: quiet_at_def, simp add: marked_def on_files_def)

lemma clear_marker_quiet: "triple (quiet_at m) (clear_dirty_marker m) (\<lambda>_. quiet_at m) (quiet_at m)"
  by (rule triple_weaken[OF clear_marker_keeps]) simp_all

lemma apply_and_clear_keeps:
  assumes rq: "rq_target_os rq = pm_target_os m" and w: "safely m w"
    and mk: "request_sets_local_proxy rq \<Longrightarrow> marked_at m w"
  shows "safely m (snd (apply_and_clear m rq w))"
proof -
  have served: "safely m (snd (service_apply rq w))"
  proof (cases "marked_at m w")
    case True
    then show ?thesis using triple_after[OF service_apply_marked[OF rq] True] by (simp add: safely_alt)
  next
    case False
    then have "quiet_at m w" "\<not> request_sets_local_proxy rq" using w mk by (auto simp: safely_alt)
    then show ?thesis using triple_after[OF service_apply_quiet[OF rq]] by (simp add: safely_alt)
  qed
  show ?thesis
  proof (cases "service_apply rq w")
    case (Pair r t)
    show ?thesis
    proof (cases r)
      case (Inl e)
      then show ?thesis using served Pair by (simp add: apply_and_clear_def and_then_def map_err_def)
    next
      case (Inr status)
      have "safely m (snd (clear_dirty_marker m t))" if "st_effective_type status = Sp_ForcedClear"
      proof -
        have fits: "os_fits (pm_target_os m) w" using w by (simp add: safely_def)
        have t: "service_apply rq w = (Inr status, t)" using Pair Inr by simp
        have "quiet_at m t" by (rule service_apply_clears[OF rq fits t that])
        then have "quiet_at m (snd (clear_dirty_marker m t))" by (rule triple_after[OF clear_marker_quiet])
        then show ?thesis by (simp add: safely_alt)
      qed
      then show ?thesis
        using served Pair Inr
        by (auto simp: apply_and_clear_def and_then_def map_err_def give_def split: prod.splits sum.splits)
    qed
  qed
qed

lemma apply_config_keeps: "safely m w \<Longrightarrow> safely m (snd (apply_config m tick config fd w))"
proof -
  assume w: "safely m w"
  obtain r u where r: "proxy_request m tick config fd w = (r, u)" by fastforce
  note request = proxy_request_keeps[of "safely m" m tick config fd, OF answers_kept(1)]
  show ?thesis
  proof (cases r)
    case (Inl e)
    then show ?thesis using triple_Inl[OF request w] r by (simp add: apply_config_def and_then_def)
  next
    case (Inr rq)
    then have u: "safely m u" and os: "rq_target_os rq = pm_target_os m" using triple_Inr[OF request w] r by auto
    show ?thesis
    proof (cases "request_sets_local_proxy rq")
      case False
      then show ?thesis
        using apply_and_clear_keeps[OF os u] r Inr by (simp add: apply_config_def and_then_def give_def)
    next
      case True
      obtain x v where x: "write_dirty_marker m u = (x, v)" by fastforce
      show ?thesis
      proof (cases x)
        case (Inl e)
        then show ?thesis
          using triple_Inl[OF write_marker_keeps u] x r Inr True by (simp add: apply_config_def and_then_def)
      next
        case (Inr y)
        have "marked_at m v" using triple_Inr[OF write_marker_keeps u] x Inr by simp
        then show ?thesis
          using apply_and_clear_keeps[OF os, of v] x r \<open>r = Inr rq\<close> Inr True
          by (simp add: apply_config_def and_then_def safely_alt)
      qed
    qed
  qed
qed

lemma dirty_exists_keeps: "triple (safely m) (dirty_marker_exists m) (\<lambda>b w. safely m w \<and> b = marked m w) (safely m)"
  unfolding dirty_marker_exists_def by (rule sys_get_triple) (simp add: answers_kept marked_def)

lemma restore_dirty_keeps: "safely m w \<Longrightarrow> safely m (snd (restore_dirty_proxy_if_needed m tick config w))"
proof -
  assume w: "safely m w"
  obtain r u where r: "dirty_marker_exists m w = (r, u)" by fastforce
  show ?thesis
  proof (cases r)
    case (Inl e)
    then show ?thesis
      using triple_Inl[OF dirty_exists_keeps w] r by (simp add: restore_dirty_proxy_if_needed_def and_then_def)
  next
    case (Inr b)
    then have u: "safely m u" "b = marked m u" using triple_Inr[OF dirty_exists_keeps w] r by auto
    have um: "marked_at m u" if b using u that by (simp add: safely_def marked_at_def)
    note request = proxy_request_keeps[of "marked_at m" m tick config False, OF answers_kept(3)]
    show ?thesis
    proof (cases b)
      case False
      then show ?thesis using r Inr u by (simp add: restore_dirty_proxy_if_needed_def and_then_def give_def)
    next
      case True
      obtain q v where q: "proxy_request m tick config False u = (q, v)" by fastforce
      show ?thesis
      proof (cases q)
        case (Inl e)
        then show ?thesis
          using triple_Inl[OF request um[OF True]] q r Inr True
          by (simp add: restore_dirty_proxy_if_needed_def and_then_def safely_alt)
      next
        case (Inr rq)
        then have v: "marked_at m v" "rq_target_os rq = pm_target_os m"
          using triple_Inr[OF request um[OF True]] q by auto
        let ?rq = "rq\<lparr>rq_item := (rq_item rq)\<lparr>system_proxy_type := Sp_ForcedClear\<rparr>\<rparr>"
        have "safely m (snd (apply_and_clear m ?rq v))"
          using v by (intro apply_and_clear_keeps) (auto simp: safely_alt)
        then show ?thesis
          using q r \<open>r = Inr b\<close> Inr True
          by (auto simp: restore_dirty_proxy_if_needed_def and_then_def give_def split: prod.splits sum.splits)
      qed
    qed
  qed
qed

section \<open>Runs of the manager\<close>

text \<open>
  A run starts where the program has not set anything; every call meets an arbitrary system.
  A crash loses the PAC server.
\<close>

inductive proxy_reachable :: "proxy_manager \<Rightarrow> machine \<Rightarrow> bool" for m where
  proxy_start: "registry w = Map.empty \<Longrightarrow> desktop w = [] \<Longrightarrow> proxy_reachable m w"
| proxy_apply: "proxy_reachable m w \<Longrightarrow>
    proxy_reachable m (snd (apply_config m tick config force_disable (w\<lparr>answers := as\<rparr>)))"
| proxy_set_mode: "proxy_reachable m w \<Longrightarrow>
    proxy_reachable m (snd (snd (set_mode m tick config mode (w\<lparr>answers := as\<rparr>))))"
| proxy_recover: "proxy_reachable m w \<Longrightarrow>
    proxy_reachable m (snd (restore_dirty_proxy_if_needed m tick config (w\<lparr>answers := as\<rparr>)))"
| proxy_stop_pac: "proxy_reachable m w \<Longrightarrow> proxy_reachable m (pac_stop (pm_target_os m) w)"
| proxy_crash: "proxy_reachable m w \<Longrightarrow> proxy_reachable m (w\<lparr>pac_running := None\<rparr>)"

lemma reachable_safely: "proxy_reachable m w \<Longrightarrow> safely m w"
proof (induction rule: proxy_reachable.induct)
  case (proxy_start w)
  then show ?case by (simp add: safely_def os_fits_def points_here_def)
next
  case (proxy_apply w tick config force_disable as)
  then show ?case by (intro apply_config_keeps answers_kept)
next
  case (proxy_set_mode w tick config mode as)
  then have "safely m (w\<lparr>answers := as\<rparr>)" by (intro answers_kept)
  then have "safely m (snd (apply_config m tick c False (w\<lparr>answers := as\<rparr>)))" for c
    by (rule apply_config_keeps)
  with \<open>safely m (w\<lparr>answers := as\<rparr>)\<close> show ?case by (simp add: set_mode_def Let_def case_prod_beta)
next
  case (proxy_recover w tick config as)
  then show ?case by (intro restore_dirty_keeps answers_kept)
next
  case (proxy_stop_pac w)
  then show ?case by (simp add: safely_def pac_stop_def local_pac_stop_def)
next
  case (proxy_crash w)
  then show ?case by (simp add: safely_def)
qed

text \<open>On a system where everything succeeds.\<close>

lemma calm:
  assumes "answers w = []"
  shows "sys_call e f w = (Inr (), f w)" and "sys_get d g w = (Inr (g w), w)"
    and "run_oneshot s w = (Inr \<lparr>po_status_code = Some 0, po_stdout = [], po_stderr = []\<rparr>, spawn_effect s w)"
    and "ensure_dirs w = (Inr (), w)"
  using assms
  by (simp_all add: sys_call_def sys_get_def run_oneshot_def next_answer_def ensure_dirs_def and_then_def give_def)

lemma calm_effect [simp]: "answers (spawn_effect s w) = answers w" "files (spawn_effect s w) = files w"
  by (simp_all add: spawn_effect_def)

lemma calm_pac_stop [simp]: "answers (pac_stop os w) = answers w" "files (pac_stop os w) = files w"
  by (simp_all add: pac_stop_def local_pac_stop_def)

lemma calm_clear:
  assumes "answers w = []"
  shows "\<exists>t. run_script s w = (Inr (), t) \<and> answers t = []"
    and "\<exists>t. apply_windows_clear w = (Inr (), t) \<and> answers t = []"
  using assms
  by (simp_all add: run_script_def and_then_def calm ensure_success_def give_def apply_windows_clear_def
      apply_windows_proxy_def windows_registry_commands_def)

lemma service_clears:
  assumes a: "answers w = []" and os: "rq_target_os rq \<noteq> Os_Other"
    and p: "0 < rq_socks_port rq" "0 < rq_pac_port rq"
    and x: "validated_proxy_exceptions (system_proxy_exceptions (rq_item rq)) = Inr entries"
    and f: "system_proxy_type (rq_item rq) = Sp_ForcedClear"
  shows "\<exists>status t. service_apply rq w = (Inr status, t) \<and> st_effective_type status = Sp_ForcedClear \<and> answers t = []"
proof -
  let ?ex = "\<lambda>p. files w p \<noteq> None" and ?w = "pac_stop (rq_target_os rq) w"
  obtain plan where plan: "plan_system_proxy ?ex rq = Inr plan" "st_effective_type (pl_status plan) = Sp_ForcedClear"
    and act: "pl_action plan = WindowsClear
      \<or> (\<exists>script. pl_action plan = LinuxClear script \<or> pl_action plan = MacosClear script)"
    using os p x f
    by (cases "rq_target_os rq")
      (simp_all add: plan_system_proxy_def plan_action_def effective_type_of_def Let_def from_request_with_exceptions_def)
  have w: "answers ?w = []" using a by simp
  have "\<exists>t. run_action rq (pl_action plan) ?w = (Inr (), t) \<and> answers t = []"
    using act calm_clear[OF w] by (auto simp: run_action_def)
  then show ?thesis using plan by (auto simp: service_apply_def and_then_def give_def)
qed

lemma recovery_succeeds:
  assumes w: "safely m w" "answers w = []" and os: "pm_target_os m \<noteq> Os_Other"
    and p: "0 < first_port config" "0 < i32_add (first_port config) 3"
    and x: "validated_proxy_exceptions (system_proxy_exceptions (system_proxy config)) = Inr entries"
  shows "\<exists>r t. restore_dirty_proxy_if_needed m tick config w = (Inr r, t) \<and> \<not> points_here t
    \<and> files t (dirty_marker_path m) = None"
proof (cases "marked m w")
  case False
  then show ?thesis
    using w by (intro exI[of _ False] exI[of _ w])
      (simp add: restore_dirty_proxy_if_needed_def dirty_marker_exists_def and_then_def calm give_def
        safely_def marked_def)
next
  case True
  obtain rq where q: "proxy_request m tick config False w = (Inr rq, w)"
    and rq: "rq_target_os rq = pm_target_os m" "rq_item rq = system_proxy config"
      "rq_socks_port rq = first_port config" "rq_pac_port rq = i32_add (first_port config) 3"
    using w(2) by (simp add: proxy_request_def and_then_def calm give_def)
  let ?rq = "rq\<lparr>rq_item := (rq_item rq)\<lparr>system_proxy_type := Sp_ForcedClear\<rparr>\<rparr>"
  obtain status t where s: "service_apply ?rq w = (Inr status, t)" "st_effective_type status = Sp_ForcedClear"
      "answers t = []"
    using service_clears[OF w(2), of ?rq] os p x rq by auto
  have "quiet_at m t"
    using service_apply_clears[of ?rq m w status t] s rq w(1) by (simp add: safely_def)
  moreover have "restore_dirty_proxy_if_needed m tick config w
      = (Inr True, on_files (\<lambda>fs. fs(dirty_marker_path m := None)) t)"
    using w(2) True q s
    by (simp add: restore_dirty_proxy_if_needed_def dirty_marker_exists_def and_then_def calm marked_def
        apply_and_clear_def map_err_def clear_dirty_marker_def give_def)
  ultimately show ?thesis by (intro exI[of _ True]) (simp add: quiet_at_def, simp add: on_files_def)
qed

section \<open>Exceptions\<close>

lemma validated_entries_valid:
  "validated_entries raws = Inr vs \<Longrightarrow> vs = map trim raws \<and> (\<forall>v \<in> set vs. validate_proxy_exception v = Inr ())"
  by (induction raws arbitrary: vs) (auto split: sum.splits)

lemma plain_exception:
  assumes "validate_proxy_exception v = Inr ()"
  shows "v \<noteq> []" and "\<not> contains_forbidden_proxy_exception_char v"
  using assms by (auto simp: validate_proxy_exception_def split: if_splits)

lemma validated_exceptions_plain:
  assumes "validated_proxy_exceptions input = Inr entries" and "v \<in> set entries"
  shows "v \<noteq> []" and "trim v = v" and "\<not> contains_forbidden_proxy_exception_char v"
    and "CHR '','' \<notin> set v" and "CHR '';'' \<notin> set v"
proof -
  have v: "v \<in> set (map trim (split_on is_list_comma (trim input)))" "validate_proxy_exception v = Inr ()"
    using assms validated_entries_valid[of "split_on is_list_comma (trim input)" entries]
    by (auto simp: validated_proxy_exceptions_def split: if_splits)
  then obtain raw where raw: "raw \<in> set (split_on is_list_comma (trim input))" "v = trim raw" by auto
  show "v \<noteq> []" "\<not> contains_forbidden_proxy_exception_char v" using plain_exception v by auto
  then show "CHR '';'' \<notin> set v" by (auto simp: contains_forbidden_proxy_exception_char_def list_ex_iff)
  show "trim v = v" using raw by simp
  show "CHR '','' \<notin> set v"
    using split_on_pieces[OF raw(1)] set_trim[of raw] raw(2) by (auto simp: is_list_comma_def)
qed

section \<open>Samples\<close>

definition sample_manager :: proxy_manager where
  "sample_manager = \<lparr>pm_paths = \<lparr>ap_config_dir = ''/c'', ap_temp_dir = ''/t''\<rparr>, pm_target_os = Os_Windows\<rparr>"

definition fresh_machine :: machine where
  "fresh_machine = \<lparr>registry = Map.empty, desktop = [], files = Map.empty, pac_running = None, answers = []\<rparr>"

definition changed_config :: app_config where
  "changed_config = default_app_config
     \<lparr>system_proxy := default_system_proxy_item\<lparr>system_proxy_type := Sp_ForcedChange\<rparr>\<rparr>"

text \<open>The second of the four registry commands fails.\<close>

definition broken_machine :: machine where
  "broken_machine = snd (apply_config sample_manager ''1'' changed_config False
     (fresh_machine\<lparr>answers := replicate 15 Succeeds @ [Fails False]\<rparr>))"

lemma broken_reachable: "proxy_reachable sample_manager broken_machine"
  unfolding broken_machine_def
  by (intro proxy_apply proxy_start) (simp_all add: fresh_machine_def)

lemma broken_points: "points_here broken_machine" "registry broken_machine ''ProxyServer'' = None"
proof -
  have "registry broken_machine ''ProxyEnable'' = Some ''1'' \<and> registry broken_machine ''ProxyServer'' = None"
    by code_simp
  then show "points_here broken_machine" "registry broken_machine ''ProxyServer'' = None"
    by (auto simp: points_here_def)
qed

section \<open>The marker and the recovery\<close>





text \<open>
  The exceptions reach the system as they were accepted. No accepted entry is empty or holds a
  character with a meaning to a shell or to gsettings, and the entries are what the macOS script
  gets as arguments and what the lists of Linux and Windows split into, with the entry for local
  addresses in front on Windows.
\<close>

theorem proxy_exceptions_delivered:
  assumes "validated_proxy_exceptions (system_proxy_exceptions item) = Inr entries"
  shows "(\<forall>v \<in> set entries. v \<noteq> [] \<and> \<not> contains_forbidden_proxy_exception_char v)
    \<and> sc_arguments (macos_script_invocation ex rq ''set'' (Some (h, p, exceptions_to_csv entries)))
        = [''set'', h, show_int p] @ entries
    \<and> (entries \<noteq> [] \<longrightarrow> split_on is_list_comma (exceptions_to_csv entries) = entries)
    \<and> (entries \<noteq> [] \<or> not_proxy_local_address item \<longrightarrow>
        split_on (\<lambda>c. c = CHR '';'') (windows_exceptions item entries)
          = (if not_proxy_local_address item then [LOCAL_EXCEPTIONS] else []) @ entries)"
proof -
  note plain = validated_exceptions_plain[OF assms]
  have csv: "split_on is_list_comma (exceptions_to_csv entries) = entries" if "entries \<noteq> []"
    using split_join[OF that, of "CHR '',''"] plain(4) by (auto simp: exceptions_to_csv_def is_list_comma_def[abs_def])
  have "filter (\<lambda>v. v \<noteq> []) (map trim (split_on is_list_comma (exceptions_to_csv entries))) = entries"
  proof (cases "entries = []")
    case True then show ?thesis by (simp add: exceptions_to_csv_def)
  next
    case False
    have "map trim entries = entries" using plain(2) by (simp add: map_idI)
    then show ?thesis using csv[OF False] plain(1) by (simp add: filter_id_conv)
  qed
  then have mac: "sc_arguments (macos_script_invocation ex rq ''set'' (Some (h, p, exceptions_to_csv entries)))
        = [''set'', h, show_int p] @ entries"
    by (simp add: macos_script_invocation_def case_prod_beta)
  have loc: "CHR '';'' \<notin> set LOCAL_EXCEPTIONS" "LOCAL_EXCEPTIONS \<noteq> []" by (simp_all add: LOCAL_EXCEPTIONS_def)
  have semi: "split_on (\<lambda>c. c = CHR '';'') (join_with '';'' es) = es"
    if "es \<noteq> []" "set es \<subseteq> insert LOCAL_EXCEPTIONS (set entries)" for es
    using split_join[OF that(1), of "CHR '';''"] that(2) plain(5) loc(1) by auto
  have all: "windows_exceptions item entries
      = join_with '';'' ((if not_proxy_local_address item then [LOCAL_EXCEPTIONS] else []) @ entries)"
    if "entries \<noteq> [] \<or> not_proxy_local_address item"
  proof (cases entries)
    case Nil then show ?thesis using that by (simp add: windows_exceptions_def)
  next
    case (Cons e es)
    have "join_with '';'' (e # es) \<noteq> []" using join_first[of "e # es" "CHR '';''"] plain(1) Cons by auto
    then show ?thesis using Cons by (simp add: windows_exceptions_def Let_def)
  qed
  show ?thesis using plain(1,3) mac csv semi all by auto
qed

theorem proxy_exceptions_delivered_witness:
  "sc_arguments (macos_script_invocation (\<lambda>_. False) undefined ''set'' (Some (''h'', 1, exceptions_to_csv [''a.b'', ''10.0.0.0/8''])))
     = [''set'', ''h'', show_int 1] @ [''a.b'', ''10.0.0.0/8'']"
proof -
  have "validated_proxy_exceptions (system_proxy_exceptions (default_system_proxy_item\<lparr>system_proxy_exceptions := ''a.b, 10.0.0.0/8''\<rparr>))
      = Inr [''a.b'', ''10.0.0.0/8'']" by code_simp
  from proxy_exceptions_delivered[OF this] show ?thesis by blast
qed

section \<open>Findings\<close>

text \<open>
  A running PAC server is kept when its two ports stay the same: a changed PAC file is not served
  until the mode or a port changes.
\<close>

lemma pac_content_stale:
  assumes "pac_running w = Some r" "pv_http_port r = pc_http_port c" "pv_pac_port r = pc_pac_port c"
  shows "local_pac_start (c\<lparr>pc_custom_pac_path := p\<rparr>) w = (Inr (), w)"
  using assms by (simp add: local_pac_start_def needs_restart_def)

text \<open>
  Clearing the proxy needs valid exceptions, which it does not use: with an entry that is refused
  a restore does nothing, and the system keeps pointing at the program.
\<close>

lemma clear_needs_exceptions:
  assumes "validated_proxy_exceptions (system_proxy_exceptions (rq_item rq)) = Inl e"
    and "0 < rq_socks_port rq" "0 < rq_pac_port rq"
  shows "service_apply rq w = (Inl e, w)"
  using assms by (simp add: service_apply_def plan_system_proxy_def)

lemma settings_unchecked_exceptions:
  "validate_app_settings X (settings_from_app_config
      (config\<lparr>system_proxy := (system_proxy config)\<lparr>system_proxy_exceptions := x\<rparr>\<rparr>))
    = validate_app_settings X (settings_from_app_config config)"
proof -
  let ?c = "config\<lparr>system_proxy := (system_proxy config)\<lparr>system_proxy_exceptions := x\<rparr>\<rparr>"
  have "ns_tun (network_settings_of ?c) = ns_tun (network_settings_of config)"
    by (simp add: network_settings_of_def Let_def)
  then show ?thesis by (simp only: validate_app_settings_def settings_from_app_config_def Let_def) simp
qed

text \<open>
  An exception that planning refuses blocks taking the proxy back. Although clearing uses no
  exceptions, a restore then fails at once and changes nothing, so the system keeps pointing at the
  program; and saving settings accepts every text as exceptions.
\<close>

theorem refused_exceptions_block_restore:
  assumes "validated_proxy_exceptions (system_proxy_exceptions (system_proxy config)) = Inl e"
    and "0 < first_port config" and "0 < i32_add (first_port config) (port_offset Ip_pac)" and "answers w = []"
  shows "restore m tick config w = (Inl (Ye_SystemProxy e), w)
    \<and> validate_app_settings X (settings_from_app_config config)
      = validate_app_settings X (settings_from_app_config
          (config\<lparr>system_proxy := (system_proxy config)\<lparr>system_proxy_exceptions := x\<rparr>\<rparr>))"
  using assms
  by (simp add: settings_unchecked_exceptions restore_def apply_config_def proxy_request_def and_then_def calm give_def request_sets_local_proxy_def
      apply_and_clear_def map_err_def clear_needs_exceptions)

theorem refused_exceptions_block_restore_witness:
  "\<exists>e t. restore sample_manager ''3''
      (changed_config\<lparr>system_proxy := default_system_proxy_item\<lparr>system_proxy_exceptions := ''*.example.com''\<rparr>\<rparr>)
      (broken_machine\<lparr>answers := []\<rparr>) = (Inl e, t) \<and> points_here t"
proof -
  let ?c = "changed_config\<lparr>system_proxy := default_system_proxy_item\<lparr>system_proxy_exceptions := ''*.example.com''\<rparr>\<rparr>"
  have c: "first_port ?c = 10808" by code_simp
  have "case validated_proxy_exceptions (system_proxy_exceptions (system_proxy ?c)) of Inr _ \<Rightarrow> False | Inl _ \<Rightarrow> True"
    by code_simp
  then obtain e where "validated_proxy_exceptions (system_proxy_exceptions (system_proxy ?c)) = Inl e"
    by (auto split: sum.splits)
  then have "restore sample_manager ''3'' ?c (broken_machine\<lparr>answers := []\<rparr>)
      = (Inl (Ye_SystemProxy e), broken_machine\<lparr>answers := []\<rparr>)"
    by (rule refused_exceptions_block_restore[THEN conjunct1]) (simp_all add: c i32_add_def)
  moreover have "points_here (broken_machine\<lparr>answers := []\<rparr>)" using broken_points by simp
  ultimately show ?thesis by blast
qed

text \<open>With a native tunnel the policy of the runtime never sets the proxy of the system.\<close>

lemma native_tunnel_no_proxy:
  assumes "enable_tun (tun_mode config)" "is_native (tun_backend_of os)"
    and "runtime_system_proxy_config config force os = (c, off)"
  shows "c = config \<and> off"
  using assms by (auto simp: runtime_system_proxy_config_def should_disable_native_tun_system_proxy_def split: if_splits)

end
