(* ===== verification/Statistics.thy ===== *)
theory Statistics
  imports Database Supervisor SingboxEntry UdpTest
begin

text \<open>
  \<open>voya-app/src/statistics.rs\<close>: what the traffic statistics read from the configuration, the
  aggregator that adds samples up and writes them once a second, the identity of the running
  core, and the delays between reconnects. The tasks and channels of tokio are the events the
  aggregator meets; conversions to floating point are the argument \<open>F\<close>.
\<close>

section \<open>Samples\<close>

record server_speed_sample =
  proxy_up_bytes :: i64
  proxy_down_bytes :: i64
  direct_up_bytes :: i64
  direct_down_bytes :: i64

definition no_sample :: server_speed_sample where
  "no_sample = \<lparr>proxy_up_bytes = 0, proxy_down_bytes = 0, direct_up_bytes = 0, direct_down_bytes = 0\<rparr>"

definition has_traffic :: "server_speed_sample \<Rightarrow> bool" where
  "has_traffic s \<longleftrightarrow> 0 < proxy_up_bytes s \<or> 0 < proxy_down_bytes s \<or> 0 < direct_up_bytes s
     \<or> 0 < direct_down_bytes s"

definition sample_add :: "server_speed_sample \<Rightarrow> server_speed_sample \<Rightarrow> server_speed_sample" where
  "sample_add a s =
     \<lparr>proxy_up_bytes = i64_saturating_add (proxy_up_bytes a) (max (proxy_up_bytes s) 0),
      proxy_down_bytes = i64_saturating_add (proxy_down_bytes a) (max (proxy_down_bytes s) 0),
      direct_up_bytes = i64_saturating_add (direct_up_bytes a) (max (direct_up_bytes s) 0),
      direct_down_bytes = i64_saturating_add (direct_down_bytes a) (max (direct_down_bytes s) 0)\<rparr>"

definition i64_from_u64 :: "nat \<Rightarrow> i64" where
  "i64_from_u64 n = (if int n \<le> 9223372036854775807 then int n else 9223372036854775807)"

text \<open>A decoded traffic message, as a sample.\<close>

definition parse_singbox_traffic_sample :: "(nat \<times> nat) option \<Rightarrow> server_speed_sample option" where
  "parse_singbox_traffic_sample message =
     map_option (\<lambda>(up, down). no_sample\<lparr>proxy_up_bytes := i64_from_u64 up, proxy_down_bytes := i64_from_u64 down\<rparr>)
       message"

section \<open>Configuration\<close>

definition clamp_port :: "i32 \<Rightarrow> u16" where
  "clamp_port p = nat (max 0 (min p 65535))"

record statistics_config_snapshot =
  sc_enable_statistics :: bool
  sc_display_real_time_speed :: bool
  sc_active_profile_id :: "string option"
  sc_state_port :: u16
  sc_state_port2 :: u16

definition singbox_state_port2 :: "app_config \<Rightarrow> u16" where
  "singbox_state_port2 conf =
     clamp_port (i32_add (inbound_port conf Ip_api2) (if enable_tun (tun_mode conf) then 1 else 0))"

definition statistics_config :: "app_config \<Rightarrow> statistics_config_snapshot" where
  "statistics_config conf =
     \<lparr>sc_enable_statistics = enable_statistics (gui conf),
      sc_display_real_time_speed = display_real_time_speed (gui conf),
      sc_active_profile_id = (let v = trim (ac_index_id conf) in if v \<noteq> [] then Some v else None),
      sc_state_port = clamp_port (inbound_port conf Ip_api),
      sc_state_port2 =
        clamp_port (i32_add (inbound_port conf Ip_api2) (if enable_tun (tun_mode conf) then 1 else 0))\<rparr>"

definition statistics_enabled :: "statistics_config_snapshot \<Rightarrow> bool" where
  "statistics_enabled c \<longleftrightarrow> sc_enable_statistics c \<or> sc_display_real_time_speed c"

section \<open>Writing samples\<close>

record float_ops =
  to_f64 :: "i64 \<Rightarrow> f64"
  add_f64 :: "f64 \<Rightarrow> f64 \<Rightarrow> f64"

record statistics_snapshot =
  sn_active_profile_id :: "string option"
  proxy_upload :: f64
  proxy_download :: f64
  direct_upload :: f64
  direct_download :: f64
  upload_rate :: f64
  download_rate :: f64
  sn_server_stat :: "server_stat_item option"

definition snapshot_zero :: statistics_snapshot where
  "snapshot_zero =
     \<lparr>sn_active_profile_id = None, proxy_upload = 0, proxy_download = 0, direct_upload = 0,
      direct_download = 0, upload_rate = 0, download_rate = 0, sn_server_stat = None\<rparr>"

definition snapshot_from_sample ::
    "float_ops \<Rightarrow> statistics_config_snapshot \<Rightarrow> server_speed_sample \<Rightarrow> server_stat_item option
       \<Rightarrow> statistics_snapshot" where
  "snapshot_from_sample F c s stat =
     (let pu = to_f64 F (max (proxy_up_bytes s) 0); pd = to_f64 F (max (proxy_down_bytes s) 0);
          du = to_f64 F (max (direct_up_bytes s) 0); dd = to_f64 F (max (direct_down_bytes s) 0)
      in \<lparr>sn_active_profile_id = sc_active_profile_id c, proxy_upload = pu, proxy_download = pd,
          direct_upload = du, direct_download = dd, upload_rate = add_f64 F pu du,
          download_rate = add_f64 F pd dd, sn_server_stat = stat\<rparr>)"

definition apply_statistics_sample ::
    "float_ops \<Rightarrow> statistics_config_snapshot \<Rightarrow> server_speed_sample \<Rightarrow> i64
       \<Rightarrow> (db_error, statistics_snapshot option) task" where
  "apply_statistics_sample F c s today =
     (if \<not> statistics_enabled c \<or> \<not> has_traffic s then give None
      else and_then
        (case sc_active_profile_id c of
           Some i \<Rightarrow>
             and_then (server_stats_add_traffic i today (proxy_up_bytes s) (proxy_down_bytes s))
               (\<lambda>item. give (Some item))
         | None \<Rightarrow> give None)
        (\<lambda>stat. give (Some (snapshot_from_sample F c s stat))))"

definition initialize_data :: "i64 \<Rightarrow> (db_error, unit) task" where
  "initialize_data today =
     and_then server_stats_delete_orphans (\<lambda>_. and_then (server_stats_reset_rollover today) (\<lambda>_. give ()))"

section \<open>The aggregator\<close>

text \<open>
  The loop of \<open>run\_statistics\_aggregator\<close>: a sample is added to the pending one; at a tick the
  pending one is taken, written with the configuration and the day of that moment, and what was
  written is emitted. A failed write is only logged.
\<close>

record aggregator =
  ag_pending :: server_speed_sample
  ag_session :: session
  ag_emitted :: "statistics_snapshot list"

datatype aggregator_event = Ev_Sample server_speed_sample | Ev_Tick statistics_config_snapshot i64

definition aggregator_start :: "i64 \<Rightarrow> session \<Rightarrow> aggregator" where
  "aggregator_start today s =
     \<lparr>ag_pending = no_sample, ag_session = snd (initialize_data today s), ag_emitted = []\<rparr>"

definition aggregator_step :: "float_ops \<Rightarrow> aggregator_event \<Rightarrow> aggregator \<Rightarrow> aggregator" where
  "aggregator_step F e a =
     (case e of
        Ev_Sample s \<Rightarrow> a\<lparr>ag_pending := sample_add (ag_pending a) s\<rparr>
      | Ev_Tick c today \<Rightarrow>
          (case apply_statistics_sample F c (ag_pending a) today (ag_session a) of
             (r, s) \<Rightarrow>
               a\<lparr>ag_pending := no_sample, ag_session := s,
                 ag_emitted := ag_emitted a @ (case r of Inr (Some shown) \<Rightarrow> [shown] | _ \<Rightarrow> [])\<rparr>))"

section \<open>The running core\<close>

record core_process_identity =
  id_core_type :: core_type
  id_main_pid :: nat
  id_pre_pid :: "nat option"

definition core_type_matches_singbox :: "core_type \<Rightarrow> bool" where
  "core_type_matches_singbox c = True"

definition core_matches_singbox :: "core_type option \<Rightarrow> bool" where
  "core_matches_singbox c = (case c of None \<Rightarrow> False | Some c \<Rightarrow> core_type_matches_singbox c)"

definition core_process_identity_of :: "supervisor_snapshot \<Rightarrow> core_process_identity option" where
  "core_process_identity_of snap =
     (case (ss_core_type snap, ss_main_pid snap) of
        (Some c, Some pid) \<Rightarrow>
          (if core_type_matches_singbox c
           then Some \<lparr>id_core_type = c, id_main_pid = pid, id_pre_pid = ss_pre_pid snap\<rparr> else None)
      | _ \<Rightarrow> None)"

definition update_active_identity ::
    "core_process_identity option \<Rightarrow> core_process_identity \<Rightarrow> bool \<times> core_process_identity option" where
  "update_active_identity active identity =
     (if active = Some identity then (False, active) else (True, Some identity))"

definition available_state_port :: "u16 \<Rightarrow> u16 option" where
  "available_state_port p = (if p \<noteq> 0 then Some p else None)"

section \<open>Reconnecting\<close>

text \<open>Durations are numbers of nanoseconds; \<open>saturating\_mul\<close> and \<open>saturating\_add\<close> stop at the largest.\<close>

definition WS_RECONNECT_JITTER_DIVISOR :: nat where "WS_RECONNECT_JITTER_DIVISOR = 4"

definition SINGBOX_RECONNECT_INITIAL_DELAY :: nat where "SINGBOX_RECONNECT_INITIAL_DELAY = 1000000000"
definition SINGBOX_RECONNECT_MAX_DELAY :: nat where "SINGBOX_RECONNECT_MAX_DELAY = 30000000000"

definition reconnect_jitter :: "nat \<Rightarrow> nat \<Rightarrow> nat" where
  "reconnect_jitter base jitter_seed =
     (let limit = min (base div WS_RECONNECT_JITTER_DIVISOR) 18446744073709551615
      in if limit = 0 then 0 else jitter_seed mod (limit + 1))"

definition websocket_reconnect_delay :: "nat \<Rightarrow> nat \<Rightarrow> nat \<Rightarrow> nat \<Rightarrow> nat" where
  "websocket_reconnect_delay attempt initial max_delay jitter_seed =
     (let multiplier = 2 ^ min attempt 16;
          scaled = min (initial * multiplier) DURATION_MAX;
          base = (if max_delay < scaled then max_delay else scaled)
      in min (base + reconnect_jitter base jitter_seed) DURATION_MAX)"

record reconnect_backoff =
  bo_attempt :: nat
  bo_initial :: nat
  bo_max :: nat

definition backoff_new :: "nat \<Rightarrow> nat \<Rightarrow> reconnect_backoff" where
  "backoff_new initial max_delay = \<lparr>bo_attempt = 0, bo_initial = initial, bo_max = max_delay\<rparr>"

definition backoff_reset :: "reconnect_backoff \<Rightarrow> reconnect_backoff" where
  "backoff_reset b = b\<lparr>bo_attempt := 0\<rparr>"

definition backoff_next_delay :: "nat \<Rightarrow> reconnect_backoff \<Rightarrow> nat \<times> reconnect_backoff" where
  "backoff_next_delay seed b =
     (websocket_reconnect_delay (bo_attempt b) (bo_initial b) (bo_max b) seed,
      b\<lparr>bo_attempt := min (bo_attempt b + 1) 4294967295\<rparr>)"

end
