(* ===== verification/TrafficProps.thy ===== *)
theory TrafficProps
  imports Statistics ActiveProps
begin

text \<open>
  The traffic counters: every byte a sample reports is in the counters of the active profile or in
  the sample still pending, across days, whatever the order of samples and ticks.
\<close>

definition total_of :: "(server_stat_item \<Rightarrow> i64) \<Rightarrow> tables \<Rightarrow> string \<Rightarrow> i64" where
  "total_of f t i = (case map_of (server_stat_rows t) i of Some r \<Rightarrow> f r | None \<Rightarrow> 0)"

fun reported :: "(server_speed_sample \<Rightarrow> i64) \<Rightarrow> aggregator_event \<Rightarrow> i64" where
  "reported f (Ev_Sample s) = max (f s) 0"
| "reported f (Ev_Tick c d) = 0"

fun ticks_for :: "string \<Rightarrow> aggregator_event \<Rightarrow> bool" where
  "ticks_for i (Ev_Sample s) = True"
| "ticks_for i (Ev_Tick c d) = (statistics_enabled c \<and> sc_active_profile_id c = Some i)"

lemma saturating_exact:
  "0 \<le> a \<Longrightarrow> 0 \<le> b \<Longrightarrow> a + b \<le> 9223372036854775807 \<Longrightarrow> i64_saturating_add a b = a + b"
  by (simp add: i64_saturating_add_def)

lemma add_traffic_total:
  assumes ok: "db_ok (db s)" and calm: "faults s = []" and i: "i \<in> set (keys (profile_rows (db s)))"
  shows "\<exists>item t. server_stats_add_traffic i d u v s = (Inr item, t) \<and> faults t = []
    \<and> profile_rows (db t) = profile_rows (db s)
    \<and> total_of total_up (db t) i = i64_saturating_add (total_of total_up (db s) i) (max u 0)
    \<and> total_of total_down (db t) i = i64_saturating_add (total_of total_down (db s) i) (max v 0)"
proof -
  have key: "map_of (server_stat_rows (db s)) i = Some r \<Longrightarrow> ss_index_id r = i" for r
    using ok map_of_SomeD by (fastforce simp: db_ok_def rows_ok_def)
  show ?thesis
    using calm i
    by (cases "map_of (server_stat_rows (db s)) i")
      (auto simp: server_stats_add_traffic_def server_stats_ensure_def server_stats_get_def server_stats_upsert_def
        and_then_def statement_def give_def Let_def total_of_def update_conv' default_server_stat_item_def key)
qed

lemma add_traffic_ok: "db_ok (db s) \<Longrightarrow> server_stats_add_traffic i d u v s = (r, t) \<Longrightarrow> db_ok (db t)"
  using keepsD[OF integrity.server_stats_add_traffic_keeps] by blast

definition counts :: "string \<Rightarrow> session \<Rightarrow> i64 \<Rightarrow> i64 \<Rightarrow> aggregator \<Rightarrow> bool" where
  "counts i s up down a \<longleftrightarrow>
     db_ok (db (ag_session a)) \<and> faults (ag_session a) = []
     \<and> i \<in> set (keys (profile_rows (db (ag_session a))))
     \<and> 0 \<le> proxy_up_bytes (ag_pending a) \<and> 0 \<le> proxy_down_bytes (ag_pending a)
     \<and> 0 \<le> total_of total_up (db (ag_session a)) i \<and> 0 \<le> total_of total_down (db (ag_session a)) i
     \<and> total_of total_up (db (ag_session a)) i + proxy_up_bytes (ag_pending a) = total_of total_up (db s) i + up
     \<and> total_of total_down (db (ag_session a)) i + proxy_down_bytes (ag_pending a) = total_of total_down (db s) i + down"

lemma counts_sample:
  assumes c: "counts i s up down a"
    and "total_of total_up (db s) i + up + max (proxy_up_bytes x) 0 \<le> 9223372036854775807"
    and "total_of total_down (db s) i + down + max (proxy_down_bytes x) 0 \<le> 9223372036854775807"
  shows "counts i s (up + max (proxy_up_bytes x) 0) (down + max (proxy_down_bytes x) 0)
    (aggregator_step F (Ev_Sample x) a)"
proof -
  have "i64_saturating_add (proxy_up_bytes (ag_pending a)) (max (proxy_up_bytes x) 0)
      = proxy_up_bytes (ag_pending a) + max (proxy_up_bytes x) 0"
    "i64_saturating_add (proxy_down_bytes (ag_pending a)) (max (proxy_down_bytes x) 0)
      = proxy_down_bytes (ag_pending a) + max (proxy_down_bytes x) 0"
    using assms by (auto simp: counts_def intro!: saturating_exact)
  then show ?thesis using c by (simp add: counts_def aggregator_step_def sample_add_def)
qed

lemma counts_tick:
  assumes c: "counts i s up down a" and t: "ticks_for i (Ev_Tick conf d)"
    and "total_of total_up (db s) i + up \<le> 9223372036854775807"
    and "total_of total_down (db s) i + down \<le> 9223372036854775807"
  shows "counts i s up down (aggregator_step F (Ev_Tick conf d) a)"
proof (cases "has_traffic (ag_pending a)")
  case False
  then have "proxy_up_bytes (ag_pending a) = 0" "proxy_down_bytes (ag_pending a) = 0"
    using c by (auto simp: counts_def has_traffic_def)
  then show ?thesis
    using c False by (simp add: counts_def aggregator_step_def apply_statistics_sample_def give_def no_sample_def)
next
  case True
  let ?p = "ag_pending a" and ?s = "ag_session a"
  obtain item t where r: "server_stats_add_traffic i d (proxy_up_bytes ?p) (proxy_down_bytes ?p) ?s = (Inr item, t)"
    and e: "faults t = []" "profile_rows (db t) = profile_rows (db ?s)"
      "total_of total_up (db t) i = i64_saturating_add (total_of total_up (db ?s) i) (max (proxy_up_bytes ?p) 0)"
      "total_of total_down (db t) i = i64_saturating_add (total_of total_down (db ?s) i) (max (proxy_down_bytes ?p) 0)"
    using add_traffic_total[of ?s i d "proxy_up_bytes ?p" "proxy_down_bytes ?p"] c by (auto simp: counts_def)
  have "db_ok (db t)" using add_traffic_ok[OF _ r] c by (simp add: counts_def)
  moreover have "total_of total_up (db t) i = total_of total_up (db ?s) i + proxy_up_bytes ?p"
    "total_of total_down (db t) i = total_of total_down (db ?s) i + proxy_down_bytes ?p"
    using c assms(3,4) e(3,4) by (auto simp: counts_def max_def saturating_exact)
  moreover have "ag_session (aggregator_step F (Ev_Tick conf d) a) = t"
    "ag_pending (aggregator_step F (Ev_Tick conf d) a) = no_sample"
    using True t r
    by (simp_all add: aggregator_step_def apply_statistics_sample_def and_then_def give_def)
  ultimately show ?thesis using c e(1,2) by (simp add: counts_def no_sample_def)
qed

lemma reported_nonneg: "0 \<le> sum_list (map (reported f) es)"
proof -
  have "0 \<le> reported f e" for e by (cases e) simp_all
  then show ?thesis by (intro sum_list_nonneg) auto
qed

lemma counts_run:
  assumes "counts i s up down a" and "list_all (ticks_for i) es"
    and "total_of total_up (db s) i + up + sum_list (map (reported proxy_up_bytes) es) \<le> 9223372036854775807"
    and "total_of total_down (db s) i + down + sum_list (map (reported proxy_down_bytes) es) \<le> 9223372036854775807"
  shows "counts i s (up + sum_list (map (reported proxy_up_bytes) es))
    (down + sum_list (map (reported proxy_down_bytes) es)) (fold (aggregator_step F) es a)"
  using assms
proof (induction es arbitrary: up down a)
  case Nil then show ?case by simp
next
  case (Cons e es)
  note rest = reported_nonneg[of proxy_up_bytes es] reported_nonneg[of proxy_down_bytes es]
  show ?case
  proof (cases e)
    case (Ev_Sample x)
    have "counts i s (up + max (proxy_up_bytes x) 0) (down + max (proxy_down_bytes x) 0) (aggregator_step F e a)"
      unfolding Ev_Sample using Cons.prems Ev_Sample rest by (intro counts_sample) auto
    from Cons.IH[OF this] show ?thesis using Cons.prems Ev_Sample by (simp add: algebra_simps)
  next
    case (Ev_Tick c d)
    have "counts i s up down (aggregator_step F e a)"
      unfolding Ev_Tick using Cons.prems Ev_Tick rest by (intro counts_tick) auto
    from Cons.IH[OF this] show ?thesis using Cons.prems Ev_Tick by simp
  qed
qed


definition traffic_session :: session where
  "traffic_session =
     \<lparr>db = empty_tables\<lparr>profile_rows := [(''a'', sample_leaf ''a'')]\<rparr>, config = default_app_config, faults = [],
      clock = [], profile_counter = 1, subscription_counter = 1, routing_counter = 1, rule_counter = 1,
      process_id = 7\<rparr>"

definition traffic_events :: "aggregator_event list" where
  "traffic_events =
     [Ev_Sample (no_sample\<lparr>proxy_up_bytes := 5\<rparr>),
      Ev_Tick \<lparr>sc_enable_statistics = True, sc_display_real_time_speed = False, sc_active_profile_id = Some ''a'',
               sc_state_port = 1, sc_state_port2 = 2\<rparr> 20000,
      Ev_Sample (no_sample\<lparr>proxy_up_bytes := 2\<rparr>)]"


text \<open>With a native tunnel there is no main process, and without one no core to ask for statistics.\<close>

lemma native_tunnel_unseen: "ss_main_pid snap = None \<Longrightarrow> core_process_identity_of snap = None"
  by (simp add: core_process_identity_of_def split: option.split)

end
