(* ===== verification/ProxyRuntime.thy ===== *)
theory ProxyRuntime
  imports Statistics ShareText Tasks
begin

text \<open>
  The control of a running core: the REST client of \<open>voya-net/src/clash.rs\<close> and the manager and
  monitor of \<open>voya-app/src/proxy\_runtime.rs\<close>. The transport is a queue of answers, already decoded
  to the type a request asks for or failed; the requests made so far are the other half of the
  state. The WebSocket and the decoding of JSON are not modelled.
\<close>

section \<open>Requests (clash.rs)\<close>

record clash_api_endpoint =
  ep_host :: string
  ep_port :: u16
  ep_secret :: "string option"

definition endpoint_loopback :: "u16 \<Rightarrow> clash_api_endpoint" where
  "endpoint_loopback p = \<lparr>ep_host = ''127.0.0.1'', ep_port = p, ep_secret = None\<rparr>"

definition clash_normalize_host :: "string \<Rightarrow> string" where
  "clash_normalize_host host =
     (if CHR '':'' \<in> set host \<and> \<not> starts_with host ''['' then ''['' @ host @ '']'' else host)"

definition clash_normalize_path :: "string \<Rightarrow> string" where
  "clash_normalize_path p = (if starts_with p ''/'' then p else ''/'' @ p)"

definition endpoint_http_url :: "clash_api_endpoint \<Rightarrow> string \<Rightarrow> string" where
  "endpoint_http_url e p =
     ''http://'' @ clash_normalize_host (ep_host e) @ '':'' @ show_nat (ep_port e) @ clash_normalize_path p"

definition endpoint_ws_url :: "clash_api_endpoint \<Rightarrow> string \<Rightarrow> string" where
  "endpoint_ws_url e p =
     ''ws://'' @ clash_normalize_host (ep_host e) @ '':'' @ show_nat (ep_port e) @ clash_normalize_path p"

text \<open>The sets of bytes \<open>utf8\_percent\_encode\<close> replaces: controls, non-ASCII and these.\<close>

definition path_segment_encoded :: "char \<Rightarrow> bool" where
  "path_segment_encoded c \<longleftrightarrow>
     byte_of c < 32 \<or> 127 \<le> byte_of c \<or> c \<in> {CHR 0x20, CHR 0x22, CHR 0x23, CHR 0x25, CHR ''/'', CHR ''<'',
       CHR ''>'', CHR ''?'', CHR 0x60, CHR ''{'', CHR ''}''}"

definition query_value_encoded :: "char \<Rightarrow> bool" where
  "query_value_encoded c \<longleftrightarrow> path_segment_encoded c \<or> c \<in> {CHR ''&'', CHR ''+'', CHR '':'', CHR ''=''}"

definition percent_encode_by :: "(char \<Rightarrow> bool) \<Rightarrow> string \<Rightarrow> string" where
  "percent_encode_by P s =
     concat (map (\<lambda>c. if P c then [CHR 0x25, hex_upper (byte_of c div 16), hex_upper (byte_of c mod 16)] else [c]) s)"

definition encode_segment :: "string \<Rightarrow> string" where
  "encode_segment s = percent_encode_by path_segment_encoded s"

definition encode_query_value :: "string \<Rightarrow> string" where
  "encode_query_value s = percent_encode_by query_value_encoded s"

datatype clash_http_method = Hm_Get | Hm_Put | Hm_Patch | Hm_Delete

record clash_http_request =
  cr_method :: clash_http_method
  cr_url :: string
  cr_body :: "json option"
  cr_bearer_token :: "string option"

record clash_history_item =
  hi_time :: string
  hi_delay :: i32

record clash_proxy =
  cp_all :: "string list"
  cp_history :: "clash_history_item list"
  cp_name :: "string option"
  cp_type :: string
  cp_udp :: bool
  cp_now :: "string option"
  cp_delay :: i32

record clash_provider =
  cv_name :: "string option"
  cv_proxies :: "clash_proxy list"
  cv_vehicle_type :: "string option"

type_synonym clash_proxies = "(string, clash_proxy) btree_map"
type_synonym clash_providers = "(string, clash_provider) btree_map"

record clash_delay_response =
  dr_delay :: "i32 option"
  dr_message :: "string option"

record clash_connection_metadata =
  md_network :: "string option"
  md_type :: "string option"
  md_source_ip :: "string option"
  md_destination_ip :: "string option"
  md_source_port :: "string option"
  md_destination_port :: "string option"
  md_host :: "string option"
  md_process :: "string option"
  md_process_path :: "string option"

record clash_connection =
  cn_id :: "string option"
  cn_metadata :: clash_connection_metadata
  cn_upload :: nat
  cn_download :: nat
  cn_start :: string
  cn_chains :: "string list"
  cn_rule :: "string option"
  cn_rule_payload :: "string option"

record clash_connections =
  cs_download_total :: nat
  cs_upload_total :: nat
  cs_connections :: "clash_connection list"

datatype clash_error =
    Clash_Request string
  | Clash_ResponseTooLarge string nat "nat option" nat
  | Clash_Decode string
  | Clash_WebSocket string
  | Clash_WebSocketClosed

definition debug_option_nat :: "nat option \<Rightarrow> string" where
  "debug_option_nat n = (case n of None \<Rightarrow> ''None'' | Some n \<Rightarrow> ''Some('' @ show_nat n @ '')'')"

fun clash_error_text :: "clash_error \<Rightarrow> string" where
  "clash_error_text (Clash_Request e) = ''Clash request failed: '' @ e"
| "clash_error_text (Clash_ResponseTooLarge url limit content_length received) =
     ''Clash response body too large for '' @ url @ '': limit '' @ show_nat limit @ '' bytes, content length ''
     @ debug_option_nat content_length @ '', received '' @ show_nat received"
| "clash_error_text (Clash_Decode e) = ''Clash response decode failed: '' @ e"
| "clash_error_text (Clash_WebSocket e) = ''Clash websocket failed: '' @ e"
| "clash_error_text Clash_WebSocketClosed = ''Clash websocket closed''"

datatype clash_reply =
    Re_Error clash_error
  | Re_Proxies clash_proxies
  | Re_Providers clash_providers
  | Re_Connections clash_connections
  | Re_Delay clash_delay_response
  | Re_Value

record clash_link =
  requests :: "clash_http_request list"
  replies :: "clash_reply list"

type_synonym ('e, 'a) clash_call = "(clash_link, 'e, 'a) stateful"

text \<open>\<open>request\_value\<close>: a request is recorded; without a further answer the transport fails.\<close>

definition request_value ::
    "clash_api_endpoint \<Rightarrow> clash_http_method \<Rightarrow> string \<Rightarrow> json option \<Rightarrow> (clash_error, clash_reply) clash_call" where
  "request_value e m p body = (\<lambda>s.
     (let s = s\<lparr>requests := requests s
            @ [\<lparr>cr_method = m, cr_url = endpoint_http_url e p, cr_body = body, cr_bearer_token = ep_secret e\<rparr>]\<rparr>
      in case replies s of
           [] \<Rightarrow> (Inl (Clash_Request []), s)
         | Re_Error err # rest \<Rightarrow> (Inl err, s\<lparr>replies := rest\<rparr>)
         | r # rest \<Rightarrow> (Inr r, s\<lparr>replies := rest\<rparr>)))"

definition decode_as :: "(clash_reply \<Rightarrow> 'a option) \<Rightarrow> clash_reply \<Rightarrow> (clash_error, 'a) clash_call" where
  "decode_as f r = (case f r of Some x \<Rightarrow> give x | None \<Rightarrow> give_up (Clash_Decode []))"

definition get_proxies :: "clash_api_endpoint \<Rightarrow> (clash_error, clash_proxies) clash_call" where
  "get_proxies e = and_then (request_value e Hm_Get ''/proxies'' None)
     (decode_as (\<lambda>r. case r of Re_Proxies p \<Rightarrow> Some p | _ \<Rightarrow> None))"

definition get_proxy_providers :: "clash_api_endpoint \<Rightarrow> (clash_error, clash_providers) clash_call" where
  "get_proxy_providers e = and_then (request_value e Hm_Get ''/providers/proxies'' None)
     (decode_as (\<lambda>r. case r of Re_Providers p \<Rightarrow> Some p | _ \<Rightarrow> None))"

definition get_connections :: "clash_api_endpoint \<Rightarrow> (clash_error, clash_connections) clash_call" where
  "get_connections e = and_then (request_value e Hm_Get ''/connections'' None)
     (decode_as (\<lambda>r. case r of Re_Connections c \<Rightarrow> Some c | _ \<Rightarrow> None))"

definition delay_proxy ::
    "clash_api_endpoint \<Rightarrow> string \<Rightarrow> nat \<Rightarrow> string \<Rightarrow> (clash_error, clash_delay_response) clash_call" where
  "delay_proxy e name timeout_ms test_url =
     and_then
       (request_value e Hm_Get
          (''/proxies/'' @ encode_segment name @ ''/delay?timeout='' @ show_nat timeout_ms
           @ ''&url='' @ encode_query_value test_url) None)
       (decode_as (\<lambda>r. case r of Re_Delay d \<Rightarrow> Some d | _ \<Rightarrow> None))"

definition ignore_value :: "(clash_error, clash_reply) clash_call \<Rightarrow> (clash_error, unit) clash_call" where
  "ignore_value m = and_then m (\<lambda>_. give ())"

definition select_proxy :: "clash_api_endpoint \<Rightarrow> string \<Rightarrow> string \<Rightarrow> (clash_error, unit) clash_call" where
  "select_proxy e g name =
     ignore_value (request_value e Hm_Put (''/proxies/'' @ encode_segment g)
       (Some (JObject [(''name'', JString name)])))"

definition patch_configs :: "clash_api_endpoint \<Rightarrow> json \<Rightarrow> (clash_error, unit) clash_call" where
  "patch_configs e body = ignore_value (request_value e Hm_Patch ''/configs'' (Some body))"

definition set_rule_mode :: "clash_api_endpoint \<Rightarrow> string \<Rightarrow> (clash_error, unit) clash_call" where
  "set_rule_mode e mode = patch_configs e (JObject [(''mode'', JString mode)])"

definition reload_core_config :: "clash_api_endpoint \<Rightarrow> string option \<Rightarrow> (clash_error, unit) clash_call" where
  "reload_core_config e path =
     (let body = (case opt_filter (\<lambda>p. trim p \<noteq> []) path of
                    Some p \<Rightarrow> JObject [(''path'', JString p)] | None \<Rightarrow> JObject [])
      in ignore_value (request_value e Hm_Put ''/configs?force=true'' (Some body)))"

definition close_core_connection :: "clash_api_endpoint \<Rightarrow> string option \<Rightarrow> (clash_error, unit) clash_call" where
  "close_core_connection e i =
     (let path = (case opt_filter (\<lambda>i. i \<noteq> []) (map_option trim i) of
                    Some i \<Rightarrow> ''/connections/'' @ encode_segment i | None \<Rightarrow> ''/connections'')
      in ignore_value (request_value e Hm_Delete path None))"

section \<open>Views (proxy\_runtime.rs)\<close>

record proxy_node =
  pn_name :: string
  pn_type :: string
  pn_delay :: "i32 option"
  pn_delay_label :: string
  pn_udp :: bool
  pn_active :: bool
  pn_testable :: bool

record proxy_group =
  pg_name :: string
  pg_type :: string
  pg_now :: "string option"
  pg_nodes :: "proxy_node list"

record proxy_groups_snapshot =
  gs_groups :: "proxy_group list"
  gs_traffic_mode :: traffic_mode

definition DELAY_TIMEOUT_MS :: nat where "DELAY_TIMEOUT_MS = 10000"

definition ALLOW_SELECT_TYPES :: "string list" where
  "ALLOW_SELECT_TYPES = [''selector'', ''urltest'', ''loadbalance'', ''fallback'']"

definition NOT_ALLOW_TEST_TYPES :: "string list" where
  "NOT_ALLOW_TEST_TYPES =
     [''selector'', ''urltest'', ''direct'', ''reject'', ''compatible'', ''pass'', ''loadbalance'', ''fallback'']"

definition PROVIDER_PROXY_VEHICLE_TYPES :: "string list" where
  "PROVIDER_PROXY_VEHICLE_TYPES = [''file'', ''http'']"

definition is_selectable_type :: "string \<Rightarrow> bool" where
  "is_selectable_type t \<longleftrightarrow> to_ascii_lowercase t \<in> set ALLOW_SELECT_TYPES"

definition is_testable_type :: "string \<Rightarrow> bool" where
  "is_testable_type t \<longleftrightarrow> to_ascii_lowercase t \<notin> set NOT_ALLOW_TEST_TYPES"

definition is_provider_proxy_vehicle_type :: "string \<Rightarrow> bool" where
  "is_provider_proxy_vehicle_type t \<longleftrightarrow> to_ascii_lowercase t \<in> set PROVIDER_PROXY_VEHICLE_TYPES"

definition find_proxy :: "string \<Rightarrow> clash_proxies \<Rightarrow> clash_providers \<Rightarrow> clash_proxy option" where
  "find_proxy name proxies providers =
     or_else (bt_get proxies name)
       (find (\<lambda>p. cp_name p = Some name)
          (concat (map cv_proxies
             (filter (\<lambda>v. case cv_vehicle_type v of Some t \<Rightarrow> is_provider_proxy_vehicle_type t | None \<Rightarrow> False)
                (bt_values providers)))))"

definition proxy_delay :: "clash_proxy \<Rightarrow> i32 option" where
  "proxy_delay p =
     or_else (opt_filter (\<lambda>d. 0 < d) (if cp_history p = [] then None else Some (hi_delay (last (cp_history p)))))
       (if 0 < cp_delay p then Some (cp_delay p) else None)"

definition proxy_node_of :: "string \<Rightarrow> clash_proxy \<Rightarrow> bool \<Rightarrow> proxy_node" where
  "proxy_node_of name p active =
     \<lparr>pn_name = name, pn_type = cp_type p, pn_delay = proxy_delay p,
      pn_delay_label = (case proxy_delay p of None \<Rightarrow> [] | Some d \<Rightarrow> show_int d @ ''ms''),
      pn_udp = cp_udp p, pn_active = active, pn_testable = is_testable_type (cp_type p)\<rparr>"

definition sort_nodes :: "i32 \<Rightarrow> proxy_node list \<Rightarrow> proxy_node list" where
  "sort_nodes sorting nodes =
     (if sorting = 0 then sort_key (\<lambda>n. unwrap_or (pn_delay n) 2147483647) nodes
      else if sorting = 1 then sort_key pn_name nodes
      else nodes)"

definition build_group :: "clash_proxies \<Rightarrow> clash_providers \<Rightarrow> i32 \<Rightarrow> string \<Rightarrow> clash_proxy \<Rightarrow> proxy_group" where
  "build_group proxies providers sorting name p =
     \<lparr>pg_name = unwrap_or (cp_name p) name, pg_type = cp_type p, pg_now = cp_now p,
      pg_nodes = sort_nodes sorting
        (List.map_filter (\<lambda>n. map_option (\<lambda>q. proxy_node_of n q (cp_now p = Some n)) (find_proxy n proxies providers))
           (cp_all p))\<rparr>"

definition build_proxy_groups_snapshot ::
    "clash_proxies \<Rightarrow> clash_providers \<Rightarrow> i32 \<Rightarrow> traffic_mode \<Rightarrow> proxy_groups_snapshot" where
  "build_proxy_groups_snapshot proxies providers sorting mode =
     \<lparr>gs_groups =
        sort_key pg_name
          (map (\<lambda>(name, p). build_group proxies providers sorting name p)
             (filter (\<lambda>(_, p). is_selectable_type (cp_type p)) proxies)),
      gs_traffic_mode = mode\<rparr>"

definition endpoint_label :: "string option \<Rightarrow> string option \<Rightarrow> string" where
  "endpoint_label a p =
     (case (opt_filter (\<lambda>v. v \<noteq> []) (map_option trim a), opt_filter (\<lambda>v. v \<noteq> []) (map_option trim p)) of
        (Some a, Some p) \<Rightarrow> a @ '':'' @ p
      | (Some a, None) \<Rightarrow> a
      | (None, Some p) \<Rightarrow> '':'' @ p
      | (None, None) \<Rightarrow> [])"

definition connection_host :: "clash_connection_metadata \<Rightarrow> string" where
  "connection_host md =
     endpoint_label
       (Some (unwrap_or (or_else (opt_filter (\<lambda>h. trim h \<noteq> []) (md_host md)) (md_destination_ip md)) []))
       (md_destination_port md)"

record proxy_connection_item =
  ci_id :: "string option"
  ci_network :: "string option"
  ci_connection_type :: "string option"
  ci_host :: string
  ci_source :: string
  ci_destination :: string
  ci_upload :: nat
  ci_download :: nat
  ci_start :: string
  ci_chains :: "string list"
  ci_rule :: "string option"
  ci_rule_payload :: "string option"
  ci_process :: "string option"
  ci_process_path :: "string option"

definition connection_item :: "clash_connection \<Rightarrow> proxy_connection_item" where
  "connection_item c =
     (let md = cn_metadata c in
      \<lparr>ci_id = cn_id c, ci_network = md_network md, ci_connection_type = md_type md,
       ci_host = connection_host md, ci_source = endpoint_label (md_source_ip md) (md_source_port md),
       ci_destination = endpoint_label (md_destination_ip md) (md_destination_port md),
       ci_upload = cn_upload c, ci_download = cn_download c, ci_start = cn_start c, ci_chains = cn_chains c,
       ci_rule = cn_rule c, ci_rule_payload = cn_rule_payload c, ci_process = md_process md,
       ci_process_path = md_process_path md\<rparr>)"

record proxy_connections_snapshot =
  cx_download_total :: nat
  cx_upload_total :: nat
  cx_connections :: "proxy_connection_item list"

definition connections_snapshot :: "clash_connections \<Rightarrow> proxy_connections_snapshot" where
  "connections_snapshot c =
     \<lparr>cx_download_total = cs_download_total c, cx_upload_total = cs_upload_total c,
      cx_connections = map connection_item (cs_connections c)\<rparr>"

fun traffic_mode_api_value :: "traffic_mode \<Rightarrow> string option" where
  "traffic_mode_api_value Tm_Rule = Some ''rule''"
| "traffic_mode_api_value Tm_Global = Some ''global''"
| "traffic_mode_api_value Tm_Direct = Some ''direct''"
| "traffic_mode_api_value Tm_Unchanged = None"

section \<open>The manager\<close>

datatype proxy_runtime_error =
    Pr_Api clash_error
  | Pr_GroupNotFound string
  | Pr_NodeNotFound string
  | Pr_GroupNotSelector string
  | Pr_InvalidTrafficMode traffic_mode
  | Pr_InvalidStatePort

definition proxy_runtime_endpoint :: "app_config \<Rightarrow> clash_api_endpoint option" where
  "proxy_runtime_endpoint conf =
     map_option endpoint_loopback (available_state_port (singbox_state_port2 conf))"

definition runtime_client :: "app_config \<Rightarrow> (proxy_runtime_error, clash_api_endpoint) clash_call" where
  "runtime_client conf =
     (case proxy_runtime_endpoint conf of None \<Rightarrow> give_up Pr_InvalidStatePort | Some e \<Rightarrow> give e)"

text \<open>\<open>unwrap\_or\_default\<close>: an error is replaced by a value.\<close>

definition recover :: "('e \<Rightarrow> 'a) \<Rightarrow> ('s, 'e, 'a) stateful \<Rightarrow> ('s, 'f, 'a) stateful" where
  "recover f m = (\<lambda>s. case m s of (Inl e, t) \<Rightarrow> (Inr (f e), t) | (Inr x, t) \<Rightarrow> (Inr x, t))"

definition runtime_groups :: "app_config \<Rightarrow> (proxy_runtime_error, proxy_groups_snapshot) clash_call" where
  "runtime_groups conf =
     and_then (runtime_client conf) (\<lambda>e.
     and_then (map_err Pr_Api (get_proxies e)) (\<lambda>proxies.
     and_then (recover (\<lambda>_. []) (get_proxy_providers e)) (\<lambda>providers.
       give (build_proxy_groups_snapshot proxies providers (node_sorting (proxy_ui conf))
               (proxy_traffic_mode (proxy_ui conf))))))"

definition runtime_connections :: "app_config \<Rightarrow> (proxy_runtime_error, proxy_connections_snapshot) clash_call" where
  "runtime_connections conf =
     and_then (runtime_client conf) (\<lambda>e.
     and_then (map_err Pr_Api (get_connections e)) (\<lambda>c. give (connections_snapshot c)))"

definition select_node ::
    "app_config \<Rightarrow> string \<Rightarrow> string \<Rightarrow> (proxy_runtime_error, proxy_groups_snapshot) clash_call" where
  "select_node conf group_name node_name =
     and_then (runtime_client conf) (\<lambda>e.
     and_then (map_err Pr_Api (get_proxies e)) (\<lambda>proxies.
       case bt_get proxies group_name of
         None \<Rightarrow> give_up (Pr_GroupNotFound group_name)
       | Some g \<Rightarrow>
           if \<not> eq_ignore_ascii_case (cp_type g) ''selector'' then give_up (Pr_GroupNotSelector group_name)
           else if node_name \<notin> set (cp_all g) then give_up (Pr_NodeNotFound node_name)
           else
             and_then (map_err Pr_Api (select_proxy e group_name node_name)) (\<lambda>_.
               runtime_groups conf)))"

record proxy_delay_test_result =
  dt_name :: string
  dt_delay :: "i32 option"
  dt_message :: "string option"

definition test_one_delay ::
    "app_config \<Rightarrow> clash_api_endpoint \<Rightarrow> string \<Rightarrow> proxy_delay_test_result list
       \<Rightarrow> (proxy_runtime_error, proxy_delay_test_result list) clash_call" where
  "test_one_delay conf e name results =
     and_then
       (recover (\<lambda>err. \<lparr>dr_delay = None, dr_message = Some (clash_error_text err)\<rparr>)
          (delay_proxy e name DELAY_TIMEOUT_MS (speed_ping_test_url (speed_test conf))))
       (\<lambda>r. give (results @ [\<lparr>dt_name = name, dt_delay = dr_delay r, dt_message = dr_message r\<rparr>]))"

definition test_delay ::
    "app_config \<Rightarrow> string list \<Rightarrow> (proxy_runtime_error, proxy_delay_test_result list) clash_call" where
  "test_delay conf node_names =
     and_then (runtime_client conf) (\<lambda>e.
     and_then
       (if node_names = []
        then and_then (map_err Pr_Api (get_proxies e))
               (\<lambda>proxies. give (map fst (filter (\<lambda>(_, p). is_testable_type (cp_type p)) proxies)))
        else give node_names)
       (\<lambda>names. fold_task (test_one_delay conf e) names []))"

definition set_traffic_mode :: "app_config \<Rightarrow> traffic_mode \<Rightarrow> (proxy_runtime_error, unit) clash_call" where
  "set_traffic_mode conf mode =
     (case traffic_mode_api_value mode of
        None \<Rightarrow> give_up (Pr_InvalidTrafficMode mode)
      | Some v \<Rightarrow> and_then (runtime_client conf) (\<lambda>e. map_err Pr_Api (set_rule_mode e v)))"

definition reload_config :: "app_config \<Rightarrow> string option \<Rightarrow> (proxy_runtime_error, unit) clash_call" where
  "reload_config conf path =
     and_then (runtime_client conf) (\<lambda>e.
     and_then (recover (\<lambda>_. ()) (close_core_connection e None)) (\<lambda>_.
       map_err Pr_Api (reload_core_config e path)))"

definition close_connection ::
    "app_config \<Rightarrow> string option \<Rightarrow> (proxy_runtime_error, proxy_connections_snapshot) clash_call" where
  "close_connection conf i =
     and_then (runtime_client conf) (\<lambda>e.
     and_then (map_err Pr_Api (close_core_connection e i)) (\<lambda>_.
     and_then (map_err Pr_Api (get_connections e)) (\<lambda>c. give (connections_snapshot c))))"

section \<open>The monitor\<close>

text \<open>The controller holds the endpoint of the running monitor; a stopped one is remembered in order.\<close>

datatype proxy_monitor_state = Monitor_Running | Monitor_Stopped | Monitor_Failed

record proxy_monitor_status =
  mo_state :: proxy_monitor_state
  mo_running :: bool
  mo_stale :: bool
  mo_message :: "string option"

definition monitor_status_running :: proxy_monitor_status where
  "monitor_status_running = \<lparr>mo_state = Monitor_Running, mo_running = True, mo_stale = False, mo_message = None\<rparr>"

definition monitor_status_stopped :: proxy_monitor_status where
  "monitor_status_stopped = \<lparr>mo_state = Monitor_Stopped, mo_running = False, mo_stale = True, mo_message = None\<rparr>"

record monitor_controller =
  mc_handle :: "clash_api_endpoint option"
  mc_stopped :: "clash_api_endpoint list"

definition monitor_take :: "monitor_controller \<Rightarrow> monitor_controller" where
  "monitor_take m =
     (case mc_handle m of
        None \<Rightarrow> m
      | Some e \<Rightarrow> m\<lparr>mc_handle := None, mc_stopped := mc_stopped m @ [e]\<rparr>)"

definition monitor_start :: "app_config \<Rightarrow> monitor_controller \<Rightarrow> proxy_monitor_status \<times> monitor_controller" where
  "monitor_start conf m =
     (case proxy_runtime_endpoint conf of
        None \<Rightarrow> (monitor_status_stopped, monitor_take m)
      | Some e \<Rightarrow>
          if mc_handle m = Some e then (monitor_status_running, m)
          else (monitor_status_running, (monitor_take m)\<lparr>mc_handle := Some e\<rparr>))"

definition monitor_stop :: "monitor_controller \<Rightarrow> proxy_monitor_status \<times> monitor_controller" where
  "monitor_stop m = (monitor_status_stopped, monitor_take m)"

end
