(* ===== verification/ProxyProps.thy ===== *)
theory ProxyProps
  imports ProxyRuntime ContextProps ConfigRefs OutboundProps ShareCoding
begin

text \<open>
  The control of the running core and its statistics: which process the controller port belongs to,
  what a selection may ask for, what the view of groups shows, what the counters hold.
\<close>

section \<open>The controller\<close>

definition controller :: "singbox_config \<Rightarrow> string option" where
  "controller cfg =
     (case cfg_experimental cfg of
        None \<Rightarrow> None
      | Some e \<Rightarrow> (case ex_clash_api e of None \<Rightarrow> None | Some a \<Rightarrow> ca_external_controller a))"

lemma controller_set:
  "controller (gen_experimental ctx cfg)
     = Some (LOOPBACK @ '':'' @ show_int (state_port2 (cx_app_config ctx) (is_tun_enabled ctx)))"
  by (simp add: gen_experimental_def controller_def Let_def)

lemma experimental_kept:
  "convert_geo_to_ruleset f ctx cfg = Inr cfg' \<Longrightarrow> cfg_experimental cfg' = cfg_experimental cfg"
  "cfg_experimental (finish_config ctx cfg) = cfg_experimental cfg"
  by (auto simp: convert_geo_to_ruleset_def Let_def finish_config_def apply_outbound_send_through_def
      apply_outbound_bind_interface_def map_bindable_def split: sum.splits option.splits if_splits)

lemma controller_kept:
  "convert_geo_to_ruleset f ctx cfg = Inr cfg' \<Longrightarrow> controller cfg' = controller cfg"
  "controller (finish_config ctx cfg) = controller cfg"
  by (simp_all add: controller_def experimental_kept)

lemma generated_controller:
  assumes "generate_singbox_config X f ctx = Some (Inr cfg)"
  shows "controller cfg = Some (LOOPBACK @ '':'' @ show_int (state_port2 (cx_app_config ctx) (is_tun_enabled ctx)))"
  using assms controller_kept(1)
  by (auto simp: generate_singbox_config_def generate_body_def controller_kept(2) controller_set
      split: option.splits sum.splits)


lemma state_ports:
  "state_port2 conf False = inbound_port conf Ip_api2"
  "state_port2 conf True = i32_add (inbound_port conf Ip_api2) 1"
  by (simp_all add: state_port2_def inbound_port_def i32_add_def)



section \<open>Selecting a node\<close>

lemma get_proxies_Inr:
  "get_proxies e s = (Inr ps, t) \<longleftrightarrow>
     (\<exists>rest. replies s = Re_Proxies ps # rest
        \<and> t = s\<lparr>requests := requests s @ [\<lparr>cr_method = Hm_Get, cr_url = endpoint_http_url e ''/proxies'',
              cr_body = None, cr_bearer_token = ep_secret e\<rparr>], replies := rest\<rparr>)"
  by (auto simp: get_proxies_def and_then_def request_value_def decode_as_def give_def give_up_def Let_def
      split: list.splits clash_reply.splits)

text \<open>The requests a call makes, all of them with some property.\<close>

definition asks :: "(clash_http_request \<Rightarrow> bool) \<Rightarrow> ('e, 'a) clash_call \<Rightarrow> bool" where
  "asks P m \<longleftrightarrow> (\<forall>s. \<exists>rs. requests (snd (m s)) = requests s @ rs \<and> list_all P rs)"

named_theorems asking "calls and the requests they make"

lemma asks_give [asking]: "asks P (give x)"
  by (simp add: asks_def give_def)

lemma asks_give_up [asking]: "asks P (give_up x)"
  by (simp add: asks_def give_up_def)

lemma asksI: "(\<And>s r t. m s = (r, t) \<Longrightarrow> \<exists>rs. requests t = requests s @ rs \<and> list_all P rs) \<Longrightarrow> asks P m"
  unfolding asks_def by (metis prod.collapse)

lemma asksD: "asks P m \<Longrightarrow> m s = (r, t) \<Longrightarrow> \<exists>rs. requests t = requests s @ rs \<and> list_all P rs"
  unfolding asks_def by (metis snd_conv)

lemma asks_and_then [asking]:
  assumes "asks P m" and "\<And>x. asks P (k x)"
  shows "asks P (and_then m k)"
proof (rule asksI)
  fix s r t assume r: "and_then m k s = (r, t)"
  obtain a u where a: "m s = (a, u)" by fastforce
  obtain rs where rs: "requests u = requests s @ rs" "list_all P rs" using asksD[OF assms(1) a] by blast
  show "\<exists>rs. requests t = requests s @ rs \<and> list_all P rs"
  proof (cases a)
    case (Inl e) then show ?thesis using r a rs by (auto simp: and_then_def)
  next
    case (Inr x)
    then obtain qs where "requests t = requests u @ qs" "list_all P qs"
      using r a asksD[OF assms(2)[of x], of u r t] by (auto simp: and_then_def)
    then show ?thesis using rs by (intro exI[of _ "rs @ qs"]) simp
  qed
qed

lemma asks_mapped [asking]: "asks P m \<Longrightarrow> asks P (map_err f m)" "asks P m \<Longrightarrow> asks P (recover g m)"
  by (rule asksI, auto simp: map_err_def recover_def dest: asksD split: prod.splits sum.splits)+

lemma asks_request [asking]:
  "P \<lparr>cr_method = m, cr_url = endpoint_http_url e p, cr_body = body, cr_bearer_token = ep_secret e\<rparr>
    \<Longrightarrow> asks P (request_value e m p body)"
  by (simp add: asks_def request_value_def Let_def split: list.split clash_reply.split)

lemma asks_decode [asking]: "asks P (decode_as f r)"
  by (simp add: decode_as_def asks_def give_def give_up_def split: option.split)

lemma asks_client [asking]: "asks P (runtime_client conf)"
  by (simp add: runtime_client_def asks_def give_def give_up_def split: option.split)

lemma reads_only [asking]:
  "asks (\<lambda>r. cr_method r = Hm_Get) (get_proxies e)" "asks (\<lambda>r. cr_method r = Hm_Get) (get_proxy_providers e)"
  unfolding get_proxies_def get_proxy_providers_def by (intro asking; simp)+

lemma groups_read [asking]: "asks (\<lambda>r. cr_method r = Hm_Get) (runtime_groups conf)"
  unfolding runtime_groups_def by (intro asking)

definition select_request :: "clash_api_endpoint \<Rightarrow> string \<Rightarrow> string \<Rightarrow> clash_http_request" where
  "select_request e g n =
     \<lparr>cr_method = Hm_Put, cr_url = endpoint_http_url e (''/proxies/'' @ encode_segment g),
      cr_body = Some (JObject [(''name'', JString n)]), cr_bearer_token = ep_secret e\<rparr>"

text \<open>
  A selection only ever changes a selector that offers the node. Among the requests that
  selecting a node makes, whatever the core answers, one that is not a read is the request to select
  the node in the group, and it follows a list of proxies in which the group is a selector and names
  the node.
\<close>

theorem selection_guarded:
  assumes "select_node conf g n s = (r, t)"
  shows "\<exists>asked. requests t = requests s @ asked
    \<and> (\<forall>q \<in> set asked. cr_method q \<noteq> Hm_Get \<longrightarrow>
        (\<exists>e ps p rest. proxy_runtime_endpoint conf = Some e \<and> replies s = Re_Proxies ps # rest
          \<and> bt_get ps g = Some p \<and> eq_ignore_ascii_case (cp_type p) ''selector'' \<and> n \<in> set (cp_all p)
          \<and> q = select_request e g n))"
proof (cases "proxy_runtime_endpoint conf")
  case None
  then show ?thesis
    using assms by (intro exI[of _ "[]"]) (auto simp: select_node_def and_then_def runtime_client_def give_up_def)
next
  case (Some e)
  have call: "select_node conf g n s = and_then (map_err Pr_Api (get_proxies e)) (\<lambda>proxies.
       case bt_get proxies g of
         None \<Rightarrow> give_up (Pr_GroupNotFound g)
       | Some p \<Rightarrow>
           if \<not> eq_ignore_ascii_case (cp_type p) ''selector'' then give_up (Pr_GroupNotSelector g)
           else if n \<notin> set (cp_all p) then give_up (Pr_NodeNotFound n)
           else and_then (map_err Pr_Api (select_proxy e g n)) (\<lambda>_. runtime_groups conf)) s"
    using Some by (simp add: select_node_def and_then_def runtime_client_def give_def)
  obtain a u where a: "get_proxies e s = (a, u)" by fastforce
  obtain rs where rs: "requests u = requests s @ rs" "list_all (\<lambda>r. cr_method r = Hm_Get) rs"
    using reads_only(1)[of e] a unfolding asks_def by (metis snd_conv)
  show ?thesis
  proof (cases a)
    case (Inl x)
    then have "t = u" using assms a call by (simp add: and_then_def map_err_def)
    then show ?thesis using rs by (auto simp: list_all_iff)
  next
    case (Inr ps)
    then obtain rest where rest: "replies s = Re_Proxies ps # rest" using a by (auto simp: get_proxies_Inr)
    show ?thesis
    proof (cases "\<exists>p. bt_get ps g = Some p \<and> eq_ignore_ascii_case (cp_type p) ''selector'' \<and> n \<in> set (cp_all p)")
      case False
      then have "t = u" using assms a call Inr by (auto simp: and_then_def map_err_def give_up_def split: option.splits if_splits)
      then show ?thesis using rs by (auto simp: list_all_iff)
    next
      case True
      then obtain p where p: "bt_get ps g = Some p" "eq_ignore_ascii_case (cp_type p) ''selector''" "n \<in> set (cp_all p)"
        by blast
      have "asks (\<lambda>q. q = select_request e g n \<or> cr_method q = Hm_Get)
          (and_then (map_err Pr_Api (select_proxy e g n)) (\<lambda>_. runtime_groups conf))"
        unfolding select_proxy_def ignore_value_def runtime_groups_def get_proxies_def get_proxy_providers_def
        by (intro asking; simp add: select_request_def)
      moreover have "(and_then (map_err Pr_Api (select_proxy e g n)) (\<lambda>_. runtime_groups conf)) u = (r, t)"
        using assms a call Inr p by (simp add: and_then_def map_err_def)
      ultimately obtain qs where qs: "requests t = requests u @ qs"
          "list_all (\<lambda>q. q = select_request e g n \<or> cr_method q = Hm_Get) qs"
        unfolding asks_def by (metis snd_conv)
      then show ?thesis
        using rs p rest Some by (intro exI[of _ "rs @ qs"]) (auto simp: list_all_iff)
    qed
  qed
qed

theorem selection_guarded_witness:
  "\<exists>t q. snd (select_node default_app_config ''G'' ''n''
       \<lparr>requests = [], replies = [Re_Proxies [(''G'', \<lparr>cp_all = [''n''], cp_history = [], cp_name = None,
          cp_type = ''Selector'', cp_udp = False, cp_now = None, cp_delay = 0\<rparr>)], Re_Value]\<rparr>) = t
     \<and> q \<in> set (requests t) \<and> cr_method q = Hm_Put"
proof -
  let ?s = "\<lparr>requests = [], replies = [Re_Proxies [(''G'', \<lparr>cp_all = [''n''], cp_history = [], cp_name = None,
          cp_type = ''Selector'', cp_udp = False, cp_now = None, cp_delay = 0\<rparr>)], Re_Value]\<rparr>"
  obtain r t where t: "select_node default_app_config ''G'' ''n'' ?s = (r, t)" by fastforce
  have "map cr_method (requests (snd (select_node default_app_config ''G'' ''n'' ?s))) = [Hm_Get, Hm_Put, Hm_Get]"
    by code_simp
  then have "Hm_Put \<in> cr_method ` set (requests t)" using t by (metis list.set_intros list.set_map snd_conv)
  then have "\<exists>q \<in> set (requests t). cr_method q = Hm_Put" by (metis imageE)
  then show ?thesis using selection_guarded[OF t] t by auto
qed

section \<open>Names in paths\<close>

lemma percent_encode_step:
  assumes "percent_laws X" and "P (CHR 0x25)"
  shows "percent_decode X ((if P c then [CHR 0x25, hex_upper (byte_of c div 16), hex_upper (byte_of c mod 16)] else [c]) @ s)
    = word_of_nat (byte_of c) # percent_decode X s"
proof (cases "P c")
  case True
  have b: "byte_of c div 16 < 16" "byte_of c mod 16 < 16" by (simp_all add: less_mult_imp_div_less)
  then show ?thesis
    using percent_hex[OF assms(1) b, of s] True by (simp del: of_nat_add of_nat_mult add: mult_div_mod_eq)
next
  case False
  then have "c \<noteq> CHR 0x25" using assms(2) by auto
  then show ?thesis using percent_char[OF assms(1)] False by simp
qed

lemma segment_decodes:
  assumes "percent_laws X"
  shows "percent_decode X (encode_segment s) = as_bytes s"
proof (induction s)
  case Nil
  then show ?case using percent_Nil[OF assms] by (simp add: encode_segment_def percent_encode_by_def as_bytes_def)
next
  case (Cons c s)
  have p: "path_segment_encoded (CHR 0x25)" by (simp add: path_segment_encoded_def)
  show ?case
    using percent_encode_step[OF assms, of path_segment_encoded c "encode_segment s"] p Cons
    by (simp add: encode_segment_def percent_encode_by_def as_bytes_def)
qed

lemma unreserved_plain: "unreserved c \<Longrightarrow> c \<notin> {CHR ''/'', CHR ''?'', CHR 0x23}"
  by (auto simp: unreserved_def is_ascii_alphanumeric_def is_ascii_alphabetic_def is_ascii_upper_def
      is_ascii_lower_def is_ascii_digit_def)

lemma segment_one_piece: "set (encode_segment s) \<inter> {CHR ''/'', CHR ''?'', CHR 0x23} = {}"
proof -
  have "set (if path_segment_encoded c then [CHR 0x25, hex_upper (byte_of c div 16), hex_upper (byte_of c mod 16)] else [c])
      \<inter> {CHR ''/'', CHR ''?'', CHR 0x23} = {}" for c
  proof (cases "path_segment_encoded c")
    case True
    have "byte_of c div 16 < 16" "byte_of c mod 16 < 16" by (simp_all add: less_mult_imp_div_less)
    from this[THEN hex_upper_link, THEN unreserved_plain] show ?thesis using True by auto
  next
    case False
    then have "c \<notin> {CHR ''/'', CHR ''?'', CHR 0x23}" unfolding path_segment_encoded_def by blast
    then show ?thesis using False by simp
  qed
  then show ?thesis unfolding encode_segment_def percent_encode_by_def by (induction s) (simp, fastforce)
qed

text \<open>A backslash is kept, and a URL parser reads it as a separator of the path.\<close>

lemma segment_keeps_backslash: "CHR 0x5C \<in> set s \<Longrightarrow> CHR 0x5C \<in> set (encode_segment s)"
proof -
  have "c \<in> set s \<Longrightarrow> \<not> P c \<Longrightarrow> c \<in> set (percent_encode_by P s)" for c P
    unfolding percent_encode_by_def by (induction s) auto
  moreover have "\<not> path_segment_encoded (CHR 0x5C)" by code_simp
  ultimately show "CHR 0x5C \<in> set s \<Longrightarrow> CHR 0x5C \<in> set (encode_segment s)"
    unfolding encode_segment_def by blast
qed

section \<open>The view of groups\<close>

lemma sort_nodes_set: "set (sort_nodes k ns) = set ns"
  by (simp add: sort_nodes_def)

lemma set_of_map_filter: "set (List.map_filter f xs) = {y. \<exists>x \<in> set xs. f x = Some y}"
  by (induction xs) (auto simp: map_filter_simps split: option.splits)

lemma group_nodes:
  "set (pg_nodes (build_group ps vs k name p))
     = {proxy_node_of n q (cp_now p = Some n) | n q. n \<in> set (cp_all p) \<and> find_proxy n ps vs = Some q}"
  by (auto simp: build_group_def sort_nodes_set set_of_map_filter)

text \<open>
  The view of groups shows what the core reports. Its groups are those proxies that can be
  selected from, in the order of their names; a group has a node for each of its members that is
  known, marked active exactly if it is the current one; and with the first sort order nodes
  without a delay come last.
\<close>

theorem groups_view_faithful:
  assumes "view = build_proxy_groups_snapshot ps vs k mode"
  shows "sorted (map pg_name (gs_groups view))
    \<and> set (gs_groups view) = {build_group ps vs k name p | name p. (name, p) \<in> set ps \<and> is_selectable_type (cp_type p)}
    \<and> (\<forall>name p. set (pg_nodes (build_group ps vs k name p))
        = {proxy_node_of n q (cp_now p = Some n) | n q. n \<in> set (cp_all p) \<and> find_proxy n ps vs = Some q})
    \<and> (k = 0 \<longrightarrow> (\<forall>g \<in> set (gs_groups view).
        sorted (map (\<lambda>n. unwrap_or (pn_delay n) 2147483647) (pg_nodes g))))"
proof -
  have groups: "set (gs_groups view) = {build_group ps vs k name p | name p. (name, p) \<in> set ps \<and> is_selectable_type (cp_type p)}"
    unfolding assms build_proxy_groups_snapshot_def by (auto simp: image_iff)
  have "sorted (map (\<lambda>n. unwrap_or (pn_delay n) 2147483647) (pg_nodes (build_group ps vs 0 name p)))" for name p
    by (simp add: build_group_def sort_nodes_def)
  with groups have "k = 0 \<Longrightarrow> g \<in> set (gs_groups view) \<Longrightarrow>
      sorted (map (\<lambda>n. unwrap_or (pn_delay n) 2147483647) (pg_nodes g))" for g by auto
  moreover have "sorted (map pg_name (gs_groups view))"
    by (simp add: assms build_proxy_groups_snapshot_def)
  ultimately show ?thesis using groups group_nodes by blast
qed

theorem groups_view_faithful_witness:
  "\<exists>g \<in> set (gs_groups (build_proxy_groups_snapshot
      [(''G'', \<lparr>cp_all = [''n'', ''x''], cp_history = [], cp_name = None, cp_type = ''Selector'', cp_udp = False,
          cp_now = Some ''n'', cp_delay = 0\<rparr>),
       (''n'', \<lparr>cp_all = [], cp_history = [], cp_name = None, cp_type = ''Trojan'', cp_udp = True,
          cp_now = None, cp_delay = 0\<rparr>)] [] 0 Tm_Rule)).
     map pn_name (pg_nodes g) = [''n''] \<and> sorted (map (\<lambda>n. unwrap_or (pn_delay n) 2147483647) (pg_nodes g))"
proof -
  let ?ps = "[(''G'', \<lparr>cp_all = [''n'', ''x''], cp_history = [], cp_name = None, cp_type = ''Selector'', cp_udp = False,
          cp_now = Some ''n'', cp_delay = 0\<rparr>),
       (''n'', \<lparr>cp_all = [], cp_history = [], cp_name = None, cp_type = ''Trojan'', cp_udp = True,
          cp_now = None, cp_delay = 0\<rparr>)]"
  let ?v = "build_proxy_groups_snapshot ?ps [] 0 Tm_Rule"
  have "list_ex (\<lambda>g. map pn_name (pg_nodes g) = [''n'']) (gs_groups ?v)" by code_simp
  then obtain g where g: "g \<in> set (gs_groups ?v)" "map pn_name (pg_nodes g) = [''n'']" by (auto simp: list_ex_iff)
  moreover have "sorted (map (\<lambda>n. unwrap_or (pn_delay n) 2147483647) (pg_nodes g))"
    using groups_view_faithful[of ?v ?ps "[]" 0 Tm_Rule, OF refl] g(1) by blast
  ultimately show ?thesis by (intro bexI[of _ g] conjI)
qed

section \<open>Reconnecting\<close>

text \<open>
  Reconnecting backs off within bounds. The delay is at least the smaller of the initial and the
  largest delay, at most a quarter more than the largest one, and without overflow the delay of an
  attempt is never below what the attempt before was without its jitter.
\<close>

theorem reconnect_delay_bounded:
  assumes "initial \<le> max_delay" and "max_delay + max_delay div 4 \<le> DURATION_MAX"
  shows "initial \<le> websocket_reconnect_delay n initial max_delay seed
    \<and> websocket_reconnect_delay n initial max_delay seed \<le> max_delay + max_delay div 4
    \<and> min (initial * 2 ^ min n 16) max_delay \<le> websocket_reconnect_delay (Suc n) initial max_delay seed"
proof -
  let ?b = "\<lambda>n. min (initial * 2 ^ min n 16) max_delay"
  have jitter: "reconnect_jitter b seed \<le> b div 4" for b
  proof -
    let ?l = "min (b div 4) 18446744073709551615"
    have "seed mod (?l + 1) < ?l + 1" by (rule mod_less_divisor) simp
    moreover have "?l \<le> b div 4" by simp
    ultimately have "seed mod (?l + 1) \<le> b div 4" by linarith
    then show ?thesis unfolding reconnect_jitter_def WS_RECONNECT_JITTER_DIVISOR_def Let_def by simp
  qed
  have delay: "websocket_reconnect_delay n initial max_delay seed = ?b n + reconnect_jitter (?b n) seed" for n
  proof -
    have m: "max_delay \<le> DURATION_MAX" using assms(2) by simp
    then have base: "(if max_delay < min (initial * 2 ^ min n 16) DURATION_MAX then max_delay
        else min (initial * 2 ^ min n 16) DURATION_MAX) = ?b n" by auto
    have "?b n + reconnect_jitter (?b n) seed \<le> max_delay + max_delay div 4"
      using jitter[of "?b n"] by (intro add_mono) (auto intro: order.trans[OF _ div_le_mono])
    then show ?thesis
      unfolding websocket_reconnect_delay_def Let_def base using assms(2) by (intro min_absorb1) linarith
  qed
  have grow: "?b n \<le> ?b (Suc n)"
  proof -
    have "(2::nat) ^ min n 16 \<le> 2 ^ min (Suc n) 16" by (intro power_increasing) auto
    then have "initial * 2 ^ min n 16 \<le> initial * 2 ^ min (Suc n) 16" by (rule mult_le_mono2)
    then show ?thesis using min.mono order.refl by blast
  qed
  have low: "initial \<le> ?b n" using assms(1) by simp
  have high: "?b n + reconnect_jitter (?b n) seed \<le> max_delay + max_delay div 4"
    using jitter[of "?b n"] by (intro add_mono) (auto intro: order.trans[OF _ div_le_mono])
  show ?thesis
    unfolding delay by (rule conjI[OF trans_le_add1[OF low] conjI[OF high trans_le_add1[OF grow]]])
qed

theorem reconnect_delay_bounded_witness:
  "websocket_reconnect_delay 9 SINGBOX_RECONNECT_INITIAL_DELAY SINGBOX_RECONNECT_MAX_DELAY 123 \<le> 37500000000"
  using reconnect_delay_bounded[of SINGBOX_RECONNECT_INITIAL_DELAY SINGBOX_RECONNECT_MAX_DELAY 9 123]
  by (simp add: SINGBOX_RECONNECT_INITIAL_DELAY_def SINGBOX_RECONNECT_MAX_DELAY_def DURATION_MAX_def)

end
