(* ===== verification/Spec2Isabelle.thy ===== *)
theory Spec2Isabelle
  imports GroupProfiles Findings UdpProps SupervisorFindings BundleProps ShareLinks RuntimeProps SystemProxyProps TrafficProps
    ProxyProps
begin

text \<open>
  VoyaVPN is a desktop client around the proxy core sing-box. The user stores servers
  (profiles), groups of servers, routing rules, DNS and application settings. To connect, the
  program checks the active profile and everything it refers to, builds a context, generates
  one or two sing-box configurations from it and starts the core processes under a
  supervisor; it points the system proxy at them, reads the traffic and lets the user select
  nodes of the running core. Speed tests start the core with one inbound per server and send
  probes through it. The development models this path, from the stored data to the running
  process and what is done with it.

  \<^bold>\<open>Parts and theories.\<close>

  Data. \<open>Entities\<close> holds the enums, profiles, rules and settings of \<open>voya-core/src/enums.rs\<close>,
  \<open>entities.rs\<close> and \<open>config.rs\<close>, one record per struct, one datatype per enum.
  \<open>ProtocolCommon\<close> is \<open>protocol_common.rs\<close>.

  Share links (\<open>voya-core/src/fmt\<close>). \<open>ShareText\<close> is \<open>common.rs\<close>, \<open>mod.rs\<close> and \<open>api.rs\<close>,
  \<open>ShareUri\<close> is \<open>uri.rs\<close>, \<open>ShareFormats\<close> has the URI formats, \<open>ShareVmess\<close> is \<open>shadowsocks.rs\<close>,
  \<open>vmess.rs\<close> and the configuration files of \<open>wireguard.rs\<close>, \<open>ShareEntry\<close> is \<open>entry.rs\<close>: the
  choice of a format and the bundles of profiles. \<open>ShareCoding\<close> and \<open>Base64Text\<close> state what is
  assumed of the libraries and that texts are read back; \<open>ShareSample\<close> is an instance of the
  libraries that has this behaviour. \<open>ShareProps\<close> and \<open>BundleProps\<close> have the properties,
  \<open>LinkRows\<close> and \<open>ShareLinks\<close> the round trip of links through their query parameters.

  From data to context. \<open>Validation\<close> is \<open>context/validation.rs\<close>; \<open>GroupProfiles\<close> is
  \<open>groups.rs\<close>; \<open>ContextBuilder\<close> is \<open>context.rs\<close> and \<open>context/node_registration.rs\<close> over the
  production environment of \<open>voya-app/src/coregen.rs\<close>: resolution of the active node, the
  traversal of groups, rule outbounds, protected domains, the second context for a TUN-owning
  process. \<open>Digraph\<close> has the facts on finite graphs that group validation and context builder
  share, \<open>ContextProps\<close> the properties of a built context.

  From context to configuration. \<open>SingboxSchema\<close> (\<open>singbox/schema.rs\<close>), \<open>SingboxOutbounds\<close>
  and \<open>SingboxServers\<close> (\<open>outbounds.rs\<close>: one node; groups and chains), \<open>SingboxRouting\<close>
  (\<open>routing.rs\<close>), \<open>SingboxDns\<close> (\<open>dns.rs\<close>, \<open>dns/address.rs\<close>), \<open>SingboxEntry\<close> (\<open>entry.rs\<close>,
  \<open>inbounds.rs\<close>, \<open>experimental.rs\<close>, \<open>support.rs\<close>). \<open>PortChecks\<close>, \<open>ConfigRefs\<close>, \<open>ConfigProps\<close>,
  \<open>ServerProps\<close>, \<open>GeneratorProps\<close> and \<open>OutboundProps\<close> hold what is proved of configurations.

  Storage and managers. \<open>Tasks\<close> has computations over a state that may fail, their combinators and
  rules. \<open>AppSettings\<close> is the stored form of the settings (\<open>voya-contracts/src/settings.rs\<close>,
  \<open>voya-app/src/settings_save.rs\<close>, \<open>input_safety.rs\<close>); \<open>Database\<close> the repositories of \<open>voya-db/src/repos\<close>;
  \<open>ProfileManager\<close>, \<open>SubscriptionManager\<close>, \<open>RoutingManager\<close> and \<open>GroupManager\<close> the managers of \<open>voya-app\<close>
  (\<open>profiles\<close>, \<open>subscriptions\<close>, \<open>routing\<close>, \<open>presets.rs\<close>, \<open>groups.rs\<close>); \<open>ConfigMutation\<close> the transaction around
  their operations (\<open>config_mutation.rs\<close>), loading (\<open>services.rs\<close>) and the reachable states.
  \<open>ManagerProps\<close> and \<open>ActiveProps\<close> show what every operation keeps, \<open>OrderProps\<close> is about the order of
  profiles, \<open>MutationProps\<close> has the properties.

  From configuration to process. \<open>Process\<close> is the runner and the elevation commands of
  \<open>voya-platform/src/process.rs\<close>, \<open>elevation.rs\<close> and \<open>privilege.rs\<close>; \<open>Supervisor\<close> the actor of
  \<open>voya-app/src/supervisor.rs\<close> and \<open>supervisor/actor.rs\<close>, with a transition system of
  clients, actor and operating system; \<open>Runtime\<close> is \<open>voya-app/src/runtime.rs\<close> with what it calls of
  \<open>voya-platform/src/coreinfo.rs\<close>: from the database to the supervisor. \<open>SupervisorProps\<close> and
  \<open>RuntimeProps\<close> have the properties.

  Around the process. \<open>SystemProxy\<close> is \<open>voya-platform/src/sysproxy.rs\<close>, \<open>sysproxy/backend.rs\<close> and
  \<open>voya-app/src/sysproxy.rs\<close>; \<open>Statistics\<close> is \<open>voya-app/src/statistics.rs\<close>; \<open>ProxyRuntime\<close> is the client of
  \<open>voya-net/src/clash.rs\<close> and \<open>voya-app/src/proxy_runtime.rs\<close>. Their properties are in
  \<open>SystemProxyProps\<close>, \<open>TrafficProps\<close> and \<open>ProxyProps\<close>.

  Probes. \<open>Bytes\<close> and \<open>IpText\<close> are bytes, slices, UTF-8 and the text of addresses;
  \<open>UdpTest\<close> is \<open>voya-udptest/src/lib.rs\<close>; \<open>UdpProps\<close> has the properties.

  \<open>Findings\<close> and \<open>SupervisorFindings\<close> are statements about inputs for which the code does
  not do what its other parts expect.

  \<^bold>\<open>How the code is rendered.\<close> Rust strings are their UTF-8 bytes, \<open>Vec\<close> is a list,
  \<open>BTreeMap\<close> an association list in key order, \<open>HashMap\<close> a map, \<open>Result\<close> a sum type. A panic
  (index or slice out of range) and a run that does not end are the value \<open>None\<close> of an option
  type. Machine integers wrap where the code lets them: \<open>i32\<close> ports by \<open>i32_add\<close>, tunnel
  generations as 64-bit words, packets as 8-bit words. Functions that read or write shared
  state take it and return it. The actor's operations return a result, the actor and the world.

  \<^bold>\<open>Parameters.\<close> Third-party crates (\<open>serde_json\<close>, \<open>url\<close>, \<open>regex\<close>, \<open>percent_encoding\<close>) are
  the fields of the record \<open>externals\<close>, an argument \<open>X\<close> of the definitions that call them;
  the witnesses use the concrete \<open>no_externals\<close>; share links need more of them, with
  \<open>base64\<close>, in \<open>share_externals\<close>, and their witnesses use \<open>sample_externals\<close>. The operating system of the supervisor is an
  arbitrary sequence of answers: any call may fail, any process may end at any time, any free
  process identifier may be handed out. The machine of the system proxy has a list of answers, by
  which a call fails with or without its effect; the core that is controlled a queue of decoded
  replies. Lower-casing of Unicode, the answers of the download client and the arithmetic of 64-bit
  floats of the statistics (rational numbers elsewhere) are arguments.

  \<^bold>\<open>The database.\<close> Tables are association lists in the order of insertion; the foreign keys of the
  schema are checked and cascaded by each statement. A session is a unit of work: the tables, the
  configuration that an operation may change, the faults to come (any statement may fail), the
  readings of the clock and the counters of generated identifiers. A mutation runs an operation in
  a transaction: an error rolls tables and configuration back. The states between mutations are
  those reachable by a first start, restarts and mutations with any faults and clocks.

  \<^bold>\<open>Interfaces.\<close> \<open>profile_store\<close> (what the builder needs of stored profiles; interpreted by the
  snapshot environment), \<open>server_invariant\<close> (what a walk over groups keeps of the servers it
  produces; interpreted three times: references, ports, binding), \<open>codec\<close> (an encoder and a
  decoder of stream prefixes; interpreted by ports and SOCKS5 addresses), and \<open>table_invariant\<close> with
  its extension \<open>manager_invariant\<close> (what every repository operation and every operation of the
  managers keeps of the tables; interpreted three times: references, schema version, identifiers).

  \<^bold>\<open>What is proved.\<close>

  Contexts: every registered node is validated or is a group with registered children and
  the child relation is acyclic, for all stored data in which no identifier and no reference begins
  with the prefix \<open>remark:\<close>, which the builder uses for the entries of rules in the same map
  (\<open>reserved_prefix_cycle\<close> shows why); validation of groups accepts exactly
  the groups without a reachable cycle; the split into two processes keeps exactly one owner
  of TUN; errors of the build are errors of the active node.

  Configurations: ports are in range, names are defined where they are used (outbounds,
  rule sets, DNS servers), chains are linked in order, inbounds do not collide and listen
  beyond the loopback interface only if asked to, user rules have the chosen target, except exactly
  those with excluded addresses none of which can be read, and the generator returns. A group
  without a usable node is accepted and lacks its outbound.

  Mutations: in every reachable state the references between rows hold, the stored settings are the
  published ones and the active profile exists; committing fails only if a statement does; a restart
  brings the configuration back. Moving a profile agrees with moving it in a list.

  Share links: whatever is imported can be dialled, whatever the libraries answer; a bundle
  of profiles is accepted exactly if it is closed and acyclic, and so is what it becomes; an
  exported link is read back as the canonical form of its profile.

  Supervisor: an invariant of all reachable states, the refinement of an abstract
  connection contract by every command, no lost process outside Linux but those whose reaper
  failed to wait for them (on Linux the kill of an elevated process is left to a command).
  Connecting finds the active profile of every reachable state and, when it succeeds, runs on
  configurations generated from the stored tables.

  System proxy, statistics, control: a proxy setting of the program implies the marker, whatever
  fails, and the next start takes the setting back; no reported traffic is lost; which process the
  controller port reaches; a selection only changes a selector that offers the node; delays between
  attempts to reconnect are bounded.

  Probes: packets are read back as they were built, the two parsers of addresses agree, no
  packet makes a parser panic, a probe reports a time only for a verified answer.

  \<^bold>\<open>Bounds and fuel.\<close> The traversal of groups and the cycle search end by a measure on the
  unvisited profiles. The walk over groups in the generator recurses over \<open>all_proxies_map\<close>,
  which need not be acyclic for an arbitrary context: it has fuel, one more than the number of
  registered nodes, and \<open>group_walk_returns\<close> shows this enough for every built context. The
  certificate cutter may slice out of range, so \<open>generator_returns\<close> assumes certificates that
  can be cut; \<open>pem_markers_overlap\<close> shows one that cannot.

  \<^bold>\<open>Not modelled.\<close> The text forms of serde (JSON), SQL itself and the connection (sqlx), HTTP,
  WebSocket streams and the decoding of their messages, downloads, the driver of the speed test
  (\<open>speedtest.rs\<close>), autostart, hotkeys, certificates, the native tunnel backends, searching and copying
  the core executable, the conversions to the contracts of the user interface and the Tauri shell:
  they are input and output around the parts above, or call services that are not part of the
  repository. In the process layer: standard input of children, generated scripts, log pipes and
  poisoned locks. In the supervisor: the capacity of the channel (waiting senders are part of the
  queue) and time. Of the system proxy: the text of the shell scripts, the refresh of the Windows
  settings and the sockets of the PAC server.
\<close>

end
